(* ===== verification/Prelude.thy ===== *)
theory Prelude
  imports
    Main
    "HOL-Library.Product_Lexorder"
    "HOL-Library.List_Lexorder"
    "HOL-Library.Char_ord"
    "HOL-Library.AList"
    "HOL-Library.Multiset"
begin

text \<open>
  The vocabulary every component of the development shares:
  results of fallible code, the operations of Rust's \<^verbatim>\<open>str\<close> and \<^verbatim>\<open>String\<close> the sources use,
  unsigned machine arithmetic with its saturating, checked and wrapping variants,
  \<^verbatim>\<open>HashMap\<close> as an association list with distinct keys, and two library locales
  (an invariant of a transition system, and a weight total over a map).

  A Rust string is the list of its UTF-8 bytes, so \<^const>\<open>length\<close> is \<^verbatim>\<open>str::len\<close>.
  Operations that look at characters (\<^verbatim>\<open>char::is_whitespace\<close>, \<^verbatim>\<open>trim\<close>) first split the bytes
  into characters with \<open>utf8_chars\<close>.
  Unsigned integers are natural numbers with the bound of their width written out.
  A \<^verbatim>\<open>Duration\<close> and an \<^verbatim>\<open>Instant\<close> are counts of nanoseconds.
\<close>

named_theorems str_simps \<open>characterisations of the string operations\<close>
named_theorems res_simps \<open>unfolding results of fallible code\<close>
named_theorems num_simps \<open>bounded arithmetic\<close>

section \<open>Results\<close>

text \<open>\<^verbatim>\<open>Result<T, E>\<close>: \<^const>\<open>Inl\<close> carries the error, \<^const>\<open>Inr\<close> the value.\<close>

type_synonym ('e, 'a) result = "'e + 'a"

fun and_then :: "('e, 'a) result \<Rightarrow> ('a \<Rightarrow> ('e, 'b) result) \<Rightarrow> ('e, 'b) result" where
  "and_then (Inl e) f = Inl e"
| "and_then (Inr x) f = f x"

definition map_err :: "('e \<Rightarrow> 'f) \<Rightarrow> ('e, 'a) result \<Rightarrow> ('f, 'a) result" where
  "map_err g r = (case r of Inl e \<Rightarrow> Inl (g e) | Inr x \<Rightarrow> Inr x)"

definition ok_or :: "'e \<Rightarrow> 'a option \<Rightarrow> ('e, 'a) result" where
  "ok_or e v = (case v of None \<Rightarrow> Inl e | Some x \<Rightarrow> Inr x)"

text \<open>\<^verbatim>\<open>if cond { return Err(e) }\<close>.\<close>

definition reject :: "bool \<Rightarrow> 'e \<Rightarrow> ('e, unit) result" where
  "reject b e = (if b then Inl e else Inr ())"

definition is_ok :: "('e, 'a) result \<Rightarrow> bool" where
  "is_ok r = (case r of Inl _ \<Rightarrow> False | Inr _ \<Rightarrow> True)"

text \<open>\<^verbatim>\<open>iter().map(f).collect::<Result<Vec<_>, _>>()\<close>: the first error wins.\<close>

fun map_res :: "('a \<Rightarrow> ('e, 'b) result) \<Rightarrow> 'a list \<Rightarrow> ('e, 'b list) result" where
  "map_res f [] = Inr []"
| "map_res f (x # xs) =
     and_then (f x) (\<lambda>y. and_then (map_res f xs) (\<lambda>ys. Inr (y # ys)))"

text \<open>A \<^verbatim>\<open>for\<close> loop that threads a state and stops at the first error.\<close>

fun fold_res :: "('s \<Rightarrow> 'a \<Rightarrow> ('e, 's) result) \<Rightarrow> 's \<Rightarrow> 'a list \<Rightarrow> ('e, 's) result" where
  "fold_res f s [] = Inr s"
| "fold_res f s (x # xs) = and_then (f s x) (\<lambda>s'. fold_res f s' xs)"

lemma and_then_Inr_iff [res_simps]:
  "and_then r f = Inr y \<longleftrightarrow> (\<exists>x. r = Inr x \<and> f x = Inr y)"
  by (cases r) auto

lemma ok_or_Inr_iff [res_simps]: "ok_or e v = Inr x \<longleftrightarrow> v = Some x"
  by (simp add: ok_or_def split: option.splits)

lemma reject_Inr_iff [res_simps]: "reject b e = Inr u \<longleftrightarrow> \<not> b"
  by (simp add: reject_def)

lemma map_err_Inr_iff [res_simps]: "map_err g r = Inr x \<longleftrightarrow> r = Inr x"
  by (simp add: map_err_def split: sum.splits)

lemma is_ok_iff: "is_ok r \<longleftrightarrow> (\<exists>x. r = Inr x)"
  by (cases r) (auto simp: is_ok_def)

lemma map_res_Inr_iff:
  "map_res f xs = Inr ys \<longleftrightarrow> list_all2 (\<lambda>x y. f x = Inr y) xs ys"
proof (induction xs arbitrary: ys)
  case Nil
  then show ?case by auto
next
  case (Cons x xs)
  then show ?case by (cases ys) (auto simp: res_simps)
qed

text \<open>A loop invariant of \<^const>\<open>fold_res\<close>.\<close>

lemma fold_res_invariant:
  assumes "fold_res f s xs = Inr t" and "I s"
    and "\<And>s x s'. I s \<Longrightarrow> x \<in> set xs \<Longrightarrow> f s x = Inr s' \<Longrightarrow> I s'"
  shows "I t"
  using assms
proof (induction xs arbitrary: s)
  case Nil
  then show ?case by simp
next
  case (Cons x xs)
  from Cons.prems(1) obtain s' where "f s x = Inr s'" and "fold_res f s' xs = Inr t"
    by (auto simp: res_simps)
  with Cons show ?case by (metis list.set_intros(1,2))
qed

section \<open>Strings\<close>

text \<open>\<^verbatim>\<open>str::strip_prefix\<close>, with the prefix as the first argument.\<close>

fun strip_prefix :: "'a list \<Rightarrow> 'a list \<Rightarrow> 'a list option" where
  "strip_prefix [] s = Some s"
| "strip_prefix (p # ps) [] = None"
| "strip_prefix (p # ps) (c # s) = (if p = c then strip_prefix ps s else None)"

definition starts_with :: "'a list \<Rightarrow> 'a list \<Rightarrow> bool" where
  "starts_with p s \<longleftrightarrow> strip_prefix p s \<noteq> None"

definition strip_suffix :: "'a list \<Rightarrow> 'a list \<Rightarrow> 'a list option" where
  "strip_suffix p s = map_option rev (strip_prefix (rev p) (rev s))"

definition ends_with :: "'a list \<Rightarrow> 'a list \<Rightarrow> bool" where
  "ends_with p s \<longleftrightarrow> strip_suffix p s \<noteq> None"

lemma strip_prefix_Some_iff [str_simps]: "strip_prefix p s = Some t \<longleftrightarrow> s = p @ t"
  by (induction p s rule: strip_prefix.induct) auto

lemma strip_prefix_append [simp]: "strip_prefix p (p @ t) = Some t"
  by (simp add: strip_prefix_Some_iff)

lemma strip_prefix_None_iff: "strip_prefix p s = None \<longleftrightarrow> (\<forall>t. s \<noteq> p @ t)"
  by (metis not_Some_eq strip_prefix_Some_iff)

lemma starts_with_iff [str_simps]: "starts_with p s \<longleftrightarrow> (\<exists>t. s = p @ t)"
  by (auto simp: starts_with_def strip_prefix_None_iff)

lemma strip_suffix_Some_iff [str_simps]: "strip_suffix p s = Some t \<longleftrightarrow> s = t @ p"
proof -
  have "strip_suffix p s = Some t \<longleftrightarrow> strip_prefix (rev p) (rev s) = Some (rev t)"
    by (auto simp: strip_suffix_def)
  also have "\<dots> \<longleftrightarrow> rev s = rev (t @ p)"
    by (simp add: strip_prefix_Some_iff)
  finally show ?thesis by (metis rev_rev_ident)
qed

lemma ends_with_iff [str_simps]: "ends_with p s \<longleftrightarrow> (\<exists>t. s = t @ p)"
  using strip_suffix_Some_iff [of p s] by (auto simp: ends_with_def)

text \<open>\<^verbatim>\<open>str::trim_start_matches(c)\<close> and \<^verbatim>\<open>str::trim_end_matches(c)\<close> for one byte.\<close>

definition trim_start_matches :: "'a \<Rightarrow> 'a list \<Rightarrow> 'a list" where
  "trim_start_matches c s = dropWhile (\<lambda>x. x = c) s"

definition trim_end_matches :: "'a \<Rightarrow> 'a list \<Rightarrow> 'a list" where
  "trim_end_matches c s = rev (dropWhile (\<lambda>x. x = c) (rev s))"

lemma trim_end_matches_decomp: "\<exists>n. s = trim_end_matches c s @ replicate n c"
proof -
  have "takeWhile (\<lambda>x. x = c) (rev s) = replicate (length (takeWhile (\<lambda>x. x = c) (rev s))) c"
    by (metis (full_types) replicate_length_same set_takeWhileD)
  moreover have "s = rev (dropWhile (\<lambda>x. x = c) (rev s)) @ rev (takeWhile (\<lambda>x. x = c) (rev s))"
    by (metis rev_append rev_rev_ident takeWhile_dropWhile_id)
  ultimately show ?thesis
    unfolding trim_end_matches_def by (metis rev_replicate)
qed

lemma trim_end_matches_last: "trim_end_matches c s \<noteq> [] \<Longrightarrow> last (trim_end_matches c s) \<noteq> c"
  by (metis (mono_tags) hd_dropWhile last_rev rev.simps(1) trim_end_matches_def)

lemma trim_end_matches_id: "s = [] \<or> last s \<noteq> c \<Longrightarrow> trim_end_matches c s = s"
  by (cases s rule: rev_cases) (auto simp: trim_end_matches_def)

lemma trim_end_matches_snoc [simp]: "trim_end_matches c (s @ [c]) = trim_end_matches c s"
  by (simp add: trim_end_matches_def)

lemma trim_end_matches_idem [simp]:
  "trim_end_matches c (trim_end_matches c s) = trim_end_matches c s"
  by (metis trim_end_matches_id trim_end_matches_last)

text \<open>ASCII classes and case, on one byte.\<close>

definition byte :: "char \<Rightarrow> nat" where
  "byte c = of_char c"

definition is_ascii_digit :: "char \<Rightarrow> bool" where
  "is_ascii_digit c \<longleftrightarrow> 48 \<le> byte c \<and> byte c \<le> 57"

definition is_ascii_upper :: "char \<Rightarrow> bool" where
  "is_ascii_upper c \<longleftrightarrow> 65 \<le> byte c \<and> byte c \<le> 90"

definition is_ascii_lower :: "char \<Rightarrow> bool" where
  "is_ascii_lower c \<longleftrightarrow> 97 \<le> byte c \<and> byte c \<le> 122"

definition is_ascii_alphanumeric :: "char \<Rightarrow> bool" where
  "is_ascii_alphanumeric c \<longleftrightarrow> is_ascii_digit c \<or> is_ascii_upper c \<or> is_ascii_lower c"

definition ascii_lower_byte :: "char \<Rightarrow> char" where
  "ascii_lower_byte c = (if is_ascii_upper c then char_of (byte c + 32) else c)"

definition ascii_upper_byte :: "char \<Rightarrow> char" where
  "ascii_upper_byte c = (if is_ascii_lower c then char_of (byte c - 32) else c)"

definition to_ascii_lowercase :: "string \<Rightarrow> string" where
  "to_ascii_lowercase s = map ascii_lower_byte s"

definition to_ascii_uppercase :: "string \<Rightarrow> string" where
  "to_ascii_uppercase s = map ascii_upper_byte s"

definition eq_ignore_ascii_case :: "string \<Rightarrow> string \<Rightarrow> bool" where
  "eq_ignore_ascii_case a b \<longleftrightarrow> to_ascii_lowercase a = to_ascii_lowercase b"

lemma ascii_lower_byte_idem [simp]: "ascii_lower_byte (ascii_lower_byte c) = ascii_lower_byte c"
  by (auto simp: ascii_lower_byte_def is_ascii_upper_def byte_def)

lemma to_ascii_lowercase_idem [simp]:
  "to_ascii_lowercase (to_ascii_lowercase s) = to_ascii_lowercase s"
  by (simp add: to_ascii_lowercase_def)

lemma length_to_ascii_lowercase [simp]: "length (to_ascii_lowercase s) = length s"
  by (simp add: to_ascii_lowercase_def)

text \<open>
  UTF-8: the bytes of one character, read off the first byte. The lists produced this way
  partition the string; on well-formed UTF-8 they are its characters.
\<close>

definition utf8_width :: "char \<Rightarrow> nat" where
  "utf8_width c =
     (if byte c < 192 then 1 else if byte c < 224 then 2 else if byte c < 240 then 3 else 4)"

lemma utf8_width_pos [simp]: "0 < utf8_width c"
  by (simp add: utf8_width_def)

fun utf8_chars :: "string \<Rightarrow> string list" where
  "utf8_chars [] = []"
| "utf8_chars (c # s) =
     (c # take (utf8_width c - 1) s) # utf8_chars (drop (utf8_width c - 1) s)"

lemma concat_utf8_chars [simp]: "concat (utf8_chars s) = s"
  by (induction s rule: utf8_chars.induct) auto

definition is_ascii :: "char \<Rightarrow> bool" where
  "is_ascii c \<longleftrightarrow> byte c < 128"

lemma utf8_chars_ascii: "list_all is_ascii s \<Longrightarrow> utf8_chars s = map (\<lambda>c. [c]) s"
  by (induction s) (auto simp: is_ascii_def utf8_width_def)

text \<open>\<^verbatim>\<open>char::is_whitespace\<close> (the Unicode property White\_Space) on the bytes of one character.\<close>

definition is_whitespace :: "string \<Rightarrow> bool" where
  "is_whitespace u =
     (case map byte u of
        [b] \<Rightarrow> (9 \<le> b \<and> b \<le> 13) \<or> b = 32
      | [b1, b2] \<Rightarrow> b1 = 194 \<and> (b2 = 133 \<or> b2 = 160)
      | [b1, b2, b3] \<Rightarrow>
          (b1 = 225 \<and> b2 = 154 \<and> b3 = 128)
        \<or> (b1 = 226 \<and> b2 = 128 \<and> (b3 \<le> 138 \<or> b3 = 168 \<or> b3 = 169 \<or> b3 = 175))
        \<or> (b1 = 226 \<and> b2 = 129 \<and> b3 = 159)
        \<or> (b1 = 227 \<and> b2 = 128 \<and> b3 = 128)
      | _ \<Rightarrow> False)"

definition trim :: "string \<Rightarrow> string" where
  "trim s =
     concat (rev (dropWhile is_whitespace (rev (dropWhile is_whitespace (utf8_chars s)))))"

text \<open>\<^verbatim>\<open>str::split(c)\<close>: always at least one piece.\<close>

fun split_on :: "'a \<Rightarrow> 'a list \<Rightarrow> 'a list list" where
  "split_on c [] = [[]]"
| "split_on c (x # s) =
     (if x = c then [] # split_on c s
      else (case split_on c s of [] \<Rightarrow> [[x]] | p # ps \<Rightarrow> (x # p) # ps))"

lemma split_on_nonempty [simp]: "split_on c s \<noteq> []"
  by (cases s) (auto split: list.splits)

lemma split_on_no_sep: "c \<notin> set s \<Longrightarrow> split_on c s = [s]"
  by (induction s) auto

lemma split_on_append_sep:
  "c \<notin> set s \<Longrightarrow> split_on c (s @ c # t) = s # split_on c t"
  by (induction s) auto

lemma split_on_append: "split_on c (s @ c # t) = split_on c s @ split_on c t"
  by (induction s) (auto split: list.splits)

text \<open>\<^verbatim>\<open>str::split_once(c)\<close>.\<close>

fun split_once :: "'a \<Rightarrow> 'a list \<Rightarrow> ('a list \<times> 'a list) option" where
  "split_once c [] = None"
| "split_once c (x # s) =
     (if x = c then Some ([], s) else map_option (\<lambda>(a, b). (x # a, b)) (split_once c s))"

text \<open>\<^verbatim>\<open>str::contains(&str)\<close>.\<close>

fun contains_str :: "'a list \<Rightarrow> 'a list \<Rightarrow> bool" where
  "contains_str p [] = (p = [])"
| "contains_str p (x # s) = (starts_with p (x # s) \<or> contains_str p s)"

text \<open>\<^verbatim>\<open>[String]::join(sep)\<close>.\<close>

fun join_with :: "'a list \<Rightarrow> 'a list list \<Rightarrow> 'a list" where
  "join_with sep [] = []"
| "join_with sep [x] = x"
| "join_with sep (x # y # ys) = x @ sep @ join_with sep (y # ys)"

section \<open>Unsigned machine arithmetic\<close>

text \<open>
  \<open>u16\<close>, \<open>u32\<close>, \<open>u64\<close> and \<^verbatim>\<open>usize\<close> (64 bits) are natural numbers; the largest value of a
  width is written out where an operation saturates, wraps or fails.
\<close>

abbreviation u16_max :: nat where "u16_max \<equiv> 65535"
abbreviation u32_max :: nat where "u32_max \<equiv> 4294967295"
abbreviation i32_max :: nat where "i32_max \<equiv> 2147483647"
abbreviation u64_max :: nat where "u64_max \<equiv> 18446744073709551615"

definition sat_add :: "nat \<Rightarrow> nat \<Rightarrow> nat \<Rightarrow> nat" where
  "sat_add m a b = min m (a + b)"

abbreviation sat_add64 :: "nat \<Rightarrow> nat \<Rightarrow> nat" where
  "sat_add64 \<equiv> sat_add u64_max"

text \<open>\<^verbatim>\<open>a - b\<close> on \<open>u64\<close> as the release build computes it: it wraps below zero.\<close>

definition wrap_sub64 :: "nat \<Rightarrow> nat \<Rightarrow> nat" where
  "wrap_sub64 a b = (if b \<le> a then a - b else a + 2 ^ 64 - b)"

text \<open>\<^verbatim>\<open>a + b\<close> on \<open>u64\<close> as the release build computes it, and \<^verbatim>\<open>fetch_add\<close>: it wraps.\<close>

definition wrap_add64 :: "nat \<Rightarrow> nat \<Rightarrow> nat" where
  "wrap_add64 a b = (a + b) mod 2 ^ 64"

definition checked_add :: "nat \<Rightarrow> nat \<Rightarrow> nat \<Rightarrow> nat option" where
  "checked_add m a b = (if a + b \<le> m then Some (a + b) else None)"

definition checked_mul :: "nat \<Rightarrow> nat \<Rightarrow> nat \<Rightarrow> nat option" where
  "checked_mul m a b = (if a * b \<le> m then Some (a * b) else None)"

lemma sat_add_le [simp]: "sat_add m a b \<le> m"
  by (simp add: sat_add_def)

lemma sat_add_ge_left: "a \<le> m \<Longrightarrow> a \<le> sat_add m a b"
  by (simp add: sat_add_def)

lemma sat_add_ge_right: "b \<le> m \<Longrightarrow> b \<le> sat_add m a b"
  by (simp add: sat_add_def)

lemma sat_add_exact [num_simps]: "a + b \<le> m \<Longrightarrow> sat_add m a b = a + b"
  by (simp add: sat_add_def)

lemma wrap_sub64_exact [num_simps]: "b \<le> a \<Longrightarrow> wrap_sub64 a b = a - b"
  by (simp add: wrap_sub64_def)

lemma wrap_add64_exact [num_simps]: "a + b \<le> u64_max \<Longrightarrow> wrap_add64 a b = a + b"
  by (simp add: wrap_add64_def)

lemma checked_add_Some_iff [num_simps]:
  "checked_add m a b = Some c \<longleftrightarrow> c = a + b \<and> a + b \<le> m"
  by (auto simp: checked_add_def)

lemma checked_mul_Some_iff [num_simps]:
  "checked_mul m a b = Some c \<longleftrightarrow> c = a * b \<and> a * b \<le> m"
  by (auto simp: checked_mul_def)

text \<open>
  \<^verbatim>\<open>str::parse::<uN>()\<close>: an optional plus sign and at least one ASCII digit; the value must fit.
\<close>

definition digits_value :: "string \<Rightarrow> nat" where
  "digits_value s = foldl (\<lambda>a c. 10 * a + (byte c - 48)) 0 s"

definition parse_unsigned :: "nat \<Rightarrow> string \<Rightarrow> nat option" where
  "parse_unsigned m s =
     (let ds = (case s of [] \<Rightarrow> [] | c # r \<Rightarrow> if c = CHR ''+'' \<and> r \<noteq> [] then r else s)
      in if ds \<noteq> [] \<and> list_all is_ascii_digit ds \<and> digits_value ds \<le> m
         then Some (digits_value ds) else None)"

lemma parse_unsigned_bound: "parse_unsigned m s = Some n \<Longrightarrow> n \<le> m"
  by (auto simp: parse_unsigned_def Let_def split: if_splits)

text \<open>Decimal text of a number, as \<^verbatim>\<open>to_string\<close> prints it.\<close>

fun show_nat :: "nat \<Rightarrow> string" where
  "show_nat n =
     (if n < 10 then [char_of (48 + n)] else show_nat (n div 10) @ [char_of (48 + n mod 10)])"

declare show_nat.simps [simp del]

text \<open>Durations: \<^verbatim>\<open>Duration::MAX\<close> in nanoseconds, and the millisecond accessors.\<close>

type_synonym duration = nat
type_synonym instant = nat

abbreviation nanos_per_milli :: nat where "nanos_per_milli \<equiv> 1000000"
abbreviation nanos_per_sec :: nat where "nanos_per_sec \<equiv> 1000000000"

definition duration_max :: duration where
  "duration_max = u64_max * nanos_per_sec + 999999999"

definition from_secs :: "nat \<Rightarrow> duration" where
  "from_secs n = n * nanos_per_sec"

definition from_millis :: "nat \<Rightarrow> duration" where
  "from_millis n = n * nanos_per_milli"

definition as_millis :: "duration \<Rightarrow> nat" where
  "as_millis d = d div nanos_per_milli"

definition as_secs :: "duration \<Rightarrow> nat" where
  "as_secs d = d div nanos_per_sec"

definition subsec_nanos :: "duration \<Rightarrow> nat" where
  "subsec_nanos d = d mod nanos_per_sec"

text \<open>\<^verbatim>\<open>Instant::elapsed\<close> at the instant \<open>now\<close>; it is zero for an instant in the future.\<close>

definition elapsed :: "instant \<Rightarrow> instant \<Rightarrow> duration" where
  "elapsed now t = now - t"

lemma as_millis_from_millis [simp]: "as_millis (from_millis n) = n"
  by (simp add: as_millis_def from_millis_def)

section \<open>Hash maps\<close>

text \<open>
  A \<^verbatim>\<open>HashMap\<close> (and a \<^verbatim>\<open>BTreeMap\<close>, whose order is that of its keys) is an association list with
  distinct keys. The order of the list stands for the iteration order, which for a
  \<^verbatim>\<open>HashMap\<close> is unspecified: what depends on it takes the order as it comes.
\<close>

type_synonym ('k, 'v) hmap = "('k \<times> 'v) list"

abbreviation hm_get :: "('k, 'v) hmap \<Rightarrow> 'k \<Rightarrow> 'v option" where
  "hm_get \<equiv> map_of"

abbreviation hm_insert :: "'k \<Rightarrow> 'v \<Rightarrow> ('k, 'v) hmap \<Rightarrow> ('k, 'v) hmap" where
  "hm_insert \<equiv> AList.update"

abbreviation hm_remove :: "'k \<Rightarrow> ('k, 'v) hmap \<Rightarrow> ('k, 'v) hmap" where
  "hm_remove \<equiv> AList.delete"

abbreviation hm_keys :: "('k, 'v) hmap \<Rightarrow> 'k list" where
  "hm_keys m \<equiv> map fst m"

abbreviation hm_values :: "('k, 'v) hmap \<Rightarrow> 'v list" where
  "hm_values m \<equiv> map snd m"

definition hm_wf :: "('k, 'v) hmap \<Rightarrow> bool" where
  "hm_wf m \<longleftrightarrow> distinct (map fst m)"

lemma hm_wf_Nil [simp]: "hm_wf []"
  by (simp add: hm_wf_def)

lemma hm_wf_insert [simp]: "hm_wf m \<Longrightarrow> hm_wf (hm_insert k v m)"
  by (simp add: hm_wf_def distinct_update)

lemma hm_wf_remove [simp]: "hm_wf m \<Longrightarrow> hm_wf (hm_remove k m)"
  by (simp add: hm_wf_def distinct_delete)

lemma hm_wf_filter [simp]: "hm_wf m \<Longrightarrow> hm_wf (filter P m)"
  by (simp add: hm_wf_def distinct_map_filter)

lemma hm_get_insert [simp]: "hm_get (hm_insert k v m) k' = (if k' = k then Some v else hm_get m k')"
  by (simp add: update_conv')

lemma hm_get_remove [simp]: "hm_get (hm_remove k m) k' = (if k' = k then None else hm_get m k')"
  by (simp add: delete_conv')

lemma hm_get_filter:
  "hm_wf m \<Longrightarrow>
   hm_get (filter (\<lambda>(k, v). P k v) m) k =
     (case hm_get m k of None \<Rightarrow> None | Some v \<Rightarrow> if P k v then Some v else None)"
proof (induction m)
  case Nil
  then show ?case by simp
next
  case (Cons p m)
  then show ?case
    by (cases p) (auto simp: hm_wf_def map_of_eq_None_iff image_iff
        split: option.splits dest: map_of_SomeD)
qed

text \<open>
  The total of a weight over the entries of a map: the size accounting of a cache.
\<close>

definition map_total :: "('k \<Rightarrow> 'v \<Rightarrow> nat) \<Rightarrow> ('k, 'v) hmap \<Rightarrow> nat" where
  "map_total wt m = sum_list (map (\<lambda>(k, v). wt k v) m)"

locale weighted_map =
  fixes wt :: "'k \<Rightarrow> 'v \<Rightarrow> nat"
  assumes wt_pos: "0 < wt k v"
begin

lemma total_Nil [simp]: "map_total wt [] = 0"
  by (simp add: map_total_def)

lemma total_Cons [simp]: "map_total wt ((k, v) # m) = wt k v + map_total wt m"
  by (simp add: map_total_def)

lemma total_zero_iff: "map_total wt m = 0 \<longleftrightarrow> m = []"
  using wt_pos by (cases m) (auto simp: map_total_def)

lemma total_remove_absent: "hm_get m k = None \<Longrightarrow> hm_remove k m = m"
  by (simp add: delete_id map_of_eq_None_iff)

lemma total_remove:
  "hm_wf m \<Longrightarrow> hm_get m k = Some v \<Longrightarrow> map_total wt (hm_remove k m) + wt k v = map_total wt m"
proof (induction m)
  case Nil
  then show ?case by simp
next
  case (Cons p m)
  obtain a b where p: "p = (a, b)" by (cases p)
  show ?case
  proof (cases "a = k")
    case True
    with Cons.prems p have "b = v" and "k \<notin> set (map fst m)"
      by (auto simp: hm_wf_def)
    then have "hm_remove k m = m" by (simp add: delete_id)
    with True p \<open>b = v\<close> show ?thesis by (simp add: delete_simps)
  next
    case False
    with Cons p show ?thesis by (simp add: hm_wf_def delete_simps)
  qed
qed

lemma total_insert_new:
  "hm_get m k = None \<Longrightarrow> map_total wt (hm_insert k v m) = map_total wt m + wt k v"
  by (induction m) (auto simp: map_total_def)

lemma total_filter:
  "map_total wt (filter P m) + map_total wt (filter (\<lambda>x. \<not> P x) m) = map_total wt m"
  by (induction m) (auto simp: map_total_def)

lemma total_filter_le: "map_total wt (filter P m) \<le> map_total wt m"
  using total_filter [of P m] by simp

lemma length_le_total:
  assumes "\<And>k v. b \<le> wt k v"
  shows "b * length m \<le> map_total wt m"
proof (induction m)
  case Nil
  then show ?case by simp
next
  case (Cons p m)
  with assms [of "fst p" "snd p"] show ?case
    by (cases p) (simp add: algebra_simps)
qed

end

section \<open>Invariants of transition systems\<close>

text \<open>
  A component with state: its initial states, its steps, and a predicate every step keeps.
\<close>

locale invariant_of =
  fixes initial :: "'s \<Rightarrow> bool"
    and step :: "'s \<Rightarrow> 's \<Rightarrow> bool"
    and inv :: "'s \<Rightarrow> bool"
  assumes inv_initial: "initial s \<Longrightarrow> inv s"
    and inv_step: "step s t \<Longrightarrow> inv s \<Longrightarrow> inv t"
begin

lemma inv_steps: "step\<^sup>*\<^sup>* s t \<Longrightarrow> inv s \<Longrightarrow> inv t"
  by (induction rule: rtranclp_induct) (auto intro: inv_step)

lemma inv_reachable: "initial s \<Longrightarrow> step\<^sup>*\<^sup>* s t \<Longrightarrow> inv t"
  using inv_initial inv_steps by blast

end

end
