(* ===== verification/Config_Include.thy ===== *)
theory Config_Include
  imports Config_Syntax
begin

text \<open>
  Resolution of \<^verbatim>\<open>include\<close> directives (\<^verbatim>\<open>crates/ngxora-config/src/include.rs\<close>).
  The file system is a parameter: \<open>canonicalize\<close> maps a path to the components of its canonical
  form and \<open>read_to_string\<close> reads a canonical path, either with an I/O error.
  A canonical path is the list of its components, so \<^verbatim>\<open>Path::starts_with\<close>, which compares whole
  components, is \<^const>\<open>starts_with\<close> on lists.
\<close>

type_synonym path = "string list"

record file_system =
  canonicalize :: "string \<Rightarrow> (string, path) result"
  read_to_string :: "path \<Rightarrow> (string, string) result"

record include_file =
  if_path :: string
  if_text :: string

record include_resolver =
  includes_files :: "include_file list"
  root_dir :: string

datatype include_error =
    RootNotCanonical string
  | DepthExceeded
  | IncludeCycle path
  | ReadFailed path string
  | IncludeParse parse_error
  | ResolveFailed string string
  | EscapesRoot path path

definition INCLUDE_DIRECTIVE :: string where
  "INCLUDE_DIRECTIVE = ''include''"

definition MAX_INCLUDE_DEPTH :: nat where
  "MAX_INCLUDE_DEPTH = 16"

fun collect_includes :: "node list \<Rightarrow> include_file list" where
  "collect_includes [] = []"
| "collect_includes (Directive n args # ns) =
     (if n = INCLUDE_DIRECTIVE then map (\<lambda>p. \<lparr>if_path = p, if_text = []\<rparr>) args else [])
     @ collect_includes ns"
| "collect_includes (Block n args ch # ns) = collect_includes ch @ collect_includes ns"

definition resolver_new :: "ast \<Rightarrow> string \<Rightarrow> include_resolver" where
  "resolver_new a root = \<lparr>includes_files = collect_includes (items a), root_dir = root\<rparr>"

text \<open>The text of a canonical path, and \<^verbatim>\<open>Path::join\<close> of a relative path to it.\<close>

definition path_text :: "path \<Rightarrow> string" where
  "path_text p = concat (map (\<lambda>c. CHR ''/'' # c) p)"

definition path_join :: "path \<Rightarrow> string \<Rightarrow> string" where
  "path_join d raw = path_text d @ CHR ''/'' # raw"

definition resolve_include_path ::
  "file_system \<Rightarrow> path \<Rightarrow> path \<Rightarrow> string \<Rightarrow> (include_error, path) result" where
  "resolve_include_path fs root current raw =
     (let p = (if starts_with ''/'' raw then raw else path_join current raw)
      in case canonicalize fs p of
           Inl e \<Rightarrow> Inl (ResolveFailed p e)
         | Inr canonical \<Rightarrow>
             if \<not> starts_with root canonical then Inl (EscapesRoot canonical root)
             else Inr canonical)"

text \<open>\<^verbatim>\<open>include_path.parent()\<close>, or the root when there is no parent.\<close>

definition include_parent :: "path \<Rightarrow> path \<Rightarrow> path" where
  "include_parent root p = (if p = [] then root else butlast p)"

text \<open>
  \<^verbatim>\<open>resolve_nodes\<close> counts \<open>depth\<close> up from 0 and fails when it exceeds the limit. The model counts
  the remaining budget \<open>MAX_INCLUDE_DEPTH + 1 - depth\<close> down and fails at 0, which makes the
  recursion structural. The set \<open>resolving\<close> is threaded through as the code mutates it.
  \<open>resolve_loop\<close> is the loop over the nodes and \<open>resolve_args\<close> the loop over the arguments of
  one directive.
\<close>

function (sequential) resolve_nodes ::
  "file_system \<Rightarrow> path \<Rightarrow> nat \<Rightarrow> path \<Rightarrow> path list \<Rightarrow> node list \<Rightarrow>
     (include_error, node list \<times> path list) result"
and resolve_loop ::
  "file_system \<Rightarrow> path \<Rightarrow> nat \<Rightarrow> path \<Rightarrow> path list \<Rightarrow> node list \<Rightarrow>
     (include_error, node list \<times> path list) result"
and resolve_args ::
  "file_system \<Rightarrow> path \<Rightarrow> nat \<Rightarrow> path \<Rightarrow> path list \<Rightarrow> string list \<Rightarrow>
     (include_error, node list \<times> path list) result" where
  "resolve_nodes fs root 0 current resolving nodes = Inl DepthExceeded"
| "resolve_nodes fs root (Suc budget) current resolving nodes =
     resolve_loop fs root budget current resolving nodes"
| "resolve_loop fs root budget current resolving [] = Inr ([], resolving)"
| "resolve_loop fs root budget current resolving (Directive n args # ns) =
     (if n = INCLUDE_DIRECTIVE
      then and_then (resolve_args fs root budget current resolving args) (\<lambda>(out, resolving').
             and_then (resolve_loop fs root budget current resolving' ns) (\<lambda>(out', resolving'').
               Inr (out @ out', resolving'')))
      else and_then (resolve_loop fs root budget current resolving ns) (\<lambda>(out', resolving'').
             Inr (Directive n args # out', resolving'')))"
| "resolve_loop fs root budget current resolving (Block n args ch # ns) =
     and_then (resolve_nodes fs root (Suc budget) current resolving ch) (\<lambda>(ch', resolving').
       and_then (resolve_loop fs root budget current resolving' ns) (\<lambda>(out', resolving'').
         Inr (Block n args ch' # out', resolving'')))"
| "resolve_args fs root budget current resolving [] = Inr ([], resolving)"
| "resolve_args fs root budget current resolving (raw # raws) =
     and_then (resolve_include_path fs root current raw) (\<lambda>p.
       if p \<in> set resolving then Inl (IncludeCycle p)
       else and_then (map_err (ReadFailed p) (read_to_string fs p)) (\<lambda>txt.
         and_then (map_err IncludeParse (parse_config txt)) (\<lambda>a.
           and_then (resolve_nodes fs root budget (include_parent root p) (p # resolving) (items a))
             (\<lambda>(out, resolving').
                and_then (resolve_args fs root budget current (removeAll p resolving') raws)
                  (\<lambda>(out', resolving''). Inr (out @ out', resolving''))))))"
  by pat_completeness auto
termination
  by (relation "measures
      [\<lambda>x. case x of Inl (fs, root, k, c, r, ns) \<Rightarrow> 2 * k
          | Inr (Inl (fs, root, b, c, r, ns)) \<Rightarrow> 2 * b + 2
          | Inr (Inr (fs, root, b, c, r, raws)) \<Rightarrow> 2 * b + 1,
       \<lambda>x. case x of Inl (fs, root, k, c, r, ns) \<Rightarrow> size_list size ns
          | Inr (Inl (fs, root, b, c, r, ns)) \<Rightarrow> size_list size ns
          | Inr (Inr (fs, root, b, c, r, raws)) \<Rightarrow> length raws,
       \<lambda>x. case x of Inl _ \<Rightarrow> 1 | _ \<Rightarrow> 0]") auto

definition resolve :: "file_system \<Rightarrow> include_resolver \<Rightarrow> ast \<Rightarrow> (include_error, ast) result" where
  "resolve fs r a =
     and_then (map_err RootNotCanonical (canonicalize fs (root_dir r))) (\<lambda>root.
       and_then (resolve_nodes fs root (Suc MAX_INCLUDE_DEPTH) root [] (items a))
         (\<lambda>(ns, _). Inr \<lparr>items = ns\<rparr>))"

section \<open>Resolution removes every include directive\<close>

fun no_includes :: "node \<Rightarrow> bool" where
  "no_includes (Directive n args) = (n \<noteq> INCLUDE_DIRECTIVE)"
| "no_includes (Block n args ch) = list_all no_includes ch"

lemma resolve_no_includes:
  "resolve_nodes fs root k current res ns = Inr (out, res1) \<Longrightarrow> list_all no_includes out"
  "resolve_loop fs root b current res ns = Inr (out, res1) \<Longrightarrow> list_all no_includes out"
  "resolve_args fs root b current res raws = Inr (out, res1) \<Longrightarrow> list_all no_includes out"
proof (induction fs root k current res ns and fs root b current res ns and fs root b current res raws
    arbitrary: out res1 and out res1 and out res1
    rule: resolve_nodes_resolve_loop_resolve_args.induct)
qed (auto simp: res_simps split: if_splits prod.splits; fastforce)+

text \<open>Without include directives resolution changes nothing and cannot fail.\<close>

lemma resolve_identity:
  "list_all no_includes ns \<Longrightarrow> 0 < k \<Longrightarrow> resolve_nodes fs root k current res ns = Inr (ns, res)"
  "list_all no_includes ns \<Longrightarrow> resolve_loop fs root b current res ns = Inr (ns, res)"
  "raws = [] \<Longrightarrow> resolve_args fs root b current res raws = Inr ([], res)"
  by (induction fs root k current res ns and fs root b current res ns and fs root b current res raws
    rule: resolve_nodes_resolve_loop_resolve_args.induct) auto

section \<open>Resolution is confined to the root directory\<close>

text \<open>Two file systems that agree on path resolution and on the files below \<open>root\<close>.\<close>

definition agree_below :: "path \<Rightarrow> file_system \<Rightarrow> file_system \<Rightarrow> bool" where
  "agree_below root fs1 fs2 \<longleftrightarrow>
     canonicalize fs1 = canonicalize fs2 \<and>
     (\<forall>p. starts_with root p \<longrightarrow> read_to_string fs1 p = read_to_string fs2 p)"

lemma resolve_include_path_below:
  "resolve_include_path fs root current raw = Inr p \<Longrightarrow> starts_with root p"
  by (auto simp: resolve_include_path_def Let_def split: sum.splits if_splits)

lemma and_then_cong_Inr:
  "r = r' \<Longrightarrow> (\<And>x. r = Inr x \<Longrightarrow> f x = g x) \<Longrightarrow> and_then r f = and_then r' g"
  by (cases r) auto

lemma resolve_agree:
  assumes "agree_below root fs1 fs2"
  shows "fs = fs1 \<Longrightarrow> root0 = root \<Longrightarrow>
      resolve_nodes fs root0 k current res ns = resolve_nodes fs2 root k current res ns"
    and "fs = fs1 \<Longrightarrow> root0 = root \<Longrightarrow>
      resolve_loop fs root0 b current res ns = resolve_loop fs2 root b current res ns"
    and "fs = fs1 \<Longrightarrow> root0 = root \<Longrightarrow>
      resolve_args fs root0 b current res raws = resolve_args fs2 root b current res raws"
proof (induction fs root0 k current res ns and fs root0 b current res ns
    and fs root0 b current res raws rule: resolve_nodes_resolve_loop_resolve_args.induct)
  case (7 fs root0 budget current res raw raws)
  have same: "resolve_include_path fs1 root current raw = resolve_include_path fs2 root current raw"
    using assms by (simp add: resolve_include_path_def agree_below_def)
  have rd: "read_to_string fs1 p = read_to_string fs2 p"
    if "resolve_include_path fs1 root current raw = Inr p" for p
    using resolve_include_path_below [OF that] assms by (simp add: agree_below_def)
  from 7 same rd show ?case
    by (auto intro!: and_then_cong_Inr split: prod.splits simp: res_simps)
qed (auto intro!: and_then_cong_Inr split: prod.splits)

section \<open>Claims\<close>

text \<open>
  C37. Includes are confined to the configuration root: resolution gives the same result on any
  two file systems that resolve paths alike and agree on the files below the canonical root.
\<close>

theorem resolve_confined:
  assumes "canonicalize fs1 (root_dir r) = Inr root" and "agree_below root fs1 fs2"
  shows "resolve fs1 r a = resolve fs2 r a"
proof -
  have "canonicalize fs2 (root_dir r) = Inr root" using assms by (simp add: agree_below_def)
  with assms show ?thesis
    by (simp add: resolve_def map_err_def resolve_agree(2) [OF assms(2) refl refl])
qed

text \<open>A file system with one directory, one file, and one file outside.\<close>

definition sample_fs :: "string \<Rightarrow> file_system" where
  "sample_fs outside =
     \<lparr>canonicalize = (\<lambda>p. if p = ''/etc/a.conf'' then Inr [''etc'', ''a.conf'']
                          else if p = ''/etc'' then Inr [''etc''] else Inl ''not found''),
      read_to_string = (\<lambda>p. if p = [''etc'', ''a.conf''] then Inr ''user www;''
                           else if starts_with [''etc''] p then Inl ''not found'' else Inr outside)\<rparr>"

theorem resolve_confined_witness:
  "resolve (sample_fs ''x;'') \<lparr>includes_files = [], root_dir = ''/etc''\<rparr> \<lparr>items = [Directive ''include'' [''a.conf'']]\<rparr> =
   resolve (sample_fs ''y;'') \<lparr>includes_files = [], root_dir = ''/etc''\<rparr> \<lparr>items = [Directive ''include'' [''a.conf'']]\<rparr>"
  by (rule resolve_confined [of _ _ "[''etc'']"])
    (simp_all add: sample_fs_def agree_below_def)

text \<open>
  A resolved tree has no include directive left at any depth, and a tree without include
  directives is resolved to itself without reading any file.
\<close>

lemma resolve_complete:
  assumes "canonicalize fs (root_dir r) = Inr root"
  shows "(case resolve fs r a of Inl _ \<Rightarrow> \<not> list_all no_includes (items a)
          | Inr a' \<Rightarrow> list_all no_includes (items a') \<and> (list_all no_includes (items a) \<longrightarrow> a' = a))"
proof (cases "list_all no_includes (items a)")
  case True
  with assms show ?thesis
    by (simp add: resolve_def map_err_def resolve_identity(2))
next
  case False
  with assms show ?thesis
    by (auto simp: resolve_def map_err_def res_simps dest: resolve_no_includes(2)
        split: sum.split)
qed

end
