(* ===== verification/Ir.thy ===== *)
theory Ir
  imports Prelude "HOL-Library.Word" "HOL-Library.Option_ord"
begin

text \<open>
  The intermediate representation of a configuration (\<^verbatim>\<open>crates/ngxora-compile/src/ir.rs\<close>), one
  type per struct and enum of the source with its fields in order, the defaults, and the
  validation methods.

  Types of other crates are data only: a \<^verbatim>\<open>url::Url\<close>, an \<^verbatim>\<open>ipnet::IpNet\<close> and a
  \<^verbatim>\<open>serde_json::Value\<close> are held by their text, and what the code asks of them is a parameter of
  the definitions that ask it. A \<^verbatim>\<open>PathBuf\<close> is the string of its bytes.
\<close>

section \<open>Addresses\<close>

datatype ip_addr = V4 "32 word" | V6 "128 word"

text \<open>The derived order of \<^verbatim>\<open>IpAddr\<close>: every IPv4 address is below every IPv6 address.\<close>

definition ip_key :: "ip_addr \<Rightarrow> bool \<times> nat" where
  "ip_key a = (case a of V4 w \<Rightarrow> (False, unat w) | V6 w \<Rightarrow> (True, unat w))"

lemma ip_key_inject: "ip_key a = ip_key b \<longleftrightarrow> a = b"
  by (auto simp: ip_key_def word_unat_eq_iff split: ip_addr.splits)

instantiation ip_addr :: linorder
begin

definition less_eq_ip_addr :: "ip_addr \<Rightarrow> ip_addr \<Rightarrow> bool" where
  "less_eq_ip_addr a b \<longleftrightarrow> ip_key a \<le> ip_key b"

definition less_ip_addr :: "ip_addr \<Rightarrow> ip_addr \<Rightarrow> bool" where
  "less_ip_addr a b \<longleftrightarrow> ip_key a < ip_key b"

instance
proof
  fix a b c :: ip_addr
  show "(a < b) = (a \<le> b \<and> \<not> b \<le> a)"
    by (simp only: less_eq_ip_addr_def less_ip_addr_def less_le_not_le)
  show "a \<le> a" by (simp add: less_eq_ip_addr_def)
  show "a \<le> b \<Longrightarrow> b \<le> c \<Longrightarrow> a \<le> c" by (auto simp only: less_eq_ip_addr_def intro: order_trans)
  show "a \<le> b \<Longrightarrow> b \<le> a \<Longrightarrow> a = b"
    using ip_key_inject by (auto simp only: less_eq_ip_addr_def dest: order_antisym)
  show "a \<le> b \<or> b \<le> a" by (simp only: less_eq_ip_addr_def) (rule linear)
qed

end

datatype ip_net = IpNet string
datatype url = Url string
datatype json = Json string

text \<open>\<^verbatim>\<open>PluginSpec\<close> of the plugin API crate.\<close>

record plugin_spec =
  ps_name :: string
  ps_config :: json

section \<open>Client policy\<close>

record real_ip_config =
  ri_trusted_proxies :: "ip_net list"
  ri_header :: string
  ri_recursive :: bool

definition real_ip_default :: real_ip_config where
  "real_ip_default =
     \<lparr>ri_trusted_proxies = [], ri_header = ''X-Forwarded-For'', ri_recursive = True\<rparr>"

definition real_ip_validate :: "real_ip_config \<Rightarrow> (string, unit) result" where
  "real_ip_validate c =
     reject (\<not> eq_ignore_ascii_case (ri_header c) ''x-forwarded-for'' \<and>
             \<not> eq_ignore_ascii_case (ri_header c) ''x-real-ip'')
       ''real_ip_header must be X-Forwarded-For or X-Real-IP''"

record client_limits =
  cl_max_body_size :: "nat option"
  cl_body_timeout :: "duration option"
  cl_send_timeout :: "duration option"
  cl_allowed_methods :: "string list"

definition client_limits_default :: client_limits where
  "client_limits_default =
     \<lparr>cl_max_body_size = None, cl_body_timeout = None, cl_send_timeout = None,
      cl_allowed_methods = []\<rparr>"

definition validate_client_timeout :: "duration option \<Rightarrow> (string, unit) result" where
  "validate_client_timeout v =
     reject (case v of None \<Rightarrow> False
             | Some d \<Rightarrow> u64_max < as_millis d \<or> subsec_nanos d mod nanos_per_milli \<noteq> 0)
       ''client timeout must be whole milliseconds fitting uint64''"

record geoip_config =
  gi_database :: string
  gi_reload_interval :: duration
  gi_trusted_proxies :: "ip_net list"

text \<open>\<^verbatim>\<open>OsStr::to_str\<close> succeeds on well-formed UTF-8.\<close>

definition cont :: "nat \<Rightarrow> bool" where
  "cont b \<longleftrightarrow> 128 \<le> b \<and> b \<le> 191"

fun valid_utf8_bytes :: "nat list \<Rightarrow> bool" where
  "valid_utf8_bytes [] = True"
| "valid_utf8_bytes (a # r) =
     (if a < 128 then valid_utf8_bytes r
      else if a < 194 then False
      else if a < 224 then
        (case r of b # r' \<Rightarrow> cont b \<and> valid_utf8_bytes r' | _ \<Rightarrow> False)
      else if a < 240 then
        (case r of b # c # r' \<Rightarrow>
           cont b \<and> cont c \<and> (a = 224 \<longrightarrow> 160 \<le> b) \<and> (a = 237 \<longrightarrow> b < 160) \<and> valid_utf8_bytes r'
         | _ \<Rightarrow> False)
      else if a < 245 then
        (case r of b # c # d # r' \<Rightarrow>
           cont b \<and> cont c \<and> cont d \<and> (a = 240 \<longrightarrow> 144 \<le> b) \<and> (a = 244 \<longrightarrow> b < 144) \<and>
           valid_utf8_bytes r'
         | _ \<Rightarrow> False)
      else False)"

definition valid_utf8 :: "string \<Rightarrow> bool" where
  "valid_utf8 s = valid_utf8_bytes (map byte s)"

definition geoip_validate :: "geoip_config \<Rightarrow> (string, unit) result" where
  "geoip_validate c =
     and_then (reject (gi_database c = [] \<or> \<not> valid_utf8 (gi_database c))
         ''geoip database must be a nonempty UTF-8 path'') (\<lambda>_.
       reject (gi_reload_interval c < from_millis 1 \<or>
               u64_max < as_millis (gi_reload_interval c) \<or>
               subsec_nanos (gi_reload_interval c) mod nanos_per_milli \<noteq> 0)
         ''geoip reload_interval must be a positive whole number of milliseconds fitting uint64'')"

section \<open>TLS\<close>

datatype pem_source = PemPath string | InlinePem string

record tls_identity =
  ti_cert :: pem_source
  ti_key :: pem_source

definition tls_identity_default :: tls_identity where
  "tls_identity_default = \<lparr>ti_cert = PemPath [], ti_key = PemPath []\<rparr>"

datatype ssl_provider = Custom tls_identity | LetsEncrypt

record lets_encrypt_config =
  le_acme_directory :: "string option"
  le_email :: "string option"
  le_cache_dir :: "string option"

datatype tls_protocol_version = Tls1 | Tls1_2 | Tls1_3

definition tls_version_rank :: "tls_protocol_version \<Rightarrow> nat" where
  "tls_version_rank v = (case v of Tls1 \<Rightarrow> 0 | Tls1_2 \<Rightarrow> 1 | Tls1_3 \<Rightarrow> 2)"

lemma tls_version_rank_inject: "tls_version_rank a = tls_version_rank b \<longleftrightarrow> a = b"
  by (cases a; cases b) (simp_all add: tls_version_rank_def)

instantiation tls_protocol_version :: linorder
begin

definition less_eq_tls_protocol_version :: "tls_protocol_version \<Rightarrow> tls_protocol_version \<Rightarrow> bool" where
  "less_eq_tls_protocol_version a b \<longleftrightarrow> tls_version_rank a \<le> tls_version_rank b"

definition less_tls_protocol_version :: "tls_protocol_version \<Rightarrow> tls_protocol_version \<Rightarrow> bool" where
  "less_tls_protocol_version a b \<longleftrightarrow> tls_version_rank a < tls_version_rank b"

instance
  by standard
    (auto simp: less_eq_tls_protocol_version_def less_tls_protocol_version_def
      tls_version_rank_inject)

end

record tls_protocol_bounds =
  tb_min :: tls_protocol_version
  tb_max :: tls_protocol_version

datatype tls_verify_client = VerifyOff | VerifyOptional | VerifyRequired

record downstream_tls_options =
  dt_protocols :: "tls_protocol_bounds option"
  dt_verify_client :: tls_verify_client
  dt_client_certificate :: "pem_source option"

definition downstream_tls_default :: downstream_tls_options where
  "downstream_tls_default =
     \<lparr>dt_protocols = None, dt_verify_client = VerifyOff, dt_client_certificate = None\<rparr>"

datatype switch = On | Off

record upstream_ssl_options =
  us_verify_cert :: switch
  us_trusted_certificate :: "pem_source option"
  us_client_certificate :: "pem_source option"
  us_client_certificate_key :: "pem_source option"

definition upstream_ssl_default :: upstream_ssl_options where
  "upstream_ssl_default =
     \<lparr>us_verify_cert = On, us_trusted_certificate = None, us_client_certificate = None,
      us_client_certificate_key = None\<rparr>"

section \<open>HTTP/2 options\<close>

record http2_options =
  h2_max_concurrent_streams :: "nat option"
  h2_max_header_list_size :: "nat option"
  h2_stream_window_size :: "nat option"
  h2_connection_window_size :: "nat option"

record upstream_http2_options =
  uh2_max_concurrent_streams :: "nat option"
  uh2_stream_window_size :: "nat option"
  uh2_connection_window_size :: "nat option"

definition http2_default :: http2_options where
  "http2_default =
     \<lparr>h2_max_concurrent_streams = None, h2_max_header_list_size = None,
      h2_stream_window_size = None, h2_connection_window_size = None\<rparr>"

definition upstream_http2_default :: upstream_http2_options where
  "upstream_http2_default =
     \<lparr>uh2_max_concurrent_streams = None, uh2_stream_window_size = None,
      uh2_connection_window_size = None\<rparr>"

text \<open>The message names the option and the bound; the model keeps the option.\<close>

definition validate_http2_value :: "nat option \<Rightarrow> nat \<Rightarrow> string \<Rightarrow> (string, unit) result" where
  "validate_http2_value v m name =
     reject (case v of None \<Rightarrow> False | Some n \<Rightarrow> n = 0 \<or> m < n)
       (name @ '': value out of range'')"

definition http2_validate :: "http2_options \<Rightarrow> (string, unit) result" where
  "http2_validate opts =
     and_then (validate_http2_value (h2_max_concurrent_streams opts) u32_max
         ''http2_max_concurrent_streams'') (\<lambda>_.
     and_then (validate_http2_value (h2_max_header_list_size opts) u32_max
         ''http2_max_header_list_size'') (\<lambda>_.
     and_then (validate_http2_value (h2_stream_window_size opts) i32_max
         ''http2_stream_window_size'') (\<lambda>_.
     validate_http2_value (h2_connection_window_size opts) i32_max
         ''http2_connection_window_size'')))"

definition upstream_http2_validate :: "upstream_http2_options \<Rightarrow> (string, unit) result" where
  "upstream_http2_validate opts =
     and_then (validate_http2_value (uh2_max_concurrent_streams opts) u32_max
         ''proxy_http2_max_concurrent_streams'') (\<lambda>_.
     and_then (validate_http2_value (uh2_stream_window_size opts) i32_max
         ''proxy_http2_stream_window_size'') (\<lambda>_.
     validate_http2_value (uh2_connection_window_size opts) i32_max
         ''proxy_http2_connection_window_size''))"

section \<open>Upstreams\<close>

datatype nrf_endpoint_scheme = SchemeHttp | SchemeHttps

record nrf_discovery =
  nd_api_root :: string
  nd_target_nf_type :: string
  nd_requester_nf_type :: string
  nd_service_name :: string
  nd_endpoint_scheme :: nrf_endpoint_scheme
  nd_timeout :: duration
  nd_stale_if_error :: duration
  nd_tls_options :: upstream_ssl_options

record upstream_server =
  usv_host :: string
  usv_port :: nat
  usv_weight :: nat

datatype upstream_selection_policy = RoundRobin | Random | ConsistentHash

datatype upstream_hash_key = ClientIp | Header string

datatype upstream_health_check_type = CheckTcp | CheckHttp string string bool

record upstream_health_check =
  hc_check_type :: upstream_health_check_type
  hc_timeout :: duration
  hc_interval :: duration
  hc_consecutive_success :: nat
  hc_consecutive_failure :: nat

record upstream_block =
  ub_allow_empty :: bool
  ub_name :: string
  ub_policy :: upstream_selection_policy
  ub_hash_key :: "upstream_hash_key option"
  ub_servers :: "upstream_server list"
  ub_nrf_discovery :: "nrf_discovery option"
  ub_health_check :: "upstream_health_check option"

record scp_profile =
  sp_name :: string
  sp_api_root :: string
  sp_discovery_upstreams :: "string list"
  sp_allowed_target_api_roots :: "string list"

section \<open>Locations\<close>

datatype location_ip_rule = Allow ip_net | Deny ip_net | AllowAll | DenyAll

text \<open>\<^verbatim>\<open>IpNet::contains\<close> is a parameter.\<close>

fun rule_matches :: "(ip_net \<Rightarrow> ip_addr \<Rightarrow> bool) \<Rightarrow> location_ip_rule \<Rightarrow> ip_addr \<Rightarrow> bool" where
  "rule_matches net_contains (Allow n) ip = net_contains n ip"
| "rule_matches net_contains (Deny n) ip = net_contains n ip"
| "rule_matches net_contains AllowAll ip = True"
| "rule_matches net_contains DenyAll ip = True"

fun rule_is_allow :: "location_ip_rule \<Rightarrow> bool" where
  "rule_is_allow (Allow n) = True"
| "rule_is_allow AllowAll = True"
| "rule_is_allow _ = False"

datatype cache_key_mode = Uri | UriAndMethod | NormalizedUri

record cache_config =
  cc_enabled :: bool
  cc_max_size :: "nat option"
  cc_ttl :: "duration option"
  cc_stale_if_error :: "duration option"
  cc_cache_key :: cache_key_mode
  cc_min_uses :: "nat option"
  cc_valid_statuses :: "nat list"

definition cache_config_default :: cache_config where
  "cache_config_default =
     \<lparr>cc_enabled = True, cc_max_size = None, cc_ttl = Some (from_secs 60),
      cc_stale_if_error = None, cc_cache_key = Uri, cc_min_uses = None,
      cc_valid_statuses = [200, 301, 404]\<rparr>"

record upstream_timeouts =
  ut_connect :: "duration option"
  ut_read :: "duration option"
  ut_write :: "duration option"

definition upstream_timeouts_default :: upstream_timeouts where
  "upstream_timeouts_default = \<lparr>ut_connect = None, ut_read = None, ut_write = None\<rparr>"

datatype http_path_match = ExactPath string | PathPrefix string

record http_match =
  hm_path :: http_path_match
  hm_method :: "string option"
  hm_headers :: "(string \<times> string) list"
  hm_query_params :: "(string \<times> string) list"

datatype location_matcher =
    LmHttp http_match
  | LmPrefix string
  | LmExact string
  | LmRegex bool string
  | LmPreferPrefix string
  | LmNamed string

datatype proxy_pass_target = PassUrl url | PassUpstreamGroup string bool

datatype backend_target = BtUpstream proxy_pass_target | BtResponse nat

record weighted_backend =
  wb_weight :: nat
  wb_target :: backend_target

datatype path_modifier = ReplaceFullPath string | ReplacePrefixMatch string

record http_redirect =
  hr_status :: nat
  hr_scheme :: "string option"
  hr_hostname :: "string option"
  hr_port :: "nat option"
  hr_path :: "path_modifier option"

record url_rewrite =
  ur_hostname :: "string option"
  ur_path :: "path_modifier option"

datatype upstream_http_protocol = H1 | H2 | H2c

datatype location_directive =
    ClientMaxBodySize nat
  | ClientBodyTimeout duration
  | SendTimeout duration
  | AllowMethods "string list"
  | LdWeightedBackends "weighted_backend list"
  | LdDirectResponse nat
  | LdHttpRedirect http_redirect
  | LdUrlRewrite url_rewrite
  | ScpPass string
  | ProxyPass proxy_pass_target
  | ProxyConnectTimeout duration
  | ProxyReadTimeout duration
  | ProxyWriteTimeout duration
  | ProxyUpstreamProtocol upstream_http_protocol
  | ProxyHttp2MaxConcurrentStreams nat
  | ProxyHttp2StreamWindowSize nat
  | ProxyHttp2ConnectionWindowSize nat
  | ProxySslVerify switch
  | ProxySslTrustedCertificate pem_source
  | ProxySslCertificate pem_source
  | ProxySslCertificateKey pem_source
  | Root string
  | TryFiles string
  | LdReturn nat string

record location =
  lo_matcher :: location_matcher
  lo_access_rules :: "location_ip_rule list"
  lo_directives :: "location_directive list"
  lo_plugins :: "plugin_spec list"
  lo_cache :: "cache_config option"

section \<open>Listeners, servers and the http block\<close>

record listen =
  li_addr :: ip_addr
  li_port :: nat
  li_ssl :: bool
  li_default_server :: bool
  li_http2 :: bool
  li_http2_only :: bool

definition listen_default :: listen where
  "listen_default =
     \<lparr>li_addr = V4 0x7F000001, li_port = 80, li_ssl = False, li_default_server = False,
      li_http2 = False, li_http2_only = False\<rparr>"

datatype keepalive_timeout = KeepaliveOff | KeepaliveTimeout duration "duration option"

definition keepalive_default :: keepalive_timeout where
  "keepalive_default = KeepaliveTimeout (from_secs 60) None"

record server =
  sv_server_names :: "string list"
  sv_locations :: "location list"
  sv_listens :: "listen list"
  sv_tls :: "ssl_provider option"
  sv_tls_options :: downstream_tls_options

record http =
  ht_real_ip :: "real_ip_config option"
  ht_client_header_timeout :: "duration option"
  ht_client_body_timeout :: "duration option"
  ht_send_timeout :: "duration option"
  ht_scp_profiles :: "scp_profile list"
  ht_upstreams :: "upstream_block list"
  ht_servers :: "server list"
  ht_keepalive_timeout :: keepalive_timeout
  ht_keepalive_requests :: "nat option"
  ht_client_max_body_size :: "nat option"
  ht_proxy_cache_max_size :: "nat option"
  ht_tcp_nodelay :: switch
  ht_allow_connect_method_proxying :: switch
  ht_h2c :: switch
  ht_http2 :: http2_options
  ht_ssl_provider :: "lets_encrypt_config option"
  ht_geoip :: "geoip_config option"

definition http_default :: http where
  "http_default =
     \<lparr>ht_real_ip = None, ht_client_header_timeout = None, ht_client_body_timeout = None,
      ht_send_timeout = None, ht_scp_profiles = [], ht_upstreams = [], ht_servers = [],
      ht_keepalive_timeout = keepalive_default, ht_keepalive_requests = None,
      ht_client_max_body_size = None, ht_proxy_cache_max_size = None, ht_tcp_nodelay = On,
      ht_allow_connect_method_proxying = Off, ht_h2c = Off, ht_http2 = http2_default,
      ht_ssl_provider = None, ht_geoip = None\<rparr>"

record ir =
  ir_http :: "http option"

section \<open>What validation guarantees\<close>

lemma validate_http2_value_ok [res_simps]:
  "validate_http2_value v m name = Inr u \<longleftrightarrow> (\<forall>n. v = Some n \<longrightarrow> 0 < n \<and> n \<le> m)"
  by (auto simp: validate_http2_value_def res_simps split: option.splits)

lemma validate_client_timeout_ok:
  "validate_client_timeout (Some d) = Inr u \<longleftrightarrow> (\<exists>n \<le> u64_max. d = from_millis n)"
proof -
  have "d mod nanos_per_sec mod nanos_per_milli = d mod nanos_per_milli"
    by (rule mod_mod_cancel) simp
  then have "validate_client_timeout (Some d) = Inr u \<longleftrightarrow>
      as_millis d \<le> u64_max \<and> d mod nanos_per_milli = 0"
    by (auto simp: validate_client_timeout_def subsec_nanos_def res_simps)
  also have "\<dots> \<longleftrightarrow> (\<exists>n \<le> u64_max. d = from_millis n)"
    by (auto simp: as_millis_def from_millis_def)
  finally show ?thesis .
qed

end
