(* ===== verification/Types.thy ===== *)
theory Types
  imports Ir
begin

text \<open>
  The compiled configuration the data plane reads
  (\<^verbatim>\<open>crates/ngxora-runtime/src/upstreams/types.rs\<close>), and the interface to the libraries the code
  calls: one record whose fields are the functions of the \<^verbatim>\<open>http\<close>, \<^verbatim>\<open>url\<close>, \<^verbatim>\<open>regex\<close> and \<^verbatim>\<open>ipnet\<close>
  crates, passed to every definition that uses one of them.
\<close>

section \<open>Library functions\<close>

text \<open>
  What the code observes of an \<^verbatim>\<open>http::Uri\<close>: its text, path and query.
\<close>

record uri =
  u_text :: string
  u_path :: string
  u_query :: "string option"

text \<open>What the code observes of an absolute \<^verbatim>\<open>http::Uri\<close>: scheme, authority with its host, and path.\<close>

record uri_parts =
  up_scheme :: "string option"
  up_authority :: "string option"
  up_host :: string
  up_path :: string

record externals =
  ext_to_str :: "string \<Rightarrow> string option"
    \<comment> \<open>\<^verbatim>\<open>HeaderValue::to_str\<close>\<close>
  ext_header_name :: "string \<Rightarrow> string option"
    \<comment> \<open>\<^verbatim>\<open>HeaderName::from_bytes\<close> and \<^verbatim>\<open>as_str\<close>\<close>
  ext_header_value_ok :: "string \<Rightarrow> bool"
    \<comment> \<open>\<^verbatim>\<open>HeaderValue::from_str\<close> succeeds\<close>
  ext_method_ok :: "string \<Rightarrow> bool"
    \<comment> \<open>\<^verbatim>\<open>Method::from_bytes\<close> succeeds\<close>
  ext_path_and_query_ok :: "string \<Rightarrow> bool"
    \<comment> \<open>\<^verbatim>\<open>str::parse::<PathAndQuery>\<close> succeeds\<close>
  ext_parse_uri :: "string \<Rightarrow> uri option"
    \<comment> \<open>\<^verbatim>\<open>str::parse::<Uri>\<close>\<close>
  ext_authority_host :: "string \<Rightarrow> string option"
    \<comment> \<open>\<^verbatim>\<open>str::parse::<Authority>\<close> and \<^verbatim>\<open>host()\<close>\<close>
  ext_form_parse :: "string \<Rightarrow> (string \<times> string) list"
    \<comment> \<open>\<^verbatim>\<open>url::form_urlencoded::parse\<close>\<close>
  ext_regex_ok :: "bool \<Rightarrow> string \<Rightarrow> bool"
    \<comment> \<open>\<^verbatim>\<open>RegexBuilder::build\<close> succeeds\<close>
  ext_regex_is_match :: "bool \<Rightarrow> string \<Rightarrow> string \<Rightarrow> bool"
    \<comment> \<open>\<^verbatim>\<open>Regex::is_match\<close>\<close>
  ext_net_contains :: "ip_net \<Rightarrow> ip_addr \<Rightarrow> bool"
    \<comment> \<open>\<^verbatim>\<open>IpNet::contains\<close>\<close>
  ext_header_fits :: "(string \<times> string) list \<Rightarrow> string \<Rightarrow> string \<Rightarrow> bool"
    \<comment> \<open>\<^verbatim>\<open>append_header\<close> and \<^verbatim>\<open>insert_header\<close> of Pingora succeed on a header map, a name and a value\<close>
  ext_uri_parts :: "string \<Rightarrow> uri_parts option"
    \<comment> \<open>\<^verbatim>\<open>str::parse::<Uri>\<close> and \<^verbatim>\<open>scheme_str\<close>, \<^verbatim>\<open>authority\<close>, \<^verbatim>\<open>host\<close>, \<^verbatim>\<open>path\<close>\<close>

text \<open>
  One concrete instance of these functions, on which the theorems about the code are evaluated.
  It accepts every text, lower-cases header names, cuts URIs at the question mark, and knows one
  network, \<^verbatim>\<open>10.0.0.0/8\<close>.
\<close>

definition plain_uri_parts :: "string \<Rightarrow> uri_parts option" where
  "plain_uri_parts s =
     (case split_once CHR '':'' s of
        None \<Rightarrow> None
      | Some (scheme, rest) \<Rightarrow>
          map_option (\<lambda>r.
            let authority = takeWhile (\<lambda>c. c \<noteq> CHR ''/'') r; path = dropWhile (\<lambda>c. c \<noteq> CHR ''/'') r
            in \<lparr>up_scheme = Some scheme, up_authority = Some authority,
                up_host = takeWhile (\<lambda>c. c \<noteq> CHR '':'') authority,
                up_path = (if path = [] then ''/'' else path)\<rparr>) (strip_prefix ''//'' rest))"

definition plain_ext :: externals where
  "plain_ext =
     \<lparr>ext_to_str = Some,
      ext_header_name = (\<lambda>s. Some (to_ascii_lowercase s)),
      ext_header_value_ok = (\<lambda>_. True),
      ext_method_ok = (\<lambda>_. True),
      ext_path_and_query_ok = (\<lambda>_. True),
      ext_parse_uri = (\<lambda>s. Some
        \<lparr>u_text = s, u_path = takeWhile (\<lambda>c. c \<noteq> CHR ''?'') s,
         u_query = map_option snd (split_once CHR ''?'' s)\<rparr>),
      ext_authority_host = (\<lambda>s. Some (takeWhile (\<lambda>c. c \<noteq> CHR '':'') s)),
      ext_form_parse = (\<lambda>s. map (\<lambda>p. case split_once CHR ''='' p of None \<Rightarrow> (p, []) | Some kv \<Rightarrow> kv)
        (split_on CHR ''&'' s)),
      ext_regex_ok = (\<lambda>_ _. True),
      ext_regex_is_match = (\<lambda>_ p s. contains_str p s),
      ext_net_contains = (\<lambda>n a. n = IpNet ''10.0.0.0/8'' \<and>
        (case a of V4 w \<Rightarrow> drop_bit 24 w = 10 | V6 _ \<Rightarrow> False)),
      ext_header_fits = (\<lambda>_ _ _. True),
      ext_uri_parts = plain_uri_parts\<rparr>"

text \<open>
  A header map is the list of its entries in order, names in lower case as the \<^verbatim>\<open>http\<close> crate
  keeps them.
\<close>

type_synonym header_map = "(string \<times> string) list"

definition hdr_get_all :: "header_map \<Rightarrow> string \<Rightarrow> string list" where
  "hdr_get_all h name = map snd (filter (\<lambda>(n, v). n = to_ascii_lowercase name) h)"

definition hdr_get :: "header_map \<Rightarrow> string \<Rightarrow> string option" where
  "hdr_get h name = (case hdr_get_all h name of [] \<Rightarrow> None | v # _ \<Rightarrow> Some v)"

definition hdr_contains_key :: "header_map \<Rightarrow> string \<Rightarrow> bool" where
  "hdr_contains_key h name \<longleftrightarrow> hdr_get_all h name \<noteq> []"

text \<open>\<^verbatim>\<open>HeaderMap::append\<close>, \<^verbatim>\<open>insert\<close> (which drops every earlier value of the name) and \<^verbatim>\<open>remove\<close>.\<close>

definition hdr_append :: "header_map \<Rightarrow> string \<Rightarrow> string \<Rightarrow> header_map" where
  "hdr_append h name v = h @ [(to_ascii_lowercase name, v)]"

definition hdr_remove :: "header_map \<Rightarrow> string \<Rightarrow> header_map" where
  "hdr_remove h name = filter (\<lambda>(n, v). n \<noteq> to_ascii_lowercase name) h"

definition hdr_insert :: "header_map \<Rightarrow> string \<Rightarrow> string \<Rightarrow> header_map" where
  "hdr_insert h name v = hdr_append (hdr_remove h name) name v"

lemma hdr_get_all_append [simp]:
  "hdr_get_all (hdr_append h m v) n =
     (if eq_ignore_ascii_case n m then hdr_get_all h n @ [v] else hdr_get_all h n)"
  by (auto simp: hdr_get_all_def hdr_append_def eq_ignore_ascii_case_def)

lemma hdr_get_all_remove [simp]:
  "hdr_get_all (hdr_remove h m) n = (if eq_ignore_ascii_case n m then [] else hdr_get_all h n)"
  by (auto simp: hdr_get_all_def hdr_remove_def eq_ignore_ascii_case_def filter_empty_conv
      intro!: arg_cong [of _ _ "map snd"] filter_cong)

lemma hdr_get_all_insert [simp]:
  "hdr_get_all (hdr_insert h m v) n = (if eq_ignore_ascii_case n m then [v] else hdr_get_all h n)"
  by (auto simp: hdr_insert_def)

lemma eq_ignore_refl [simp]: "eq_ignore_ascii_case n n"
  by (simp add: eq_ignore_ascii_case_def)

section \<open>Listeners\<close>

datatype listen_key = ListenKey (lk_addr: ip_addr) (lk_port: nat) (lk_ssl: bool)

definition listen_key_of :: "listen \<Rightarrow> listen_key" where
  "listen_key_of l = ListenKey (li_addr l) (li_port l) (li_ssl l)"

text \<open>The derived order: address, port, TLS flag.\<close>

definition lk_tuple :: "listen_key \<Rightarrow> ip_addr \<times> nat \<times> bool" where
  "lk_tuple k = (lk_addr k, lk_port k, lk_ssl k)"

lemma lk_tuple_inject: "lk_tuple a = lk_tuple b \<longleftrightarrow> a = b"
  by (cases a; cases b) (auto simp: lk_tuple_def)

instantiation listen_key :: linorder
begin

definition less_eq_listen_key :: "listen_key \<Rightarrow> listen_key \<Rightarrow> bool" where
  "less_eq_listen_key a b \<longleftrightarrow> lk_tuple a \<le> lk_tuple b"

definition less_listen_key :: "listen_key \<Rightarrow> listen_key \<Rightarrow> bool" where
  "less_listen_key a b \<longleftrightarrow> lk_tuple a < lk_tuple b"

instance
proof
  fix a b c :: listen_key
  show "(a < b) = (a \<le> b \<and> \<not> b \<le> a)"
    by (simp only: less_eq_listen_key_def less_listen_key_def less_le_not_le)
  show "a \<le> a" by (simp add: less_eq_listen_key_def)
  show "a \<le> b \<Longrightarrow> b \<le> c \<Longrightarrow> a \<le> c" by (auto simp only: less_eq_listen_key_def intro: order_trans)
  show "a \<le> b \<Longrightarrow> b \<le> a \<Longrightarrow> a = b"
    using lk_tuple_inject by (auto simp only: less_eq_listen_key_def dest: order_antisym)
  show "a \<le> b \<or> b \<le> a" by (simp only: less_eq_listen_key_def) (rule linear)
qed

end

record listener_protocol_config =
  lp_http2 :: bool
  lp_http2_only :: bool

definition listener_protocol_default :: listener_protocol_config where
  "listener_protocol_default = \<lparr>lp_http2 = False, lp_http2_only = False\<rparr>"

record listener_tls_settings =
  lt_protocols :: "tls_protocol_bounds option"
  lt_verify_client :: tls_verify_client
  lt_client_certificate :: "pem_source option"

definition tls_settings_of :: "downstream_tls_options \<Rightarrow> listener_tls_settings" where
  "tls_settings_of v =
     \<lparr>lt_protocols = dt_protocols v, lt_verify_client = dt_verify_client v,
      lt_client_certificate = dt_client_certificate v\<rparr>"

record listener_tls_config =
  ltc_named :: "(string, tls_identity) hmap"
  ltc_default :: "tls_identity option"
  ltc_settings :: listener_tls_settings

section \<open>Upstream groups\<close>

datatype nrf_service_metadata =
  NrfServiceMetadata
    (ns_authority: "string option")
    (ns_nf_instance_id: string)
    (ns_service_instance_id: string)
    (ns_priority: nat)
    (ns_capacity: nat)

text \<open>The derived order of the metadata: its fields, in order.\<close>

definition ns_tuple :: "nrf_service_metadata \<Rightarrow> string option \<times> string \<times> string \<times> nat \<times> nat" where
  "ns_tuple m =
     (ns_authority m, ns_nf_instance_id m, ns_service_instance_id m, ns_priority m, ns_capacity m)"

lemma ns_tuple_inject: "ns_tuple a = ns_tuple b \<longleftrightarrow> a = b"
  by (cases a; cases b) (auto simp: ns_tuple_def)

instantiation nrf_service_metadata :: linorder
begin

definition less_eq_nrf_service_metadata :: "nrf_service_metadata \<Rightarrow> nrf_service_metadata \<Rightarrow> bool" where
  "less_eq_nrf_service_metadata a b \<longleftrightarrow> ns_tuple a \<le> ns_tuple b"

definition less_nrf_service_metadata :: "nrf_service_metadata \<Rightarrow> nrf_service_metadata \<Rightarrow> bool" where
  "less_nrf_service_metadata a b \<longleftrightarrow> ns_tuple a < ns_tuple b"

instance
proof
  fix a b c :: nrf_service_metadata
  show "(a < b) = (a \<le> b \<and> \<not> b \<le> a)"
    by (simp only: less_eq_nrf_service_metadata_def less_nrf_service_metadata_def less_le_not_le)
  show "a \<le> a" by (simp add: less_eq_nrf_service_metadata_def)
  show "a \<le> b \<Longrightarrow> b \<le> c \<Longrightarrow> a \<le> c"
    by (auto simp only: less_eq_nrf_service_metadata_def intro: order_trans)
  show "a \<le> b \<Longrightarrow> b \<le> a \<Longrightarrow> a = b"
    using ns_tuple_inject by (auto simp only: less_eq_nrf_service_metadata_def dest: order_antisym)
  show "a \<le> b \<or> b \<le> a" by (simp only: less_eq_nrf_service_metadata_def) (rule linear)
qed

end

record compiled_upstream_server =
  cs_host :: string
  cs_port :: nat
  cs_weight :: nat
  cs_api_prefix :: "string option"
  cs_nrf_service :: "nrf_service_metadata option"

definition show_server :: "compiled_upstream_server \<Rightarrow> string" where
  "show_server s =
     cs_host s @ '':'' @ show_nat (cs_port s) @
     (case cs_api_prefix s of None \<Rightarrow> [] | Some p \<Rightarrow> p)"

datatype health_check_type = HcTcp | HcHttp string string bool

record compiled_health_check =
  ch_check_type :: health_check_type
  ch_timeout :: duration
  ch_interval :: duration
  ch_consecutive_success :: nat
  ch_consecutive_failure :: nat

record compiled_nrf_discovery =
  cn_api_root :: url
  cn_target_nf_type :: string
  cn_requester_nf_type :: string
  cn_service_name :: string
  cn_endpoint_scheme :: nrf_endpoint_scheme
  cn_timeout :: duration
  cn_stale_if_error :: duration
  cn_tls_options :: upstream_ssl_options

record compiled_upstream_group =
  cg_allow_empty :: bool
  cg_name :: string
  cg_policy :: upstream_selection_policy
  cg_hash_key :: "upstream_hash_key option"
  cg_servers :: "compiled_upstream_server list"
  cg_nrf_discovery :: "compiled_nrf_discovery option"
  cg_health_check :: "compiled_health_check option"

section \<open>Routes\<close>

datatype route_target =
    WeightedBackends "compiled_weighted_backend list"
  | DirectResponse nat
  | HttpRedirect http_redirect
  | Scp string
  | ProxyPassTo string nat bool string
  | UpstreamGroup string bool
  | Return nat string
and compiled_weighted_backend =
  CompiledWeightedBackend (cwb_weight: nat) (cwb_target: route_target)

datatype compiled_matcher =
    CmHttp http_match
  | CmPrefix string
  | CmExact string
  | CmRegex bool string
  | CmPreferPrefix string
  | CmNamed string

definition compiled_regex_new :: "externals \<Rightarrow> string \<Rightarrow> bool \<Rightarrow> (string, compiled_matcher) result" where
  "compiled_regex_new x pattern case_insensitive =
     (if ext_regex_ok x case_insensitive pattern then Inr (CmRegex case_insensitive pattern)
      else Inl (''invalid location regex '' @ pattern))"

record compiled_location =
  co_client_limits :: client_limits
  co_url_rewrite :: "url_rewrite option"
  co_route_id :: nat
  co_matcher :: compiled_matcher
  co_access_rules :: "location_ip_rule list"
  co_target :: route_target
  co_upstream_timeouts :: upstream_timeouts
  co_upstream_protocol :: "upstream_http_protocol option"
  co_upstream_http2 :: upstream_http2_options
  co_upstream_ssl_options :: upstream_ssl_options
  co_plugins :: "plugin_spec list"
  co_cache :: "cache_config option"

record server_routes =
  sr_locations :: "compiled_location list"

record virtual_host_routes =
  vh_named :: "(string, server_routes) hmap"
  vh_default :: "server_routes option"

definition vhost_default :: virtual_host_routes where
  "vhost_default = \<lparr>vh_named = [], vh_default = None\<rparr>"

record http_runtime_options =
  ho_real_ip :: "real_ip_config option"
  ho_client_header_timeout :: "duration option"
  ho_client_body_timeout :: "duration option"
  ho_send_timeout :: "duration option"
  ho_downstream_keepalive_timeout :: "nat option"
  ho_keepalive_requests :: "nat option"
  ho_client_max_body_size :: "nat option"
  ho_proxy_cache_max_size :: "nat option"
  ho_tcp_nodelay :: bool
  ho_allow_connect_method_proxying :: bool
  ho_h2c :: bool
  ho_http2 :: http2_options

record compiled_router =
  cr_geoip :: "geoip_config option"
  cr_scp_profiles :: "(string, scp_profile) hmap"
  cr_upstreams :: "(string, compiled_upstream_group) hmap"
  cr_listeners :: "(listen_key, virtual_host_routes) hmap"
  cr_listener_protocols :: "(listen_key, listener_protocol_config) hmap"
  cr_listener_tls :: "(listen_key, listener_tls_config) hmap"
  cr_http_options :: http_runtime_options
  cr_le_config :: "lets_encrypt_config option"

definition http_runtime_options_default :: http_runtime_options where
  "http_runtime_options_default =
     \<lparr>ho_real_ip = None, ho_client_header_timeout = None, ho_client_body_timeout = None,
      ho_send_timeout = None, ho_downstream_keepalive_timeout = None, ho_keepalive_requests = None,
      ho_client_max_body_size = None, ho_proxy_cache_max_size = None, ho_tcp_nodelay = False,
      ho_allow_connect_method_proxying = False, ho_h2c = False, ho_http2 = http2_default\<rparr>"

definition compiled_router_default :: compiled_router where
  "compiled_router_default =
     \<lparr>cr_geoip = None, cr_scp_profiles = [], cr_upstreams = [], cr_listeners = [],
      cr_listener_protocols = [], cr_listener_tls = [],
      cr_http_options = http_runtime_options_default, cr_le_config = None\<rparr>"

text \<open>A location with nothing but a matcher and a target, for examples.\<close>

definition plain_location :: "nat \<Rightarrow> compiled_matcher \<Rightarrow> route_target \<Rightarrow> compiled_location" where
  "plain_location i m t =
     \<lparr>co_client_limits = client_limits_default, co_url_rewrite = None, co_route_id = i,
      co_matcher = m, co_access_rules = [], co_target = t,
      co_upstream_timeouts = upstream_timeouts_default, co_upstream_protocol = None,
      co_upstream_http2 = upstream_http2_default, co_upstream_ssl_options = upstream_ssl_default,
      co_plugins = [], co_cache = None\<rparr>"

end
