(* ===== verification/Client_Ip.thy ===== *)
theory Client_Ip
  imports Types
begin

text \<open>
  The client address behind trusted proxies
  (\<^verbatim>\<open>crates/ngxora-plugin-api/src/client_ip.rs\<close>), with the textual form of addresses as the standard
  library parses and prints it.
\<close>

section \<open>Addresses as text\<close>

text \<open>
  \<^verbatim>\<open>IpAddr::from_str\<close>. Each reader takes the rest of the text and returns the value and what
  follows, or fails and consumes nothing. A number that has more digits than allowed is an
  error, not a shorter number.
\<close>

definition digit_of :: "nat \<Rightarrow> char \<Rightarrow> nat option" where
  "digit_of radix c =
     (if is_ascii_digit c then Some (byte c - 48)
      else if radix = 16 \<and> 97 \<le> byte c \<and> byte c \<le> 102 then Some (byte c - 87)
      else if radix = 16 \<and> 65 \<le> byte c \<and> byte c \<le> 70 then Some (byte c - 55)
      else None)"

definition read_number :: "nat \<Rightarrow> nat \<Rightarrow> bool \<Rightarrow> nat \<Rightarrow> string \<Rightarrow> (nat \<times> string) option" where
  "read_number radix max_digits allow_zero_prefix max_value s =
     (let ds = takeWhile (\<lambda>c. digit_of radix c \<noteq> None) s;
          v = foldl (\<lambda>a c. a * radix + the (digit_of radix c)) 0 ds
      in if ds = [] \<or> max_digits < length ds \<or>
            (\<not> allow_zero_prefix \<and> hd ds = CHR ''0'' \<and> 1 < length ds) \<or> max_value < v
         then None else Some (v, drop (length ds) s))"

definition read_given_char :: "char \<Rightarrow> string \<Rightarrow> string option" where
  "read_given_char c s = (case s of [] \<Rightarrow> None | d # r \<Rightarrow> if d = c then Some r else None)"

definition read_separator ::
  "char \<Rightarrow> nat \<Rightarrow> (string \<Rightarrow> ('a \<times> string) option) \<Rightarrow> string \<Rightarrow> ('a \<times> string) option" where
  "read_separator sep index inner s =
     (if 0 < index then Option.bind (read_given_char sep s) inner else inner s)"

definition read_octet :: "nat \<Rightarrow> string \<Rightarrow> (nat \<times> string) option" where
  "read_octet i s = read_separator CHR ''.'' i (read_number 10 3 False 255) s"

definition read_octets :: "string \<Rightarrow> ((nat \<times> nat \<times> nat \<times> nat) \<times> string) option" where
  "read_octets s =
     Option.bind (read_octet 0 s) (\<lambda>(a, s1).
     Option.bind (read_octet 1 s1) (\<lambda>(b, s2).
     Option.bind (read_octet 2 s2) (\<lambda>(c, s3).
     Option.bind (read_octet 3 s3) (\<lambda>(d, s4). Some ((a, b, c, d), s4)))))"

definition ipv4_of_octets :: "nat \<times> nat \<times> nat \<times> nat \<Rightarrow> 32 word" where
  "ipv4_of_octets = (\<lambda>(a, b, c, d).
     of_nat a * 16777216 + of_nat b * 65536 + of_nat c * 256 + of_nat d)"

text \<open>
  \<^verbatim>\<open>read_groups\<close> with \<open>n\<close> slots left of the slice: the groups, whether the last two came from an
  embedded IPv4 address, and the rest.
\<close>

fun read_groups :: "nat \<Rightarrow> nat \<Rightarrow> string \<Rightarrow> nat list \<times> bool \<times> string" where
  "read_groups i 0 s = ([], False, s)"
| "read_groups i (Suc n) s =
     (case (if 0 < n then read_separator CHR '':'' i read_octets s else None) of
        Some ((a, b, c, d), r) \<Rightarrow> ([a * 256 + b, c * 256 + d], True, r)
      | None \<Rightarrow>
          (case read_separator CHR '':'' i (read_number 16 4 True 65535) s of
             None \<Rightarrow> ([], False, s)
           | Some (g, r) \<Rightarrow>
               (case read_groups (Suc i) n r of (gs, v4, r') \<Rightarrow> (g # gs, v4, r'))))"

definition groups_value :: "nat list \<Rightarrow> 128 word" where
  "groups_value gs = foldl (\<lambda>a g. a * 65536 + of_nat g) 0 gs"

definition read_ipv6_addr :: "string \<Rightarrow> (128 word \<times> string) option" where
  "read_ipv6_addr s =
     (case read_groups 0 8 s of
        (head, head_ipv4, s1) \<Rightarrow>
          if length head = 8 then Some (groups_value head, s1)
          else if head_ipv4 then None
          else
            Option.bind (read_given_char CHR '':'' s1) (\<lambda>s2.
            Option.bind (read_given_char CHR '':'' s2) (\<lambda>s3.
              case read_groups 0 (8 - (length head + 1)) s3 of
                (tail, _, s4) \<Rightarrow>
                  Some (groups_value (head @ replicate (8 - length head - length tail) 0 @ tail), s4))))"

definition parse_ip :: "string \<Rightarrow> ip_addr option" where
  "parse_ip s =
     (case read_octets s of
        Some (q, r) \<Rightarrow> if r = [] then Some (V4 (ipv4_of_octets q)) else None
      | None \<Rightarrow>
          (case read_ipv6_addr s of
             Some (w, r) \<Rightarrow> if r = [] then Some (V6 w) else None
           | None \<Rightarrow> None))"

text \<open>\<^verbatim>\<open>to_string\<close> of an IPv4 address.\<close>

definition show_ipv4 :: "32 word \<Rightarrow> string" where
  "show_ipv4 w =
     (let n = unat w
      in show_nat (n div 16777216) @ ''.'' @ show_nat (n div 65536 mod 256) @ ''.'' @
         show_nat (n div 256 mod 256) @ ''.'' @ show_nat (n mod 256))"

text \<open>
  \<^verbatim>\<open>to_string\<close> of an IPv6 address: an IPv4-mapped address ends in its dotted quad; otherwise the first
  longest run of at least two zero segments is written as two colons.
\<close>

definition hex_digit :: "nat \<Rightarrow> char" where
  "hex_digit d = (if d < 10 then char_of (48 + d) else char_of (87 + d))"

fun show_hex :: "nat \<Rightarrow> string" where
  "show_hex n = (if n < 16 then [hex_digit n] else show_hex (n div 16) @ [hex_digit (n mod 16)])"

definition segments :: "128 word \<Rightarrow> nat list" where
  "segments w = map (\<lambda>i. unat (drop_bit (16 * (7 - i)) w) mod 65536) [0..<8]"

text \<open>The scan for the longest run: position, current run and longest run as (start, length).\<close>

fun zero_span :: "nat \<Rightarrow> nat \<times> nat \<Rightarrow> nat \<times> nat \<Rightarrow> nat list \<Rightarrow> nat \<times> nat" where
  "zero_span i cur longest [] = longest"
| "zero_span i cur longest (g # gs) =
     (if g = 0 then
        let cur' = (if snd cur = 0 then i else fst cur, snd cur + 1)
        in zero_span (i + 1) cur' (if snd longest < snd cur' then cur' else longest) gs
      else zero_span (i + 1) (0, 0) longest gs)"

definition show_segments :: "nat list \<Rightarrow> string" where
  "show_segments gs = join_with '':'' (map show_hex gs)"

definition show_ipv6 :: "128 word \<Rightarrow> string" where
  "show_ipv6 w =
     (let gs = segments w
      in if take 6 gs = [0, 0, 0, 0, 0, 65535] then ''::ffff:'' @ show_ipv4 (ucast w)
         else case zero_span 0 (0, 0) (0, 0) gs of
           (start, len) \<Rightarrow>
             if 1 < len
             then show_segments (take start gs) @ ''::'' @ show_segments (drop (start + len) gs)
             else show_segments gs)"

definition show_ip :: "ip_addr \<Rightarrow> string" where
  "show_ip a = (case a of V4 w \<Rightarrow> show_ipv4 w | V6 w \<Rightarrow> show_ipv6 w)"

section \<open>Resolving the chain\<close>

record resolved_client_ip =
  rc_chain :: "ip_addr list option"

definition is_trusted :: "externals \<Rightarrow> ip_net list \<Rightarrow> ip_addr \<Rightarrow> bool" where
  "is_trusted x nets ip \<longleftrightarrow> list_ex (\<lambda>n. ext_net_contains x n ip) nets"

text \<open>\<^verbatim>\<open>raw.split(',').map(|ip| ip.trim().parse()).collect()\<close>.\<close>

fun all_some :: "'a option list \<Rightarrow> 'a list option" where
  "all_some [] = Some []"
| "all_some (None # r) = None"
| "all_some (Some a # r) = map_option (\<lambda>as. a # as) (all_some r)"

definition parse_forwarded :: "string \<Rightarrow> ip_addr list option" where
  "parse_forwarded raw = all_some (map (\<lambda>s. parse_ip (trim s)) (split_on CHR '','' raw))"

text \<open>The loop pops the last address; the list here is reversed, so that popping is structural.\<close>

fun chain_loop :: "(ip_addr \<Rightarrow> bool) \<Rightarrow> ip_addr \<Rightarrow> ip_addr list \<Rightarrow> ip_addr list \<Rightarrow> ip_addr list" where
  "chain_loop trusted current chain [] = chain"
| "chain_loop trusted current chain (next # rest) =
     (if trusted current then chain_loop trusted next (chain @ [next]) rest else chain)"

definition resolve_chain ::
  "externals \<Rightarrow> ip_addr option \<Rightarrow> string option \<Rightarrow> ip_net list \<Rightarrow> ip_addr list option" where
  "resolve_chain x peer forwarded_for trusted_proxies =
     Option.bind peer (\<lambda>p.
       if \<not> is_trusted x trusted_proxies p then Some [p]
       else
         (case forwarded_for of
            None \<Rightarrow> Some [p]
          | Some raw \<Rightarrow>
              (case parse_forwarded raw of
                 None \<Rightarrow> Some [p]
               | Some forwarded \<Rightarrow>
                   Some (rev (chain_loop (is_trusted x trusted_proxies) p [p] (rev forwarded))))))"

definition resolve_headers ::
  "externals \<Rightarrow> ip_addr option \<Rightarrow> header_map \<Rightarrow> string \<Rightarrow> ip_net list \<Rightarrow> bool \<Rightarrow> ip_addr list option" where
  "resolve_headers x peer headers header trusted_proxies recursive =
     Option.bind peer (\<lambda>p.
       if \<not> is_trusted x trusted_proxies p \<or> length (hdr_get_all headers header) \<noteq> 1 then Some [p]
       else
         (case Option.bind (hdr_get headers header) (ext_to_str x) of
            None \<Rightarrow> Some [p]
          | Some raw \<Rightarrow>
              if eq_ignore_ascii_case header ''x-real-ip'' then
                (case parse_ip (trim raw) of Some ip \<Rightarrow> Some [ip, p] | None \<Rightarrow> Some [p])
              else if recursive then resolve_chain x (Some p) (Some raw) trusted_proxies
              else
                (case parse_forwarded raw of
                   None \<Rightarrow> Some [p]
                 | Some chain \<Rightarrow> if chain = [] then Some [p] else Some [last chain, p])))"

section \<open>The vouched part of the chain\<close>

text \<open>From the peer outwards, a hop counts when every hop before it is trusted.\<close>

fun vouched :: "(ip_addr \<Rightarrow> bool) \<Rightarrow> ip_addr list \<Rightarrow> ip_addr list" where
  "vouched t [] = []"
| "vouched t (a # r) = a # (if t a then vouched t r else [])"

lemma chain_loop_vouched: "chain_loop t cur chain rest = chain @ tl (vouched t (cur # rest))"
proof (induction t cur chain rest rule: chain_loop.induct)
  case (1 t cur chain)
  then show ?case by (simp add: if_split)
next
  case (2 t cur chain nxt rest)
  then show ?case by simp
qed

lemma vouched_prefix:
  "\<exists>post. hops = vouched t hops @ post \<and> (\<forall>a \<in> set (butlast (vouched t hops)). t a) \<and>
     (post \<noteq> [] \<longrightarrow> \<not> t (last (vouched t hops)))"
proof (induction t hops rule: vouched.induct)
  case (1 t)
  then show ?case by simp
next
  case (2 t a r)
  show ?case
  proof (cases "t a \<and> r \<noteq> []")
    case True
    with 2 obtain post where "r = vouched t r @ post" "\<forall>a \<in> set (butlast (vouched t r)). t a"
      "post \<noteq> [] \<longrightarrow> \<not> t (last (vouched t r))" by auto
    moreover from True have "vouched t r \<noteq> []" by (cases r) auto
    ultimately show ?thesis using True by (intro exI [of _ post]) simp
  next
    case False
    then show ?thesis by auto
  qed
qed

lemma vouched_append:
  "vouched t xs \<noteq> [] \<Longrightarrow> \<not> t (last (vouched t xs)) \<Longrightarrow> vouched t (xs @ ys) = vouched t xs"
  by (induction t xs rule: vouched.induct) (auto split: if_splits)

lemma resolve_chain_eq:
  "resolve_chain x (Some p) (Some raw) nets =
     Some (case parse_forwarded raw of
             None \<Rightarrow> [p]
           | Some fwd \<Rightarrow> rev (vouched (is_trusted x nets) (p # rev fwd)))"
  by (auto simp: resolve_chain_def chain_loop_vouched split: option.split)

lemma all_some_append:
  "all_some (xs @ ys) =
     (case all_some xs of None \<Rightarrow> None | Some as \<Rightarrow> map_option (\<lambda>bs. as @ bs) (all_some ys))"
  by (induction xs rule: all_some.induct; cases "all_some ys") (auto split: option.split)

lemma parse_forwarded_append:
  "parse_forwarded (junk @ CHR '','' # raw) =
     (case parse_forwarded junk of
        None \<Rightarrow> None
      | Some as \<Rightarrow> map_option (\<lambda>bs. as @ bs) (parse_forwarded raw))"
  unfolding parse_forwarded_def split_on_append map_append all_some_append by (rule refl)

lemma resolve_chain_nonempty: "resolve_chain x p fwd nets \<noteq> Some []"
proof (cases p)
  case (Some q)
  then show ?thesis
    by (cases fwd) (auto simp: resolve_chain_def chain_loop_vouched split: option.split)
qed (simp add: resolve_chain_def)

lemma resolve_headers_nonempty: "resolve_headers x p h name nets r \<noteq> Some []"
  by (cases p)
    (auto simp: resolve_headers_def resolve_chain_nonempty split: option.split)

section \<open>Claims\<close>

text \<open>
  The chain of client addresses is exactly the part of the forwarded list that trusted hops
  vouch for: it is a final segment of the addresses of the header followed by the peer, every
  address in it but the first is a trusted proxy, and it cannot be extended, because it is the
  whole list or its first address is not trusted.
\<close>

lemma resolve_chain_vouched:
  assumes "parse_forwarded raw = Some fwd"
  shows "\<exists>pre c. resolve_chain x (Some p) (Some raw) nets = Some c \<and> fwd @ [p] = pre @ c \<and> c \<noteq> [] \<and>
    list_all (is_trusted x nets) (tl c) \<and> (pre \<noteq> [] \<longrightarrow> \<not> is_trusted x nets (hd c))"
proof -
  let ?v = "vouched (is_trusted x nets) (p # rev fwd)"
  obtain post where post: "p # rev fwd = ?v @ post" "\<forall>a \<in> set (butlast ?v). is_trusted x nets a"
    "post \<noteq> [] \<longrightarrow> \<not> is_trusted x nets (last ?v)"
    using vouched_prefix by blast
  from arg_cong [OF post(1), of rev] have "fwd @ [p] = rev post @ rev ?v" by simp
  moreover have "tl (rev ?v) = rev (butlast ?v)" by (metis butlast_rev rev_swap)
  moreover have "?v \<noteq> []" by simp
  ultimately show ?thesis
    using post(2,3) assms
    by (intro exI [of _ "rev post"] exI [of _ "rev ?v"])
      (simp add: resolve_chain_eq list_all_iff hd_rev del: vouched.simps)
qed

text \<open>
  C17. A client cannot forge its address: whatever it puts into the header in front of what the
  proxies appended, the chain stays the same or, if the addition does not parse, falls back to
  the peer. The hypothesis is that the proxies' part reaches an address that is not trusted.
\<close>

theorem resolve_chain_unspoofable:
  assumes "resolve_chain x (Some p) (Some raw) nets = Some c" and "\<not> is_trusted x nets (hd c)"
  shows "resolve_chain x (Some p) (Some (junk @ '','' @ raw)) nets \<in> {Some [p], Some c}"
proof (cases "parse_forwarded raw")
  case None
  then show ?thesis
    by (auto simp: resolve_chain_eq parse_forwarded_append split: option.split)
next
  case (Some fwd)
  let ?v = "vouched (is_trusted x nets) (p # rev fwd)"
  from assms(1) Some have c: "c = rev ?v" by (simp add: resolve_chain_eq)
  with assms(2) have "vouched (is_trusted x nets) ((p # rev fwd) @ ys) = ?v" for ys
    by (intro vouched_append) (simp, simp add: hd_rev del: vouched.simps)
  with Some c show ?thesis
    by (cases "parse_forwarded junk")
      (simp_all add: resolve_chain_eq parse_forwarded_append del: vouched.simps)
qed

theorem resolve_chain_unspoofable_witness:
  "resolve_chain plain_ext (Some (V4 0x0A000001)) (Some (''1.1.1.1'' @ '','' @ ''198.51.100.2'')) [IpNet ''10.0.0.0/8''] \<in>
     {Some [V4 0x0A000001], Some [V4 0xC6336402, V4 0x0A000001]}"
proof -
  have "resolve_chain plain_ext (Some (V4 0x0A000001)) (Some ''198.51.100.2'') [IpNet ''10.0.0.0/8''] =
      Some [V4 0xC6336402, V4 0x0A000001]" by code_simp
  moreover have "\<not> is_trusted plain_ext [IpNet ''10.0.0.0/8''] (hd [V4 0xC6336402, V4 0x0A000001])"
    by code_simp
  ultimately show ?thesis by (rule resolve_chain_unspoofable)
qed

text \<open>
  With a known peer the client chain is always defined and ends with the peer, and headers
  sent by a peer that is not a trusted proxy are ignored, whichever header is configured.
\<close>

lemma resolve_headers_peer:
  "\<exists>c. resolve_headers x (Some p) headers header nets recursive = Some c \<and> c \<noteq> [] \<and> last c = p \<and>
    (is_trusted x nets p \<or> c = [p])"
proof -
  have "last (rev (vouched t (p # r))) = p" for t r by simp
  then show ?thesis
    by (auto simp: resolve_headers_def resolve_chain_eq split: option.split)
qed

end
