(* ===== verification/Plugin_Api.thy ===== *)
theory Plugin_Api
  imports Client_Ip
begin

text \<open>
  The interface between the proxy and its plugins: the contexts a hook sees and edits, local
  responses and the outcome of a hook (\<^verbatim>\<open>crates/ngxora-plugin-api/src/lib.rs\<close>), the header editors
  (\<^verbatim>\<open>upstreams/runtime/response.rs\<close>), and the registry that builds a route's chain
  (\<^verbatim>\<open>crates/ngxora-plugin-registry/src/lib.rs\<close>).

  A hook either fails or returns its outcome with the edited context. When it fails the request
  is abandoned, so edits made before the failure are not kept in the model.
\<close>

section \<open>Errors, responses and contexts\<close>

record plugin_error =
  pe_plugin :: string
  pe_message :: string

definition plugin_error_new :: "string \<Rightarrow> string \<Rightarrow> plugin_error" where
  "plugin_error_new p m = \<lparr>pe_plugin = p, pe_message = m\<rparr>"

record plugin_build_error =
  pb_plugin :: string
  pb_message :: string

definition plugin_build_error_new :: "string \<Rightarrow> string \<Rightarrow> plugin_build_error" where
  "plugin_build_error_new p m = \<lparr>pb_plugin = p, pb_message = m\<rparr>"

text \<open>\<^verbatim>\<open>PluginState\<close>: the one type the program stores among the extensions.\<close>

record plugin_state =
  st_resolved :: "resolved_client_ip option"

record request_ctx =
  cx_state :: plugin_state
  cx_path :: string
  cx_host :: "string option"
  cx_method :: string
  cx_client_ip :: "ip_addr option"
  cx_headers :: header_map

record upstream_request_ctx =
  uq_state :: plugin_state
  uq_headers :: header_map

record response_ctx =
  rs_state :: plugin_state
  rs_status :: nat
  rs_headers :: header_map

record local_response =
  lr_status :: nat
  lr_headers :: header_map
  lr_body :: string

definition local_response_new :: "nat \<Rightarrow> string \<Rightarrow> local_response" where
  "local_response_new status body = \<lparr>lr_status = status, lr_headers = [], lr_body = body\<rparr>"

text \<open>\<^verbatim>\<open>response.headers.push((name, value))\<close>.\<close>

definition push_header :: "string \<Rightarrow> string \<Rightarrow> local_response \<Rightarrow> local_response" where
  "push_header n v r = r\<lparr>lr_headers := lr_headers r @ [(n, v)]\<rparr>"

datatype plugin_flow = Continue | Respond local_response

type_synonym 'c hook_result = "(plugin_error, plugin_flow \<times> 'c) result"

section \<open>Header editors\<close>

text \<open>
  \<^verbatim>\<open>HeaderMapMut\<close> for request and response headers: both forward to Pingora, whose refusal becomes
  a plugin error. The error text ends with the library's own message, which is left out.
\<close>

definition header_editor_error :: "string \<Rightarrow> string \<Rightarrow> plugin_error" where
  "header_editor_error action name =
     plugin_error_new ''header-editor'' (''failed to '' @ action @ '' header `'' @ name @ ''`'')"

definition editor_add :: "externals \<Rightarrow> header_map \<Rightarrow> string \<Rightarrow> string \<Rightarrow> (plugin_error, header_map) result" where
  "editor_add x h n v =
     (if ext_header_fits x h n v then Inr (hdr_append h n v) else Inl (header_editor_error ''append'' n))"

definition editor_set :: "externals \<Rightarrow> header_map \<Rightarrow> string \<Rightarrow> string \<Rightarrow> (plugin_error, header_map) result" where
  "editor_set x h n v =
     (if ext_header_fits x h n v then Inr (hdr_insert h n v) else Inl (header_editor_error ''insert'' n))"

definition editor_remove :: "header_map \<Rightarrow> string \<Rightarrow> header_map" where
  "editor_remove h n = hdr_remove h n"

lemma editor_add_ok [res_simps]:
  "editor_add x h n v = Inr h' \<longleftrightarrow> ext_header_fits x h n v \<and> h' = hdr_append h n v"
  by (auto simp: editor_add_def)

lemma editor_set_ok [res_simps]:
  "editor_set x h n v = Inr h' \<longleftrightarrow> ext_header_fits x h n v \<and> h' = hdr_insert h n v"
  by (auto simp: editor_set_def)

section \<open>The registry\<close>

record 'p plugin_factory =
  pf_name :: string
  pf_build :: "plugin_spec \<Rightarrow> (plugin_build_error, 'p) result"

type_synonym 'p plugin_registry = "(string, 'p plugin_factory) hmap"

definition registry_new :: "'p plugin_registry" where
  "registry_new = []"

definition register :: "'p plugin_factory \<Rightarrow> 'p plugin_registry \<Rightarrow> 'p plugin_registry" where
  "register f r = hm_insert (pf_name f) f r"

definition build_plugin :: "'p plugin_registry \<Rightarrow> plugin_spec \<Rightarrow> (plugin_build_error, 'p) result" where
  "build_plugin r spec =
     (case hm_get r (ps_name spec) of
        None \<Rightarrow> Inl (plugin_build_error_new (ps_name spec) ''plugin is not compiled into this binary'')
      | Some f \<Rightarrow> pf_build f spec)"

text \<open>The loop of \<^verbatim>\<open>build_chain\<close>: the plugins built so far are \<open>chain\<close>.\<close>

fun build_chain_loop ::
  "'p plugin_registry \<Rightarrow> 'p list \<Rightarrow> plugin_spec list \<Rightarrow> (plugin_build_error, 'p list) result" where
  "build_chain_loop r chain [] = Inr chain"
| "build_chain_loop r chain (spec # specs) =
     and_then (build_plugin r spec) (\<lambda>p. build_chain_loop r (chain @ [p]) specs)"

definition build_chain :: "'p plugin_registry \<Rightarrow> plugin_spec list \<Rightarrow> (plugin_build_error, 'p list) result" where
  "build_chain r specs = build_chain_loop r [] specs"

lemma build_chain_loop_map_res:
  "build_chain_loop r chain specs =
     and_then (map_res (build_plugin r) specs) (\<lambda>ps. Inr (chain @ ps))"
proof (induction specs arbitrary: chain)
  case Nil
  then show ?case by simp
next
  case (Cons spec specs)
  then show ?case
    by (cases "build_plugin r spec"; cases "map_res (build_plugin r) specs") simp_all
qed

lemma build_chain_map_res: "build_chain r specs = map_res (build_plugin r) specs"
  by (cases "map_res (build_plugin r) specs") (simp_all add: build_chain_def build_chain_loop_map_res)

text \<open>A built chain has one plugin per specification, in the order of the specifications.\<close>

lemma build_chain_ok_iff:
  "build_chain r specs = Inr chain \<longleftrightarrow> list_all2 (\<lambda>spec p. build_plugin r spec = Inr p) specs chain"
  by (simp add: build_chain_map_res map_res_Inr_iff)

lemma build_chain_append:
  "build_chain r (as @ bs) =
     and_then (build_chain r as) (\<lambda>ps. and_then (build_chain r bs) (\<lambda>qs. Inr (ps @ qs)))"
proof (induction as)
  case Nil
  then show ?case by (cases "map_res (build_plugin r) bs") (simp_all add: build_chain_map_res)
next
  case (Cons a as)
  then show ?case
    by (cases "build_plugin r a"; cases "map_res (build_plugin r) as"; cases "map_res (build_plugin r) bs")
      (simp_all add: build_chain_map_res)
qed

text \<open>Registering replaces the factory of the name and no other.\<close>

lemma build_plugin_register:
  "build_plugin (register f r) spec =
     (if ps_name spec = pf_name f then pf_build f spec else build_plugin r spec)"
  by (simp add: build_plugin_def register_def)

end
