(* ===== verification/Ext_Headers.thy ===== *)
theory Ext_Headers
  imports Plugin_Api
begin

text \<open>
  The \<^verbatim>\<open>headers\<close> plugin (\<^verbatim>\<open>crates/extensions/headers/src/lib.rs\<close>): patches of request, upstream and
  response headers, and forwarding of the resolved client address.

  Decoding a configuration from JSON and parsing a network are arguments of the factory.
\<close>

section \<open>Configuration\<close>

record header_entry =
  he_name :: string
  he_value :: string

record header_patch_config =
  hpc_add :: "header_entry list"
  hpc_set :: "header_entry list"
  hpc_remove :: "string list"

record headers_plugin_config =
  hc_forward_client_ip :: bool
  hc_trusted_proxies :: "string list"
  hc_request :: header_patch_config
  hc_upstream_request :: header_patch_config
  hc_response :: header_patch_config

record header_value_op =
  hv_name :: string
  hv_value :: string

record header_patch =
  hp_add :: "header_value_op list"
  hp_set :: "header_value_op list"
  hp_remove :: "string list"

definition compile_entry :: "externals \<Rightarrow> string \<Rightarrow> header_entry \<Rightarrow> (plugin_build_error, header_value_op) result" where
  "compile_entry x plugin entry =
     and_then (ok_or (plugin_build_error_new plugin (''invalid header name `'' @ he_name entry @ ''`''))
       (ext_header_name x (he_name entry))) (\<lambda>name.
     and_then (reject (\<not> ext_header_value_ok x (he_value entry))
       (plugin_build_error_new plugin (''invalid header value for `'' @ he_name entry @ ''`''))) (\<lambda>_.
     Inr \<lparr>hv_name = name, hv_value = he_value entry\<rparr>))"

definition patch_compile :: "externals \<Rightarrow> string \<Rightarrow> header_patch_config \<Rightarrow> (plugin_build_error, header_patch) result" where
  "patch_compile x plugin raw =
     and_then (map_res (compile_entry x plugin) (hpc_add raw)) (\<lambda>add.
     and_then (map_res (compile_entry x plugin) (hpc_set raw)) (\<lambda>set.
     and_then (map_res (\<lambda>name. ok_or (plugin_build_error_new plugin (''invalid header name `'' @ name @ ''`''))
         (ext_header_name x name)) (hpc_remove raw)) (\<lambda>remove.
     Inr \<lparr>hp_add = add, hp_set = set, hp_remove = remove\<rparr>)))"

section \<open>Applying a patch\<close>

definition patch_apply :: "externals \<Rightarrow> header_patch \<Rightarrow> header_map \<Rightarrow> (plugin_error, header_map) result" where
  "patch_apply x p h =
     and_then (fold_res (\<lambda>h op. editor_set x h (hv_name op) (hv_value op))
         (foldl editor_remove h (hp_remove p)) (hp_set p)) (\<lambda>h'.
       fold_res (\<lambda>h op. editor_add x h (hv_name op) (hv_value op)) h' (hp_add p))"

section \<open>Forwarding the client address\<close>

definition X_FORWARDED_FOR :: string where "X_FORWARDED_FOR = ''x-forwarded-for''"
definition X_REAL_IP :: string where "X_REAL_IP = ''x-real-ip''"

record client_ip_forwarding =
  cf_trusted_proxies :: "ip_net list"

definition fwd_resolve_chain ::
  "externals \<Rightarrow> client_ip_forwarding \<Rightarrow> ip_addr option \<Rightarrow> header_map \<Rightarrow> ip_addr list option" where
  "fwd_resolve_chain x f client_ip headers =
     resolve_chain x client_ip (Option.bind (hdr_get headers X_FORWARDED_FOR) (ext_to_str x))
       (cf_trusted_proxies f)"

text \<open>The \<^verbatim>\<open>expect\<close> on an empty chain is a panic, written as an error that names it.\<close>

definition empty_chain_panic :: "string \<Rightarrow> plugin_error" where
  "empty_chain_panic plugin = plugin_error_new plugin ''panic: resolved client IP chain is never empty''"

definition fwd_apply ::
  "externals \<Rightarrow> string \<Rightarrow> ip_addr list option \<Rightarrow> header_map \<Rightarrow> (plugin_error, header_map) result" where
  "fwd_apply x plugin chain headers =
     (case chain of
        None \<Rightarrow> Inr (editor_remove (editor_remove headers X_REAL_IP) X_FORWARDED_FOR)
      | Some [] \<Rightarrow> Inl (empty_chain_panic plugin)
      | Some (ip # ips) \<Rightarrow>
          let client_ip = show_ip ip;
              forwarded_for = join_with '', '' (map show_ip (ip # ips))
          in
          and_then (reject (\<not> ext_header_value_ok x client_ip)
            (plugin_error_new plugin ''failed to encode X-Real-IP'')) (\<lambda>_.
          and_then (reject (\<not> ext_header_value_ok x forwarded_for)
            (plugin_error_new plugin ''failed to encode X-Forwarded-For'')) (\<lambda>_.
          and_then (editor_set x headers X_REAL_IP client_ip) (\<lambda>h.
          editor_set x h X_FORWARDED_FOR forwarded_for))))"

definition compile_trusted_proxy ::
  "(string \<Rightarrow> ip_net option) \<Rightarrow> (ip_addr \<Rightarrow> ip_net) \<Rightarrow> string \<Rightarrow> string \<Rightarrow> (plugin_build_error, ip_net) result" where
  "compile_trusted_proxy parse_net net_of_ip plugin raw =
     (case parse_net raw of
        Some n \<Rightarrow> Inr n
      | None \<Rightarrow>
          (case parse_ip raw of
             Some ip \<Rightarrow> Inr (net_of_ip ip)
           | None \<Rightarrow> Inl (plugin_build_error_new plugin
               (''invalid trusted_proxy `'' @ raw @ ''`: expected an IP address or CIDR''))))"

section \<open>The plugin\<close>

record headers_plugin =
  hs_client_ip_forwarding :: "client_ip_forwarding option"
  hs_request :: header_patch
  hs_upstream_request :: header_patch
  hs_response :: header_patch

definition client_chain :: "externals \<Rightarrow> headers_plugin \<Rightarrow> request_ctx \<Rightarrow> ip_addr list option" where
  "client_chain x p ctx =
     (case st_resolved (cx_state ctx) of
        Some identity \<Rightarrow> rc_chain identity
      | None \<Rightarrow> Option.bind (hs_client_ip_forwarding p)
          (\<lambda>f. fwd_resolve_chain x f (cx_client_ip ctx) (cx_headers ctx)))"

definition headers_on_request :: "externals \<Rightarrow> headers_plugin \<Rightarrow> request_ctx \<Rightarrow> request_ctx hook_result" where
  "headers_on_request x p ctx =
     (let chain = client_chain x p ctx
      in and_then (patch_apply x (hs_request p) (cx_headers ctx)) (\<lambda>h.
         and_then (case hs_client_ip_forwarding p of
             None \<Rightarrow> Inr h
           | Some f \<Rightarrow> fwd_apply x ''headers'' chain h) (\<lambda>h'.
         Inr (Continue, ctx\<lparr>cx_headers := h'\<rparr>))))"

definition headers_on_upstream_request ::
  "externals \<Rightarrow> headers_plugin \<Rightarrow> upstream_request_ctx \<Rightarrow> upstream_request_ctx hook_result" where
  "headers_on_upstream_request x p ctx =
     and_then (patch_apply x (hs_upstream_request p) (uq_headers ctx)) (\<lambda>h.
     Inr (Continue, ctx\<lparr>uq_headers := h\<rparr>))"

definition headers_on_response :: "externals \<Rightarrow> headers_plugin \<Rightarrow> response_ctx \<Rightarrow> response_ctx hook_result" where
  "headers_on_response x p ctx =
     and_then (patch_apply x (hs_response p) (rs_headers ctx)) (\<lambda>h.
     Inr (Continue, ctx\<lparr>rs_headers := h\<rparr>))"

definition headers_build ::
  "externals \<Rightarrow> (json \<Rightarrow> headers_plugin_config option) \<Rightarrow> (string \<Rightarrow> ip_net option) \<Rightarrow> (ip_addr \<Rightarrow> ip_net) \<Rightarrow>
   plugin_spec \<Rightarrow> (plugin_build_error, headers_plugin) result" where
  "headers_build x decode parse_net net_of_ip spec =
     and_then (ok_or (plugin_build_error_new ''headers'' ''invalid plugin config'')
       (decode (ps_config spec))) (\<lambda>config.
     and_then (map_res (compile_trusted_proxy parse_net net_of_ip ''headers'') (hc_trusted_proxies config)) (\<lambda>nets.
     and_then (patch_compile x ''headers'' (hc_request config)) (\<lambda>request.
     and_then (patch_compile x ''headers'' (hc_upstream_request config)) (\<lambda>upstream_request.
     and_then (patch_compile x ''headers'' (hc_response config)) (\<lambda>response.
     Inr \<lparr>hs_client_ip_forwarding =
            (if hc_forward_client_ip config then Some \<lparr>cf_trusted_proxies = nets\<rparr> else None),
          hs_request = request, hs_upstream_request = upstream_request, hs_response = response\<rparr>)))))"

section \<open>What the operations leave\<close>

lemma foldl_remove_get:
  "hdr_get_all (foldl editor_remove h ns) n =
     (if list_ex (eq_ignore_ascii_case n) ns then [] else hdr_get_all h n)"
  by (induction ns arbitrary: h) (auto simp: editor_remove_def)

lemma fold_set_get:
  "fold_res (\<lambda>h op. editor_set x h (hv_name op) (hv_value op)) h ops = Inr h' \<Longrightarrow>
   hdr_get_all h' n =
     (case filter (\<lambda>op. eq_ignore_ascii_case n (hv_name op)) ops of
        [] \<Rightarrow> hdr_get_all h n
      | sets \<Rightarrow> [hv_value (last sets)])"
proof (induction ops arbitrary: h)
  case Nil
  then show ?case by simp
next
  case (Cons op ops)
  then show ?case by (auto simp: res_simps split: list.splits)
qed

lemma fold_add_get:
  "fold_res (\<lambda>h op. editor_add x h (hv_name op) (hv_value op)) h ops = Inr h' \<Longrightarrow>
   hdr_get_all h' n =
     hdr_get_all h n @ map hv_value (filter (\<lambda>op. eq_ignore_ascii_case n (hv_name op)) ops)"
proof (induction ops arbitrary: h)
  case Nil
  then show ?case by simp
next
  case (Cons op ops)
  then show ?case by (auto simp: res_simps)
qed

lemma fwd_apply_get:
  assumes "fwd_apply x plugin chain h = Inr h'"
  shows "hdr_get_all h' X_REAL_IP = (case chain of None \<Rightarrow> [] | Some c \<Rightarrow> [show_ip (hd c)])"
    and "hdr_get_all h' X_FORWARDED_FOR =
      (case chain of None \<Rightarrow> [] | Some c \<Rightarrow> [join_with '', '' (map show_ip c)])"
proof -
  have ne: "\<not> eq_ignore_ascii_case X_REAL_IP X_FORWARDED_FOR"
    "\<not> eq_ignore_ascii_case X_FORWARDED_FOR X_REAL_IP" by code_simp+
  from assms ne
  show "hdr_get_all h' X_REAL_IP = (case chain of None \<Rightarrow> [] | Some c \<Rightarrow> [show_ip (hd c)])"
    by (auto simp: fwd_apply_def res_simps editor_remove_def Let_def simp del: join_with.simps
        split: option.splits list.splits)
  from assms ne
  show "hdr_get_all h' X_FORWARDED_FOR =
      (case chain of None \<Rightarrow> [] | Some c \<Rightarrow> [join_with '', '' (map show_ip c)])"
    by (auto simp: fwd_apply_def res_simps editor_remove_def Let_def simp del: join_with.simps
        split: option.splits list.splits)
qed

lemma client_chain_nonempty:
  assumes "\<forall>i. st_resolved (cx_state ctx) = Some i \<longrightarrow> rc_chain i \<noteq> Some []"
  shows "client_chain x p ctx \<noteq> Some []"
  using assms
  by (auto simp: client_chain_def fwd_resolve_chain_def resolve_chain_nonempty bind_eq_Some_conv
      split: option.split)

section \<open>Claims\<close>

text \<open>
  After a header patch each header has exactly the values the configuration asks for: the last
  \<^verbatim>\<open>set\<close> of its name replaces what was there, a removed and not set header starts empty, any
  other keeps its values, and the added values follow in their order.
\<close>

lemma header_patch_values:
  assumes "patch_apply x p h = Inr h'"
  shows "hdr_get_all h' n =
    (case filter (\<lambda>op. eq_ignore_ascii_case n (hv_name op)) (hp_set p) of
       [] \<Rightarrow> if list_ex (eq_ignore_ascii_case n) (hp_remove p) then [] else hdr_get_all h n
     | sets \<Rightarrow> [hv_value (last sets)])
    @ map hv_value (filter (\<lambda>op. eq_ignore_ascii_case n (hv_name op)) (hp_add p))"
proof -
  from assms obtain h1 where
    "fold_res (\<lambda>h op. editor_set x h (hv_name op) (hv_value op))
       (foldl editor_remove h (hp_remove p)) (hp_set p) = Inr h1"
    "fold_res (\<lambda>h op. editor_add x h (hv_name op) (hv_value op)) h1 (hp_add p) = Inr h'"
    by (auto simp: patch_apply_def res_simps)
  from fold_set_get [OF this(1), of n] fold_add_get [OF this(2), of n] foldl_remove_get [of h "hp_remove p" n]
  show ?thesis by (simp split: list.split)
qed

definition sample_patch :: header_patch where
  "sample_patch =
     \<lparr>hp_add = [\<lparr>hv_name = ''via'', hv_value = ''b''\<rparr>],
      hp_set = [\<lparr>hv_name = ''via'', hv_value = ''a''\<rparr>], hp_remove = [''server'']\<rparr>"

text \<open>
  C36. When the plugin forwards the client address, the request it lets through carries exactly one
  \<^verbatim>\<open>X-Real-IP\<close> and one \<^verbatim>\<open>X-Forwarded-For\<close>, made from the resolved chain, and none when no address is
  known: nothing the client sent under these names, and nothing the configured patch wrote there,
  survives.
\<close>

theorem forwarded_identity_exclusive:
  assumes "headers_on_request x p ctx = Inr (flow, ctx')" and "hs_client_ip_forwarding p = Some f"
  shows "flow = Continue \<and>
    hdr_get_all (cx_headers ctx') ''X-Real-IP'' =
      (case client_chain x p ctx of None \<Rightarrow> [] | Some c \<Rightarrow> [show_ip (hd c)]) \<and>
    hdr_get_all (cx_headers ctx') ''X-Forwarded-For'' =
      (case client_chain x p ctx of None \<Rightarrow> [] | Some c \<Rightarrow> [join_with '', '' (map show_ip c)])"
proof -
  from assms obtain h h' where h: "fwd_apply x ''headers'' (client_chain x p ctx) h = Inr h'"
    and r: "flow = Continue" "ctx' = ctx\<lparr>cx_headers := h'\<rparr>"
    by (auto simp: headers_on_request_def Let_def res_simps)
  have "to_ascii_lowercase ''X-Real-IP'' = to_ascii_lowercase X_REAL_IP"
    "to_ascii_lowercase ''X-Forwarded-For'' = to_ascii_lowercase X_FORWARDED_FOR" by code_simp+
  then have "hdr_get_all h' ''X-Real-IP'' = hdr_get_all h' X_REAL_IP"
    "hdr_get_all h' ''X-Forwarded-For'' = hdr_get_all h' X_FORWARDED_FOR"
    by (simp_all only: hdr_get_all_def)
  with r fwd_apply_get [OF h] show ?thesis by simp
qed

definition sample_headers_plugin :: headers_plugin where
  "sample_headers_plugin =
     \<lparr>hs_client_ip_forwarding = Some \<lparr>cf_trusted_proxies = []\<rparr>, hs_request = sample_patch,
      hs_upstream_request = sample_patch, hs_response = sample_patch\<rparr>"

definition sample_request :: request_ctx where
  "sample_request =
     \<lparr>cx_state = \<lparr>st_resolved = None\<rparr>, cx_path = ''/'', cx_host = None, cx_method = ''GET'',
      cx_client_ip = None, cx_headers = [(''x-real-ip'', ''6.6.6.6''), (''accept'', ''a'')]\<rparr>"

theorem forwarded_identity_exclusive_witness:
  "hdr_get_all [(''accept'', ''a''), (''via'', ''a''), (''via'', ''b'')] ''X-Real-IP'' = []"
proof -
  have r: "headers_on_request plain_ext sample_headers_plugin sample_request =
      Inr (Continue, sample_request\<lparr>cx_headers := [(''accept'', ''a''), (''via'', ''a''), (''via'', ''b'')]\<rparr>)"
    by code_simp
  have "client_chain plain_ext sample_headers_plugin sample_request = None" by code_simp
  moreover have "hs_client_ip_forwarding sample_headers_plugin = Some \<lparr>cf_trusted_proxies = []\<rparr>"
    by (simp add: sample_headers_plugin_def)
  ultimately show ?thesis using forwarded_identity_exclusive [OF r] by simp
qed

end
