(* ===== verification/Ext_Auth.thy ===== *)
theory Ext_Auth
  imports Plugin_Api
begin

text \<open>
  The authentication plugins: \<^verbatim>\<open>basic-auth\<close>, \<^verbatim>\<open>jwt_auth\<close> and \<^verbatim>\<open>ext_authz\<close>
  (\<^verbatim>\<open>crates/extensions/{basic-auth,jwt-auth,ext-authz}/src/lib.rs\<close>).

  Base64, JSON Web Token validation, the HTTP client, URL parsing and JSON decoding are library
  code: they are arguments, grouped in one record per plugin.
\<close>

section \<open>Strings\<close>

text \<open>\<^verbatim>\<open>str::split_ascii_whitespace\<close>: the non-empty pieces between blanks.\<close>

definition is_ascii_whitespace :: "char \<Rightarrow> bool" where
  "is_ascii_whitespace c \<longleftrightarrow> byte c \<in> {9, 10, 12, 13, 32}"

fun split_by :: "('a \<Rightarrow> bool) \<Rightarrow> 'a list \<Rightarrow> 'a list list" where
  "split_by P [] = [[]]"
| "split_by P (c # s) =
     (if P c then [] # split_by P s
      else case split_by P s of [] \<Rightarrow> [[c]] | w # ws \<Rightarrow> (c # w) # ws)"

definition split_ascii_whitespace :: "string \<Rightarrow> string list" where
  "split_ascii_whitespace s = filter (\<lambda>w. w \<noteq> []) (split_by is_ascii_whitespace s)"

lemma split_by_none: "\<forall>c \<in> set s. \<not> P c \<Longrightarrow> split_by P s = [s]"
  by (induction s) auto

lemma split_by_append: "\<forall>c \<in> set s. \<not> P c \<Longrightarrow> P d \<Longrightarrow> split_by P (s @ d # t) = s # split_by P t"
  by (induction s) auto

lemma split_ascii_whitespace_pair:
  assumes "\<forall>c \<in> set a. \<not> is_ascii_whitespace c" and "\<forall>c \<in> set b. \<not> is_ascii_whitespace c"
    and "a \<noteq> []" and "b \<noteq> []"
  shows "split_ascii_whitespace (a @ CHR '' '' # b) = [a, b]"
proof -
  have "is_ascii_whitespace CHR '' ''" by code_simp
  with assms show ?thesis
    by (simp add: split_ascii_whitespace_def split_by_append split_by_none)
qed

text \<open>\<^verbatim>\<open>str::replace\<close> of one character.\<close>

definition replace_char :: "char \<Rightarrow> string \<Rightarrow> string \<Rightarrow> string" where
  "replace_char c r s = concat (map (\<lambda>d. if d = c then r else [d]) s)"

definition AUTHORIZATION :: string where "AUTHORIZATION = ''authorization''"

section \<open>Basic authentication\<close>

record basic_auth_config =
  bc_username :: string
  bc_password :: string
  bc_realm :: string

definition default_realm :: string where "default_realm = ''Restricted''"

record basic_auth_plugin =
  ba_expected_credentials :: string
  ba_challenge_header :: string

definition unauthorized_response :: "basic_auth_plugin \<Rightarrow> plugin_flow" where
  "unauthorized_response p =
     Respond (push_header ''www-authenticate'' (ba_challenge_header p)
       (push_header ''content-type'' ''text/plain; charset=utf-8''
         (local_response_new 401 ''Unauthorized'')))"

definition basic_auth_flow :: "externals \<Rightarrow> basic_auth_plugin \<Rightarrow> header_map \<Rightarrow> plugin_flow" where
  "basic_auth_flow x p h =
     (case hdr_get h AUTHORIZATION of
        None \<Rightarrow> unauthorized_response p
      | Some raw \<Rightarrow>
          (case ext_to_str x raw of
             None \<Rightarrow> unauthorized_response p
           | Some value \<Rightarrow>
               (case split_ascii_whitespace value of
                  [scheme, credentials] \<Rightarrow>
                    if \<not> eq_ignore_ascii_case scheme ''Basic'' then unauthorized_response p
                    else if credentials \<noteq> ba_expected_credentials p then unauthorized_response p
                    else Continue
                | _ \<Rightarrow> unauthorized_response p)))"

definition basic_auth_on_request ::
  "externals \<Rightarrow> basic_auth_plugin \<Rightarrow> request_ctx \<Rightarrow> request_ctx hook_result" where
  "basic_auth_on_request x p ctx = Inr (basic_auth_flow x p (cx_headers ctx), ctx)"

record basic_auth_lib =
  bl_decode :: "json \<Rightarrow> basic_auth_config option"
  bl_base64 :: "string \<Rightarrow> string"

definition basic_auth_build ::
  "externals \<Rightarrow> basic_auth_lib \<Rightarrow> plugin_spec \<Rightarrow> (plugin_build_error, basic_auth_plugin) result" where
  "basic_auth_build x l spec =
     (let err = plugin_build_error_new ''basic-auth''
      in
      and_then (ok_or (err ''invalid plugin config'') (bl_decode l (ps_config spec))) (\<lambda>config.
      and_then (reject (bc_username config = []) (err ''username cannot be empty'')) (\<lambda>_.
      and_then (reject (CHR '':'' \<in> set (bc_username config)) (err ''username cannot contain `:`'')) (\<lambda>_.
      and_then (reject (bc_password config = []) (err ''password cannot be empty'')) (\<lambda>_.
      let challenge =
        ''Basic realm='' @ [CHR 0x22] @
        replace_char CHR 0x22 [CHR 0x5C, CHR 0x22]
          (replace_char CHR 0x5C [CHR 0x5C, CHR 0x5C] (bc_realm config)) @ [CHR 0x22]
      in
      and_then (reject (\<not> ext_header_value_ok x challenge)
          (err ''invalid WWW-Authenticate challenge header'')) (\<lambda>_.
      Inr \<lparr>ba_expected_credentials = bl_base64 l (bc_username config @ '':'' @ bc_password config),
           ba_challenge_header = challenge\<rparr>))))))"

section \<open>JSON Web Tokens\<close>

datatype algorithm =
  HS256 | HS384 | HS512 | RS256 | RS384 | RS512 | PS256 | PS384 | PS512 | ES256 | ES384 | EdDSA

record jwt_auth_config =
  jc_algorithm :: string
  jc_secret :: "string option"
  jc_secret_file :: "string option"
  jc_iss :: "string option"
  jc_aud :: "string list"
  jc_sub :: "string option"
  jc_required_scopes :: "string list"

text \<open>What the plugin sets of the library's \<^verbatim>\<open>Validation\<close>.\<close>

record validation =
  va_algorithm :: algorithm
  va_iss :: "string list option"
  va_aud :: "string list option"
  va_sub :: "string option"
  va_required_spec_claims :: "string list"

record token_claims =
  tc_scope :: "string option"

text \<open>The library: \<^verbatim>\<open>'k\<close> is its \<^verbatim>\<open>DecodingKey\<close>.\<close>

record 'k jwt_lib =
  jl_config :: "json \<Rightarrow> jwt_auth_config option"
  jl_algorithm :: "string \<Rightarrow> algorithm option"
  jl_validation_new :: "algorithm \<Rightarrow> validation"
  jl_read :: "string \<Rightarrow> string option"
  jl_from_secret :: "string \<Rightarrow> 'k"
  jl_from_rsa_pem :: "string \<Rightarrow> 'k option"
  jl_from_ec_pem :: "string \<Rightarrow> 'k option"
  jl_from_ed_pem :: "string \<Rightarrow> 'k option"
  jl_decode :: "string \<Rightarrow> 'k \<Rightarrow> validation \<Rightarrow> token_claims option"

record 'k jwt_auth_plugin =
  jp_decoding_key :: 'k
  jp_validation :: validation
  jp_required_scopes :: "string list"

definition has_required_scopes :: "string option \<Rightarrow> string list \<Rightarrow> bool" where
  "has_required_scopes scope required =
     (if required = [] then True
      else case scope of
        None \<Rightarrow> False
      | Some s \<Rightarrow> list_all (\<lambda>r. list_ex (\<lambda>p. p = r) (split_ascii_whitespace s)) required)"

definition unauthorized :: "string \<Rightarrow> plugin_flow" where
  "unauthorized body = Respond (local_response_new 401 body)"

definition jwt_auth_flow :: "'k jwt_lib \<Rightarrow> 'k jwt_auth_plugin \<Rightarrow> header_map \<Rightarrow> plugin_flow" where
  "jwt_auth_flow l p h =
     (case hdr_get h AUTHORIZATION of
        None \<Rightarrow> unauthorized ''Unauthorized: Missing Token''
      | Some hdr \<Rightarrow>
          if \<not> valid_utf8 hdr then unauthorized ''Unauthorized: Invalid Token Format''
          else
            (case strip_prefix ''Bearer '' hdr of
               None \<Rightarrow> unauthorized ''Unauthorized: Invalid Token Format''
             | Some token \<Rightarrow>
                 (case jl_decode l token (jp_decoding_key p) (jp_validation p) of
                    None \<Rightarrow> unauthorized ''Unauthorized: Invalid or Expired Token''
                  | Some claims \<Rightarrow>
                      if has_required_scopes (tc_scope claims) (jp_required_scopes p) then Continue
                      else unauthorized ''Unauthorized: Invalid or Expired Token'')))"

definition jwt_auth_on_request ::
  "'k jwt_lib \<Rightarrow> 'k jwt_auth_plugin \<Rightarrow> request_ctx \<Rightarrow> request_ctx hook_result" where
  "jwt_auth_on_request l p ctx = Inr (jwt_auth_flow l p (cx_headers ctx), ctx)"

definition jwt_err :: "string \<Rightarrow> plugin_build_error" where
  "jwt_err = plugin_build_error_new ''jwt_auth''"

definition validate_non_empty_claim_config :: "string \<Rightarrow> string \<Rightarrow> (plugin_build_error, unit) result" where
  "validate_non_empty_claim_config field v = reject (v = []) (jwt_err (field @ '' cannot be empty''))"

text \<open>The three claim blocks of \<^verbatim>\<open>build\<close>; the required claims are collected in a set.\<close>

definition set_iss :: "string option \<Rightarrow> validation \<times> string list \<Rightarrow> (plugin_build_error, validation \<times> string list) result" where
  "set_iss iss vr =
     (case iss of
        None \<Rightarrow> Inr vr
      | Some s \<Rightarrow> and_then (validate_non_empty_claim_config ''iss'' s)
          (\<lambda>_. Inr ((fst vr)\<lparr>va_iss := Some [s]\<rparr>, List.insert ''iss'' (snd vr))))"

definition set_aud :: "string list \<Rightarrow> validation \<times> string list \<Rightarrow> (plugin_build_error, validation \<times> string list) result" where
  "set_aud aud vr =
     (if aud = [] then Inr vr
      else and_then (map_res (validate_non_empty_claim_config ''aud'') aud)
          (\<lambda>_. Inr ((fst vr)\<lparr>va_aud := Some aud\<rparr>, List.insert ''aud'' (snd vr))))"

definition set_sub :: "string option \<Rightarrow> validation \<times> string list \<Rightarrow> (plugin_build_error, validation \<times> string list) result" where
  "set_sub sub vr =
     (case sub of
        None \<Rightarrow> Inr vr
      | Some s \<Rightarrow> and_then (validate_non_empty_claim_config ''sub'' s)
          (\<lambda>_. Inr ((fst vr)\<lparr>va_sub := Some s\<rparr>, List.insert ''sub'' (snd vr))))"

definition check_scope :: "string \<Rightarrow> (plugin_build_error, unit) result" where
  "check_scope s =
     reject (s = [] \<or> list_ex is_whitespace (utf8_chars s))
       (jwt_err ''required_scopes entries must be non-empty single tokens'')"

definition raw_secret :: "'k jwt_lib \<Rightarrow> jwt_auth_config \<Rightarrow> (plugin_build_error, string) result" where
  "raw_secret l c =
     (case jc_secret_file c of
        Some path \<Rightarrow> ok_or (jwt_err (''could not read secret_file '' @ path)) (jl_read l path)
      | None \<Rightarrow>
          (case jc_secret c of
             Some secret \<Rightarrow> Inr secret
           | None \<Rightarrow> Inl (jwt_err ''either `secret` or `secret_file` must be provided'')))"

definition decoding_key :: "'k jwt_lib \<Rightarrow> algorithm \<Rightarrow> string \<Rightarrow> (plugin_build_error, 'k) result" where
  "decoding_key l algo secret =
     (if algo \<in> {HS256, HS384, HS512} then Inr (jl_from_secret l secret)
      else if algo \<in> {RS256, RS384, RS512, PS256, PS384, PS512} then
        ok_or (jwt_err ''failed to parse RSA PEM'') (jl_from_rsa_pem l secret)
      else if algo \<in> {ES256, ES384} then
        ok_or (jwt_err ''failed to parse EC PEM'') (jl_from_ec_pem l secret)
      else ok_or (jwt_err ''failed to parse EdDSA PEM'') (jl_from_ed_pem l secret))"

definition jwt_auth_build ::
  "'k jwt_lib \<Rightarrow> plugin_spec \<Rightarrow> (plugin_build_error, 'k jwt_auth_plugin) result" where
  "jwt_auth_build l spec =
     and_then (ok_or (jwt_err ''invalid plugin config'') (jl_config l (ps_config spec))) (\<lambda>config.
     and_then (ok_or (jwt_err (''unsupported algorithm '' @ jc_algorithm config))
       (jl_algorithm l (jc_algorithm config))) (\<lambda>algo.
     let validation = jl_validation_new l algo
     in
     and_then (set_iss (jc_iss config) (validation, va_required_spec_claims validation)) (\<lambda>v1.
     and_then (set_aud (jc_aud config) v1) (\<lambda>v2.
     and_then (set_sub (jc_sub config) v2) (\<lambda>(v3, required).
     and_then (map_res check_scope (jc_required_scopes config)) (\<lambda>_.
     and_then (raw_secret l config) (\<lambda>secret.
     and_then (decoding_key l algo secret) (\<lambda>key.
     Inr \<lparr>jp_decoding_key = key, jp_validation = v3\<lparr>va_required_spec_claims := required\<rparr>,
          jp_required_scopes = jc_required_scopes config\<rparr>))))))))"

section \<open>External authorization\<close>

definition DEFAULT_TIMEOUT_MS :: nat where "DEFAULT_TIMEOUT_MS = 3000"
definition MAX_TIMEOUT_MS :: nat where "MAX_TIMEOUT_MS = 30000"

record ext_authz_config =
  ec_uri :: string
  ec_timeout_ms :: "nat option"
  ec_allowed_hosts :: "string list"
  ec_pass_request_headers :: "string list"
  ec_pass_response_headers :: "string list"

text \<open>The \<^verbatim>\<open>reqwest\<close> client is what the builder sets; redirects are never followed.\<close>

record http_client =
  cli_timeout :: duration
  cli_follow_redirects :: bool

text \<open>The parts of a \<^verbatim>\<open>url::Url\<close> the plugin looks at.\<close>

record url_view =
  uv_scheme :: string
  uv_username :: string
  uv_password :: "string option"
  uv_fragment :: "string option"
  uv_host :: "string option"

record auth_response =
  ar_status :: nat
  ar_headers :: header_map

record authz_lib =
  al_config :: "json \<Rightarrow> ext_authz_config option"
  al_parse_url :: "string \<Rightarrow> (url \<times> url_view) option"
  al_parse_host :: "string \<Rightarrow> string option"
  al_client_ok :: "http_client \<Rightarrow> bool"
  al_send :: "http_client \<Rightarrow> url \<Rightarrow> header_map \<Rightarrow> auth_response option"

record ext_authz_plugin =
  ez_client :: http_client
  ez_uri :: url
  ez_pass_request_headers :: "string list"
  ez_pass_response_headers :: "string list"

definition is_success :: "nat \<Rightarrow> bool" where
  "is_success s \<longleftrightarrow> 200 \<le> s \<and> s < 300"

text \<open>The headers of the sub-request: the first value of each listed header that is present.\<close>

definition sub_request_headers :: "string list \<Rightarrow> header_map \<Rightarrow> header_map" where
  "sub_request_headers names h =
     foldl (\<lambda>r n. case hdr_get h n of None \<Rightarrow> r | Some v \<Rightarrow> hdr_append r n v) [] names"

definition copy_auth_headers ::
  "externals \<Rightarrow> header_map \<Rightarrow> header_map \<Rightarrow> string list \<Rightarrow> (plugin_error, header_map) result" where
  "copy_auth_headers x auth h names =
     fold_res (\<lambda>h n. case hdr_get auth n of None \<Rightarrow> Inr h | Some v \<Rightarrow> editor_set x h n v) h names"

definition ext_authz_on_request ::
  "externals \<Rightarrow> authz_lib \<Rightarrow> ext_authz_plugin \<Rightarrow> request_ctx \<Rightarrow> request_ctx hook_result" where
  "ext_authz_on_request x l p ctx =
     (let sub = sub_request_headers (ez_pass_request_headers p) (cx_headers ctx);
          h = foldl editor_remove (cx_headers ctx) (ez_pass_response_headers p)
      in case al_send l (ez_client p) (ez_uri p) sub of
           None \<Rightarrow> Inr (Respond (local_response_new 500 ''Internal Auth Service Error''), ctx\<lparr>cx_headers := h\<rparr>)
         | Some resp \<Rightarrow>
             if is_success (ar_status resp) then
               and_then (copy_auth_headers x (ar_headers resp) h (ez_pass_response_headers p)) (\<lambda>h'.
               Inr (Continue, ctx\<lparr>cx_headers := h'\<rparr>))
             else Inr (Respond (local_response_new (ar_status resp) ''Unauthorized''), ctx\<lparr>cx_headers := h\<rparr>))"

definition authz_err :: "string \<Rightarrow> plugin_build_error" where
  "authz_err = plugin_build_error_new ''ext_authz''"

definition normalize_timeout :: "nat option \<Rightarrow> (plugin_build_error, duration) result" where
  "normalize_timeout t =
     (let ms = case_option DEFAULT_TIMEOUT_MS id t
      in and_then (reject (\<not> (1 \<le> ms \<and> ms \<le> MAX_TIMEOUT_MS))
           (authz_err ''timeout_ms must be between 1 and 30000'')) (\<lambda>_. Inr (from_millis ms)))"

definition parse_allowed_hosts :: "authz_lib \<Rightarrow> string list \<Rightarrow> (plugin_build_error, string list) result" where
  "parse_allowed_hosts l values =
     and_then (reject (values = []) (authz_err ''at least one allowed_host must be configured'')) (\<lambda>_.
     map_res (\<lambda>v. ok_or (authz_err ''allowed_host must be a valid host or IP'') (al_parse_host l v)) values)"

definition parse_authz_uri :: "authz_lib \<Rightarrow> string \<Rightarrow> string list \<Rightarrow> (plugin_build_error, url) result" where
  "parse_authz_uri l uri allowed_hosts =
     and_then (ok_or (authz_err ''uri must be an absolute URL'') (al_parse_url l uri)) (\<lambda>(u, v).
     and_then (reject (uv_scheme v \<notin> {''http'', ''https''}) (authz_err ''uri scheme must be http or https'')) (\<lambda>_.
     and_then (reject (uv_username v \<noteq> [] \<or> uv_password v \<noteq> None) (authz_err ''uri must not contain userinfo'')) (\<lambda>_.
     and_then (reject (uv_fragment v \<noteq> None) (authz_err ''uri must not contain a fragment'')) (\<lambda>_.
     and_then (ok_or (authz_err ''uri must contain a host'') (uv_host v)) (\<lambda>host.
     and_then (reject (host \<notin> set allowed_hosts) (authz_err ''uri host is not in allowed_hosts'')) (\<lambda>_.
     Inr u))))))"

definition parse_header_list :: "externals \<Rightarrow> string \<Rightarrow> string list \<Rightarrow> (plugin_build_error, string list) result" where
  "parse_header_list x field names =
     map_res (\<lambda>s. ok_or (authz_err (''invalid '' @ field @ '' header '' @ s)) (ext_header_name x s)) names"

definition ext_authz_build ::
  "externals \<Rightarrow> authz_lib \<Rightarrow> plugin_spec \<Rightarrow> (plugin_build_error, ext_authz_plugin) result" where
  "ext_authz_build x l spec =
     and_then (ok_or (authz_err ''invalid plugin config'') (al_config l (ps_config spec))) (\<lambda>config.
     and_then (parse_allowed_hosts l (ec_allowed_hosts config)) (\<lambda>hosts.
     and_then (parse_authz_uri l (ec_uri config) hosts) (\<lambda>uri.
     and_then (normalize_timeout (ec_timeout_ms config)) (\<lambda>timeout.
     let client = \<lparr>cli_timeout = timeout, cli_follow_redirects = False\<rparr>
     in
     and_then (reject (\<not> al_client_ok l client) (authz_err ''failed to initialize HTTP client'')) (\<lambda>_.
     and_then (parse_header_list x ''pass_request_header'' (ec_pass_request_headers config)) (\<lambda>req.
     and_then (parse_header_list x ''pass_response_header'' (ec_pass_response_headers config)) (\<lambda>resp.
     Inr \<lparr>ez_client = client, ez_uri = uri, ez_pass_request_headers = req,
          ez_pass_response_headers = resp\<rparr>)))))))"

section \<open>What the operations promise\<close>

lemma basic_auth_flow_Continue:
  "basic_auth_flow x p h = Continue \<longleftrightarrow>
     (\<exists>raw value scheme. hdr_get h AUTHORIZATION = Some raw \<and> ext_to_str x raw = Some value \<and>
        split_ascii_whitespace value = [scheme, ba_expected_credentials p] \<and>
        eq_ignore_ascii_case scheme ''Basic'')"
  by (auto simp: basic_auth_flow_def unauthorized_response_def split: option.split list.split)

lemma basic_auth_flow_cases:
  "basic_auth_flow x p h = Continue \<or> basic_auth_flow x p h = unauthorized_response p"
  by (auto simp: basic_auth_flow_def split: option.split list.split)

lemma basic_auth_build_ok:
  assumes "basic_auth_build x l spec = Inr p"
  obtains c where "bl_decode l (ps_config spec) = Some c" "CHR '':'' \<notin> set (bc_username c)"
    "ba_expected_credentials p = bl_base64 l (bc_username c @ '':'' @ bc_password c)"
  using assms by (auto simp: basic_auth_build_def Let_def res_simps)

lemma split_at_colon:
  assumes "a @ c # b = a' @ c # b'" and "c \<notin> set a" and "c \<notin> set a'"
  shows "a = a' \<and> b = b'"
  using assms
proof (induction a arbitrary: a')
  case Nil
  then show ?case by (cases a') auto
next
  case (Cons d a)
  then show ?case by (cases a') auto
qed

lemma jwt_auth_flow_Continue:
  "jwt_auth_flow l p h = Continue \<longleftrightarrow>
     (\<exists>token claims. hdr_get h AUTHORIZATION = Some (''Bearer '' @ token) \<and> valid_utf8 (''Bearer '' @ token) \<and>
        jl_decode l token (jp_decoding_key p) (jp_validation p) = Some claims \<and>
        has_required_scopes (tc_scope claims) (jp_required_scopes p))"
  unfolding jwt_auth_flow_def unauthorized_def
  by (auto simp del: strip_prefix.simps split: option.split simp: strip_prefix_Some_iff strip_prefix_None_iff)

lemma jwt_auth_flow_cases:
  "jwt_auth_flow l p h = Continue \<or>
   (\<exists>r. jwt_auth_flow l p h = Respond r \<and> lr_status r = 401)"
  unfolding jwt_auth_flow_def unauthorized_def local_response_new_def
  by (auto simp del: strip_prefix.simps split: option.split)

lemma has_required_scopes_iff:
  "has_required_scopes scope required \<longleftrightarrow>
     (\<forall>r \<in> set required. \<exists>s. scope = Some s \<and> r \<in> set (split_ascii_whitespace s))"
  by (auto simp: has_required_scopes_def list_all_iff list_ex_iff split: option.split)

lemma copy_auth_headers_get:
  "copy_auth_headers x auth h names = Inr h' \<Longrightarrow>
   hdr_get_all h' n =
     (if list_ex (eq_ignore_ascii_case n) names
      then case hdr_get auth n of None \<Rightarrow> hdr_get_all h n | Some v \<Rightarrow> [v]
      else hdr_get_all h n)"
proof (induction names arbitrary: h)
  case Nil
  then show ?case by (simp add: copy_auth_headers_def)
next
  case (Cons m names)
  have get: "eq_ignore_ascii_case n m \<Longrightarrow> hdr_get auth n = hdr_get auth m"
    by (simp add: hdr_get_def hdr_get_all_def eq_ignore_ascii_case_def)
  from Cons.prems obtain h1 where h1: "copy_auth_headers x auth h1 names = Inr h'"
    "(case hdr_get auth m of None \<Rightarrow> Inr h | Some v \<Rightarrow> editor_set x h m v) = Inr h1"
    by (auto simp: copy_auth_headers_def res_simps)
  from h1(2) have "hdr_get_all h1 n =
      (if eq_ignore_ascii_case n m then
         case hdr_get auth m of None \<Rightarrow> hdr_get_all h n | Some v \<Rightarrow> [v] else hdr_get_all h n)"
    by (auto simp: res_simps split: option.splits)
  with Cons.IH [OF h1(1)] get show ?case by (auto split: option.splits)
qed

lemma ext_authz_build_ok:
  assumes "ext_authz_build x l spec = Inr p"
  shows "cli_follow_redirects (ez_client p) = False"
    and "from_millis 1 \<le> cli_timeout (ez_client p)" "cli_timeout (ez_client p) \<le> from_millis MAX_TIMEOUT_MS"
  using assms
  by (auto simp: ext_authz_build_def normalize_timeout_def from_millis_def Let_def res_simps)

section \<open>Claims\<close>


text \<open>An injective encoding without blanks: two letters per byte.\<close>

definition letters :: "string \<Rightarrow> string" where
  "letters s = concat (map (\<lambda>c. [char_of (97 + byte c div 16), char_of (97 + byte c mod 16)]) s)"

lemma byte_lt: "byte c < 256"
  by (simp add: byte_def)

lemma byte_of_letter: "n < 16 \<Longrightarrow> byte (char_of (97 + n)) = 97 + n"
  by (simp add: byte_def)

lemma letters_byte: "byte (char_of (97 + byte c div 16)) = 97 + byte c div 16"
    "byte (char_of (97 + byte c mod 16)) = 97 + byte c mod 16"
  using byte_lt [of c] by (intro byte_of_letter; simp)+

lemma letters_pair:
  assumes "(char_of (97 + byte c div 16) :: char) = char_of (97 + byte d div 16)"
    and "(char_of (97 + byte c mod 16) :: char) = char_of (97 + byte d mod 16)"
  shows "c = d"
proof -
  have "byte c div 16 = byte d div 16" "byte c mod 16 = byte d mod 16"
    using arg_cong [OF assms(1), of byte] arg_cong [OF assms(2), of byte] by (simp_all add: letters_byte)
  then have "byte c = byte d" by (metis div_mult_mod_eq)
  then show ?thesis by (simp add: byte_def)
qed

lemma letters_inj: "letters s = letters t \<Longrightarrow> s = t"
proof (induction s arbitrary: t)
  case Nil
  then show ?case by (cases t) (auto simp: letters_def)
next
  case (Cons c s)
  then obtain d u where t: "t = d # u" by (cases t) (auto simp: letters_def)
  with Cons.prems letters_pair [of c d] have "c = d" "letters s = letters u"
    by (auto simp: letters_def)
  with t Cons.IH show ?case by simp
qed

lemma letters_no_blank: "\<forall>b \<in> set (letters s). \<not> is_ascii_whitespace b"
  by (auto simp: letters_def is_ascii_whitespace_def letters_byte)

definition sample_basic_lib :: basic_auth_lib where
  "sample_basic_lib =
     \<lparr>bl_decode = (\<lambda>_. Some \<lparr>bc_username = ''u'', bc_password = ''p'', bc_realm = ''r''\<rparr>),
      bl_base64 = letters\<rparr>"

definition sample_basic_ctx :: request_ctx where
  "sample_basic_ctx =
     \<lparr>cx_state = \<lparr>st_resolved = None\<rparr>, cx_path = ''/'', cx_host = None, cx_method = ''GET'',
      cx_client_ip = None, cx_headers = [(''authorization'', ''Basic '' @ letters ''u:q'')]\<rparr>"


text \<open>
  C34. A token plugin built from a configuration enforces all of it. A request continues exactly when
  its first \<^verbatim>\<open>Authorization\<close> value is \<^verbatim>\<open>Bearer\<close> and a token the library accepts under the plugin's key
  and validation, whose scope lists every required scope; otherwise the answer is 401. The
  validation names the configured issuer, audiences and subject and requires those claims to be
  present, together with every claim the library requires by itself.
\<close>

theorem jwt_auth_enforced:
  assumes "jwt_auth_build l spec = Inr p" and "jl_config l (ps_config spec) = Some c"
  shows "(\<forall>h. jwt_auth_flow l p h = Continue \<longleftrightarrow>
       (\<exists>token claims. hdr_get h AUTHORIZATION = Some (''Bearer '' @ token) \<and>
          valid_utf8 (''Bearer '' @ token) \<and>
          jl_decode l token (jp_decoding_key p) (jp_validation p) = Some claims \<and>
          (\<forall>r \<in> set (jc_required_scopes c). \<exists>s. tc_scope claims = Some s \<and>
             r \<in> set (split_ascii_whitespace s))))
    \<and> (\<forall>h. jwt_auth_flow l p h \<noteq> Continue \<longrightarrow> (\<exists>r. jwt_auth_flow l p h = Respond r \<and> lr_status r = 401))
    \<and> (\<forall>s. jc_iss c = Some s \<longrightarrow> va_iss (jp_validation p) = Some [s] \<and>
         ''iss'' \<in> set (va_required_spec_claims (jp_validation p)))
    \<and> (jc_aud c \<noteq> [] \<longrightarrow> va_aud (jp_validation p) = Some (jc_aud c) \<and>
         ''aud'' \<in> set (va_required_spec_claims (jp_validation p)))
    \<and> (\<forall>s. jc_sub c = Some s \<longrightarrow> va_sub (jp_validation p) = Some s \<and>
         ''sub'' \<in> set (va_required_spec_claims (jp_validation p)))
    \<and> (\<exists>algo. jl_algorithm l (jc_algorithm c) = Some algo \<and>
         set (va_required_spec_claims (jl_validation_new l algo))
           \<subseteq> set (va_required_spec_claims (jp_validation p)))"
proof -
  from assms obtain algo v1 v2 v3 req where
    algo: "jl_algorithm l (jc_algorithm c) = Some algo" and
    iss: "set_iss (jc_iss c) (jl_validation_new l algo,
        va_required_spec_claims (jl_validation_new l algo)) = Inr v1" and
    aud: "set_aud (jc_aud c) v1 = Inr v2" and sub: "set_sub (jc_sub c) v2 = Inr (v3, req)" and
    p: "jp_validation p = v3\<lparr>va_required_spec_claims := req\<rparr>"
      "jp_required_scopes p = jc_required_scopes c"
    by (auto simp: jwt_auth_build_def Let_def res_simps split: prod.splits)
  have flow: "jwt_auth_flow l p h \<noteq> Continue \<longrightarrow> (\<exists>r. jwt_auth_flow l p h = Respond r \<and> lr_status r = 401)" for h
    using jwt_auth_flow_cases [of l p h] by auto
  have s1: "(\<forall>s. jc_iss c = Some s \<longrightarrow> va_iss (fst v1) = Some [s] \<and> ''iss'' \<in> set (snd v1)) \<and>
      set (va_required_spec_claims (jl_validation_new l algo)) \<subseteq> set (snd v1)"
    using iss by (auto simp: set_iss_def res_simps split: option.splits)
  have s2: "va_iss (fst v2) = va_iss (fst v1) \<and> set (snd v1) \<subseteq> set (snd v2) \<and>
      (jc_aud c \<noteq> [] \<longrightarrow> va_aud (fst v2) = Some (jc_aud c) \<and> ''aud'' \<in> set (snd v2))"
    using aud by (auto simp: set_aud_def res_simps split: if_splits)
  have s3: "va_iss v3 = va_iss (fst v2) \<and> va_aud v3 = va_aud (fst v2) \<and> set (snd v2) \<subseteq> set req \<and>
      (\<forall>s. jc_sub c = Some s \<longrightarrow> va_sub v3 = Some s \<and> ''sub'' \<in> set req)"
    using sub by (auto simp: set_sub_def res_simps split: option.splits)
  show ?thesis
    using flow s1 s2 s3 algo p
    by (auto simp: jwt_auth_flow_Continue has_required_scopes_iff)
qed

definition sample_jwt_lib :: "unit jwt_lib" where
  "sample_jwt_lib =
     \<lparr>jl_config = (\<lambda>_. Some \<lparr>jc_algorithm = ''HS256'', jc_secret = Some ''k'', jc_secret_file = None,
        jc_iss = Some ''i'', jc_aud = [], jc_sub = None, jc_required_scopes = [''read'']\<rparr>),
      jl_algorithm = (\<lambda>_. Some HS256),
      jl_validation_new = (\<lambda>a. \<lparr>va_algorithm = a, va_iss = None, va_aud = None, va_sub = None,
        va_required_spec_claims = [''exp'']\<rparr>),
      jl_read = (\<lambda>_. None), jl_from_secret = (\<lambda>_. ()), jl_from_rsa_pem = (\<lambda>_. None),
      jl_from_ec_pem = (\<lambda>_. None), jl_from_ed_pem = (\<lambda>_. None),
      jl_decode = (\<lambda>t k v. Some \<lparr>tc_scope = Some t\<rparr>)\<rparr>"

theorem jwt_auth_enforced_witness:
  "\<exists>p. jwt_auth_build sample_jwt_lib \<lparr>ps_name = ''jwt_auth'', ps_config = Json []\<rparr> = Inr p \<and>
     va_iss (jp_validation p) = Some [''i''] \<and> ''iss'' \<in> set (va_required_spec_claims (jp_validation p))"
proof -
  let ?s = "\<lparr>ps_name = ''jwt_auth'', ps_config = Json []\<rparr>"
  have "is_ok (jwt_auth_build sample_jwt_lib ?s)" by code_simp
  then obtain p where p: "jwt_auth_build sample_jwt_lib ?s = Inr p"
    by (auto simp: is_ok_iff)
  obtain c where c: "jl_config sample_jwt_lib (ps_config ?s) = Some c" "jc_iss c = Some ''i''"
    by (simp add: sample_jwt_lib_def)
  from jwt_auth_enforced [OF p c(1)] c(2) p show ?thesis by blast
qed

text \<open>
  C33. External authorization fails closed and cannot be bypassed with forged identity headers. A
  request continues only after the authorization service answered with a 2xx status to a
  sub-request that carries no more than the listed headers; then every header reserved for the
  service holds exactly the service's first value or is absent, whatever the client sent, and
  all other headers are untouched. An unreachable service gives 500, a refusal the service's status.
\<close>

theorem ext_authz_closed:
  assumes "ext_authz_on_request x l p ctx = Inr (flow, ctx')"
  shows "case al_send l (ez_client p) (ez_uri p)
           (sub_request_headers (ez_pass_request_headers p) (cx_headers ctx)) of
      None \<Rightarrow> flow = Respond (local_response_new 500 ''Internal Auth Service Error'')
    | Some resp \<Rightarrow>
        (if is_success (ar_status resp) then flow = Continue \<and>
           (\<forall>n. hdr_get_all (cx_headers ctx') n =
              (if list_ex (eq_ignore_ascii_case n) (ez_pass_response_headers p)
               then case hdr_get (ar_headers resp) n of None \<Rightarrow> [] | Some v \<Rightarrow> [v]
               else hdr_get_all (cx_headers ctx) n))
         else flow = Respond (local_response_new (ar_status resp) ''Unauthorized''))"
proof -
  have strip: "hdr_get_all (foldl editor_remove h ns) n =
      (if list_ex (eq_ignore_ascii_case n) ns then [] else hdr_get_all h n)" for h ns n
    by (induction ns arbitrary: h) (auto simp: editor_remove_def)
  show ?thesis
    using assms
    by (auto simp: ext_authz_on_request_def Let_def res_simps copy_auth_headers_get strip
        split: option.splits if_splits)
qed

definition sample_authz_lib :: authz_lib where
  "sample_authz_lib =
     \<lparr>al_config = (\<lambda>_. None), al_parse_url = (\<lambda>_. None), al_parse_host = Some, al_client_ok = (\<lambda>_. True),
      al_send = (\<lambda>_ _ _. Some \<lparr>ar_status = 204, ar_headers = []\<rparr>)\<rparr>"

definition sample_authz :: ext_authz_plugin where
  "sample_authz =
     \<lparr>ez_client = \<lparr>cli_timeout = 5, cli_follow_redirects = False\<rparr>, ez_uri = Url ''http://auth'',
      ez_pass_request_headers = [], ez_pass_response_headers = [''x-user'']\<rparr>"

definition sample_authz_ctx :: request_ctx where
  "sample_authz_ctx =
     \<lparr>cx_state = \<lparr>st_resolved = None\<rparr>, cx_path = ''/'', cx_host = None, cx_method = ''GET'',
      cx_client_ip = None, cx_headers = [(''x-user'', ''root'')]\<rparr>"

theorem ext_authz_closed_witness:
  "\<exists>flow ctx'. ext_authz_on_request plain_ext sample_authz_lib sample_authz sample_authz_ctx = Inr (flow, ctx') \<and>
     flow = Continue \<and> hdr_get_all (cx_headers ctx') ''X-User'' = []"
proof -
  have "is_ok (ext_authz_on_request plain_ext sample_authz_lib sample_authz sample_authz_ctx)" by code_simp
  then obtain flow ctx' where r: "ext_authz_on_request plain_ext sample_authz_lib sample_authz sample_authz_ctx =
      Inr (flow, ctx')" by (auto simp: is_ok_iff)
  have "list_ex (eq_ignore_ascii_case ''X-User'') (ez_pass_response_headers sample_authz)"
    "is_success 204" by code_simp+
  moreover have "al_send sample_authz_lib c u h = Some \<lparr>ar_status = 204, ar_headers = []\<rparr>" for c u h
    by (simp add: sample_authz_lib_def)
  moreover have "hdr_get [] n = None" for n by (simp add: hdr_get_def hdr_get_all_def)
  ultimately have "flow = Continue \<and> hdr_get_all (cx_headers ctx') ''X-User'' = []"
    using ext_authz_closed [OF r] by simp
  with r show ?thesis by blast
qed

end
