(* ===== verification/Ext_Cors.thy ===== *)
theory Ext_Cors
  imports Plugin_Api
begin

text \<open>
  The \<^verbatim>\<open>cors\<close> plugin (\<^verbatim>\<open>crates/extensions/cors/src/lib.rs\<close>): answers preflight requests and adds the
  cross-origin headers to responses.
\<close>

record cors_config =
  co_allow_origin :: "string option"
  co_allow_methods :: "string option"
  co_allow_headers :: "string option"
  co_expose_headers :: "string option"
  co_allow_credentials :: "bool option"
  co_max_age :: "nat option"

record cors_plugin =
  cp_allow_origin :: "string option"
  cp_allow_methods :: "string option"
  cp_allow_headers :: "string option"
  cp_expose_headers :: "string option"
  cp_allow_credentials :: "string option"
  cp_max_age :: "string option"

definition set_opt ::
  "externals \<Rightarrow> string \<Rightarrow> string option \<Rightarrow> header_map \<Rightarrow> (plugin_error, header_map) result" where
  "set_opt x name v h = (case v of None \<Rightarrow> Inr h | Some s \<Rightarrow> editor_set x h name s)"

definition cors_apply_headers :: "externals \<Rightarrow> cors_plugin \<Rightarrow> header_map \<Rightarrow> (plugin_error, header_map) result" where
  "cors_apply_headers x p h =
     and_then (set_opt x ''access-control-allow-origin'' (cp_allow_origin p) h)
       (set_opt x ''access-control-allow-credentials'' (cp_allow_credentials p))"

definition push_opt :: "string \<Rightarrow> string option \<Rightarrow> local_response \<Rightarrow> local_response" where
  "push_opt name v r = (case v of None \<Rightarrow> r | Some s \<Rightarrow> push_header name s r)"

definition is_preflight :: "request_ctx \<Rightarrow> bool" where
  "is_preflight ctx \<longleftrightarrow>
     cx_method ctx = ''OPTIONS'' \<and> hdr_get (cx_headers ctx) ''origin'' \<noteq> None \<and>
     hdr_get (cx_headers ctx) ''access-control-request-method'' \<noteq> None"

definition cors_on_request :: "cors_plugin \<Rightarrow> request_ctx \<Rightarrow> request_ctx hook_result" where
  "cors_on_request p ctx =
     (if is_preflight ctx then
        Inr (Respond
          (push_opt ''access-control-max-age'' (cp_max_age p)
          (push_opt ''access-control-allow-credentials'' (cp_allow_credentials p)
          (push_opt ''access-control-allow-headers'' (cp_allow_headers p)
          (push_opt ''access-control-allow-methods'' (cp_allow_methods p)
          (push_opt ''access-control-allow-origin'' (cp_allow_origin p)
            (local_response_new 204 [])))))), ctx)
      else Inr (Continue, ctx))"

definition cors_on_response :: "externals \<Rightarrow> cors_plugin \<Rightarrow> response_ctx \<Rightarrow> response_ctx hook_result" where
  "cors_on_response x p ctx =
     and_then (cors_apply_headers x p (rs_headers ctx)) (\<lambda>h.
     and_then (set_opt x ''access-control-expose-headers'' (cp_expose_headers p) h) (\<lambda>h'.
     Inr (Continue, ctx\<lparr>rs_headers := h'\<rparr>)))"

definition cors_parse_hdr :: "externals \<Rightarrow> string \<Rightarrow> string option \<Rightarrow> (plugin_build_error, string option) result" where
  "cors_parse_hdr x name v =
     (case v of
        Some s \<Rightarrow>
          if ext_header_value_ok x s then Inr (Some s)
          else Inl (plugin_build_error_new ''cors'' (''invalid '' @ name))
      | None \<Rightarrow> Inr None)"

definition cors_build ::
  "externals \<Rightarrow> (json \<Rightarrow> cors_config option) \<Rightarrow> plugin_spec \<Rightarrow> (plugin_build_error, cors_plugin) result" where
  "cors_build x decode spec =
     and_then (ok_or (plugin_build_error_new ''cors'' ''invalid plugin config'') (decode (ps_config spec))) (\<lambda>config.
     and_then (cors_parse_hdr x ''allow_origin'' (co_allow_origin config)) (\<lambda>allow_origin.
     and_then (cors_parse_hdr x ''allow_methods'' (co_allow_methods config)) (\<lambda>allow_methods.
     and_then (cors_parse_hdr x ''allow_headers'' (co_allow_headers config)) (\<lambda>allow_headers.
     and_then (cors_parse_hdr x ''expose_headers'' (co_expose_headers config)) (\<lambda>expose_headers.
     Inr \<lparr>cp_allow_origin = allow_origin, cp_allow_methods = allow_methods,
          cp_allow_headers = allow_headers, cp_expose_headers = expose_headers,
          cp_allow_credentials = map_option (\<lambda>b. if b then ''true'' else ''false'') (co_allow_credentials config),
          cp_max_age = map_option show_nat (co_max_age config)\<rparr>)))))"

section \<open>Behaviour\<close>

text \<open>A preflight is answered locally and nothing else is.\<close>

lemma cors_on_request_flow:
  "\<exists>flow. cors_on_request p ctx = Inr (flow, ctx) \<and> (flow = Continue \<longleftrightarrow> \<not> is_preflight ctx)"
  by (simp add: cors_on_request_def)

lemma set_opt_get:
  "set_opt x name v h = Inr h' \<Longrightarrow>
   hdr_get_all h' n =
     (if eq_ignore_ascii_case n name then case v of None \<Rightarrow> hdr_get_all h n | Some s \<Rightarrow> [s]
      else hdr_get_all h n)"
  by (auto simp: set_opt_def res_simps split: option.splits)

text \<open>A configured origin replaces whatever the upstream answered.\<close>

lemma cors_on_response_origin:
  assumes "cors_on_response x p ctx = Inr (flow, ctx')" and "cp_allow_origin p = Some v"
  shows "hdr_get_all (rs_headers ctx') ''access-control-allow-origin'' = [v]"
proof -
  have "\<not> eq_ignore_ascii_case ''access-control-allow-origin'' ''access-control-allow-credentials''"
    "\<not> eq_ignore_ascii_case ''access-control-allow-origin'' ''access-control-expose-headers''"
    by code_simp+
  with assms show ?thesis
    by (auto simp: cors_on_response_def cors_apply_headers_def res_simps set_opt_get
        simp del: hdr_get_all_insert)
qed

end
