(* ===== verification/Rate_Limit.thy ===== *)
theory Rate_Limit
  imports Plugin_Api
begin

text \<open>
  The \<^verbatim>\<open>rate-limit\<close> plugin (\<^verbatim>\<open>crates/extensions/rate-limit/src/lib.rs\<close>): per client address, a
  counter that restarts every second.

  The bucket map is behind a mutex and the request counter is atomic, so a request is two atomic
  steps, first the locked section of \<^verbatim>\<open>allow_request\<close>, then \<^verbatim>\<open>maybe_sweep\<close>. Concurrent requests
  interleave at this grain, which is what the events of the last sections are.
\<close>

section \<open>State\<close>

definition BUCKET_TTL_SECS :: nat where "BUCKET_TTL_SECS = 120"
definition SWEEP_INTERVAL_REQUESTS :: nat where "SWEEP_INTERVAL_REQUESTS = 1024"

record bucket =
  bk_window :: nat
  bk_count :: nat
  bk_last_seen :: nat

definition bucket_new :: "nat \<Rightarrow> bucket" where
  "bucket_new window = \<lparr>bk_window = window, bk_count = 0, bk_last_seen = window\<rparr>"

record rate_limit_plugin =
  rl_max_requests_per_second :: nat
  rl_started_at :: instant
  rl_buckets :: "(ip_addr, bucket) hmap"
  rl_requests_since_sweep :: nat

section \<open>Operations\<close>

definition current_window :: "rate_limit_plugin \<Rightarrow> instant \<Rightarrow> nat" where
  "current_window p now = as_secs (elapsed now (rl_started_at p))"

text \<open>The body of the locked section on the client's bucket.\<close>

definition touch_bucket :: "nat \<Rightarrow> bucket option \<Rightarrow> bucket" where
  "touch_bucket w entry =
     (let b = (case entry of None \<Rightarrow> bucket_new w | Some b \<Rightarrow> b);
          b' = (if bk_window b \<noteq> w then bucket_new w else b)
      in b'\<lparr>bk_last_seen := w, bk_count := sat_add u32_max (bk_count b') 1\<rparr>)"

definition locked_allow :: "nat \<Rightarrow> ip_addr \<Rightarrow> rate_limit_plugin \<Rightarrow> bool \<times> rate_limit_plugin" where
  "locked_allow w ip p =
     (let b = touch_bucket w (hm_get (rl_buckets p) ip)
      in (bk_count b \<le> rl_max_requests_per_second p, p\<lparr>rl_buckets := hm_insert ip b (rl_buckets p)\<rparr>))"

definition maybe_sweep :: "nat \<Rightarrow> rate_limit_plugin \<Rightarrow> rate_limit_plugin" where
  "maybe_sweep w p =
     (let old = rl_requests_since_sweep p;
          p' = p\<lparr>rl_requests_since_sweep := wrap_add64 old 1\<rparr>
      in if wrap_add64 old 1 mod SWEEP_INTERVAL_REQUESTS \<noteq> 0 then p'
         else p'\<lparr>rl_buckets := filter (\<lambda>(ip, b). w - BUCKET_TTL_SECS \<le> bk_last_seen b) (rl_buckets p')\<rparr>)"

definition allow_request :: "rate_limit_plugin \<Rightarrow> instant \<Rightarrow> ip_addr \<Rightarrow> bool \<times> rate_limit_plugin" where
  "allow_request p now ip =
     (let w = current_window p now;
          (allowed, p') = locked_allow w ip p
      in (allowed, maybe_sweep w p'))"

definition rate_limited_response :: "rate_limit_plugin \<Rightarrow> plugin_flow" where
  "rate_limited_response p =
     Respond
       (push_header ''x-ratelimit-remaining'' ''0''
       (push_header ''x-ratelimit-limit'' (show_nat (rl_max_requests_per_second p))
       (push_header ''retry-after'' ''1''
       (push_header ''content-type'' ''text/plain; charset=utf-8''
         (local_response_new 429 ''Too Many Requests'')))))"

definition rate_limit_on_request ::
  "rate_limit_plugin \<Rightarrow> instant \<Rightarrow> request_ctx \<Rightarrow> request_ctx hook_result \<times> rate_limit_plugin" where
  "rate_limit_on_request p now ctx =
     (case cx_client_ip ctx of
        None \<Rightarrow> (Inr (Continue, ctx), p)
      | Some ip \<Rightarrow>
          (case allow_request p now ip of
             (allowed, p') \<Rightarrow>
               (Inr (if allowed then Continue else rate_limited_response p, ctx), p')))"

text \<open>\<^verbatim>\<open>build\<close>: the configuration is a signed number.\<close>

definition rate_limit_build ::
  "(json \<Rightarrow> int option) \<Rightarrow> instant \<Rightarrow> plugin_spec \<Rightarrow> (plugin_build_error, rate_limit_plugin) result" where
  "rate_limit_build decode now spec =
     (let err = plugin_build_error_new ''rate-limit''
      in
      and_then (ok_or (err ''invalid plugin config'') (decode (ps_config spec))) (\<lambda>m.
      and_then (reject (m \<le> 0) (err ''max_requests_per_second must be positive'')) (\<lambda>_.
      and_then (reject (int u32_max < m) (err ''max_requests_per_second exceeds supported range'')) (\<lambda>_.
      Inr \<lparr>rl_max_requests_per_second = nat m, rl_started_at = now, rl_buckets = [],
           rl_requests_since_sweep = 0\<rparr>))))"

section \<open>Interleavings\<close>

text \<open>
  The atomic steps of concurrent requests, with the window each request read beforehand.
\<close>

datatype rl_event = Locked nat ip_addr | Sweep nat

fun rl_step :: "rl_event \<Rightarrow> rate_limit_plugin \<Rightarrow> bool option \<times> rate_limit_plugin" where
  "rl_step (Locked w ip) p = (case locked_allow w ip p of (a, p') \<Rightarrow> (Some a, p'))"
| "rl_step (Sweep w) p = (None, maybe_sweep w p)"

fun rl_run :: "rl_event list \<Rightarrow> rate_limit_plugin \<Rightarrow> (rl_event \<times> bool option) list \<times> rate_limit_plugin" where
  "rl_run [] p = ([], p)"
| "rl_run (e # es) p =
     (case rl_step e p of (a, p') \<Rightarrow> (case rl_run es p' of (log, p'') \<Rightarrow> ((e, a) # log, p'')))"

text \<open>A request is its two steps.\<close>

lemma allow_request_steps:
  "allow_request p now ip =
     (let w = current_window p now; (log, p') = rl_run [Locked w ip, Sweep w] p
      in (snd (hd log) = Some True, p'))"
  by (auto simp: allow_request_def Let_def split: prod.splits)

fun ev_window :: "rl_event \<Rightarrow> nat" where
  "ev_window (Locked w _) = w"
| "ev_window (Sweep w) = w"

definition locks :: "rl_event list \<Rightarrow> nat \<Rightarrow> ip_addr \<Rightarrow> nat" where
  "locks es w ip = length (filter (\<lambda>e. e = Locked w ip) es)"

definition allowed_in :: "(rl_event \<times> bool option) list \<Rightarrow> nat \<Rightarrow> ip_addr \<Rightarrow> nat" where
  "allowed_in log w ip = length (filter (\<lambda>l. l = (Locked w ip, Some True)) log)"

text \<open>
  The invariant: for every window that can still come, a client's bucket carries exactly the
  number of its requests in that window, up to the width of the counter, and no bucket is
  ahead of the last window seen.
\<close>

definition counted :: "rate_limit_plugin \<Rightarrow> nat \<Rightarrow> ip_addr \<Rightarrow> nat" where
  "counted p w ip =
     (case hm_get (rl_buckets p) ip of
        None \<Rightarrow> 0
      | Some b \<Rightarrow> if bk_window b = w then bk_count b else 0)"

definition rl_inv :: "rate_limit_plugin \<Rightarrow> nat \<Rightarrow> (nat \<Rightarrow> ip_addr \<Rightarrow> nat) \<Rightarrow> bool" where
  "rl_inv p now n \<longleftrightarrow>
     hm_wf (rl_buckets p) \<and>
     (\<forall>ip w. now \<le> w \<longrightarrow> counted p w ip = min u32_max (n w ip)) \<and>
     (\<forall>ip w. now < w \<longrightarrow> n w ip = 0) \<and>
     (\<forall>ip b. hm_get (rl_buckets p) ip = Some b \<longrightarrow> bk_window b \<le> now \<and> bk_last_seen b = bk_window b)"

lemma touch_bucket_window [simp]:
  "bk_window (touch_bucket w e) = w" "bk_last_seen (touch_bucket w e) = w"
  by (auto simp: touch_bucket_def bucket_new_def Let_def)

lemma counted_locked:
  "counted (snd (locked_allow w ip p)) v c =
     (if c = ip then if v = w then sat_add u32_max (counted p w ip) 1 else 0 else counted p v c)"
  by (auto simp: counted_def locked_allow_def Let_def touch_bucket_def bucket_new_def split: option.split)

lemma locked_allow_fst:
  "fst (locked_allow w ip p) \<longleftrightarrow> sat_add u32_max (counted p w ip) 1 \<le> rl_max_requests_per_second p"
  by (auto simp: counted_def locked_allow_def Let_def touch_bucket_def bucket_new_def split: option.split)

lemma locked_allow_inv:
  assumes "rl_inv p now n" and "now \<le> w"
  shows "rl_inv (snd (locked_allow w ip p)) w (n(w := (n w)(ip := n w ip + 1)))"
proof -
  let ?p = "snd (locked_allow w ip p)"
  have future: "w < v \<Longrightarrow> n v c = 0" for v c
    using assms by (auto simp: rl_inv_def)
  have "counted ?p v c = min u32_max ((n(w := (n w)(ip := n w ip + 1))) v c)" if "w \<le> v" for v c
  proof (cases "c = ip")
    case True
    from assms(1,2) that have "counted p v ip = min u32_max (n v ip)"
      "counted p w ip = min u32_max (n w ip)" by (simp_all add: rl_inv_def)
    moreover have "v \<noteq> w \<Longrightarrow> n v ip = 0" using future that by simp
    ultimately show ?thesis using True by (auto simp: counted_locked sat_add_def)
  next
    case False
    with assms(1,2) that show ?thesis by (simp add: counted_locked rl_inv_def)
  qed
  moreover have "bk_window b \<le> w \<and> bk_last_seen b = bk_window b"
    if "hm_get (rl_buckets ?p) c = Some b" for c b
    using that assms(1,2)
    by (auto simp: locked_allow_def Let_def rl_inv_def split: if_splits) fastforce
  moreover have "hm_wf (rl_buckets ?p)"
    using assms(1) by (simp add: rl_inv_def locked_allow_def Let_def)
  ultimately show ?thesis using future by (simp add: rl_inv_def)
qed

lemma counted_filter:
  assumes "hm_wf (rl_buckets p)"
    and "\<And>ip b. hm_get (rl_buckets p) ip = Some b \<Longrightarrow> \<not> P b \<Longrightarrow> bk_window b < w"
    and "w \<le> v"
  shows "counted (p\<lparr>rl_buckets := filter (\<lambda>(ip, b). P b) (rl_buckets p)\<rparr>) v c = counted p v c"
proof (cases "hm_get (rl_buckets p) c")
  case None
  with assms(1) show ?thesis by (simp add: counted_def hm_get_filter)
next
  case (Some b)
  with assms show ?thesis by (fastforce simp: counted_def hm_get_filter)
qed

lemma rl_inv_counter: "rl_inv (p\<lparr>rl_requests_since_sweep := k\<rparr>) w n = rl_inv p w n"
  "rl_inv (p\<lparr>rl_requests_since_sweep := k, rl_buckets := bs\<rparr>) w n = rl_inv (p\<lparr>rl_buckets := bs\<rparr>) w n"
  unfolding rl_inv_def counted_def by simp_all

lemma maybe_sweep_cases:
  obtains k where "maybe_sweep w p = p\<lparr>rl_requests_since_sweep := k\<rparr>"
  | k where "maybe_sweep w p =
      p\<lparr>rl_requests_since_sweep := k,
        rl_buckets := filter (\<lambda>(ip, b). w - BUCKET_TTL_SECS \<le> bk_last_seen b) (rl_buckets p)\<rparr>"
  by (cases "wrap_add64 (rl_requests_since_sweep p) 1 mod SWEEP_INTERVAL_REQUESTS \<noteq> 0")
    (simp_all add: maybe_sweep_def Let_def)

text \<open>A sweep forgets only buckets of past windows.\<close>

lemma maybe_sweep_inv:
  assumes "rl_inv p now n" and "now \<le> w"
  shows "rl_inv (maybe_sweep w p) w n"
proof -
  have late: "rl_inv p w n" using assms by (fastforce simp: rl_inv_def)
  let ?f = "\<lambda>(ip :: ip_addr, b). w - BUCKET_TTL_SECS \<le> bk_last_seen b"
  let ?q = "p\<lparr>rl_buckets := filter ?f (rl_buckets p)\<rparr>"
  have wf: "hm_wf (rl_buckets p)" using late by (simp add: rl_inv_def)
  have c: "counted ?q v c = counted p v c" if "w \<le> v" for v c
    by (rule counted_filter [OF wf _ that]) (use late in \<open>fastforce simp: rl_inv_def\<close>)
  have b: "bk_window b \<le> w \<and> bk_last_seen b = bk_window b" if "hm_get (rl_buckets ?q) c = Some b" for c b
  proof -
    from that wf have "hm_get (rl_buckets p) c = Some b"
      by (simp add: hm_get_filter split: option.splits if_splits)
    with late show ?thesis by (simp add: rl_inv_def)
  qed
  have "rl_inv ?q w n"
    unfolding rl_inv_def
  proof (intro conjI allI impI)
    show "hm_wf (rl_buckets ?q)" using wf by simp
    show "counted ?q v ip = min u32_max (n v ip)" if "w \<le> v" for ip v
      using c [OF that] late that by (simp add: rl_inv_def)
    show "n v ip = 0" if "w < v" for ip v
      using late that by (simp add: rl_inv_def)
  qed (use b in blast)+
  with late show ?thesis
    by (cases rule: maybe_sweep_cases [of w p]) (simp_all only: rl_inv_counter)
qed

lemma locked_allow_max [simp]:
  "rl_max_requests_per_second (snd (locked_allow w ip p)) = rl_max_requests_per_second p"
  by (simp add: locked_allow_def Let_def)

lemma maybe_sweep_max [simp]:
  "rl_max_requests_per_second (maybe_sweep w p) = rl_max_requests_per_second p"
  by (simp add: maybe_sweep_def Let_def)

lemma locks_past: "sorted (now # map ev_window es) \<Longrightarrow> w < now \<Longrightarrow> locks es w ip = 0"
  by (fastforce simp: locks_def filter_empty_conv)

lemma fst_rl_run_Locked:
  "fst (rl_run (Locked v c # es) p) =
     (Locked v c, Some (fst (locked_allow v c p))) # fst (rl_run es (snd (locked_allow v c p)))"
  by (simp split: prod.split)

lemma fst_rl_run_Sweep:
  "fst (rl_run (Sweep v # es) p) = (Sweep v, None) # fst (rl_run es (maybe_sweep v p))"
  by (simp split: prod.split)

lemma rl_run_allowed:
  assumes "rl_inv p now n" and "sorted (now # map ev_window es)"
    and "rl_max_requests_per_second p < u32_max"
  shows "allowed_in (fst (rl_run es p)) w ip + min (n w ip) (rl_max_requests_per_second p) =
    min (n w ip + locks es w ip) (rl_max_requests_per_second p)"
  using assms
proof (induction es arbitrary: p now n)
  case Nil
  then show ?case by (simp add: allowed_in_def locks_def)
next
  case (Cons e es)
  show ?case
  proof (cases e)
    case (Locked v c)
    let ?p = "snd (locked_allow v c p)" and ?n = "n(v := (n v)(c := n v c + 1))"
    have le: "now \<le> v" and sorted: "sorted (v # map ev_window es)"
      using Cons.prems(2) Locked by simp_all
    note IH = Cons.IH [OF locked_allow_inv [OF Cons.prems(1) le, of c] sorted]
    have "counted p v c = min u32_max (n v c)" using Cons.prems(1) le by (simp add: rl_inv_def)
    then have a: "fst (locked_allow v c p) \<longleftrightarrow> n v c + 1 \<le> rl_max_requests_per_second p"
      using Cons.prems(3) by (auto simp: locked_allow_fst sat_add_def)
    show ?thesis
    proof (cases "v = w \<and> c = ip")
      case True
      with IH Cons.prems(3) a show ?thesis
        by (cases "fst (locked_allow v c p)")
          (simp_all add: Locked allowed_in_def locks_def fst_rl_run_Locked del: rl_run.simps)
    next
      case False
      then have "?n w ip = n w ip" by auto
      with IH Cons.prems(3) False show ?thesis
        by (auto simp: Locked allowed_in_def locks_def fst_rl_run_Locked simp del: rl_run.simps)
    qed
  next
    case (Sweep v)
    have le: "now \<le> v" and sorted: "sorted (v # map ev_window es)"
      using Cons.prems(2) Sweep by simp_all
    note IH = Cons.IH [OF maybe_sweep_inv [OF Cons.prems(1) le] sorted]
    show ?thesis
      using IH Cons.prems(3)
      by (simp add: Sweep allowed_in_def locks_def fst_rl_run_Sweep del: rl_run.simps)
  qed
qed

lemma rate_limit_build_inv:
  assumes "rate_limit_build decode t spec = Inr p"
  shows "rl_inv p 0 (\<lambda>_ _. 0)"
  using assms by (auto simp: rate_limit_build_def Let_def res_simps rl_inv_def counted_def)

section \<open>Claims\<close>

text \<open>
  C16. The limiter admits exactly what it promises. Take any interleaving of the atomic steps of
  concurrent requests, sweeps included, in which no request enters the locked section with an
  older window than one before it. Then of the requests a client makes in one window, exactly
  the configured number is admitted, or all of them when there are fewer. The limit must be
  below the width of the counter, which saturates.
\<close>

theorem rate_limit_exact:
  assumes "rate_limit_build decode t spec = Inr p"
    and "rl_max_requests_per_second p < u32_max"
    and "sorted (map ev_window es)"
  shows "allowed_in (fst (rl_run es p)) w ip = min (locks es w ip) (rl_max_requests_per_second p)"
  using rl_run_allowed [OF rate_limit_build_inv [OF assms(1)] _ assms(2), of es w ip] assms(3)
  by simp

text \<open>
  The order of windows is needed. A request that read its window just before the second changed,
  and is locked after a request of the new second, resets the client's counter: two requests of
  one second pass a limit of one.
\<close>

definition one_per_second :: rate_limit_plugin where
  "one_per_second =
     \<lparr>rl_max_requests_per_second = 1, rl_started_at = 0, rl_buckets = [], rl_requests_since_sweep = 0\<rparr>"

lemma stale_window_resets:
  "allowed_in (fst (rl_run [Locked 1 ip, Locked 0 ip, Locked 1 ip] one_per_second)) 1 ip = 2"
  by (simp add: one_per_second_def locked_allow_def touch_bucket_def bucket_new_def Let_def
      sat_add_def allowed_in_def)

theorem rate_limit_exact_witness:
  "allowed_in (fst (rl_run [Locked 0 (V4 1), Sweep 0, Locked 0 (V4 1), Sweep 0] one_per_second)) 0 (V4 1) = 1"
proof -
  have b: "rate_limit_build (\<lambda>_. Some 1) 0 \<lparr>ps_name = ''rate-limit'', ps_config = Json []\<rparr> = Inr one_per_second"
    by (simp add: rate_limit_build_def one_per_second_def ok_or_def reject_def)
  have "rl_max_requests_per_second one_per_second < u32_max" by (simp add: one_per_second_def)
  moreover have "sorted (map ev_window [Locked 0 (V4 1), Sweep 0, Locked 0 (V4 1), Sweep 0])" by simp
  ultimately show ?thesis
    by (simp only: rate_limit_exact [OF b]) (simp add: locks_def one_per_second_def)
qed

end
