(* ===== verification/Plugins.thy ===== *)
theory Plugins
  imports Ext_Headers Ext_Auth Ext_Cors Rate_Limit
begin

text \<open>
  The built-in plugins as one type: \<^verbatim>\<open>dyn HttpPlugin\<close> with its three hooks and their defaults
  (\<^verbatim>\<open>crates/ngxora-plugin-api/src/lib.rs\<close>), the factories registered at start
  (\<^verbatim>\<open>crates/ngxora-plugin-registry/src/lib.rs\<close>, all plugin features enabled), and what running a
  chain of hooks in order means.
\<close>

section \<open>The plugins\<close>

datatype 'k http_plugin =
    HeadersPlugin headers_plugin
  | BasicAuthPlugin basic_auth_plugin
  | RateLimitPlugin rate_limit_plugin
  | CorsPlugin cors_plugin
  | ExtAuthzPlugin ext_authz_plugin
  | JwtAuthPlugin "'k jwt_auth_plugin"

text \<open>The libraries the plugins call.\<close>

record 'k plugin_libs =
  pl_ext :: externals
  pl_headers_config :: "json \<Rightarrow> headers_plugin_config option"
  pl_parse_net :: "string \<Rightarrow> ip_net option"
  pl_net_of_ip :: "ip_addr \<Rightarrow> ip_net"
  pl_basic :: basic_auth_lib
  pl_rate_config :: "json \<Rightarrow> int option"
  pl_cors_config :: "json \<Rightarrow> cors_config option"
  pl_authz :: authz_lib
  pl_jwt :: "'k jwt_lib"

primrec plugin_name :: "'k http_plugin \<Rightarrow> string" where
  "plugin_name (HeadersPlugin _) = ''headers''"
| "plugin_name (BasicAuthPlugin _) = ''basic-auth''"
| "plugin_name (RateLimitPlugin _) = ''rate-limit''"
| "plugin_name (CorsPlugin _) = ''cors''"
| "plugin_name (ExtAuthzPlugin _) = ''ext_authz''"
| "plugin_name (JwtAuthPlugin _) = ''jwt_auth''"

text \<open>
  The hooks. The rate limiter is the one plugin with state of its own, so the request hook
  returns the plugin as it is afterwards.
\<close>

primrec on_request ::
  "'k plugin_libs \<Rightarrow> instant \<Rightarrow> 'k http_plugin \<Rightarrow> request_ctx \<Rightarrow> request_ctx hook_result \<times> 'k http_plugin" where
  "on_request l now (HeadersPlugin p) ctx = (headers_on_request (pl_ext l) p ctx, HeadersPlugin p)"
| "on_request l now (BasicAuthPlugin p) ctx = (basic_auth_on_request (pl_ext l) p ctx, BasicAuthPlugin p)"
| "on_request l now (RateLimitPlugin p) ctx =
     (case rate_limit_on_request p now ctx of (r, p') \<Rightarrow> (r, RateLimitPlugin p'))"
| "on_request l now (CorsPlugin p) ctx = (cors_on_request p ctx, CorsPlugin p)"
| "on_request l now (ExtAuthzPlugin p) ctx =
     (ext_authz_on_request (pl_ext l) (pl_authz l) p ctx, ExtAuthzPlugin p)"
| "on_request l now (JwtAuthPlugin p) ctx = (jwt_auth_on_request (pl_jwt l) p ctx, JwtAuthPlugin p)"

definition on_upstream_request ::
  "'k plugin_libs \<Rightarrow> 'k http_plugin \<Rightarrow> upstream_request_ctx \<Rightarrow> upstream_request_ctx hook_result" where
  "on_upstream_request l p ctx =
     (case p of HeadersPlugin h \<Rightarrow> headers_on_upstream_request (pl_ext l) h ctx | _ \<Rightarrow> Inr (Continue, ctx))"

definition on_response ::
  "'k plugin_libs \<Rightarrow> 'k http_plugin \<Rightarrow> response_ctx \<Rightarrow> response_ctx hook_result" where
  "on_response l p ctx =
     (case p of
        HeadersPlugin h \<Rightarrow> headers_on_response (pl_ext l) h ctx
      | CorsPlugin c \<Rightarrow> cors_on_response (pl_ext l) c ctx
      | _ \<Rightarrow> Inr (Continue, ctx))"

section \<open>The built-in factories\<close>

definition factory :: "string \<Rightarrow> (plugin_spec \<Rightarrow> (plugin_build_error, 'p) result) \<Rightarrow> ('p \<Rightarrow> 'q) \<Rightarrow> 'q plugin_factory" where
  "factory name build wrap =
     \<lparr>pf_name = name, pf_build = (\<lambda>spec. and_then (build spec) (\<lambda>p. Inr (wrap p)))\<rparr>"

definition register_builtin_plugins ::
  "'k plugin_libs \<Rightarrow> instant \<Rightarrow> 'k http_plugin plugin_registry \<Rightarrow> 'k http_plugin plugin_registry" where
  "register_builtin_plugins l now r =
     (let r1 = register (factory ''headers''
            (headers_build (pl_ext l) (pl_headers_config l) (pl_parse_net l) (pl_net_of_ip l)) HeadersPlugin) r;
          r2 = register (factory ''basic-auth'' (basic_auth_build (pl_ext l) (pl_basic l)) BasicAuthPlugin) r1;
          r3 = register (factory ''rate-limit'' (rate_limit_build (pl_rate_config l) now) RateLimitPlugin) r2;
          r4 = register (factory ''cors'' (cors_build (pl_ext l) (pl_cors_config l)) CorsPlugin) r3;
          r5 = register (factory ''ext_authz'' (ext_authz_build (pl_ext l) (pl_authz l)) ExtAuthzPlugin) r4
      in register (factory ''jwt_auth'' (jwt_auth_build (pl_jwt l)) JwtAuthPlugin) r5)"

definition with_builtin_plugins :: "'k plugin_libs \<Rightarrow> instant \<Rightarrow> 'k http_plugin plugin_registry" where
  "with_builtin_plugins l now = register_builtin_plugins l now registry_new"

lemma build_plugin_Nil: "build_plugin [] spec \<noteq> Inr p"
  by (simp add: build_plugin_def)

lemma build_plugin_builtin:
  assumes "build_plugin (with_builtin_plugins l now) spec = Inr p"
  shows "plugin_name p = ps_name spec"
  using assms
  by (auto simp: with_builtin_plugins_def register_builtin_plugins_def registry_new_def Let_def
      build_plugin_register factory_def res_simps build_plugin_Nil split: if_splits)

section \<open>Running the request hooks\<close>

text \<open>
  The loop over the plugins of a route: an error or a local response ends it, and the plugins
  after that point are not called. The chain is returned as the hooks left it.
\<close>

datatype chain_outcome = ChainFailed plugin_error | ChainResponded local_response | ChainPassed

fun run_request_chain ::
  "'k plugin_libs \<Rightarrow> instant \<Rightarrow> 'k http_plugin list \<Rightarrow> request_ctx \<Rightarrow>
   chain_outcome \<times> request_ctx \<times> 'k http_plugin list" where
  "run_request_chain l now [] ctx = (ChainPassed, ctx, [])"
| "run_request_chain l now (p # ps) ctx =
     (case on_request l now p ctx of
        (Inl e, p') \<Rightarrow> (ChainFailed e, ctx, p' # ps)
      | (Inr (Respond r, ctx'), p') \<Rightarrow> (ChainResponded r, ctx', p' # ps)
      | (Inr (Continue, ctx'), p') \<Rightarrow>
          (case run_request_chain l now ps ctx' of
             (out, ctx'', ps') \<Rightarrow> (out, ctx'', p' # ps')))"

text \<open>The response hooks run in reverse order of the chain; a local response there is an error.\<close>

fun run_response_chain ::
  "'k plugin_libs \<Rightarrow> 'k http_plugin list \<Rightarrow> response_ctx \<Rightarrow> (string, response_ctx) result" where
  "run_response_chain l [] ctx = Inr ctx"
| "run_response_chain l (p # ps) ctx =
     (case on_response l p ctx of
        Inl e \<Rightarrow> Inl ''plugin hook failed during response_filter''
      | Inr (Respond r, ctx') \<Rightarrow>
          Inl ''plugin attempted local response during response_filter, which is not supported''
      | Inr (Continue, ctx') \<Rightarrow> run_response_chain l ps ctx')"

fun run_upstream_chain ::
  "'k plugin_libs \<Rightarrow> 'k http_plugin list \<Rightarrow> upstream_request_ctx \<Rightarrow> (string, upstream_request_ctx) result" where
  "run_upstream_chain l [] ctx = Inr ctx"
| "run_upstream_chain l (p # ps) ctx =
     (case on_upstream_request l p ctx of
        Inl e \<Rightarrow> Inl ''plugin hook failed during upstream_request_filter''
      | Inr (Respond r, ctx') \<Rightarrow>
          Inl ''plugin attempted local response during upstream_request_filter, which is not supported''
      | Inr (Continue, ctx') \<Rightarrow> run_upstream_chain l ps ctx')"

text \<open>The chain keeps its length and the kind of each plugin.\<close>

lemma on_request_name: "plugin_name (snd (on_request l now p ctx)) = plugin_name p"
  by (cases p) (auto split: prod.splits)

lemma run_request_chain_names:
  "map plugin_name (snd (snd (run_request_chain l now ps ctx))) = map plugin_name ps"
proof (induction l now ps ctx rule: run_request_chain.induct)
  case (1 l now ctx)
  then show ?case by simp
next
  case (2 l now p ps ctx)
  show ?case
    using 2 on_request_name [of l now p ctx]
    by (auto split: prod.splits sum.splits plugin_flow.splits)
qed

text \<open>
  A chain is passed only when every plugin let the request through, each on the headers the ones
  before it left.
\<close>

lemma run_request_chain_Passed:
  "run_request_chain l now (ps @ p # qs) ctx = (ChainPassed, ctx', chain) \<Longrightarrow>
   \<exists>c c'. run_request_chain l now ps ctx = (ChainPassed, c, snd (snd (run_request_chain l now ps ctx))) \<and>
     fst (on_request l now p c) = Inr (Continue, c')"
proof (induction ps arbitrary: ctx chain)
  case Nil
  then show ?case by (auto split: prod.splits sum.splits plugin_flow.splits)
next
  case (Cons q ps)
  then obtain c q' ch where step: "on_request l now q ctx = (Inr (Continue, c), q')"
    and rest: "run_request_chain l now (ps @ p # qs) c = (ChainPassed, ctx', ch)"
    by (auto split: prod.splits sum.splits plugin_flow.splits)
  from Cons.IH [OF rest] step show ?case by (auto split: prod.splits)
qed

lemma run_response_chain_append:
  "run_response_chain l (ps @ qs) ctx = and_then (run_response_chain l ps ctx) (run_response_chain l qs)"
  by (induction ps arbitrary: ctx) (auto split: sum.splits prod.splits plugin_flow.splits)

lemma on_response_never_responds: "on_response l p ctx = Inr (flow, ctx') \<Longrightarrow> flow = Continue"
  by (auto simp: on_response_def headers_on_response_def cors_on_response_def res_simps
      split: http_plugin.splits)

lemma on_upstream_request_never_responds: "on_upstream_request l p ctx = Inr (flow, ctx') \<Longrightarrow> flow = Continue"
  by (auto simp: on_upstream_request_def headers_on_upstream_request_def res_simps
      split: http_plugin.splits)

end
