(* ===== verification/Topology.thy ===== *)
theory Topology
  imports Client_Ip
begin

text \<open>
  Endpoints discovered through the NRF: priority tiers, capacity-weighted service pools and the
  rotation over the endpoints of a service
  (\<^verbatim>\<open>upstreams/runtime/groups/topology.rs\<close>), with the synthetic backends that stand for endpoints and
  services in the load balancer (\<^verbatim>\<open>upstreams/runtime/groups.rs\<close>).

  Pingora's load balancer is a parameter: a record of its operations over an opaque state.
\<close>

section \<open>Backends\<close>

text \<open>
  A \<^verbatim>\<open>Backend\<close> of Pingora. It is compared by address and weight; what it carries as extension does
  not count.
\<close>

record backend =
  bd_addr :: "128 word"
  bd_weight :: nat
  bd_server :: "compiled_upstream_server option"
  bd_service :: "nrf_service_metadata option"

definition bd_key :: "backend \<Rightarrow> nat \<times> nat" where
  "bd_key b = (unat (bd_addr b), bd_weight b)"

text \<open>
  \<^verbatim>\<open>BTreeSet<Backend>\<close>: \<^verbatim>\<open>insert\<close> keeps the element that is there, \<^verbatim>\<open>collect\<close> keeps the last of equal
  elements.
\<close>

definition btree_insert :: "backend \<Rightarrow> backend list \<Rightarrow> backend list" where
  "btree_insert b bs = (if bd_key b \<in> bd_key ` set bs then bs else insort_key bd_key b bs)"

fun keep_last :: "('a \<Rightarrow> 'k) \<Rightarrow> 'a list \<Rightarrow> 'a list" where
  "keep_last f [] = []"
| "keep_last f (b # bs) = (if f b \<in> f ` set bs then keep_last f bs else b # keep_last f bs)"

definition btree_collect :: "backend list \<Rightarrow> backend list" where
  "btree_collect bs = sort_key bd_key (keep_last bd_key bs)"

text \<open>\<^verbatim>\<open>Ipv6Addr::new(0xfd00, 0, 0, 0, ...)\<close>: the low 48 bits of the id.\<close>

definition synthetic_backend_addr :: "nat \<Rightarrow> 128 word" where
  "synthetic_backend_addr i =
     groups_value [0xfd00, 0, 0, 0, i div 2 ^ 32 mod 65536, i div 2 ^ 16 mod 65536, i mod 65536, 1]"

definition synthetic_backends :: "compiled_upstream_server list \<Rightarrow> backend list" where
  "synthetic_backends servers =
     btree_collect (map (\<lambda>(index, server).
       \<lparr>bd_addr = synthetic_backend_addr index, bd_weight = cs_weight server,
        bd_server = Some server, bd_service = None\<rparr>) (enumerate 0 servers))"

text \<open>
  \<^verbatim>\<open>while !used.insert(id) { id = id.wrapping_add(1) }\<close>; one try more than there are used ids is
  enough.
\<close>

fun fresh_loop :: "nat \<Rightarrow> nat list \<Rightarrow> nat \<Rightarrow> nat option" where
  "fresh_loop 0 used i = None"
| "fresh_loop (Suc fuel) used i =
     (if i \<notin> set used then Some i else fresh_loop fuel used (wrap_add64 i 1))"

definition fresh_id :: "nat list \<Rightarrow> nat \<Rightarrow> nat" where
  "fresh_id used i = (case fresh_loop (Suc (length used)) used i of None \<Rightarrow> i | Some j \<Rightarrow> j)"

text \<open>
  \<^verbatim>\<open>DefaultHasher\<close> is the library's; \<open>hash\<close> gives the hash of the fields fed to it, in order.
\<close>

definition stable_backend_id ::
  "(string \<times> nat \<times> string option \<times> (string \<times> string) option \<Rightarrow> nat) \<Rightarrow> compiled_upstream_server \<Rightarrow> nat" where
  "stable_backend_id hash s =
     hash (cs_host s, cs_port s, cs_api_prefix s,
       map_option (\<lambda>m. (ns_nf_instance_id m, ns_service_instance_id m)) (cs_nrf_service s))"

fun dynamic_loop ::
  "(compiled_upstream_server \<Rightarrow> nat) \<Rightarrow> nat list \<Rightarrow> compiled_upstream_server list \<Rightarrow> backend list" where
  "dynamic_loop ident used [] = []"
| "dynamic_loop ident used (s # ss) =
     (let i = fresh_id used (ident s)
      in \<lparr>bd_addr = synthetic_backend_addr i, bd_weight = cs_weight s, bd_server = Some s, bd_service = None\<rparr>
         # dynamic_loop ident (i # used) ss)"

definition dynamic_synthetic_backends ::
  "(compiled_upstream_server \<Rightarrow> nat) \<Rightarrow> compiled_upstream_server list \<Rightarrow> backend list" where
  "dynamic_synthetic_backends ident servers = btree_collect (dynamic_loop ident [] servers)"

section \<open>Capacities\<close>

definition bump :: "nat list \<Rightarrow> nat \<Rightarrow> nat list" where
  "bump ws i = ws[i := sat_add u16_max (ws ! i) 1]"

definition normalized_capacities :: "nat list \<Rightarrow> (string, nat list) result" where
  "normalized_capacities cs =
     (if cs = [] then Inr []
      else if 0 \<in> set cs then Inl ''positive-capacity NRF pool contains a zero capacity''
      else if u16_max < length cs then Inl ''NRF priority tier contains too many services''
      else
        let total = sum_list cs
        in if total \<le> u16_max then Inr cs
           else
             let remaining = u16_max - length cs;
                 raw = map (\<lambda>c. 1 + c * remaining div total) cs;
                 weights = map (min u16_max) raw;
                 remainders = map (\<lambda>(i, c). (c * remaining mod total, i)) (enumerate 0 cs);
                 assigned = sum_list raw;
                 chosen = take (u16_max - assigned) (rev (sort remainders))
             in Inr (foldl bump weights (map snd chosen)))"

section \<open>Services and pools\<close>

record runtime_nrf_service =
  rn_endpoints :: "backend list"
  rn_next_endpoint :: nat

text \<open>The scan of \<^verbatim>\<open>select_endpoint\<close> from an offset; additions on \<^verbatim>\<open>usize\<close> wrap.\<close>

fun endpoint_scan :: "backend list \<Rightarrow> (backend \<Rightarrow> bool) \<Rightarrow> nat \<Rightarrow> nat list \<Rightarrow> compiled_upstream_server option" where
  "endpoint_scan es ready start [] = None"
| "endpoint_scan es ready start (offset # offsets) =
     (let b = es ! (wrap_add64 start offset mod length es)
      in if ready b then bd_server b else endpoint_scan es ready start offsets)"

definition select_endpoint ::
  "(backend \<Rightarrow> bool) \<Rightarrow> runtime_nrf_service \<Rightarrow> compiled_upstream_server option \<times> runtime_nrf_service" where
  "select_endpoint ready s =
     (let start = rn_next_endpoint s
      in (endpoint_scan (rn_endpoints s) ready start [0..<length (rn_endpoints s)],
          s\<lparr>rn_next_endpoint := wrap_add64 start 1\<rparr>))"

text \<open>Pingora's load balancer over an opaque selector state.\<close>

record 's lb_lib =
  lb_new :: "upstream_selection_policy \<Rightarrow> backend list \<Rightarrow> compiled_health_check option \<Rightarrow> (string, 's) result"
  lb_select :: "'s \<Rightarrow> string \<Rightarrow> nat \<Rightarrow> backend option \<times> 's"
  lb_select_with :: "'s \<Rightarrow> string \<Rightarrow> nat \<Rightarrow> (backend \<Rightarrow> bool) \<Rightarrow> backend option \<times> 's"

record 's nrf_service_pool =
  np_selector :: 's
  np_services :: "(nrf_service_metadata, runtime_nrf_service) hmap"

record 's nrf_service_tier =
  nt_positive_capacity :: "'s nrf_service_pool option"
  nt_zero_capacity :: "'s nrf_service_pool option"

record nrf_endpoint_identity =
  ne_host :: string
  ne_port :: nat
  ne_api_prefix :: "string option"

type_synonym nrf_topology_signature = "(nrf_service_metadata \<times> nrf_endpoint_identity list) list"

record 's nrf_service_topology =
  nt_signature :: nrf_topology_signature
  nt_tiers :: "'s nrf_service_tier list"

type_synonym service_entry = "nrf_service_metadata \<times> backend list"

text \<open>The representatives of the services of a pool, with their ids made distinct.\<close>

fun pool_backends :: "(nrf_service_metadata \<Rightarrow> nat) \<Rightarrow> nat list \<Rightarrow> (service_entry \<times> nat) list \<Rightarrow> backend list \<Rightarrow> backend list" where
  "pool_backends ident used [] acc = acc"
| "pool_backends ident used (((service, endpoints), weight) # rest) acc =
     (let i = fresh_id used (ident service)
      in pool_backends ident (i # used) rest
           (btree_insert \<lparr>bd_addr = synthetic_backend_addr i, bd_weight = weight,
              bd_server = None, bd_service = Some service\<rparr> acc))"

definition pool_services :: "service_entry list \<Rightarrow> (nrf_service_metadata, runtime_nrf_service) hmap" where
  "pool_services services =
     foldl (\<lambda>m (service, endpoints).
       hm_insert service \<lparr>rn_endpoints = endpoints, rn_next_endpoint = 0\<rparr> m) [] services"

definition pool_build ::
  "'s lb_lib \<Rightarrow> (nrf_service_metadata \<Rightarrow> nat) \<Rightarrow> service_entry list \<Rightarrow> upstream_selection_policy \<Rightarrow>
   (string, 's nrf_service_pool option) result" where
  "pool_build lb ident services policy =
     (if services = [] then Inr None
      else
        and_then (normalized_capacities (map (\<lambda>(service, _). max (ns_capacity service) 1) services)) (\<lambda>weights.
        and_then (lb_new lb policy (pool_backends ident [] (zip services weights) []) None) (\<lambda>selector.
        Inr (Some \<lparr>np_selector = selector, np_services = pool_services (map fst (zip services weights))\<rparr>))))"

definition service_ready :: "'s nrf_service_pool \<Rightarrow> (backend \<Rightarrow> bool) \<Rightarrow> backend \<Rightarrow> bool" where
  "service_ready pool ready b =
     (case Option.bind (bd_service b) (hm_get (np_services pool)) of
        None \<Rightarrow> False
      | Some service \<Rightarrow> list_ex ready (rn_endpoints service))"

definition pool_select ::
  "'s lb_lib \<Rightarrow> string \<Rightarrow> (backend \<Rightarrow> bool) \<Rightarrow> 's nrf_service_pool \<Rightarrow>
   compiled_upstream_server option \<times> 's nrf_service_pool" where
  "pool_select lb key ready pool =
     (case lb_select_with lb (np_selector pool) key (max (length (np_services pool)) 256)
         (service_ready pool ready) of
        (chosen, sel) \<Rightarrow>
          let pool' = pool\<lparr>np_selector := sel\<rparr>
          in (case Option.bind chosen bd_service of
                None \<Rightarrow> (None, pool')
              | Some metadata \<Rightarrow>
                  (case hm_get (np_services pool) metadata of
                     None \<Rightarrow> (None, pool')
                   | Some service \<Rightarrow>
                       (case select_endpoint ready service of
                          (server, service') \<Rightarrow>
                            (server, pool'\<lparr>np_services := hm_insert metadata service' (np_services pool)\<rparr>)))))"

definition opt_pool_select ::
  "'s lb_lib \<Rightarrow> string \<Rightarrow> (backend \<Rightarrow> bool) \<Rightarrow> 's nrf_service_pool option \<Rightarrow>
   compiled_upstream_server option \<times> 's nrf_service_pool option" where
  "opt_pool_select lb key ready pool =
     (case pool of
        None \<Rightarrow> (None, None)
      | Some p \<Rightarrow> (case pool_select lb key ready p of (s, p') \<Rightarrow> (s, Some p')))"

section \<open>Tiers\<close>

definition tier_build ::
  "'s lb_lib \<Rightarrow> (nrf_service_metadata \<Rightarrow> nat) \<Rightarrow> service_entry list \<Rightarrow> upstream_selection_policy \<Rightarrow>
   (string, 's nrf_service_tier) result" where
  "tier_build lb ident services policy =
     and_then (pool_build lb ident (filter (\<lambda>(service, _). 0 < ns_capacity service) services) policy) (\<lambda>positive.
     and_then (pool_build lb ident (filter (\<lambda>(service, _). \<not> 0 < ns_capacity service) services) policy) (\<lambda>zero.
     Inr \<lparr>nt_positive_capacity = positive, nt_zero_capacity = zero\<rparr>))"

definition tier_select ::
  "'s lb_lib \<Rightarrow> string \<Rightarrow> (backend \<Rightarrow> bool) \<Rightarrow> 's nrf_service_tier \<Rightarrow>
   compiled_upstream_server option \<times> 's nrf_service_tier" where
  "tier_select lb key ready tier =
     (case opt_pool_select lb key ready (nt_positive_capacity tier) of
        (Some s, pool) \<Rightarrow> (Some s, tier\<lparr>nt_positive_capacity := pool\<rparr>)
      | (None, pool) \<Rightarrow>
          (case opt_pool_select lb key ready (nt_zero_capacity tier) of
             (s, zero) \<Rightarrow> (s, tier\<lparr>nt_positive_capacity := pool, nt_zero_capacity := zero\<rparr>)))"

fun tiers_select ::
  "'s lb_lib \<Rightarrow> string \<Rightarrow> (backend \<Rightarrow> bool) \<Rightarrow> 's nrf_service_tier list \<Rightarrow>
   compiled_upstream_server option \<times> 's nrf_service_tier list" where
  "tiers_select lb key ready [] = (None, [])"
| "tiers_select lb key ready (tier # tiers) =
     (case tier_select lb key ready tier of
        (Some s, tier') \<Rightarrow> (Some s, tier' # tiers)
      | (None, tier') \<Rightarrow>
          (case tiers_select lb key ready tiers of (s, tiers') \<Rightarrow> (s, tier' # tiers')))"

definition topology_select ::
  "'s lb_lib \<Rightarrow> string \<Rightarrow> (backend \<Rightarrow> bool) \<Rightarrow> 's nrf_service_topology \<Rightarrow>
   compiled_upstream_server option \<times> 's nrf_service_topology" where
  "topology_select lb key ready t =
     (case tiers_select lb key ready (nt_tiers t) of (s, tiers) \<Rightarrow> (s, t\<lparr>nt_tiers := tiers\<rparr>))"

text \<open>\<^verbatim>\<open>BTreeMap::entry(k).or_default().push(v)\<close>: the keys stay in order.\<close>

fun btree_push :: "'k :: linorder \<Rightarrow> 'v \<Rightarrow> ('k \<times> 'v list) list \<Rightarrow> ('k \<times> 'v list) list" where
  "btree_push k v [] = [(k, [v])]"
| "btree_push k v ((k', vs) # m) =
     (if k = k' then (k', vs @ [v]) # m
      else if k < k' then (k, [v]) # (k', vs) # m
      else (k', vs) # btree_push k v m)"

definition add_service ::
  "service_entry list \<Rightarrow> backend \<Rightarrow> (string, service_entry list) result" where
  "add_service services b =
     and_then (ok_or ''NRF backend is missing compiled endpoint metadata'' (bd_server b)) (\<lambda>server.
     and_then (ok_or ''NRF backend is missing service metadata'' (cs_nrf_service server)) (\<lambda>service.
     Inr (btree_push service b services)))"

definition endpoint_identity :: "compiled_upstream_server \<Rightarrow> nrf_endpoint_identity" where
  "endpoint_identity s = \<lparr>ne_host = cs_host s, ne_port = cs_port s, ne_api_prefix = cs_api_prefix s\<rparr>"

definition topology_signature :: "service_entry list \<Rightarrow> nrf_topology_signature" where
  "topology_signature services =
     map (\<lambda>(service, endpoints). (service, map endpoint_identity (List.map_filter bd_server endpoints))) services"

definition by_priority :: "service_entry list \<Rightarrow> (nat \<times> service_entry list) list" where
  "by_priority services =
     foldl (\<lambda>m (service, endpoints). btree_push (ns_priority service) (service, endpoints) m) [] services"

definition topology_build ::
  "'s lb_lib \<Rightarrow> (nrf_service_metadata \<Rightarrow> nat) \<Rightarrow> backend list \<Rightarrow> upstream_selection_policy \<Rightarrow>
   (string, 's nrf_service_topology option) result" where
  "topology_build lb ident backends policy =
     and_then (fold_res add_service [] backends) (\<lambda>services.
       if services = [] then Inr None
       else
         and_then (map_res (\<lambda>(_, services). tier_build lb ident services policy) (by_priority services)) (\<lambda>tiers.
         Inr (Some \<lparr>nt_signature = topology_signature services, nt_tiers = tiers\<rparr>)))"

section \<open>Fresh ids\<close>

lemma fresh_loop_None:
  "i < 2 ^ 64 \<Longrightarrow> fresh_loop n used i = None \<Longrightarrow> k < n \<Longrightarrow> (i + k) mod 2 ^ 64 \<in> set used"
proof (induction n used i arbitrary: k rule: fresh_loop.induct)
  case (2 fuel used i)
  then have i: "i \<in> set used" and rest: "fresh_loop fuel used (wrap_add64 i 1) = None"
    by (auto split: if_splits)
  show ?case
  proof (cases k)
    case 0
    with i 2 show ?thesis by simp
  next
    case (Suc k')
    have "wrap_add64 i 1 < 2 ^ 64" by (simp add: wrap_add64_def)
    with 2 rest i Suc have "(wrap_add64 i 1 + k') mod 2 ^ 64 \<in> set used" by simp
    moreover have "(wrap_add64 i 1 + k') mod 2 ^ 64 = (i + k) mod 2 ^ 64"
      unfolding Suc wrap_add64_def by (metis add.assoc mod_add_left_eq plus_1_eq_Suc)
    ultimately show ?thesis by simp
  qed
qed simp

lemma fresh_loop_Some: "fresh_loop n used i = Some j \<Longrightarrow> j \<notin> set used"
  by (induction n used i rule: fresh_loop.induct) (auto split: if_splits)

text \<open>The bound on the number of tries is enough.\<close>

lemma fresh_id_fresh:
  assumes "i < 2 ^ 64" and "length used < 2 ^ 64"
  shows "fresh_id used i \<notin> set used"
proof (cases "fresh_loop (Suc (length used)) used i")
  case None
  let ?f = "\<lambda>k. (i + k) mod (2 ^ 64 :: nat)"
  have "?f ` {..length used} \<subseteq> set used"
    using fresh_loop_None [OF assms(1) None] by auto
  moreover have "inj_on ?f {..length used}"
  proof (rule inj_onI)
    fix a b
    assume ab: "a \<in> {..length used}" "b \<in> {..length used}" "?f a = ?f b"
    have "a = b" if "a \<le> b" "b \<le> length used" "?f b = ?f a" for a b
    proof -
      have "2 ^ 64 dvd (i + b) - (i + a)"
        by (rule iffD1 [OF mod_eq_dvd_iff_nat that(3)]) (simp add: that(1))
      then have "2 ^ 64 dvd b - a" by simp
      moreover have "b - a < 2 ^ 64" using that(2) assms(2) by simp
      ultimately have "b - a = 0" by (meson dvd_imp_le not_less zero_less_iff_neq_zero)
      with that(1) show ?thesis by simp
    qed
    from this [of a b] this [of b a] ab show "a = b" by (cases "a \<le> b") auto
  qed
  ultimately have "card {..length used} \<le> card (set used)"
    by (metis card_inj_on_le finite_set)
  also have "\<dots> \<le> length used" by (rule card_length)
  finally show ?thesis by simp
next
  case (Some j)
  with fresh_loop_Some [OF Some] show ?thesis by (simp add: fresh_id_def del: fresh_loop.simps)
qed

section \<open>Capacities add up\<close>

lemma foldl_bump:
  assumes "distinct is" and "\<forall>i \<in> set is. i < length ws \<and> ws ! i < u16_max"
  shows "length (foldl bump ws is) = length ws \<and>
    (\<forall>j < length ws. foldl bump ws is ! j = ws ! j + (if j \<in> set is then 1 else 0)) \<and>
    sum_list (foldl bump ws is) = sum_list ws + length is"
  using assms
proof (induction "is" arbitrary: ws)
  case Nil
  then show ?case by simp
next
  case (Cons i "is")
  then have i: "i < length ws" "ws ! i < u16_max" "i \<notin> set is" by simp_all
  then have bump: "bump ws i = ws[i := ws ! i + 1]" by (simp add: bump_def sat_add_def)
  have "\<forall>j \<in> set is. j < length (bump ws i) \<and> bump ws i ! j < u16_max"
    using Cons.prems i(3) by (auto simp: bump nth_list_update)
  with Cons have IH: "length (foldl bump (bump ws i) is) = length ws"
    "\<forall>j < length ws. foldl bump (bump ws i) is ! j = bump ws i ! j + (if j \<in> set is then 1 else 0)"
    "sum_list (foldl bump (bump ws i) is) = sum_list (bump ws i) + length is"
    by (simp_all add: bump)
  have "sum_list (bump ws i) = sum_list ws + 1"
    using i(1) member_le_sum_list [of "ws ! i" ws] by (simp add: bump sum_list_update)
  with IH i show ?case by (auto simp: bump nth_list_update)
qed

lemma scaled_sum:
  fixes t :: nat
  shows "sum_list (map (\<lambda>c. c * r div t) cs) * t + sum_list (map (\<lambda>c. c * r mod t) cs) = sum_list cs * r"
proof (induction cs)
  case (Cons c cs)
  have "c * r div t * t + c * r mod t = c * r" by simp
  with Cons show ?case by (simp add: algebra_simps)
qed simp

lemma sum_list_mod_le:
  fixes t :: nat
  shows "0 < t \<Longrightarrow> sum_list (map (\<lambda>c. c * r mod t) cs) \<le> length cs * t"
proof (induction cs)
  case (Cons c cs)
  have "c * r mod t \<le> t" using Cons.prems by (simp add: less_imp_le)
  from add_mono [OF this Cons.IH [OF Cons.prems]] show ?case by (simp only: list.map sum_list.Cons list.size) simp
qed simp

lemma remainders_to_give:
  fixes cs :: "nat list"
  assumes "0 < sum_list cs"
  shows "sum_list (map (\<lambda>c. c * r div sum_list cs) cs) \<le> r"
    and "r - sum_list (map (\<lambda>c. c * r div sum_list cs) cs) \<le> length cs"
proof -
  let ?t = "sum_list cs" and ?q = "sum_list (map (\<lambda>c. c * r div sum_list cs) cs)"
  let ?m = "sum_list (map (\<lambda>c. c * r mod sum_list cs) cs)"
  have eq: "?q * ?t + ?m = r * ?t" using scaled_sum [of r ?t cs] by (simp add: mult.commute)
  then have "?q * ?t \<le> r * ?t" by (metis le_add1)
  with assms show le: "?q \<le> r" by simp
  have "(r - ?q) * ?t = ?m" using eq by (simp add: diff_mult_distrib)
  also have "\<dots> \<le> length cs * ?t" by (rule sum_list_mod_le [OF assms])
  finally show "r - ?q \<le> length cs" using assms by simp
qed

lemma enumerate_snd: "map snd (map (\<lambda>(i, c). (f c, i)) (enumerate k cs)) = [k..<k + length cs]"
  by (induction cs arbitrary: k) (auto simp: upt_rec)

lemma chosen_indices:
  fixes f :: "nat \<Rightarrow> nat"
  assumes "k \<le> length cs"
  defines "chosen \<equiv> map snd (take k (rev (sort (map (\<lambda>(i, c). (f c, i)) (enumerate 0 cs)))))"
  shows "distinct chosen" and "set chosen \<subseteq> {..<length cs}" and "length chosen = k"
proof -
  let ?r = "map (\<lambda>(i, c). (f c, i)) (enumerate 0 cs)"
  have perm: "mset (map snd (rev (sort ?r))) = mset [0..<length cs]"
    using enumerate_snd [of f 0 cs] by (metis mset_map mset_rev mset_sort add_0)
  then have d: "distinct (map snd (rev (sort ?r)))"
    by (metis distinct_upt mset_eq_imp_distinct_iff)
  have s: "set (map snd (rev (sort ?r))) = {..<length cs}"
    using perm by (metis atLeast_upt mset_eq_setD set_upt)
  have take: "chosen = take k (map snd (rev (sort ?r)))" by (simp add: chosen_def take_map)
  show "distinct chosen" using d by (simp add: take)
  show "set chosen \<subseteq> {..<length cs}" using s set_take_subset by (metis take)
  show "length chosen = k" using assms by (simp add: chosen_def)
qed

lemma scaled_capacities:
  assumes "\<forall>c \<in> set cs. 0 < c \<and> c \<le> u16_max" and "length cs \<le> u16_max" and "u16_max < sum_list cs"
  shows "\<exists>ws. normalized_capacities cs = Inr ws \<and> length ws = length cs \<and> sum_list ws = u16_max \<and>
    (\<forall>i < length cs. ws ! i \<le> u16_max \<and>
       ws ! i \<in> (let q = 1 + cs ! i * (u16_max - length cs) div sum_list cs in {q, q + 1}))"
proof -
  define r where "r = u16_max - length cs"
  define q where "q = map (\<lambda>c. c * r div sum_list cs) cs"
  define ws where "ws = map (\<lambda>c. 1 + c * r div sum_list cs) cs"
  define k where "k = r - sum_list q"
  define chosen where
    "chosen = map snd (take k (rev (sort (map (\<lambda>(i, c). (c * r mod sum_list cs, i)) (enumerate 0 cs)))))"
  have n2: "2 \<le> length cs"
  proof (rule ccontr)
    assume "\<not> 2 \<le> length cs"
    then have "length cs = 0 \<or> length cs = 1" by linarith
    with assms(1,3) show False by (auto simp: length_Suc_conv)
  qed
  have pos: "0 < sum_list cs" using assms(3) by simp
  have sq: "sum_list q \<le> r" and k: "k \<le> length cs"
    using remainders_to_give [OF pos, of r] by (simp_all add: q_def k_def)
  have sum_ws: "sum_list ws = length cs + sum_list q"
  proof -
    have "sum_list (map (\<lambda>c. 1 + f c) xs) = length xs + sum_list (map f xs)" for f :: "nat \<Rightarrow> nat" and xs
      by (induction xs) auto
    then show ?thesis unfolding ws_def q_def by this
  qed
  have small: "ws ! i < u16_max" if "i < length cs" for i
  proof -
    from that have "cs ! i \<le> sum_list cs" by (simp add: member_le_sum_list)
    then have "cs ! i * r div sum_list cs \<le> r"
      using pos by (metis div_le_mono mult_le_mono1 nonzero_mult_div_cancel_left not_less_zero)
    with that n2 assms(2) show ?thesis by (simp add: ws_def r_def)
  qed
  have clamp: "map (min u16_max) ws = ws"
  proof (intro nth_equalityI)
    fix i
    assume "i < length (map (min u16_max) ws)"
    then have "i < length cs" "i < length ws" by (simp_all add: ws_def)
    from small [OF this(1)] this(2) show "map (min u16_max) ws ! i = ws ! i" by (simp add: min_def)
  qed simp
  have give: "u16_max - sum_list ws = k"
    using sum_ws assms(2) by (simp add: k_def r_def)
  note chosen = chosen_indices [OF k, of "\<lambda>c. c * r mod sum_list cs", folded chosen_def]
  have inb: "\<forall>i \<in> set chosen. i < length ws \<and> ws ! i < u16_max"
    using chosen(2) small by (auto simp: ws_def)
  note bump = foldl_bump [OF chosen(1) inb]
  have "cs \<noteq> []" "0 \<notin> set cs" using n2 assms(1) by auto
  then have "normalized_capacities cs =
      Inr (foldl bump (map (min u16_max) ws) (map snd (take (u16_max - sum_list ws)
        (rev (sort (map (\<lambda>(i, c). (c * r mod sum_list cs, i)) (enumerate 0 cs)))))))"
    using assms(2,3) by (simp add: normalized_capacities_def Let_def ws_def r_def del: map_map)
  then have norm: "normalized_capacities cs = Inr (foldl bump ws chosen)"
    using clamp give by (simp add: chosen_def)
  have "sum_list (foldl bump ws chosen) = u16_max"
    using bump chosen(3) give sum_ws sq assms(2) by (simp add: k_def r_def)
  moreover have "foldl bump ws chosen ! i \<le> u16_max \<and>
      foldl bump ws chosen ! i \<in> (let q = 1 + cs ! i * r div sum_list cs in {q, q + 1})"
    if "i < length cs" for i
    using bump small [OF that] that by (auto simp: ws_def Let_def)
  ultimately show ?thesis using norm bump by (auto simp: ws_def r_def)
qed

section \<open>Rotation\<close>

lemma endpoint_scan_find:
  assumes "\<forall>o' \<in> set offsets. start + o' \<le> u64_max"
  shows "endpoint_scan es ready start offsets =
    Option.bind (find ready (map (\<lambda>o'. es ! ((start + o') mod length es)) offsets)) bd_server"
  using assms by (induction offsets) (auto simp: Let_def wrap_add64_exact)

lemma rotate_eq_map: "map (\<lambda>k. es ! ((n + k) mod length es)) [0..<length es] = rotate n es"
  by (intro nth_equalityI) (simp_all add: nth_rotate)

lemma endpoint_scan_Some:
  "endpoint_scan es ready start offsets = Some s \<Longrightarrow> es \<noteq> [] \<Longrightarrow>
   \<exists>b \<in> set es. ready b \<and> bd_server b = Some s"
proof (induction offsets)
  case (Cons k offsets)
  then show ?case
    by (auto simp: Let_def split: if_splits intro!: bexI [of _ "es ! (wrap_add64 start k mod length es)"])
qed simp

section \<open>Where a selected endpoint comes from\<close>

definition entry_ok :: "backend list \<Rightarrow> service_entry \<Rightarrow> bool" where
  "entry_ok backends e \<longleftrightarrow>
     (\<forall>b \<in> set (snd e). b \<in> set backends \<and>
        (\<exists>s. bd_server b = Some s \<and> cs_nrf_service s = Some (fst e)))"

lemma btree_push_entry:
  "(k', vs) \<in> set (btree_push k v m) \<Longrightarrow>
   (k', vs) \<in> set m \<or> (k' = k \<and> (vs = [v] \<or> (\<exists>ws. (k, ws) \<in> set m \<and> vs = ws @ [v])))"
  by (induction k v m rule: btree_push.induct) (auto split: if_splits)

lemma btree_push_fst: "set (map fst (btree_push k v m)) = insert k (set (map fst m))"
  by (induction k v m rule: btree_push.induct) auto

lemma btree_push_sorted:
  "sorted_wrt (<) (map fst m) \<Longrightarrow> sorted_wrt (<) (map fst (btree_push k v m))"
proof (induction k v m rule: btree_push.induct)
  case (1 k v)
  then show ?case by simp
next
  case (2 k v k' vs m)
  show ?case
  proof (cases "k = k' \<or> k < k'")
    case True
    with 2(2) show ?thesis by (auto dest: less_trans)
  next
    case False
    with 2 have "sorted_wrt (<) (map fst (btree_push k v m))" by auto
    moreover from False 2(2) have "\<forall>j \<in> set (map fst (btree_push k v m)). k' < j"
      unfolding btree_push_fst by auto
    ultimately show ?thesis using False by auto
  qed
qed

lemma add_service_entries:
  assumes "fold_res add_service acc bs = Inr services" and "\<forall>e \<in> set acc. entry_ok backends e"
    and "set bs \<subseteq> set backends"
  shows "\<forall>e \<in> set services. entry_ok backends e"
proof (rule fold_res_invariant [OF assms(1), of "\<lambda>m. \<forall>e \<in> set m. entry_ok backends e"])
  show "\<forall>e \<in> set acc. entry_ok backends e" by (rule assms(2))
  fix m b m'
  assume I: "\<forall>e \<in> set m. entry_ok backends e" and b: "b \<in> set bs" and "add_service m b = Inr m'"
  then obtain s k where s: "bd_server b = Some s" "cs_nrf_service s = Some k" and m': "m' = btree_push k b m"
    by (auto simp: add_service_def res_simps)
  have "b \<in> set backends" using b assms(3) by auto
  then have new: "entry_ok backends (k, [b])" using s by (simp add: entry_ok_def)
  show "\<forall>e \<in> set m'. entry_ok backends e"
  proof
    fix e
    assume "e \<in> set m'"
    then have "e \<in> set m \<or> e = (k, [b]) \<or> (\<exists>ws. (k, ws) \<in> set m \<and> e = (k, ws @ [b]))"
      using btree_push_entry [of "fst e" "snd e" k b m] m' by (metis prod.collapse)
    then consider "e \<in> set m" | "e = (k, [b])" | ws where "(k, ws) \<in> set m" "e = (k, ws @ [b])"
      by blast
    then show "entry_ok backends e"
    proof cases
      case 3
      with I have "entry_ok backends (k, ws)" by blast
      with new show ?thesis by (auto simp: 3 entry_ok_def)
    qed (use I new in auto)
  qed
qed

definition prio_ok :: "service_entry list \<Rightarrow> nat \<times> service_entry list \<Rightarrow> bool" where
  "prio_ok services e \<longleftrightarrow>
     (\<forall>s \<in> set (snd e). s \<in> set services \<and> ns_priority (fst s) = fst e)"

lemma by_priority_fold:
  assumes "sorted_wrt (<) (map fst m)" and "\<forall>e \<in> set m. prio_ok services e" and "set xs \<subseteq> set services"
  defines "m' \<equiv> foldl (\<lambda>m (service, endpoints). btree_push (ns_priority service) (service, endpoints) m) m xs"
  shows "sorted_wrt (<) (map fst m') \<and> (\<forall>e \<in> set m'. prio_ok services e)"
  unfolding m'_def using assms(1-3)
proof (induction xs arbitrary: m)
  case Nil
  then show ?case by simp
next
  case (Cons x xs)
  obtain k es where x: "x = (k, es)" by (cases x)
  let ?m = "btree_push (ns_priority k) (k, es) m"
  have "prio_ok services e" if "e \<in> set ?m" for e
  proof -
    have x': "(k, es) \<in> set services" using Cons.prems(3) x by simp
    from btree_push_entry [of "fst e" "snd e" "ns_priority k" "(k, es)" m] that
    show ?thesis
    proof (cases e)
      case (Pair p l)
      with btree_push_entry [of p l "ns_priority k" "(k, es)" m] that Cons.prems(2) x'
      show ?thesis by (fastforce simp: prio_ok_def)
    qed
  qed
  with Cons.prems have "sorted_wrt (<) (map fst ?m)" "\<forall>e \<in> set ?m. prio_ok services e"
    "set xs \<subseteq> set services" by (simp_all add: btree_push_sorted)
  from Cons.IH [OF this] x show ?case by simp
qed

lemma by_priority_ok:
  "sorted_wrt (<) (map fst (by_priority services)) \<and> (\<forall>e \<in> set (by_priority services). prio_ok services e)"
  unfolding by_priority_def by (rule by_priority_fold) simp_all

lemma pool_services_get_fold:
  assumes "hm_get (foldl (\<lambda>m (service, endpoints).
      hm_insert service \<lparr>rn_endpoints = endpoints, rn_next_endpoint = 0\<rparr> m) m xs) k = Some r"
  shows "hm_get m k = Some r \<or> (k, rn_endpoints r) \<in> set xs"
  using assms
proof (induction xs arbitrary: m)
  case (Cons x xs)
  obtain s es where x: "x = (s, es)" by (cases x)
  from Cons.IH [of "hm_insert s \<lparr>rn_endpoints = es, rn_next_endpoint = 0\<rparr> m"] Cons.prems x
  show ?case by (auto split: if_splits)
qed simp

lemma pool_services_get: "hm_get (pool_services xs) k = Some r \<Longrightarrow> (k, rn_endpoints r) \<in> set xs"
  using pool_services_get_fold [of "[]" xs k r] by (simp add: pool_services_def)

definition lb_sound :: "'s lb_lib \<Rightarrow> bool" where
  "lb_sound lb \<longleftrightarrow>
     (\<forall>sel key n acc b sel'. lb_select_with lb sel key n acc = (Some b, sel') \<longrightarrow> acc b)"

text \<open>A pool draws from the services it was built with.\<close>

definition pool_from :: "service_entry list \<Rightarrow> 's nrf_service_pool option \<Rightarrow> bool" where
  "pool_from services pool \<longleftrightarrow>
     (\<forall>p k r. pool = Some p \<longrightarrow> hm_get (np_services p) k = Some r \<longrightarrow> (k, rn_endpoints r) \<in> set services)"

lemma pool_build_from:
  "pool_build lb ident services policy = Inr pool \<Longrightarrow> pool_from services pool"
  by (auto simp: pool_build_def pool_from_def res_simps split: if_splits dest!: pool_services_get)
    (metis set_zip_leftD)

lemma tier_build_from:
  assumes "tier_build lb ident services policy = Inr tier"
  shows "pool_from services (nt_positive_capacity tier)" "pool_from services (nt_zero_capacity tier)"
  using assms pool_build_from
  by (fastforce simp: tier_build_def res_simps pool_from_def)+

lemma pool_select_from:
  assumes "pool_select lb key ready p = (Some s, p')" and "lb_sound lb" and "pool_from services (Some p)"
  shows "\<exists>e \<in> set services. \<exists>b \<in> set (snd e). ready b \<and> bd_server b = Some s"
proof -
  from assms(1) obtain b sel k r r' where
    b: "lb_select_with lb (np_selector p) key (max (length (np_services p)) 256) (service_ready p ready) = (Some b, sel)"
    and k: "bd_service b = Some k" "hm_get (np_services p) k = Some r"
    and s: "select_endpoint ready r = (Some s, r')"
    by (auto simp: pool_select_def Let_def bind_eq_Some_conv split: prod.splits option.splits)
  from assms(2) b have "service_ready p ready b" unfolding lb_sound_def by blast
  with k have "rn_endpoints r \<noteq> []" by (auto simp: service_ready_def)
  with s have "\<exists>b \<in> set (rn_endpoints r). ready b \<and> bd_server b = Some s"
    by (auto simp: select_endpoint_def Let_def dest: endpoint_scan_Some)
  with assms(3) k show ?thesis by (force simp: pool_from_def)
qed

lemma tier_select_from:
  assumes "tier_select lb key ready tier = (Some s, tier')" and "lb_sound lb"
    and "tier_build lb ident services policy = Inr tier"
  shows "\<exists>e \<in> set services. \<exists>b \<in> set (snd e). ready b \<and> bd_server b = Some s"
proof -
  from assms(1) obtain p p' where "pool_select lb key ready p = (Some s, p')"
    "nt_positive_capacity tier = Some p \<or> nt_zero_capacity tier = Some p"
    by (auto simp: tier_select_def opt_pool_select_def split: prod.splits option.splits)
  with tier_build_from [OF assms(3)] show ?thesis
    using pool_select_from [OF _ assms(2)] by metis
qed

lemma tiers_select_first:
  "tiers_select lb key ready tiers = (Some s, tiers') \<Longrightarrow>
   \<exists>i < length tiers. fst (tier_select lb key ready (tiers ! i)) = Some s \<and>
     (\<forall>j < i. fst (tier_select lb key ready (tiers ! j)) = None)"
proof (induction tiers arbitrary: tiers')
  case (Cons t ts)
  show ?case
  proof (cases "tier_select lb key ready t")
    case (Pair r t')
    show ?thesis
    proof (cases r)
      case None
      with Cons.prems Pair obtain ts' where "tiers_select lb key ready ts = (Some s, ts')"
        by (auto split: prod.splits)
      from Cons.IH [OF this] obtain i where "i < length ts"
        "fst (tier_select lb key ready (ts ! i)) = Some s"
        "\<forall>j < i. fst (tier_select lb key ready (ts ! j)) = None" by blast
      with Pair None show ?thesis by (intro exI [of _ "Suc i"]) (auto simp: less_Suc_eq_0_disj)
    next
      case (Some s')
      with Cons.prems Pair show ?thesis by (intro exI [of _ 0]) simp
    qed
  qed
qed simp

section \<open>Claims\<close>

text \<open>
  C27. The capacities of the services of one priority fit the load balancer's 16-bit weights: every
  service keeps a weight of at least one, the weights add up to the total capacity or, when that is
  too large, to exactly 65535, and then each weight is its proportional share rounded down or up.
\<close>

theorem normalized_capacities_total:
  assumes "cs \<noteq> []" and "\<forall>c \<in> set cs. 0 < c \<and> c \<le> u16_max" and "length cs \<le> u16_max"
  shows "\<exists>ws. normalized_capacities cs = Inr ws \<and> length ws = length cs \<and>
    sum_list ws = min (sum_list cs) u16_max \<and>
    (\<forall>i < length cs. 1 \<le> ws ! i \<and> ws ! i \<le> u16_max \<and>
      (if sum_list cs \<le> u16_max then ws ! i = cs ! i
       else ws ! i \<in> (let q = 1 + cs ! i * (u16_max - length cs) div sum_list cs in {q, q + 1})))"
proof (cases "sum_list cs \<le> u16_max")
  case True
  with assms have "normalized_capacities cs = Inr cs" by (auto simp: normalized_capacities_def)
  with True assms(2) show ?thesis by (auto simp: Suc_le_eq)
next
  case False
  with scaled_capacities [OF assms(2,3)] obtain ws where
    "normalized_capacities cs = Inr ws" "length ws = length cs" "sum_list ws = u16_max"
    "\<forall>i < length cs. ws ! i \<le> u16_max \<and>
       ws ! i \<in> (let q = 1 + cs ! i * (u16_max - length cs) div sum_list cs in {q, q + 1})" by auto
  with False show ?thesis by (intro exI [of _ ws]) (auto simp: Let_def)
qed

theorem normalized_capacities_total_witness:
  "\<exists>ws. normalized_capacities [60000, 60000, 1] = Inr ws \<and> sum_list ws = 65535"
  using normalized_capacities_total [of "[60000, 60000, 1]"] by auto

text \<open>
  A service hands out its endpoints in rotation: a call returns the first ready endpoint of the
  list rotated to the counter, so it finds one whenever one is ready, and the counter moves on by
  one. The counter is assumed not to be at the end of its 64-bit range.
\<close>

lemma select_endpoint_rotation:
  assumes "rn_next_endpoint s + length (rn_endpoints s) < u64_max"
  shows "select_endpoint ready s =
    (Option.bind (find ready (rotate (rn_next_endpoint s) (rn_endpoints s))) bd_server,
     s\<lparr>rn_next_endpoint := rn_next_endpoint s + 1\<rparr>)"
  using assms
  by (simp add: select_endpoint_def Let_def endpoint_scan_find rotate_eq_map wrap_add64_exact)

definition sample_server :: "string \<Rightarrow> compiled_upstream_server" where
  "sample_server host =
     \<lparr>cs_host = host, cs_port = 80, cs_weight = 1, cs_api_prefix = None,
      cs_nrf_service = Some (NrfServiceMetadata None ''nf'' ''s'' 1 5)\<rparr>"

definition sample_endpoint :: "nat \<Rightarrow> string \<Rightarrow> backend" where
  "sample_endpoint i host =
     \<lparr>bd_addr = synthetic_backend_addr i, bd_weight = 1, bd_server = Some (sample_server host), bd_service = None\<rparr>"


text \<open>A balancer that takes the first acceptable backend.\<close>

definition first_lb :: "backend list lb_lib" where
  "first_lb =
     \<lparr>lb_new = (\<lambda>_ bs _. Inr bs), lb_select = (\<lambda>bs _ _. (find (\<lambda>_. True) bs, bs)),
      lb_select_with = (\<lambda>bs _ _ acc. (find acc bs, bs))\<rparr>"

lemma first_lb_sound: "lb_sound first_lb"
  by (auto simp: lb_sound_def first_lb_def find_Some_iff)

definition sample_metadata :: nrf_service_metadata where
  "sample_metadata = NrfServiceMetadata None ''nf'' ''s'' 1 5"

definition sample_pool :: "backend list nrf_service_pool" where
  "sample_pool =
     \<lparr>np_selector = [\<lparr>bd_addr = synthetic_backend_addr 7, bd_weight = 5, bd_server = None,
        bd_service = Some sample_metadata\<rparr>],
      np_services = [(sample_metadata, \<lparr>rn_endpoints = [sample_endpoint 0 ''a''], rn_next_endpoint = 0\<rparr>)]\<rparr>"

definition sample_topology :: "backend list nrf_service_topology" where
  "sample_topology =
     \<lparr>nt_signature = topology_signature [(sample_metadata, [sample_endpoint 0 ''a''])],
      nt_tiers = [\<lparr>nt_positive_capacity = Some sample_pool, nt_zero_capacity = None\<rparr>]\<rparr>"

lemma sample_pool_build:
  "pool_build first_lb (\<lambda>_. 7) [(sample_metadata, [sample_endpoint 0 ''a''])] RoundRobin =
     Inr (Some sample_pool)"
proof -
  have "normalized_capacities [5] = Inr [5]" by (simp add: normalized_capacities_def)
  then show ?thesis
    by (simp add: pool_build_def first_lb_def pool_services_def fresh_id_def btree_insert_def
        sample_pool_def sample_metadata_def)
qed

lemma sample_topology_build:
  "topology_build first_lb (\<lambda>_. 7) [sample_endpoint 0 ''a''] RoundRobin = Inr (Some sample_topology)"
proof -
  have s: "add_service [] (sample_endpoint 0 ''a'') = Inr [(sample_metadata, [sample_endpoint 0 ''a''])]"
    by (simp add: add_service_def sample_endpoint_def sample_server_def ok_or_def sample_metadata_def)
  have p: "by_priority [(sample_metadata, [sample_endpoint 0 ''a''])] =
      [(1, [(sample_metadata, [sample_endpoint 0 ''a''])])]"
    by (simp add: by_priority_def sample_metadata_def)
  have "pool_build first_lb (\<lambda>_. 7) [] RoundRobin = Inr None" by (simp add: pool_build_def)
  moreover have "0 < ns_capacity sample_metadata" by (simp add: sample_metadata_def)
  ultimately have "tier_build first_lb (\<lambda>_. 7) [(sample_metadata, [sample_endpoint 0 ''a''])] RoundRobin =
      Inr \<lparr>nt_positive_capacity = Some sample_pool, nt_zero_capacity = None\<rparr>"
    by (simp add: tier_build_def sample_pool_build)
  with s p show ?thesis by (simp add: topology_build_def sample_topology_def)
qed

lemma sample_topology_select:
  "fst (topology_select first_lb [] (\<lambda>_. True) sample_topology) = Some (sample_server ''a'')"
proof -
  have "fst (pool_select first_lb [] (\<lambda>_. True) sample_pool) = Some (sample_server ''a'')"
    by (simp add: pool_select_def first_lb_def sample_pool_def service_ready_def select_endpoint_def
        sample_endpoint_def split: prod.split)
  then show ?thesis
    by (cases "pool_select first_lb [] (\<lambda>_. True) sample_pool")
      (simp add: topology_select_def sample_topology_def tier_select_def opt_pool_select_def)
qed


text \<open>
  Two endpoints whose 64-bit ids differ only above the low 48 bits get the same synthetic address:
  the loop that makes ids distinct does not see the collision, and when their weights agree one of
  them is dropped from the set of backends.
\<close>

lemma synthetic_addr_ignores_high_bits: "synthetic_backend_addr (i + 2 ^ 48) = synthetic_backend_addr i"
proof -
  have "(i + k * 65536 * b) div b mod 65536 = i div b mod 65536" if "0 < b" for b k :: nat
    using that by (simp add: div_mult_self1)
  from this [of 4294967296 1] this [of 65536 65536]
  have "(i + 281474976710656) div 4294967296 mod 65536 = i div 4294967296 mod (65536 :: nat)"
    "(i + 281474976710656) div 65536 mod 65536 = i div 65536 mod (65536 :: nat)" by simp_all
  moreover have "(i + 4294967296 * 65536) mod 65536 = i mod (65536 :: nat)" by (rule mod_mult_self1)
  ultimately show ?thesis by (simp add: synthetic_backend_addr_def)
qed

lemma synthetic_collision_drops_endpoint:
  fixes ident :: "compiled_upstream_server \<Rightarrow> nat"
  assumes "ident a = i + 2 ^ 48" and "ident b = i" and "cs_weight a = cs_weight b"
  shows "length (dynamic_synthetic_backends ident [a, b]) = 1"
  using assms
  by (simp add: dynamic_synthetic_backends_def fresh_id_def Let_def btree_collect_def bd_key_def
      synthetic_addr_ignores_high_bits [simplified])

end
