(* ===== verification/Upstream_Groups.thy ===== *)
theory Upstream_Groups
  imports Topology
begin

text \<open>
  Upstream groups at run time: endpoint selection, the NRF refresh schedule with its bounded stale
  state, and the health check schedule
  (\<^verbatim>\<open>upstreams/runtime/groups.rs\<close>, \<^verbatim>\<open>upstreams/runtime/groups/discovery.rs\<close>).

  One refresh of a group runs under its refresh lock, so it is one step of the model. What the
  step learns from outside (the clock, the NRF's answer, the preflight checks) is its argument.
  Metrics and log lines are left out.
\<close>

section \<open>Time\<close>

text \<open>\<^verbatim>\<open>Instant::checked_add\<close>: seconds are a signed 64-bit number.\<close>

definition instant_max :: instant where
  "instant_max = 9223372036854775807 * nanos_per_sec + 999999999"

definition instant_checked_add :: "instant \<Rightarrow> duration \<Rightarrow> instant option" where
  "instant_checked_add t d = checked_add instant_max t d"

definition instant_add_or :: "instant \<Rightarrow> duration \<Rightarrow> instant \<Rightarrow> instant" where
  "instant_add_or t d dflt = (case instant_checked_add t d of None \<Rightarrow> dflt | Some u \<Rightarrow> u)"

definition nrf_failure_retry_at :: "instant \<Rightarrow> instant option \<Rightarrow> nat \<Rightarrow> instant" where
  "nrf_failure_retry_at now expires_at failures =
     (let exponent = min (failures - 1) 5;
          backoff = from_secs (min (2 ^ exponent) 30);
          backoff_at = instant_add_or now backoff now
      in case expires_at of None \<Rightarrow> backoff_at | Some e \<Rightarrow> min backoff_at e)"

definition nrf_snapshot_expiry :: "instant \<Rightarrow> duration \<Rightarrow> duration \<Rightarrow> instant option" where
  "nrf_snapshot_expiry now validity stale_if_error =
     Option.bind (instant_checked_add now validity) (\<lambda>t. instant_checked_add t stale_if_error)"

text \<open>
  \<^verbatim>\<open>nrf_refresh_delay\<close>: \<open>hash\<close> is the hash of the host identity and the group name. \<^verbatim>\<open>as_millis\<close> is
  a \<^verbatim>\<open>u128\<close>, which the product of a \<^verbatim>\<open>Duration\<close> and a percentage does not leave.
\<close>

definition nrf_refresh_delay :: "(string \<Rightarrow> nat) \<Rightarrow> duration \<Rightarrow> string \<Rightarrow> duration" where
  "nrf_refresh_delay hash validity group_name =
     (let percent = 70 + hash group_name mod 21;
          millis = as_millis validity * percent div 100
      in from_millis (min (max millis 1000) u64_max))"

section \<open>State\<close>

record nrf_refresh_schedule =
  sch_invalid_api :: bool
  sch_candidate_count :: nat
  sch_candidates :: "compiled_upstream_server list"
  sch_next_run_at :: instant
  sch_expires_at :: "instant option"
  sch_failures :: nat
  sch_last_success_at :: "instant option"
  sch_endpoint_count :: nat

record 's nrf_selection_snapshot =
  sn_topology :: "'s nrf_service_topology"
  sn_backends :: "backend list"

text \<open>\<^verbatim>\<open>rd_query\<close> says whether the client has an SCP query.\<close>

record 's runtime_nrf_discovery =
  rd_group_name :: string
  rd_query :: bool
  rd_stale_if_error :: duration
  rd_policy :: upstream_selection_policy
  rd_selection :: "'s nrf_selection_snapshot option"
  rd_schedule :: nrf_refresh_schedule

record runtime_health_check_schedule =
  hs_interval :: duration
  hs_next_run_at :: instant

text \<open>
  The selector is the load balancer's state; its variant is the policy the group was built with.
\<close>

record 's runtime_upstream_group =
  rg_policy :: upstream_selection_policy
  rg_selector :: 's
  rg_backends :: "backend list"
  rg_hash_key :: "upstream_hash_key option"
  rg_health_check :: "runtime_health_check_schedule option"
  rg_nrf_discovery :: "'s runtime_nrf_discovery option"

text \<open>The libraries: hashes, building a health check, the NRF client, and the load balancer.\<close>

record 's group_lib =
  gl_lb :: "'s lb_lib"
  gl_backend_id :: "compiled_upstream_server \<Rightarrow> nat"
  gl_service_id :: "nrf_service_metadata \<Rightarrow> nat"
  gl_delay_hash :: "string \<Rightarrow> nat"
  gl_health_build :: "compiled_health_check \<Rightarrow> (string, unit) result"
  gl_client_new :: "compiled_nrf_discovery \<Rightarrow> (string, unit) result"

section \<open>Building a group\<close>

definition schedule_new :: "instant \<Rightarrow> nrf_refresh_schedule" where
  "schedule_new now =
     \<lparr>sch_invalid_api = False, sch_candidate_count = 0, sch_candidates = [], sch_next_run_at = now,
      sch_expires_at = None, sch_failures = 0, sch_last_success_at = None, sch_endpoint_count = 0\<rparr>"

definition discovery_new ::
  "'s group_lib \<Rightarrow> instant \<Rightarrow> bool \<Rightarrow> compiled_upstream_group \<Rightarrow> (string, 's runtime_nrf_discovery option) result" where
  "discovery_new l now query grp =
     (case (cg_nrf_discovery grp, cg_health_check grp) of
        (Some config, Some health_check) \<Rightarrow>
          and_then (gl_client_new l config) (\<lambda>_.
          and_then (gl_health_build l health_check) (\<lambda>_.
          Inr (Some
            \<lparr>rd_group_name = cg_name grp, rd_query = query,
             rd_stale_if_error = cn_stale_if_error config, rd_policy = cg_policy grp,
             rd_selection = None, rd_schedule = schedule_new now\<rparr>)))
      | (None, _) \<Rightarrow> Inr None
      | _ \<Rightarrow> Inl (''upstream `'' @ cg_name grp @ ''` has incomplete nrf_discovery runtime state''))"

definition from_compiled_query ::
  "'s group_lib \<Rightarrow> instant \<Rightarrow> compiled_upstream_group \<Rightarrow> bool \<Rightarrow> (string, 's runtime_upstream_group) result" where
  "from_compiled_query l now grp query =
     and_then (reject (cg_servers grp = [] \<and> cg_nrf_discovery grp = None \<and> \<not> cg_allow_empty grp)
       (''upstream `'' @ cg_name grp @ ''` must define at least one server or nrf_discovery'')) (\<lambda>_.
     let backends = synthetic_backends (cg_servers grp)
     in
     and_then (lb_new (gl_lb l) (cg_policy grp) backends (cg_health_check grp)) (\<lambda>selector.
     and_then (discovery_new l now query grp) (\<lambda>discovery.
     Inr \<lparr>rg_policy = cg_policy grp, rg_selector = selector, rg_backends = backends,
          rg_hash_key = cg_hash_key grp,
          rg_health_check = map_option (\<lambda>hc. \<lparr>hs_interval = ch_interval hc, hs_next_run_at = now\<rparr>)
            (cg_health_check grp),
          rg_nrf_discovery = discovery\<rparr>)))"

definition from_compiled ::
  "'s group_lib \<Rightarrow> instant \<Rightarrow> compiled_upstream_group \<Rightarrow> (string, 's runtime_upstream_group) result" where
  "from_compiled l now grp = from_compiled_query l now grp False"

section \<open>Selection\<close>

definition uses_consistent_hash :: "'s runtime_upstream_group \<Rightarrow> bool" where
  "uses_consistent_hash g \<longleftrightarrow> rg_policy g = ConsistentHash"

text \<open>
  \<open>ready\<close> is the health state Pingora keeps per backend. The selector is consulted and moves on
  even when nothing is returned.
\<close>

definition group_select ::
  "'s group_lib \<Rightarrow> (backend \<Rightarrow> bool) \<Rightarrow> string \<Rightarrow> 's runtime_upstream_group \<Rightarrow>
   compiled_upstream_server option \<times> 's runtime_upstream_group" where
  "group_select l ready key g =
     (case rg_nrf_discovery g of
        Some d \<Rightarrow>
          (case rd_selection d of
             None \<Rightarrow> (None, g)
           | Some snap \<Rightarrow>
               (case topology_select (gl_lb l) key ready (sn_topology snap) of
                  (s, t) \<Rightarrow> (s, g\<lparr>rg_nrf_discovery := Some (d\<lparr>rd_selection := Some (snap\<lparr>sn_topology := t\<rparr>)\<rparr>)\<rparr>)))
      | None \<Rightarrow>
          let backend_count = length (rg_backends g);
              max_iterations = (if uses_consistent_hash g then max backend_count 256 else backend_count)
          in (case lb_select (gl_lb l) (rg_selector g) key max_iterations of
                (b, sel) \<Rightarrow> (Option.bind b bd_server, g\<lparr>rg_selector := sel\<rparr>)))"

definition readiness ::
  "(backend \<Rightarrow> bool) \<Rightarrow> 's runtime_upstream_group \<Rightarrow> (compiled_upstream_server \<times> bool) list" where
  "readiness ready g =
     (let backends =
        (case rg_nrf_discovery g of
           Some d \<Rightarrow> (case rd_selection d of Some snap \<Rightarrow> sn_backends snap | None \<Rightarrow> [])
         | None \<Rightarrow> rg_backends g)
      in List.map_filter (\<lambda>b. map_option (\<lambda>s. (s, ready b)) (bd_server b)) backends)"

section \<open>Refreshing from the NRF\<close>

record discovery_result =
  dr_endpoints :: "compiled_upstream_server list"
  dr_validity :: duration
  dr_invalid_api :: bool

text \<open>
  What one refresh sees: the time under the lock, whether a permit was granted, the answer of the
  NRF, whether the old snapshot expired while waiting for it, whether the preflight checker could
  be built, its verdicts, and whether the new backends could be registered.
\<close>

record refresh_env =
  re_now :: instant
  re_permit_ok :: bool
  re_result :: "(string, discovery_result) result"
  re_late :: bool
  re_checker_ok :: bool
  re_check :: "backend \<Rightarrow> bool"
  re_update_ok :: bool

definition expire_snapshot :: "'s runtime_nrf_discovery \<Rightarrow> 's runtime_nrf_discovery" where
  "expire_snapshot d =
     d\<lparr>rd_selection := None, rd_schedule := (rd_schedule d)\<lparr>sch_endpoint_count := 0\<rparr>\<rparr>"

definition snapshot_expired :: "instant \<Rightarrow> 's runtime_nrf_discovery \<Rightarrow> bool" where
  "snapshot_expired now d \<longleftrightarrow>
     (case sch_expires_at (rd_schedule d) of None \<Rightarrow> False | Some e \<Rightarrow> e \<le> now)"

definition publish_backends ::
  "'s group_lib \<Rightarrow> bool \<Rightarrow> backend list \<Rightarrow> 's runtime_nrf_discovery \<Rightarrow> (string, 's runtime_nrf_discovery) result" where
  "publish_backends l update_ok backends d =
     and_then (topology_build (gl_lb l) (gl_service_id l) backends (rd_policy d)) (\<lambda>t.
       case t of
         None \<Rightarrow> Inr (d\<lparr>rd_selection := None\<rparr>)
       | Some topology \<Rightarrow>
           if (case rd_selection d of
                 None \<Rightarrow> False
               | Some snap \<Rightarrow> nt_signature (sn_topology snap) = nt_signature topology)
           then Inr d
           else if update_ok
           then Inr (d\<lparr>rd_selection := Some \<lparr>sn_topology = topology, sn_backends = backends\<rparr>\<rparr>)
           else Inl ''failed to register backends'')"

text \<open>\<^verbatim>\<open>discover\<close>: while the request is pending the old snapshot is dropped when it expires.\<close>

definition discover :: "refresh_env \<Rightarrow> 's runtime_nrf_discovery \<Rightarrow> 's runtime_nrf_discovery" where
  "discover env d =
     (case sch_expires_at (rd_schedule d) of
        Some e \<Rightarrow> if re_now env < e \<and> re_late env then expire_snapshot d else d
      | None \<Rightarrow> d)"

definition record_failure :: "instant \<Rightarrow> 's runtime_nrf_discovery \<Rightarrow> instant \<times> 's runtime_nrf_discovery" where
  "record_failure now d =
     (let s = rd_schedule d;
          failures = sat_add u32_max (sch_failures s) 1;
          next = nrf_failure_retry_at now (sch_expires_at s) failures;
          d' = d\<lparr>rd_schedule := s\<lparr>sch_failures := failures, sch_next_run_at := next\<rparr>\<rparr>
      in (next, if snapshot_expired now d' then expire_snapshot d' else d'))"

text \<open>The success branch, after the answer has been received.\<close>

definition apply_discovery ::
  "'s group_lib \<Rightarrow> refresh_env \<Rightarrow> discovery_result \<Rightarrow> 's runtime_nrf_discovery \<Rightarrow>
   (string, instant \<times> 's runtime_nrf_discovery) result" where
  "apply_discovery l env r d =
     (let now = re_now env
      in
      and_then (reject (rd_query d \<and> 256 < length (dr_endpoints r)) ''SCP NRF result exceeds 256 endpoints'') (\<lambda>_.
      and_then (ok_or ''unsupported validityPeriod''
        (nrf_snapshot_expiry now (dr_validity r) (rd_stale_if_error d))) (\<lambda>expires_at.
      and_then (reject (\<not> re_checker_ok env) ''could not build preflight check'') (\<lambda>_.
      let candidates = dynamic_synthetic_backends (gl_backend_id l) (dr_endpoints r);
          ready = filter (re_check env) candidates
      in
      and_then (publish_backends l (re_update_ok env) ready d) (\<lambda>d'.
      let delay = nrf_refresh_delay (gl_delay_hash l) (dr_validity r) (rd_group_name d);
          next_run_at = min (instant_add_or now delay expires_at) expires_at;
          s = rd_schedule d'
      in Inr (next_run_at, d'\<lparr>rd_schedule := s\<lparr>
           sch_invalid_api := dr_invalid_api r,
           sch_candidate_count := length (dr_endpoints r),
           sch_candidates := (if rd_query d then dr_endpoints r else sch_candidates s),
           sch_next_run_at := next_run_at,
           sch_expires_at := Some expires_at,
           sch_failures := 0,
           sch_last_success_at := Some now,
           sch_endpoint_count := length ready\<rparr>\<rparr>))))))"

definition refresh_failed :: "instant \<Rightarrow> 's runtime_nrf_discovery \<Rightarrow> instant option \<times> 's runtime_nrf_discovery" where
  "refresh_failed now d = (case record_failure now d of (t, d') \<Rightarrow> (Some t, d'))"

definition run_due_nrf_discovery ::
  "'s group_lib \<Rightarrow> refresh_env \<Rightarrow> 's runtime_nrf_discovery \<Rightarrow> instant option \<times> 's runtime_nrf_discovery" where
  "run_due_nrf_discovery l env d =
     (let now = re_now env;
          next_run = sch_next_run_at (rd_schedule d);
          d1 = (if snapshot_expired now d then expire_snapshot d else d)
      in if now < next_run then (Some next_run, d1)
         else if \<not> re_permit_ok env then (None, d1)
         else
           let d2 = d1\<lparr>rd_schedule := (rd_schedule d1)\<lparr>sch_next_run_at := instant_add_or now (from_secs 1) now\<rparr>\<rparr>;
               d3 = discover env d2
           in (case re_result env of
                 Inl _ \<Rightarrow> refresh_failed now d3
               | Inr r \<Rightarrow>
                   (case apply_discovery l env r d3 of
                      Inl _ \<Rightarrow> refresh_failed now d3
                    | Inr (next, d4) \<Rightarrow> (Some next, d4))))"

section \<open>What the SCP reads of a group\<close>

definition scp_candidates :: "'s runtime_upstream_group \<Rightarrow> compiled_upstream_server list" where
  "scp_candidates g = (case rg_nrf_discovery g of None \<Rightarrow> [] | Some d \<Rightarrow> sch_candidates (rd_schedule d))"

text \<open>An SCP error is its status, cause and detail.\<close>

definition scp_status :: "instant \<Rightarrow> 's runtime_upstream_group \<Rightarrow> (nat \<times> string \<times> string, unit) result" where
  "scp_status now g =
     (case rg_nrf_discovery g of
        None \<Rightarrow> Inr ()
      | Some d \<Rightarrow>
          let s = rd_schedule d
          in
          and_then (reject (sch_last_success_at s = None \<or>
              (case sch_expires_at s of None \<Rightarrow> True | Some at \<Rightarrow> at \<le> now))
            (504, ''NRF_NOT_REACHABLE'', ''No usable NRF snapshot'')) (\<lambda>_.
          and_then (reject (sch_invalid_api s)
            (400, ''INVALID_API'', ''No NF supports the requested API major version'')) (\<lambda>_.
          reject (sch_candidate_count s = 0)
            (400, ''NF_DISCOVERY_FAILURE'', ''No NF matches the discovery factors''))))"

definition scp_select ::
  "'s group_lib \<Rightarrow> instant \<Rightarrow> (backend \<Rightarrow> bool) \<Rightarrow> string \<Rightarrow> (compiled_upstream_server \<Rightarrow> bool) \<Rightarrow>
   's runtime_upstream_group \<Rightarrow> compiled_upstream_server option \<times> 's runtime_upstream_group" where
  "scp_select l now ready key accept g =
     (case scp_status now g of
        Inl _ \<Rightarrow> (None, g)
      | Inr _ \<Rightarrow>
          (case rg_nrf_discovery g of
             None \<Rightarrow> (None, g)
           | Some d \<Rightarrow>
               (case rd_selection d of
                  None \<Rightarrow> (None, g)
                | Some snap \<Rightarrow>
                    (case topology_select (gl_lb l) key
                        (\<lambda>b. ready b \<and> (case bd_server b of None \<Rightarrow> False | Some s \<Rightarrow> accept s))
                        (sn_topology snap) of
                       (s, t) \<Rightarrow>
                         (s, g\<lparr>rg_nrf_discovery :=
                               Some (d\<lparr>rd_selection := Some (snap\<lparr>sn_topology := t\<rparr>)\<rparr>)\<rparr>)))))"

section \<open>Health checks\<close>

text \<open>
  The returned flag says whether the checks run; their effect is on Pingora's own state.
\<close>

definition run_due_health_check ::
  "instant \<Rightarrow> 's runtime_upstream_group \<Rightarrow> (instant \<times> bool) option \<times> 's runtime_upstream_group" where
  "run_due_health_check now g =
     (case rg_health_check g of
        None \<Rightarrow> (None, g)
      | Some s \<Rightarrow>
          if now < hs_next_run_at s then (Some (hs_next_run_at s, False), g)
          else
            let next = now + hs_interval s
            in (Some (next, True), g\<lparr>rg_health_check := Some (s\<lparr>hs_next_run_at := next\<rparr>)\<rparr>))"

section \<open>Properties\<close>

lemma instant_add_or_le: "dflt \<le> t + d \<Longrightarrow> instant_add_or t d dflt \<le> t + d"
  by (auto simp: instant_add_or_def instant_checked_add_def checked_add_def)

lemma retry_le_expiry: "nrf_failure_retry_at now (Some e) f \<le> e"
  by (simp add: nrf_failure_retry_at_def Let_def)

lemma nrf_snapshot_expiry_ge:
  "nrf_snapshot_expiry now validity stale = Some e \<Longrightarrow> now \<le> e"
  by (auto simp: nrf_snapshot_expiry_def instant_checked_add_def bind_eq_Some_conv num_simps)

text \<open>
  While endpoints are published there is a time at which they expire, and the next refresh is due
  by then.
\<close>

definition rd_inv :: "'s runtime_nrf_discovery \<Rightarrow> bool" where
  "rd_inv d \<longleftrightarrow>
     (rd_selection d \<noteq> None \<longrightarrow>
        (\<exists>e. sch_expires_at (rd_schedule d) = Some e \<and> sch_next_run_at (rd_schedule d) \<le> e))"

definition fresh_at :: "instant \<Rightarrow> 's runtime_nrf_discovery \<Rightarrow> bool" where
  "fresh_at now d \<longleftrightarrow>
     (rd_selection d \<noteq> None \<longrightarrow> (\<exists>e. sch_expires_at (rd_schedule d) = Some e \<and> now \<le> e))"

lemma expire_snapshot_None [simp]: "rd_selection (expire_snapshot d) = None"
  by (simp add: expire_snapshot_def)

lemma unexpired_fresh:
  assumes "rd_inv d"
  shows "fresh_at now (if snapshot_expired now d then expire_snapshot d else d)"
    and "rd_inv (if snapshot_expired now d then expire_snapshot d else d)"
  using assms by (auto simp: fresh_at_def rd_inv_def snapshot_expired_def)

lemma refresh_failed_fresh:
  assumes "rd_selection d \<noteq> None \<Longrightarrow> sch_expires_at (rd_schedule d) \<noteq> None"
  shows "fresh_at now (snd (refresh_failed now d)) \<and> rd_inv (snd (refresh_failed now d))"
proof -
  define d' where "d' = d\<lparr>rd_schedule := (rd_schedule d)\<lparr>
    sch_failures := sat_add u32_max (sch_failures (rd_schedule d)) 1,
    sch_next_run_at := nrf_failure_retry_at now (sch_expires_at (rd_schedule d))
      (sat_add u32_max (sch_failures (rd_schedule d)) 1)\<rparr>\<rparr>"
  have "rd_inv d'"
    using assms retry_le_expiry by (auto simp: rd_inv_def d'_def)
  note fresh = unexpired_fresh [OF this, of now]
  have "snd (refresh_failed now d) = (if snapshot_expired now d' then expire_snapshot d' else d')"
    by (simp only: refresh_failed_def record_failure_def Let_def d'_def prod.case snd_conv)
  with fresh show ?thesis by simp
qed

lemma apply_discovery_fresh:
  assumes "apply_discovery l env r d = Inr (t, d')"
  shows "fresh_at (re_now env) d' \<and> rd_inv d'"
  using assms nrf_snapshot_expiry_ge
  by (auto simp: apply_discovery_def Let_def res_simps fresh_at_def rd_inv_def)

lemma discover_expiry:
  assumes "rd_inv d" and "d2 = d\<lparr>rd_schedule := (rd_schedule d)\<lparr>sch_next_run_at := n\<rparr>\<rparr>"
    and "rd_selection (discover env d2) \<noteq> None"
  shows "sch_expires_at (rd_schedule (discover env d2)) \<noteq> None"
  using assms by (auto simp: discover_def rd_inv_def split: option.splits if_splits)

lemma run_due_fresh:
  assumes "rd_inv d"
  shows "fresh_at (re_now env) (snd (run_due_nrf_discovery l env d)) \<and>
    rd_inv (snd (run_due_nrf_discovery l env d))"
proof -
  define d1 where "d1 = (if snapshot_expired (re_now env) d then expire_snapshot d else d)"
  define d2 where "d2 = d1\<lparr>rd_schedule := (rd_schedule d1)\<lparr>
    sch_next_run_at := instant_add_or (re_now env) (from_secs 1) (re_now env)\<rparr>\<rparr>"
  have d1: "fresh_at (re_now env) d1" "rd_inv d1"
    using unexpired_fresh [OF assms] by (simp_all add: d1_def)
  have failed: "fresh_at (re_now env) (snd (refresh_failed (re_now env) (discover env d2))) \<and>
      rd_inv (snd (refresh_failed (re_now env) (discover env d2)))"
    by (rule refresh_failed_fresh) (rule discover_expiry [OF d1(2) d2_def])
  have eq: "run_due_nrf_discovery l env d =
      (if re_now env < sch_next_run_at (rd_schedule d) then (Some (sch_next_run_at (rd_schedule d)), d1)
       else if \<not> re_permit_ok env then (None, d1)
       else case re_result env of
           Inl _ \<Rightarrow> refresh_failed (re_now env) (discover env d2)
         | Inr r \<Rightarrow>
             (case apply_discovery l env r (discover env d2) of
                Inl _ \<Rightarrow> refresh_failed (re_now env) (discover env d2)
              | Inr (next, d4) \<Rightarrow> (Some next, d4)))"
    by (simp only: run_due_nrf_discovery_def Let_def d1_def d2_def)
  show ?thesis
  proof (cases "re_now env < sch_next_run_at (rd_schedule d) \<or> \<not> re_permit_ok env")
    case True
    with d1 show ?thesis by (auto simp: eq)
  next
    case False
    then have run: "run_due_nrf_discovery l env d =
        (case re_result env of
           Inl _ \<Rightarrow> refresh_failed (re_now env) (discover env d2)
         | Inr r \<Rightarrow>
             (case apply_discovery l env r (discover env d2) of
                Inl _ \<Rightarrow> refresh_failed (re_now env) (discover env d2)
              | Inr (next, d4) \<Rightarrow> (Some next, d4)))" by (simp add: eq)
    show ?thesis
    proof (cases "re_result env")
      case (Inl e)
      with failed run show ?thesis by simp
    next
      case (Inr r)
      show ?thesis
      proof (cases "apply_discovery l env r (discover env d2)")
        case Inl': (Inl e)
        with failed run Inr show ?thesis by simp
      next
        case Inr': (Inr p)
        with apply_discovery_fresh [of l env r "discover env d2" "fst p" "snd p"] run Inr show ?thesis
          by (cases p) simp
      qed
    qed
  qed
qed

text \<open>
  The life of a discovery group: refreshes under the lock, and selections, which only move the
  counters of the published topology.
\<close>

inductive discovery_step :: "'s group_lib \<Rightarrow> 's runtime_nrf_discovery \<Rightarrow> 's runtime_nrf_discovery \<Rightarrow> bool"
  for l where
    refresh: "discovery_step l d (snd (run_due_nrf_discovery l env d))"
  | selected: "rd_selection d = Some snap \<Longrightarrow>
      topology_select (gl_lb l) key ready (sn_topology snap) = (s, t) \<Longrightarrow>
      discovery_step l d (d\<lparr>rd_selection := Some (snap\<lparr>sn_topology := t\<rparr>)\<rparr>)"

inductive_cases discovery_stepE: "discovery_step l d d'"

definition discovery_initial :: "'s runtime_nrf_discovery \<Rightarrow> bool" where
  "discovery_initial d \<longleftrightarrow>
     (\<exists>l now query grp. discovery_new l now query grp = Inr (Some d))"

lemma discovery_step_inv: "discovery_step l d d' \<Longrightarrow> rd_inv d \<Longrightarrow> rd_inv d'"
proof (induction rule: discovery_step.induct)
  case (refresh d env)
  then show ?case using run_due_fresh by blast
next
  case (selected d snap key ready s t)
  then show ?case by (simp add: rd_inv_def)
qed

lemma discovery_new_inv: "discovery_new l now query grp = Inr (Some d) \<Longrightarrow> rd_inv d"
  by (auto simp: discovery_new_def rd_inv_def res_simps split: option.splits)

interpretation nrf: invariant_of discovery_initial "discovery_step l" rd_inv for l
  by unfold_locales (auto simp: discovery_initial_def intro: discovery_step_inv discovery_new_inv)

section \<open>Recovery after failures\<close>

definition refresh_all ::
  "'s group_lib \<Rightarrow> refresh_env list \<Rightarrow> 's runtime_nrf_discovery \<Rightarrow> 's runtime_nrf_discovery" where
  "refresh_all l envs d = fold (\<lambda>env d. snd (run_due_nrf_discovery l env d)) envs d"

text \<open>The settings of a group, which no refresh changes.\<close>

definition rd_settings :: "'s runtime_nrf_discovery \<Rightarrow> string \<times> bool \<times> duration \<times> upstream_selection_policy" where
  "rd_settings d = (rd_group_name d, rd_query d, rd_stale_if_error d, rd_policy d)"

lemma retry_within:
  assumes "now + from_secs 30 \<le> instant_max"
  shows "nrf_failure_retry_at now e f \<le> now + from_secs 30"
proof -
  have "from_secs (min (2 ^ min (f - 1) 5) 30) \<le> from_secs 30" by (simp add: from_secs_def)
  then have "instant_add_or now (from_secs (min (2 ^ min (f - 1) 5) 30)) now \<le> now + from_secs 30"
    using assms by (simp add: instant_add_or_def instant_checked_add_def checked_add_def)
  then show ?thesis by (cases e) (simp_all add: nrf_failure_retry_at_def Let_def min.coboundedI1)
qed

lemma failed_refresh:
  assumes "re_result env = Inl e" and "re_now env \<le> t" and "t + from_secs 30 \<le> instant_max"
    and "sch_next_run_at (rd_schedule d) \<le> t + from_secs 30"
  shows "sch_next_run_at (rd_schedule (snd (run_due_nrf_discovery l env d))) \<le> t + from_secs 30 \<and>
    rd_settings (snd (run_due_nrf_discovery l env d)) = rd_settings d"
proof -
  have "nrf_failure_retry_at (re_now env) x f \<le> t + from_secs 30" for x f
    using retry_within [of "re_now env" x f] assms(2,3) by linarith
  then show ?thesis
    using assms(1,4)
    by (auto simp: run_due_nrf_discovery_def Let_def refresh_failed_def record_failure_def discover_def
        expire_snapshot_def rd_settings_def split: option.splits)
qed

lemma failed_refreshes:
  assumes "\<forall>env \<in> set envs. (\<exists>e. re_result env = Inl e) \<and> re_now env \<le> t"
    and "t + from_secs 30 \<le> instant_max" and "sch_next_run_at (rd_schedule d) \<le> t + from_secs 30"
  shows "sch_next_run_at (rd_schedule (refresh_all l envs d)) \<le> t + from_secs 30 \<and>
    rd_settings (refresh_all l envs d) = rd_settings d"
  using assms(1,3)
proof (induction envs arbitrary: d)
  case (Cons env envs)
  from Cons.prems obtain e where "re_result env = Inl e" "re_now env \<le> t" by auto
  from failed_refresh [OF this assms(2) Cons.prems(2), of l] Cons show ?case by (auto simp: refresh_all_def)
qed (simp add: refresh_all_def)

text \<open>A refresh that is due and gets a usable answer.\<close>

definition usable_answer :: "'s group_lib \<Rightarrow> refresh_env \<Rightarrow> 's runtime_nrf_discovery \<Rightarrow> discovery_result \<Rightarrow> bool" where
  "usable_answer l env d r \<longleftrightarrow>
     re_permit_ok env \<and> re_checker_ok env \<and> re_update_ok env \<and> re_result env = Inr r \<and>
     length (dr_endpoints r) \<le> 256 \<and> nrf_snapshot_expiry (re_now env) (dr_validity r) (rd_stale_if_error d) \<noteq> None \<and>
     (\<exists>topology. topology_build (gl_lb l) (gl_service_id l)
        (filter (re_check env) (dynamic_synthetic_backends (gl_backend_id l) (dr_endpoints r))) (rd_policy d) =
        Inr (Some topology))"

lemma apply_usable:
  assumes "usable_answer l env d r"
  shows "\<exists>t d'. apply_discovery l env r d = Inr (t, d') \<and> rd_selection d' \<noteq> None \<and>
    sch_failures (rd_schedule d') = 0 \<and>
    sch_endpoint_count (rd_schedule d') =
      length (filter (re_check env) (dynamic_synthetic_backends (gl_backend_id l) (dr_endpoints r)))"
  using assms
  by (auto simp: usable_answer_def apply_discovery_def publish_backends_def reject_def ok_or_def Let_def
      split: option.splits)

lemma due_refresh:
  assumes "usable_answer l env d r" and "sch_next_run_at (rd_schedule d) \<le> re_now env"
    and "snd (run_due_nrf_discovery l env d) = d'"
  shows "rd_selection d' \<noteq> None \<and> sch_failures (rd_schedule d') = 0 \<and>
    sch_endpoint_count (rd_schedule d') =
      length (filter (re_check env) (dynamic_synthetic_backends (gl_backend_id l) (dr_endpoints r)))"
proof -
  define d1 where "d1 = (if snapshot_expired (re_now env) d then expire_snapshot d else d)"
  define d2 where "d2 = d1\<lparr>rd_schedule := (rd_schedule d1)\<lparr>sch_next_run_at := instant_add_or (re_now env) (from_secs 1) (re_now env)\<rparr>\<rparr>"
  define d3 where "d3 = discover env d2"
  have "rd_stale_if_error d3 = rd_stale_if_error d" "rd_policy d3 = rd_policy d"
    by (simp_all add: d1_def d2_def d3_def discover_def expire_snapshot_def split: option.splits)
  then have "usable_answer l env d3 r" using assms(1) by (simp add: usable_answer_def)
  from apply_usable [OF this] obtain t d4 where d4: "apply_discovery l env r d3 = Inr (t, d4)" "rd_selection d4 \<noteq> None"
    "sch_failures (rd_schedule d4) = 0" "sch_endpoint_count (rd_schedule d4) =
      length (filter (re_check env) (dynamic_synthetic_backends (gl_backend_id l) (dr_endpoints r)))"
    by blast
  have "run_due_nrf_discovery l env d = (Some t, d4)"
    using assms(1,2) d4(1) unfolding run_due_nrf_discovery_def Let_def d1_def [symmetric] d2_def [symmetric] d3_def [symmetric]
    by (simp add: usable_answer_def)
  with assms(3) d4 show ?thesis by simp
qed

section \<open>Claims\<close>


definition sample_group_lib :: "backend list group_lib" where
  "sample_group_lib =
     \<lparr>gl_lb = first_lb, gl_backend_id = (\<lambda>_. 0), gl_service_id = (\<lambda>_. 7), gl_delay_hash = (\<lambda>_. 0),
      gl_health_build = (\<lambda>_. Inr ()), gl_client_new = (\<lambda>_. Inr ())\<rparr>"

definition sample_discovery :: "backend list runtime_nrf_discovery" where
  "sample_discovery =
     \<lparr>rd_group_name = ''g'', rd_query = False, rd_stale_if_error = 5, rd_policy = RoundRobin,
      rd_selection = None, rd_schedule = schedule_new 0\<rparr>"

definition sample_refresh :: refresh_env where
  "sample_refresh =
     \<lparr>re_now = 10, re_permit_ok = True,
      re_result = Inr \<lparr>dr_endpoints = [sample_server ''a''], dr_validity = 100, dr_invalid_api = False\<rparr>,
      re_late = False, re_checker_ok = True, re_check = (\<lambda>_. True), re_update_ok = True\<rparr>"

definition sample_nrf_group :: compiled_upstream_group where
  "sample_nrf_group =
     \<lparr>cg_allow_empty = False, cg_name = ''g'', cg_policy = RoundRobin, cg_hash_key = None, cg_servers = [],
      cg_nrf_discovery = Some \<lparr>cn_api_root = Url [], cn_target_nf_type = [], cn_requester_nf_type = [],
        cn_service_name = [], cn_endpoint_scheme = SchemeHttp, cn_timeout = 0, cn_stale_if_error = 5,
        cn_tls_options = upstream_ssl_default\<rparr>,
      cg_health_check = Some \<lparr>ch_check_type = HcTcp, ch_timeout = 1, ch_interval = 1,
        ch_consecutive_success = 1, ch_consecutive_failure = 1\<rparr>\<rparr>"

lemma sample_backends:
  "dynamic_synthetic_backends (\<lambda>_. 0) [sample_server ''a''] = [sample_endpoint 0 ''a'']"
  by (simp add: dynamic_synthetic_backends_def fresh_id_def btree_collect_def sample_endpoint_def
      sample_server_def)

lemma sample_refresh_selects:
  "rd_selection (snd (run_due_nrf_discovery sample_group_lib sample_refresh sample_discovery)) \<noteq> None"
proof -
  have "publish_backends sample_group_lib True [sample_endpoint 0 ''a''] d =
      Inr (d\<lparr>rd_selection := Some \<lparr>sn_topology = sample_topology, sn_backends = [sample_endpoint 0 ''a'']\<rparr>\<rparr>)"
    if "rd_selection d = None" "rd_policy d = RoundRobin" for d
    using that sample_topology_build by (simp add: publish_backends_def sample_group_lib_def)
  note pub = this
  have "nrf_snapshot_expiry 10 100 5 = Some 115"
    by (simp add: nrf_snapshot_expiry_def instant_checked_add_def checked_add_def instant_max_def)
  then show ?thesis
    using pub sample_backends
    by (simp add: run_due_nrf_discovery_def Let_def sample_refresh_def sample_discovery_def
        schedule_new_def snapshot_expired_def discover_def apply_discovery_def ok_or_def reject_def
        sample_group_lib_def)
qed


text \<open>
  C29. Discovery recovers from outages. However many refreshes failed until some time, a refresh that
  runs at least thirty seconds later is due, and when its answer is usable the group has endpoints
  again: all that passed their check, with the failures forgotten.
\<close>

theorem nrf_recovers:
  assumes "\<forall>env \<in> set envs. (\<exists>e. re_result env = Inl e) \<and> re_now env \<le> t"
    and "t + from_secs 30 \<le> instant_max" and "sch_next_run_at (rd_schedule d) \<le> t"
    and "t + from_secs 30 \<le> re_now env'" and "usable_answer l env' d r"
    and "snd (run_due_nrf_discovery l env' (refresh_all l envs d)) = d'"
  shows "rd_selection d' \<noteq> None \<and> sch_failures (rd_schedule d') = 0 \<and>
    sch_endpoint_count (rd_schedule d') =
      length (filter (re_check env') (dynamic_synthetic_backends (gl_backend_id l) (dr_endpoints r)))"
proof -
  have "sch_next_run_at (rd_schedule d) \<le> t + from_secs 30" using assms(3) by linarith
  from failed_refreshes [OF assms(1,2) this, of l]
  have "sch_next_run_at (rd_schedule (refresh_all l envs d)) \<le> re_now env'"
    and "usable_answer l env' (refresh_all l envs d) r"
    using assms(4,5) by (auto simp: rd_settings_def usable_answer_def)
  from due_refresh [OF this(2,1) assms(6)] show ?thesis .
qed

definition failed_attempt :: refresh_env where
  "failed_attempt = sample_refresh\<lparr>re_result := Inl ''unreachable''\<rparr>"

definition later_attempt :: refresh_env where
  "later_attempt = sample_refresh\<lparr>re_now := 10 + from_secs 30\<rparr>"

theorem nrf_recovers_witness:
  "rd_selection (snd (run_due_nrf_discovery sample_group_lib later_attempt
     (refresh_all sample_group_lib [failed_attempt, failed_attempt] sample_discovery))) \<noteq> None"
proof -
  let ?r = "\<lparr>dr_endpoints = [sample_server ''a''], dr_validity = 100, dr_invalid_api = False\<rparr>"
  have "nrf_snapshot_expiry (10 + from_secs 30) 100 5 \<noteq> None"
    by (simp add: nrf_snapshot_expiry_def instant_checked_add_def checked_add_def instant_max_def from_secs_def)
  then have usable: "usable_answer sample_group_lib later_attempt sample_discovery ?r"
    using sample_backends sample_topology_build
    by (simp add: usable_answer_def later_attempt_def sample_refresh_def sample_discovery_def sample_group_lib_def)
  have "\<forall>env \<in> set [failed_attempt, failed_attempt]. (\<exists>e. re_result env = Inl e) \<and> re_now env \<le> 10"
    by (simp add: failed_attempt_def sample_refresh_def)
  moreover have "10 + from_secs 30 \<le> instant_max" by (simp add: instant_max_def from_secs_def)
  moreover have "sch_next_run_at (rd_schedule sample_discovery) \<le> 10" by (simp add: sample_discovery_def schedule_new_def)
  moreover have "10 + from_secs 30 \<le> re_now later_attempt" by (simp add: later_attempt_def)
  ultimately show ?thesis using nrf_recovers [OF _ _ _ _ usable refl] by blast
qed

text \<open>
  Failed refreshes back off exponentially: as long as the published endpoints are still alive,
  or none were ever published, the next attempt is later than now and at most thirty seconds away,
  never after the expiry, and no earlier than after the failure before.
\<close>

lemma nrf_backoff_bounds:
  assumes "now + from_secs 30 \<le> instant_max"
    and "\<forall>e. expires_at = Some e \<longrightarrow> now < e"
  shows "now < nrf_failure_retry_at now expires_at failures \<and>
    nrf_failure_retry_at now expires_at failures \<le> now + from_secs 30 \<and>
    (\<forall>e. expires_at = Some e \<longrightarrow> nrf_failure_retry_at now expires_at failures \<le> e) \<and>
    nrf_failure_retry_at now expires_at failures \<le> nrf_failure_retry_at now expires_at (failures + 1)"
proof -
  define b where "b f = min (2 ^ min (f - 1) 5) (30 :: nat)" for f :: nat
  have b: "1 \<le> b f" "b f \<le> 30" "b f \<le> b (f + 1)" for f
  proof -
    show "1 \<le> b f" "b f \<le> 30" by (simp_all add: b_def)
    have "(2 :: nat) ^ min (f - 1) 5 \<le> 2 ^ min (f + 1 - 1) 5" by (intro power_increasing) auto
    then show "b f \<le> b (f + 1)" by (simp add: b_def min.coboundedI1 min.mono)
  qed
  have at: "instant_add_or now (from_secs (b f)) now = now + from_secs (b f)" for f
  proof -
    have "from_secs (b f) \<le> from_secs 30" using b(2) by (simp add: from_secs_def)
    with assms(1) show ?thesis
      by (simp add: instant_add_or_def instant_checked_add_def checked_add_def)
  qed
  have eq: "nrf_failure_retry_at now expires_at f =
      (case expires_at of None \<Rightarrow> now + from_secs (b f) | Some e \<Rightarrow> min (now + from_secs (b f)) e)" for f
    using at [of f] by (cases expires_at) (simp_all add: nrf_failure_retry_at_def Let_def b_def)
  have "from_secs (b f) \<le> from_secs (b (f + 1))" "0 < from_secs (b f)" "from_secs (b f) \<le> from_secs 30" for f
    using b [of f] by (simp_all add: from_secs_def)
  with assms(2) show ?thesis
    unfolding eq by (auto simp: min_le_iff_disj split: option.split)
qed

text \<open>
  Once the published endpoints have expired the bound above no longer applies: the expiry stays in
  the schedule, so a failure after it is retried at a time that has already passed.
\<close>

lemma no_backoff_after_expiry:
  assumes "sch_expires_at (rd_schedule d) = Some e" and "e \<le> now"
  shows "fst (record_failure now d) \<le> now \<and>
    sch_expires_at (rd_schedule (snd (record_failure now d))) = Some e"
  using assms
  by (auto simp: record_failure_def Let_def nrf_failure_retry_at_def expire_snapshot_def
      snapshot_expired_def min_le_iff_disj)

text \<open>The refresh is spread over the last thirty percent of the validity.\<close>

lemma nrf_refresh_delay_bounds:
  assumes "1500 \<le> as_millis validity" and "as_millis validity \<le> u64_max"
  shows "from_millis (as_millis validity * 70 div 100) \<le> nrf_refresh_delay hash validity name \<and>
    nrf_refresh_delay hash validity name \<le> from_millis (as_millis validity * 90 div 100)"
proof -
  let ?m = "as_millis validity" and ?p = "70 + hash name mod 21"
  have p: "70 \<le> ?p" "?p \<le> 90" by auto
  then have lo: "?m * 70 div 100 \<le> ?m * ?p div 100" and hi: "?m * ?p div 100 \<le> ?m * 90 div 100"
    by (intro div_le_mono mult_le_mono; simp)+
  have "1000 \<le> ?m * 70 div 100" using assms(1) by simp
  moreover have "?m * 90 div 100 \<le> ?m" by simp
  ultimately show ?thesis
    using lo hi assms(2) by (simp add: nrf_refresh_delay_def Let_def from_millis_def)
qed

end
