(* ===== verification/Upstream_Tls.thy ===== *)
theory Upstream_Tls
  imports Client_Ip
begin

text \<open>
  TLS towards upstreams (\<^verbatim>\<open>upstreams/runtime/tls.rs\<close>): the trust material and client identities a
  configuration needs, loaded once per snapshot, and the options set on a connection.

  Reading files and parsing PEM are functions of the record \<open>tls_lib\<close>; \<^verbatim>\<open>'m\<close> is a certificate or
  key. The model is the build with the \<^verbatim>\<open>openssl\<close> feature.
\<close>

section \<open>All locations of a router\<close>

definition vhost_servers :: "virtual_host_routes \<Rightarrow> server_routes list" where
  "vhost_servers v = hm_values (vh_named v) @ (case vh_default v of None \<Rightarrow> [] | Some s \<Rightarrow> [s])"

definition router_locations :: "compiled_router \<Rightarrow> compiled_location list" where
  "router_locations r = concat (map sr_locations (concat (map vhost_servers (hm_values (cr_listeners r)))))"

lemma fold_res_append: "fold_res f s (xs @ ys) = and_then (fold_res f s xs) (\<lambda>t. fold_res f t ys)"
proof (induction xs arbitrary: s)
  case (Cons x xs)
  then show ?case by (cases "f s x") simp_all
qed simp

lemma fold_res_concat: "fold_res (\<lambda>s x. fold_res f s (g x)) s xs = fold_res f s (concat (map g xs))"
proof (induction xs arbitrary: s)
  case (Cons x xs)
  then show ?case by (cases "fold_res f s (g x)") (simp_all add: fold_res_append)
qed simp

lemma concat_map_concat: "concat (map (\<lambda>x. concat (g x)) xs) = concat (concat (map g xs))"
  by (induction xs) auto

text \<open>Three nested loops over listeners, servers and locations are one loop over the locations.\<close>

lemma fold_res_router:
  assumes "\<And>acc v. vf acc v = fold_res sf acc (vhost_servers v)"
    and "\<And>acc s. sf acc s = fold_res f acc (sr_locations s)"
  shows "fold_res vf acc (hm_values (cr_listeners r)) = fold_res f acc (router_locations r)"
proof -
  have "sf = (\<lambda>acc s. fold_res f acc (sr_locations s))" by (intro ext) (rule assms(2))
  then have "vf = (\<lambda>acc v. fold_res f acc (concat (map sr_locations (vhost_servers v))))"
    using assms(1) by (intro ext) (simp add: fold_res_concat)
  then show ?thesis
    by (simp add: fold_res_concat router_locations_def map_concat comp_def concat_map_concat)
qed

section \<open>Loading material\<close>

record 'm tls_lib =
  tl_read :: "string \<Rightarrow> string option"
  tl_certs :: "string \<Rightarrow> 'm list option"
  tl_key :: "string \<Rightarrow> 'm option"

definition read_pem_source :: "'m tls_lib \<Rightarrow> pem_source \<Rightarrow> string \<Rightarrow> (string, string) result" where
  "read_pem_source l source label =
     (case source of
        PemPath path \<Rightarrow> ok_or (''failed to read '' @ label @ '' `'' @ path @ ''`'') (tl_read l path)
      | InlinePem pem \<Rightarrow> Inr pem)"

definition load_runtime_trusted_ca :: "'m tls_lib \<Rightarrow> pem_source \<Rightarrow> (string, 'm list) result" where
  "load_runtime_trusted_ca l source =
     and_then (read_pem_source l source ''proxy_ssl_trusted_certificate'') (\<lambda>pem.
     and_then (ok_or ''failed to parse proxy_ssl_trusted_certificate'' (tl_certs l pem)) (\<lambda>certs.
     and_then (reject (certs = []) ''proxy_ssl_trusted_certificate does not contain any certificates'') (\<lambda>_.
     Inr certs)))"

definition load_runtime_client_identity ::
  "'m tls_lib \<Rightarrow> pem_source \<Rightarrow> pem_source \<Rightarrow> (string, 'm list \<times> 'm) result" where
  "load_runtime_client_identity l cert_source key_source =
     and_then (read_pem_source l cert_source ''proxy_ssl_certificate'') (\<lambda>cert_pem.
     and_then (ok_or ''failed to parse proxy_ssl_certificate'' (tl_certs l cert_pem)) (\<lambda>certs.
     and_then (reject (certs = []) ''proxy_ssl_certificate does not contain any certificates'') (\<lambda>_.
     and_then (read_pem_source l key_source ''proxy_ssl_certificate_key'') (\<lambda>key_pem.
     and_then (ok_or ''failed to parse proxy_ssl_certificate_key'' (tl_key l key_pem)) (\<lambda>key.
     Inr (certs, key))))))"

text \<open>A loop body that loads what the key of a location names, unless it is already there.\<close>

definition load_once ::
  "(compiled_location \<Rightarrow> 'k option) \<Rightarrow> ('k \<Rightarrow> (string, 'v) result) \<Rightarrow> ('k, 'v) hmap \<Rightarrow> compiled_location \<Rightarrow>
   (string, ('k, 'v) hmap) result" where
  "load_once key load acc loc =
     (case key loc of
        None \<Rightarrow> Inr acc
      | Some k \<Rightarrow>
          if hm_get acc k \<noteq> None then Inr acc
          else and_then (load k) (\<lambda>v. Inr (hm_insert k v acc)))"

definition ca_key :: "compiled_location \<Rightarrow> pem_source option" where
  "ca_key loc = us_trusted_certificate (co_upstream_ssl_options loc)"

definition identity_key :: "compiled_location \<Rightarrow> (pem_source \<times> pem_source) option" where
  "identity_key loc =
     (case (us_client_certificate (co_upstream_ssl_options loc),
            us_client_certificate_key (co_upstream_ssl_options loc)) of
        (Some cert, Some key) \<Rightarrow> Some (cert, key)
      | _ \<Rightarrow> None)"

definition collect_trusted_cas_from_server ::
  "'m tls_lib \<Rightarrow> (pem_source, 'm list) hmap \<Rightarrow> server_routes \<Rightarrow> (string, (pem_source, 'm list) hmap) result" where
  "collect_trusted_cas_from_server l acc routes =
     fold_res (load_once ca_key (load_runtime_trusted_ca l)) acc (sr_locations routes)"

definition collect_trusted_cas_from_vhosts ::
  "'m tls_lib \<Rightarrow> (pem_source, 'm list) hmap \<Rightarrow> virtual_host_routes \<Rightarrow> (string, (pem_source, 'm list) hmap) result" where
  "collect_trusted_cas_from_vhosts l acc v = fold_res (collect_trusted_cas_from_server l) acc (vhost_servers v)"

definition build_runtime_trusted_cas ::
  "'m tls_lib \<Rightarrow> compiled_router \<Rightarrow> (string, (pem_source, 'm list) hmap) result" where
  "build_runtime_trusted_cas l router =
     fold_res (collect_trusted_cas_from_vhosts l) [] (hm_values (cr_listeners router))"

type_synonym 'm identities = "(pem_source \<times> pem_source, 'm list \<times> 'm) hmap"

definition collect_client_identities_from_server ::
  "'m tls_lib \<Rightarrow> 'm identities \<Rightarrow> server_routes \<Rightarrow> (string, 'm identities) result" where
  "collect_client_identities_from_server l acc routes =
     fold_res (load_once identity_key (\<lambda>(cert, key). load_runtime_client_identity l cert key)) acc
       (sr_locations routes)"

definition collect_client_identities_from_vhosts ::
  "'m tls_lib \<Rightarrow> 'm identities \<Rightarrow> virtual_host_routes \<Rightarrow> (string, 'm identities) result" where
  "collect_client_identities_from_vhosts l acc v =
     fold_res (collect_client_identities_from_server l) acc (vhost_servers v)"

definition build_runtime_client_identities :: "'m tls_lib \<Rightarrow> compiled_router \<Rightarrow> (string, 'm identities) result" where
  "build_runtime_client_identities l router =
     fold_res (collect_client_identities_from_vhosts l) [] (hm_values (cr_listeners router))"

lemma update_keys: "set (hm_keys (hm_insert k v m)) = insert k (set (hm_keys m))"
  by (simp add: dom_map_of_conv_image_fst [symmetric] update_conv')

lemma load_once_step:
  assumes "load_once key load acc loc = Inr acc'"
  shows "set (hm_keys acc) \<subseteq> set (hm_keys acc') \<and> (\<forall>k. key loc = Some k \<longrightarrow> k \<in> set (hm_keys acc'))"
proof (cases "key loc")
  case None
  with assms show ?thesis by (simp add: load_once_def)
next
  case (Some k)
  show ?thesis
  proof (cases "hm_get acc k")
    case None
    with assms Some obtain v where "acc' = hm_insert k v acc" by (auto simp: load_once_def res_simps)
    with Some show ?thesis using update_keys [of k v acc] by auto
  next
    case Some': (Some v)
    with assms Some have "acc' = acc" by (simp add: load_once_def)
    moreover have "k \<in> set (hm_keys acc)" using Some' by (metis domI dom_map_of_conv_image_fst set_map)
    ultimately show ?thesis using Some by simp
  qed
qed

lemma load_once_keys:
  "fold_res (load_once key load) acc locs = Inr m \<Longrightarrow>
   set (hm_keys acc) \<subseteq> set (hm_keys m) \<and>
   (\<forall>loc \<in> set locs. \<forall>k. key loc = Some k \<longrightarrow> k \<in> set (hm_keys m))"
proof (induction locs arbitrary: acc)
  case Nil
  then show ?case by simp
next
  case (Cons loc locs)
  from Cons.prems obtain acc' where step: "load_once key load acc loc = Inr acc'"
    and rest: "fold_res (load_once key load) acc' locs = Inr m" by (auto simp: res_simps)
  from load_once_step [OF step] Cons.IH [OF rest] show ?case
    unfolding list.set by blast
qed

lemma build_runtime_trusted_cas_flat:
  "build_runtime_trusted_cas l router =
     fold_res (load_once ca_key (load_runtime_trusted_ca l)) [] (router_locations router)"
  unfolding build_runtime_trusted_cas_def
  by (rule fold_res_router [OF collect_trusted_cas_from_vhosts_def collect_trusted_cas_from_server_def])

lemma build_runtime_client_identities_flat:
  "build_runtime_client_identities l router =
     fold_res (load_once identity_key (\<lambda>(cert, key). load_runtime_client_identity l cert key)) []
       (router_locations router)"
  unfolding build_runtime_client_identities_def
  by (rule fold_res_router
      [OF collect_client_identities_from_vhosts_def collect_client_identities_from_server_def])

text \<open>Every location finds its trust material and identity in a built snapshot.\<close>

lemma build_runtime_trusted_cas_complete:
  assumes "build_runtime_trusted_cas l router = Inr m"
    and "loc \<in> set (router_locations router)" and "ca_key loc = Some k"
  shows "k \<in> set (hm_keys m)"
  using load_once_keys [OF assms(1) [unfolded build_runtime_trusted_cas_flat]] assms(2,3) by blast

lemma build_runtime_client_identities_complete:
  assumes "build_runtime_client_identities l router = Inr m"
    and "loc \<in> set (router_locations router)" and "identity_key loc = Some k"
  shows "k \<in> set (hm_keys m)"
  using load_once_keys [OF assms(1) [unfolded build_runtime_client_identities_flat]] assms(2,3) by blast

section \<open>Connections\<close>

text \<open>What the code sets of a Pingora \<^verbatim>\<open>HttpPeer\<close>.\<close>

record 'm http_peer =
  peer_host :: string
  peer_port :: nat
  peer_tls :: bool
  peer_sni :: string
  peer_group_key :: nat
  peer_connection_timeout :: "duration option"
  peer_read_timeout :: "duration option"
  peer_write_timeout :: "duration option"
  peer_http_version :: "(nat \<times> nat) option"
  peer_verify_cert :: bool
  peer_verify_hostname :: bool
  peer_ca :: "'m list option"
  peer_client_cert_key :: "('m list \<times> 'm) option"
  peer_max_h2_streams :: "nat option"
  peer_h2_stream_window_size :: "nat option"
  peer_h2_connection_window_size :: "nat option"

text \<open>\<^verbatim>\<open>HttpPeer::new\<close>: verification is on by default.\<close>

definition http_peer_new :: "string \<Rightarrow> nat \<Rightarrow> bool \<Rightarrow> string \<Rightarrow> 'm http_peer" where
  "http_peer_new host port tls sni =
     \<lparr>peer_host = host, peer_port = port, peer_tls = tls, peer_sni = sni, peer_group_key = 0,
      peer_connection_timeout = None, peer_read_timeout = None, peer_write_timeout = None,
      peer_http_version = None, peer_verify_cert = True, peer_verify_hostname = True, peer_ca = None,
      peer_client_cert_key = None, peer_max_h2_streams = None, peer_h2_stream_window_size = None,
      peer_h2_connection_window_size = None\<rparr>"

definition normalized_peer_timeout :: "duration option \<Rightarrow> duration option" where
  "normalized_peer_timeout t = (case t of Some d \<Rightarrow> if d = 0 then None else Some d | None \<Rightarrow> None)"

definition apply_upstream_timeouts :: "'m http_peer \<Rightarrow> upstream_timeouts \<Rightarrow> 'm http_peer" where
  "apply_upstream_timeouts p t =
     p\<lparr>peer_connection_timeout := normalized_peer_timeout (ut_connect t),
       peer_read_timeout := normalized_peer_timeout (ut_read t),
       peer_write_timeout := normalized_peer_timeout (ut_write t)\<rparr>"

definition apply_upstream_http_protocol :: "'m http_peer \<Rightarrow> upstream_http_protocol option \<Rightarrow> 'm http_peer" where
  "apply_upstream_http_protocol p protocol =
     (case protocol of
        Some H1 \<Rightarrow> p\<lparr>peer_http_version := Some (1, 1)\<rparr>
      | Some _ \<Rightarrow> p\<lparr>peer_http_version := Some (2, 2)\<rparr>
      | None \<Rightarrow> p)"

definition apply_upstream_ssl_options ::
  "'m http_peer \<Rightarrow> upstream_ssl_options \<Rightarrow> 'm list option \<Rightarrow> ('m list \<times> 'm) option \<Rightarrow> 'm http_peer" where
  "apply_upstream_ssl_options p options ca identity =
     p\<lparr>peer_verify_cert := (us_verify_cert options = On),
       peer_verify_hostname := (us_verify_cert options = On),
       peer_ca := ca, peer_client_cert_key := identity\<rparr>"

text \<open>\<^verbatim>\<open>isolate_pool\<close>: the hash is the library's.\<close>

definition isolate_pool :: "(nat \<times> nat \<Rightarrow> nat) \<Rightarrow> 'm http_peer \<Rightarrow> nat \<Rightarrow> nat \<Rightarrow> 'm http_peer" where
  "isolate_pool hash p generation route_id = p\<lparr>peer_group_key := hash (generation, route_id)\<rparr>"

text \<open>The error is a 502 for the client. \<^verbatim>\<open>Scheme::HTTPS\<close> is the TLS flag of the peer.\<close>

definition configure_peer ::
  "(nat \<times> nat \<Rightarrow> nat) \<Rightarrow> nat \<Rightarrow> upstream_timeouts \<Rightarrow> upstream_http2_options \<Rightarrow> upstream_ssl_options \<Rightarrow>
   'm list option \<Rightarrow> ('m list \<times> 'm) option \<Rightarrow> 'm http_peer \<Rightarrow> nat \<Rightarrow> upstream_http_protocol option \<Rightarrow>
   (nat \<times> string, 'm http_peer) result" where
  "configure_peer hash route_id timeouts http2 ssl ca identity p generation protocol =
     and_then (reject (peer_tls p \<and> us_verify_cert ssl = On \<and>
         (peer_sni p = [] \<or> parse_ip (peer_sni p) \<noteq> None))
       (502, ''verified HTTPS upstream requires a DNS hostname'')) (\<lambda>_.
     let p1 = isolate_pool hash p generation route_id;
         p2 = apply_upstream_timeouts p1 timeouts;
         p3 = apply_upstream_http_protocol p2 protocol;
         p4 = (case uh2_max_concurrent_streams http2 of None \<Rightarrow> p3 | Some n \<Rightarrow> p3\<lparr>peer_max_h2_streams := Some n\<rparr>);
         p5 = p4\<lparr>peer_h2_stream_window_size := uh2_stream_window_size http2,
                 peer_h2_connection_window_size := uh2_connection_window_size http2\<rparr>
     in Inr (apply_upstream_ssl_options p5 ssl ca identity))"

section \<open>Claims\<close>

text \<open>
  C32. A connection to an HTTPS upstream whose certificate must be verified is never opened
  unverified: configuring the peer either fails with 502 or leaves both certificate and host name
  verification on, against the configured authorities, with a server name that is a DNS name and
  not an address.
\<close>

theorem configure_peer_verified:
  assumes "configure_peer hash route_id timeouts http2 ssl ca identity p generation protocol = Inr q"
    and "peer_tls p" and "us_verify_cert ssl = On"
  shows "peer_tls q \<and> peer_verify_cert q \<and> peer_verify_hostname q \<and> peer_ca q = ca \<and>
    peer_sni q = peer_sni p \<and> peer_sni q \<noteq> [] \<and> parse_ip (peer_sni q) = None \<and>
    peer_host q = peer_host p \<and> peer_port q = peer_port p"
  using assms
  by (auto simp: configure_peer_def Let_def res_simps isolate_pool_def apply_upstream_timeouts_def
      apply_upstream_http_protocol_def apply_upstream_ssl_options_def
      split: option.splits upstream_http_protocol.splits)

theorem configure_peer_verified_witness:
  "\<exists>q :: unit http_peer. configure_peer (\<lambda>_. 0) 1 upstream_timeouts_default upstream_http2_default
     upstream_ssl_default None None (http_peer_new ''x.y'' 443 True ''x.y'') 1 None = Inr q \<and> peer_verify_cert q"
proof -
  let ?c = "configure_peer (\<lambda>_. 0) 1 upstream_timeouts_default upstream_http2_default upstream_ssl_default None None
    (http_peer_new ''x.y'' 443 True ''x.y'' :: unit http_peer) 1 None"
  have "digit_of 10 CHR ''x'' = None" "digit_of 16 CHR ''x'' = None" by code_simp+
  then have n: "read_number 10 m a v ''x.y'' = None" "read_number 16 m a v ''x.y'' = None" for m a v
    by (simp_all add: read_number_def)
  then have o4: "read_octets ''x.y'' = None"
    by (simp add: read_octets_def read_octet_def read_separator_def)
  have eight: "(8 :: nat) = Suc 7" by simp
  have "read_groups 0 8 ''x.y'' = ([], False, ''x.y'')"
    unfolding eight by (subst read_groups.simps) (simp add: read_separator_def o4 n)
  then have "parse_ip ''x.y'' = None"
    by (simp add: parse_ip_def o4 read_ipv6_addr_def read_given_char_def)
  then obtain q where q: "?c = Inr q"
    by (simp add: configure_peer_def http_peer_new_def reject_def Let_def)
  have "us_verify_cert upstream_ssl_default = On" by (simp add: upstream_ssl_default_def)
  moreover have "peer_tls (http_peer_new ''x.y'' 443 True ''x.y'' :: unit http_peer)"
    by (simp add: http_peer_new_def)
  ultimately show ?thesis using configure_peer_verified [OF q] q by blast
qed

end
