(* ===== verification/Control.thy ===== *)
theory Control
  imports Plugins Upstream_Groups Upstream_Tls
begin

text \<open>
  The active configuration of the proxy: building a runtime snapshot from a compiled router and
  replacing the current one (\<^verbatim>\<open>crates/ngxora-runtime/src/control.rs\<close>).

  The check of the listeners' TLS material and the SCP runtime are outside this theory: they are
  functions of the record \<open>control_lib\<close>, over opaque types. A snapshot that replaces another shares unchanged
  upstream groups with it; here they are carried over by value. Applying holds a lock, so it is one
  step.
\<close>

section \<open>State\<close>

record config_snapshot =
  cfg_version :: string
  cfg_router :: compiled_router

definition config_snapshot_new :: "string \<Rightarrow> compiled_router \<Rightarrow> config_snapshot" where
  "config_snapshot_new version router = \<lparr>cfg_version = version, cfg_router = router\<rparr>"

record apply_result =
  ap_applied :: bool
  ap_restart_required :: bool
  ap_message :: string
  ap_active_version :: string
  ap_active_generation :: nat

text \<open>
  \<^verbatim>\<open>'s\<close> is the load balancer's state, \<^verbatim>\<open>'k\<close> a token key, \<^verbatim>\<open>'m\<close> TLS material, \<^verbatim>\<open>'p\<close> an SCP runtime.
\<close>

record ('s, 'k, 'm, 'p) runtime_snapshot =
  ss_backend_counters :: "(nat, nat) hmap"
  ss_scp_profiles :: "(string, 'p) hmap"
  ss_generation :: nat
  ss_version :: string
  ss_router :: compiled_router
  ss_plugin_chains :: "(nat, 'k http_plugin list) hmap"
  ss_upstream_groups :: "(string, 's runtime_upstream_group) hmap"
  ss_trusted_cas :: "(pem_source, 'm list) hmap"
  ss_client_identities :: "'m identities"

definition plugin_chain :: "('s, 'k, 'm, 'p) runtime_snapshot \<Rightarrow> nat \<Rightarrow> 'k http_plugin list" where
  "plugin_chain s route_id = (case hm_get (ss_plugin_chains s) route_id of None \<Rightarrow> [] | Some c \<Rightarrow> c)"

definition group_key :: "string \<Rightarrow> string" where
  "group_key name = to_ascii_lowercase (trim_end_matches CHR ''.'' name)"

definition upstream_group :: "('s, 'k, 'm, 'p) runtime_snapshot \<Rightarrow> string \<Rightarrow> 's runtime_upstream_group option" where
  "upstream_group s name = hm_get (ss_upstream_groups s) (group_key name)"

definition trusted_ca :: "('s, 'k, 'm, 'p) runtime_snapshot \<Rightarrow> pem_source \<Rightarrow> 'm list option" where
  "trusted_ca s source = hm_get (ss_trusted_cas s) source"

definition client_identity :: "('s, 'k, 'm, 'p) runtime_snapshot \<Rightarrow> pem_source \<Rightarrow> pem_source \<Rightarrow> ('m list \<times> 'm) option" where
  "client_identity s cert key = hm_get (ss_client_identities s) (cert, key)"

definition upstream_backend_readiness ::
  "(backend \<Rightarrow> bool) \<Rightarrow> ('s, 'k, 'm, 'p) runtime_snapshot \<Rightarrow> (string \<times> string \<times> bool) list" where
  "upstream_backend_readiness ready s =
     concat (map (\<lambda>(name, g). map (\<lambda>(b, r). (name, show_server b, r)) (readiness ready g)) (ss_upstream_groups s))"

section \<open>The restart fingerprint\<close>

record listener_restart_config =
  lr_protocol :: listener_protocol_config
  lr_tls :: "listener_tls_settings option"

record restart_config_fingerprint =
  rf_geoip :: "geoip_config option"
  rf_listeners :: "(listen_key \<times> listener_restart_config) list"
  rf_allow_connect_method_proxying :: bool
  rf_h2c :: bool
  rf_keepalive_requests :: "nat option"
  rf_http2 :: http2_options

definition listener_restart :: "compiled_router \<Rightarrow> listen_key \<Rightarrow> listener_restart_config" where
  "listener_restart r key =
     \<lparr>lr_protocol = (case hm_get (cr_listener_protocols r) key of
        None \<Rightarrow> listener_protocol_default | Some p \<Rightarrow> p),
      lr_tls = map_option ltc_settings (hm_get (cr_listener_tls r) key)\<rparr>"

text \<open>The \<^verbatim>\<open>BTreeMap\<close> of listeners is the list of its entries in key order.\<close>

definition restart_fingerprint :: "compiled_router \<Rightarrow> restart_config_fingerprint" where
  "restart_fingerprint r =
     \<lparr>rf_geoip = cr_geoip r,
      rf_listeners = map (\<lambda>key. (key, listener_restart r key)) (sort (remdups (hm_keys (cr_listeners r)))),
      rf_allow_connect_method_proxying = ho_allow_connect_method_proxying (cr_http_options r),
      rf_h2c = ho_h2c (cr_http_options r),
      rf_keepalive_requests = ho_keepalive_requests (cr_http_options r),
      rf_http2 = ho_http2 (cr_http_options r)\<rparr>"

section \<open>Building a snapshot\<close>

type_synonym 'k chain_map = "(nat, 'k http_plugin list) hmap"

definition add_chain ::
  "'k http_plugin plugin_registry \<Rightarrow> 'k chain_map \<Rightarrow> compiled_location \<Rightarrow> (string, 'k chain_map) result" where
  "add_chain registry acc loc =
     (if hm_get acc (co_route_id loc) \<noteq> None then Inr acc
      else and_then (map_err (\<lambda>e. ''failed to build plugin chain for route '' @ show_nat (co_route_id loc) @
               '': '' @ pb_plugin e @ '': '' @ pb_message e)
             (build_chain registry (co_plugins loc))) (\<lambda>chain.
           Inr (hm_insert (co_route_id loc) chain acc)))"

definition collect_plugin_chains_from_server ::
  "'k http_plugin plugin_registry \<Rightarrow> 'k chain_map \<Rightarrow> server_routes \<Rightarrow> (string, 'k chain_map) result" where
  "collect_plugin_chains_from_server registry acc routes =
     fold_res (add_chain registry) acc (sr_locations routes)"

definition collect_plugin_chains_from_vhosts ::
  "'k http_plugin plugin_registry \<Rightarrow> 'k chain_map \<Rightarrow> virtual_host_routes \<Rightarrow> (string, 'k chain_map) result" where
  "collect_plugin_chains_from_vhosts registry acc v =
     fold_res (collect_plugin_chains_from_server registry) acc (vhost_servers v)"

definition build_plugin_chains ::
  "compiled_router \<Rightarrow> 'k http_plugin plugin_registry \<Rightarrow> (string, 'k chain_map) result" where
  "build_plugin_chains router registry =
     fold_res (collect_plugin_chains_from_vhosts registry) [] (hm_values (cr_listeners router))"

text \<open>The code outside: the libraries of the groups and of TLS, and the SCP runtime.\<close>

record ('s, 'm, 'p) control_lib =
  cl_groups :: "'s group_lib"
  cl_validate_tls :: "compiled_router \<Rightarrow> (string, unit) result"
  cl_tls :: "'m tls_lib"
  cl_scp_new :: "scp_profile \<Rightarrow> (string, compiled_upstream_group) hmap \<Rightarrow> (string, 'p) result"
  cl_scp_matches :: "'p \<Rightarrow> scp_profile \<Rightarrow> (string, compiled_upstream_group) hmap \<Rightarrow> bool"

definition reusable_group ::
  "('s, 'k, 'm, 'p) runtime_snapshot option \<Rightarrow> string \<Rightarrow> compiled_upstream_group \<Rightarrow> 's runtime_upstream_group option" where
  "reusable_group previous name grp =
     Option.bind previous (\<lambda>s.
       if hm_get (cr_upstreams (ss_router s)) name = Some grp then hm_get (ss_upstream_groups s) name
       else None)"

definition build_runtime_upstream_groups ::
  "'s group_lib \<Rightarrow> instant \<Rightarrow> compiled_router \<Rightarrow> ('s, 'k, 'm, 'p) runtime_snapshot option \<Rightarrow>
   (string, (string, 's runtime_upstream_group) hmap) result" where
  "build_runtime_upstream_groups l now router previous =
     map_res (\<lambda>(name, grp).
       case reusable_group previous name grp of
         Some g \<Rightarrow> Inr (name, g)
       | None \<Rightarrow> and_then (from_compiled l now grp) (\<lambda>g. Inr (name, g))) (cr_upstreams router)"

definition build_scp_profiles ::
  "('s, 'm, 'p) control_lib \<Rightarrow> compiled_router \<Rightarrow> ('s, 'k, 'm, 'p) runtime_snapshot option \<Rightarrow>
   (string, (string, 'p) hmap) result" where
  "build_scp_profiles l router previous =
     map_res (\<lambda>(name, profile).
       case Option.bind (Option.bind previous (\<lambda>s. hm_get (ss_scp_profiles s) name))
           (\<lambda>r. if cl_scp_matches l r profile (cr_upstreams router) then Some r else None) of
         Some r \<Rightarrow> Inr (name, r)
       | None \<Rightarrow> and_then (cl_scp_new l profile (cr_upstreams router)) (\<lambda>r. Inr (name, r)))
       (cr_scp_profiles router)"

definition is_weighted :: "compiled_location \<Rightarrow> bool" where
  "is_weighted loc = (case co_target loc of WeightedBackends _ \<Rightarrow> True | _ \<Rightarrow> False)"

definition build_backend_counters :: "compiled_router \<Rightarrow> (nat, nat) hmap" where
  "build_backend_counters r =
     foldl (\<lambda>m loc. hm_insert (co_route_id loc) 0 m) [] (filter is_weighted (router_locations r))"

definition build_runtime_snapshot ::
  "('s, 'm, 'p) control_lib \<Rightarrow> instant \<Rightarrow> 'k http_plugin plugin_registry \<Rightarrow> string \<Rightarrow> compiled_router \<Rightarrow> nat \<Rightarrow>
   ('s, 'k, 'm, 'p) runtime_snapshot option \<Rightarrow> (string, ('s, 'k, 'm, 'p) runtime_snapshot) result" where
  "build_runtime_snapshot l now registry version router generation previous =
     and_then (if previous \<noteq> None then cl_validate_tls l router else Inr ()) (\<lambda>_.
     and_then (build_plugin_chains router registry) (\<lambda>plugin_chains.
     and_then (build_runtime_upstream_groups (cl_groups l) now router previous) (\<lambda>upstream_groups.
     and_then (build_runtime_trusted_cas (cl_tls l) router) (\<lambda>trusted_cas.
     and_then (build_runtime_client_identities (cl_tls l) router) (\<lambda>client_identities.
     and_then (build_scp_profiles l router previous) (\<lambda>scp_profiles.
     Inr \<lparr>ss_backend_counters = build_backend_counters router, ss_scp_profiles = scp_profiles,
          ss_generation = generation, ss_version = version, ss_router = router,
          ss_plugin_chains = plugin_chains, ss_upstream_groups = upstream_groups,
          ss_trusted_cas = trusted_cas, ss_client_identities = client_identities\<rparr>))))))"

section \<open>The runtime state\<close>

record ('s, 'k, 'm, 'p) runtime_state =
  rt_current :: "('s, 'k, 'm, 'p) runtime_snapshot"
  rt_geoip :: "geoip_config option"
  rt_apply_lock_poisoned :: bool
  rt_bootstrap_config :: restart_config_fingerprint
  rt_registry :: "'k http_plugin plugin_registry"
  rt_tls_material_generation :: nat

text \<open>\<^verbatim>\<open>with_registry\<close>: the \<^verbatim>\<open>expect\<close> on a failing bootstrap snapshot is the error of the model.\<close>

definition with_registry ::
  "('s, 'm, 'p) control_lib \<Rightarrow> instant \<Rightarrow> config_snapshot \<Rightarrow> 'k http_plugin plugin_registry \<Rightarrow>
   (string, ('s, 'k, 'm, 'p) runtime_state) result" where
  "with_registry l now snap registry =
     and_then (build_runtime_snapshot l now registry (cfg_version snap) (cfg_router snap) 1 None) (\<lambda>current.
     Inr \<lparr>rt_current = current, rt_geoip = cr_geoip (cfg_router snap), rt_apply_lock_poisoned = False,
          rt_bootstrap_config = restart_fingerprint (cfg_router snap), rt_registry = registry,
          rt_tls_material_generation = 1\<rparr>)"

definition bootstrap ::
  "('s, 'm, 'p) control_lib \<Rightarrow> 'k plugin_libs \<Rightarrow> instant \<Rightarrow> compiled_router \<Rightarrow>
   (string, ('s, 'k, 'm, 'p) runtime_state) result" where
  "bootstrap l pl now router =
     with_registry l now (config_snapshot_new ''bootstrap'' router) (with_builtin_plugins pl now)"

definition invalidate_tls_material :: "('s, 'k, 'm, 'p) runtime_state \<Rightarrow> nat \<times> ('s, 'k, 'm, 'p) runtime_state" where
  "invalidate_tls_material s =
     (let n = wrap_add64 (rt_tls_material_generation s) 1 in (n, s\<lparr>rt_tls_material_generation := n\<rparr>))"

definition not_applied :: "bool \<Rightarrow> string \<Rightarrow> ('s, 'k, 'm, 'p) runtime_state \<Rightarrow> apply_result" where
  "not_applied restart message s =
     \<lparr>ap_applied = False, ap_restart_required = restart, ap_message = message,
      ap_active_version = ss_version (rt_current s), ap_active_generation = ss_generation (rt_current s)\<rparr>"

definition apply_snapshot ::
  "('s, 'm, 'p) control_lib \<Rightarrow> instant \<Rightarrow> config_snapshot \<Rightarrow> ('s, 'k, 'm, 'p) runtime_state \<Rightarrow>
   apply_result \<times> ('s, 'k, 'm, 'p) runtime_state" where
  "apply_snapshot l now next s =
     (if rt_apply_lock_poisoned s then (not_applied False ''snapshot apply lock is poisoned'' s, s)
      else if restart_fingerprint (cfg_router next) \<noteq> rt_bootstrap_config s then
        (not_applied True ''listener or bootstrap transport settings changed; restart required'' s, s)
      else
        case build_runtime_snapshot l now (rt_registry s) (cfg_version next) (cfg_router next)
            (wrap_add64 (ss_generation (rt_current s)) 1) (Some (rt_current s)) of
          Inl message \<Rightarrow> (not_applied False message s, s)
        | Inr snap \<Rightarrow>
            (\<lparr>ap_applied = True, ap_restart_required = False, ap_message = ''snapshot applied'',
              ap_active_version = ss_version snap, ap_active_generation = ss_generation snap\<rparr>,
             s\<lparr>rt_current := snap\<rparr>))"

section \<open>What a built snapshot contains\<close>

lemma build_plugin_chains_flat:
  "build_plugin_chains router registry = fold_res (add_chain registry) [] (router_locations router)"
  unfolding build_plugin_chains_def
  by (rule fold_res_router [OF collect_plugin_chains_from_vhosts_def collect_plugin_chains_from_server_def])

lemma add_chain_fold:
  "fold_res (add_chain registry) acc locs = Inr m \<Longrightarrow>
   (\<forall>i c. hm_get acc i = Some c \<longrightarrow> hm_get m i = Some c) \<and>
   (\<forall>loc \<in> set locs. \<exists>c. hm_get m (co_route_id loc) = Some c) \<and>
   (\<forall>i c. hm_get m i = Some c \<longrightarrow> hm_get acc i = Some c \<or>
      (\<exists>loc \<in> set locs. co_route_id loc = i \<and> build_chain registry (co_plugins loc) = Inr c))"
proof (induction locs arbitrary: acc)
  case Nil
  then show ?case by simp
next
  case (Cons loc locs)
  from Cons.prems obtain acc' where step: "add_chain registry acc loc = Inr acc'"
    and rest: "fold_res (add_chain registry) acc' locs = Inr m" by (auto simp: res_simps)
  note IH = Cons.IH [OF rest]
  show ?case
  proof (cases "hm_get acc (co_route_id loc)")
    case None
    with step obtain c where c: "build_chain registry (co_plugins loc) = Inr c"
      and "acc' = hm_insert (co_route_id loc) c acc" by (auto simp: add_chain_def res_simps)
    then have acc': "hm_get acc' i = (if i = co_route_id loc then Some c else hm_get acc i)" for i by simp
    show ?thesis
    proof (intro conjI allI impI ballI)
      fix i d
      assume "hm_get acc i = Some d"
      with None acc' have "hm_get acc' i = Some d" by auto
      with IH show "hm_get m i = Some d" by blast
    next
      fix loc'
      assume "loc' \<in> set (loc # locs)"
      moreover have "hm_get m (co_route_id loc) = Some c" using IH acc' [of "co_route_id loc"] by simp
      ultimately show "\<exists>c. hm_get m (co_route_id loc') = Some c" using IH by auto
    next
      fix i d
      assume "hm_get m i = Some d"
      with IH have "hm_get acc' i = Some d \<or>
          (\<exists>loc \<in> set locs. co_route_id loc = i \<and> build_chain registry (co_plugins loc) = Inr d)" by blast
      with acc' c show "hm_get acc i = Some d \<or>
          (\<exists>loc \<in> set (loc # locs). co_route_id loc = i \<and> build_chain registry (co_plugins loc) = Inr d)"
        by (auto split: if_splits)
    qed
  next
    case (Some c)
    with step have "acc' = acc" by (simp add: add_chain_def)
    with IH Some show ?thesis by auto
  qed
qed

lemma build_chain_names:
  assumes "build_chain (with_builtin_plugins pl t) specs = Inr chain"
  shows "map plugin_name chain = map ps_name specs"
proof -
  from assms have "list_all2 (\<lambda>spec p. build_plugin (with_builtin_plugins pl t) spec = Inr p) specs chain"
    by (simp add: build_chain_ok_iff)
  then have "list_all2 (\<lambda>spec p. ps_name spec = plugin_name p) specs chain"
    by (rule list_all2_mono) (simp add: build_plugin_builtin)
  then show ?thesis by (induction rule: list_all2_induct) auto
qed

lemma counters_fold:
  "hm_get (foldl (\<lambda>m loc. hm_insert (co_route_id loc) v m) m locs) i =
     (if i \<in> co_route_id ` set locs then Some v else hm_get m i)"
  by (induction locs arbitrary: m) auto

lemma build_backend_counters_get:
  "loc \<in> set (router_locations r) \<Longrightarrow> is_weighted loc \<Longrightarrow>
   hm_get (build_backend_counters r) (co_route_id loc) = Some 0"
  by (auto simp: build_backend_counters_def counters_fold)

lemma build_groups_keys:
  assumes "build_runtime_upstream_groups l now router previous = Inr groups"
  shows "hm_keys groups = hm_keys (cr_upstreams router)"
proof -
  from assms have "list_all2 (\<lambda>c g. fst g = fst c) (cr_upstreams router) groups"
    unfolding build_runtime_upstream_groups_def map_res_Inr_iff
    by (rule list_all2_mono) (auto simp: res_simps split: option.splits)
  then show ?thesis by (induction rule: list_all2_induct) auto
qed

text \<open>
  A snapshot is complete: every route has its plugin chain, with the plugins its specification
  names in their order, every weighted route has its counter, the TLS material of every route is
  loaded, and every configured group exists.
\<close>

definition snapshot_ok :: "('s, 'k, 'm, 'p) runtime_snapshot \<Rightarrow> bool" where
  "snapshot_ok s \<longleftrightarrow>
     (\<forall>loc \<in> set (router_locations (ss_router s)).
        (\<exists>loc' \<in> set (router_locations (ss_router s)). co_route_id loc' = co_route_id loc \<and>
           map_option (map plugin_name) (hm_get (ss_plugin_chains s) (co_route_id loc)) =
             Some (map ps_name (co_plugins loc'))) \<and>
        (is_weighted loc \<longrightarrow> hm_get (ss_backend_counters s) (co_route_id loc) \<noteq> None) \<and>
        (\<forall>k. ca_key loc = Some k \<longrightarrow> k \<in> set (hm_keys (ss_trusted_cas s))) \<and>
        (\<forall>k. identity_key loc = Some k \<longrightarrow> k \<in> set (hm_keys (ss_client_identities s)))) \<and>
     hm_keys (ss_upstream_groups s) = hm_keys (cr_upstreams (ss_router s))"

lemma build_runtime_snapshot_ok:
  assumes "build_runtime_snapshot l now (with_builtin_plugins pl t) version router gen previous = Inr s"
  shows "snapshot_ok s \<and> ss_router s = router \<and> ss_version s = version \<and> ss_generation s = gen"
proof -
  from assms obtain chains groups cas ids where
    cas: "build_runtime_trusted_cas (cl_tls l) router = Inr cas" and
    ids: "build_runtime_client_identities (cl_tls l) router = Inr ids" and
    chains: "build_plugin_chains router (with_builtin_plugins pl t) = Inr chains" and
    groups: "build_runtime_upstream_groups (cl_groups l) now router previous = Inr groups" and
    s: "ss_router s = router" "ss_version s = version" "ss_generation s = gen"
      "ss_plugin_chains s = chains" "ss_upstream_groups s = groups"
      "ss_backend_counters s = build_backend_counters router"
      "ss_trusted_cas s = cas" "ss_client_identities s = ids"
    by (auto simp: build_runtime_snapshot_def res_simps)
  note fold = add_chain_fold [OF chains [unfolded build_plugin_chains_flat]]
  have "\<exists>loc' \<in> set (router_locations router). co_route_id loc' = co_route_id loc \<and>
      map_option (map plugin_name) (hm_get chains (co_route_id loc)) = Some (map ps_name (co_plugins loc'))"
    if "loc \<in> set (router_locations router)" for loc
  proof -
    from fold that obtain c where c: "hm_get chains (co_route_id loc) = Some c" by blast
    with fold obtain loc' where "loc' \<in> set (router_locations router)" "co_route_id loc' = co_route_id loc"
      "build_chain (with_builtin_plugins pl t) (co_plugins loc') = Inr c" by fastforce
    with c build_chain_names show ?thesis by fastforce
  qed
  moreover have "is_weighted loc \<longrightarrow> hm_get (build_backend_counters router) (co_route_id loc) \<noteq> None"
    if "loc \<in> set (router_locations router)" for loc
    using build_backend_counters_get [OF that] by simp
  ultimately show ?thesis
    unfolding snapshot_ok_def s
    using build_groups_keys [OF groups] build_runtime_trusted_cas_complete [OF cas]
      build_runtime_client_identities_complete [OF ids] by blast
qed

section \<open>Reachable states\<close>

definition run_route_chain ::
  "'k plugin_libs \<Rightarrow> instant \<Rightarrow> nat \<Rightarrow> request_ctx \<Rightarrow> ('s, 'k, 'm, 'p) runtime_snapshot \<Rightarrow>
   ('s, 'k, 'm, 'p) runtime_snapshot" where
  "run_route_chain pl now i ctx s =
     (case hm_get (ss_plugin_chains s) i of
        None \<Rightarrow> s
      | Some chain \<Rightarrow>
          s\<lparr>ss_plugin_chains :=
              hm_insert i (snd (snd (run_request_chain pl now chain ctx))) (ss_plugin_chains s)\<rparr>)"

text \<open>
  What changes the runtime state: applying a snapshot, invalidating TLS material, and a request
  whose plugin chain updates plugin state (the rate limiter's buckets).
\<close>

inductive control_step ::
  "('s, 'm, 'p) control_lib \<Rightarrow> 'k plugin_libs \<Rightarrow> ('s, 'k, 'm, 'p) runtime_state \<Rightarrow>
   ('s, 'k, 'm, 'p) runtime_state \<Rightarrow> bool" for l pl where
    apply_step: "control_step l pl s (snd (apply_snapshot l now next s))"
  | tls_step: "control_step l pl s (snd (invalidate_tls_material s))"
  | serve_step: "control_step l pl s (s\<lparr>rt_current := run_route_chain pl now i ctx (rt_current s)\<rparr>)"

definition control_inv :: "'k plugin_libs \<Rightarrow> ('s, 'k, 'm, 'p) runtime_state \<Rightarrow> bool" where
  "control_inv pl s \<longleftrightarrow>
     (\<exists>t. rt_registry s = with_builtin_plugins pl t) \<and>
     restart_fingerprint (ss_router (rt_current s)) = rt_bootstrap_config s \<and>
     rt_geoip s = rf_geoip (rt_bootstrap_config s) \<and>
     snapshot_ok (rt_current s)"

definition control_initial :: "('s, 'm, 'p) control_lib \<Rightarrow> 'k plugin_libs \<Rightarrow> ('s, 'k, 'm, 'p) runtime_state \<Rightarrow> bool" where
  "control_initial l pl s \<longleftrightarrow>
     (\<exists>now t snap. with_registry l now snap (with_builtin_plugins pl t) = Inr s)"

lemma control_initial_inv: "control_initial l pl s \<Longrightarrow> control_inv pl s"
  by (auto simp: control_initial_def with_registry_def res_simps control_inv_def restart_fingerprint_def
      dest!: build_runtime_snapshot_ok)

lemma apply_snapshot_cases:
  obtains r where "apply_snapshot l now next s = (r, s)" "\<not> ap_applied r"
      "ap_active_version r = ss_version (rt_current s)" "ap_active_generation r = ss_generation (rt_current s)"
  | snap r where "apply_snapshot l now next s = (r, s\<lparr>rt_current := snap\<rparr>)" "ap_applied r"
      "\<not> ap_restart_required r" "ap_active_version r = ss_version snap" "ap_active_generation r = ss_generation snap"
      "restart_fingerprint (cfg_router next) = rt_bootstrap_config s"
      "build_runtime_snapshot l now (rt_registry s) (cfg_version next) (cfg_router next)
         (wrap_add64 (ss_generation (rt_current s)) 1) (Some (rt_current s)) = Inr snap"
proof (cases "apply_snapshot l now next s")
  case (Pair r s')
  note unf = apply_snapshot_def not_applied_def
  show ?thesis
  proof (cases "rt_apply_lock_poisoned s \<or> restart_fingerprint (cfg_router next) \<noteq> rt_bootstrap_config s")
    case True
    with Pair have "s' = s" "\<not> ap_applied r" "ap_active_version r = ss_version (rt_current s)"
      "ap_active_generation r = ss_generation (rt_current s)" by (auto simp: unf split: if_splits)
    with Pair show ?thesis by (intro that(1)) auto
  next
    case False
    show ?thesis
    proof (cases "build_runtime_snapshot l now (rt_registry s) (cfg_version next) (cfg_router next)
        (wrap_add64 (ss_generation (rt_current s)) 1) (Some (rt_current s))")
      case (Inl e)
      with False Pair have "s' = s" "\<not> ap_applied r" "ap_active_version r = ss_version (rt_current s)"
        "ap_active_generation r = ss_generation (rt_current s)" by (auto simp: unf)
      with Pair show ?thesis by (intro that(1)) auto
    next
      case (Inr snap)
      with False Pair have "s' = s\<lparr>rt_current := snap\<rparr>" "ap_applied r" "\<not> ap_restart_required r"
        "ap_active_version r = ss_version snap" "ap_active_generation r = ss_generation snap"
        by (auto simp: unf)
      with Pair Inr False show ?thesis by (intro that(2) [of r snap]) auto
    qed
  qed
qed

lemma run_route_chain_names:
  "map_option (map plugin_name) (hm_get (ss_plugin_chains (run_route_chain pl now i ctx s)) j) =
     map_option (map plugin_name) (hm_get (ss_plugin_chains s) j)"
  by (auto simp: run_route_chain_def run_request_chain_names split: option.split)

lemma run_route_chain_same [simp]:
  "ss_router (run_route_chain pl now i ctx s) = ss_router s"
  "ss_backend_counters (run_route_chain pl now i ctx s) = ss_backend_counters s"
  "ss_upstream_groups (run_route_chain pl now i ctx s) = ss_upstream_groups s"
  "ss_trusted_cas (run_route_chain pl now i ctx s) = ss_trusted_cas s"
  "ss_client_identities (run_route_chain pl now i ctx s) = ss_client_identities s"
  by (simp_all add: run_route_chain_def split: option.split)

lemma run_route_chain_ok: "snapshot_ok s \<Longrightarrow> snapshot_ok (run_route_chain pl now i ctx s)"
  by (unfold snapshot_ok_def run_route_chain_names run_route_chain_same)

lemma control_step_bootstrap: "control_step l pl s s' \<Longrightarrow> rt_bootstrap_config s' = rt_bootstrap_config s"
proof (induction rule: control_step.induct)
  case (apply_step s now "next")
  then show ?case by (cases rule: apply_snapshot_cases [of l now "next" s]) auto
qed (auto simp: invalidate_tls_material_def Let_def)

lemma control_step_inv:
  "control_step l pl s s' \<Longrightarrow> control_inv pl s \<Longrightarrow> control_inv pl s'"
proof (induction rule: control_step.induct)
  case (apply_step s now "next")
  then obtain t where t: "rt_registry s = with_builtin_plugins pl t" by (auto simp: control_inv_def)
  show ?case
  proof (cases rule: apply_snapshot_cases [of l now "next" s])
    case (1 r)
    with apply_step show ?thesis by simp
  next
    case (2 snap r)
    from build_runtime_snapshot_ok [OF 2(7) [unfolded t]] 2 apply_step t show ?thesis
      by (auto simp: control_inv_def)
  qed
next
  case (tls_step s)
  then show ?case by (simp add: control_inv_def invalidate_tls_material_def Let_def)
next
  case (serve_step s now i ctx)
  then show ?case by (simp add: control_inv_def run_route_chain_ok)
qed

interpretation control: invariant_of "control_initial l pl" "control_step l pl" "control_inv pl" for l pl
  by unfold_locales (blast intro: control_initial_inv control_step_inv)+

section \<open>Claims\<close>

text \<open>A process with one route and no plugins, for examples.\<close>

definition sample_libs :: "unit plugin_libs" where
  "sample_libs =
     \<lparr>pl_ext = plain_ext, pl_headers_config = (\<lambda>_. None), pl_parse_net = (\<lambda>_. None),
      pl_net_of_ip = (\<lambda>_. IpNet []), pl_basic = sample_basic_lib, pl_rate_config = (\<lambda>_. None),
      pl_cors_config = (\<lambda>_. None), pl_authz = sample_authz_lib, pl_jwt = sample_jwt_lib\<rparr>"

definition sample_control_lib :: "(backend list, unit, unit) control_lib" where
  "sample_control_lib =
     \<lparr>cl_groups = sample_group_lib, cl_validate_tls = (\<lambda>_. Inr ()), cl_tls = \<lparr>tl_read = (\<lambda>_. None), tl_certs = (\<lambda>_. None), tl_key = (\<lambda>_. None)\<rparr>,
      cl_scp_new = (\<lambda>_ _. Inr ()), cl_scp_matches = (\<lambda>_ _ _. True)\<rparr>"

definition sample_loc :: compiled_location where
  "sample_loc = plain_location 1 (CmPrefix ''/'') (DirectResponse 204)"

definition start_router :: compiled_router where
  "start_router = compiled_router_default\<lparr>cr_listeners :=
     [(ListenKey (V4 0) 80 False, \<lparr>vh_named = [], vh_default = Some \<lparr>sr_locations = [sample_loc]\<rparr>\<rparr>)]\<rparr>"

definition sample_snapshot :: "nat \<Rightarrow> (backend list, unit, unit, unit) runtime_snapshot" where
  "sample_snapshot gen =
     \<lparr>ss_backend_counters = [], ss_scp_profiles = [], ss_generation = gen, ss_version = ''v'',
      ss_router = start_router, ss_plugin_chains = [(1, [])], ss_upstream_groups = [],
      ss_trusted_cas = [], ss_client_identities = []\<rparr>"

lemma sample_build:
  "build_runtime_snapshot sample_control_lib now (with_builtin_plugins sample_libs 0) ''v'' start_router gen previous =
     Inr (sample_snapshot gen)"
proof -
  have "router_locations start_router = [sample_loc]"
    by (simp add: router_locations_def start_router_def vhost_servers_def)
  moreover have "\<not> is_weighted sample_loc" "co_plugins sample_loc = []" "co_route_id sample_loc = 1"
    by (simp_all add: is_weighted_def sample_loc_def plain_location_def)
  moreover have "cr_upstreams start_router = []" "cr_scp_profiles start_router = []"
    by (simp_all add: start_router_def compiled_router_default_def)
  moreover have "ca_key sample_loc = None" "identity_key sample_loc = None"
    by (simp_all add: ca_key_def identity_key_def sample_loc_def plain_location_def upstream_ssl_default_def)
  ultimately show ?thesis
    by (simp add: build_runtime_snapshot_def build_plugin_chains_flat build_runtime_trusted_cas_flat
        build_runtime_client_identities_flat load_once_def add_chain_def build_chain_def
        build_runtime_upstream_groups_def build_scp_profiles_def build_backend_counters_def
        sample_control_lib_def sample_snapshot_def map_err_def)
qed

definition sample_state :: "(backend list, unit, unit, unit) runtime_state" where
  "sample_state =
     \<lparr>rt_current = sample_snapshot 1, rt_geoip = None, rt_apply_lock_poisoned = False,
      rt_bootstrap_config = restart_fingerprint start_router,
      rt_registry = with_builtin_plugins sample_libs 0, rt_tls_material_generation = 1\<rparr>"

lemma sample_start:
  "with_registry sample_control_lib 0 (config_snapshot_new ''v'' start_router) (with_builtin_plugins sample_libs 0) =
     Inr sample_state"
proof -
  have "cr_geoip start_router = None" by (simp add: start_router_def compiled_router_default_def)
  then show ?thesis by (simp add: with_registry_def config_snapshot_new_def sample_build sample_state_def)
qed

text \<open>
  C4. Applying a configuration is all or nothing, and the answer says what is active. Either the
  state is unchanged, or the new router is active under its version with the next generation and
  was built without touching what needs a restart; a configuration whose listeners or transport
  settings differ from those at start is refused with the restart flag.
\<close>

theorem apply_snapshot_atomic:
  assumes "apply_snapshot l now next s = (r, s')"
    and "\<exists>t. rt_registry s = with_builtin_plugins pl t"
  shows "ap_active_version r = ss_version (rt_current s') \<and>
    ap_active_generation r = ss_generation (rt_current s') \<and>
    (\<not> ap_applied r \<longrightarrow> s' = s) \<and>
    (ap_applied r \<longrightarrow> ss_router (rt_current s') = cfg_router next \<and>
       ss_version (rt_current s') = cfg_version next \<and>
       ss_generation (rt_current s') = wrap_add64 (ss_generation (rt_current s)) 1 \<and>
       rt_bootstrap_config s' = rt_bootstrap_config s) \<and>
    (restart_fingerprint (cfg_router next) \<noteq> rt_bootstrap_config s \<longrightarrow> \<not> ap_applied r \<and>
       (rt_apply_lock_poisoned s \<or> ap_restart_required r))"
proof -
  from assms(2) obtain t where t: "rt_registry s = with_builtin_plugins pl t" by blast
  have restart: "restart_fingerprint (cfg_router next) \<noteq> rt_bootstrap_config s \<longrightarrow>
      rt_apply_lock_poisoned s \<or> ap_restart_required r"
    using assms(1) by (auto simp: apply_snapshot_def not_applied_def split: if_splits)
  show ?thesis
  proof (cases rule: apply_snapshot_cases [of l now "next" s])
    case (1 r')
    with assms(1) restart show ?thesis by auto
  next
    case (2 snap r')
    from build_runtime_snapshot_ok [OF 2(7) [unfolded t]] 2 assms(1) show ?thesis by auto
  qed
qed

theorem apply_snapshot_atomic_witness:
  "\<exists>r s'. apply_snapshot sample_control_lib 0 (config_snapshot_new ''v'' start_router) sample_state = (r, s') \<and>
     ap_applied r \<and> ss_generation (rt_current s') = 2"
proof -
  obtain r s' where r: "apply_snapshot sample_control_lib 0 (config_snapshot_new ''v'' start_router) sample_state = (r, s')"
    by (cases "apply_snapshot sample_control_lib 0 (config_snapshot_new ''v'' start_router) sample_state")
  have reg: "\<exists>t. rt_registry sample_state = with_builtin_plugins sample_libs t"
    by (auto simp: sample_state_def)
  have applied: "ap_applied r"
    using r by (auto simp: apply_snapshot_def config_snapshot_new_def sample_state_def sample_build)
  have gen: "ss_generation (rt_current sample_state) = 1"
    by (simp add: sample_state_def sample_snapshot_def)
  have "wrap_add64 1 1 = 2" by (simp add: wrap_add64_def)
  with apply_snapshot_atomic [OF r reg] applied gen r show ?thesis by auto
qed

text \<open>
  C3. The active snapshot is always complete. However the process was started, and after any
  sequence of applied and rejected configurations, TLS invalidations and requests: every route
  finds a plugin chain made of the plugins its specification names, in order; every weighted
  route finds its counter, the certificates and identities a route names are loaded, and every
  configured upstream group exists, so the internal errors for missing ones cannot occur; and the listeners and transport settings are those of the start.
\<close>

theorem control_snapshot_complete:
  assumes "with_registry l now snap (with_builtin_plugins pl t) = Inr s0"
    and "(control_step l pl)\<^sup>*\<^sup>* s0 s"
    and "loc \<in> set (router_locations (ss_router (rt_current s)))"
  shows "(\<exists>loc' \<in> set (router_locations (ss_router (rt_current s))). co_route_id loc' = co_route_id loc \<and>
      map plugin_name (plugin_chain (rt_current s) (co_route_id loc)) = map ps_name (co_plugins loc')) \<and>
    (is_weighted loc \<longrightarrow> hm_get (ss_backend_counters (rt_current s)) (co_route_id loc) \<noteq> None) \<and>
    (\<forall>k. ca_key loc = Some k \<longrightarrow> k \<in> set (hm_keys (ss_trusted_cas (rt_current s)))) \<and>
    (\<forall>k. identity_key loc = Some k \<longrightarrow> k \<in> set (hm_keys (ss_client_identities (rt_current s)))) \<and>
    hm_keys (ss_upstream_groups (rt_current s)) = hm_keys (cr_upstreams (ss_router (rt_current s))) \<and>
    restart_fingerprint (ss_router (rt_current s)) = restart_fingerprint (cfg_router snap)"
proof -
  have i: "control_initial l pl s0" using assms(1) by (auto simp: control_initial_def)
  have inv: "control_inv pl s" by (rule control.inv_reachable [OF i assms(2)])
  have "rt_bootstrap_config s = rt_bootstrap_config s0"
    using assms(2)
  proof (induction rule: rtranclp_induct)
    case (step y z)
    then show ?case using control_step_bootstrap [OF step(2)] by simp
  qed simp
  moreover have "rt_bootstrap_config s0 = restart_fingerprint (cfg_router snap)"
    using assms(1) by (auto simp: with_registry_def res_simps)
  ultimately have boot: "restart_fingerprint (ss_router (rt_current s)) = restart_fingerprint (cfg_router snap)"
    using inv by (simp add: control_inv_def)
  have ok: "snapshot_ok (rt_current s)" using inv by (simp add: control_inv_def)
  then obtain loc' where loc': "loc' \<in> set (router_locations (ss_router (rt_current s)))"
    "co_route_id loc' = co_route_id loc"
    "map_option (map plugin_name) (hm_get (ss_plugin_chains (rt_current s)) (co_route_id loc)) =
      Some (map ps_name (co_plugins loc'))"
    using assms(3) unfolding snapshot_ok_def by blast
  then have "map plugin_name (plugin_chain (rt_current s) (co_route_id loc)) = map ps_name (co_plugins loc')"
    by (auto simp: plugin_chain_def)
  with loc' boot ok assms(3) show ?thesis unfolding snapshot_ok_def by blast
qed

theorem control_snapshot_complete_witness:
  "\<exists>loc \<in> set (router_locations (ss_router (rt_current sample_state))).
     \<exists>loc' \<in> set (router_locations (ss_router (rt_current sample_state))).
       map plugin_name (plugin_chain (rt_current sample_state) (co_route_id loc)) = map ps_name (co_plugins loc')"
proof -
  have loc: "sample_loc \<in> set (router_locations (ss_router (rt_current sample_state)))"
    by (simp add: sample_state_def sample_snapshot_def start_router_def router_locations_def vhost_servers_def)
  from control_snapshot_complete [OF sample_start rtranclp.rtrancl_refl loc] loc show ?thesis by blast
qed

end
