(* ===== verification/Http_Routes.thy ===== *)
theory Http_Routes
  imports Types
begin

text \<open>
  HTTP route rules (\<^verbatim>\<open>crates/ngxora-runtime/src/upstreams/http_routes.rs\<close>): host name scores, path
  prefixes by whole segments, request matching and its precedence, URI rewriting, redirects and
  the variables of \<^verbatim>\<open>return\<close>.
\<close>

record request =
  rq_method :: string
  rq_uri :: uri
  rq_headers :: header_map

section \<open>Host names\<close>

definition normalize_hostname :: "string \<Rightarrow> string" where
  "normalize_hostname host = to_ascii_lowercase (trim_end_matches CHR ''.'' host)"

definition hostname_score :: "string \<Rightarrow> string \<Rightarrow> (bool \<times> nat) option" where
  "hostname_score pattern host =
     (if pattern = host then Some (True, length pattern)
      else
        (case strip_prefix ''*'' pattern of
           None \<Rightarrow> None
         | Some suffix \<Rightarrow>
             if starts_with ''.'' suffix \<and> length suffix < length host \<and> ends_with suffix host
             then Some (False, length suffix) else None))"

definition valid_label :: "string \<Rightarrow> bool" where
  "valid_label label \<longleftrightarrow>
     \<not> (label = [] \<or> 63 < length label \<or> starts_with ''-'' label \<or> ends_with ''-'' label \<or>
        \<not> list_all (\<lambda>b. is_ascii_alphanumeric b \<or> b = CHR ''-'') label)"

definition validate_hostname :: "string \<Rightarrow> (string, unit) result" where
  "validate_hostname host =
     reject (host = [] \<or> 253 < length host \<or>
             list_ex (\<lambda>label. \<not> valid_label label) (split_on CHR ''.'' host))
       (''invalid hostname '' @ host)"

section \<open>Matching\<close>

definition prefix_matches :: "string \<Rightarrow> string \<Rightarrow> bool" where
  "prefix_matches prefix path =
     (let p = trim_end_matches CHR ''/'' prefix
      in path = p \<or>
         (case strip_prefix p path of None \<Rightarrow> False | Some tail \<Rightarrow> starts_with ''/'' tail))"

definition validate_path :: "externals \<Rightarrow> string \<Rightarrow> (string, unit) result" where
  "validate_path x path =
     reject (\<not> starts_with ''/'' path \<or> CHR ''?'' \<in> set path \<or> CHR ''#'' \<in> set path \<or>
             contains_str ''//'' path \<or> \<not> ext_path_and_query_ok x path)
       (''invalid HTTP path '' @ path)"

text \<open>\<^verbatim>\<open>retain(|(name, _)| seen.insert(name.clone()))\<close>: the first entry of each name stays.\<close>

fun retain_first :: "'k list \<Rightarrow> ('k \<times> 'v) list \<Rightarrow> ('k \<times> 'v) list" where
  "retain_first seen [] = []"
| "retain_first seen ((k, v) # r) =
     (if k \<in> set seen then retain_first seen r else (k, v) # retain_first (k # seen) r)"

definition compile_header :: "externals \<Rightarrow> string \<times> string \<Rightarrow> (string, string \<times> string) result" where
  "compile_header x nv =
     and_then (ok_or ''invalid HTTP match header name'' (ext_header_name x (fst nv))) (\<lambda>name.
       and_then (reject (\<not> ext_header_value_ok x (snd nv)) ''invalid HTTP match header value'') (\<lambda>_.
         Inr (name, snd nv)))"

definition compile_match :: "externals \<Rightarrow> http_match \<Rightarrow> (string, http_match) result" where
  "compile_match x input =
     and_then (validate_path x (case hm_path input of ExactPath p \<Rightarrow> p | PathPrefix p \<Rightarrow> p)) (\<lambda>_.
     and_then (reject (case hm_method input of None \<Rightarrow> False | Some m \<Rightarrow> \<not> ext_method_ok x m)
         ''invalid HTTP match method'') (\<lambda>_.
     and_then (map_res (compile_header x) (hm_headers input)) (\<lambda>headers.
       Inr \<lparr>hm_path =
             (case hm_path input of
                ExactPath p \<Rightarrow> ExactPath p
              | PathPrefix p \<Rightarrow>
                  PathPrefix (let q = trim_end_matches CHR ''/'' p in if q = [] then ''/'' else q)),
            hm_method = hm_method input,
            hm_headers = retain_first [] headers,
            hm_query_params = retain_first [] (hm_query_params input)\<rparr>)))"

definition match_score :: "http_match \<Rightarrow> bool \<times> nat \<times> bool \<times> nat \<times> nat" where
  "match_score m =
     (case hm_path m of
        ExactPath p \<Rightarrow>
          (True, length p, hm_method m \<noteq> None, length (hm_headers m), length (hm_query_params m))
      | PathPrefix p \<Rightarrow>
          (False, length p, hm_method m \<noteq> None, length (hm_headers m), length (hm_query_params m)))"

definition header_cond :: "request \<Rightarrow> string \<times> string \<Rightarrow> bool" where
  "header_cond r nv \<longleftrightarrow> hdr_get (rq_headers r) (fst nv) = Some (snd nv)"

definition query_cond :: "externals \<Rightarrow> request \<Rightarrow> string \<times> string \<Rightarrow> bool" where
  "query_cond x r nv \<longleftrightarrow>
     (let pairs = ext_form_parse x (case u_query (rq_uri r) of None \<Rightarrow> [] | Some q \<Rightarrow> q)
      in case find (\<lambda>(key, _). key = fst nv) pairs of
           None \<Rightarrow> False
         | Some (_, actual) \<Rightarrow> actual = snd nv)"

definition http_matches :: "externals \<Rightarrow> http_match \<Rightarrow> request \<Rightarrow> bool" where
  "http_matches x m r \<longleftrightarrow>
     (case hm_path m of
        ExactPath p \<Rightarrow> p = u_path (rq_uri r)
      | PathPrefix p \<Rightarrow> prefix_matches p (u_path (rq_uri r)))
     \<and> (case hm_method m of None \<Rightarrow> True | Some method \<Rightarrow> method = rq_method r)
     \<and> list_all (header_cond r) (hm_headers m)
     \<and> list_all (query_cond x r) (hm_query_params m)"

fun compiled_matcher_of :: "externals \<Rightarrow> location_matcher \<Rightarrow> (string, compiled_matcher) result" where
  "compiled_matcher_of x (LmHttp m) = and_then (compile_match x m) (\<lambda>m'. Inr (CmHttp m'))"
| "compiled_matcher_of x (LmPrefix p) = Inr (CmPrefix p)"
| "compiled_matcher_of x (LmExact p) = Inr (CmExact p)"
| "compiled_matcher_of x (LmRegex ci pattern) = compiled_regex_new x pattern ci"
| "compiled_matcher_of x (LmPreferPrefix p) = Inr (CmPreferPrefix p)"
| "compiled_matcher_of x (LmNamed n) = Inr (CmNamed n)"

section \<open>Rewriting\<close>

definition validate_modifier ::
  "externals \<Rightarrow> path_modifier option \<Rightarrow> compiled_matcher \<Rightarrow> (string, unit) result" where
  "validate_modifier x modifier matcher =
     (case modifier of
        None \<Rightarrow> Inr ()
      | Some (ReplaceFullPath p) \<Rightarrow> validate_path x p
      | Some (ReplacePrefixMatch p) \<Rightarrow>
          (case matcher of
             CmHttp m \<Rightarrow>
               (case hm_path m of
                  PathPrefix _ \<Rightarrow> if p \<noteq> [] then validate_path x p else Inr ()
                | ExactPath _ \<Rightarrow> Inl ''ReplacePrefixMatch requires an HTTP PathPrefix match'')
           | _ \<Rightarrow> Inl ''ReplacePrefixMatch requires an HTTP PathPrefix match''))"

definition rewritten_path ::
  "string \<Rightarrow> path_modifier option \<Rightarrow> string option \<Rightarrow> (string, string) result" where
  "rewritten_path path modifier prefix =
     (case modifier of
        None \<Rightarrow> Inr path
      | Some (ReplaceFullPath p) \<Rightarrow> Inr p
      | Some (ReplacePrefixMatch replacement) \<Rightarrow>
          and_then (ok_or ''missing matched path prefix'' prefix) (\<lambda>pre.
            and_then (ok_or ''path does not match rewrite prefix''
                (strip_prefix (trim_end_matches CHR ''/'' pre) path)) (\<lambda>suffix.
              let p = (if suffix = [] then replacement
                       else trim_end_matches CHR ''/'' replacement @ suffix)
              in Inr (if p = [] then ''/'' else p))))"

definition rewrite_uri ::
  "externals \<Rightarrow> uri \<Rightarrow> path_modifier option \<Rightarrow> string option \<Rightarrow> (string, uri) result" where
  "rewrite_uri x u modifier prefix =
     and_then (rewritten_path (u_path u) modifier prefix) (\<lambda>path.
       ok_or ''invalid rewritten URI''
         (ext_parse_uri x
           (case u_query u of Some q \<Rightarrow> path @ ''?'' @ q | None \<Rightarrow> path)))"

definition redirect_location ::
  "externals \<Rightarrow> http_redirect \<Rightarrow> uri \<Rightarrow> string \<Rightarrow> string \<Rightarrow> nat \<Rightarrow> string option \<Rightarrow> (string, string) result"
where
  "redirect_location x config u host scheme listener_port prefix =
     (let scheme' = (case hr_scheme config of Some s \<Rightarrow> s | None \<Rightarrow> scheme);
          port = (case hr_port config of
                    Some p \<Rightarrow> p
                  | None \<Rightarrow>
                      if hr_scheme config = Some ''https'' then 443
                      else if hr_scheme config = Some ''http'' then 80
                      else listener_port);
          host' = (case hr_hostname config of Some h \<Rightarrow> h | None \<Rightarrow> host);
          host'' = (if CHR '':'' \<in> set host' then ''['' @ host' @ '']'' else host');
          authority = (if (scheme' = ''http'' \<and> port = 80) \<or> (scheme' = ''https'' \<and> port = 443)
                       then host'' else host'' @ '':'' @ show_nat port)
      in and_then (rewrite_uri x u (hr_path config) prefix) (\<lambda>u'.
           Inr (scheme' @ ''://'' @ authority @ u_text u')))"

section \<open>Variables of return\<close>

definition var_byte :: "char \<Rightarrow> bool" where
  "var_byte c \<longleftrightarrow> is_ascii_alphanumeric c \<or> c = CHR ''_''"

lemma split_once_length: "split_once c s = Some (a, b) \<Longrightarrow> length b < length s"
  by (induction s arbitrary: a) (auto split: if_splits)

lemma strip_prefix_length: "strip_prefix p s = Some t \<Longrightarrow> length t \<le> length s"
  by (auto simp: strip_prefix_Some_iff)

function expand_loop :: "string \<Rightarrow> string \<Rightarrow> string \<Rightarrow> string \<Rightarrow> string \<Rightarrow> (string, string) result" where
  "expand_loop host u scheme out rest =
     (case split_once CHR ''$'' rest of
        None \<Rightarrow> Inr (out @ rest)
      | Some (before, rest1) \<Rightarrow>
          (case strip_prefix ''$'' rest1 of
             Some tail \<Rightarrow> expand_loop host u scheme (out @ before @ ''$'') tail
           | None \<Rightarrow>
               let name = takeWhile var_byte rest1;
                   tail = dropWhile var_byte rest1
               in if name = ''host'' then expand_loop host u scheme (out @ before @ host) tail
                  else if name = ''request_uri'' then expand_loop host u scheme (out @ before @ u) tail
                  else if name = ''scheme'' then expand_loop host u scheme (out @ before @ scheme) tail
                  else Inl (''unsupported return variable $'' @ name)))"
  by pat_completeness auto
termination
  by (relation "measure (\<lambda>(h, u, s, out, rest). length rest)")
    (auto dest!: split_once_length strip_prefix_length
      intro: le_less_trans [OF length_dropWhile_le])

declare expand_loop.simps [simp del]

definition expand_return :: "string \<Rightarrow> string \<Rightarrow> string \<Rightarrow> string \<Rightarrow> (string, string) result" where
  "expand_return template host u scheme = expand_loop host u scheme [] template"

section \<open>Properties\<close>

subsection \<open>Host name scores\<close>

lemma hostname_score_cases:
  assumes "hostname_score p h = Some s"
  obtains (exact) "p = h" "s = (True, length p)"
    | (wild) suffix where "p = CHR ''*'' # CHR ''.'' # suffix" "p \<noteq> h"
        "s = (False, Suc (length suffix))" "\<exists>t. t \<noteq> [] \<and> h = t @ CHR ''.'' # suffix"
proof (cases "p = h")
  case True
  with assms that(1) show ?thesis by (simp add: hostname_score_def)
next
  case False
  with assms obtain sfx where p: "p = CHR ''*'' # sfx" and st: "starts_with ''.'' sfx"
    and len: "length sfx < length h" and en: "ends_with sfx h" and s: "s = (False, length sfx)"
    by (auto simp: hostname_score_def strip_prefix_Some_iff split: option.splits if_splits)
  from st obtain u where u: "sfx = CHR ''.'' # u" by (auto simp: str_simps)
  from en obtain t where t: "h = t @ sfx" by (auto simp: str_simps)
  with len have "t \<noteq> []" by auto
  with t u p s False that(2) show ?thesis by auto
qed

text \<open>
  Two different patterns never score equally on one host: an exact match is unique, and a
  wildcard is determined by the length of its suffix. The choice of the best virtual host does
  therefore not depend on the iteration order of the hash map.
\<close>

lemma hostname_score_inject:
  assumes "hostname_score p h = Some s" and "hostname_score q h = Some s"
  shows "p = q"
  using assms(1)
proof (cases rule: hostname_score_cases)
  case exact
  with assms(2) show ?thesis by (auto elim: hostname_score_cases)
next
  case (wild sp)
  from assms(2) wild(3) obtain sq where q: "q = CHR ''*'' # CHR ''.'' # sq"
    and lq: "length sq = length sp" and hq: "\<exists>t. t \<noteq> [] \<and> h = t @ CHR ''.'' # sq"
    by (auto elim: hostname_score_cases)
  from wild(4) hq lq have "sq = sp" by (auto simp: append_eq_append_conv)
  with q wild(1) show ?thesis by simp
qed

lemma hostname_score_wildcard_pos: "hostname_score p h = Some (False, n) \<Longrightarrow> 0 < n"
  by (auto elim: hostname_score_cases)

lemma hostname_score_exact: "hostname_score p p = Some (True, length p)"
  by (simp add: hostname_score_def)

subsection \<open>Prefixes are compared by whole segments\<close>

lemma join_split_on: "join_with [c] (split_on c s) = s"
proof (induction s)
  case Nil
  then show ?case by simp
next
  case (Cons x s)
  show ?case
  proof (cases "split_on c s")
    case Nil
    then show ?thesis by simp
  next
    case (Cons p ps)
    with Cons.IH show ?thesis by (cases ps) auto
  qed
qed

lemma join_with_append:
  "xs \<noteq> [] \<Longrightarrow> ys \<noteq> [] \<Longrightarrow> join_with sep (xs @ ys) = join_with sep xs @ sep @ join_with sep ys"
proof (induction sep xs rule: join_with.induct)
  case (2 sep x)
  then show ?case by (cases ys) auto
qed auto

lemma segment_prefix:
  "s = p \<or> (\<exists>t. s = p @ c # t) \<longleftrightarrow> starts_with (split_on c p) (split_on c s)"
proof
  assume "s = p \<or> (\<exists>t. s = p @ c # t)"
  then show "starts_with (split_on c p) (split_on c s)"
    by (auto simp: starts_with_iff split_on_append)
next
  assume "starts_with (split_on c p) (split_on c s)"
  then obtain q where q: "split_on c s = split_on c p @ q" by (auto simp: starts_with_iff)
  show "s = p \<or> (\<exists>t. s = p @ c # t)"
  proof (cases "q = []")
    case True
    with q have "join_with [c] (split_on c s) = join_with [c] (split_on c p)" by simp
    then show ?thesis by (simp add: join_split_on)
  next
    case False
    with q have "join_with [c] (split_on c s) =
        join_with [c] (split_on c p) @ [c] @ join_with [c] q"
      by (simp add: join_with_append)
    then show ?thesis by (simp add: join_split_on)
  qed
qed

lemma prefix_matches_iff:
  "prefix_matches prefix path \<longleftrightarrow>
     (let p = trim_end_matches CHR ''/'' prefix in path = p \<or> (\<exists>t. path = p @ CHR ''/'' # t))"
proof -
  have "(case strip_prefix p path of None \<Rightarrow> False | Some tail \<Rightarrow> starts_with ''/'' tail) \<longleftrightarrow>
      (\<exists>t. path = p @ CHR ''/'' # t)" for p
    by (cases "strip_prefix p path") (auto simp: strip_prefix_Some_iff starts_with_iff)
  then show ?thesis by (simp add: prefix_matches_def Let_def)
qed

lemma prefix_matches_trim: "prefix_matches (trim_end_matches CHR ''/'' p) path = prefix_matches p path"
  by (simp add: prefix_matches_iff)

subsection \<open>First occurrences\<close>

lemma retain_first_keys:
  "distinct (map fst (retain_first seen kvs)) \<and> set (map fst (retain_first seen kvs)) \<inter> set seen = {}"
  by (induction seen kvs rule: retain_first.induct) auto

lemma retain_first_lookup:
  "map_of (retain_first seen kvs) k = (if k \<in> set seen then None else map_of kvs k)"
  by (induction seen kvs rule: retain_first.induct) auto

lemma retain_first_id:
  "distinct (map fst kvs) \<Longrightarrow> set (map fst kvs) \<inter> set seen = {} \<Longrightarrow> retain_first seen kvs = kvs"
  by (induction seen kvs rule: retain_first.induct) auto

subsection \<open>Templates of return\<close>

text \<open>
  What a template means: a sequence of literal texts and variables. A literal dollar sign is
  printed doubled, a variable after a single dollar sign, and a variable ends where the next
  byte cannot continue its name.
\<close>

datatype piece = Text string | Var string

definition return_vars :: "string set" where
  "return_vars = {''host'', ''request_uri'', ''scheme''}"

definition escape :: "string \<Rightarrow> string" where
  "escape s = concat (map (\<lambda>c. if c = CHR ''$'' then ''$$'' else [c]) s)"

fun print_piece :: "piece \<Rightarrow> string" where
  "print_piece (Text s) = escape s"
| "print_piece (Var n) = ''$'' @ n"

fun render_piece :: "string \<Rightarrow> string \<Rightarrow> string \<Rightarrow> piece \<Rightarrow> string" where
  "render_piece h u s (Text t) = t"
| "render_piece h u s (Var n) = (if n = ''host'' then h else if n = ''request_uri'' then u else s)"

definition print_pieces :: "piece list \<Rightarrow> string" where
  "print_pieces ps = concat (map print_piece ps)"

definition render_pieces :: "string \<Rightarrow> string \<Rightarrow> string \<Rightarrow> piece list \<Rightarrow> string" where
  "render_pieces h u s ps = concat (map (render_piece h u s) ps)"

fun pieces_ok :: "piece list \<Rightarrow> bool" where
  "pieces_ok [] = True"
| "pieces_ok (Text t # ps) = pieces_ok ps"
| "pieces_ok (Var n # ps) =
     (n \<in> return_vars \<and> (case print_pieces ps of [] \<Rightarrow> True | c # _ \<Rightarrow> \<not> var_byte c) \<and> pieces_ok ps)"

lemma print_pieces_simps [simp]:
  "print_pieces [] = []" "print_pieces (p # ps) = print_piece p @ print_pieces ps"
  by (simp_all add: print_pieces_def)

lemma render_pieces_simps [simp]:
  "render_pieces h u s [] = []"
  "render_pieces h u s (p # ps) = render_piece h u s p @ render_pieces h u s ps"
  by (simp_all add: render_pieces_def)

lemma return_vars_bytes: "n \<in> return_vars \<Longrightarrow> list_all var_byte n"
  by (auto simp: return_vars_def) (simp_all add: var_byte_def is_ascii_alphanumeric_def
      is_ascii_lower_def is_ascii_upper_def is_ascii_digit_def byte_def)

lemma expand_loop_Nil: "expand_loop h u s out [] = Inr out"
  by (subst expand_loop.simps) simp

lemma expand_loop_char:
  "c \<noteq> CHR ''$'' \<Longrightarrow> expand_loop h u s out (c # r) = expand_loop h u s (out @ [c]) r"
  by (subst (1 2) expand_loop.simps) (simp split: option.splits add: Let_def)

lemma expand_loop_dollar:
  "expand_loop h u s out (CHR ''$'' # CHR ''$'' # r) = expand_loop h u s (out @ ''$'') r"
  by (subst expand_loop.simps) simp

lemma expand_loop_escape:
  "expand_loop h u s out (escape t @ r) = expand_loop h u s (out @ t) r"
  by (induction t arbitrary: out) (auto simp: escape_def expand_loop_char expand_loop_dollar)

lemma takeWhile_name:
  "list_all P n \<Longrightarrow> (case r of [] \<Rightarrow> True | c # _ \<Rightarrow> \<not> P c) \<Longrightarrow>
   takeWhile P (n @ r) = n \<and> dropWhile P (n @ r) = r"
  by (induction n) (auto split: list.splits)

lemma var_byte_not_dollar: "\<not> var_byte (CHR ''$'')"
  by (simp add: var_byte_def is_ascii_alphanumeric_def is_ascii_lower_def is_ascii_upper_def
      is_ascii_digit_def byte_def)

lemma expand_loop_var:
  assumes "n \<in> return_vars" and "case r of [] \<Rightarrow> True | c # _ \<Rightarrow> \<not> var_byte c"
  shows "expand_loop h u s out (CHR ''$'' # n @ r) = expand_loop h u s (out @ render_piece h u s (Var n)) r"
proof -
  from assms(1) have "n \<noteq> []" and "hd n \<noteq> CHR ''$''" by (auto simp: return_vars_def)
  then have "strip_prefix ''$'' (n @ r) = None" by (cases n) auto
  moreover from takeWhile_name [OF return_vars_bytes [OF assms(1)] assms(2)]
  have "takeWhile var_byte (n @ r) = n" "dropWhile var_byte (n @ r) = r" by auto
  ultimately show ?thesis
    using assms(1) by (subst expand_loop.simps) (auto simp: return_vars_def)
qed

lemma expand_loop_print:
  "pieces_ok ps \<Longrightarrow> expand_loop h u s out (print_pieces ps) = Inr (out @ render_pieces h u s ps)"
  by (induction ps arbitrary: out rule: pieces_ok.induct)
    (auto simp: expand_loop_Nil expand_loop_escape expand_loop_var simp del: render_piece.simps(2))

lemma expand_loop_name:
  assumes "strip_prefix ''$'' r = None" and "expand_loop h u s out (CHR ''$'' # r) = Inr t"
  shows "takeWhile var_byte r \<in> return_vars"
    "expand_loop h u s (out @ render_piece h u s (Var (takeWhile var_byte r))) (dropWhile var_byte r) = Inr t"
  using assms
  by (auto simp: expand_loop.simps [of h u s out "CHR ''$'' # r"] Let_def return_vars_def
      split: if_splits)

lemma dropWhile_boundary: "case dropWhile P s of [] \<Rightarrow> True | c # _ \<Rightarrow> \<not> P c"
  by (induction s) (auto split: list.splits)

lemma expand_loop_pieces:
  "expand_loop h u s out rest = Inr r \<Longrightarrow>
   \<exists>ps. pieces_ok ps \<and> rest = print_pieces ps \<and> r = out @ render_pieces h u s ps"
proof (induction rest arbitrary: out rule: measure_induct_rule [of length])
  case (less rest)
  consider (nil) "rest = []" | (char) c t where "rest = c # t" "c \<noteq> CHR ''$''"
    | (dollar) t where "rest = CHR ''$'' # CHR ''$'' # t"
    | (var) t where "rest = CHR ''$'' # t" "strip_prefix ''$'' t = None"
    by (metis list.exhaust strip_prefix.simps(2,3))
  then show ?case
  proof cases
    case nil
    with less.prems show ?thesis by (intro exI [of _ "[]"]) (simp add: expand_loop_Nil)
  next
    case (char c t)
    with less obtain ps where "pieces_ok ps" "t = print_pieces ps"
      "r = (out @ [c]) @ render_pieces h u s ps"
      by (metis expand_loop_char impossible_Cons not_le)
    with char show ?thesis by (intro exI [of _ "Text [c] # ps"]) (simp add: escape_def)
  next
    case (dollar t)
    from less.IH [of t "out @ ''$''"] less.prems dollar obtain ps where "pieces_ok ps"
      "t = print_pieces ps" "r = (out @ ''$'') @ render_pieces h u s ps"
      by (auto simp: expand_loop_dollar)
    with dollar show ?thesis by (intro exI [of _ "Text ''$'' # ps"]) (simp add: escape_def)
  next
    case (var t)
    let ?n = "takeWhile var_byte t" and ?t = "dropWhile var_byte t"
    from var less.prems have n: "?n \<in> return_vars"
      and step: "expand_loop h u s (out @ render_piece h u s (Var ?n)) ?t = Inr r"
      using expand_loop_name by blast+
    have "length ?t < length rest" using var(1) length_dropWhile_le [of var_byte t] by simp
    with less.IH step obtain ps where ps: "pieces_ok ps" "?t = print_pieces ps"
      "r = (out @ render_piece h u s (Var ?n)) @ render_pieces h u s ps"
      by blast
    have "case print_pieces ps of [] \<Rightarrow> True | c # _ \<Rightarrow> \<not> var_byte c"
      using dropWhile_boundary [of var_byte t] ps(2) by simp
    moreover have "t = ?n @ print_pieces ps" by (metis ps(2) takeWhile_dropWhile_id)
    ultimately show ?thesis
      using ps(1,3) n var(1) by (intro exI [of _ "Var ?n # ps"]) (simp del: render_piece.simps(2))
  qed
qed

lemma expand_return_iff:
  "expand_return t h u s = Inr r \<longleftrightarrow>
     (\<exists>ps. pieces_ok ps \<and> t = print_pieces ps \<and> r = render_pieces h u s ps)"
  using expand_loop_pieces [of h u s "[]" t r] expand_loop_print [of _ h u s "[]"]
  by (auto simp: expand_return_def)

subsection \<open>Rewriting\<close>

lemma validate_path_slash: "validate_path x p = Inr u \<Longrightarrow> \<exists>t. p = CHR ''/'' # t"
  by (auto simp: validate_path_def res_simps starts_with_iff)

lemma trim_end_slash: "trim_end_matches c (c # t) = [] \<or> (\<exists>t'. trim_end_matches c (c # t) = c # t')"
  by (metis append_is_Nil_conv list.sel(1) hd_append2 list.exhaust_sel trim_end_matches_decomp)

lemma rewrite_matched_prefix:
  assumes "prefix_matches p path" and "replacement = [] \<or> (\<exists>t. replacement = CHR ''/'' # t)"
  shows "\<exists>q suffix. rewritten_path path (Some (ReplacePrefixMatch replacement)) (Some p) = Inr q \<and>
    starts_with ''/'' q \<and> path = trim_end_matches CHR ''/'' p @ suffix \<and>
    q = (if suffix \<noteq> [] then trim_end_matches CHR ''/'' replacement @ suffix
         else if replacement \<noteq> [] then replacement else ''/'')"
proof -
  let ?p = "trim_end_matches CHR ''/'' p"
  from assms(1) obtain suffix where path: "path = ?p @ suffix"
    and suffix: "suffix = [] \<or> (\<exists>t. suffix = CHR ''/'' # t)"
    unfolding prefix_matches_iff Let_def by (metis append_Nil2)
  have "trim_end_matches CHR ''/'' replacement = [] \<or>
      (\<exists>t. trim_end_matches CHR ''/'' replacement = CHR ''/'' # t)"
    using assms(2) trim_end_slash trim_end_matches_id [of "[]" "CHR ''/''"] by metis
  then have "starts_with ''/'' (if suffix \<noteq> [] then trim_end_matches CHR ''/'' replacement @ suffix
      else if replacement \<noteq> [] then replacement else ''/'')" (is "starts_with _ ?q")
    using suffix assms(2) unfolding starts_with_iff by auto
  moreover have "rewritten_path path (Some (ReplacePrefixMatch replacement)) (Some p) = Inr ?q"
    using path suffix by (auto simp: rewritten_path_def ok_or_def Let_def)
  ultimately show ?thesis using path by blast
qed

section \<open>Claims\<close>

text \<open>
  A path prefix of an HTTP route matches by whole path segments: the segments of the prefix,
  without its trailing slashes, are an initial part of the segments of the request path.
\<close>

lemma prefix_matches_segments:
  "prefix_matches p path \<longleftrightarrow>
     starts_with (split_on CHR ''/'' (trim_end_matches CHR ''/'' p)) (split_on CHR ''/'' path)"
  by (simp add: prefix_matches_iff Let_def segment_prefix)

text \<open>
  The check of a \<^verbatim>\<open>return\<close> template made when the configuration is compiled, with sample
  values, is enough for every request: a template that expands once is the printed form of a
  sequence of texts and supported variables, and it expands for every host, URI and scheme to
  that sequence with the variables replaced.
\<close>

lemma expand_return_validated:
  assumes "is_ok (expand_return t ''example.com'' ''/'' ''http'')"
  shows "\<exists>ps. pieces_ok ps \<and> t = print_pieces ps \<and>
    (\<forall>host u scheme. expand_return t host u scheme = Inr (render_pieces host u scheme ps))"
  using assms unfolding is_ok_iff expand_return_iff by blast

text \<open>
  C40. Rewriting the path of a request that matched an HTTP rule with a path prefix cannot fail
  once the modifier passed validation: there is a rewritten path and it is absolute. When the
  modifier replaces the prefix, what follows the prefix in the request path is kept.
\<close>

theorem rewritten_path_matched:
  assumes "hm_path m = PathPrefix p" and "http_matches x m r"
    and "validate_modifier x md (CmHttp m) = Inr ()" and "starts_with ''/'' (u_path (rq_uri r))"
  shows "\<exists>q. rewritten_path (u_path (rq_uri r)) md (Some p) = Inr q \<and> starts_with ''/'' q \<and>
    (\<forall>replacement. md = Some (ReplacePrefixMatch replacement) \<longrightarrow>
      (\<exists>suffix. u_path (rq_uri r) = trim_end_matches CHR ''/'' p @ suffix \<and>
        q = (if suffix \<noteq> [] then trim_end_matches CHR ''/'' replacement @ suffix
             else if replacement \<noteq> [] then replacement else ''/'')))"
proof -
  have match: "prefix_matches p (u_path (rq_uri r))"
    using assms(1,2) by (simp add: http_matches_def)
  consider (none) "md = None" | (full) f where "md = Some (ReplaceFullPath f)"
    | (pre) f where "md = Some (ReplacePrefixMatch f)"
    by (cases md; cases "the md") auto
  then show ?thesis
  proof cases
    case none
    with assms(4) show ?thesis by (simp add: rewritten_path_def)
  next
    case (full f)
    with assms(3) have "validate_path x f = Inr ()" by (simp add: validate_modifier_def)
    then obtain t where "f = CHR ''/'' # t" using validate_path_slash by blast
    with full show ?thesis by (simp add: rewritten_path_def starts_with_iff)
  next
    case (pre f)
    with assms(1,3) have "f = [] \<or> validate_path x f = Inr ()"
      by (simp add: validate_modifier_def split: if_splits)
    then have "f = [] \<or> (\<exists>t. f = CHR ''/'' # t)" using validate_path_slash by blast
    from rewrite_matched_prefix [OF match this] pre show ?thesis by blast
  qed
qed

theorem rewritten_path_matched_witness:
  "\<exists>q. rewritten_path ''/api/v1'' (Some (ReplacePrefixMatch ''/new'')) (Some ''/api'') = Inr q \<and>
    starts_with ''/'' q"
  using rewritten_path_matched [of
      "\<lparr>hm_path = PathPrefix ''/api'', hm_method = None, hm_headers = [], hm_query_params = []\<rparr>"
      "''/api''" plain_ext
      "\<lparr>rq_method = ''GET'', rq_uri = \<lparr>u_text = ''/api/v1'', u_path = ''/api/v1'', u_query = None\<rparr>,
        rq_headers = []\<rparr>" "Some (ReplacePrefixMatch ''/new'')"]
  by (simp add: http_matches_def validate_modifier_def validate_path_def plain_ext_def reject_def
      prefix_matches_def trim_end_matches_def starts_with_def)

end
