(* ===== verification/Choice.thy ===== *)
theory Choice
  imports Prelude
begin

text \<open>
  Choosing the best element of a list by an optional score: the loop that keeps the first best
  element, \<^verbatim>\<open>Iterator::max_by_key\<close>, which keeps the last one, and the stable sort by
  decreasing score. A score that tells elements apart makes all three independent of the order
  of the list, which is how iteration over a hash map becomes deterministic.
\<close>

definition best_step ::
  "('a \<Rightarrow> 's::linorder option) \<Rightarrow> ('s \<times> 'a) option \<Rightarrow> 'a \<Rightarrow> ('s \<times> 'a) option" where
  "best_step score best y =
     (case score y of
        None \<Rightarrow> best
      | Some s \<Rightarrow>
          (case best of
             None \<Rightarrow> Some (s, y)
           | Some (previous, _) \<Rightarrow> if previous < s then Some (s, y) else best))"

definition pick_first :: "('a \<Rightarrow> 's::linorder option) \<Rightarrow> 'a list \<Rightarrow> ('s \<times> 'a) option" where
  "pick_first score xs = foldl (best_step score) None xs"

definition max_step :: "('s::linorder \<times> 'a) option \<Rightarrow> 's \<times> 'a \<Rightarrow> ('s \<times> 'a) option" where
  "max_step best y =
     (case best of None \<Rightarrow> Some y | Some b \<Rightarrow> if fst y < fst b then Some b else Some y)"

text \<open>\<^verbatim>\<open>max_by_key\<close> on pairs whose first component is the key.\<close>

definition max_by_score :: "('s::linorder \<times> 'a) list \<Rightarrow> ('s \<times> 'a) option" where
  "max_by_score xs = foldl max_step None xs"

text \<open>\<^verbatim>\<open>filter_map(|y| score(y).map(|s| (s, y)))\<close>.\<close>

definition scored :: "('a \<Rightarrow> 's option) \<Rightarrow> 'a list \<Rightarrow> ('s \<times> 'a) list" where
  "scored score xs =
     List.map_filter (\<lambda>y. case score y of None \<Rightarrow> None | Some s \<Rightarrow> Some (s, y)) xs"

text \<open>\<^verbatim>\<open>sort_by_key(|(score, _)| Reverse(*score))\<close>, a stable sort.\<close>

definition sort_desc :: "('s::linorder \<times> 'a) list \<Rightarrow> ('s \<times> 'a) list" where
  "sort_desc xs = rev (sort_key fst (rev xs))"

section \<open>The first best element\<close>

definition is_first_best :: "('a \<Rightarrow> 's::linorder option) \<Rightarrow> 'a list \<Rightarrow> 's \<Rightarrow> 'a \<Rightarrow> bool" where
  "is_first_best score xs s y \<longleftrightarrow>
     (\<exists>us vs. xs = us @ y # vs \<and> score y = Some s \<and>
       (\<forall>u \<in> set us. \<forall>t. score u = Some t \<longrightarrow> t < s) \<and>
       (\<forall>v \<in> set vs. \<forall>t. score v = Some t \<longrightarrow> t \<le> s))"

lemma pick_first_snoc [simp]:
  "pick_first score [] = None"
  "pick_first score (xs @ [x]) = best_step score (pick_first score xs) x"
  by (simp_all add: pick_first_def)

lemma pick_first_sound:
  "(pick_first score xs = None \<longrightarrow> (\<forall>x \<in> set xs. score x = None)) \<and>
   (\<forall>s y. pick_first score xs = Some (s, y) \<longrightarrow> is_first_best score xs s y)"
proof (induction xs rule: rev_induct)
  case Nil
  then show ?case by simp
next
  case (snoc x xs)
  show ?case
  proof (cases "score x")
    case None
    then have eq: "pick_first score (xs @ [x]) = pick_first score xs" by (simp add: best_step_def)
    have "is_first_best score (xs @ [x]) s y" if "is_first_best score xs s y" for s y
    proof -
      from that obtain us vs where "xs = us @ y # vs" "score y = Some s"
        "\<forall>u \<in> set us. \<forall>t. score u = Some t \<longrightarrow> t < s" "\<forall>v \<in> set vs. \<forall>t. score v = Some t \<longrightarrow> t \<le> s"
        unfolding is_first_best_def by blast
      with None show ?thesis
        unfolding is_first_best_def by (intro exI [of _ us] exI [of _ "vs @ [x]"]) auto
    qed
    with eq snoc None show ?thesis by auto
  next
    case (Some t)
    show ?thesis
    proof (cases "pick_first score xs")
      case None
      with snoc Some have "is_first_best score (xs @ [x]) t x"
        unfolding is_first_best_def by (intro exI [of _ xs] exI [of _ "[]"]) auto
      with None Some show ?thesis by (simp add: best_step_def)
    next
      case (Some b)
      obtain s y where b: "b = (s, y)" by (cases b)
      with Some snoc obtain us vs where d: "xs = us @ y # vs" "score y = Some s"
        "\<forall>u \<in> set us. \<forall>t. score u = Some t \<longrightarrow> t < s" "\<forall>v \<in> set vs. \<forall>t. score v = Some t \<longrightarrow> t \<le> s"
        unfolding is_first_best_def by blast
      show ?thesis
      proof (cases "s < t")
        case True
        with d have "\<forall>u \<in> set xs. \<forall>r. score u = Some r \<longrightarrow> r < t" by force
        with \<open>score x = Some t\<close> have "is_first_best score (xs @ [x]) t x"
          unfolding is_first_best_def by (intro exI [of _ xs] exI [of _ "[]"]) simp
        with True Some b \<open>score x = Some t\<close> show ?thesis by (simp add: best_step_def)
      next
        case False
        with d \<open>score x = Some t\<close> have "is_first_best score (xs @ [x]) s y"
          unfolding is_first_best_def
          by (intro exI [of _ us] exI [of _ "vs @ [x]"]) auto
        with False Some b \<open>score x = Some t\<close> show ?thesis by (simp add: best_step_def)
      qed
    qed
  qed
qed

lemma pick_first_None_iff: "pick_first score xs = None \<longleftrightarrow> (\<forall>x \<in> set xs. score x = None)"
proof
  assume "\<forall>x \<in> set xs. score x = None"
  then show "pick_first score xs = None"
    by (induction xs rule: rev_induct) (auto simp: best_step_def)
qed (use pick_first_sound [of score xs] in simp)

lemma is_first_best_max: "is_first_best score xs s y \<Longrightarrow> x \<in> set xs \<Longrightarrow> score x = Some t \<Longrightarrow> t \<le> s"
  unfolding is_first_best_def by force

lemma is_first_best_mem: "is_first_best score xs s y \<Longrightarrow> y \<in> set xs \<and> score y = Some s"
  unfolding is_first_best_def by auto

lemma is_first_best_unique:
  assumes "is_first_best score xs s y" and "is_first_best score xs t z"
  shows "s = t \<and> y = z"
proof -
  from assms have st: "s = t"
    by (meson is_first_best_max is_first_best_mem order_antisym)
  obtain us vs where u: "xs = us @ y # vs" "score y = Some s"
    "\<forall>u \<in> set us. \<forall>t. score u = Some t \<longrightarrow> t < s"
    using assms(1) unfolding is_first_best_def by blast
  obtain us' vs' where v: "xs = us' @ z # vs'" "score z = Some s"
    "\<forall>u \<in> set us'. \<forall>t. score u = Some t \<longrightarrow> t < s"
    using assms(2) st unfolding is_first_best_def by blast
  from u v have "y \<notin> set us'" "z \<notin> set us" by auto
  with u(1) v(1) have "y = z"
    by (auto simp: append_eq_append_conv2 append_eq_Cons_conv Cons_eq_append_conv)
  with st show ?thesis by simp
qed

lemma pick_first_SomeD: "pick_first score xs = Some (s, y) \<Longrightarrow> is_first_best score xs s y"
  using pick_first_sound [of score xs] by simp

lemma pick_first_iff: "pick_first score xs = Some (s, y) \<longleftrightarrow> is_first_best score xs s y"
proof (rule iffI [OF pick_first_SomeD])
  assume best: "is_first_best score xs s y"
  from is_first_best_mem [OF this] have "pick_first score xs \<noteq> None"
    by (simp add: pick_first_None_iff) force
  then obtain t z where tz: "pick_first score xs = Some (t, z)" by auto
  from is_first_best_unique [OF best pick_first_SomeD [OF this]] tz
  show "pick_first score xs = Some (s, y)" by simp
qed

section \<open>The greatest key\<close>

lemma max_by_score_snoc [simp]:
  "max_by_score [] = None" "max_by_score (ps @ [p]) = max_step (max_by_score ps) p"
  "max_by_score [p] = Some p"
  by (simp_all add: max_by_score_def max_step_def)

lemma max_by_score_sound:
  "(max_by_score ps = None \<longleftrightarrow> ps = []) \<and>
   (\<forall>p. max_by_score ps = Some p \<longrightarrow> p \<in> set ps \<and> (\<forall>q \<in> set ps. fst q \<le> fst p))"
proof (induction ps rule: rev_induct)
  case Nil
  then show ?case by simp
next
  case (snoc p ps)
  show ?case
  proof (cases "max_by_score ps")
    case None
    with snoc have "ps = []" by blast
    then show ?thesis by simp
  next
    case (Some b)
    with snoc have b: "b \<in> set ps" "\<forall>q \<in> set ps. fst q \<le> fst b" by blast+
    from Some have eq: "max_by_score (ps @ [p]) = Some (if fst p < fst b then b else p)"
      by (simp add: max_step_def)
    show ?thesis
    proof (cases "fst p < fst b")
      case True
      with eq b show ?thesis by simp
    next
      case False
      with b(2) have "\<forall>q \<in> set ps. fst q \<le> fst p" by (meson not_less order_trans)
      with False eq show ?thesis by simp
    qed
  qed
qed

lemma max_by_score_None: "max_by_score ps = None \<longleftrightarrow> ps = []"
  using max_by_score_sound [of ps] by simp

lemma max_by_score_SomeD:
  "max_by_score ps = Some p \<Longrightarrow> p \<in> set ps \<and> (\<forall>q \<in> set ps. fst q \<le> fst p)"
  using max_by_score_sound [of ps] by simp

lemma scored_simps [simp]:
  "scored score [] = []"
  "scored score (x # xs) = (case score x of None \<Rightarrow> [] | Some s \<Rightarrow> [(s, x)]) @ scored score xs"
  by (auto simp: scored_def map_filter_simps split: option.splits)

lemma scored_set: "(s, x) \<in> set (scored score xs) \<longleftrightarrow> x \<in> set xs \<and> score x = Some s"
  by (induction xs) (auto split: option.splits)

lemma mset_scored:
  "mset (scored score xs) =
     image_mset (\<lambda>x. (the (score x), x)) (filter_mset (\<lambda>x. score x \<noteq> None) (mset xs))"
  by (induction xs) (auto split: option.splits)

lemma mset_sort_desc [simp]: "mset (sort_desc ps) = mset ps"
  by (simp add: sort_desc_def)

lemma set_sort_desc [simp]: "set (sort_desc ps) = set ps"
  by (simp add: sort_desc_def)

lemma sort_desc_sorted: "sorted (rev (map fst (sort_desc ps)))"
  by (simp add: sort_desc_def rev_map)

text \<open>Both depend only on the multiset of the pairs when the scores are distinct.\<close>

lemma sort_desc_mset:
  assumes "mset ps = mset qs" and "inj_on fst (set ps)"
  shows "sort_desc ps = sort_desc qs"
proof -
  have "mset (rev ps) = mset (sort_key fst (rev qs))" using assms(1) by simp
  then have "sort_key fst (rev ps) = sort_key fst (rev qs)"
    by (rule sort_key_inj_key_eq) (simp_all add: assms(2))
  then show ?thesis by (simp add: sort_desc_def)
qed

lemma max_by_score_mset:
  assumes "mset ps = mset qs" and "inj_on fst (set ps)"
  shows "max_by_score ps = max_by_score qs"
proof -
  have set_eq: "set ps = set qs" using assms(1) by (rule mset_eq_setD)
  show ?thesis
  proof (cases "max_by_score ps")
    case None
    with set_eq show ?thesis by (simp add: max_by_score_None)
  next
    case (Some p)
    then have "p \<in> set qs" using set_eq max_by_score_SomeD by blast
    then have "max_by_score qs \<noteq> None" by (auto simp: max_by_score_None)
    then obtain q where q: "max_by_score qs = Some q" by blast
    note pq = max_by_score_SomeD [OF Some] max_by_score_SomeD [OF q]
    then have "fst p = fst q" unfolding set_eq by (intro order_antisym) blast+
    moreover from pq have "p \<in> set ps" "q \<in> set ps" unfolding set_eq by blast+
    ultimately have "p = q" using inj_onD [OF assms(2)] by simp
    with Some q show ?thesis by simp
  qed
qed

section \<open>Scores that tell elements apart\<close>

locale unique_score =
  fixes score :: "'a \<Rightarrow> 's::linorder option" and key :: "'a \<Rightarrow> 'k"
  assumes score_key: "score a = Some s \<Longrightarrow> score b = Some s \<Longrightarrow> key a = key b"
begin

lemma scored_distinct: "distinct (map key xs) \<Longrightarrow> distinct (map fst (scored score xs))"
proof (induction xs)
  case Nil
  then show ?case by simp
next
  case (Cons x xs)
  have "s \<notin> fst ` set (scored score xs)" if "score x = Some s" for s
  proof
    assume "s \<in> fst ` set (scored score xs)"
    then obtain y where "y \<in> set xs" "score y = Some s" by (auto simp: scored_set)
    moreover from this(2) that have "key x = key y" by (intro score_key)
    ultimately show False using Cons.prems by auto
  qed
  with Cons show ?case by (auto split: option.splits)
qed

lemma scored_inj: "distinct (map key xs) \<Longrightarrow> inj_on fst (set (scored score xs))"
  using scored_distinct by (auto simp: distinct_map)

lemma mset_scored_perm: "mset xs = mset ys \<Longrightarrow> mset (scored score xs) = mset (scored score ys)"
  by (simp add: mset_scored)

lemma max_by_score_perm:
  "distinct (map key xs) \<Longrightarrow> mset xs = mset ys \<Longrightarrow>
   max_by_score (scored score xs) = max_by_score (scored score ys)"
  by (rule max_by_score_mset [OF mset_scored_perm scored_inj])

end

end
