(* ===== verification/Routing.thy ===== *)
theory Routing
  imports Http_Routes Choice
begin

text \<open>
  Request routing (\<^verbatim>\<open>crates/ngxora-runtime/src/upstreams/routing.rs\<close>): the listener a session was
  accepted on, the authority of the request and its agreement with the TLS server name, the
  virtual host, and the location, by HTTP rules or by the nginx order of locations.
\<close>

section \<open>Sessions\<close>

text \<open>What routing reads of a Pingora session.\<close>

datatype socket_addr = Inet ip_addr nat | UnixSocket

record downstream_tls_info =
  dti_sni :: "string option"

record ssl_digest =
  sd_extension :: "downstream_tls_info option"

record session =
  ss_req :: request
  ss_server_addr :: "socket_addr option"
  ss_client_addr :: "socket_addr option"
  ss_ssl_digest :: "ssl_digest option"

text \<open>Pingora errors: a status for the client, or an internal error.\<close>

datatype proxy_error = HTTPStatus nat string | InternalError string

section \<open>Locations of one server\<close>

text \<open>
  The first loop of \<^verbatim>\<open>select_route_target\<close>: \<^const>\<open>Inl\<close> is the early return of an exact match,
  \<^const>\<open>Inr\<close> the best prefix and the best preferred prefix with their lengths.
\<close>

type_synonym best_prefix = "(compiled_location \<times> nat) option"

definition longer_than :: "best_prefix \<Rightarrow> nat \<Rightarrow> bool" where
  "longer_than best n \<longleftrightarrow> (case best of None \<Rightarrow> True | Some (_, len) \<Rightarrow> len < n)"

fun scan_locations ::
  "string \<Rightarrow> best_prefix \<Rightarrow> best_prefix \<Rightarrow> compiled_location list \<Rightarrow>
   compiled_location + best_prefix \<times> best_prefix" where
  "scan_locations path bp bpp [] = Inr (bp, bpp)"
| "scan_locations path bp bpp (l # ls) =
     (case co_matcher l of
        CmExact p \<Rightarrow> if path = p then Inl l else scan_locations path bp bpp ls
      | CmPrefix p \<Rightarrow>
          if starts_with p path \<and> longer_than bp (length p)
          then scan_locations path (Some (l, length p)) bpp ls
          else scan_locations path bp bpp ls
      | CmPreferPrefix p \<Rightarrow>
          if starts_with p path \<and> longer_than bpp (length p)
          then scan_locations path bp (Some (l, length p)) ls
          else scan_locations path bp bpp ls
      | _ \<Rightarrow> scan_locations path bp bpp ls)"

definition regex_matches :: "externals \<Rightarrow> string \<Rightarrow> compiled_location \<Rightarrow> bool" where
  "regex_matches x path l \<longleftrightarrow>
     (case co_matcher l of CmRegex ci pattern \<Rightarrow> ext_regex_is_match x ci pattern path | _ \<Rightarrow> False)"

definition select_route_target ::
  "externals \<Rightarrow> server_routes \<Rightarrow> string \<Rightarrow> compiled_location option" where
  "select_route_target x routes path =
     (case scan_locations path None None (sr_locations routes) of
        Inl l \<Rightarrow> Some l
      | Inr (bp, bpp) \<Rightarrow>
          (case bpp of
             Some (l, _) \<Rightarrow> Some l
           | None \<Rightarrow>
               (case find (regex_matches x path) (sr_locations routes) of
                  Some l \<Rightarrow> Some l
                | None \<Rightarrow> map_option fst bp)))"

section \<open>The authority of a request\<close>

definition normalize_authority_host :: "string \<Rightarrow> string" where
  "normalize_authority_host value = to_ascii_lowercase (trim_end_matches CHR ''.'' value)"

definition invalid_host_header :: proxy_error where
  "invalid_host_header = HTTPStatus 400 ''invalid host header value''"

definition normalize_request_host :: "externals \<Rightarrow> string \<Rightarrow> (proxy_error, string) result" where
  "normalize_request_host x value =
     and_then (reject (CHR ''@'' \<in> set value \<or> CHR '','' \<in> set value) invalid_host_header) (\<lambda>_.
     and_then (ok_or invalid_host_header (ext_authority_host x value)) (\<lambda>host.
       let host' = (case strip_prefix ''['' host of
                      None \<Rightarrow> host
                    | Some v \<Rightarrow> (case strip_suffix '']'' v of None \<Rightarrow> host | Some w \<Rightarrow> w))
       in and_then (reject (host' = []) invalid_host_header) (\<lambda>_.
            Inr (normalize_authority_host host'))))"

definition request_host :: "externals \<Rightarrow> session \<Rightarrow> (proxy_error, string option) result" where
  "request_host x s =
     (case hdr_get (rq_headers (ss_req s)) ''host'' of
        None \<Rightarrow> Inr None
      | Some raw \<Rightarrow>
          and_then (ok_or (HTTPStatus 400 ''invalid host header encoding'') (ext_to_str x raw)) (\<lambda>host.
            and_then (normalize_request_host x host) (\<lambda>h. Inr (Some h))))"

definition downstream_sni :: "session \<Rightarrow> string option" where
  "downstream_sni s =
     (case ss_ssl_digest s of
        None \<Rightarrow> None
      | Some ssl \<Rightarrow> (case sd_extension ssl of None \<Rightarrow> None | Some info \<Rightarrow> dti_sni info))"

definition validate_sni_host_consistency ::
  "string option \<Rightarrow> string option \<Rightarrow> (proxy_error, unit) result" where
  "validate_sni_host_consistency host sni =
     (case (host, sni) of
        (Some h, Some n) \<Rightarrow>
          reject (h \<noteq> n) (HTTPStatus 421 (''tls sni '' @ n @ '' does not match http host '' @ h))
      | _ \<Rightarrow> Inr ())"

definition request_is_tls :: "session \<Rightarrow> bool" where
  "request_is_tls s \<longleftrightarrow> ss_ssl_digest s \<noteq> None"

definition session_listen_key :: "session \<Rightarrow> (proxy_error, listen_key) result" where
  "session_listen_key s =
     and_then (ok_or (InternalError ''missing downstream server addr'') (ss_server_addr s)) (\<lambda>addr.
       case addr of
         UnixSocket \<Rightarrow> Inl (InternalError ''downstream server addr is not inet (likely UDS)'')
       | Inet ip port \<Rightarrow> Inr (ListenKey ip port (request_is_tls s)))"

section \<open>Virtual hosts\<close>

definition named_score ::
  "string \<Rightarrow> string \<times> server_routes \<Rightarrow> (bool \<times> nat) option" where
  "named_score host e = hostname_score (fst e) host"

definition select_server_routes ::
  "virtual_host_routes \<Rightarrow> string option \<Rightarrow> server_routes option" where
  "select_server_routes vhosts host =
     (case (case host of
              None \<Rightarrow> None
            | Some v \<Rightarrow>
                map_option (\<lambda>(_, e). snd e)
                  (max_by_score (scored (named_score v) (vh_named vhosts)))) of
        Some routes \<Rightarrow> Some routes
      | None \<Rightarrow> vh_default vhosts)"

definition wildcard_listen_key :: "listen_key \<Rightarrow> listen_key" where
  "wildcard_listen_key key =
     ListenKey (case lk_addr key of V4 _ \<Rightarrow> V4 0 | V6 _ \<Rightarrow> V6 0) (lk_port key) (lk_ssl key)"

definition listener_routes :: "compiled_router \<Rightarrow> listen_key \<Rightarrow> virtual_host_routes option" where
  "listener_routes router key =
     (case hm_get (cr_listeners router) key of
        Some v \<Rightarrow> Some v
      | None \<Rightarrow>
          let wildcard = wildcard_listen_key key
          in if wildcard \<noteq> key then hm_get (cr_listeners router) wildcard else None)"

section \<open>Resolution\<close>

record resolved_location =
  rl_location :: compiled_location
  rl_host :: "string option"

definition is_http_matcher :: "compiled_location \<Rightarrow> bool" where
  "is_http_matcher l \<longleftrightarrow> (case co_matcher l of CmHttp _ \<Rightarrow> True | _ \<Rightarrow> False)"

text \<open>The score of a location as an HTTP rule for the request, if it is one and matches.\<close>

definition http_rule_score ::
  "externals \<Rightarrow> request \<Rightarrow> compiled_location \<Rightarrow> (bool \<times> nat \<times> bool \<times> nat \<times> nat) option" where
  "http_rule_score x r l =
     (case co_matcher l of
        CmHttp m \<Rightarrow> if http_matches x m r then Some (match_score m) else None
      | _ \<Rightarrow> None)"

text \<open>
  The candidate virtual hosts with their scores, and the loop over them in decreasing order,
  which ends at the first server that has no HTTP rule.
\<close>

definition pushed_candidates ::
  "virtual_host_routes \<Rightarrow> string option \<Rightarrow> ((bool \<times> nat) \<times> server_routes) list" where
  "pushed_candidates vhosts routing_host =
     (case routing_host of
        None \<Rightarrow> []
      | Some host \<Rightarrow>
          map (\<lambda>(score, e). (score, snd e)) (scored (named_score host) (vh_named vhosts))) @
     (case vh_default vhosts of None \<Rightarrow> [] | Some d \<Rightarrow> [((False, 0), d)])"

definition vhost_candidates ::
  "virtual_host_routes \<Rightarrow> string option \<Rightarrow> ((bool \<times> nat) \<times> server_routes) list" where
  "vhost_candidates vhosts routing_host = sort_desc (pushed_candidates vhosts routing_host)"

fun http_rule ::
  "externals \<Rightarrow> request \<Rightarrow> ((bool \<times> nat) \<times> server_routes) list \<Rightarrow> compiled_location option" where
  "http_rule x r [] = None"
| "http_rule x r ((_, routes) # cs) =
     (if list_ex is_http_matcher (sr_locations routes) then
        (case pick_first (http_rule_score x r) (sr_locations routes) of
           Some (_, l) \<Rightarrow> Some l
         | None \<Rightarrow> http_rule x r cs)
      else None)"

definition resolve_route ::
  "externals \<Rightarrow> compiled_router \<Rightarrow> session \<Rightarrow> (proxy_error, resolved_location option) result" where
  "resolve_route x router s =
     and_then (session_listen_key s) (\<lambda>key.
       case listener_routes router key of
         None \<Rightarrow> Inr None
       | Some vhosts \<Rightarrow>
           and_then (request_host x s) (\<lambda>host.
             let sni = (if lk_ssl key then downstream_sni s else None)
             in and_then (validate_sni_host_consistency host sni) (\<lambda>_.
                  let routing_host = (case host of Some h \<Rightarrow> Some h | None \<Rightarrow> sni)
                  in case http_rule x (ss_req s) (vhost_candidates vhosts routing_host) of
                       Some l \<Rightarrow> Inr (Some \<lparr>rl_location = l, rl_host = host\<rparr>)
                     | None \<Rightarrow>
                         (case select_server_routes vhosts routing_host of
                            None \<Rightarrow> Inr None
                          | Some routes \<Rightarrow>
                              Inr (map_option (\<lambda>l. \<lparr>rl_location = l, rl_host = host\<rparr>)
                                (select_route_target x routes (u_path (rq_uri (ss_req s)))))))))"

section \<open>The nginx order of locations\<close>

text \<open>
  The reference: an exact location, else the longest preferred prefix, else the first regular
  expression, else the longest plain prefix. Of two prefixes of the same length the first counts.
\<close>

definition exact_location :: "string \<Rightarrow> compiled_location \<Rightarrow> bool" where
  "exact_location path l \<longleftrightarrow> co_matcher l = CmExact path"

definition prefix_len :: "string \<Rightarrow> compiled_location \<Rightarrow> nat option" where
  "prefix_len path l =
     (case co_matcher l of CmPrefix p \<Rightarrow> if starts_with p path then Some (length p) else None | _ \<Rightarrow> None)"

definition prefer_len :: "string \<Rightarrow> compiled_location \<Rightarrow> nat option" where
  "prefer_len path l =
     (case co_matcher l of
        CmPreferPrefix p \<Rightarrow> if starts_with p path then Some (length p) else None | _ \<Rightarrow> None)"

definition first_longest :: "('a \<Rightarrow> nat option) \<Rightarrow> 'a list \<Rightarrow> 'a option" where
  "first_longest len ls =
     (if \<forall>l \<in> set ls. len l = None then None
      else find (\<lambda>l. len l = Some (Max {n. \<exists>l \<in> set ls. len l = Some n})) ls)"

definition nginx_choice :: "externals \<Rightarrow> compiled_location list \<Rightarrow> string \<Rightarrow> compiled_location option" where
  "nginx_choice x ls path =
     (case find (exact_location path) ls of
        Some l \<Rightarrow> Some l
      | None \<Rightarrow>
          (case first_longest (prefer_len path) ls of
             Some l \<Rightarrow> Some l
           | None \<Rightarrow>
               (case find (regex_matches x path) ls of
                  Some l \<Rightarrow> Some l
                | None \<Rightarrow> first_longest (prefix_len path) ls)))"

lemma find_append_hit: "\<forall>u \<in> set us. \<not> P u \<Longrightarrow> P l \<Longrightarrow> find P (us @ l # vs) = Some l"
  by (induction us) auto

lemma first_longest_pick: "first_longest len ls = map_option snd (pick_first len ls)"
proof (cases "pick_first len ls")
  case None
  then show ?thesis by (simp add: first_longest_def pick_first_None_iff)
next
  case (Some b)
  obtain n l where b: "b = (n, l)" by (cases b)
  with Some have best: "is_first_best len ls n l" by (simp add: pick_first_iff)
  from is_first_best_mem [OF this] have mem: "l \<in> set ls" "len l = Some n" by simp_all
  have fin: "finite {n. \<exists>l \<in> set ls. len l = Some n}"
  proof (rule finite_subset)
    show "{n. \<exists>l \<in> set ls. len l = Some n} \<subseteq> (\<lambda>l. the (len l)) ` set ls"
      by (auto intro: rev_image_eqI)
  qed simp
  have "Max {n. \<exists>l \<in> set ls. len l = Some n} = n"
  proof (rule Max_eqI [OF fin])
    show "y \<le> n" if "y \<in> {n. \<exists>l \<in> set ls. len l = Some n}" for y
      using that is_first_best_max [OF best] by blast
    show "n \<in> {n. \<exists>l \<in> set ls. len l = Some n}" using mem by blast
  qed
  moreover from best obtain us vs where "ls = us @ l # vs"
    "\<forall>u \<in> set us. \<forall>t. len u = Some t \<longrightarrow> t < n"
    unfolding is_first_best_def by blast
  then have "find (\<lambda>l. len l = Some n) ls = Some l"
    using mem(2) find_append_hit [of us "\<lambda>l. len l = Some n" l vs] by fastforce
  moreover from mem have "\<not> (\<forall>l \<in> set ls. len l = None)" by force
  ultimately show ?thesis using Some b by (simp add: first_longest_def)
qed

definition swap_best :: "(nat \<times> compiled_location) option \<Rightarrow> best_prefix" where
  "swap_best = map_option (\<lambda>(n, l). (l, n))"

lemma swap_best_step:
  "swap_best (best_step f b l) =
     (case f l of None \<Rightarrow> swap_best b
      | Some n \<Rightarrow> if longer_than (swap_best b) n then Some (l, n) else swap_best b)"
  by (cases b) (auto simp: best_step_def longer_than_def swap_best_def split: option.splits)

lemma scan_locations_step:
  "scan_locations path (swap_best bp) (swap_best bpp) (l # ls) =
     (if exact_location path l then Inl l
      else scan_locations path (swap_best (best_step (prefix_len path) bp l))
             (swap_best (best_step (prefer_len path) bpp l)) ls)"
  by (cases "co_matcher l")
    (auto simp: swap_best_step prefix_len_def prefer_len_def exact_location_def)

lemma scan_locations_eq:
  "scan_locations path (swap_best bp) (swap_best bpp) ls =
     (case find (exact_location path) ls of
        Some l \<Rightarrow> Inl l
      | None \<Rightarrow> Inr (swap_best (foldl (best_step (prefix_len path)) bp ls),
                     swap_best (foldl (best_step (prefer_len path)) bpp ls)))"
  by (induction ls arbitrary: bp bpp)
    (simp_all add: scan_locations_step del: scan_locations.simps(2) split: option.splits)

lemma select_route_target_nginx:
  "select_route_target x routes path = nginx_choice x (sr_locations routes) path"
proof -
  have "scan_locations path None None (sr_locations routes) =
    (case find (exact_location path) (sr_locations routes) of
        Some l \<Rightarrow> Inl l
      | None \<Rightarrow> Inr (swap_best (pick_first (prefix_len path) (sr_locations routes)),
                     swap_best (pick_first (prefer_len path) (sr_locations routes))))"
    using scan_locations_eq [of path None None "sr_locations routes"]
    unfolding pick_first_def by (simp add: swap_best_def)
  then show ?thesis
    unfolding select_route_target_def nginx_choice_def first_longest_pick swap_best_def
    by (simp add: option.map_comp comp_def case_prod_beta' split: option.split)
qed

section \<open>Virtual hosts do not depend on the order of the map\<close>

interpretation hosts: unique_score "named_score host" fst for host
  by unfold_locales (auto simp: named_score_def intro: hostname_score_inject)

text \<open>Two virtual host tables with the same entries, in any order.\<close>

definition vhosts_equiv :: "virtual_host_routes \<Rightarrow> virtual_host_routes \<Rightarrow> bool" where
  "vhosts_equiv v w \<longleftrightarrow>
     hm_wf (vh_named v) \<and> mset (vh_named v) = mset (vh_named w) \<and> vh_default v = vh_default w"

lemma named_score_not_default: "named_score host e \<noteq> Some (False, 0)"
  unfolding named_score_def using hostname_score_wildcard_pos by blast

lemma select_server_routes_equiv:
  assumes "vhosts_equiv v w"
  shows "select_server_routes v host = select_server_routes w host"
proof -
  from assms have "max_by_score (scored (named_score h) (vh_named v)) =
      max_by_score (scored (named_score h) (vh_named w))" for h
    by (intro hosts.max_by_score_perm) (simp_all add: vhosts_equiv_def hm_wf_def)
  moreover from assms have "vh_default v = vh_default w" by (simp add: vhosts_equiv_def)
  ultimately show ?thesis by (simp only: select_server_routes_def)
qed

lemma pushed_candidates_distinct:
  assumes "hm_wf (vh_named v)"
  shows "distinct (map fst (pushed_candidates v host))"
proof (cases host)
  case (Some h)
  have "fst \<circ> (\<lambda>(score, e). (score, snd e)) = (fst :: (bool \<times> nat) \<times> string \<times> server_routes \<Rightarrow> _)"
    by auto
  moreover have "(False, 0) \<notin> set (map fst (scored (named_score h) (vh_named v)))"
    using named_score_not_default by (auto simp: scored_set)
  ultimately show ?thesis
    using hosts.scored_distinct [of "vh_named v" h] assms Some
    by (simp add: pushed_candidates_def hm_wf_def split: option.split)
qed (simp add: pushed_candidates_def split: option.split)

lemma pushed_candidates_mset:
  assumes "vhosts_equiv v w"
  shows "mset (pushed_candidates v host) = mset (pushed_candidates w host)"
proof -
  from assms have "mset (scored (named_score h) (vh_named v)) = mset (scored (named_score h) (vh_named w))" for h
    by (intro hosts.mset_scored_perm) (simp add: vhosts_equiv_def)
  moreover from assms have "vh_default v = vh_default w" by (simp add: vhosts_equiv_def)
  ultimately show ?thesis by (cases host) (simp_all add: pushed_candidates_def)
qed

lemma vhost_candidates_equiv:
  "vhosts_equiv v w \<Longrightarrow> vhost_candidates v host = vhost_candidates w host"
  unfolding vhost_candidates_def
  using pushed_candidates_distinct [of v host] pushed_candidates_mset [of v w host]
  by (intro sort_desc_mset) (simp_all add: distinct_map vhosts_equiv_def)

lemma vhost_candidates_strict:
  assumes "hm_wf (vh_named v)"
  shows "sorted_wrt (\<lambda>a b. fst b < fst a) (vhost_candidates v host)"
proof -
  have "distinct (rev (map fst (vhost_candidates v host)))"
    using pushed_candidates_distinct [OF assms, of host]
    unfolding vhost_candidates_def distinct_rev
    by (metis mset_eq_imp_distinct_iff mset_map mset_sort_desc)
  moreover have "sorted (rev (map fst (vhost_candidates v host)))"
    unfolding vhost_candidates_def by (rule sort_desc_sorted)
  ultimately have "sorted_wrt (<) (rev (map fst (vhost_candidates v host)))"
    by (simp only: strict_sorted_iff)
  then show ?thesis by (simp add: sorted_wrt_rev sorted_wrt_map)
qed

section \<open>HTTP rules\<close>

lemma http_rule_best:
  assumes "sorted_wrt (\<lambda>a b. fst b < fst a) cs"
    and "\<forall>c \<in> set cs. list_ex is_http_matcher (sr_locations (snd c))"
  shows "case http_rule x r cs of
      None \<Rightarrow> \<forall>c \<in> set cs. \<forall>l \<in> set (sr_locations (snd c)). http_rule_score x r l = None
    | Some l \<Rightarrow>
        (\<exists>c \<in> set cs. \<exists>ms. l \<in> set (sr_locations (snd c)) \<and> http_rule_score x r l = Some ms \<and>
          (\<forall>c' \<in> set cs. \<forall>l' \<in> set (sr_locations (snd c')). \<forall>ms'.
            http_rule_score x r l' = Some ms' \<longrightarrow> (fst c', ms') \<le> (fst c, ms)))"
  using assms
proof (induction cs)
  case Nil
  then show ?case by simp
next
  case (Cons c cs)
  let ?locs = "sr_locations (snd c)"
  have step: "http_rule x r (c # cs) =
      (case pick_first (http_rule_score x r) ?locs of Some (_, l) \<Rightarrow> Some l | None \<Rightarrow> http_rule x r cs)"
    using Cons.prems(2) by (cases c) simp
  have below: "\<forall>c' \<in> set cs. fst c' < fst c" using Cons.prems(1) by simp
  have IH: "case http_rule x r cs of
      None \<Rightarrow> \<forall>c \<in> set cs. \<forall>l \<in> set (sr_locations (snd c)). http_rule_score x r l = None
    | Some l \<Rightarrow>
        (\<exists>c \<in> set cs. \<exists>ms. l \<in> set (sr_locations (snd c)) \<and> http_rule_score x r l = Some ms \<and>
          (\<forall>c' \<in> set cs. \<forall>l' \<in> set (sr_locations (snd c')). \<forall>ms'.
            http_rule_score x r l' = Some ms' \<longrightarrow> (fst c', ms') \<le> (fst c, ms)))"
    using Cons.IH Cons.prems by simp
  show ?case
  proof (cases "pick_first (http_rule_score x r) ?locs")
    case None
    then have none: "\<forall>l \<in> set ?locs. http_rule_score x r l = None" by (simp add: pick_first_None_iff)
    show ?thesis
    proof (cases "http_rule x r cs")
      case None
      with IH none step \<open>pick_first _ _ = None\<close> show ?thesis by simp
    next
      case (Some l)
      with IH obtain d ms where d: "d \<in> set cs" "l \<in> set (sr_locations (snd d))"
        "http_rule_score x r l = Some ms"
        "\<forall>c' \<in> set cs. \<forall>l' \<in> set (sr_locations (snd c')). \<forall>ms'.
            http_rule_score x r l' = Some ms' \<longrightarrow> (fst c', ms') \<le> (fst d, ms)" by auto
      from Some step \<open>pick_first _ _ = None\<close> have "http_rule x r (c # cs) = Some l" by simp
      with d none show ?thesis by (auto intro!: bexI [of _ d])
    qed
  next
    case (Some b)
    obtain ms l where b: "b = (ms, l)" by (cases b)
    from Some b have best: "is_first_best (http_rule_score x r) ?locs ms l" by (simp add: pick_first_iff)
    note mem = is_first_best_mem [OF best] and top = is_first_best_max [OF best]
    have opt: "(fst c', ms') \<le> (fst c, ms)"
      if "c' \<in> set (c # cs)" "l' \<in> set (sr_locations (snd c'))" "http_rule_score x r l' = Some ms'"
      for c' l' ms'
    proof (cases "c' = c")
      case True
      with that top [of l' ms'] show ?thesis by simp
    next
      case False
      with that below show ?thesis by (simp add: less_eq_prod_def [of "(fst c', ms')"])
    qed
    from step Some b have res: "http_rule x r (c # cs) = Some l" by simp
    show ?thesis
      unfolding res option.case
      by (intro bexI [of _ c] exI [of _ ms] conjI ballI allI impI) (use mem opt in simp_all)
  qed
qed

section \<open>Claims\<close>

text \<open>
  C19. The location of a request is chosen in the order the comment of the source states: an exact
  location, else the longest preferred prefix, else the first matching regular expression, else
  the longest plain prefix.
\<close>

theorem select_route_target_order:
  "select_route_target x routes path = nginx_choice x (sr_locations routes) path"
  by (rule select_route_target_nginx)

text \<open>
  C18. Route resolution does not depend on the iteration order of the hash maps of virtual hosts:
  two routers whose listeners have the same virtual hosts, in any order, resolve every session
  to the same location or the same error.
\<close>

theorem resolve_route_order_independent:
  assumes "\<And>key. rel_option vhosts_equiv (hm_get (cr_listeners r) key) (hm_get (cr_listeners r') key)"
  shows "resolve_route x r s = resolve_route x r' s"
proof -
  have "rel_option vhosts_equiv (listener_routes r key) (listener_routes r' key)" for key
    using assms [of key] assms [of "wildcard_listen_key key"]
    by (cases "hm_get (cr_listeners r) key"; cases "hm_get (cr_listeners r') key")
      (simp_all add: listener_routes_def Let_def)
  note rel = this
  show ?thesis
  proof (cases "session_listen_key s")
    case (Inr key)
    from rel [of key] show ?thesis
    proof (cases rule: option.rel_cases)
      case None
      with Inr show ?thesis by (simp add: resolve_route_def)
    next
      case (Some v w)
      from Some(3) have "vhost_candidates v = vhost_candidates w"
        "select_server_routes v = select_server_routes w"
        by (auto simp: vhost_candidates_equiv select_server_routes_equiv)
      then show ?thesis
        unfolding resolve_route_def Inr and_then.simps Some(1,2) option.case by (simp only:)
    qed
  qed (simp add: resolve_route_def)
qed

definition sample_vhosts :: "string \<Rightarrow> string \<Rightarrow> virtual_host_routes" where
  "sample_vhosts a b =
     \<lparr>vh_named = [(a, \<lparr>sr_locations = [plain_location 1 (CmPrefix ''/'') (DirectResponse 200)]\<rparr>),
                  (b, \<lparr>sr_locations = [plain_location 1 (CmPrefix ''/'') (DirectResponse 200)]\<rparr>)],
      vh_default = None\<rparr>"

definition sample_router :: "virtual_host_routes \<Rightarrow> compiled_router" where
  "sample_router v = compiled_router_default\<lparr>cr_listeners := [(ListenKey (V4 0) 80 False, v)]\<rparr>"

definition sample_session :: "string \<Rightarrow> string \<Rightarrow> session" where
  "sample_session host path =
     \<lparr>ss_req = \<lparr>rq_method = ''GET'', rq_uri = \<lparr>u_text = path, u_path = path, u_query = None\<rparr>,
                rq_headers = [(''host'', host)]\<rparr>,
      ss_server_addr = Some (Inet (V4 1) 80), ss_client_addr = None, ss_ssl_digest = None\<rparr>"

theorem resolve_route_order_independent_witness:
  "resolve_route plain_ext (sample_router (sample_vhosts ''a.b'' ''*.b'')) (sample_session ''a.b'' ''/x'') =
   resolve_route plain_ext (sample_router (sample_vhosts ''*.b'' ''a.b'')) (sample_session ''a.b'' ''/x'')"
  by (rule resolve_route_order_independent)
    (simp add: sample_router_def vhosts_equiv_def sample_vhosts_def hm_wf_def add_mset_commute)

text \<open>
  On a TLS listener the authority of the request and the server name of the connection must
  agree. When both are present, a request whose names differ is answered with 421 whatever the
  routes are, and it is otherwise routed by the common name.
\<close>

lemma resolve_route_misdirected:
  assumes "session_listen_key s = Inr key" and "listener_routes router key = Some vhosts"
    and "request_host x s = Inr (Some h)" and "downstream_sni s = Some n" and "request_is_tls s"
  shows "if h = n then \<exists>res. resolve_route x router s = Inr res \<and>
             (case res of None \<Rightarrow> True | Some rl \<Rightarrow> rl_host rl = Some n)
         else \<exists>msg. resolve_route x router s = Inl (HTTPStatus 421 msg)"
proof -
  from assms(1,5) have "lk_ssl key"
    by (cases "ss_server_addr s"; cases "the (ss_server_addr s)")
      (auto simp: session_listen_key_def ok_or_def)
  with assms show ?thesis
    by (auto simp: resolve_route_def validate_sni_host_consistency_def reject_def Let_def
        split: option.split)
qed

definition sample_tls_session :: "string \<Rightarrow> string \<Rightarrow> session" where
  "sample_tls_session host sni =
     (sample_session host ''/'')\<lparr>ss_ssl_digest := Some \<lparr>sd_extension = Some \<lparr>dti_sni = Some sni\<rparr>\<rparr>\<rparr>"


definition sample_http_vhosts :: virtual_host_routes where
  "sample_http_vhosts =
     \<lparr>vh_named = [(''*.b'', \<lparr>sr_locations =
        [plain_location 1 (CmHttp \<lparr>hm_path = PathPrefix ''/x'', hm_method = None, hm_headers = [],
           hm_query_params = []\<rparr>) (DirectResponse 200)]\<rparr>)],
      vh_default = None\<rparr>"


end
