(* ===== verification/Selection.thy ===== *)
theory Selection
  imports Control Routing "HOL-Library.Multiset"
begin

text \<open>
  From a resolved location to a target: the selected route of a request, weighted backends and
  upstream groups (\<^verbatim>\<open>crates/ngxora-runtime/src/upstreams/runtime/selection.rs\<close>), access rules, and the
  limits on request bodies (\<^verbatim>\<open>limits.rs\<close>). The types are those of \<^verbatim>\<open>runtime.rs\<close>.

  The plugin chain of a route is shared through an \<^verbatim>\<open>Arc\<close> and the rate limiter in it has state; the
  model reads it from the captured snapshot where it is run, under the route's number.
\<close>

section \<open>Selected routes\<close>

record selected_peer =
  tp_host :: string
  tp_port :: nat
  tp_tls :: bool
  tp_sni :: string
  tp_upstream_group :: "string option"
  tp_api_prefix :: "string option"

datatype selected_target =
    SelPending route_target
  | SelDirectResponse nat
  | SelScp string
  | SelUpstream selected_peer
  | SelReturn nat string

record 'm selected_route =
  se_client_limits :: client_limits
  se_url_rewrite :: "url_rewrite option"
  se_matched_prefix :: "string option"
  se_route_id :: nat
  se_target :: selected_target
  se_access_rules :: "location_ip_rule list"
  se_upstream_timeouts :: upstream_timeouts
  se_upstream_protocol :: "upstream_http_protocol option"
  se_upstream_http2 :: upstream_http2_options
  se_upstream_ssl_options :: upstream_ssl_options
  se_upstream_trusted_ca :: "'m list option"
  se_upstream_client_identity :: "('m list \<times> 'm) option"
  se_cache :: "cache_config option"

definition runtime_config_error :: "string \<Rightarrow> proxy_error" where
  "runtime_config_error e = InternalError e"

definition cache_store_allowed :: "cache_config \<Rightarrow> bool \<Rightarrow> bool" where
  "cache_store_allowed cfg threshold_reached \<longleftrightarrow>
     (case cc_min_uses cfg of None \<Rightarrow> 1 | Some n \<Rightarrow> n) \<le> 1 \<or> threshold_reached"

definition proxy_pass_sni :: "string \<Rightarrow> bool \<Rightarrow> string" where
  "proxy_pass_sni host tls = (if tls \<and> parse_ip host = None then host else [])"

definition prefixed_upstream_uri :: "externals \<Rightarrow> uri \<Rightarrow> string \<Rightarrow> (string, uri) result" where
  "prefixed_upstream_uri x u prefix =
     ok_or (''failed to apply NRF apiPrefix `'' @ prefix @ ''`'')
       (ext_parse_uri x (prefix @ u_path u @ (case u_query u of None \<Rightarrow> [] | Some q \<Rightarrow> ''?'' @ q)))"

text \<open>\<^verbatim>\<open>uri.path_and_query().map_or("/", as_str)\<close>.\<close>

definition path_and_query_text :: "uri \<Rightarrow> string" where
  "path_and_query_text u =
     (let p = (if u_path u = [] then ''/'' else u_path u)
      in case u_query u of None \<Rightarrow> p | Some q \<Rightarrow> p @ ''?'' @ q)"

section \<open>The route of a request\<close>

definition matched_prefix_of :: "compiled_location \<Rightarrow> string option" where
  "matched_prefix_of loc =
     (case co_matcher loc of
        CmHttp m \<Rightarrow> (case hm_path m of PathPrefix p \<Rightarrow> Some p | _ \<Rightarrow> None)
      | _ \<Rightarrow> None)"

definition resolved_target ::
  "externals \<Rightarrow> resolved_location \<Rightarrow> session \<Rightarrow> (proxy_error, selected_target) result" where
  "resolved_target x resolved s =
     (let loc = rl_location resolved;
          scheme = (if ss_ssl_digest s \<noteq> None then ''https'' else ''http'');
          host = (case rl_host resolved of None \<Rightarrow> [] | Some h \<Rightarrow> h);
          u = rq_uri (ss_req s)
      in case co_target loc of
           Scp profile \<Rightarrow> Inr (SelScp profile)
         | Return status location \<Rightarrow>
             and_then (map_err runtime_config_error (expand_return location host (path_and_query_text u) scheme))
               (\<lambda>text. Inr (SelReturn status text))
         | HttpRedirect config \<Rightarrow>
             (case ss_server_addr s of
                Some (Inet _ port) \<Rightarrow>
                  and_then (map_err runtime_config_error
                      (redirect_location x config u host scheme port (matched_prefix_of loc)))
                    (\<lambda>text. Inr (SelReturn (hr_status config) text))
              | _ \<Rightarrow> Inl (runtime_config_error ''missing listener port''))
         | DirectResponse status \<Rightarrow> Inr (SelDirectResponse status)
         | target \<Rightarrow> Inr (SelPending target))"

definition from_resolved ::
  "externals \<Rightarrow> ('s, 'k, 'm, 'p) runtime_snapshot \<Rightarrow> resolved_location \<Rightarrow> session \<Rightarrow>
   (proxy_error, 'm selected_route) result" where
  "from_resolved x snap resolved s =
     (let loc = rl_location resolved; ssl = co_upstream_ssl_options loc
      in
      and_then (resolved_target x resolved s) (\<lambda>target.
      and_then (case (us_client_certificate ssl, us_client_certificate_key ssl) of
          (Some cert, Some key) \<Rightarrow>
            and_then (ok_or (InternalError ''compiled upstream client identity is missing at runtime'')
              (client_identity snap cert key)) (\<lambda>i. Inr (Some i))
        | _ \<Rightarrow> Inr None) (\<lambda>identity.
      and_then (case us_trusted_certificate ssl of
          None \<Rightarrow> Inr None
        | Some source \<Rightarrow>
            and_then (ok_or (InternalError ''compiled trusted upstream CA is missing at runtime'')
              (trusted_ca snap source)) (\<lambda>ca. Inr (Some ca))) (\<lambda>ca.
      Inr \<lparr>se_client_limits = co_client_limits loc, se_url_rewrite = co_url_rewrite loc,
           se_matched_prefix = matched_prefix_of loc, se_route_id = co_route_id loc, se_target = target,
           se_access_rules = co_access_rules loc, se_upstream_timeouts = co_upstream_timeouts loc,
           se_upstream_protocol = co_upstream_protocol loc, se_upstream_http2 = co_upstream_http2 loc,
           se_upstream_ssl_options = ssl, se_upstream_trusted_ca = ca,
           se_upstream_client_identity = identity,
           se_cache = map_option (\<lambda>c. c\<lparr>cc_max_size :=
             (case cc_max_size c of
                Some m \<Rightarrow> Some m
              | None \<Rightarrow> ho_proxy_cache_max_size (cr_http_options (ss_router snap)))\<rparr>) (co_cache loc)\<rparr>))))"

definition select_runtime_route ::
  "externals \<Rightarrow> ('s, 'k, 'm, 'p) runtime_snapshot \<Rightarrow> session \<Rightarrow>
   (proxy_error, ('m selected_route \<times> string option) option) result" where
  "select_runtime_route x snap s =
     and_then (resolve_route x (ss_router snap) s) (\<lambda>r.
       case r of
         None \<Rightarrow> Inr None
       | Some resolved \<Rightarrow>
           and_then (from_resolved x snap resolved s) (\<lambda>route. Inr (Some (route, rl_host resolved))))"

section \<open>Backends\<close>

text \<open>The loop over the weighted backends: the slot falls into the first weight it is below.\<close>

fun weighted_slot :: "nat \<Rightarrow> compiled_weighted_backend list \<Rightarrow> compiled_weighted_backend option" where
  "weighted_slot slot [] = None"
| "weighted_slot slot (b # bs) =
     (if slot < cwb_weight b then Some b else weighted_slot (slot - cwb_weight b) bs)"

lemma weighted_slot_mem: "weighted_slot slot bs = Some b \<Longrightarrow> b \<in> set bs"
  by (induction bs arbitrary: slot) (auto split: if_splits)

definition upstream_selection_key ::
  "upstream_hash_key option \<Rightarrow> session \<Rightarrow> ip_addr option \<Rightarrow> (proxy_error, string) result" where
  "upstream_selection_key configured s client_ip =
     (case (case configured of
              Some (Header name) \<Rightarrow>
                (case hdr_get_all (rq_headers (ss_req s)) name of
                   [v] \<Rightarrow> if v = [] then None else Some v
                 | _ \<Rightarrow> None)
            | _ \<Rightarrow> None) of
        Some v \<Rightarrow> Inr v
      | None \<Rightarrow>
          ok_or (HTTPStatus 503 ''consistent hash requires a request header key or socket client IP'')
            (map_option show_ip client_ip))"

definition request_client_ip :: "session \<Rightarrow> ip_addr option" where
  "request_client_ip s = (case ss_client_addr s of Some (Inet ip _) \<Rightarrow> Some ip | _ \<Rightarrow> None)"

text \<open>A target that names one destination, and a choice from an upstream group.\<close>

definition proxy_pass_peer :: "string \<Rightarrow> nat \<Rightarrow> bool \<Rightarrow> string \<Rightarrow> selected_peer" where
  "proxy_pass_peer host port tls sni =
     \<lparr>tp_host = host, tp_port = port, tp_tls = tls, tp_sni = sni, tp_upstream_group = None,
      tp_api_prefix = None\<rparr>"

definition group_peer :: "string \<Rightarrow> bool \<Rightarrow> compiled_upstream_server \<Rightarrow> selected_peer" where
  "group_peer name tls b =
     \<lparr>tp_host = cs_host b, tp_port = cs_port b, tp_tls = tls, tp_sni = proxy_pass_sni (cs_host b) tls,
      tp_upstream_group = Some (group_key name), tp_api_prefix = cs_api_prefix b\<rparr>"

definition select_group ::
  "'s group_lib \<Rightarrow> (backend \<Rightarrow> bool) \<Rightarrow> ('s, 'k, 'm, 'p) runtime_snapshot \<Rightarrow> string \<Rightarrow> bool \<Rightarrow> session \<Rightarrow>
   ip_addr option \<Rightarrow> (proxy_error, selected_target) result \<times> ('s, 'k, 'm, 'p) runtime_snapshot" where
  "select_group l ready snap name tls s client_ip =
     (case upstream_group snap name of
        None \<Rightarrow> (Inl (runtime_config_error ''missing upstream group''), snap)
      | Some g \<Rightarrow>
          (case (if uses_consistent_hash g then upstream_selection_key (rg_hash_key g) s client_ip else Inr []) of
             Inl e \<Rightarrow> (Inl e, snap)
           | Inr key \<Rightarrow>
               (case group_select l ready key g of
                  (chosen, g') \<Rightarrow>
                    ((case chosen of
                        None \<Rightarrow> Inl (HTTPStatus 503 ''no available backends'')
                      | Some b \<Rightarrow> Inr (SelUpstream (group_peer name tls b))),
                     snap\<lparr>ss_upstream_groups := hm_insert (group_key name) g' (ss_upstream_groups snap)\<rparr>))))"

function select_backend_target ::
  "'s group_lib \<Rightarrow> (backend \<Rightarrow> bool) \<Rightarrow> ('s, 'k, 'm, 'p) runtime_snapshot \<Rightarrow> nat \<Rightarrow> route_target \<Rightarrow> session \<Rightarrow>
   ip_addr option \<Rightarrow> (proxy_error, selected_target) result \<times> ('s, 'k, 'm, 'p) runtime_snapshot" where
  "select_backend_target l ready snap route_id (WeightedBackends backends) s client_ip =
     (let total = sum_list (map cwb_weight backends)
      in if total = 0 then (Inl (HTTPStatus 503 ''no available backends''), snap)
         else
           (case hm_get (ss_backend_counters snap) route_id of
              None \<Rightarrow> (Inl (runtime_config_error ''missing backend selector''), snap)
            | Some counter \<Rightarrow>
                let snap' = snap\<lparr>ss_backend_counters :=
                      hm_insert route_id (wrap_add64 counter 1) (ss_backend_counters snap)\<rparr>
                in (case weighted_slot (counter mod total) backends of
                      None \<Rightarrow> (Inl (runtime_config_error ''invalid backend weight sum''), snap')
                    | Some b \<Rightarrow> select_backend_target l ready snap' route_id (cwb_target b) s client_ip)))"
| "select_backend_target l ready snap route_id (DirectResponse status) s client_ip =
     (Inr (SelDirectResponse status), snap)"
| "select_backend_target l ready snap route_id (ProxyPassTo host port tls sni) s client_ip =
     (Inr (SelUpstream (proxy_pass_peer host port tls sni)), snap)"
| "select_backend_target l ready snap route_id (UpstreamGroup name tls) s client_ip =
     select_group l ready snap name tls s client_ip"
| "select_backend_target l ready snap route_id (HttpRedirect r) s client_ip =
     (Inl (runtime_config_error ''invalid backend target''), snap)"
| "select_backend_target l ready snap route_id (Scp profile) s client_ip =
     (Inl (runtime_config_error ''invalid backend target''), snap)"
| "select_backend_target l ready snap route_id (Return status location) s client_ip =
     (Inl (runtime_config_error ''invalid backend target''), snap)"
  by pat_completeness auto
termination
proof (relation "measure (\<lambda>(l, ready, snap, i, t, s, ip). size t)", goal_cases)
  case (2 l ready snap i bs s ip total counter snap' b)
  then have "b \<in> set bs" by (auto dest: weighted_slot_mem)
  then have "size b \<le> size_list size bs" by (rule size_list_estimation') simp
  moreover have "size (cwb_target b) < size b" by (cases b) simp
  ultimately show ?case by simp
qed simp

section \<open>Access rules\<close>

fun first_rule :: "externals \<Rightarrow> location_ip_rule list \<Rightarrow> ip_addr \<Rightarrow> bool" where
  "first_rule x [] ip = False"
| "first_rule x (rule # rules) ip =
     (if rule_matches (ext_net_contains x) rule ip then rule_is_allow rule else first_rule x rules ip)"

definition location_allows_client :: "externals \<Rightarrow> location_ip_rule list \<Rightarrow> ip_addr option \<Rightarrow> bool" where
  "location_allows_client x rules client_ip \<longleftrightarrow>
     rules = [] \<or> (case client_ip of None \<Rightarrow> False | Some ip \<Rightarrow> first_rule x rules ip)"

section \<open>Body limits\<close>

definition body_too_large_error :: proxy_error where
  "body_too_large_error = HTTPStatus 413 ''request body exceeds client_max_body_size''"

definition content_length_limit_exceeded :: "externals \<Rightarrow> string option \<Rightarrow> nat option \<Rightarrow> bool option" where
  "content_length_limit_exceeded x header limit =
     Option.bind limit (\<lambda>m. Option.bind header (\<lambda>h. Option.bind (ext_to_str x h) (\<lambda>text.
       map_option (\<lambda>sz. m < sz) (parse_unsigned u64_max text))))"

definition update_received_body_bytes :: "nat \<Rightarrow> string option \<Rightarrow> nat option \<Rightarrow> (proxy_error, nat) result" where
  "update_received_body_bytes received body limit =
     (case (limit, body) of
        (Some m, Some chunk) \<Rightarrow>
          and_then (reject (u64_max < length chunk) body_too_large_error) (\<lambda>_.
          and_then (ok_or body_too_large_error (checked_add u64_max received (length chunk))) (\<lambda>next.
          and_then (reject (m < next) body_too_large_error) (\<lambda>_.
          Inr next)))
      | _ \<Rightarrow> Inr received)"

section \<open>Distribution over weighted backends\<close>

text \<open>Targets that are decided without consulting an upstream group.\<close>

fun leaf_target :: "route_target \<Rightarrow> selected_target option" where
  "leaf_target (DirectResponse status) = Some (SelDirectResponse status)"
| "leaf_target (ProxyPassTo host port tls sni) = Some (SelUpstream (proxy_pass_peer host port tls sni))"
| "leaf_target _ = None"

text \<open>The outcomes of successive requests to one route.\<close>

fun select_run ::
  "'s group_lib \<Rightarrow> (backend \<Rightarrow> bool) \<Rightarrow> nat \<Rightarrow> ('s, 'k, 'm, 'p) runtime_snapshot \<Rightarrow> nat \<Rightarrow> route_target \<Rightarrow> session \<Rightarrow>
   ip_addr option \<Rightarrow> (proxy_error, selected_target) result list" where
  "select_run l ready 0 snap route_id t s ip = []"
| "select_run l ready (Suc n) snap route_id t s ip =
     (case select_backend_target l ready snap route_id t s ip of
        (r, snap') \<Rightarrow> r # select_run l ready n snap' route_id t s ip)"

definition slot_target :: "compiled_weighted_backend list \<Rightarrow> nat \<Rightarrow> selected_target option" where
  "slot_target bs slot = Option.bind (weighted_slot slot bs) (\<lambda>b. leaf_target (cwb_target b))"

lemma select_leaf:
  "leaf_target t = Some r \<Longrightarrow> select_backend_target l ready snap route_id t s ip = (Inr r, snap)"
  by (cases t) auto

lemma weighted_slot_total: "slot < sum_list (map cwb_weight bs) \<Longrightarrow> \<exists>b. weighted_slot slot bs = Some b"
  by (induction bs arbitrary: slot) auto

lemma slot_target_total:
  "slot < sum_list (map cwb_weight bs) \<Longrightarrow> \<forall>b \<in> set bs. leaf_target (cwb_target b) \<noteq> None \<Longrightarrow>
   \<exists>r. slot_target bs slot = Some r"
  by (metis bind.bind_lunit not_None_eq slot_target_def weighted_slot_mem weighted_slot_total)

lemma select_run_slots:
  assumes leaves: "\<forall>b \<in> set bs. leaf_target (cwb_target b) \<noteq> None"
    and total: "tot = sum_list (map cwb_weight bs)" "0 < tot"
  shows "hm_get (ss_backend_counters snap) route_id = Some c \<Longrightarrow> c + n \<le> u64_max \<Longrightarrow>
    select_run l ready n snap route_id (WeightedBackends bs) s ip =
      map (\<lambda>k. Inr (the (slot_target bs ((c + k) mod tot)))) [0..<n]"
proof (induction n arbitrary: snap c)
  case 0
  then show ?case by simp
next
  case (Suc n)
  define snap' where "snap' = snap\<lparr>ss_backend_counters :=
    hm_insert route_id (wrap_add64 c 1) (ss_backend_counters snap)\<rparr>"
  have next': "hm_get (ss_backend_counters snap') route_id = Some (c + 1)"
    using Suc.prems(2) by (simp add: snap'_def wrap_add64_exact)
  have "c mod tot < sum_list (map cwb_weight bs)" using total by simp
  from slot_target_total [OF this leaves] obtain b r where b: "weighted_slot (c mod tot) bs = Some b"
    and r: "leaf_target (cwb_target b) = Some r"
    by (auto simp: slot_target_def bind_eq_Some_conv)
  have first: "select_backend_target l ready snap route_id (WeightedBackends bs) s ip = (Inr r, snap')"
    using Suc.prems(1) total b select_leaf [OF r, of l ready snap' route_id s ip]
    by (simp add: Let_def snap'_def del: sum_list_eq_0_iff)
  have slot: "slot_target bs (c mod tot) = Some r" using b r by (simp add: slot_target_def)
  have "[0..<Suc n] = 0 # map Suc [0..<n]" by (simp add: map_Suc_upt upt_conv_Cons del: upt_Suc)
  with Suc.IH [OF next'] Suc.prems(2) first slot show ?case by (simp add: comp_def del: upt_Suc)
qed

lemma slots_of_weight:
  "length (filter (\<lambda>k. Option.bind (weighted_slot k bs) f = Some t) [0..<sum_list (map cwb_weight bs)]) =
   sum_list (map cwb_weight (filter (\<lambda>b. f b = Some t) bs))"
proof (induction bs)
  case Nil
  then show ?case by simp
next
  case (Cons b bs)
  define w where "w = cwb_weight b"
  define m where "m = sum_list (map cwb_weight bs)"
  define hit where "hit = (\<lambda>cs k. Option.bind (weighted_slot k cs) f = Some t)"
  have split: "[0..<w + m] = [0..<w] @ map (\<lambda>k. w + k) [0..<m]"
    by (intro nth_equalityI) (auto simp: nth_append)
  have "filter (hit (b # bs)) [0..<w] = (if f b = Some t then [0..<w] else [])"
    by (auto simp: hit_def w_def filter_empty_conv filter_id_conv)
  moreover have "length (filter (hit (b # bs)) (map (\<lambda>k. w + k) [0..<m])) = length (filter (hit bs) [0..<m])"
    by (simp add: filter_map comp_def hit_def w_def)
  ultimately have "length (filter (hit (b # bs)) [0..<w + m]) =
      (if f b = Some t then w else 0) + length (filter (hit bs) [0..<m])"
    by (simp only: split filter_append length_append) simp
  with Cons.IH show ?case by (simp add: hit_def w_def m_def)
qed

lemma mset_mod_shift: "0 < n \<Longrightarrow> mset (map (\<lambda>k. (c + k) mod n) [0..<n]) = mset [0..<n]"
proof -
  assume "0 < n"
  then have "map (\<lambda>k. (c + k) mod n) [0..<n] = rotate c [0..<n]"
    by (intro nth_equalityI) (simp_all add: nth_rotate)
  then have "mset (map (\<lambda>k. (c + k) mod n) [0..<n]) =
      mset (take (c mod n) [0..<n] @ drop (c mod n) [0..<n])"
    by (simp only: rotate_drop_take mset_append) (simp add: add.commute)
  then show ?thesis by (simp only: append_take_drop_id)
qed


definition sample_backends_2_1 :: "compiled_weighted_backend list" where
  "sample_backends_2_1 =
     [CompiledWeightedBackend 2 (ProxyPassTo ''a'' 80 False []), CompiledWeightedBackend 1 (DirectResponse 503)]"

definition sample_counter :: "(backend list, unit, unit, unit) runtime_snapshot" where
  "sample_counter =
     \<lparr>ss_backend_counters = [(7, 5)], ss_scp_profiles = [], ss_generation = 1, ss_version = [],
      ss_router = compiled_router_default, ss_plugin_chains = [], ss_upstream_groups = [],
      ss_trusted_cas = [], ss_client_identities = []\<rparr>"


text \<open>
  The limit on request bodies is exact for every way a body is cut into chunks: the chunks are
  accepted with the number of bytes counted exactly as long as their total is within the limit,
  and the first chunk beyond it gives status 413, without overflow for any 64-bit limit.
\<close>

lemma body_limit_exact:
  assumes "limit \<le> u64_max"
  shows "fold_res (\<lambda>received chunk. update_received_body_bytes received (Some chunk) (Some limit)) 0 chunks =
    (if sum_list (map length chunks) \<le> limit then Inr (sum_list (map length chunks))
     else Inl body_too_large_error)"
proof -
  have "r \<le> limit \<Longrightarrow>
    fold_res (\<lambda>received chunk. update_received_body_bytes received (Some chunk) (Some limit)) r chunks =
      (if r + sum_list (map length chunks) \<le> limit then Inr (r + sum_list (map length chunks))
       else Inl body_too_large_error)" for r
  proof (induction chunks arbitrary: r)
    case Nil
    then show ?case by simp
  next
    case (Cons chunk chunks)
    have "update_received_body_bytes r (Some chunk) (Some limit) =
        (if r + length chunk \<le> limit then Inr (r + length chunk) else Inl body_too_large_error)"
      using assms Cons.prems
      by (auto simp: update_received_body_bytes_def reject_def ok_or_def checked_add_def)
    with Cons.IH [of "r + length chunk"] show ?case by (auto simp: add.assoc)
  qed
  from this [of 0] show ?thesis by simp
qed

end
