(* ===== verification/Scp_Request.thy ===== *)
theory Scp_Request
  imports Types
begin

text \<open>
  Requests to the service communication proxy
  (\<^verbatim>\<open>crates/ngxora-runtime/src/upstreams/scp/request.rs\<close> and the errors of \<^verbatim>\<open>scp.rs\<close>): API roots, the
  validation of a profile, routing bindings, and the parsing of a request before any destination
  is selected.
\<close>

section \<open>Errors\<close>

record scp_error =
  xe_status :: nat
  xe_cause :: string
  xe_detail :: string

definition scp_error_new :: "nat \<Rightarrow> string \<Rightarrow> string \<Rightarrow> scp_error" where
  "scp_error_new status cause detail = \<lparr>xe_status = status, xe_cause = cause, xe_detail = detail\<rparr>"

definition scp_invalid :: "string \<Rightarrow> scp_error" where
  "scp_invalid detail = scp_error_new 400 ''MANDATORY_IE_INCORRECT'' detail"

definition nrf_unreachable :: scp_error where
  "nrf_unreachable = scp_error_new 504 ''NRF_NOT_REACHABLE'' ''No usable NRF snapshot''"

definition target_unreachable :: scp_error where
  "target_unreachable =
     scp_error_new 504 ''TARGET_NF_NOT_REACHABLE'' ''No reachable target in the allowed routing domain''"

definition DISCOVERY :: string where
  "DISCOVERY = ''3gpp-sbi-discovery-''"

definition TARGET :: string where
  "TARGET = ''3gpp-sbi-target-apiroot''"

section \<open>Standard string functions\<close>

text \<open>\<^verbatim>\<open>str::split_once(&str)\<close> and \<^verbatim>\<open>replace\<close> of a non-empty pattern.\<close>

fun split_once_str :: "string \<Rightarrow> string \<Rightarrow> (string \<times> string) option" where
  "split_once_str p [] = map_option (\<lambda>t. ([], t)) (strip_prefix p [])"
| "split_once_str p (c # s) =
     (case strip_prefix p (c # s) of
        Some t \<Rightarrow> Some ([], t)
      | None \<Rightarrow> map_option (\<lambda>(a, b). (c # a, b)) (split_once_str p s))"

lemma strip_prefix_shorter: "strip_prefix p s = Some t \<Longrightarrow> p \<noteq> [] \<Longrightarrow> length t < length s"
  by (cases p) (auto simp: strip_prefix_Some_iff)

function replace_str :: "string \<Rightarrow> string \<Rightarrow> string \<Rightarrow> string" where
  "replace_str p r [] = []"
| "replace_str p r (c # s) =
     (if p = [] then c # s
      else case strip_prefix p (c # s) of
             Some t \<Rightarrow> r @ replace_str p r t
           | None \<Rightarrow> c # replace_str p r s)"
  by pat_completeness auto
termination
  by (relation "measure (\<lambda>(p, r, s). length s)") (auto dest!: strip_prefix_shorter)

section \<open>API roots\<close>

record api_root =
  root_scheme :: string
  root_host :: string
  root_port :: nat
  root_prefix :: string

definition bad_root_byte :: "char \<Rightarrow> bool" where
  "bad_root_byte b \<longleftrightarrow> byte b \<le> 32 \<or> 127 \<le> byte b \<or>
     b = CHR 0x5C \<or> b = CHR ''%'' \<or> b = CHR ''?'' \<or> b = CHR ''#'' \<or> b = CHR ''@''"

definition parse_root_port :: "string \<Rightarrow> string \<Rightarrow> (string, nat) result" where
  "parse_root_port scheme authority =
     (let raw = (if starts_with ''['' authority then map_option snd (split_once_str '']:'' authority)
                 else map_option snd (split_once CHR '':'' authority))
      in case raw of
           None \<Rightarrow> Inr (if scheme = ''https'' then 443 else 80)
         | Some p \<Rightarrow> ok_or ''invalid apiRoot port'' (parse_unsigned u16_max p))"

definition api_root_parse :: "externals \<Rightarrow> string \<Rightarrow> (string, api_root) result" where
  "api_root_parse x value =
     and_then (reject (2048 < length value \<or> list_ex bad_root_byte value)
       ''apiRoot contains unsupported URI characters'') (\<lambda>_.
     and_then (ok_or ''invalid apiRoot'' (ext_uri_parts x value)) (\<lambda>u.
     and_then (ok_or ''apiRoot requires http:// or https://'' (up_scheme u)) (\<lambda>scheme.
     and_then (reject (scheme \<noteq> ''http'' \<and> scheme \<noteq> ''https'') ''invalid apiRoot scheme'') (\<lambda>_.
     and_then (ok_or ''apiRoot requires an authority'' (up_authority u)) (\<lambda>authority.
     let host = to_ascii_lowercase (trim_end_matches CHR '']'' (trim_start_matches CHR ''['' (up_host u)));
         prefix = trim_end_matches CHR ''/'' (up_path u)
     in
     and_then (reject (host = [] \<or> ends_with ''.'' host \<or> ends_with '':'' authority)
       ''invalid apiRoot host or port'') (\<lambda>_.
     and_then (parse_root_port scheme authority) (\<lambda>port.
     and_then (reject (port = 0) ''apiRoot port must be nonzero'') (\<lambda>_.
     and_then (reject (contains_str ''//'' prefix \<or>
         list_ex (\<lambda>p. p = ''.'' \<or> p = ''..'') (split_on CHR ''/'' prefix)) ''invalid apiRoot prefix'') (\<lambda>_.
     Inr \<lparr>root_scheme = scheme, root_host = host, root_port = port, root_prefix = prefix\<rparr>)))))))))"

definition root_authority :: "api_root \<Rightarrow> string" where
  "root_authority r =
     (let host = (if CHR '':'' \<in> set (root_host r) then ''['' @ root_host r @ '']'' else root_host r);
          default = (if root_scheme r = ''https'' then 443 else 80)
      in if root_port r = default then host else host @ '':'' @ show_nat (root_port r))"

definition root_value :: "api_root \<Rightarrow> string" where
  "root_value r = root_scheme r @ ''://'' @ root_authority r @ root_prefix r"

definition root_backend :: "api_root \<Rightarrow> compiled_upstream_server" where
  "root_backend r =
     \<lparr>cs_host = root_host r, cs_port = root_port r, cs_weight = 1,
      cs_api_prefix = (if root_prefix r = [] then None else Some (root_prefix r)), cs_nrf_service = None\<rparr>"

section \<open>Profiles\<close>

definition valid_profile_name :: "string \<Rightarrow> bool" where
  "valid_profile_name name \<longleftrightarrow>
     name \<noteq> [] \<and> list_all (\<lambda>b. is_ascii_alphanumeric b \<or> b = CHR ''_'' \<or> b = CHR ''-'') name"

text \<open>One turn of the loop over the discovery upstreams; \<open>seen\<close> are the combinations so far.\<close>

definition check_discovery_upstream ::
  "(string, compiled_upstream_group) hmap \<Rightarrow> (string \<times> string \<times> string) list \<Rightarrow> string \<Rightarrow>
   (string, (string \<times> string \<times> string) list) result" where
  "check_discovery_upstream upstreams seen name =
     and_then (ok_or (''scp references unknown discovery upstream `'' @ name @ ''`'')
       (hm_get upstreams name)) (\<lambda>grp.
     and_then (ok_or (''scp upstream `'' @ name @ ''` requires nrf_discovery'') (cg_nrf_discovery grp)) (\<lambda>nrf.
     let combination = (cn_target_nf_type nrf, cn_service_name nrf, cn_requester_nf_type nrf)
     in and_then (reject (combination \<in> set seen)
          ''scp discovery upstreams have ambiguous NF/service/requester combinations'') (\<lambda>_.
        Inr (combination # seen))))"

definition check_allowed_root :: "externals \<Rightarrow> api_root \<Rightarrow> string list \<Rightarrow> string \<Rightarrow> (string, string list) result" where
  "check_allowed_root x root roots value =
     and_then (api_root_parse x value) (\<lambda>target.
     and_then (reject (root_host target = root_host root \<and> root_port target = root_port root)
       ''scp cannot target its own authority'') (\<lambda>_.
     and_then (reject (root_value target \<in> set roots) ''duplicate scp allowed target'') (\<lambda>_.
     Inr (root_value target # roots))))"

definition validate_profile ::
  "externals \<Rightarrow> scp_profile \<Rightarrow> (string, compiled_upstream_group) hmap \<Rightarrow> (string, unit) result" where
  "validate_profile x profile upstreams =
     and_then (reject (\<not> valid_profile_name (sp_name profile))
       ''scp name must contain only letters, digits, underscore or hyphen'') (\<lambda>_.
     and_then (api_root_parse x (sp_api_root profile)) (\<lambda>root.
     and_then (fold_res (check_discovery_upstream upstreams) [] (sp_discovery_upstreams profile)) (\<lambda>_.
     and_then (fold_res (check_allowed_root x root) [] (sp_allowed_target_api_roots profile)) (\<lambda>roots.
     reject (sp_discovery_upstreams profile = [] \<and> roots = [])
       ''scp requires discovery_upstream or allow_target_api_root''))))"

section \<open>Header values and bindings\<close>

definition single :: "externals \<Rightarrow> header_map \<Rightarrow> string \<Rightarrow> (scp_error, string option) result" where
  "single x headers name =
     (case hdr_get_all headers name of
        [] \<Rightarrow> Inr None
      | first # rest \<Rightarrow>
          and_then (reject (rest \<noteq> []) (scp_invalid (''Duplicate '' @ name))) (\<lambda>_.
          and_then (ok_or (scp_invalid (''Invalid '' @ name)) (ext_to_str x first)) (\<lambda>text.
          let value = trim text
          in and_then (reject (value = [] \<or> 2048 < length value) (scp_invalid (''Invalid '' @ name))) (\<lambda>_.
             Inr (Some value)))))"

definition sbi_token :: "string \<Rightarrow> bool" where
  "sbi_token value \<longleftrightarrow>
     value \<noteq> [] \<and> length value \<le> 256 \<and>
     list_all (\<lambda>b. is_ascii_alphanumeric b \<or> b = CHR ''-'' \<or> b = CHR ''_'' \<or> b = CHR ''.'') value"

record binding =
  bi_nf :: "string option"
  bi_service :: "string option"
  bi_service_name :: "string option"

definition binding_part :: "(string, string) hmap \<Rightarrow> string \<Rightarrow> (scp_error, (string, string) hmap) result" where
  "binding_part fs part =
     and_then (ok_or (scp_invalid ''Malformed routing binding'') (split_once CHR ''='' (trim part))) (\<lambda>(key, value).
     and_then (reject (\<not> sbi_token value \<or> hm_get fs key \<noteq> None)
       (scp_invalid ''Invalid or duplicate binding parameter'')) (\<lambda>_.
     and_then (reject (key \<noteq> ''bl'' \<and> key \<noteq> ''nfinst'' \<and> key \<noteq> ''nfservinst'' \<and> key \<noteq> ''servname'')
       (scp_invalid ''Unsupported binding parameter'')) (\<lambda>_.
     Inr (hm_insert key value fs))))"

definition parse_binding :: "string \<Rightarrow> (scp_error, binding) result" where
  "parse_binding value =
     and_then (fold_res binding_part [] (split_on CHR '';'' value)) (\<lambda>fs.
     let level = (case hm_get fs ''bl'' of None \<Rightarrow> [] | Some l \<Rightarrow> l)
     in and_then (reject (\<not> (level = ''nf-instance'' \<or> level = ''nfservice-instance'') \<or>
            hm_get fs ''nfinst'' = None \<or>
            level = ''nfservice-instance'' \<and> hm_get fs ''nfservinst'' = None \<or>
            level = ''nf-instance'' \<and> hm_get fs ''nfservinst'' \<noteq> None)
          (scp_invalid ''Unsupported or incomplete routing binding'')) (\<lambda>_.
        Inr \<lparr>bi_nf = hm_get fs ''nfinst'', bi_service = hm_get fs ''nfservinst'',
             bi_service_name = hm_get fs ''servname''\<rparr>))"

section \<open>Requests\<close>

record nrf_query =
  nq_nf_instance_id :: "string option"
  nq_requester_instance_id :: "string option"
  nq_service_instance_id :: "string option"
  nq_api_version :: string
  nq_service_names :: "string list"

record scp_request =
  sq_target :: "api_root option"
  sq_target_type :: "string option"
  sq_requester_type :: "string option"
  sq_query :: nrf_query
  sq_discovery :: bool
  sq_bound :: bool
  sq_path_query :: string
  sq_hops :: nat

definition check_header_name :: "string \<Rightarrow> (scp_error, unit) result" where
  "check_header_name name =
     and_then (reject (case strip_prefix DISCOVERY name of
           None \<Rightarrow> False
         | Some selector \<Rightarrow>
             selector \<notin> set [''target-nf-type'', ''requester-nf-type'', ''service-names'',
               ''target-nf-instance-id'', ''requester-nf-instance-id''])
       (scp_error_new 400 ''INVALID_DISCOVERY_PARAM'' ''Unsupported discovery parameter'')) (\<lambda>_.
     reject (name \<in> set [''3gpp-sbi-nrf-uri'', ''3gpp-sbi-scp-apiroot'', ''3gpp-sbi-selection-info''])
       (scp_invalid ''Request-driven NRF or next-hop selection is unsupported''))"

definition parse_target :: "externals \<Rightarrow> header_map \<Rightarrow> api_root \<Rightarrow> (scp_error, api_root option) result" where
  "parse_target x headers root =
     and_then (single x headers TARGET) (\<lambda>v.
     and_then (case v of
         None \<Rightarrow> Inr None
       | Some text \<Rightarrow> map_err scp_invalid (and_then (api_root_parse x text) (\<lambda>r. Inr (Some r)))) (\<lambda>target.
     and_then (reject (case target of
           None \<Rightarrow> False
         | Some t \<Rightarrow> root_host t = root_host root \<and> root_port t = root_port root)
       (scp_error_new 508 ''UNSPECIFIED_MSG_FAILURE'' ''SCP routing loop'')) (\<lambda>_.
     Inr target)))"

definition parse_hops :: "externals \<Rightarrow> header_map \<Rightarrow> (scp_error, nat) result" where
  "parse_hops x headers =
     and_then (single x headers ''3gpp-sbi-max-forward-hops'') (\<lambda>v.
     and_then (case v of
         None \<Rightarrow> Inr 1
       | Some text \<Rightarrow> ok_or (scp_invalid ''Invalid hop count'') (parse_unsigned 255 text)) (\<lambda>hops.
     and_then (reject (hops = 0)
       (scp_error_new 508 ''UNSPECIFIED_MSG_FAILURE'' ''SCP hop limit exhausted'')) (\<lambda>_.
     Inr hops)))"

definition checked_path :: "string \<Rightarrow> string" where
  "checked_path path = replace_str ''%2e'' ''.'' (to_ascii_lowercase path)"

definition parse_path :: "uri \<Rightarrow> api_root \<Rightarrow> (scp_error, string) result" where
  "parse_path u root =
     and_then (ok_or (scp_invalid ''Request path is outside the configured SCP apiRoot'')
       (case strip_prefix (root_prefix root) (u_path u) of
          None \<Rightarrow> None
        | Some p \<Rightarrow> if p = [] \<or> starts_with ''/'' p then Some p else None)) (\<lambda>p.
     let path = (if p = [] then ''/'' else p); checked = checked_path path
     in and_then (reject (CHR 0x5C \<in> set checked \<or> contains_str ''%2f'' checked \<or> contains_str ''%5c'' checked \<or>
            list_ex (\<lambda>segment. segment = ''.'' \<or> segment = ''..'') (split_on CHR ''/'' checked))
          (scp_invalid ''Ambiguous or traversing request path'')) (\<lambda>_.
        Inr path))"

definition forwarded_query :: "uri \<Rightarrow> string option" where
  "forwarded_query u =
     map_option (\<lambda>q. join_with ''&'' (filter (\<lambda>part. hd (split_on CHR ''='' part) \<noteq> ''ck'')
       (split_on CHR ''&'' q))) (u_query u)"

definition path_query :: "string \<Rightarrow> uri \<Rightarrow> string" where
  "path_query path u =
     (case forwarded_query u of
        None \<Rightarrow> path
      | Some q \<Rightarrow> if q = [] then path else path @ ''?'' @ q)"

definition read_selector ::
  "externals \<Rightarrow> header_map \<Rightarrow> (string, string) hmap \<Rightarrow> string \<Rightarrow> (scp_error, (string, string) hmap) result" where
  "read_selector x headers selectors name =
     and_then (single x headers (DISCOVERY @ name)) (\<lambda>v.
       case v of
         None \<Rightarrow> Inr selectors
       | Some value \<Rightarrow>
           and_then (reject (\<not> sbi_token value) (scp_invalid ''Invalid discovery selector'')) (\<lambda>_.
           Inr (hm_insert name value selectors)))"

definition parse_service_names :: "string option \<Rightarrow> (scp_error, string list) result" where
  "parse_service_names names =
     (let service_names = (case names of None \<Rightarrow> [] | Some v \<Rightarrow> map trim (split_on CHR '','' v))
      in and_then (reject (list_ex (\<lambda>n. \<not> sbi_token n) service_names \<or> 16 < length service_names \<or>
             \<not> distinct service_names) (scp_invalid ''Invalid service-names'')) (\<lambda>_.
         Inr service_names))"

text \<open>The service and version of the path, checked against the service names of a discovery request.\<close>

definition parse_api :: "string \<Rightarrow> string list \<Rightarrow> (scp_error, string \<times> string list) result" where
  "parse_api path service_names =
     (let parts = split_on CHR ''/'' (trim_start_matches CHR ''/'' path);
          service = hd parts;
          version = (case tl parts of [] \<Rightarrow> [] | v # _ \<Rightarrow> v)
      in and_then (reject (\<not> sbi_token service \<or>
             (case strip_prefix ''v'' version of
                None \<Rightarrow> True
              | Some v \<Rightarrow> v = [] \<or> \<not> list_all is_ascii_digit v))
           (scp_error_new 400 ''INVALID_API'' ''Expected /service/vN/resource'')) (\<lambda>_.
         let names = (if service_names = [] then [service] else service_names)
         in and_then (reject (hd names \<noteq> service)
              (scp_error_new 400 ''INVALID_API'' ''First service name differs from request API'')) (\<lambda>_.
            Inr (version, names))))"

text \<open>The instance identifiers, from the selector and the binding, which must agree.\<close>

definition bound_instance ::
  "string option \<Rightarrow> binding option \<Rightarrow> string list \<Rightarrow> (scp_error, string option \<times> string option) result" where
  "bound_instance selector bnd service_names =
     (case bnd of
        None \<Rightarrow> Inr (selector, None)
      | Some b \<Rightarrow>
          and_then (reject ((case selector of None \<Rightarrow> False | Some i \<Rightarrow> Some i \<noteq> bi_nf b) \<or>
              (case bi_service_name b of
                 None \<Rightarrow> False
               | Some n \<Rightarrow> (case service_names of [] \<Rightarrow> True | first # _ \<Rightarrow> n \<noteq> first)))
            (scp_invalid ''Binding conflicts with discovery'')) (\<lambda>_.
          Inr (bi_nf b, bi_service b)))"

definition scp_request_parse ::
  "externals \<Rightarrow> header_map \<Rightarrow> string \<Rightarrow> uri \<Rightarrow> api_root \<Rightarrow> (scp_error, scp_request) result" where
  "scp_request_parse x headers method u root =
     and_then (reject (method = ''CONNECT'')
       (scp_error_new 405 ''UNSPECIFIED_MSG_FAILURE'' ''CONNECT is not supported by SCP'')) (\<lambda>_.
     and_then (map_res (\<lambda>(name, _). check_header_name name) headers) (\<lambda>_.
     and_then (parse_target x headers root) (\<lambda>target.
     and_then (parse_hops x headers) (\<lambda>hops.
     and_then (parse_path u root) (\<lambda>path.
     and_then (fold_res (read_selector x headers) []
       [''target-nf-type'', ''requester-nf-type'', ''target-nf-instance-id'', ''requester-nf-instance-id'']) (\<lambda>selectors.
     and_then (single x headers ''3gpp-sbi-discovery-service-names'') (\<lambda>names.
     and_then (single x headers ''3gpp-sbi-routing-binding'') (\<lambda>raw_binding.
     and_then (case raw_binding of
         None \<Rightarrow> Inr None
       | Some v \<Rightarrow> and_then (parse_binding v) (\<lambda>b. Inr (Some b))) (\<lambda>bnd.
     let discovery = (target = None \<or> selectors \<noteq> [] \<or> names \<noteq> None \<or> bnd \<noteq> None)
     in
     and_then (parse_service_names names) (\<lambda>service_names0.
     and_then (if discovery \<or> target = None then parse_api path service_names0 else Inr ([], service_names0))
       (\<lambda>(api_version, service_names).
     and_then (bound_instance (hm_get selectors ''target-nf-instance-id'') bnd service_names)
       (\<lambda>(nf_instance_id, service_instance_id).
     Inr \<lparr>sq_target = target,
          sq_target_type = hm_get selectors ''target-nf-type'',
          sq_requester_type = hm_get selectors ''requester-nf-type'',
          sq_query = \<lparr>nq_nf_instance_id = nf_instance_id,
            nq_requester_instance_id = hm_get selectors ''requester-nf-instance-id'',
            nq_service_instance_id = service_instance_id, nq_api_version = api_version,
            nq_service_names = service_names\<rparr>,
          sq_discovery = discovery, sq_bound = (bnd \<noteq> None),
          sq_path_query = path_query path u, sq_hops = hops - 1\<rparr>))))))))))))"

section \<open>Traversal-free paths\<close>

text \<open>
  The reference for what a server may make of a path: percent-decoding, once, in any letter case.
\<close>

definition hex_val :: "char \<Rightarrow> nat option" where
  "hex_val c =
     (if is_ascii_digit c then Some (byte c - 48)
      else if 97 \<le> byte c \<and> byte c \<le> 102 then Some (byte c - 87)
      else if 65 \<le> byte c \<and> byte c \<le> 70 then Some (byte c - 55)
      else None)"

definition pct_char :: "char \<Rightarrow> char \<Rightarrow> char option" where
  "pct_char h l =
     (case (hex_val h, hex_val l) of (Some a, Some b) \<Rightarrow> Some (char_of (16 * a + b)) | _ \<Rightarrow> None)"

fun pct_decode :: "string \<Rightarrow> string" where
  "pct_decode [] = []"
| "pct_decode [c] = [c]"
| "pct_decode [c, d] = [c, d]"
| "pct_decode (c # h # l # s) =
     (if c = CHR ''%'' then
        (case pct_char h l of Some d \<Rightarrow> d # pct_decode s | None \<Rightarrow> c # pct_decode (h # l # s))
      else c # pct_decode (h # l # s))"

lemma contains_str_iff: "contains_str p s \<longleftrightarrow> (\<exists>a b. s = a @ p @ b)"
proof (induction s)
  case Nil
  then show ?case by auto
next
  case (Cons c s)
  have "(\<exists>a b. c # s = a @ p @ b) \<longleftrightarrow> (\<exists>b. c # s = p @ b) \<or> (\<exists>a b. s = a @ p @ b)"
    by (metis append_Cons append_Nil neq_Nil_conv list.inject)
  with Cons show ?case by (auto simp: starts_with_iff)
qed

lemma byte_eqD: "byte c = n \<Longrightarrow> c = char_of n"
  by (auto simp: byte_def)

lemma hex_val_lower:
  "hex_val c = Some 2 \<Longrightarrow> ascii_lower_byte c = CHR ''2''"
  "hex_val c = Some 5 \<Longrightarrow> ascii_lower_byte c = CHR ''5''"
  "hex_val c = Some 12 \<Longrightarrow> ascii_lower_byte c = CHR ''c''"
  "hex_val c = Some 14 \<Longrightarrow> ascii_lower_byte c = CHR ''e''"
  "hex_val c = Some 15 \<Longrightarrow> ascii_lower_byte c = CHR ''f''"
proof -
  have *: "hex_val c = Some n \<Longrightarrow> n < 10 \<and> byte c = 48 + n \<or> 10 \<le> n \<and> (byte c = 87 + n \<or> byte c = 55 + n)" for n
    by (auto simp: hex_val_def is_ascii_digit_def split: if_splits)
  have low: "ascii_lower_byte CHR ''2'' = CHR ''2''" "ascii_lower_byte CHR ''5'' = CHR ''5''"
    "ascii_lower_byte CHR ''c'' = CHR ''c''" "ascii_lower_byte CHR ''C'' = CHR ''c''"
    "ascii_lower_byte CHR ''e'' = CHR ''e''" "ascii_lower_byte CHR ''E'' = CHR ''e''"
    "ascii_lower_byte CHR ''f'' = CHR ''f''" "ascii_lower_byte CHR ''F'' = CHR ''f''"
    by code_simp+
  have chars: "char_of (50::nat) = CHR ''2''" "char_of (53::nat) = CHR ''5''"
    "char_of (99::nat) = CHR ''c''" "char_of (67::nat) = CHR ''C''"
    "char_of (101::nat) = CHR ''e''" "char_of (69::nat) = CHR ''E''"
    "char_of (102::nat) = CHR ''f''" "char_of (70::nat) = CHR ''F''"
    by code_simp+
  show "hex_val c = Some 2 \<Longrightarrow> ascii_lower_byte c = CHR ''2''" by (auto dest!: * byte_eqD simp: chars low)
  show "hex_val c = Some 5 \<Longrightarrow> ascii_lower_byte c = CHR ''5''" by (auto dest!: * byte_eqD simp: chars low)
  show "hex_val c = Some 12 \<Longrightarrow> ascii_lower_byte c = CHR ''c''" by (auto dest!: * byte_eqD simp: chars low)
  show "hex_val c = Some 14 \<Longrightarrow> ascii_lower_byte c = CHR ''e''" by (auto dest!: * byte_eqD simp: chars low)
  show "hex_val c = Some 15 \<Longrightarrow> ascii_lower_byte c = CHR ''f''" by (auto dest!: * byte_eqD simp: chars low)
qed

lemma hex_val_bound: "hex_val c = Some n \<Longrightarrow> n < 16"
  by (auto simp: hex_val_def is_ascii_digit_def split: if_splits)

lemma pct_char_lower:
  "pct_char h l = Some CHR ''.'' \<Longrightarrow> to_ascii_lowercase [CHR ''%'', h, l] = ''%2e''"
  "pct_char h l = Some CHR ''/'' \<Longrightarrow> to_ascii_lowercase [CHR ''%'', h, l] = ''%2f''"
  "pct_char h l = Some CHR 0x5C \<Longrightarrow> to_ascii_lowercase [CHR ''%'', h, l] = ''%5c''"
proof -
  have digits: "hex_val h = Some (n div 16) \<and> hex_val l = Some (n mod 16)"
    if d: "pct_char h l = Some (char_of n)" and n: "n < 256" for n
  proof -
    from d obtain a b where ab: "hex_val h = Some a" "hex_val l = Some b"
      and e: "char_of (16 * a + b) = (char_of n :: char)"
      by (auto simp: pct_char_def split: option.splits)
    from ab have lt: "a < 16" "b < 16" by (auto dest: hex_val_bound)
    from e have "of_char (char_of (16 * a + b) :: char) = (of_char (char_of n :: char) :: nat)" by simp
    with lt n have "16 * a + b = n" by (simp add: of_char_of)
    with lt ab show ?thesis by auto
  qed
  have pc: "ascii_lower_byte CHR ''%'' = CHR ''%''" by code_simp
  have chars: "CHR ''.'' = char_of (46::nat)" "CHR ''/'' = char_of (47::nat)" "CHR 0x5C = char_of (92::nat)"
    by code_simp+
  show "pct_char h l = Some CHR ''.'' \<Longrightarrow> to_ascii_lowercase [CHR ''%'', h, l] = ''%2e''"
    using digits [of 46] hex_val_lower(1,4) pc by (auto simp: chars to_ascii_lowercase_def)
  show "pct_char h l = Some CHR ''/'' \<Longrightarrow> to_ascii_lowercase [CHR ''%'', h, l] = ''%2f''"
    using digits [of 47] hex_val_lower(1,5) pc by (auto simp: chars to_ascii_lowercase_def)
  show "pct_char h l = Some CHR 0x5C \<Longrightarrow> to_ascii_lowercase [CHR ''%'', h, l] = ''%5c''"
    using digits [of 92] hex_val_lower(2,3) pc by (auto simp: chars to_ascii_lowercase_def)
qed

lemma lowercase_append: "to_ascii_lowercase (a @ b) = to_ascii_lowercase a @ to_ascii_lowercase b"
  by (simp add: to_ascii_lowercase_def)

lemma pct_decode_Nil: "pct_decode s = [] \<Longrightarrow> s = []"
  by (cases s rule: pct_decode.cases) (auto split: if_splits option.splits)

lemma pct_decode_dot:
  assumes "pct_decode s = CHR ''.'' # r"
  shows "\<exists>a b. s = a @ b \<and> to_ascii_lowercase a \<in> {''.'', ''%2e''} \<and> pct_decode b = r"
proof -
  have dot: "to_ascii_lowercase ''.'' = ''.''" by code_simp
  have "(\<exists>t. s = CHR ''.'' # t \<and> pct_decode t = r) \<or>
    (\<exists>h l t. s = CHR ''%'' # h # l # t \<and> pct_char h l = Some CHR ''.'' \<and> pct_decode t = r)"
    using assms by (cases s rule: pct_decode.cases) (auto split: if_splits option.splits)
  then show ?thesis
  proof (elim disjE exE conjE)
    fix t assume "s = CHR ''.'' # t" "pct_decode t = r"
    with dot show ?thesis by (intro exI [of _ "''.''"] exI [of _ t]) simp
  next
    fix h l t assume "s = CHR ''%'' # h # l # t" "pct_char h l = Some CHR ''.''" "pct_decode t = r"
    with pct_char_lower(1) [of h l] show ?thesis by (intro exI [of _ "[CHR ''%'', h, l]"] exI [of _ t]) simp
  qed
qed

lemma checked_path_dot:
  "to_ascii_lowercase a \<in> {''.'', ''%2e''} \<Longrightarrow> checked_path (a @ b) = CHR ''.'' # checked_path b"
  by (auto simp: checked_path_def lowercase_append)

lemma checked_path_Nil [simp]: "checked_path [] = []"
  by (simp add: checked_path_def to_ascii_lowercase_def)

lemma checked_dots:
  assumes "pct_decode seg = ''.'' \<or> pct_decode seg = ''..''"
  shows "checked_path seg = ''.'' \<or> checked_path seg = ''..''"
proof -
  from assms obtain r where r: "pct_decode seg = CHR ''.'' # r" "r = [] \<or> r = ''.''" by auto
  from pct_decode_dot [OF r(1)] obtain a b where ab: "seg = a @ b" "to_ascii_lowercase a \<in> {''.'', ''%2e''}" "pct_decode b = r"
    by blast
  from r(2) show ?thesis
  proof
    assume "r = []"
    with ab pct_decode_Nil [of b] checked_path_dot [OF ab(2), of b] show ?thesis by simp
  next
    assume "r = ''.''"
    with ab have "pct_decode b = CHR ''.'' # []" by simp
    from pct_decode_dot [OF this] obtain c d where "b = c @ d" "to_ascii_lowercase c \<in> {''.'', ''%2e''}" "pct_decode d = []"
      by blast
    with ab pct_decode_Nil [of d] checked_path_dot [OF ab(2), of b] checked_path_dot [of c d] show ?thesis by simp
  qed
qed

lemma pct_decode_new:
  "d \<in> set (pct_decode s) \<Longrightarrow> d \<notin> set s \<Longrightarrow> \<exists>a h l b. s = a @ [CHR ''%'', h, l] @ b \<and> pct_char h l = Some d"
proof (induction s rule: pct_decode.induct)
  case (4 c h l s)
  have step: "\<exists>a h' l' b. c # h # l # s = a @ [CHR ''%'', h', l'] @ b \<and> pct_char h' l' = Some d"
    if "pre @ t = c # h # l # s" "\<exists>a h' l' b. t = a @ [CHR ''%'', h', l'] @ b \<and> pct_char h' l' = Some d" for pre t
    using that by (metis append.assoc)
  show ?case
  proof (cases "c = CHR ''%'' \<and> pct_char h l \<noteq> None")
    case True
    then obtain e where e: "pct_char h l = Some e" by auto
    show ?thesis
    proof (cases "e = d")
      case True
      with e \<open>c = CHR ''%'' \<and> _\<close> show ?thesis by (intro exI [of _ "[]"] exI [of _ h] exI [of _ l] exI [of _ s]) simp
    next
      case False
      with 4 e True have "\<exists>a h' l' b. s = a @ [CHR ''%'', h', l'] @ b \<and> pct_char h' l' = Some d" by simp
      then show ?thesis by (intro step [of "[c, h, l]" s]) simp_all
    qed
  next
    case False
    with 4 have "\<exists>a h' l' b. h # l # s = a @ [CHR ''%'', h', l'] @ b \<and> pct_char h' l' = Some d"
      by (auto split: if_splits option.splits)
    then show ?thesis by (intro step [of "[c]" "h # l # s"]) simp_all
  qed
qed auto

lemma replace_str_keeps:
  "d \<in> set s \<Longrightarrow> d \<notin> set p \<Longrightarrow> d \<in> set (replace_str p r s)"
proof (induction p r s rule: replace_str.induct)
  case (2 p r c s)
  show ?case
  proof (cases "p = [] \<or> strip_prefix p (c # s) = None")
    case True
    with 2 show ?thesis by (auto split: option.splits)
  next
    case False
    then obtain t where t: "strip_prefix p (c # s) = Some t" by auto
    then have "c # s = p @ t" by (simp add: strip_prefix_Some_iff)
    with 2(3,4) have "d \<in> set t" by (metis Un_iff set_append)
    with 2 False t show ?thesis by simp
  qed
qed auto

text \<open>An escape other than the replaced one survives the replacement, for they cannot overlap.\<close>

lemma replace_str_escape:
  "contains_str [CHR ''%'', h, l] s \<Longrightarrow> h \<noteq> CHR ''%'' \<Longrightarrow> l \<noteq> CHR ''%'' \<Longrightarrow> [h, l] \<noteq> ''2e'' \<Longrightarrow>
   contains_str [CHR ''%'', h, l] (replace_str ''%2e'' r s)"
proof (induction "''%2e''" r s rule: replace_str.induct)
  case (2 r c s)
  from 2(3) obtain a b where ab: "c # s = a @ [CHR ''%'', h, l] @ b" by (auto simp: contains_str_iff)
  have keep: "contains_str q (pre @ t)" if "contains_str q t" for q pre t :: string
    using that by (auto simp: contains_str_iff) (metis append.assoc)
  show ?case
  proof (cases "strip_prefix ''%2e'' (c # s)")
    case None
    show ?thesis
    proof (cases a)
      case Nil
      with ab have cs: "c = CHR ''%''" "s = h # l # b" by auto
      with 2(4-6) None have "replace_str ''%2e'' r (c # s) = [CHR ''%'', h, l] @ replace_str ''%2e'' r b"
        by simp
      then show ?thesis by (auto simp: contains_str_iff)
    next
      case (Cons a0 a')
      with ab have "contains_str [CHR ''%'', h, l] s" by (auto simp: contains_str_iff)
      from 2(1) [OF _ None this] 2(4-6) None keep [of _ _ "[c]"] show ?thesis by simp
    qed
  next
    case (Some t)
    then have t: "c # s = ''%2e'' @ t" by (simp only: strip_prefix_Some_iff)
    obtain a' where "a = ''%2e'' @ a'" "t = a' @ [CHR ''%'', h, l] @ b"
      using ab t 2(4-6) by (cases a rule: pct_decode.cases) (auto simp: Cons_eq_append_conv)
    then have "contains_str [CHR ''%'', h, l] t" by (auto simp: contains_str_iff)
    from 2(2) [OF _ Some this] 2(4-6) Some keep [of _ _ r] show ?thesis by simp
  qed
qed (simp add: starts_with_iff)

lemma split_on_segment: "seg \<in> set (split_on c s) \<Longrightarrow> c \<notin> set seg \<and> (\<exists>a b. s = a @ seg @ b)"
proof (induction s arbitrary: seg)
  case Nil
  then show ?case by auto
next
  case (Cons d s)
  show ?case
  proof (cases "d = c")
    case True
    with Cons show ?thesis by (auto; metis append_Cons append_Nil)
  next
    case False
    obtain p ps where pps: "split_on c s = p # ps" by (meson neq_Nil_conv split_on_nonempty)
    have "\<exists>b. s = p @ b" using pps
    proof (induction s arbitrary: p ps)
      case (Cons e s)
      then show ?case by (auto split: if_splits list.splits)
    qed auto
    with Cons False pps show ?thesis by (auto; metis append_Cons append_Nil)
  qed
qed

lemma split_on_map:
  "(\<And>d. f d = c \<longleftrightarrow> d = c) \<Longrightarrow> split_on c (map f s) = map (map f) (split_on c s)"
  by (induction s) (auto split: list.splits)

lemma split_on_prefix: "c \<notin> set p \<Longrightarrow> split_on c (p @ t) = (p @ hd (split_on c t)) # tl (split_on c t)"
  by (induction p) (auto split: list.splits)

lemma split_on_head: "\<exists>b. s = hd (split_on c s) @ b"
proof (induction s)
  case (Cons d s)
  then show ?case by (cases "split_on c s") auto
qed simp

lemma split_on_replace:
  "p \<noteq> [] \<Longrightarrow> c \<notin> set p \<Longrightarrow> c \<notin> set r \<Longrightarrow>
   split_on c (replace_str p r s) = map (replace_str p r) (split_on c s)"
proof (induction p r s rule: replace_str.induct)
  case (2 p r d s)
  obtain q qs where qqs: "split_on c s = q # qs" by (meson neq_Nil_conv split_on_nonempty)
  show ?case
  proof (cases "strip_prefix p (d # s)")
    case (Some t)
    then have t: "d # s = p @ t" by (simp add: strip_prefix_Some_iff)
    obtain u us where uus: "split_on c t = u # us" by (meson neq_Nil_conv split_on_nonempty)
    obtain p0 p' where p: "p = p0 # p'" using 2(3) by (cases p) auto
    have rep: "replace_str p r (p @ u) = r @ replace_str p r u"
      using p strip_prefix_append [of p u] by simp
    have "split_on c (d # s) = (p @ u) # us"
      using t 2(4) uus by (simp add: split_on_prefix)
    moreover have "split_on c (r @ replace_str p r t) = (r @ replace_str p r u) # map (replace_str p r) us"
      using 2(2) [OF _ Some] 2(3-5) uus by (simp add: split_on_prefix)
    ultimately show ?thesis using Some 2(3) rep by simp
  next
    case None
    show ?thesis
    proof (cases "d = c")
      case True
      with None 2 qqs show ?thesis by simp
    next
      case False
      from split_on_head [of s c] qqs obtain b where "s = q @ b" by auto
      with None have "strip_prefix p (d # q) = None"
        by (auto simp: strip_prefix_None_iff) (metis append.assoc append_Cons)
      with None False 2 qqs show ?thesis by simp
    qed
  qed
qed simp

lemma lower_other:
  assumes "\<not> is_ascii_upper c" and "\<not> is_ascii_lower c"
  shows "ascii_lower_byte d = c \<longleftrightarrow> d = c"
proof -
  have "is_ascii_upper d \<Longrightarrow> is_ascii_lower (ascii_lower_byte d)"
    by (simp add: ascii_lower_byte_def is_ascii_upper_def is_ascii_lower_def byte_def of_char_of)
  with assms show ?thesis by (auto simp: ascii_lower_byte_def)
qed

lemma lower_slash: "ascii_lower_byte d = CHR ''/'' \<longleftrightarrow> d = CHR ''/''"
  by (rule lower_other; code_simp)

lemma lower_backslash: "ascii_lower_byte CHR 0x5C = CHR 0x5C"
  by code_simp

lemma split_checked_path: "split_on CHR ''/'' (checked_path s) = map checked_path (split_on CHR ''/'' s)"
  by (simp add: checked_path_def [abs_def] to_ascii_lowercase_def split_on_replace
      split_on_map [of ascii_lower_byte, OF lower_slash])

lemma checked_path_escape:
  assumes "pct_char h l = Some d" and "to_ascii_lowercase [CHR ''%'', h, l] = [CHR ''%'', h', l']"
    and "h' \<noteq> CHR ''%''" and "l' \<noteq> CHR ''%''" and "[h', l'] \<noteq> ''2e''"
    and "s = a @ [CHR ''%'', h, l] @ b"
  shows "contains_str [CHR ''%'', h', l'] (checked_path s)"
proof -
  have "to_ascii_lowercase s = to_ascii_lowercase a @ [CHR ''%'', h', l'] @ to_ascii_lowercase b"
    unfolding assms(6) lowercase_append assms(2) ..
  then have "contains_str [CHR ''%'', h', l'] (to_ascii_lowercase s)" by (auto simp: contains_str_iff)
  with assms(3-5) show ?thesis unfolding checked_path_def by (intro replace_str_escape)
qed

text \<open>What the check of the path lets through has only harmless segments, also once decoded.\<close>

lemma checked_path_safe:
  assumes bs: "CHR 0x5C \<notin> set (checked_path path)"
    and f: "\<not> contains_str ''%2f'' (checked_path path)" and c: "\<not> contains_str ''%5c'' (checked_path path)"
    and dots: "\<not> list_ex (\<lambda>s. s = ''.'' \<or> s = ''..'') (split_on CHR ''/'' (checked_path path))"
    and seg: "seg \<in> set (split_on CHR ''/'' path)"
  shows "pct_decode seg \<noteq> ''.''" and "pct_decode seg \<noteq> ''..''"
    and "CHR ''/'' \<notin> set (pct_decode seg)" and "CHR 0x5C \<notin> set (pct_decode seg)"
proof -
  from seg have "checked_path seg \<in> set (split_on CHR ''/'' (checked_path path))"
    by (simp add: split_checked_path)
  with dots have nd: "\<not> (checked_path seg = ''.'' \<or> checked_path seg = ''..'')"
    by (auto simp: list_ex_iff)
  with checked_dots [of seg] show "pct_decode seg \<noteq> ''.''" and "pct_decode seg \<noteq> ''..''" by auto
  from split_on_segment [OF seg] obtain a b where ab: "path = a @ seg @ b" and ns: "CHR ''/'' \<notin> set seg"
    by auto
  show "CHR ''/'' \<notin> set (pct_decode seg)"
  proof
    assume "CHR ''/'' \<in> set (pct_decode seg)"
    from pct_decode_new [OF this ns] obtain a' h l b' where
      s: "seg = a' @ [CHR ''%'', h, l] @ b'" and pc: "pct_char h l = Some CHR ''/''" by blast
    have "contains_str ''%2f'' (checked_path path)"
      by (rule checked_path_escape [OF pc pct_char_lower(2) [OF pc], where a = "a @ a'" and b = "b' @ b"])
        (simp_all add: ab s)
    with f show False by simp
  qed
  have nb: "CHR 0x5C \<notin> set path"
  proof
    assume "CHR 0x5C \<in> set path"
    then have "CHR 0x5C \<in> set (to_ascii_lowercase path)"
      using lower_backslash by (force simp: to_ascii_lowercase_def)
    then have "CHR 0x5C \<in> set (checked_path path)"
      unfolding checked_path_def by (rule replace_str_keeps) simp
    with bs show False by simp
  qed
  show "CHR 0x5C \<notin> set (pct_decode seg)"
  proof
    assume "CHR 0x5C \<in> set (pct_decode seg)"
    from pct_decode_new [OF this] nb ab obtain a' h l b' where
      s: "seg = a' @ [CHR ''%'', h, l] @ b'" and pc: "pct_char h l = Some CHR 0x5C" by auto
    have "contains_str ''%5c'' (checked_path path)"
      by (rule checked_path_escape [OF pc pct_char_lower(3) [OF pc], where a = "a @ a'" and b = "b' @ b"])
        (simp_all add: ab s)
    with c show False by simp
  qed
qed

section \<open>Claims\<close>

lemma parse_path_safe:
  assumes "parse_path u root = Inr path" and "seg \<in> set (split_on CHR ''/'' path)"
  shows "pct_decode seg \<noteq> ''.''" and "pct_decode seg \<noteq> ''..''"
    and "CHR ''/'' \<notin> set (pct_decode seg)" and "CHR 0x5C \<notin> set (pct_decode seg)"
  using assms(1) checked_path_safe [OF _ _ _ _ assms(2)]
  by (auto simp: parse_path_def res_simps Let_def)

lemma parse_path_suffix:
  assumes "parse_path u root = Inr path"
  shows "starts_with ''/'' path \<and> (u_path u = root_prefix root @ path \<or> u_path u = root_prefix root \<and> path = ''/'')"
  using assms
  by (auto simp: parse_path_def res_simps Let_def strip_prefix_Some_iff starts_with_iff split: option.splits if_splits)

lemma parse_hops_bounds:
  assumes "parse_hops x headers = Inr h"
  shows "1 \<le> h \<and> h \<le> 255 \<and> (hdr_get_all headers ''3gpp-sbi-max-forward-hops'' = [] \<longrightarrow> h = 1)"
  using assms parse_unsigned_bound [of 255]
  by (auto simp: parse_hops_def single_def res_simps Let_def split: list.splits option.splits)

lemma parse_target_other:
  assumes "parse_target x headers root = Inr (Some t)"
  shows "\<not> (root_host t = root_host root \<and> root_port t = root_port root)"
  using assms by (auto simp: parse_target_def res_simps)

text \<open>
  C22. A request the service communication proxy accepts is forwarded below the target's prefix
  only: its path continues the configured prefix, no segment is a dot segment or contains a
  separator, as sent or after percent-decoding in any letter case, the target named by the request
  is not the proxy itself, and the hop count sent on is one less than the count received.
\<close>

theorem scp_request_safe:
  assumes "scp_request_parse x headers method u root = Inr q"
  shows "\<exists>path h. sq_path_query q = path_query path u \<and> starts_with ''/'' path \<and>
    (u_path u = root_prefix root @ path \<or> u_path u = root_prefix root \<and> path = ''/'') \<and>
    (\<forall>seg \<in> set (split_on CHR ''/'' path). pct_decode seg \<notin> {''.'', ''..''} \<and>
       CHR ''/'' \<notin> set (pct_decode seg) \<and> CHR 0x5C \<notin> set (pct_decode seg)) \<and>
    (\<forall>t. sq_target q = Some t \<longrightarrow> \<not> (root_host t = root_host root \<and> root_port t = root_port root)) \<and>
    parse_hops x headers = Inr h \<and> sq_hops q + 1 = h \<and> h \<le> 255"
proof -
  from assms obtain path h where p: "parse_path u root = Inr path" and h: "parse_hops x headers = Inr h"
    and t: "parse_target x headers root = Inr (sq_target q)"
    and q: "sq_path_query q = path_query path u" "sq_hops q = h - 1"
    by (auto simp: scp_request_parse_def res_simps Let_def)
  show ?thesis
    using parse_path_suffix [OF p] parse_path_safe [OF p] parse_hops_bounds [OF h]
      parse_target_other [of x headers root] p h t q
    by (intro exI [of _ path] exI [of _ h]) auto
qed

definition sample_root :: api_root where
  "sample_root = \<lparr>root_scheme = ''http'', root_host = ''scp'', root_port = 80, root_prefix = ''/p''\<rparr>"

definition sample_uri :: uri where
  "sample_uri = \<lparr>u_text = ''/p/s/v1'', u_path = ''/p/s/v1'', u_query = None\<rparr>"

lemma sample_scp_request:
  "case scp_request_parse plain_ext [] ''GET'' sample_uri sample_root of
     Inl _ \<Rightarrow> False | Inr q \<Rightarrow> sq_path_query q = ''/s/v1'' \<and> sq_hops q = 0"
  by code_simp

theorem scp_request_safe_witness:
  "case scp_request_parse plain_ext [] ''GET'' sample_uri sample_root of
     Inl _ \<Rightarrow> False
   | Inr q \<Rightarrow> \<exists>path h. sq_path_query q = path_query path sample_uri \<and>
       parse_hops plain_ext [] = Inr h \<and> sq_hops q + 1 = h \<and>
       (\<forall>seg \<in> set (split_on CHR ''/'' path). pct_decode seg \<notin> {''.'', ''..''})"
proof (cases "scp_request_parse plain_ext [] ''GET'' sample_uri sample_root")
  case (Inl e)
  then show ?thesis using sample_scp_request by simp
next
  case (Inr q)
  from scp_request_safe [OF Inr] Inr show ?thesis by (simp only: sum.case) blast
qed

end
