(* ===== verification/Scp.thy ===== *)
theory Scp
  imports Scp_Request Upstream_Groups
begin

text \<open>
  The service communication proxy (\<^verbatim>\<open>crates/ngxora-runtime/src/upstreams/scp.rs\<close>): the bounded cache
  of discovery groups, the choice of a destination for a request, the retry of a failed
  connection, and the headers of the exchange.

  A cached group lives behind an \<^verbatim>\<open>Arc\<close> that exchanges share. The model keeps the groups in the
  cache and an exchange names its group by the cache key: an entry whose group is in use is never
  dropped from the cache. Which groups are in use, \<^verbatim>\<open>Arc::strong_count\<close> above one, is part of the
  environment of a call, as are the times at which the code reads the clock, the health state of
  the endpoints and the outcome of a refresh it waits for. Metrics are left out.
\<close>

section \<open>State\<close>

definition MAX_CACHE_ENTRIES :: nat where
  "MAX_CACHE_ENTRIES = 256"

definition IDLE_TTL :: duration where
  "IDLE_TTL = from_secs 300"

type_synonym scp_key = "string \<times> nrf_query"

record 's scp_entry =
  ce_group :: "'s runtime_upstream_group"
  ce_last_used :: instant

record 's runtime_scp =
  sc_root :: api_root
  sc_config :: scp_profile
  sc_templates :: "compiled_upstream_group list"
  sc_allowed :: "api_root list"
  sc_cache :: "(scp_key, 's scp_entry) hmap"

text \<open>\<open>xv_refresh\<close> is \<^const>\<open>None\<close> when the wait for the refresh times out.\<close>

record scp_env =
  xv_now :: instant
  xv_busy :: "scp_key \<Rightarrow> bool"
  xv_refresh :: "refresh_env option"
  xv_select_at :: instant
  xv_ready :: "backend \<Rightarrow> bool"

definition scp_matches ::
  "'s runtime_scp \<Rightarrow> scp_profile \<Rightarrow> (string, compiled_upstream_group) hmap \<Rightarrow> bool" where
  "scp_matches r config upstreams \<longleftrightarrow>
     sc_config r = config \<and> list_all (\<lambda>g. hm_get upstreams (cg_name g) = Some g) (sc_templates r)"

text \<open>The index \<^verbatim>\<open>upstreams[n]\<close> panics for an unknown name, which the validation excludes.\<close>

definition runtime_scp_new ::
  "externals \<Rightarrow> scp_profile \<Rightarrow> (string, compiled_upstream_group) hmap \<Rightarrow> (string, 's runtime_scp) result" where
  "runtime_scp_new x config upstreams =
     and_then (validate_profile x config upstreams) (\<lambda>_.
     and_then (api_root_parse x (sp_api_root config)) (\<lambda>root.
     and_then (map_res (\<lambda>n. ok_or ''no entry found for key'' (hm_get upstreams n))
       (sp_discovery_upstreams config)) (\<lambda>templates.
     and_then (map_res (api_root_parse x) (sp_allowed_target_api_roots config)) (\<lambda>allowed.
     Inr \<lparr>sc_root = root, sc_config = config, sc_templates = templates, sc_allowed = allowed,
          sc_cache = []\<rparr>))))"

section \<open>The discovery domain\<close>

definition template_matches :: "scp_request \<Rightarrow> compiled_upstream_group \<Rightarrow> bool" where
  "template_matches q g \<longleftrightarrow>
     (case cg_nrf_discovery g of
        None \<Rightarrow> False
      | Some nrf \<Rightarrow>
          (case nq_service_names (sq_query q) of [] \<Rightarrow> False | first # _ \<Rightarrow> first = cn_service_name nrf) \<and>
          (case sq_target_type q of None \<Rightarrow> True | Some t \<Rightarrow> t = cn_target_nf_type nrf) \<and>
          (case sq_requester_type q of None \<Rightarrow> True | Some t \<Rightarrow> t = cn_requester_nf_type nrf))"

definition serves :: "compiled_nrf_discovery \<Rightarrow> string \<Rightarrow> compiled_upstream_group \<Rightarrow> bool" where
  "serves selected name g \<longleftrightarrow>
     (case cg_nrf_discovery g of
        None \<Rightarrow> False
      | Some nrf \<Rightarrow>
          cn_service_name nrf = name \<and> cn_target_nf_type nrf = cn_target_nf_type selected \<and>
          cn_requester_nf_type nrf = cn_requester_nf_type selected)"

definition scp_template :: "'s runtime_scp \<Rightarrow> scp_request \<Rightarrow> (scp_error, compiled_upstream_group) result" where
  "scp_template r q =
     (case filter (template_matches q) (sc_templates r) of
        [g] \<Rightarrow>
          and_then (reject (case cg_nrf_discovery g of
                None \<Rightarrow> False
              | Some selected \<Rightarrow>
                  list_ex (\<lambda>name. \<not> list_ex (serves selected name) (sc_templates r))
                    (nq_service_names (sq_query q)))
            (scp_error_new 403 ''UNSPECIFIED_MSG_FAILURE'' ''Service is outside the allowed discovery domain'')) (\<lambda>_.
          Inr g)
      | _ \<Rightarrow> Inl (scp_error_new 403 ''UNSPECIFIED_MSG_FAILURE''
          ''Discovery factors must identify one allowed NF/service/requester combination''))"

definition template_scheme :: "compiled_upstream_group \<Rightarrow> string" where
  "template_scheme g =
     (case cg_nrf_discovery g of
        Some nrf \<Rightarrow> (case cn_endpoint_scheme nrf of SchemeHttp \<Rightarrow> ''http'' | SchemeHttps \<Rightarrow> ''https'')
      | None \<Rightarrow> ''http'')"

definition backend_root :: "externals \<Rightarrow> string \<Rightarrow> compiled_upstream_server \<Rightarrow> api_root option" where
  "backend_root x scheme b =
     (let host0 = (case Option.bind (cs_nrf_service b) ns_authority of Some a \<Rightarrow> a | None \<Rightarrow> cs_host b);
          host = (if CHR '':'' \<in> set host0 then ''['' @ host0 @ '']'' else host0)
      in case api_root_parse x (scheme @ ''://'' @ host @ '':'' @ show_nat (cs_port b) @
             (case cs_api_prefix b of None \<Rightarrow> [] | Some p \<Rightarrow> p)) of
           Inr r \<Rightarrow> Some r
         | Inl _ \<Rightarrow> None)"

section \<open>The cache of discovery groups\<close>

text \<open>Room for one more entry: the least recently used group that nobody holds makes way.\<close>

definition make_slot ::
  "scp_env \<Rightarrow> (scp_key, 's scp_entry) hmap \<Rightarrow> (scp_error, (scp_key, 's scp_entry) hmap) result" where
  "make_slot env cache =
     (if length cache \<noteq> MAX_CACHE_ENTRIES then Inr cache
      else
        (case filter (\<lambda>(k, e). \<not> xv_busy env k) cache of
           [] \<Rightarrow> Inl (scp_error_new 503 ''SCP_CONGESTION'' ''Discovery cache is busy'')
         | es \<Rightarrow> Inr (hm_remove (fst (arg_min_list (\<lambda>(k, e). ce_last_used e) es)) cache)))"

text \<open>The locked section of \<^verbatim>\<open>discovered\<close>: the entry of the key exists afterwards.\<close>

definition cached_entry ::
  "'s group_lib \<Rightarrow> scp_env \<Rightarrow> compiled_upstream_group \<Rightarrow> scp_request \<Rightarrow> 's runtime_scp \<Rightarrow>
   (scp_error, scp_key) result \<times> 's runtime_scp" where
  "cached_entry l env template q r =
     (let key = (cg_name template, sq_query q)
      in case hm_get (sc_cache r) key of
           Some e \<Rightarrow> (Inr key, r\<lparr>sc_cache := hm_insert key (e\<lparr>ce_last_used := xv_now env\<rparr>) (sc_cache r)\<rparr>)
         | None \<Rightarrow>
             (case make_slot env (sc_cache r) of
                Inl e \<Rightarrow> (Inl e, r)
              | Inr cache \<Rightarrow>
                  (case from_compiled_query l (xv_now env) (template\<lparr>cg_name := sp_name (sc_config r)\<rparr>) True of
                     Inl e \<Rightarrow> (Inl (scp_error_new 500 ''SYSTEM_FAILURE'' e), r\<lparr>sc_cache := cache\<rparr>)
                   | Inr g \<Rightarrow>
                       (Inr key, r\<lparr>sc_cache :=
                          hm_insert key \<lparr>ce_group = g, ce_last_used = xv_now env\<rparr> cache\<rparr>))))"

text \<open>\<^verbatim>\<open>start_scp_refresh\<close>: the due health check and the due discovery of a group.\<close>

definition scp_refresh :: "'s group_lib \<Rightarrow> refresh_env \<Rightarrow> 's runtime_upstream_group \<Rightarrow> 's runtime_upstream_group" where
  "scp_refresh l env g =
     (let g1 = snd (run_due_health_check (re_now env) g)
      in case rg_nrf_discovery g1 of
           None \<Rightarrow> g1
         | Some d \<Rightarrow> g1\<lparr>rg_nrf_discovery := Some (snd (run_due_nrf_discovery l env d))\<rparr>)"

definition update_group ::
  "scp_key \<Rightarrow> ('s runtime_upstream_group \<Rightarrow> 's runtime_upstream_group) \<Rightarrow> 's runtime_scp \<Rightarrow> 's runtime_scp" where
  "update_group key f r =
     (case hm_get (sc_cache r) key of
        None \<Rightarrow> r
      | Some e \<Rightarrow> r\<lparr>sc_cache := hm_insert key (e\<lparr>ce_group := f (ce_group e)\<rparr>) (sc_cache r)\<rparr>)"

definition status_error :: "instant \<Rightarrow> 's runtime_upstream_group \<Rightarrow> scp_error option" where
  "status_error now g =
     (case scp_status now g of
        Inr _ \<Rightarrow> None
      | Inl (status, cause, detail) \<Rightarrow> Some (scp_error_new status cause detail))"

text \<open>The wait for a usable snapshot: nothing to do, a finished refresh, or a timeout.\<close>

definition await_snapshot :: "'s group_lib \<Rightarrow> scp_env \<Rightarrow> 's runtime_upstream_group \<Rightarrow> 's runtime_upstream_group option" where
  "await_snapshot l env g =
     (if status_error (xv_now env) g = None then Some g
      else map_option (\<lambda>re. scp_refresh l re g) (xv_refresh env))"

definition discovered ::
  "'s group_lib \<Rightarrow> scp_env \<Rightarrow> scp_request \<Rightarrow> 's runtime_scp \<Rightarrow> (scp_error, scp_key) result \<times> 's runtime_scp" where
  "discovered l env q r =
     (case scp_template r q of
        Inl e \<Rightarrow> (Inl e, r)
      | Inr template \<Rightarrow>
          (case cached_entry l env template q r of
             (Inl e, r1) \<Rightarrow> (Inl e, r1)
           | (Inr key, r1) \<Rightarrow>
               (case Option.bind (hm_get (sc_cache r1) key) (\<lambda>e. await_snapshot l env (ce_group e)) of
                  None \<Rightarrow> (Inl nrf_unreachable, r1)
                | Some g \<Rightarrow>
                    let r2 = update_group key (\<lambda>_. g) r1
                    in (case status_error (xv_select_at env) g of
                          Some e \<Rightarrow> (Inl e, r2)
                        | None \<Rightarrow> (Inr key, r2)))))"

definition maintain :: "(scp_key \<Rightarrow> bool) \<Rightarrow> instant \<Rightarrow> 's runtime_scp \<Rightarrow> 's runtime_scp" where
  "maintain busy now r =
     r\<lparr>sc_cache := filter (\<lambda>(k, e). elapsed now (ce_last_used e) < IDLE_TTL \<or> busy k) (sc_cache r)\<rparr>"

section \<open>Routing\<close>

record scp_exchange =
  xc_request :: scp_request
  xc_root :: api_root
  xc_backend :: compiled_upstream_server
  xc_group :: "scp_key option"
  xc_key :: string
  xc_attempted :: "compiled_upstream_server list"

definition select_from ::
  "'s group_lib \<Rightarrow> scp_env \<Rightarrow> string \<Rightarrow> (compiled_upstream_server \<Rightarrow> bool) \<Rightarrow> scp_key \<Rightarrow> 's runtime_scp \<Rightarrow>
   compiled_upstream_server option \<times> 's runtime_scp" where
  "select_from l env hash accept key r =
     (case hm_get (sc_cache r) key of
        None \<Rightarrow> (None, r)
      | Some e \<Rightarrow>
          (case scp_select l (xv_select_at env) (xv_ready env) hash accept (ce_group e) of
             (b, g) \<Rightarrow> (b, update_group key (\<lambda>_. g) r)))"

definition is_target :: "externals \<Rightarrow> string \<Rightarrow> api_root \<Rightarrow> compiled_upstream_server \<Rightarrow> bool" where
  "is_target x scheme root b \<longleftrightarrow> backend_root x scheme b = Some root"

text \<open>
  The loop over the cached groups for a request that names its target: groups that do not offer
  the target are skipped, and the last error seen is kept. The iteration order is the map's. A key
  without a template cannot occur (see \<open>scp_inv\<close>); the code would panic.
\<close>

fun target_loop ::
  "externals \<Rightarrow> 's group_lib \<Rightarrow> scp_env \<Rightarrow> string \<Rightarrow> api_root \<Rightarrow> scp_key list \<Rightarrow> scp_error option \<Rightarrow> 's runtime_scp \<Rightarrow>
   (scp_error option, scp_key \<times> compiled_upstream_server) result \<times> 's runtime_scp" where
  "target_loop x l env client_ip root [] unavailable r = (Inl unavailable, r)"
| "target_loop x l env client_ip root (key # keys) unavailable r =
     (case (find (\<lambda>g. cg_name g = fst key) (sc_templates r), hm_get (sc_cache r) key) of
        (Some template, Some entry) \<Rightarrow>
          let scheme = template_scheme template
          in if \<not> list_ex (is_target x scheme root) (scp_candidates (ce_group entry))
             then target_loop x l env client_ip root keys unavailable r
             else
               let r1 = r\<lparr>sc_cache := hm_insert key (entry\<lparr>ce_last_used := xv_now env\<rparr>) (sc_cache r)\<rparr>;
                   err = (case status_error (xv_select_at env) (ce_group entry) of
                            Some e \<Rightarrow> e | None \<Rightarrow> target_unreachable)
               in (case select_from l env client_ip (is_target x scheme root) key r1 of
                     (Some b, r2) \<Rightarrow> (Inr (key, b), r2)
                   | (None, r2) \<Rightarrow> target_loop x l env client_ip root keys (Some err) r2)
      | _ \<Rightarrow> target_loop x l env client_ip root keys unavailable r)"

definition route_to_target ::
  "externals \<Rightarrow> 's group_lib \<Rightarrow> scp_env \<Rightarrow> scp_request \<Rightarrow> api_root \<Rightarrow> string \<Rightarrow> 's runtime_scp \<Rightarrow>
   (scp_error, scp_exchange) result \<times> 's runtime_scp" where
  "route_to_target x l env q root client_ip r =
     (if root \<in> set (sc_allowed r) then
        (Inr \<lparr>xc_request = q, xc_root = root, xc_backend = root_backend root, xc_group = None,
              xc_key = [], xc_attempted = []\<rparr>, r)
      else
        (case target_loop x l env client_ip root (hm_keys (sc_cache r)) None r of
           (Inr (key, b), r1) \<Rightarrow>
             (Inr \<lparr>xc_request = q, xc_root = root, xc_backend = b, xc_group = Some key,
                   xc_key = client_ip, xc_attempted = []\<rparr>, r1)
         | (Inl (Some e), r1) \<Rightarrow> (Inl e, r1)
         | (Inl None, r1) \<Rightarrow>
             (Inl (scp_error_new 403 ''UNSPECIFIED_MSG_FAILURE''
                ''Target apiRoot is not authorized by this profile''), r1)))"

definition selection_hash ::
  "externals \<Rightarrow> header_map \<Rightarrow> string \<Rightarrow> 's runtime_upstream_group \<Rightarrow> (scp_error, string) result" where
  "selection_hash x headers client_ip g =
     (case rg_hash_key g of
        Some (Header name) \<Rightarrow>
          and_then (single x headers name) (\<lambda>v. Inr (case v of Some s \<Rightarrow> s | None \<Rightarrow> client_ip))
      | _ \<Rightarrow> Inr client_ip)"

text \<open>The choice within the group: the named target first, then, if the group offers it, any.\<close>

definition choose_backend ::
  "externals \<Rightarrow> 's group_lib \<Rightarrow> scp_env \<Rightarrow> string \<Rightarrow> string \<Rightarrow> api_root option \<Rightarrow> scp_key \<Rightarrow> 's runtime_scp \<Rightarrow>
   (scp_error, compiled_upstream_server) result \<times> 's runtime_scp" where
  "choose_backend x l env scheme hash target key r =
     (case (case target of
              None \<Rightarrow> (None, r)
            | Some t \<Rightarrow> select_from l env hash (is_target x scheme t) key r) of
        (Some b, r1) \<Rightarrow> (Inr b, r1)
      | (None, r1) \<Rightarrow>
          if (case target of
                None \<Rightarrow> False
              | Some t \<Rightarrow> \<not> list_ex (is_target x scheme t)
                  (case hm_get (sc_cache r1) key of None \<Rightarrow> [] | Some e \<Rightarrow> scp_candidates (ce_group e)))
          then (Inl (scp_invalid ''Target conflicts with discovery or binding''), r1)
          else
            (case select_from l env hash (\<lambda>_. True) key r1 of
               (Some b, r2) \<Rightarrow> (Inr b, r2)
             | (None, r2) \<Rightarrow> (Inl target_unreachable, r2)))"

definition own_authority :: "'s runtime_scp \<Rightarrow> api_root \<Rightarrow> bool" where
  "own_authority r root \<longleftrightarrow> root_host root = root_host (sc_root r) \<and> root_port root = root_port (sc_root r)"

definition route_discovery ::
  "externals \<Rightarrow> 's group_lib \<Rightarrow> scp_env \<Rightarrow> scp_request \<Rightarrow> header_map \<Rightarrow> string \<Rightarrow> 's runtime_scp \<Rightarrow>
   (scp_error, scp_exchange) result \<times> 's runtime_scp" where
  "route_discovery x l env q headers client_ip r =
     (case discovered l env q r of
        (Inl e, r1) \<Rightarrow> (Inl e, r1)
      | (Inr key, r1) \<Rightarrow>
          (case (case hm_get (sc_cache r1) key of
                   None \<Rightarrow> Inr client_ip
                 | Some e \<Rightarrow> selection_hash x headers client_ip (ce_group e)) of
             Inl e \<Rightarrow> (Inl e, r1)
           | Inr hash \<Rightarrow>
               (case scp_template r1 q of
                  Inl e \<Rightarrow> (Inl e, r1)
                | Inr template \<Rightarrow>
                    (case choose_backend x l env (template_scheme template) hash (sq_target q) key r1 of
                       (Inl e, r2) \<Rightarrow> (Inl e, r2)
                     | (Inr b, r2) \<Rightarrow>
                         (case backend_root x (template_scheme template) b of
                            None \<Rightarrow>
                              (Inl (scp_error_new 502 ''SYSTEM_FAILURE'' ''NRF returned an invalid target authority''), r2)
                          | Some root \<Rightarrow>
                              if own_authority r2 root then
                                (Inl (scp_error_new 508 ''UNSPECIFIED_MSG_FAILURE'' ''SCP routing loop''), r2)
                              else
                                (Inr \<lparr>xc_request = q, xc_root = root, xc_backend = b, xc_group = Some key,
                                      xc_key = hash, xc_attempted = []\<rparr>, r2))))))"

definition scp_route ::
  "externals \<Rightarrow> 's group_lib \<Rightarrow> scp_env \<Rightarrow> scp_request \<Rightarrow> header_map \<Rightarrow> string \<Rightarrow> 's runtime_scp \<Rightarrow>
   (scp_error, scp_exchange) result \<times> 's runtime_scp" where
  "scp_route x l env q headers client_ip r =
     (case (sq_discovery q, sq_target q) of
        (False, Some root) \<Rightarrow> route_to_target x l env q root client_ip r
      | _ \<Rightarrow> route_discovery x l env q headers client_ip r)"

section \<open>The exchange\<close>

definition retry_connect ::
  "externals \<Rightarrow> 's group_lib \<Rightarrow> scp_env \<Rightarrow> scp_exchange \<Rightarrow> 's runtime_scp \<Rightarrow> (bool \<times> scp_exchange) \<times> 's runtime_scp" where
  "retry_connect x l env e r =
     (if xc_attempted e \<noteq> [] then ((False, e), r)
      else
        (case xc_group e of
           None \<Rightarrow> ((False, e), r)
         | Some key \<Rightarrow>
             let e1 = e\<lparr>xc_attempted := [xc_backend e]\<rparr>;
                 accept = (\<lambda>b. b \<notin> set (xc_attempted e1) \<and>
                   (sq_discovery (xc_request e) \<or>
                    backend_root x (root_scheme (xc_root e)) b = sq_target (xc_request e)))
             in (case select_from l env (xc_key e) accept key r of
                   (None, r1) \<Rightarrow> ((False, e1), r1)
                 | (Some b, r1) \<Rightarrow>
                     (case backend_root x (root_scheme (xc_root e)) b of
                        None \<Rightarrow> ((False, e1), r1)
                      | Some root \<Rightarrow>
                          if own_authority r1 root then ((False, e1), r1)
                          else ((True, e1\<lparr>xc_root := root, xc_backend := b\<rparr>), r1)))))"

definition upstream_uri :: "externals \<Rightarrow> scp_exchange \<Rightarrow> (scp_error, uri) result" where
  "upstream_uri x e =
     ok_or (scp_invalid ''Invalid upstream URI'')
       (ext_parse_uri x (root_scheme (xc_root e) @ ''://'' @ root_authority (xc_root e) @
          root_prefix (xc_root e) @ sq_path_query (xc_request e)))"

text \<open>Header edits fail where Pingora refuses a header; the error is the library's.\<close>

definition insert_header :: "externals \<Rightarrow> header_map \<Rightarrow> string \<Rightarrow> string \<Rightarrow> (string, header_map) result" where
  "insert_header x h n v =
     (if ext_header_fits x h n v then Inr (hdr_insert h n v) else Inl (''failed to insert header '' @ n))"

definition consumed_header :: "string \<Rightarrow> bool" where
  "consumed_header n \<longleftrightarrow> n = TARGET \<or> starts_with DISCOVERY n \<or> n = ''3gpp-sbi-routing-binding''"

definition scp_request_headers :: "externals \<Rightarrow> scp_exchange \<Rightarrow> header_map \<Rightarrow> (string, header_map) result" where
  "scp_request_headers x e h =
     (let names = filter consumed_header (map fst h);
          h1 = foldl hdr_remove h names
      in and_then (insert_header x h1 ''host'' (root_authority (xc_root e))) (\<lambda>h2.
         insert_header x h2 ''3gpp-sbi-max-forward-hops'' (show_nat (sq_hops (xc_request e)))))"

definition scp_response_headers :: "externals \<Rightarrow> scp_exchange \<Rightarrow> header_map \<Rightarrow> (string, header_map) result" where
  "scp_response_headers x e h =
     and_then (case cs_nrf_service (xc_backend e) of
         None \<Rightarrow> Inr h
       | Some m \<Rightarrow> insert_header x h ''3gpp-sbi-producer-id''
           (''nfinst='' @ ns_nf_instance_id m @ ''; nfservinst='' @ ns_service_instance_id m)) (\<lambda>h1.
     if \<not> hdr_contains_key h1 ''location'' \<and>
        (sq_discovery (xc_request e) \<or> sq_target (xc_request e) \<noteq> Some (xc_root e))
     then insert_header x h1 TARGET (root_value (xc_root e))
     else Inr h1)"

section \<open>What a selection returns\<close>

lemma pool_select_ready:
  "pool_select lb key ready p = (Some s, p') \<Longrightarrow> \<exists>b. ready b \<and> bd_server b = Some s"
proof -
  assume "pool_select lb key ready p = (Some s, p')"
  then obtain r r' where s: "select_endpoint ready r = (Some s, r')"
    by (auto simp: pool_select_def Let_def split: prod.splits option.splits)
  then have "rn_endpoints r \<noteq> []" by (auto simp: select_endpoint_def Let_def)
  with s show ?thesis by (auto simp: select_endpoint_def Let_def dest: endpoint_scan_Some)
qed

lemma topology_select_ready:
  assumes "topology_select lb key ready t = (Some s, t')"
  shows "\<exists>b. ready b \<and> bd_server b = Some s"
proof -
  from assms obtain ts where "tiers_select lb key ready (nt_tiers t) = (Some s, ts)"
    by (auto simp: topology_select_def split: prod.splits)
  from tiers_select_first [OF this] obtain i where "fst (tier_select lb key ready (nt_tiers t ! i)) = Some s"
    by blast
  then obtain p p' where "pool_select lb key ready p = (Some s, p')"
    by (auto simp: tier_select_def opt_pool_select_def split: prod.splits option.splits)
  then show ?thesis by (rule pool_select_ready)
qed

lemma scp_select_Some:
  assumes "scp_select l now ready key accept g = (Some s, g')"
  shows "accept s \<and> scp_status now g = Inr ()"
  using assms
  by (auto simp: scp_select_def split: sum.splits option.splits prod.splits dest!: topology_select_ready)

lemma scp_select_schedule:
  assumes "scp_select l now ready key accept g = (b, g')"
  shows "scp_status t g' = scp_status t g" and "scp_candidates g' = scp_candidates g"
  using assms
  by (auto simp: scp_select_def scp_status_def scp_candidates_def split: sum.splits option.splits prod.splits)

lemma select_from_Some:
  assumes "select_from l env hash accept key r = (Some b, r')"
  shows "accept b \<and> (\<exists>e. hm_get (sc_cache r') key = Some e \<and> status_error (xv_select_at env) (ce_group e) = None)"
proof -
  from assms obtain e g where e: "hm_get (sc_cache r) key = Some e"
    and g: "scp_select l (xv_select_at env) (xv_ready env) hash accept (ce_group e) = (Some b, g)"
    and r': "r' = update_group key (\<lambda>_. g) r"
    by (auto simp: select_from_def split: option.splits prod.splits)
  from scp_select_Some [OF g] scp_select_schedule(1) [OF g, of "xv_select_at env"] e r' show ?thesis
    by (simp add: update_group_def status_error_def)
qed

section \<open>What the operations leave unchanged\<close>

definition same_config :: "'s runtime_scp \<Rightarrow> 's runtime_scp \<Rightarrow> bool" where
  "same_config r r' \<longleftrightarrow>
     sc_root r' = sc_root r \<and> sc_config r' = sc_config r \<and> sc_templates r' = sc_templates r \<and>
     sc_allowed r' = sc_allowed r"

definition same_keys :: "'s runtime_scp \<Rightarrow> 's runtime_scp \<Rightarrow> bool" where
  "same_keys r r' \<longleftrightarrow> same_config r r' \<and> hm_keys (sc_cache r') = hm_keys (sc_cache r)"

lemma same_keys_refl [simp]: "same_keys r r"
  by (simp add: same_keys_def same_config_def)

lemma same_keys_trans: "same_keys r s \<Longrightarrow> same_keys s t \<Longrightarrow> same_keys r t"
  by (simp add: same_keys_def same_config_def)

lemma hm_keys_update: "hm_get m k = Some v \<Longrightarrow> hm_keys (hm_insert k w m) = hm_keys m"
  by (auto simp: update_keys image_iff dest!: map_of_SomeD intro: bexI [rotated])

lemma same_keys_touch:
  "hm_get (sc_cache r) key = Some e \<Longrightarrow> same_keys r (r\<lparr>sc_cache := hm_insert key e' (sc_cache r)\<rparr>)"
  by (simp add: same_keys_def same_config_def hm_keys_update)

lemma update_group_keys: "same_keys r (update_group key f r)"
  by (auto simp: update_group_def intro: same_keys_touch split: option.split)

lemma select_from_keys: "select_from l env hash accept key r = (b, r') \<Longrightarrow> same_keys r r'"
  by (auto simp: select_from_def split: option.splits prod.splits intro: update_group_keys)

lemma choose_backend_keys:
  "choose_backend x l env scheme hash target key r = (res, r') \<Longrightarrow> same_keys r r'"
  unfolding choose_backend_def
  by (auto split: option.splits prod.splits if_splits dest!: select_from_keys intro: same_keys_trans)

lemma target_loop_keys:
  "target_loop x l env ip root keys un r = (res, r') \<Longrightarrow> same_keys r r'"
proof (induction keys arbitrary: un r)
  case Nil
  then show ?case by simp
next
  case (Cons key keys)
  from Cons.prems show ?case
    by (auto simp: Let_def split: option.splits if_splits prod.splits dest!: select_from_keys Cons.IH
        intro: same_keys_trans same_keys_touch)
qed

section \<open>Where an exchange may go\<close>

lemma target_loop_found:
  "target_loop x l env ip root keys un r = (Inr (key, b), r') \<Longrightarrow>
   (\<exists>g \<in> set (sc_templates r). cg_name g = fst key \<and> is_target x (template_scheme g) root b) \<and>
   (\<exists>e. hm_get (sc_cache r') key = Some e \<and> status_error (xv_select_at env) (ce_group e) = None)"
proof (induction keys arbitrary: un r)
  case Nil
  then show ?case by simp
next
  case (Cons k keys)
  show ?case
  proof (cases "find (\<lambda>g. cg_name g = fst k) (sc_templates r)")
    case None
    with Cons show ?thesis by simp
  next
    case template: (Some g)
    then have g: "g \<in> set (sc_templates r)" "cg_name g = fst k" by (auto simp: find_Some_iff)
    show ?thesis
    proof (cases "hm_get (sc_cache r) k")
      case None
      with Cons template show ?thesis by simp
    next
      case entry: (Some e)
      show ?thesis
      proof (cases "list_ex (is_target x (template_scheme g) root) (scp_candidates (ce_group e))")
        case False
        with Cons template entry show ?thesis by simp
      next
        case True
        define r1 where "r1 = r\<lparr>sc_cache := hm_insert k (e\<lparr>ce_last_used := xv_now env\<rparr>) (sc_cache r)\<rparr>"
        obtain b' r2 where sel: "select_from l env ip (is_target x (template_scheme g) root) k r1 = (b', r2)"
          by (cases "select_from l env ip (is_target x (template_scheme g) root) k r1")
        from select_from_keys [OF sel] have t: "sc_templates r2 = sc_templates r"
          by (simp add: r1_def same_keys_def same_config_def)
        show ?thesis
        proof (cases b')
          case None
          with Cons.prems template entry True sel have
            "\<exists>un'. target_loop x l env ip root keys un' r2 = (Inr (key, b), r')"
            by (auto simp: Let_def r1_def)
          with Cons.IH t show ?thesis by metis
        next
          case (Some c)
          with Cons.prems template entry True sel have "k = key" "c = b" "r2 = r'"
            by (auto simp: Let_def r1_def)
          with select_from_Some [of l env ip _ k r1 c r2] sel Some g show ?thesis by auto
        qed
      qed
    qed
  qed
qed

lemma choose_backend_found:
  assumes "choose_backend x l env scheme hash target key r = (Inr b, r')"
  shows "\<exists>e. hm_get (sc_cache r') key = Some e \<and> status_error (xv_select_at env) (ce_group e) = None"
  using assms unfolding choose_backend_def
  by (auto split: option.splits prod.splits if_splits dest!: select_from_Some)

lemma cached_entry_config: "cached_entry l env g q r = (res, r') \<Longrightarrow> same_config r r'"
  by (auto simp: cached_entry_def same_config_def Let_def split: option.splits sum.splits)

lemma cached_entry_key:
  "cached_entry l env g q r = (Inr key, r') \<Longrightarrow> key = (cg_name g, sq_query q)"
  by (auto simp: cached_entry_def Let_def split: option.splits sum.splits)

lemma discovered_key:
  assumes "discovered l env q r = (Inr key, r')"
  shows "\<exists>g. scp_template r q = Inr g \<and> key = (cg_name g, sq_query q)"
  using assms
  by (auto simp: discovered_def Let_def split: sum.splits prod.splits option.splits dest: cached_entry_key)

lemma scp_template_mem: "scp_template r q = Inr g \<Longrightarrow> g \<in> set (sc_templates r)"
proof -
  assume a: "scp_template r q = Inr g"
  then have "filter (template_matches q) (sc_templates r) = [g]"
    by (auto simp: scp_template_def res_simps split: list.splits)
  then have "g \<in> set (filter (template_matches q) (sc_templates r))" by simp
  then show ?thesis by simp
qed

lemma scp_template_config: "same_config r r' \<Longrightarrow> scp_template r' q = scp_template r q"
  unfolding same_config_def scp_template_def by (elim conjE) (simp only:)

section \<open>The invariant of a profile\<close>

definition keys_ok :: "compiled_upstream_group list \<Rightarrow> scp_key list \<Rightarrow> bool" where
  "keys_ok templates keys \<longleftrightarrow>
     distinct keys \<and> length keys \<le> MAX_CACHE_ENTRIES \<and> fst ` set keys \<subseteq> cg_name ` set templates"

definition scp_inv :: "externals \<Rightarrow> scp_profile \<Rightarrow> 's runtime_scp \<Rightarrow> bool" where
  "scp_inv x config r \<longleftrightarrow>
     keys_ok (sc_templates r) (hm_keys (sc_cache r)) \<and>
     map_res (api_root_parse x) (sp_allowed_target_api_roots config) = Inr (sc_allowed r) \<and>
     list_all (\<lambda>t. \<not> own_authority r t) (sc_allowed r) \<and>
     list_all (\<lambda>g. cg_nrf_discovery g \<noteq> None) (sc_templates r)"

lemma scp_inv_config:
  "scp_inv x config r \<Longrightarrow> same_config r r' \<Longrightarrow> keys_ok (sc_templates r) (hm_keys (sc_cache r')) \<Longrightarrow> scp_inv x config r'"
  by (simp add: scp_inv_def same_config_def own_authority_def)

lemma scp_inv_keys: "scp_inv x config r \<Longrightarrow> same_keys r r' \<Longrightarrow> scp_inv x config r'"
  by (simp add: same_keys_def scp_inv_def same_config_def own_authority_def)

lemma keys_ok_sub:
  assumes "keys_ok ts ks" and "distinct ks'" and "set ks' \<subseteq> set ks"
  shows "keys_ok ts ks'"
proof -
  have "length ks' \<le> length ks"
    using assms by (metis card_mono distinct_card keys_ok_def List.finite_set)
  with assms show ?thesis by (auto simp: keys_ok_def)
qed

lemma make_slot_keys:
  assumes "make_slot env cache = Inr cache'" and "keys_ok ts (hm_keys cache)"
  shows "keys_ok ts (hm_keys cache')" and "length cache' < MAX_CACHE_ENTRIES"
    and "set (hm_keys cache') \<subseteq> set (hm_keys cache)"
proof -
  have *: "keys_ok ts (hm_keys cache') \<and> length cache' < MAX_CACHE_ENTRIES \<and> set (hm_keys cache') \<subseteq> set (hm_keys cache)"
  proof (cases "length cache = MAX_CACHE_ENTRIES")
    case False
    with assms show ?thesis by (auto simp: make_slot_def keys_ok_def)
  next
    case True
    define es where "es = filter (\<lambda>(k, e). \<not> xv_busy env k) cache"
    define k where "k = fst (arg_min_list (\<lambda>(k, e). ce_last_used e) es)"
    from assms True have ne: "es \<noteq> []" and c': "cache' = hm_remove k cache"
      by (auto simp: make_slot_def es_def k_def split: list.splits)
    from arg_min_list_in [OF ne, of "\<lambda>(k, e). ce_last_used e"] have "k \<in> set (hm_keys cache)"
      by (auto simp: es_def k_def)
    moreover have keys: "hm_keys cache' = filter (\<lambda>k'. k' \<noteq> k) (hm_keys cache)"
      by (simp add: c' delete_keys removeAll_filter_not_eq eq_commute)
    ultimately have "length (hm_keys cache') < length (hm_keys cache)"
      by (auto simp: length_filter_less)
    with True have "length cache' < MAX_CACHE_ENTRIES" by simp
    moreover have "keys_ok ts (hm_keys cache')"
      by (rule keys_ok_sub [OF assms(2)]) (use assms(2) keys in \<open>auto simp: keys_ok_def\<close>)
    ultimately show ?thesis using keys by auto
  qed
  then show "keys_ok ts (hm_keys cache')" "length cache' < MAX_CACHE_ENTRIES"
    "set (hm_keys cache') \<subseteq> set (hm_keys cache)" by auto
qed

lemma cached_entry_inv:
  assumes "scp_inv x config r" and "g \<in> set (sc_templates r)" and "cached_entry l env g q r = (res, r')"
  shows "scp_inv x config r'"
proof (rule scp_inv_config [OF assms(1) cached_entry_config [OF assms(3)]])
  define key where "key = (cg_name g, sq_query q)"
  have ok: "keys_ok (sc_templates r) (hm_keys (sc_cache r))" using assms(1) by (simp add: scp_inv_def)
  show "keys_ok (sc_templates r) (hm_keys (sc_cache r'))"
  proof (cases "hm_get (sc_cache r) key")
    case (Some e)
    with assms(3) have "r' = r\<lparr>sc_cache := hm_insert key (e\<lparr>ce_last_used := xv_now env\<rparr>) (sc_cache r)\<rparr>"
      by (auto simp: cached_entry_def key_def Let_def)
    with ok Some show ?thesis by (simp add: hm_keys_update)
  next
    case None
    show ?thesis
    proof (cases "make_slot env (sc_cache r)")
      case (Inl e)
      with assms(3) None ok show ?thesis by (auto simp: cached_entry_def key_def Let_def)
    next
      case (Inr cache)
      note slot = make_slot_keys [OF Inr ok]
      from None have "key \<notin> set (hm_keys (sc_cache r))" by (simp add: map_of_eq_None_iff)
      with slot(3) have new: "key \<notin> set (hm_keys cache)" by auto
      then have "hm_keys (hm_insert key v cache) = hm_keys cache @ [key]" for v by (simp add: update_keys)
      moreover have "keys_ok (sc_templates r) (hm_keys cache @ [key])"
        using slot new assms(2) by (auto simp: keys_ok_def key_def)
      ultimately show ?thesis
        using assms(3) None Inr slot(1)
        by (auto simp: cached_entry_def key_def Let_def split: sum.splits)
    qed
  qed
qed

lemma discovered_inv:
  assumes "scp_inv x config r" and "discovered l env q r = (res, r')"
  shows "scp_inv x config r' \<and> same_config r r'"
proof (cases "scp_template r q")
  case (Inl e)
  with assms show ?thesis by (auto simp: discovered_def same_config_def)
next
  case (Inr g)
  obtain res1 r1 where c: "cached_entry l env g q r = (res1, r1)" by (cases "cached_entry l env g q r")
  from assms(2) Inr c have "same_keys r1 r'"
    by (auto simp: discovered_def Let_def split: sum.splits option.splits intro: update_group_keys)
  with cached_entry_inv [OF assms(1) scp_template_mem [OF Inr] c] cached_entry_config [OF c] show ?thesis
    by (auto simp: same_keys_def same_config_def intro: scp_inv_keys)
qed

lemma route_discovery_inv:
  assumes "scp_inv x config r" and "route_discovery x l env q headers ip r = (res, r')"
  shows "scp_inv x config r' \<and> same_config r r'"
proof -
  obtain d r1 where d: "discovered l env q r = (d, r1)" by (cases "discovered l env q r")
  from assms(2) d have "same_keys r1 r'"
    unfolding route_discovery_def
    by (auto split: sum.splits option.splits prod.splits if_splits dest: choose_backend_keys)
  with discovered_inv [OF assms(1) d] show ?thesis
    by (auto simp: same_keys_def same_config_def intro: scp_inv_keys)
qed

lemma route_to_target_keys: "route_to_target x l env q root ip r = (res, r') \<Longrightarrow> same_keys r r'"
  unfolding route_to_target_def
  by (auto split: if_splits prod.splits sum.splits option.splits dest: target_loop_keys)

lemma scp_route_inv:
  assumes "scp_inv x config r" and "scp_route x l env q headers ip r = (res, r')"
  shows "scp_inv x config r' \<and> same_config r r'"
  using assms route_discovery_inv [OF assms(1), of l env q headers ip res r'] route_to_target_keys [of x l env q _ ip r res r']
  unfolding scp_route_def
  by (auto simp: same_keys_def split: bool.splits option.splits intro: scp_inv_keys)

lemma retry_connect_keys: "retry_connect x l env e r = (res, r') \<Longrightarrow> same_keys r r'"
  unfolding retry_connect_def
  by (auto simp: Let_def split: if_splits prod.splits option.splits dest: select_from_keys)

lemma maintain_inv: "scp_inv x config r \<Longrightarrow> scp_inv x config (maintain busy now r)"
proof (rule scp_inv_config)
  show "same_config r (maintain busy now r)" by (simp add: maintain_def same_config_def)
  assume "scp_inv x config r"
  then have ok: "keys_ok (sc_templates r) (hm_keys (sc_cache r))" by (simp add: scp_inv_def)
  show "keys_ok (sc_templates r) (hm_keys (sc_cache (maintain busy now r)))"
    by (rule keys_ok_sub [OF ok])
      (use ok in \<open>auto simp: maintain_def keys_ok_def distinct_map_filter\<close>)
qed

text \<open>The life of a profile: requests, retries, refreshes in the background and maintenance.\<close>

inductive scp_step :: "externals \<Rightarrow> 's group_lib \<Rightarrow> 's runtime_scp \<Rightarrow> 's runtime_scp \<Rightarrow> bool" for x l where
  routed: "scp_route x l env q headers ip r = (res, r') \<Longrightarrow> scp_step x l r r'"
| retried: "retry_connect x l env e r = (res, r') \<Longrightarrow> scp_step x l r r'"
| refreshed: "scp_step x l r (update_group key (scp_refresh l re) r)"
| maintained: "scp_step x l r (maintain busy now r)"

inductive_cases scp_stepE: "scp_step x l r r'"

lemma check_allowed_roots:
  "fold_res (check_allowed_root x root) roots vs = Inr roots' \<Longrightarrow>
   map_res (api_root_parse x) vs = Inr ts \<Longrightarrow>
   list_all (\<lambda>t. \<not> (root_host t = root_host root \<and> root_port t = root_port root)) ts"
  by (induction vs arbitrary: roots ts) (auto simp: check_allowed_root_def res_simps)

lemma check_discovery_upstreams:
  "fold_res (check_discovery_upstream upstreams) seen names = Inr seen' \<Longrightarrow>
   map_res (\<lambda>n. ok_or e (hm_get upstreams n)) names = Inr gs \<Longrightarrow>
   list_all (\<lambda>g. cg_nrf_discovery g \<noteq> None) gs"
  by (induction names arbitrary: seen gs) (auto simp: check_discovery_upstream_def res_simps Let_def)

definition scp_initial :: "externals \<Rightarrow> scp_profile \<Rightarrow> 's runtime_scp \<Rightarrow> bool" where
  "scp_initial x config r \<longleftrightarrow> (\<exists>upstreams. runtime_scp_new x config upstreams = Inr r)"

lemma runtime_scp_new_inv: "runtime_scp_new x config upstreams = Inr r \<Longrightarrow> scp_inv x config r"
  using check_allowed_roots check_discovery_upstreams
  by (fastforce simp: runtime_scp_new_def validate_profile_def scp_inv_def keys_ok_def own_authority_def res_simps)

lemma scp_step_inv: "scp_step x l r r' \<Longrightarrow> scp_inv x config r \<Longrightarrow> scp_inv x config r'"
  by (elim scp_stepE)
    (auto dest: scp_route_inv intro: maintain_inv scp_inv_keys retry_connect_keys update_group_keys)

interpretation scp: invariant_of "scp_initial x config" "scp_step x l" "scp_inv x config" for x config l
  by unfold_locales (auto simp: scp_initial_def intro: runtime_scp_new_inv scp_step_inv)

section \<open>Claims\<close>

lemma scp_request_target:
  assumes "scp_request_parse x headers method u root = Inr q"
  shows "sq_discovery q \<or> sq_target q \<noteq> None"
    and "sq_target q = Some t \<Longrightarrow> \<not> (root_host t = root_host root \<and> root_port t = root_port root)"
proof -
  from assms have "parse_target x headers root = Inr (sq_target q)" "sq_discovery q \<or> sq_target q \<noteq> None"
    by (auto simp: scp_request_parse_def res_simps Let_def)
  then show "sq_discovery q \<or> sq_target q \<noteq> None"
    and "sq_target q = Some t \<Longrightarrow> \<not> (root_host t = root_host root \<and> root_port t = root_port root)"
    using parse_target_other [of x headers root t] by simp_all
qed

lemma map_res_mem: "map_res f vs = Inr ys \<Longrightarrow> y \<in> set ys \<Longrightarrow> \<exists>v \<in> set vs. f v = Inr y"
  by (induction vs arbitrary: ys) (auto simp: res_simps)

lemma route_to_target_found:
  assumes "scp_inv x config r" and "route_to_target x l env q root ip r = (Inr e, r')"
  shows "xc_root e = root \<and>
    (case xc_group e of
       None \<Rightarrow> \<exists>v \<in> set (sp_allowed_target_api_roots config). api_root_parse x v = Inr root
     | Some key \<Rightarrow>
         (\<exists>g \<in> set (sc_templates r). fst key = cg_name g \<and> backend_root x (template_scheme g) (xc_backend e) = Some root) \<and>
         (\<exists>entry. hm_get (sc_cache r') key = Some entry \<and> status_error (xv_select_at env) (ce_group entry) = None))"
proof (cases "root \<in> set (sc_allowed r)")
  case True
  from assms(1) have "map_res (api_root_parse x) (sp_allowed_target_api_roots config) = Inr (sc_allowed r)"
    by (simp add: scp_inv_def)
  from map_res_mem [OF this True] True assms(2) show ?thesis by (auto simp: route_to_target_def)
next
  case False
  with assms(2) obtain key b where loop: "target_loop x l env ip root (hm_keys (sc_cache r)) None r = (Inr (key, b), r')"
    and e: "xc_root e = root" "xc_group e = Some key" "xc_backend e = b"
    by (auto simp: route_to_target_def split: prod.splits sum.splits option.splits)
  from target_loop_found [OF loop] e show ?thesis by (auto simp: is_target_def intro: bexI [rotated])
qed

lemma route_discovery_found:
  assumes "scp_inv x config r" and "route_discovery x l env q headers ip r = (Inr e, r')"
  shows "\<exists>g key entry. scp_template r q = Inr g \<and> key = (cg_name g, sq_query q) \<and> xc_group e = Some key \<and>
    backend_root x (template_scheme g) (xc_backend e) = Some (xc_root e) \<and> \<not> own_authority r (xc_root e) \<and>
    hm_get (sc_cache r') key = Some entry \<and> status_error (xv_select_at env) (ce_group entry) = None"
proof -
  from assms(2) obtain key r1 hash g b where d: "discovered l env q r = (Inr key, r1)"
    and g: "scp_template r1 q = Inr g"
    and c: "choose_backend x l env (template_scheme g) hash (sq_target q) key r1 = (Inr b, r')"
    and e: "backend_root x (template_scheme g) b = Some (xc_root e)" "\<not> own_authority r' (xc_root e)"
      "xc_group e = Some key" "xc_backend e = b"
    unfolding route_discovery_def by (auto split: sum.splits option.splits prod.splits if_splits)
  from discovered_inv [OF assms(1) d] have cfg: "same_config r r1" ..
  with choose_backend_keys [OF c] have "own_authority r' = own_authority r"
    by (auto simp: same_keys_def same_config_def own_authority_def fun_eq_iff)
  moreover from g cfg have "scp_template r q = Inr g" by (simp add: scp_template_config)
  moreover with discovered_key [OF d] have "key = (cg_name g, sq_query q)" by auto
  ultimately show ?thesis using choose_backend_found [OF c] e by auto
qed


text \<open>A profile that allows one target, and a request that names it.\<close>

definition sample_profile :: scp_profile where
  "sample_profile =
     \<lparr>sp_name = ''p'', sp_api_root = ''http://scp/p'', sp_discovery_upstreams = [],
      sp_allowed_target_api_roots = [''http://a'']\<rparr>"

definition sample_scp_headers :: header_map where
  "sample_scp_headers = [(''3gpp-sbi-target-apiroot'', ''http://a'')]"

definition sample_scp_env :: scp_env where
  "sample_scp_env =
     \<lparr>xv_now = 0, xv_busy = (\<lambda>_. False), xv_refresh = None, xv_select_at = 0, xv_ready = (\<lambda>_. False)\<rparr>"

definition sample_scp :: "backend list runtime_scp" where
  "sample_scp =
     \<lparr>sc_root = \<lparr>root_scheme = ''http'', root_host = ''scp'', root_port = 80, root_prefix = ''/p''\<rparr>,
      sc_config = sample_profile, sc_templates = [],
      sc_allowed = [\<lparr>root_scheme = ''http'', root_host = ''a'', root_port = 80, root_prefix = []\<rparr>],
      sc_cache = []\<rparr>"

lemma sample_scp_new: "runtime_scp_new plain_ext sample_profile [] = Inr sample_scp"
  by code_simp

lemma sample_scp_parse:
  "case scp_request_parse plain_ext sample_scp_headers ''GET'' sample_uri (sc_root sample_scp) of
     Inl _ \<Rightarrow> False
   | Inr q \<Rightarrow> \<not> sq_discovery q \<and> sq_target q = Some (hd (sc_allowed sample_scp))"
  by code_simp


text \<open>A failed connection is retried at most once, elsewhere, and within the same authorization.\<close>

lemma retry_connect_once:
  assumes "retry_connect x l env e r = ((True, e'), r')"
  shows "xc_backend e' \<noteq> xc_backend e \<and> \<not> own_authority r (xc_root e') \<and> xc_group e' = xc_group e \<and>
    (sq_discovery (xc_request e) \<or> sq_target (xc_request e) = Some (xc_root e')) \<and>
    retry_connect x l env' e' r'' = ((False, e'), r'')"
proof -
  from assms obtain key b r1 root where g: "xc_group e = Some key" and n: "xc_attempted e = []"
    and sel: "select_from l env (xc_key e) (\<lambda>b. b \<notin> {xc_backend e} \<and> (sq_discovery (xc_request e) \<or>
      backend_root x (root_scheme (xc_root e)) b = sq_target (xc_request e))) key r = (Some b, r1)"
    and root: "backend_root x (root_scheme (xc_root e)) b = Some root" "\<not> own_authority r1 root"
    and e': "e' = e\<lparr>xc_attempted := [xc_backend e], xc_root := root, xc_backend := b\<rparr>"
    by (auto simp: retry_connect_def Let_def split: if_splits option.splits prod.splits)
  from select_from_keys [OF sel] have "own_authority r1 = own_authority r"
    by (auto simp: same_keys_def same_config_def own_authority_def fun_eq_iff)
  with select_from_Some [OF sel] root e' show ?thesis
    by (auto simp: retry_connect_def)
qed

end
