(* ===== verification/Geoip.thy ===== *)
theory Geoip
  imports Client_Ip
begin

text \<open>
  GeoIP look-ups and headers (\<^verbatim>\<open>crates/ngxora-runtime/src/geoip.rs\<close>): replacing the database when its file
  changes, the look-up of a request's address, and the headers that carry the result upstream.

  The MaxMind reader is a library: \<^verbatim>\<open>'r\<close> is an open database, \<^verbatim>\<open>'f\<close> the stamp of a file, and what the
  file system and the reader return is an argument.
\<close>

section \<open>The database\<close>

definition GEOIP_HEADERS :: "string list" where
  "GEOIP_HEADERS = [''x-geoip-city'', ''x-geoip-country'', ''x-geoip-country-iso'']"

record geoip_record =
  gr_city :: "string option"
  gr_country :: "string option"
  gr_country_iso :: "string option"

definition geoip_record_default :: geoip_record where
  "geoip_record_default = \<lparr>gr_city = None, gr_country = None, gr_country_iso = None\<rparr>"

definition record_values :: "geoip_record \<Rightarrow> string option list" where
  "record_values r = [gr_city r, gr_country r, gr_country_iso r]"

record ('r, 'f) geoip =
  gp_config :: geoip_config
  gp_reader :: "'r option"
  gp_loaded :: "'f option"
  gp_last_error :: "string option"
  gp_lookup_error_logged :: bool

text \<open>What one reload sees: the stamp before and after, the opened database, its type and verdict.\<close>

record ('r, 'f) reload_env =
  rv_stamp :: "(string, 'f) result"
  rv_open :: "(string, 'r) result"
  rv_database_type :: string
  rv_verify :: "(string, unit) result"
  rv_stamp_after :: "(string, 'f) result"

definition load_changed :: "('r, 'f) reload_env \<Rightarrow> ('r, 'f) geoip \<Rightarrow> (string, ('r, 'f) geoip) result" where
  "load_changed env g =
     and_then (rv_stamp env) (\<lambda>stamp.
     if gp_loaded g = Some stamp then Inr g
     else
       and_then (rv_open env) (\<lambda>reader.
       and_then (reject (rv_database_type env \<notin> set
           [''GeoIP2-City'', ''GeoLite2-City'', ''GeoIP2-Country'', ''GeoLite2-Country''])
         (''unsupported database type `'' @ rv_database_type env @ ''`: expected City or Country'')) (\<lambda>_.
       and_then (rv_verify env) (\<lambda>_.
       and_then (rv_stamp_after env) (\<lambda>after.
       and_then (reject (after \<noteq> stamp) ''database changed while reading; retrying on the next poll'') (\<lambda>_.
       Inr (g\<lparr>gp_reader := Some reader, gp_lookup_error_logged := False, gp_loaded := Some stamp\<rparr>)))))))"

definition geoip_refresh :: "('r, 'f) reload_env \<Rightarrow> ('r, 'f) geoip \<Rightarrow> ('r, 'f) geoip" where
  "geoip_refresh env g =
     (case load_changed env g of
        Inr g' \<Rightarrow> g'\<lparr>gp_last_error := None\<rparr>
      | Inl e \<Rightarrow> g\<lparr>gp_last_error := Some e\<rparr>)"

definition geoip_new :: "('r, 'f) reload_env \<Rightarrow> geoip_config \<Rightarrow> ('r, 'f) geoip" where
  "geoip_new env config =
     geoip_refresh env \<lparr>gp_config = config, gp_reader = None, gp_loaded = None, gp_last_error = None,
       gp_lookup_error_logged = False\<rparr>"

section \<open>Look-ups\<close>

text \<open>What the code reads of a decoded entry: the English names and the country code.\<close>

record geo_city =
  gc_city :: "string option"
  gc_country :: "string option"
  gc_iso_code :: "string option"

record 'r geo_lib =
  gb_decode :: "'r \<Rightarrow> ip_addr \<Rightarrow> (string, geo_city option) result"

definition non_empty :: "string option \<Rightarrow> string option" where
  "non_empty v = (case v of Some s \<Rightarrow> if s = [] then None else Some s | None \<Rightarrow> None)"

definition geo_lookup :: "externals \<Rightarrow> 'r geo_lib \<Rightarrow> 'r \<Rightarrow> ip_addr \<Rightarrow> (string, geoip_record) result" where
  "geo_lookup x l reader ip =
     and_then (gb_decode l reader ip) (\<lambda>city.
       case city of
         None \<Rightarrow> Inr geoip_record_default
       | Some c \<Rightarrow>
           let r = \<lparr>gr_city = non_empty (gc_city c), gr_country = non_empty (gc_country c),
                    gr_country_iso = non_empty (gc_iso_code c)\<rparr>
           in and_then (reject (list_ex (\<lambda>v. case v of None \<Rightarrow> False | Some s \<Rightarrow> \<not> ext_header_value_ok x s)
                (record_values r)) ''invalid GeoIP header value'') (\<lambda>_.
              Inr r))"

definition lookup_ip ::
  "externals \<Rightarrow> 'r geo_lib \<Rightarrow> ip_addr option \<Rightarrow> ('r, 'f) geoip \<Rightarrow> geoip_record \<times> ('r, 'f) geoip" where
  "lookup_ip x l ip g =
     (case (ip, gp_reader g) of
        (Some a, Some reader) \<Rightarrow>
          (case geo_lookup x l reader a of
             Inr r \<Rightarrow> (r, g)
           | Inl _ \<Rightarrow> (geoip_record_default, g\<lparr>gp_lookup_error_logged := True\<rparr>))
      | _ \<Rightarrow> (geoip_record_default, g))"

definition lookup_request ::
  "externals \<Rightarrow> 'r geo_lib \<Rightarrow> ip_addr option \<Rightarrow> header_map \<Rightarrow> ('r, 'f) geoip \<Rightarrow> geoip_record \<times> ('r, 'f) geoip" where
  "lookup_request x l peer headers g =
     (let forwarded = (if length (hdr_get_all headers ''x-forwarded-for'') = 1
                       then Option.bind (hdr_get headers ''x-forwarded-for'') (ext_to_str x) else None);
          ip = Option.bind (resolve_chain x peer forwarded (gi_trusted_proxies (gp_config g)))
                 (\<lambda>chain. case chain of [] \<Rightarrow> None | a # _ \<Rightarrow> Some a)
      in lookup_ip x l ip g)"

section \<open>Headers\<close>

definition geoip_remove_headers :: "header_map \<Rightarrow> header_map" where
  "geoip_remove_headers h = foldl hdr_remove h GEOIP_HEADERS"

text \<open>\<^const>\<open>None\<close> is Pingora's refusal of a header.\<close>

definition geoip_set_headers :: "externals \<Rightarrow> header_map \<Rightarrow> geoip_record \<Rightarrow> header_map option" where
  "geoip_set_headers x h r =
     foldl (\<lambda>acc (name, value).
       Option.bind acc (\<lambda>h.
         case value of
           None \<Rightarrow> Some h
         | Some v \<Rightarrow> if ext_header_fits x h name v then Some (hdr_insert h name v) else None))
       (Some (geoip_remove_headers h)) (zip GEOIP_HEADERS (record_values r))"

section \<open>Properties\<close>

text \<open>A failed reload keeps the database that was in use, and a reload never loses one.\<close>

lemma geoip_refresh_keeps:
  "gp_reader (geoip_refresh env g) = gp_reader g \<or>
   (\<exists>r. rv_open env = Inr r \<and> rv_verify env = Inr () \<and> gp_reader (geoip_refresh env g) = Some r)"
  by (auto simp: geoip_refresh_def load_changed_def res_simps split: sum.splits if_splits)

lemma geoip_names [simp]:
  "eq_ignore_ascii_case ''x-geoip-city'' ''x-geoip-country'' = False"
  "eq_ignore_ascii_case ''x-geoip-city'' ''x-geoip-country-iso'' = False"
  "eq_ignore_ascii_case ''x-geoip-country'' ''x-geoip-city'' = False"
  "eq_ignore_ascii_case ''x-geoip-country'' ''x-geoip-country-iso'' = False"
  "eq_ignore_ascii_case ''x-geoip-country-iso'' ''x-geoip-city'' = False"
  "eq_ignore_ascii_case ''x-geoip-country-iso'' ''x-geoip-country'' = False"
  by code_simp+

text \<open>The upstream sees exactly the looked-up values, whatever the client sent under these names.\<close>

lemma geoip_set_headers_exact:
  assumes "geoip_set_headers x h r = Some h'"
  shows "map (hdr_get_all h') GEOIP_HEADERS = map (\<lambda>v. case v of None \<Rightarrow> [] | Some s \<Rightarrow> [s]) (record_values r)"
  using assms unfolding geoip_set_headers_def geoip_remove_headers_def GEOIP_HEADERS_def record_values_def
  by (cases "gr_city r"; cases "gr_country r"; cases "gr_country_iso r")
    (auto split: if_split_asm bind_splits)

end
