(* ===== verification/Cache.thy ===== *)
theory Cache
  imports Types
begin

text \<open>
  The shared response cache (\<^verbatim>\<open>crates/ngxora-runtime/src/cache.rs\<close>): the accounting of one
  location's cache, the backend that keeps one cache per route and retires them when a new
  configuration generation is installed, cache keys, and the rules for cacheable requests and
  responses.

  Every operation takes the current instant \<open>now\<close>. \<^verbatim>\<open>HashMap::keys().next()\<close> returns some key:
  the operations that evict take a function \<open>ch\<close> that picks the position, and every statement
  holds for all of them.

  A location cache lives behind an \<^verbatim>\<open>Arc\<close>: a task may still hold one that the backend has
  dropped. The backend therefore keeps the caches in a heap addressed by handles, and an
  operation is two steps, obtaining the handle and working on the cache under its lock, between
  which any other step can happen.
\<close>

section \<open>Keys and sizes\<close>

record cache_key =
  ck_generation :: nat
  ck_route_id :: nat
  ck_host :: string
  ck_method :: string
  ck_uri :: string

record cached_response =
  cp_status :: nat
  cp_headers :: header_map
  cp_body :: string
  cp_created_at :: instant

definition estimated_headers_size :: "header_map \<Rightarrow> nat" where
  "estimated_headers_size headers =
     foldl (\<lambda>sz (name, value). sat_add64 (sat_add64 sz (length name)) (length value)) 0 headers"

definition response_size :: "cached_response \<Rightarrow> nat" where
  "response_size r =
     sat_add64 (sat_add64 (length (cp_body r)) (estimated_headers_size (cp_headers r))) 128"

definition key_size :: "cache_key \<Rightarrow> nat" where
  "key_size k =
     sat_add64 (sat_add64 (sat_add64 (length (ck_host k)) (length (ck_method k))) (length (ck_uri k))) 128"

record miss_count =
  mc_count :: nat
  mc_last_seen :: instant

record location_cache =
  lc_ttl :: duration
  lc_retention :: duration
  lc_max_size :: nat
  lc_current_size :: nat
  lc_entries :: "(cache_key, cached_response) hmap"
  lc_request_counts :: "(cache_key, miss_count) hmap"
  lc_last_sweep :: instant

definition entry_weight :: "cache_key \<Rightarrow> cached_response \<Rightarrow> nat" where
  "entry_weight k v = sat_add64 (key_size k) (response_size v)"

definition count_weight :: "cache_key \<Rightarrow> miss_count \<Rightarrow> nat" where
  "count_weight k v = sat_add64 (key_size k) 64"

section \<open>The cache of one location\<close>

definition cfg_ttl :: "cache_config \<Rightarrow> duration" where
  "cfg_ttl cfg = (case cc_ttl cfg of Some d \<Rightarrow> d | None \<Rightarrow> from_secs 60)"

definition cfg_retention :: "cache_config \<Rightarrow> duration" where
  "cfg_retention cfg =
     sat_add duration_max (cfg_ttl cfg) (case cc_stale_if_error cfg of Some d \<Rightarrow> d | None \<Rightarrow> 0)"

definition lc_new :: "instant \<Rightarrow> cache_config \<Rightarrow> nat \<Rightarrow> location_cache" where
  "lc_new now cfg max_size =
     \<lparr>lc_ttl = cfg_ttl cfg, lc_retention = cfg_retention cfg, lc_max_size = max_size,
      lc_current_size = 0, lc_entries = [], lc_request_counts = [], lc_last_sweep = now\<rparr>"

definition remove_response :: "cache_key \<Rightarrow> location_cache \<Rightarrow> location_cache" where
  "remove_response key c =
     (case hm_get (lc_entries c) key of
        None \<Rightarrow> c
      | Some value \<Rightarrow>
          c\<lparr>lc_entries := hm_remove key (lc_entries c),
            lc_current_size := wrap_sub64 (lc_current_size c) (entry_weight key value)\<rparr>)"

definition remove_count :: "cache_key \<Rightarrow> location_cache \<Rightarrow> location_cache" where
  "remove_count key c =
     (case hm_get (lc_request_counts c) key of
        None \<Rightarrow> c
      | Some v \<Rightarrow>
          c\<lparr>lc_request_counts := hm_remove key (lc_request_counts c),
            lc_current_size := wrap_sub64 (lc_current_size c) (count_weight key v)\<rparr>)"

text \<open>\<^verbatim>\<open>keys().next()\<close>: some key of the map, the one at the position \<open>ch\<close> picks.\<close>

type_synonym chooser = "cache_key list \<Rightarrow> nat"

definition some_key :: "chooser \<Rightarrow> (cache_key, 'v) hmap \<Rightarrow> cache_key option" where
  "some_key ch m =
     (if m = [] then None else Some (hm_keys m ! (ch (hm_keys m) mod length m)))"

lemma some_key_mem: "some_key ch m = Some k \<Longrightarrow> k \<in> set (hm_keys m)"
  unfolding some_key_def by (metis length_greater_0_conv length_map mod_less_divisor nth_mem option.distinct(1) option.sel)

lemma some_key_None: "some_key ch m = None \<longleftrightarrow> m = []"
  by (simp add: some_key_def)

lemma remove_present_shorter: "k \<in> set (hm_keys m) \<Longrightarrow> length (hm_remove k m) < length m"
  by (auto simp: AList.delete_eq intro!: length_filter_less)

definition evict_bound :: "location_cache \<Rightarrow> nat" where
  "evict_bound c = length (lc_entries c) + length (lc_request_counts c)"

lemma evict_bound_remove:
  "k \<in> set (hm_keys (lc_request_counts c)) \<Longrightarrow> evict_bound (remove_count k c) < evict_bound c"
  "k \<in> set (hm_keys (lc_entries c)) \<Longrightarrow> evict_bound (remove_response k c) < evict_bound c"
  using remove_present_shorter [of k "lc_request_counts c"] remove_present_shorter [of k "lc_entries c"]
  by (auto simp: evict_bound_def remove_count_def remove_response_def map_of_eq_None_iff
      split: option.split)

function make_room_loop :: "chooser \<Rightarrow> nat \<Rightarrow> location_cache \<Rightarrow> location_cache" where
  "make_room_loop ch limit c =
     (if lc_current_size c \<le> limit then c
      else
        (case some_key ch (lc_request_counts c) of
           Some key \<Rightarrow> make_room_loop ch limit (remove_count key c)
         | None \<Rightarrow>
             (case some_key ch (lc_entries c) of
                Some key \<Rightarrow> make_room_loop ch limit (remove_response key c)
              | None \<Rightarrow> c)))"
  by pat_completeness auto
termination
  by (relation "measure (\<lambda>(ch, limit, c). evict_bound c)")
    (auto dest!: some_key_mem intro: evict_bound_remove)

declare make_room_loop.simps [simp del]

definition make_room :: "chooser \<Rightarrow> nat \<Rightarrow> location_cache \<Rightarrow> bool \<times> location_cache" where
  "make_room ch sz c =
     (if lc_max_size c < sz then (False, c)
      else (True, make_room_loop ch (lc_max_size c - sz) c))"

text \<open>
  \<^verbatim>\<open>retain\<close> visits the entries in order and subtracts the weight of each one it drops.
\<close>

definition retain_size :: "('k \<Rightarrow> 'v \<Rightarrow> nat) \<Rightarrow> ('v \<Rightarrow> bool) \<Rightarrow> nat \<Rightarrow> ('k, 'v) hmap \<Rightarrow> nat" where
  "retain_size wt keep sz m =
     foldl (\<lambda>s (k, v). if keep v then s else wrap_sub64 s (wt k v)) sz m"

definition lc_evict_stale :: "instant \<Rightarrow> location_cache \<Rightarrow> location_cache" where
  "lc_evict_stale now c =
     (let keep_entry = (\<lambda>e. \<not> (lc_retention c \<le> elapsed now (cp_created_at e)));
          size1 = retain_size entry_weight keep_entry (lc_current_size c) (lc_entries c);
          keep_count = (\<lambda>e. \<not> (lc_ttl c \<le> elapsed now (mc_last_seen e)));
          size2 = retain_size count_weight keep_count size1 (lc_request_counts c)
      in c\<lparr>lc_entries := filter (\<lambda>(k, e). keep_entry e) (lc_entries c),
           lc_request_counts := filter (\<lambda>(k, e). keep_count e) (lc_request_counts c),
           lc_current_size := size2,
           lc_last_sweep := now\<rparr>)"

definition sync_limits :: "chooser \<Rightarrow> instant \<Rightarrow> cache_config \<Rightarrow> nat \<Rightarrow> location_cache \<Rightarrow> location_cache" where
  "sync_limits ch now cfg max_size c =
     (let c1 = c\<lparr>lc_ttl := cfg_ttl cfg, lc_retention := cfg_retention cfg, lc_max_size := max_size\<rparr>;
          c2 = (if from_secs 1 \<le> elapsed now (lc_last_sweep c1) then lc_evict_stale now c1 else c1)
      in snd (make_room ch 0 c2))"

definition lc_record_miss ::
  "chooser \<Rightarrow> instant \<Rightarrow> cache_key \<Rightarrow> nat \<Rightarrow> location_cache \<Rightarrow> bool \<times> location_cache" where
  "lc_record_miss ch now key min_uses c =
     (if min_uses \<le> 1 then (True, c)
      else
        (case hm_get (lc_request_counts c) key of
           Some value \<Rightarrow>
             let count0 = (if lc_ttl c \<le> elapsed now (mc_last_seen value) then 0 else mc_count value);
                 count1 = sat_add64 count0 1
             in (min_uses \<le> count1,
                 c\<lparr>lc_request_counts :=
                     hm_insert key \<lparr>mc_count = count1, mc_last_seen = now\<rparr> (lc_request_counts c)\<rparr>)
         | None \<Rightarrow>
             let sz = sat_add64 (key_size key) 64
             in (case make_room ch sz c of
                   (False, c1) \<Rightarrow> (False, c1)
                 | (True, c1) \<Rightarrow>
                     (False,
                      c1\<lparr>lc_request_counts :=
                           hm_insert key \<lparr>mc_count = 1, mc_last_seen = now\<rparr> (lc_request_counts c1),
                         lc_current_size := wrap_add64 (lc_current_size c1) sz\<rparr>))))"

definition lc_put :: "chooser \<Rightarrow> cache_key \<Rightarrow> cached_response \<Rightarrow> location_cache \<Rightarrow> location_cache" where
  "lc_put ch key response c =
     (let c1 = remove_response key (remove_count key c);
          sz = sat_add64 (key_size key) (response_size response)
      in case make_room ch sz c1 of
           (False, c2) \<Rightarrow> c2
         | (True, c2) \<Rightarrow>
             c2\<lparr>lc_current_size := wrap_add64 (lc_current_size c2) sz,
                lc_entries := hm_insert key response (lc_entries c2)\<rparr>)"

section \<open>Keys, and what may be cached\<close>

definition build_cache_key ::
  "string \<Rightarrow> string \<Rightarrow> nat \<Rightarrow> nat \<Rightarrow> string \<Rightarrow> cache_config \<Rightarrow> cache_key" where
  "build_cache_key method u generation route_id host cfg =
     \<lparr>ck_generation = generation, ck_route_id = route_id, ck_host = to_ascii_lowercase host,
      ck_method = method,
      ck_uri = (case cc_cache_key cfg of
                  Uri \<Rightarrow> u
                | NormalizedUri \<Rightarrow> u
                | UriAndMethod \<Rightarrow> method @ '' '' @ u)\<rparr>"

text \<open>\<^verbatim>\<open>str::trim_matches(c)\<close>.\<close>

definition trim_matches :: "char \<Rightarrow> string \<Rightarrow> string" where
  "trim_matches c s = trim_end_matches c (dropWhile (\<lambda>d. d = c) s)"

definition directive_parts :: "string \<Rightarrow> string \<times> string option" where
  "directive_parts raw =
     (let directive = to_ascii_lowercase (trim raw)
      in case split_once CHR ''='' directive of
           None \<Rightarrow> (directive, None)
         | Some (name, value) \<Rightarrow> (trim name, Some (trim_matches CHR 0x22 (trim value))))"

definition directive_hit :: "string list \<Rightarrow> string \<Rightarrow> bool" where
  "directive_hit directives raw \<longleftrightarrow>
     (case directive_parts raw of
        (name, value) \<Rightarrow> name \<in> set directives \<or> (name = ''max-age'' \<and> value = Some ''0''))"

fun cache_control_loop :: "externals \<Rightarrow> string list \<Rightarrow> string list \<Rightarrow> (unit, bool) result" where
  "cache_control_loop x directives [] = Inr False"
| "cache_control_loop x directives (raw # values) =
     and_then (ok_or () (ext_to_str x raw)) (\<lambda>value.
       if list_ex (directive_hit directives) (split_on CHR '','' value) then Inr True
       else cache_control_loop x directives values)"

definition has_cache_control_directive ::
  "externals \<Rightarrow> header_map \<Rightarrow> string list \<Rightarrow> (unit, bool) result" where
  "has_cache_control_directive x headers directives =
     cache_control_loop x directives (hdr_get_all headers ''cache-control'')"

definition PRIVATE_REQUEST_HEADERS :: "string list" where
  "PRIVATE_REQUEST_HEADERS =
     [''authorization'', ''cookie'', ''range'', ''if-match'', ''if-none-match'',
      ''if-modified-since'', ''if-unmodified-since'', ''if-range'', ''proxy-authorization'']"

definition pragma_ok :: "externals \<Rightarrow> string \<Rightarrow> bool" where
  "pragma_ok x raw \<longleftrightarrow>
     (case ext_to_str x raw of
        None \<Rightarrow> False
      | Some value \<Rightarrow>
          \<not> list_ex (\<lambda>d. eq_ignore_ascii_case (trim d) ''no-cache'') (split_on CHR '','' value))"

definition is_cacheable_request :: "externals \<Rightarrow> string \<Rightarrow> header_map \<Rightarrow> bool" where
  "is_cacheable_request x method headers \<longleftrightarrow>
     method = ''GET'' \<and>
     \<not> list_ex (hdr_contains_key headers) PRIVATE_REQUEST_HEADERS \<and>
     has_cache_control_directive x headers [''no-cache'', ''no-store''] = Inr False \<and>
     list_all (pragma_ok x) (hdr_get_all headers ''pragma'')"

definition is_cacheable :: "externals \<Rightarrow> nat \<Rightarrow> header_map \<Rightarrow> cache_config \<Rightarrow> bool" where
  "is_cacheable x status headers cfg \<longleftrightarrow>
     status \<in> set (cc_valid_statuses cfg) \<and>
     has_cache_control_directive x headers [''no-store'', ''private'', ''no-cache''] = Inr False \<and>
     \<not> (hdr_contains_key headers ''set-cookie'' \<or> hdr_contains_key headers ''vary'')"

section \<open>Accounting\<close>

lemma key_size_ge: "128 \<le> key_size k"
  by (simp add: key_size_def sat_add_ge_right)

lemma response_size_ge: "128 \<le> response_size r"
  by (simp add: response_size_def sat_add_ge_right)

lemma entry_weight_ge: "256 \<le> entry_weight k v"
  using key_size_ge [of k] response_size_ge [of v] by (simp add: entry_weight_def sat_add_def)

lemma count_weight_ge: "192 \<le> count_weight k v"
  using key_size_ge [of k] by (simp add: count_weight_def sat_add_def)

interpretation ew: weighted_map entry_weight
  by unfold_locales (metis entry_weight_ge le_zero_eq neq0_conv not_numeral_le_zero)

interpretation cw: weighted_map count_weight
  by unfold_locales (metis count_weight_ge le_zero_eq neq0_conv not_numeral_le_zero)

text \<open>
  The size counter is the total weight of what is stored; with the bound it never wraps.
\<close>

definition lc_total :: "location_cache \<Rightarrow> nat" where
  "lc_total c = map_total entry_weight (lc_entries c) + map_total count_weight (lc_request_counts c)"

definition lc_ok :: "location_cache \<Rightarrow> bool" where
  "lc_ok c \<longleftrightarrow> hm_wf (lc_entries c) \<and> hm_wf (lc_request_counts c) \<and> lc_current_size c = lc_total c"

definition lc_inv :: "location_cache \<Rightarrow> bool" where
  "lc_inv c \<longleftrightarrow> lc_ok c \<and> lc_current_size c \<le> lc_max_size c \<and> lc_max_size c \<le> u64_max"

lemma remove_response_ok: "lc_ok c \<Longrightarrow> lc_ok (remove_response k c)"
  using ew.total_remove [of "lc_entries c" k]
  by (fastforce simp: lc_ok_def lc_total_def remove_response_def wrap_sub64_exact split: option.split)

lemma remove_count_ok: "lc_ok c \<Longrightarrow> lc_ok (remove_count k c)"
  using cw.total_remove [of "lc_request_counts c" k]
  by (fastforce simp: lc_ok_def lc_total_def remove_count_def wrap_sub64_exact split: option.split)

lemma remove_le:
  assumes "lc_ok c"
  shows "lc_current_size (remove_response k c) \<le> lc_current_size c"
    and "lc_current_size (remove_count k c) \<le> lc_current_size c"
  using assms ew.total_remove [of "lc_entries c" k] cw.total_remove [of "lc_request_counts c" k]
  by (fastforce simp: lc_ok_def lc_total_def remove_count_def remove_response_def wrap_sub64_exact
      split: option.split)+

lemma remove_max [simp]:
  "lc_max_size (remove_response k c) = lc_max_size c" "lc_max_size (remove_count k c) = lc_max_size c"
  by (simp_all add: remove_response_def remove_count_def split: option.split)

lemma make_room_loop_ok:
  "lc_ok c \<Longrightarrow> lc_ok (make_room_loop ch limit c) \<and> lc_current_size (make_room_loop ch limit c) \<le> limit \<and>
     lc_max_size (make_room_loop ch limit c) = lc_max_size c"
proof (induction ch limit c rule: make_room_loop.induct)
  case (1 ch limit c)
  show ?case
  proof (cases "lc_current_size c \<le> limit")
    case True
    with "1.prems" show ?thesis by (simp add: make_room_loop.simps)
  next
    case big: False
    show ?thesis
    proof (cases "some_key ch (lc_request_counts c)")
      case (Some k)
      with big 1 show ?thesis
        by (simp add: make_room_loop.simps [of ch limit c] remove_count_ok)
    next
      case none: None
      show ?thesis
      proof (cases "some_key ch (lc_entries c)")
        case (Some k)
        with big none 1 show ?thesis
          by (simp add: make_room_loop.simps [of ch limit c] remove_response_ok)
      next
        case None
        with none have "lc_total c = 0" by (simp add: lc_total_def some_key_None)
        with "1.prems" big show ?thesis by (simp add: lc_ok_def)
      qed
    qed
  qed
qed

lemma make_room_ok:
  assumes "lc_ok c" and "make_room ch sz c = (b, c')"
  shows "lc_ok c' \<and> lc_max_size c' = lc_max_size c \<and>
    (b \<longrightarrow> lc_current_size c' + sz \<le> lc_max_size c) \<and> (\<not> b \<longrightarrow> c' = c)"
  using assms make_room_loop_ok [OF assms(1), of ch "lc_max_size c - sz"]
  by (auto simp: make_room_def split: if_splits)

lemma retain_size_total:
  "\<lbrakk>\<And>k v. 0 < wt k v; sz = extra + map_total wt m\<rbrakk> \<Longrightarrow>
   retain_size wt keep sz m = extra + map_total wt (filter (\<lambda>(k, v). keep v) m)"
proof (induction m arbitrary: sz extra)
  case Nil
  then show ?case by (simp add: retain_size_def map_total_def)
next
  case (Cons p m)
  obtain k v where p: "p = (k, v)" by (cases p)
  show ?case
  proof (cases "keep v")
    case True
    with Cons.IH [of sz "extra + wt k v"] Cons.prems p show ?thesis
      by (simp add: retain_size_def map_total_def)
  next
    case False
    with Cons.IH [of "wrap_sub64 sz (wt k v)" extra] Cons.prems p show ?thesis
      by (simp add: retain_size_def map_total_def wrap_sub64_exact)
  qed
qed

lemma lc_evict_stale_ok:
  assumes "lc_ok c"
  shows "lc_ok (lc_evict_stale now c)"
    and "lc_current_size (lc_evict_stale now c) \<le> lc_current_size c"
    and "lc_max_size (lc_evict_stale now c) = lc_max_size c"
proof -
  define ke where "ke = (\<lambda>e :: cached_response. \<not> (lc_retention c \<le> elapsed now (cp_created_at e)))"
  define kc where "kc = (\<lambda>e :: miss_count. \<not> (lc_ttl c \<le> elapsed now (mc_last_seen e)))"
  let ?E = "filter (\<lambda>(k, e). ke e) (lc_entries c)" and ?C = "filter (\<lambda>(k, e). kc e) (lc_request_counts c)"
  have s1: "retain_size entry_weight ke (lc_current_size c) (lc_entries c) =
      map_total count_weight (lc_request_counts c) + map_total entry_weight ?E"
    using assms by (intro retain_size_total ew.wt_pos) (simp add: lc_ok_def lc_total_def)
  then have s2: "retain_size count_weight kc
      (retain_size entry_weight ke (lc_current_size c) (lc_entries c)) (lc_request_counts c) =
      map_total entry_weight ?E + map_total count_weight ?C"
    by (intro retain_size_total cw.wt_pos) simp
  have eq: "lc_evict_stale now c = c\<lparr>lc_entries := ?E, lc_request_counts := ?C,
      lc_current_size := map_total entry_weight ?E + map_total count_weight ?C, lc_last_sweep := now\<rparr>"
    using s2 by (simp add: lc_evict_stale_def ke_def kc_def Let_def)
  show "lc_ok (lc_evict_stale now c)" using assms by (simp add: eq lc_ok_def lc_total_def)
  show "lc_current_size (lc_evict_stale now c) \<le> lc_current_size c"
    using assms ew.total_filter_le [of "\<lambda>(k, e). ke e" "lc_entries c"]
      cw.total_filter_le [of "\<lambda>(k, e). kc e" "lc_request_counts c"]
    by (simp add: eq lc_ok_def lc_total_def)
  show "lc_max_size (lc_evict_stale now c) = lc_max_size c" by (simp add: eq)
qed

text \<open>Making room only drops entries: a key that is absent stays absent.\<close>

lemma remove_get:
  "hm_get (lc_entries (remove_response k c)) k' = (if k' = k then None else hm_get (lc_entries c) k')"
  "hm_get (lc_entries (remove_count k c)) k' = hm_get (lc_entries c) k'"
  "hm_get (lc_request_counts (remove_response k c)) k' = hm_get (lc_request_counts c) k'"
  "hm_get (lc_request_counts (remove_count k c)) k' =
     (if k' = k then None else hm_get (lc_request_counts c) k')"
  by (auto simp: remove_response_def remove_count_def split: option.split)

lemma make_room_loop_sub:
  "hm_get (lc_entries (make_room_loop ch limit c)) k \<in> {None, hm_get (lc_entries c) k} \<and>
   hm_get (lc_request_counts (make_room_loop ch limit c)) k \<in> {None, hm_get (lc_request_counts c) k}"
proof (induction ch limit c rule: make_room_loop.induct)
  case (1 ch limit c)
  then show ?case
    by (subst (1 2) make_room_loop.simps) (auto simp: remove_get split: option.splits)
qed

lemma make_room_sub:
  "make_room ch sz c = (b, c') \<Longrightarrow>
   hm_get (lc_entries c') k \<in> {None, hm_get (lc_entries c) k} \<and>
   hm_get (lc_request_counts c') k \<in> {None, hm_get (lc_request_counts c) k}"
  using make_room_loop_sub [of ch "lc_max_size c - sz" c k]
  by (auto simp: make_room_def split: if_splits)

lemma lc_new_inv: "m \<le> u64_max \<Longrightarrow> lc_inv (lc_new now cfg m)"
  by (simp add: lc_inv_def lc_ok_def lc_new_def lc_total_def)

lemma lc_evict_stale_inv: "lc_inv c \<Longrightarrow> lc_inv (lc_evict_stale now c)"
  using lc_evict_stale_ok [of c now] by (simp add: lc_inv_def)

lemma sync_limits_inv:
  assumes "lc_ok c" and "m \<le> u64_max"
  shows "lc_inv (sync_limits ch now cfg m c)"
    and "lc_max_size (sync_limits ch now cfg m c) = m"
proof -
  define c1 where "c1 = c\<lparr>lc_ttl := cfg_ttl cfg, lc_retention := cfg_retention cfg, lc_max_size := m\<rparr>"
  define c2 where "c2 = (if from_secs 1 \<le> elapsed now (lc_last_sweep c1) then lc_evict_stale now c1 else c1)"
  from assms(1) have "lc_ok c1" by (simp add: c1_def lc_ok_def lc_total_def)
  moreover have "lc_max_size c1 = m" by (simp add: c1_def)
  ultimately have "lc_ok c2" "lc_max_size c2 = m" by (auto simp: c2_def lc_evict_stale_ok)
  moreover obtain b c3 where c3: "make_room ch 0 c2 = (b, c3)" by (cases "make_room ch 0 c2")
  moreover have "b" using c3 by (simp add: make_room_def)
  ultimately have "lc_ok c3 \<and> lc_max_size c3 = m \<and> lc_current_size c3 \<le> m"
    using make_room_ok by fastforce
  moreover have "sync_limits ch now cfg m c = snd (make_room ch 0 c2)"
    by (simp only: sync_limits_def c1_def c2_def Let_def)
  with c3 have "sync_limits ch now cfg m c = c3" by simp
  ultimately show "lc_inv (sync_limits ch now cfg m c)"
    and "lc_max_size (sync_limits ch now cfg m c) = m"
    using assms(2) by (simp_all add: lc_inv_def)
qed

lemma lc_put_inv:
  assumes "lc_inv c"
  shows "lc_inv (lc_put ch key r c)"
proof -
  define c1 where "c1 = remove_response key (remove_count key c)"
  obtain b c2 where c2: "make_room ch (entry_weight key r) c1 = (b, c2)"
    by (cases "make_room ch (entry_weight key r) c1")
  have c1: "lc_ok c1" "lc_max_size c1 = lc_max_size c" "lc_current_size c1 \<le> lc_current_size c"
    using assms remove_le [of c key] remove_le [of "remove_count key c" key]
    by (auto simp: c1_def lc_inv_def remove_response_ok remove_count_ok intro: order_trans)
  note room = make_room_ok [OF c1(1) c2]
  have put: "lc_put ch key r c =
      (if b then c2\<lparr>lc_current_size := wrap_add64 (lc_current_size c2) (entry_weight key r),
                    lc_entries := hm_insert key r (lc_entries c2)\<rparr> else c2)"
    using c2 by (simp add: lc_put_def c1_def entry_weight_def split: bool.split)
  show ?thesis
  proof (cases b)
    case False
    with put room c1 assms show ?thesis by (simp add: lc_inv_def)
  next
    case True
    have fresh: "hm_get (lc_entries c2) key = None"
      using make_room_sub [OF c2, of key] by (simp add: c1_def remove_get)
    from True room c1(2) have "lc_current_size c2 + entry_weight key r \<le> lc_max_size c"
      by simp
    moreover from this assms have "wrap_add64 (lc_current_size c2) (entry_weight key r) =
        lc_current_size c2 + entry_weight key r"
      by (intro wrap_add64_exact) (simp add: lc_inv_def)
    ultimately show ?thesis
      using True put room c1 assms ew.total_insert_new [OF fresh]
      by (simp add: lc_inv_def lc_ok_def lc_total_def)
  qed
qed

lemma total_update_count:
  "hm_get m k = Some v \<Longrightarrow> map_total count_weight (hm_insert k w m) = map_total count_weight m"
  by (induction m) (auto simp: map_total_def count_weight_def)

lemma lc_record_miss_inv:
  assumes "lc_inv c"
  shows "lc_inv (snd (lc_record_miss ch now key n c))"
proof (cases "n \<le> 1")
  case True
  with assms show ?thesis by (simp add: lc_record_miss_def)
next
  case uses: False
  show ?thesis
  proof (cases "hm_get (lc_request_counts c) key")
    case (Some v)
    with uses assms total_update_count [OF Some] show ?thesis
      by (simp add: lc_record_miss_def Let_def lc_inv_def lc_ok_def lc_total_def)
  next
    case None
    let ?w = "sat_add64 (key_size key) 64"
    obtain b c1 where c1: "make_room ch ?w c = (b, c1)" by (cases "make_room ch ?w c")
    have "lc_ok c" using assms by (simp add: lc_inv_def)
    note room = make_room_ok [OF this c1]
    have fresh: "hm_get (lc_request_counts c1) key = None"
      using make_room_sub [OF c1, of key] None by simp
    show ?thesis
    proof (cases b)
      case False
      with uses None c1 room assms show ?thesis by (simp add: lc_record_miss_def)
    next
      case True
      with room have le: "lc_current_size c1 + ?w \<le> lc_max_size c" by simp
      moreover from this assms have "wrap_add64 (lc_current_size c1) ?w = lc_current_size c1 + ?w"
        by (intro wrap_add64_exact) (simp add: lc_inv_def)
      ultimately show ?thesis
        using True uses None c1 room assms cw.total_insert_new [OF fresh]
        by (simp add: lc_record_miss_def lc_inv_def lc_ok_def lc_total_def count_weight_def)
    qed
  qed
qed

section \<open>The backend\<close>

text \<open>
  \<open>be_heap\<close> holds every cache ever created by its handle; \<open>be_locations\<close> is the map from route
  ids the backend still knows. \<open>be_next\<close> is the next unused handle.
\<close>

type_synonym handle = nat

record cache_backend =
  be_generation :: nat
  be_locations :: "(nat, handle) hmap"
  be_heap :: "(handle, location_cache) hmap"
  be_next :: handle
  be_default_max_size :: nat

definition be_new :: "nat \<Rightarrow> cache_backend" where
  "be_new default_max_size =
     \<lparr>be_generation = 0, be_locations = [], be_heap = [], be_next = 0,
      be_default_max_size = default_max_size\<rparr>"

definition set_default_max_size :: "nat \<Rightarrow> cache_backend \<Rightarrow> cache_backend" where
  "set_default_max_size sz b = b\<lparr>be_default_max_size := sz\<rparr>"

definition be_max_size :: "cache_backend \<Rightarrow> cache_config \<Rightarrow> nat" where
  "be_max_size b cfg =
     (case cc_max_size cfg of Some m \<Rightarrow> m | None \<Rightarrow> be_default_max_size b)"

definition advance_generation :: "nat \<Rightarrow> cache_backend \<Rightarrow> cache_backend" where
  "advance_generation generation b =
     (if generation \<le> be_generation b then b
      else b\<lparr>be_locations := [], be_generation := generation\<rparr>)"

text \<open>
  \<^verbatim>\<open>store\<close> first looks under the read lock and, to create a cache, checks again under the write
  lock; the model is the check that decides.
\<close>

definition be_store ::
  "instant \<Rightarrow> cache_key \<Rightarrow> cache_config \<Rightarrow> bool \<Rightarrow> cache_backend \<Rightarrow> handle option \<times> cache_backend" where
  "be_store now key cfg create b =
     (if \<not> cc_enabled cfg then (None, b)
      else if ck_generation key < be_generation b then (None, b)
      else
        (case hm_get (be_locations b) (ck_route_id key) of
           Some h \<Rightarrow> (Some h, b)
         | None \<Rightarrow>
             if \<not> create then (None, b)
             else
               (Some (be_next b),
                b\<lparr>be_locations := hm_insert (ck_route_id key) (be_next b) (be_locations b),
                  be_heap := hm_insert (be_next b) (lc_new now cfg (be_max_size b cfg)) (be_heap b),
                  be_next := Suc (be_next b)\<rparr>)))"

text \<open>Work on a cache under its lock.\<close>

definition with_cache ::
  "handle \<Rightarrow> (location_cache \<Rightarrow> location_cache) \<Rightarrow> cache_backend \<Rightarrow> cache_backend" where
  "with_cache h f b =
     (case hm_get (be_heap b) h of
        None \<Rightarrow> b
      | Some c \<Rightarrow> b\<lparr>be_heap := hm_insert h (f c) (be_heap b)\<rparr>)"

text \<open>The guarded bodies of \<^verbatim>\<open>record_miss\<close> and \<^verbatim>\<open>put\<close>.\<close>

definition locked_record_miss ::
  "chooser \<Rightarrow> instant \<Rightarrow> cache_key \<Rightarrow> cache_config \<Rightarrow> nat \<Rightarrow> location_cache \<Rightarrow> bool \<times> location_cache" where
  "locked_record_miss ch now key cfg max_size c =
     lc_record_miss ch now key (case cc_min_uses cfg of Some n \<Rightarrow> n | None \<Rightarrow> 1)
       (sync_limits ch now cfg max_size c)"

definition locked_put ::
  "chooser \<Rightarrow> instant \<Rightarrow> cache_key \<Rightarrow> cached_response \<Rightarrow> cache_config \<Rightarrow> nat \<Rightarrow>
     location_cache \<Rightarrow> location_cache" where
  "locked_put ch now key response cfg max_size c =
     lc_put ch key response (sync_limits ch now cfg max_size c)"

definition be_get :: "instant \<Rightarrow> cache_key \<Rightarrow> cache_config \<Rightarrow> cache_backend \<Rightarrow> cached_response option" where
  "be_get now key cfg b =
     (case fst (be_store now key cfg False b) of
        None \<Rightarrow> None
      | Some h \<Rightarrow>
          (case hm_get (be_heap b) h of
             None \<Rightarrow> None
           | Some c \<Rightarrow>
               (case hm_get (lc_entries c) key of
                  None \<Rightarrow> None
                | Some r \<Rightarrow> if elapsed now (cp_created_at r) < cfg_ttl cfg then Some r else None)))"

definition be_get_stale ::
  "instant \<Rightarrow> cache_key \<Rightarrow> cache_config \<Rightarrow> cache_backend \<Rightarrow> cached_response option" where
  "be_get_stale now key cfg b =
     (case cc_stale_if_error cfg of
        None \<Rightarrow> None
      | Some stale \<Rightarrow>
          let retention = sat_add duration_max (cfg_ttl cfg) stale
          in case fst (be_store now key cfg False b) of
               None \<Rightarrow> None
             | Some h \<Rightarrow>
                 (case hm_get (be_heap b) h of
                    None \<Rightarrow> None
                  | Some c \<Rightarrow>
                      (case hm_get (lc_entries c) key of
                         None \<Rightarrow> None
                       | Some r \<Rightarrow> if elapsed now (cp_created_at r) < retention then Some r else None)))"

definition be_record_miss ::
  "chooser \<Rightarrow> instant \<Rightarrow> cache_key \<Rightarrow> cache_config \<Rightarrow> cache_backend \<Rightarrow> bool \<times> cache_backend" where
  "be_record_miss ch now key cfg b =
     (case be_store now key cfg True b of
        (None, b1) \<Rightarrow> (False, b1)
      | (Some h, b1) \<Rightarrow>
          ((case hm_get (be_heap b1) h of
              None \<Rightarrow> False
            | Some c \<Rightarrow> fst (locked_record_miss ch now key cfg (be_max_size b1 cfg) c)),
           with_cache h (\<lambda>c. snd (locked_record_miss ch now key cfg (be_max_size b1 cfg) c)) b1))"

definition be_put ::
  "chooser \<Rightarrow> instant \<Rightarrow> cache_key \<Rightarrow> cached_response \<Rightarrow> cache_config \<Rightarrow> cache_backend \<Rightarrow> cache_backend" where
  "be_put ch now key response cfg b =
     (case be_store now key cfg True b of
        (None, b1) \<Rightarrow> b1
      | (Some h, b1) \<Rightarrow> with_cache h (locked_put ch now key response cfg (be_max_size b1 cfg)) b1)"

definition be_evict_stale :: "instant \<Rightarrow> cache_backend \<Rightarrow> cache_backend" where
  "be_evict_stale now b =
     foldl (\<lambda>b h. with_cache h (lc_evict_stale now) b) b (hm_values (be_locations b))"

definition invalidate_route :: "nat \<Rightarrow> cache_backend \<Rightarrow> cache_backend" where
  "invalidate_route route_id b = b\<lparr>be_locations := hm_remove route_id (be_locations b)\<rparr>"

definition total_entries :: "cache_backend \<Rightarrow> nat" where
  "total_entries b =
     sum_list (map (\<lambda>h. case hm_get (be_heap b) h of None \<Rightarrow> 0 | Some c \<Rightarrow> length (lc_entries c))
       (hm_values (be_locations b)))"

section \<open>Interleaved operations\<close>

datatype cache_op = MissOp cache_key cache_config | PutOp cache_key cached_response cache_config

fun op_key :: "cache_op \<Rightarrow> cache_key" where
  "op_key (MissOp k cfg) = k"
| "op_key (PutOp k r cfg) = k"

fun op_cfg :: "cache_op \<Rightarrow> cache_config" where
  "op_cfg (MissOp k cfg) = cfg"
| "op_cfg (PutOp k r cfg) = cfg"

fun run_op :: "chooser \<Rightarrow> instant \<Rightarrow> nat \<Rightarrow> cache_op \<Rightarrow> location_cache \<Rightarrow> location_cache" where
  "run_op ch now m (MissOp k cfg) c = snd (locked_record_miss ch now k cfg m c)"
| "run_op ch now m (PutOp k r cfg) c = locked_put ch now k r cfg m c"

text \<open>The sizes of a configuration are 64-bit values.\<close>

definition cfg_ok :: "cache_config \<Rightarrow> bool" where
  "cfg_ok cfg \<longleftrightarrow> (case cc_max_size cfg of None \<Rightarrow> True | Some m \<Rightarrow> m \<le> u64_max)"

text \<open>
  The state of the cache and the operations in flight, each with the handle it obtained. The
  steps of different tasks interleave freely.
\<close>

record cache_state =
  st_backend :: cache_backend
  st_pending :: "(handle \<times> cache_op) list"

inductive cache_step :: "cache_state \<Rightarrow> cache_state \<Rightarrow> bool" where
  acquire: "be_store now (op_key opn) (op_cfg opn) True b = (Some h, b') \<Longrightarrow> cfg_ok (op_cfg opn) \<Longrightarrow>
    cache_step \<lparr>st_backend = b, st_pending = ps\<rparr> \<lparr>st_backend = b', st_pending = (h, opn) # ps\<rparr>"
| perform: "(h, opn) \<in> set ps \<Longrightarrow>
    cache_step \<lparr>st_backend = b, st_pending = ps\<rparr>
      \<lparr>st_backend = with_cache h (run_op ch now (be_max_size b (op_cfg opn)) opn) b,
       st_pending = remove1 (h, opn) ps\<rparr>"
| advance: "cache_step \<lparr>st_backend = b, st_pending = ps\<rparr>
    \<lparr>st_backend = advance_generation g b, st_pending = ps\<rparr>"
| evict: "cache_step \<lparr>st_backend = b, st_pending = ps\<rparr>
    \<lparr>st_backend = be_evict_stale now b, st_pending = ps\<rparr>"
| invalidate: "cache_step \<lparr>st_backend = b, st_pending = ps\<rparr>
    \<lparr>st_backend = invalidate_route rid b, st_pending = ps\<rparr>"
| resize: "sz \<le> u64_max \<Longrightarrow> cache_step \<lparr>st_backend = b, st_pending = ps\<rparr>
    \<lparr>st_backend = set_default_max_size sz b, st_pending = ps\<rparr>"

definition cache_initial :: "cache_state \<Rightarrow> bool" where
  "cache_initial s \<longleftrightarrow> (\<exists>m \<le> u64_max. s = \<lparr>st_backend = be_new m, st_pending = []\<rparr>)"

text \<open>Every cache is accounted for, also those the backend has dropped.\<close>

definition heap_inv :: "cache_backend \<Rightarrow> bool" where
  "heap_inv b \<longleftrightarrow> be_default_max_size b \<le> u64_max \<and>
     (\<forall>h c. hm_get (be_heap b) h = Some c \<longrightarrow> h < be_next b \<and> lc_inv c)"

definition entry_keys :: "location_cache \<Rightarrow> cache_key set" where
  "entry_keys c = fst ` set (lc_entries c)"

text \<open>A cache of the current table only has entries of its route and of the current generation on.\<close>

definition key_live :: "cache_backend \<Rightarrow> nat \<Rightarrow> cache_key \<Rightarrow> bool" where
  "key_live b rid k \<longleftrightarrow> be_generation b \<le> ck_generation k \<and> ck_route_id k = rid"

definition table_inv :: "cache_backend \<Rightarrow> bool" where
  "table_inv b \<longleftrightarrow> hm_wf (be_locations b) \<and> distinct (hm_values (be_locations b)) \<and>
     (\<forall>rid h. hm_get (be_locations b) rid = Some h \<longrightarrow> h < be_next b \<and>
       (\<exists>c. hm_get (be_heap b) h = Some c \<and> entry_keys c \<subseteq> Collect (key_live b rid)))"

definition pending_inv :: "cache_backend \<Rightarrow> (handle \<times> cache_op) list \<Rightarrow> bool" where
  "pending_inv b ps \<longleftrightarrow>
     (\<forall>(h, opn) \<in> set ps. h < be_next b \<and> cfg_ok (op_cfg opn) \<and>
       (\<forall>rid. hm_get (be_locations b) rid = Some h \<longrightarrow> key_live b rid (op_key opn)))"

definition cache_inv :: "cache_state \<Rightarrow> bool" where
  "cache_inv s \<longleftrightarrow>
     heap_inv (st_backend s) \<and> table_inv (st_backend s) \<and> pending_inv (st_backend s) (st_pending s)"

lemma run_op_inv: "lc_inv c \<Longrightarrow> m \<le> u64_max \<Longrightarrow> lc_inv (run_op ch now m opn c)"
  by (cases opn)
    (auto simp: locked_record_miss_def locked_put_def lc_inv_def [of c]
      intro!: lc_record_miss_inv lc_put_inv sync_limits_inv)

lemma be_max_size_le: "be_default_max_size b \<le> u64_max \<Longrightarrow> cfg_ok cfg \<Longrightarrow> be_max_size b cfg \<le> u64_max"
  by (simp add: be_max_size_def cfg_ok_def split: option.splits)

lemma entry_keys_get: "entry_keys c = {k. hm_get (lc_entries c) k \<noteq> None}"
  by (auto simp: entry_keys_def map_of_eq_None_iff)

lemma entry_keys_simps [simp]:
  "entry_keys (c\<lparr>lc_request_counts := m\<rparr>) = entry_keys c"
  "entry_keys (c\<lparr>lc_current_size := sz\<rparr>) = entry_keys c"
  "entry_keys (c\<lparr>lc_entries := hm_insert k v (lc_entries c)\<rparr>) = insert k (entry_keys c)"
  "entry_keys (c\<lparr>lc_current_size := sz, lc_entries := hm_insert k v (lc_entries c)\<rparr>) =
     insert k (entry_keys c)"
  by (simp_all add: entry_keys_def dom_update)

lemma lc_evict_stale_keys: "entry_keys (lc_evict_stale now c) \<subseteq> entry_keys c"
  by (auto simp: entry_keys_def lc_evict_stale_def Let_def)

lemma make_room_keys: "entry_keys (snd (make_room ch sz c)) \<subseteq> entry_keys c"
proof
  fix k
  assume "k \<in> entry_keys (snd (make_room ch sz c))"
  with make_room_sub [of ch sz c "fst (make_room ch sz c)" "snd (make_room ch sz c)" k]
  show "k \<in> entry_keys c" by (auto simp: entry_keys_get)
qed

lemma sync_limits_keys: "entry_keys (sync_limits ch now cfg m c) \<subseteq> entry_keys c"
proof -
  define c1 where "c1 = c\<lparr>lc_ttl := cfg_ttl cfg, lc_retention := cfg_retention cfg, lc_max_size := m\<rparr>"
  have "entry_keys c1 = entry_keys c" by (simp add: c1_def entry_keys_def)
  then show ?thesis
    using lc_evict_stale_keys [of now c1] make_room_keys [of ch 0 c1]
      make_room_keys [of ch 0 "lc_evict_stale now c1"]
    unfolding sync_limits_def Let_def c1_def [symmetric] by (auto split: if_splits)
qed

lemma lc_put_keys: "entry_keys (lc_put ch key r c) \<subseteq> insert key (entry_keys c)"
proof -
  define c1 where "c1 = remove_response key (remove_count key c)"
  have "entry_keys c1 \<subseteq> entry_keys c" by (auto simp: c1_def entry_keys_get remove_get)
  then show ?thesis
    using make_room_keys [of ch "sat_add64 (key_size key) (response_size r)" c1]
    by (cases "make_room ch (sat_add64 (key_size key) (response_size r)) c1")
      (auto simp: lc_put_def Let_def c1_def [symmetric] split: bool.splits)
qed

lemma lc_record_miss_keys: "entry_keys (snd (lc_record_miss ch now key n c)) \<subseteq> entry_keys c"
  using make_room_keys [of ch "sat_add64 (key_size key) 64" c]
  by (cases "make_room ch (sat_add64 (key_size key) 64) c")
    (auto simp: lc_record_miss_def Let_def split: bool.splits option.splits)

lemma run_op_keys: "entry_keys (run_op ch now m opn c) \<subseteq> insert (op_key opn) (entry_keys c)"
proof (cases opn)
  case (MissOp k cfg)
  then show ?thesis
    using lc_record_miss_keys sync_limits_keys by (force simp: locked_record_miss_def)
next
  case (PutOp k r cfg)
  then show ?thesis
    using lc_put_keys sync_limits_keys by (force simp: locked_put_def)
qed

subsection \<open>Every step keeps the invariant\<close>

lemma with_cache_heap:
  "hm_get (be_heap (with_cache h f b)) h' =
     (if h' = h then map_option f (hm_get (be_heap b) h) else hm_get (be_heap b) h')"
  by (simp add: with_cache_def split: option.split)

lemma with_cache_simps [simp]:
  "be_locations (with_cache h f b) = be_locations b" "be_next (with_cache h f b) = be_next b"
  "be_generation (with_cache h f b) = be_generation b"
  "be_default_max_size (with_cache h f b) = be_default_max_size b"
  "key_live (with_cache h f b) = key_live b"
  by (auto simp: with_cache_def key_live_def fun_eq_iff split: option.split)

lemma with_cache_heap_inv:
  "heap_inv b \<Longrightarrow> (\<And>c. lc_inv c \<Longrightarrow> lc_inv (f c)) \<Longrightarrow> heap_inv (with_cache h f b)"
  by (auto simp: heap_inv_def with_cache_heap split: if_splits)

lemma with_cache_table_inv:
  assumes "table_inv b"
    and "\<And>c rid. hm_get (be_locations b) rid = Some h \<Longrightarrow>
      entry_keys (f c) \<subseteq> Collect (key_live b rid) \<union> entry_keys c"
  shows "table_inv (with_cache h f b)"
  using assms unfolding table_inv_def
  by (simp add: with_cache_heap entry_keys_get) (blast dest: subsetD)

lemma with_cache_pending: "pending_inv (with_cache h f b) ps = pending_inv b ps"
  by (simp add: pending_inv_def)

lemma key_live_simps [simp]:
  "key_live (b\<lparr>be_default_max_size := sz\<rparr>) = key_live b"
  "key_live (b\<lparr>be_locations := ls\<rparr>) = key_live b"
  by (auto simp: key_live_def fun_eq_iff)

lemma distinct_values_remove: "distinct (hm_values m) \<Longrightarrow> distinct (hm_values (hm_remove k m))"
  by (simp add: AList.delete_eq distinct_map_filter)

lemma insert_new: "hm_get m k = None \<Longrightarrow> hm_insert k v m = m @ [(k, v)]"
  by (induction m) (auto split: if_splits)

lemma evict_fold_inv:
  "heap_inv b \<and> table_inv b \<and> pending_inv b ps \<Longrightarrow>
   let b' = foldl (\<lambda>b h. with_cache h (lc_evict_stale now) b) b hs
   in heap_inv b' \<and> table_inv b' \<and> pending_inv b' ps"
proof (induction hs arbitrary: b)
  case Nil
  then show ?case by simp
next
  case (Cons h hs)
  let ?b = "with_cache h (lc_evict_stale now) b"
  have "heap_inv ?b" using Cons.prems by (intro with_cache_heap_inv) (auto intro: lc_evict_stale_inv)
  moreover have "table_inv ?b"
    using Cons.prems lc_evict_stale_keys by (intro with_cache_table_inv) blast+
  ultimately show ?case using Cons.IH [of ?b] Cons.prems by (simp add: with_cache_pending)
qed

lemma acquire_inv:
  assumes "heap_inv b" and "table_inv b" and "pending_inv b ps"
    and "be_store now (op_key opn) (op_cfg opn) True b = (Some h, b')" and "cfg_ok (op_cfg opn)"
  shows "heap_inv b' \<and> table_inv b' \<and> pending_inv b' ((h, opn) # ps)"
proof -
  let ?k = "op_key opn"
  from assms(4) have gen: "be_generation b \<le> ck_generation ?k"
    by (auto simp: be_store_def split: if_splits)
  show ?thesis
  proof (cases "hm_get (be_locations b) (ck_route_id ?k)")
    case (Some h0)
    with assms(4) have eq: "h = h0" "b' = b" by (auto simp: be_store_def split: if_splits)
    have "rid = ck_route_id ?k" if "hm_get (be_locations b) rid = Some h0" for rid
      using that Some assms(2) unfolding table_inv_def
      by (metis distinct_map inj_onD map_of_SomeD prod.inject snd_conv)
    with Some gen assms eq show ?thesis
      by (auto simp: pending_inv_def table_inv_def key_live_def)
  next
    case None
    with assms(4) have h: "h = be_next b"
      and b': "b' = b\<lparr>be_locations := hm_insert (ck_route_id ?k) (be_next b) (be_locations b),
          be_heap := hm_insert (be_next b) (lc_new now (op_cfg opn) (be_max_size b (op_cfg opn))) (be_heap b),
          be_next := Suc (be_next b)\<rparr>"
      by (auto simp: be_store_def split: if_splits)
    have below: "h' < be_next b" if "hm_get (be_locations b) rid = Some h'" for rid h'
      using assms(2) that by (auto simp: table_inv_def)
    have "hm_values (hm_insert (ck_route_id ?k) (be_next b) (be_locations b)) =
        hm_values (be_locations b) @ [be_next b]"
      using None by (simp add: insert_new)
    moreover have "be_next b \<notin> set (hm_values (be_locations b))"
      using below assms(2) unfolding table_inv_def hm_wf_def
      by (metis (no_types, lifting) imageE list.set_map map_of_is_SomeI nat_neq_iff prod.collapse)
    moreover have "key_live b' = key_live b" by (auto simp: b' key_live_def fun_eq_iff)
    moreover have "entry_keys (lc_new now cfg m) = {}" for cfg m by (simp add: entry_keys_def lc_new_def)
    ultimately have "table_inv b'"
      using assms(2) below
      by (auto simp: table_inv_def b' less_Suc_eq split: if_splits)
    moreover have "heap_inv b'"
      using assms(1,5) by (auto simp: heap_inv_def b' less_Suc_eq lc_new_inv be_max_size_le)
    moreover have "pending_inv b' ((h, opn) # ps)"
      using assms(3,5) gen below unfolding pending_inv_def
      by (auto simp: b' h key_live_def less_Suc_eq split: if_splits)
    ultimately show ?thesis by simp
  qed
qed

lemma perform_inv:
  assumes "heap_inv b" and "table_inv b" and "pending_inv b ps" and "(h, opn) \<in> set ps"
  shows "heap_inv (with_cache h (run_op ch now (be_max_size b (op_cfg opn)) opn) b) \<and>
    table_inv (with_cache h (run_op ch now (be_max_size b (op_cfg opn)) opn) b)"
proof
  from assms(3,4) have ok: "cfg_ok (op_cfg opn)"
    and live: "\<And>rid. hm_get (be_locations b) rid = Some h \<Longrightarrow> key_live b rid (op_key opn)"
    by (auto simp: pending_inv_def)
  from assms(1) ok have "be_max_size b (op_cfg opn) \<le> u64_max"
    by (simp add: heap_inv_def be_max_size_le)
  with assms(1) show "heap_inv (with_cache h (run_op ch now (be_max_size b (op_cfg opn)) opn) b)"
    by (intro with_cache_heap_inv run_op_inv)
  show "table_inv (with_cache h (run_op ch now (be_max_size b (op_cfg opn)) opn) b)"
    using assms(2) run_op_keys live by (intro with_cache_table_inv) blast+
qed

lemma advance_inv:
  "heap_inv b \<and> table_inv b \<and> pending_inv b ps \<Longrightarrow>
   heap_inv (advance_generation g b) \<and> table_inv (advance_generation g b) \<and>
   pending_inv (advance_generation g b) ps"
  by (auto simp: advance_generation_def heap_inv_def table_inv_def pending_inv_def)

lemma invalidate_inv:
  "heap_inv b \<and> table_inv b \<and> pending_inv b ps \<Longrightarrow>
   heap_inv (invalidate_route g b) \<and> table_inv (invalidate_route g b) \<and>
   pending_inv (invalidate_route g b) ps"
  by (auto simp: invalidate_route_def heap_inv_def table_inv_def pending_inv_def
      distinct_values_remove split: if_splits)

lemma cache_step_inv: "cache_step s t \<Longrightarrow> cache_inv s \<Longrightarrow> cache_inv t"
proof (induction rule: cache_step.induct)
  case (acquire now opn b h b' ps)
  then show ?case using acquire_inv [of b ps now opn h b'] by (simp add: cache_inv_def)
next
  case (perform h opn ps b ch now)
  then show ?case
    using perform_inv [of b ps h opn ch now]
    by (auto simp: cache_inv_def with_cache_pending pending_inv_def dest: notin_set_remove1)
next
  case (evict b ps now)
  then show ?case
    using evict_fold_inv [of b ps now "hm_values (be_locations b)"]
    by (simp add: cache_inv_def be_evict_stale_def Let_def)
next
  case (resize sz b ps)
  then show ?case
    by (simp add: cache_inv_def set_default_max_size_def heap_inv_def table_inv_def pending_inv_def)
next
  case (advance b ps g)
  then show ?case using advance_inv [of b ps g] by (simp add: cache_inv_def)
next
  case (invalidate b ps rid)
  then show ?case using invalidate_inv [of b ps rid] by (simp add: cache_inv_def)
qed

interpretation cache: invariant_of cache_initial cache_step cache_inv
proof
  show "cache_initial s \<Longrightarrow> cache_inv s" for s
    by (auto simp: cache_initial_def cache_inv_def be_new_def heap_inv_def table_inv_def pending_inv_def)
qed (rule cache_step_inv)

section \<open>Storing and reading back\<close>

lemma lc_put_get:
  assumes "lc_ok c"
  shows "hm_get (lc_entries (lc_put ch key r c)) key =
      (if entry_weight key r \<le> lc_max_size c then Some r else None)"
    and "k \<noteq> key \<Longrightarrow> hm_get (lc_entries (lc_put ch key r c)) k \<in> {None, hm_get (lc_entries c) k}"
proof -
  define c1 where "c1 = remove_response key (remove_count key c)"
  obtain b c2 where c2: "make_room ch (entry_weight key r) c1 = (b, c2)"
    by (cases "make_room ch (entry_weight key r) c1")
  have put: "lc_put ch key r c =
      (if b then c2\<lparr>lc_current_size := wrap_add64 (lc_current_size c2) (entry_weight key r),
                    lc_entries := hm_insert key r (lc_entries c2)\<rparr> else c2)"
    using c2 by (simp add: lc_put_def c1_def entry_weight_def split: bool.split)
  have b: "b \<longleftrightarrow> entry_weight key r \<le> lc_max_size c"
    using c2 by (auto simp: make_room_def c1_def split: if_splits)
  note sub = make_room_sub [OF c2]
  show "hm_get (lc_entries (lc_put ch key r c)) key =
      (if entry_weight key r \<le> lc_max_size c then Some r else None)"
    using put b sub [of key] by (simp add: c1_def remove_get)
  show "hm_get (lc_entries (lc_put ch key r c)) k \<in> {None, hm_get (lc_entries c) k}" if "k \<noteq> key"
    using put sub [of k] that by (auto simp: c1_def remove_get)
qed

lemma sync_limits_sub:
  assumes "lc_ok c"
  shows "hm_get (lc_entries (sync_limits ch now cfg m c)) k \<in> {None, hm_get (lc_entries c) k}"
proof -
  define c1 where "c1 = c\<lparr>lc_ttl := cfg_ttl cfg, lc_retention := cfg_retention cfg, lc_max_size := m\<rparr>"
  have "hm_get (lc_entries (lc_evict_stale now c1)) k \<in> {None, hm_get (lc_entries c) k}"
    using assms by (auto simp: c1_def lc_evict_stale_def Let_def hm_get_filter lc_ok_def split: option.splits)
  moreover have "hm_get (lc_entries c1) k = hm_get (lc_entries c) k" by (simp add: c1_def)
  moreover have "hm_get (lc_entries (snd (make_room ch 0 d))) k \<in> {None, hm_get (lc_entries d) k}" for d
    using make_room_sub [of ch 0 d "fst (make_room ch 0 d)" "snd (make_room ch 0 d)" k] by simp
  note this [of c1] this [of "lc_evict_stale now c1"]
  ultimately show ?thesis
    unfolding sync_limits_def Let_def c1_def [symmetric] by (auto split: if_splits)
qed

lemma be_store_create:
  assumes "heap_inv b" and "table_inv b" and "cc_enabled cfg" and "be_generation b \<le> ck_generation key"
    and "cfg_ok cfg"
  obtains h b1 c where "be_store now key cfg True b = (Some h, b1)"
    "hm_get (be_locations b1) (ck_route_id key) = Some h" "be_generation b1 = be_generation b"
    "be_max_size b1 cfg = be_max_size b cfg" "hm_get (be_heap b1) h = Some c" "lc_inv c"
    "\<And>k. hm_get (lc_entries c) k \<noteq> None \<Longrightarrow> hm_get (be_locations b) (ck_route_id key) = Some h"
    "\<And>rid. rid \<noteq> ck_route_id key \<Longrightarrow> hm_get (be_locations b1) rid = hm_get (be_locations b) rid"
    "\<And>rid h'. hm_get (be_locations b) rid = Some h' \<Longrightarrow> hm_get (be_heap b1) h' = hm_get (be_heap b) h'"
proof (cases "hm_get (be_locations b) (ck_route_id key)")
  case (Some h)
  with assms(2) obtain c where c: "hm_get (be_heap b) h = Some c"
    unfolding table_inv_def by blast
  have "be_store now key cfg True b = (Some h, b)" using assms Some by (simp add: be_store_def)
  moreover from assms(1) c have "lc_inv c" by (auto simp: heap_inv_def)
  ultimately show thesis using that [of h b c] Some c by simp
next
  case None
  let ?b1 = "b\<lparr>be_locations := hm_insert (ck_route_id key) (be_next b) (be_locations b),
      be_heap := hm_insert (be_next b) (lc_new now cfg (be_max_size b cfg)) (be_heap b),
      be_next := Suc (be_next b)\<rparr>"
  have "be_store now key cfg True b = (Some (be_next b), ?b1)"
    using assms None by (simp add: be_store_def)
  moreover have "lc_inv (lc_new now cfg (be_max_size b cfg))"
    using assms by (intro lc_new_inv be_max_size_le) (simp_all add: heap_inv_def)
  moreover have "h' \<noteq> be_next b" if "hm_get (be_locations b) rid = Some h'" for rid h'
    using assms(2) that by (auto simp: table_inv_def)
  moreover have "be_max_size ?b1 cfg = be_max_size b cfg" by (simp add: be_max_size_def split: option.split)
  moreover have "lc_entries (lc_new now cfg (be_max_size b cfg)) = []" by (simp add: lc_new_def)
  ultimately show thesis
    using that [of "be_next b" ?b1 "lc_new now cfg (be_max_size b cfg)"] by auto
qed

lemma be_put_get:
  assumes "heap_inv b" and "table_inv b" and "cc_enabled cfg" and "be_generation b \<le> ck_generation key"
    and "cfg_ok cfg"
  shows "be_get now' key cfg (be_put ch now key r cfg b) =
    (if entry_weight key r \<le> be_max_size b cfg \<and> elapsed now' (cp_created_at r) < cfg_ttl cfg
     then Some r else None)"
proof -
  obtain h b1 c where b1: "be_store now key cfg True b = (Some h, b1)"
    "hm_get (be_locations b1) (ck_route_id key) = Some h" "be_generation b1 = be_generation b"
    "be_max_size b1 cfg = be_max_size b cfg" "hm_get (be_heap b1) h = Some c" "lc_inv c"
    by (rule be_store_create [OF assms, of now]) blast
  let ?m = "be_max_size b cfg"
  let ?f = "locked_put ch now key r cfg ?m"
  have m: "?m \<le> u64_max" using assms by (simp add: heap_inv_def be_max_size_le)
  have "lc_ok c" using b1(6) by (simp add: lc_inv_def)
  note sync = sync_limits_inv [OF this m, of ch now cfg]
  have "hm_get (lc_entries (?f c)) key = (if entry_weight key r \<le> ?m then Some r else None)"
    unfolding locked_put_def using lc_put_get(1) [of "sync_limits ch now cfg ?m c"] sync
    by (simp add: lc_inv_def)
  moreover have "be_put ch now key r cfg b = with_cache h ?f b1"
    using b1 by (simp add: be_put_def)
  moreover have "fst (be_store now' key cfg False (with_cache h ?f b1)) = Some h"
    using b1 assms by (simp add: be_store_def)
  ultimately show ?thesis using b1 by (simp add: be_get_def with_cache_heap)
qed

lemma be_get_eq:
  "be_get now k cfg b =
     (if cc_enabled cfg \<and> be_generation b \<le> ck_generation k then
        Option.bind (hm_get (be_locations b) (ck_route_id k)) (\<lambda>h.
          Option.bind (hm_get (be_heap b) h) (\<lambda>c.
            Option.bind (hm_get (lc_entries c) k) (\<lambda>r.
              if elapsed now (cp_created_at r) < cfg_ttl cfg then Some r else None)))
      else None)"
  by (auto simp: be_get_def be_store_def split: option.splits bind_splits)

lemma be_put_other:
  assumes "heap_inv b" and "table_inv b" and "cfg_ok cfg" and "k \<noteq> key"
  shows "be_get now' k cfg' (be_put ch now key r cfg b) \<in> {None, be_get now' k cfg' b}"
proof (cases "cc_enabled cfg \<and> be_generation b \<le> ck_generation key")
  case False
  then show ?thesis by (auto simp: be_put_def be_store_def)
next
  case True
  then have en: "cc_enabled cfg" and gen: "be_generation b \<le> ck_generation key" by auto
  show ?thesis
  proof (rule be_store_create [OF assms(1,2) en gen assms(3), of now])
    fix h b1 c
    assume b1: "be_store now key cfg True b = (Some h, b1)"
      "hm_get (be_locations b1) (ck_route_id key) = Some h" "be_generation b1 = be_generation b"
      "be_max_size b1 cfg = be_max_size b cfg" "hm_get (be_heap b1) h = Some c" "lc_inv c"
      and old: "\<And>k. hm_get (lc_entries c) k \<noteq> None \<Longrightarrow>
        hm_get (be_locations b) (ck_route_id key) = Some h"
      and other: "\<And>rid. rid \<noteq> ck_route_id key \<Longrightarrow>
        hm_get (be_locations b1) rid = hm_get (be_locations b) rid"
      and heap: "\<And>rid h'. hm_get (be_locations b) rid = Some h' \<Longrightarrow>
        hm_get (be_heap b1) h' = hm_get (be_heap b) h'"
    let ?m = "be_max_size b cfg" and ?rid = "ck_route_id k"
    let ?f = "locked_put ch now key r cfg ?m"
    have m: "?m \<le> u64_max" using assms by (simp add: heap_inv_def be_max_size_le)
    have ok: "lc_ok c" using b1(6) by (simp add: lc_inv_def)
    then have "lc_ok (sync_limits ch now cfg ?m c)"
      using sync_limits_inv [OF ok m, of ch now cfg] by (simp add: lc_inv_def)
    from lc_put_get(2) [OF this assms(4), of ch r] sync_limits_sub [OF ok, of ch now cfg ?m k]
    have kept: "hm_get (lc_entries (?f c)) k \<in> {None, hm_get (lc_entries c) k}"
      unfolding locked_put_def by auto
    have put: "be_put ch now key r cfg b = with_cache h ?f b1" using b1 by (simp add: be_put_def)
    show ?thesis
    proof (cases "hm_get (be_locations b1) ?rid = Some h")
      case True
      show ?thesis
      proof (cases "hm_get (lc_entries (?f c)) k")
        case None
        with True b1 put show ?thesis by (simp add: be_get_eq with_cache_heap)
      next
        case (Some v)
        with kept have v: "hm_get (lc_entries c) k = Some v" by simp
        have "hm_get (be_locations b) ?rid = Some h"
          using True other [of ?rid] old [of k] v by (cases "?rid = ck_route_id key") auto
        moreover from this heap b1(5) have "hm_get (be_heap b) h = Some c" by fastforce
        ultimately show ?thesis using True b1 put Some v by (simp add: be_get_eq with_cache_heap)
      qed
    next
      case False
      with b1(2) have "?rid \<noteq> ck_route_id key" by auto
      with other have "hm_get (be_locations b1) ?rid = hm_get (be_locations b) ?rid" by simp
      with False b1 put heap show ?thesis
        by (cases "hm_get (be_locations b) ?rid") (auto simp: be_get_eq with_cache_heap)
    qed
  qed
qed

section \<open>Claims\<close>

text \<open>
  C2. The size accounting of the cache is exact under every interleaving of its operations: from
  a new backend, in every reachable state and for every location cache, dropped ones included,
  the size counter is the total weight of the stored responses and counters, it is within the
  limit, it fits 64 bits (so no subtraction wraps), and the number of responses is at most the
  limit divided by 256.
\<close>

theorem cache_accounting:
  assumes "cache_initial s" and "cache_step\<^sup>*\<^sup>* s t" and "hm_get (be_heap (st_backend t)) h = Some c"
  shows "lc_current_size c = lc_total c \<and> lc_current_size c \<le> lc_max_size c \<and>
    lc_current_size c \<le> u64_max \<and> 256 * length (lc_entries c) \<le> lc_max_size c"
proof -
  have "lc_inv c"
    using cache.inv_reachable [OF assms(1,2)] assms(3) by (auto simp: cache_inv_def heap_inv_def)
  moreover have "256 * length (lc_entries c) \<le> map_total entry_weight (lc_entries c)"
    by (rule ew.length_le_total [OF entry_weight_ge])
  ultimately show ?thesis by (auto simp: lc_inv_def lc_ok_def lc_total_def)
qed

definition sample_key :: "nat \<Rightarrow> cache_key" where
  "sample_key g =
     \<lparr>ck_generation = g, ck_route_id = 7, ck_host = ''a.b'', ck_method = ''GET'', ck_uri = ''/x''\<rparr>"

definition sample_response :: cached_response where
  "sample_response = \<lparr>cp_status = 200, cp_headers = [], cp_body = ''ok'', cp_created_at = 5\<rparr>"

text \<open>A backend in which one cache was created for generation 0.\<close>

definition sample_backend :: cache_backend where
  "sample_backend = snd (be_store 0 (sample_key 0) cache_config_default True (be_new 4096))"

lemma sample_initial: "cache_initial \<lparr>st_backend = be_new 4096, st_pending = []\<rparr>"
  unfolding cache_initial_def by (intro exI [of _ 4096]) simp

lemma sample_backend_step:
  "cache_step \<lparr>st_backend = be_new 4096, st_pending = []\<rparr>
     \<lparr>st_backend = sample_backend,
      st_pending = [(0, PutOp (sample_key 0) sample_response cache_config_default)]\<rparr>"
  by (rule cache_step.acquire [where now = 0])
    (simp_all add: be_store_def sample_key_def cache_config_default_def be_new_def cfg_ok_def
      sample_backend_def)

theorem cache_accounting_witness:
  "\<exists>c. hm_get (be_heap sample_backend) 0 = Some c \<and> lc_current_size c = lc_total c"
proof -
  obtain c where c: "hm_get (be_heap sample_backend) 0 = Some c"
    by (simp add: sample_backend_def be_store_def sample_key_def cache_config_default_def be_new_def)
  have "cache_initial \<lparr>st_backend = be_new 4096, st_pending = []\<rparr>" by (rule sample_initial)
  moreover have "cache_step\<^sup>*\<^sup>* \<lparr>st_backend = be_new 4096, st_pending = []\<rparr>
      \<lparr>st_backend = sample_backend,
       st_pending = [(0, PutOp (sample_key 0) sample_response cache_config_default)]\<rparr>"
    using sample_backend_step by (rule r_into_rtranclp)
  ultimately have "lc_current_size c = lc_total c"
    using cache_accounting [of _ _ 0 c] c by fastforce
  with c show ?thesis by blast
qed

text \<open>
  C1. A new configuration generation retires what the previous ones cached, also against writes
  in flight: in every reachable state, under every interleaving, each response held by a cache
  the backend still serves from was stored under a key of the current generation or a later one
  and of the route the cache belongs to.
\<close>

theorem cache_generation_isolation:
  assumes "cache_initial s" and "cache_step\<^sup>*\<^sup>* s t"
    and "hm_get (be_locations (st_backend t)) rid = Some h"
    and "hm_get (be_heap (st_backend t)) h = Some c" and "hm_get (lc_entries c) k = Some r"
  shows "be_generation (st_backend t) \<le> ck_generation k \<and> ck_route_id k = rid"
proof -
  from cache.inv_reachable [OF assms(1,2)] have "table_inv (st_backend t)" by (simp add: cache_inv_def)
  with assms(3) obtain c' where "hm_get (be_heap (st_backend t)) h = Some c'"
    and "entry_keys c' \<subseteq> Collect (key_live (st_backend t) rid)"
    unfolding table_inv_def by blast
  with assms(4) have "entry_keys c \<subseteq> Collect (key_live (st_backend t) rid)" by simp
  moreover from assms(5) have "k \<in> entry_keys c" by (simp add: entry_keys_get)
  ultimately show ?thesis by (auto simp: key_live_def)
qed

lemma run_op_put: "run_op ch now m (PutOp k r cfg) = locked_put ch now k r cfg m"
  by (rule ext) simp

lemma sample_put_step:
  "cache_step
     \<lparr>st_backend = sample_backend,
      st_pending = [(0, PutOp (sample_key 0) sample_response cache_config_default)]\<rparr>
     \<lparr>st_backend = with_cache 0 (locked_put (\<lambda>_. 0) 0 (sample_key 0) sample_response cache_config_default 4096)
        sample_backend, st_pending = []\<rparr>"
proof -
  have "be_max_size sample_backend cache_config_default = 4096"
    by (simp add: be_max_size_def cache_config_default_def sample_backend_def be_store_def
        sample_key_def be_new_def)
  with cache_step.perform [of 0 "PutOp (sample_key 0) sample_response cache_config_default"
      "[(0, PutOp (sample_key 0) sample_response cache_config_default)]" sample_backend "\<lambda>_. 0" 0]
  show ?thesis by (simp add: run_op_put)
qed

theorem cache_generation_isolation_witness:
  "be_generation sample_backend \<le> ck_generation (sample_key 0) \<and> ck_route_id (sample_key 0) = 7"
proof -
  let ?b = "with_cache 0 (locked_put (\<lambda>_. 0) 0 (sample_key 0) sample_response cache_config_default 4096)
      sample_backend"
  have run: "cache_step\<^sup>*\<^sup>* \<lparr>st_backend = be_new 4096, st_pending = []\<rparr> \<lparr>st_backend = ?b, st_pending = []\<rparr>"
    using sample_backend_step sample_put_step by (meson converse_rtranclp_into_rtranclp r_into_rtranclp)
  have init: "cache_initial \<lparr>st_backend = be_new 4096, st_pending = []\<rparr>" by (rule sample_initial)
  let ?c = "locked_put (\<lambda>_. 0) 0 (sample_key 0) sample_response cache_config_default 4096
      (lc_new 0 cache_config_default 4096)"
  have "hm_get (be_locations ?b) 7 = Some 0" "hm_get (be_heap ?b) 0 = Some ?c"
    by (simp_all add: with_cache_heap sample_backend_def be_store_def sample_key_def
        cache_config_default_def be_new_def be_max_size_def)
  moreover have "lc_ok (lc_new 0 cache_config_default 4096)"
    using lc_new_inv [of 4096 0 cache_config_default] by (simp add: lc_inv_def)
  then have "hm_get (lc_entries ?c) (sample_key 0) = Some sample_response"
    using sync_limits_inv [of "lc_new 0 cache_config_default 4096" 4096 "\<lambda>_. 0" 0 cache_config_default]
    by (simp add: locked_put_def lc_put_get(1) lc_inv_def entry_weight_def key_size_def response_size_def
        estimated_headers_size_def sat_add_def sample_key_def sample_response_def)
  ultimately show ?thesis
    using cache_generation_isolation [OF init run, of 7 0 ?c "sample_key 0" sample_response] by simp
qed

text \<open>
  Reading back: in every reachable state, storing a response under a key that is not of a
  retired generation makes it readable exactly when it fits the size limit and while it is
  younger than the time to live; every other key reads as before or, if it was evicted to make
  room, not at all.
\<close>

lemma cache_put_get:
  assumes "cache_initial s" and "cache_step\<^sup>*\<^sup>* s t" and "cfg_ok cfg" and "cc_enabled cfg"
    and "be_generation (st_backend t) \<le> ck_generation key"
  shows "be_get now' k cfg (be_put ch now key r cfg (st_backend t)) \<in>
    (if k \<noteq> key then {None, be_get now' k cfg (st_backend t)}
     else if entry_weight key r \<le> be_max_size (st_backend t) cfg \<and> elapsed now' (cp_created_at r) < cfg_ttl cfg
     then {Some r} else {None})"
proof -
  from cache.inv_reachable [OF assms(1,2)] have "heap_inv (st_backend t)" "table_inv (st_backend t)"
    by (auto simp: cache_inv_def)
  then show ?thesis
    using be_put_get [of "st_backend t" cfg key now' ch now r] assms(3-5)
      be_put_other [of "st_backend t" cfg k key now' cfg ch now r]
    by simp
qed

text \<open>
  The directives that forbid caching are found wherever they stand: if any part of any
  \<^verbatim>\<open>Cache-Control\<close> value of a response, between commas, is \<^verbatim>\<open>no-store\<close>, \<^verbatim>\<open>private\<close> or \<^verbatim>\<open>no-cache\<close>, in any
  letter case, with any surrounding white space and with or without an argument, the response is not
  cached; likewise \<^verbatim>\<open>no-store\<close> and \<^verbatim>\<open>no-cache\<close> for a request.
\<close>

lemma cache_control_respected:
  assumes "raw \<in> set (hdr_get_all headers ''cache-control'')" and "ext_to_str x raw = Some value"
    and "part \<in> set (split_on CHR '','' value)" and "fst (directive_parts part) = name"
  shows "(name \<in> {''no-store'', ''private'', ''no-cache''} \<longrightarrow> \<not> is_cacheable x status headers cfg) \<and>
    (name \<in> {''no-store'', ''no-cache''} \<longrightarrow> \<not> is_cacheable_request x method headers)"
proof -
  have "cache_control_loop x ds raws \<noteq> Inr False"
    if "raw \<in> set raws" and "name \<in> set ds" for ds raws
    using that(1)
  proof (induction raws)
    case (Cons r raws)
    have "directive_hit ds part"
      using assms(4) that(2) by (cases "directive_parts part") (simp add: directive_hit_def)
    with assms(3) have "list_ex (directive_hit ds) (split_on CHR '','' value)"
      unfolding list_ex_iff by blast
    with Cons assms(2) show ?case
      by (cases "r = raw") (auto simp: ok_or_def res_simps split: option.splits)
  qed simp
  with assms(1) show ?thesis
    by (auto simp: is_cacheable_def is_cacheable_request_def has_cache_control_directive_def)
qed

end
