(* ===== verification/Proxy_State.thy ===== *)
theory Proxy_State
  imports Selection Scp Geoip Cache
begin

text \<open>
  What the request handlers of the proxy work on: the errors and the downstream session of Pingora,
  the context of a request and the proxy itself (\<^verbatim>\<open>crates/ngxora-runtime/src/upstreams/runtime.rs\<close>),
  and the writing of responses (\<^verbatim>\<open>runtime/response.rs\<close>, \<^verbatim>\<open>runtime/limits.rs\<close>).

  A handler is a function from the world to a result and the world it leaves, composed with
  \<open>bindp\<close> the way the code composes with \<^verbatim>\<open>?\<close>: an error keeps the effects made before it.
  Pingora is outside. Calls on the downstream session are recorded in order, and what Pingora
  answers is a parameter that may depend on all calls made so far. Every handler runs at one
  instant. Spans, metrics and log lines are left out; the trace headers sent upstream are a
  parameter.
\<close>

section \<open>Errors\<close>

datatype error_type = StatusError nat | InternalErrorType | ReadTimedout | OtherError string

datatype error_source = FromUpstream | FromDownstream | FromInternal | UnsetSource

datatype retry_type = Decided bool | ReusedOnly

record pingora_error =
  er_etype :: error_type
  er_esource :: error_source
  er_retry :: retry_type
  er_context :: string

text \<open>\<^verbatim>\<open>Error::explain\<close>: no source, not retried.\<close>

definition explain :: "error_type \<Rightarrow> string \<Rightarrow> pingora_error" where
  "explain t context =
     \<lparr>er_etype = t, er_esource = UnsetSource, er_retry = Decided False, er_context = context\<rparr>"

fun explained :: "proxy_error \<Rightarrow> pingora_error" where
  "explained (HTTPStatus status context) = explain (StatusError status) context"
| "explained (InternalError context) = explain InternalErrorType context"

section \<open>Computations\<close>

type_synonym ('w, 'a) proc = "'w \<Rightarrow> (pingora_error, 'a) result \<times> 'w"

definition returnp :: "'a \<Rightarrow> ('w, 'a) proc" where
  "returnp a w = (Inr a, w)"

definition failp :: "pingora_error \<Rightarrow> ('w, 'a) proc" where
  "failp e w = (Inl e, w)"

definition bindp :: "('w, 'a) proc \<Rightarrow> ('a \<Rightarrow> ('w, 'b) proc) \<Rightarrow> ('w, 'b) proc" where
  "bindp m f w =
     (case m w of
        (Inl e, w') \<Rightarrow> (Inl e, w')
      | (Inr a, w') \<Rightarrow> f a w')"

definition liftp :: "(pingora_error, 'a) result \<Rightarrow> ('w, 'a) proc" where
  "liftp r w = (r, w)"

definition readp :: "('w \<Rightarrow> 'a) \<Rightarrow> ('w, 'a) proc" where
  "readp f w = (Inr (f w), w)"

definition modp :: "('w \<Rightarrow> 'w) \<Rightarrow> ('w, unit) proc" where
  "modp f w = (Inr (), f w)"

named_theorems proc_simps \<open>running computations\<close>

lemma proc_run [proc_simps]:
  "returnp a w = (Inr a, w)" "failp e w = (Inl e, w)" "liftp r w = (r, w)"
  "readp f w = (Inr (f w), w)" "modp g w = (Inr (), g w)"
  by (simp_all add: returnp_def failp_def liftp_def readp_def modp_def)

lemma bindp_split:
  "P (bindp m f w) \<longleftrightarrow>
     (\<forall>e w'. m w = (Inl e, w') \<longrightarrow> P (Inl e, w')) \<and> (\<forall>a w'. m w = (Inr a, w') \<longrightarrow> P (f a w'))"
  by (auto simp: bindp_def split: prod.splits sum.splits)

lemma bindp_Inr_iff [proc_simps]:
  "bindp m f w = (Inr b, w') \<longleftrightarrow> (\<exists>a w1. m w = (Inr a, w1) \<and> f a w1 = (Inr b, w'))"
  by (auto simp: bindp_def split: prod.splits sum.splits)

lemma bindp_return [simp]: "bindp (returnp a) f = f a" "bindp m returnp = m"
  by (auto simp: bindp_def returnp_def fun_eq_iff split: prod.splits sum.splits)

lemma bindp_assoc: "bindp (bindp m f) g = bindp m (\<lambda>a. bindp (f a) g)"
  by (auto simp: bindp_def fun_eq_iff split: prod.splits sum.splits)

section \<open>The downstream session\<close>

record response_head =
  rh_status :: nat
  rh_headers :: header_map

datatype down_call =
    SetKeepalive "nat option"
  | SetReadTimeout "duration option"
  | SetWriteTimeout "duration option"
  | WriteHeader response_head bool
  | WriteBody "string option" bool
  | RespondError nat

record downstream =
  dn_session :: session
  dn_http2 :: bool
  dn_calls :: "down_call list"

text \<open>
  What Pingora and the other libraries answer. \<open>pg_error\<close> is the error of the last call of a
  history, \<open>pg_response_written\<close> the status of the response header sent so far.
\<close>

record pingora_lib =
  pg_error :: "down_call list \<Rightarrow> pingora_error option"
  pg_response_written :: "down_call list \<Rightarrow> nat option"
  pg_was_upgraded :: "downstream \<Rightarrow> bool"
  pg_retry_buffer_truncated :: "downstream \<Rightarrow> bool"
  pg_status_ok :: "nat \<Rightarrow> bool"
  pg_is_idempotent :: "string \<Rightarrow> bool"

datatype dns_answer = DnsTimeout | DnsFailure string | DnsAddresses "(string \<times> nat) list"

record ('s, 'k, 'r) proxy_env =
  pv_plugins :: "'k plugin_libs"
  pv_groups :: "'s group_lib"
  pv_ready :: "backend \<Rightarrow> bool"
  pv_geo :: "'r geo_lib"
  pv_pingora :: pingora_lib
  pv_now :: instant
  pv_chooser :: chooser
  pv_scp :: scp_env
  pv_lookup_host :: "string \<Rightarrow> nat \<Rightarrow> duration \<Rightarrow> dns_answer"
  pv_pool_hash :: "nat \<times> nat \<Rightarrow> nat"
  pv_trace :: "string \<Rightarrow> string \<Rightarrow> header_map \<Rightarrow> header_map"
  pv_problem_json :: "nat \<Rightarrow> string \<Rightarrow> string \<Rightarrow> string"

abbreviation pv_ext :: "('s, 'k, 'r) proxy_env \<Rightarrow> externals" where
  "pv_ext env \<equiv> pl_ext (pv_plugins env)"

text \<open>\<^verbatim>\<open>http::StatusCode\<close>: three-digit codes.\<close>

definition status_from_u16 :: "nat \<Rightarrow> nat option" where
  "status_from_u16 n = (if 100 \<le> n \<and> n < 1000 then Some n else None)"

definition is_informational :: "nat \<Rightarrow> bool" where
  "is_informational n \<longleftrightarrow> 100 \<le> n \<and> n < 200"

section \<open>The context of a request and the proxy\<close>

type_synonym ('s, 'k, 'm) proxy_snapshot = "('s, 'k, 'm, 's runtime_scp) runtime_snapshot"

text \<open>
  The profile of an exchange is kept with its name. The two trace contexts are the headers they
  inject upstream.
\<close>

record ('s, 'k, 'm) proxy_context =
  px_client_ip :: "ip_addr option"
  px_geoip :: geoip_record
  px_snapshot :: "('s, 'k, 'm) proxy_snapshot option"
  px_response_plugins_applied :: bool
  px_snapshot_generation :: nat
  px_scp :: "scp_exchange option"
  px_scp_profile :: "(string \<times> 's runtime_scp) option"
  px_selected :: "'m selected_route option"
  px_plugin_state :: plugin_state
  px_client_max_body_size :: "nat option"
  px_received_body_bytes :: nat
  px_cache_key :: "cache_key option"
  px_cache_store_allowed :: bool
  px_cache_status :: "nat option"
  px_cache_headers :: "header_map option"
  px_cache_body_limit :: "nat option"
  px_response_body_buf :: string
  px_start_time :: instant
  px_cache_hit :: bool
  px_upstream_attempted :: bool
  px_upstream_trace :: header_map

definition proxy_context_default :: "instant \<Rightarrow> ('s, 'k, 'm) proxy_context" where
  "proxy_context_default now =
     \<lparr>px_client_ip = None, px_geoip = geoip_record_default, px_snapshot = None,
      px_response_plugins_applied = False, px_snapshot_generation = 0, px_scp = None,
      px_scp_profile = None, px_selected = None, px_plugin_state = \<lparr>st_resolved = None\<rparr>,
      px_client_max_body_size = None, px_received_body_bytes = 0, px_cache_key = None,
      px_cache_store_allowed = False, px_cache_status = None, px_cache_headers = None,
      px_cache_body_limit = None, px_response_body_buf = [], px_start_time = now,
      px_cache_hit = False, px_upstream_attempted = False, px_upstream_trace = []\<rparr>"

record ('s, 'k, 'm, 'r, 'f) dynamic_proxy =
  dp_state :: "('s, 'k, 'm, 's runtime_scp) runtime_state"
  dp_geoip :: "('r, 'f) geoip option"
  dp_cache :: cache_backend
  dp_challenge_tokens :: "(string, string) hmap"

record ('s, 'k, 'm, 'r, 'f) world =
  wo_down :: downstream
  wo_ctx :: "('s, 'k, 'm) proxy_context"
  wo_proxy :: "('s, 'k, 'm, 'r, 'f) dynamic_proxy"

definition on_ctx ::
  "(('s, 'k, 'm) proxy_context \<Rightarrow> ('s, 'k, 'm) proxy_context) \<Rightarrow> ('s, 'k, 'm, 'r, 'f) world \<Rightarrow>
   ('s, 'k, 'm, 'r, 'f) world" where
  "on_ctx f w = w\<lparr>wo_ctx := f (wo_ctx w)\<rparr>"

definition on_cache ::
  "(cache_backend \<Rightarrow> cache_backend) \<Rightarrow> ('s, 'k, 'm, 'r, 'f) world \<Rightarrow> ('s, 'k, 'm, 'r, 'f) world" where
  "on_cache f w = w\<lparr>wo_proxy := (wo_proxy w)\<lparr>dp_cache := f (dp_cache (wo_proxy w))\<rparr>\<rparr>"

abbreviation wo_req :: "('s, 'k, 'm, 'r, 'f) world \<Rightarrow> request" where
  "wo_req w \<equiv> ss_req (dn_session (wo_down w))"

abbreviation wo_current :: "('s, 'k, 'm, 'r, 'f) world \<Rightarrow> ('s, 'k, 'm) proxy_snapshot" where
  "wo_current w \<equiv> rt_current (dp_state (wo_proxy w))"

definition set_req_headers :: "header_map \<Rightarrow> ('s, 'k, 'm, 'r, 'f) world \<Rightarrow> ('s, 'k, 'm, 'r, 'f) world" where
  "set_req_headers h w =
     (let d = wo_down w; s = dn_session d
      in w\<lparr>wo_down := d\<lparr>dn_session := s\<lparr>ss_req := (ss_req s)\<lparr>rq_headers := h\<rparr>\<rparr>\<rparr>\<rparr>)"

text \<open>
  A request holds the snapshot it captured. Its counters, groups, plugin chains and SCP caches are
  shared with every request that captured the same one, so they are read from and written to the
  active snapshot while that is the captured one; after it has been replaced they are the
  request's own.
\<close>

definition held_snapshot ::
  "('s, 'k, 'm, 'r, 'f) world \<Rightarrow> ('s, 'k, 'm) proxy_snapshot \<Rightarrow> ('s, 'k, 'm) proxy_snapshot" where
  "held_snapshot w snap = (if ss_generation snap = ss_generation (wo_current w) then wo_current w else snap)"

definition captured :: "('s, 'k, 'm, 'r, 'f) world \<Rightarrow> ('s, 'k, 'm) proxy_snapshot" where
  "captured w =
     (case px_snapshot (wo_ctx w) of None \<Rightarrow> wo_current w | Some snap \<Rightarrow> held_snapshot w snap)"

definition put_captured ::
  "('s, 'k, 'm) proxy_snapshot \<Rightarrow> ('s, 'k, 'm, 'r, 'f) world \<Rightarrow> ('s, 'k, 'm, 'r, 'f) world" where
  "put_captured snap w =
     (let p = wo_proxy w;
          p' = (if ss_generation snap = ss_generation (wo_current w)
                then p\<lparr>dp_state := (dp_state p)\<lparr>rt_current := snap\<rparr>\<rparr> else p)
      in w\<lparr>wo_ctx := (wo_ctx w)\<lparr>px_snapshot := Some snap\<rparr>, wo_proxy := p'\<rparr>)"

text \<open>Calls on the session: the infallible ones, and those that may fail.\<close>

definition note_call :: "down_call \<Rightarrow> ('s, 'k, 'm, 'r, 'f) world \<Rightarrow> ('s, 'k, 'm, 'r, 'f) world" where
  "note_call c w = w\<lparr>wo_down := (wo_down w)\<lparr>dn_calls := dn_calls (wo_down w) @ [c]\<rparr>\<rparr>"

definition callp :: "('s, 'k, 'r) proxy_env \<Rightarrow> down_call \<Rightarrow> (('s, 'k, 'm, 'r, 'f) world, unit) proc" where
  "callp env c w =
     (let w' = note_call c w
      in case pg_error (pv_pingora env) (dn_calls (wo_down w')) of
           None \<Rightarrow> (Inr (), w')
         | Some e \<Rightarrow> (Inl e, w'))"

definition response_written :: "('s, 'k, 'r) proxy_env \<Rightarrow> ('s, 'k, 'm, 'r, 'f) world \<Rightarrow> nat option" where
  "response_written env w = pg_response_written (pv_pingora env) (dn_calls (wo_down w))"

section \<open>Writing responses\<close>

definition set_content_length ::
  "externals \<Rightarrow> nat \<Rightarrow> response_head \<Rightarrow> (pingora_error, response_head) result" where
  "set_content_length x len h =
     (if ext_header_fits x (rh_headers h) ''content-length'' (show_nat len)
      then Inr (h\<lparr>rh_headers := hdr_insert (rh_headers h) ''content-length'' (show_nat len)\<rparr>)
      else Inl (explain InternalErrorType ''failed to finalize plugin response''))"

definition apply_response_plugins ::
  "('s, 'k, 'r) proxy_env \<Rightarrow> response_head \<Rightarrow> (('s, 'k, 'm, 'r, 'f) world, response_head) proc" where
  "apply_response_plugins env h w =
     (if px_response_plugins_applied (wo_ctx w) then (Inr h, w)
      else
        let w1 = on_ctx (\<lambda>c. c\<lparr>px_response_plugins_applied := True\<rparr>) w
        in case px_selected (wo_ctx w1) of
             None \<Rightarrow> (Inr h, w1)
           | Some selected \<Rightarrow>
               (case run_response_chain (pv_plugins env) (rev (plugin_chain (captured w1) (se_route_id selected)))
                   \<lparr>rs_state = px_plugin_state (wo_ctx w1), rs_status = rh_status h, rs_headers = rh_headers h\<rparr> of
                  Inl message \<Rightarrow> (Inl (explain InternalErrorType message), w1)
                | Inr rc \<Rightarrow>
                    let w2 = on_ctx (\<lambda>c. c\<lparr>px_plugin_state := rs_state rc\<rparr>) w1
                    in if pg_status_ok (pv_pingora env) (rs_status rc)
                       then (Inr \<lparr>rh_status = rs_status rc, rh_headers = rs_headers rc\<rparr>, w2)
                       else (Inl (explained (runtime_config_error ''invalid status'')), w2)))"

definition append_header ::
  "externals \<Rightarrow> response_head \<Rightarrow> string \<times> string \<Rightarrow> (pingora_error, response_head) result" where
  "append_header x h nv =
     (if ext_header_fits x (rh_headers h) (fst nv) (snd nv)
      then Inr (h\<lparr>rh_headers := hdr_append (rh_headers h) (fst nv) (snd nv)\<rparr>)
      else Inl (explain InternalErrorType ''failed to insert plugin response header''))"

definition build_head :: "('s, 'k, 'r) proxy_env \<Rightarrow> nat \<Rightarrow> string \<Rightarrow> (pingora_error, response_head) result" where
  "build_head env status message =
     (if pg_status_ok (pv_pingora env) status then Inr \<lparr>rh_status = status, rh_headers = []\<rparr>
      else Inl (explain InternalErrorType message))"

definition body_forbidden :: "nat \<Rightarrow> bool" where
  "body_forbidden status \<longleftrightarrow> is_informational status \<or> status = 204 \<or> status = 304"

text \<open>The last part of \<^verbatim>\<open>write_route_response\<close>: framing of the finished header.\<close>

definition framed_head :: "externals \<Rightarrow> string \<Rightarrow> response_head \<Rightarrow> (pingora_error, response_head) result" where
  "framed_head x body h =
     (let h1 = h\<lparr>rh_headers := hdr_remove (rh_headers h) ''transfer-encoding''\<rparr>
      in if body_forbidden (rh_status h1)
         then Inr (h1\<lparr>rh_headers := hdr_remove (rh_headers h1) ''content-length''\<rparr>)
         else set_content_length x (length body) h1)"

definition write_response ::
  "('s, 'k, 'r) proxy_env \<Rightarrow> response_head \<Rightarrow> string option \<Rightarrow> (('s, 'k, 'm, 'r, 'f) world, unit) proc" where
  "write_response env h body =
     bindp (callp env (WriteHeader h (body = None))) (\<lambda>_.
     callp env (WriteBody body True))"

definition write_route_response ::
  "('s, 'k, 'r) proxy_env \<Rightarrow> local_response \<Rightarrow> (('s, 'k, 'm, 'r, 'f) world, unit) proc" where
  "write_route_response env response =
     bindp (liftp (build_head env (lr_status response) ''failed to build plugin response'')) (\<lambda>h0.
     bindp (liftp (fold_res (append_header (pv_ext env)) h0 (lr_headers response))) (\<lambda>h1.
     bindp (apply_response_plugins env h1) (\<lambda>h2.
     bindp (liftp (framed_head (pv_ext env) (lr_body response) h2)) (\<lambda>h3.
     bindp (readp (\<lambda>w. rq_method (wo_req w))) (\<lambda>method.
     write_response env h3
       (if lr_body response = [] \<or> body_forbidden (rh_status h3) \<or> method = ''HEAD'' then None
        else Some (lr_body response)))))))"

definition cached_header ::
  "externals \<Rightarrow> response_head \<Rightarrow> string \<times> string \<Rightarrow> (pingora_error, response_head) result" where
  "cached_header x h nv =
     (if ext_header_fits x (rh_headers h) (fst nv) (snd nv)
      then Inr (h\<lparr>rh_headers := hdr_insert (rh_headers h) (fst nv) (snd nv)\<rparr>)
      else Inl (explain InternalErrorType (''failed to insert cached header `'' @ fst nv @ ''`'')))"

definition write_cached_response ::
  "('s, 'k, 'r) proxy_env \<Rightarrow> cached_response \<Rightarrow> (('s, 'k, 'm, 'r, 'f) world, unit) proc" where
  "write_cached_response env cached =
     bindp (liftp (build_head env (cp_status cached) ''failed to build cached response header'')) (\<lambda>h0.
     bindp (liftp (fold_res (cached_header (pv_ext env)) h0 (cp_headers cached))) (\<lambda>h1.
     write_response env h1 (if cp_body cached = [] then None else Some (cp_body cached))))"

definition restrict_client_max_body_size ::
  "('s, 'k, 'r) proxy_env \<Rightarrow> (('s, 'k, 'm, 'r, 'f) world, bool) proc" where
  "restrict_client_max_body_size env w =
     (if content_length_limit_exceeded (pv_ext env) (hdr_get (rq_headers (wo_req w)) ''content-length'')
          (px_client_max_body_size (wo_ctx w)) = Some True
      then bindp (modp (note_call (SetKeepalive None))) (\<lambda>_.
           bindp (callp env (RespondError 413)) (\<lambda>_.
           returnp True)) w
      else (Inr False, w))"

end
