(* ===== verification/Proxy.thy ===== *)
theory Proxy
  imports Proxy_State
begin

text \<open>
  The life of a request (\<^verbatim>\<open>crates/ngxora-runtime/src/upstreams/runtime/proxy.rs\<close> and
  \<^verbatim>\<open>runtime/completion.rs\<close>): a snapshot is captured, the client is identified and authorised, a
  cached or local answer is given or an upstream selected, the request is forwarded, the response
  filtered, collected and, when it is complete, cached. One definition per handler of \<^verbatim>\<open>ProxyHttp\<close>,
  with the parts of \<^verbatim>\<open>request_filter\<close> and \<^verbatim>\<open>fail_to_proxy\<close> as definitions of their own.
\<close>

section \<open>The cache\<close>

definition try_cache ::
  "('s, 'k, 'r) proxy_env \<Rightarrow> string option \<Rightarrow> (('s, 'k, 'm, 'r, 'f) world, bool) proc" where
  "try_cache env host w =
     (case px_selected (wo_ctx w) of
        None \<Rightarrow> (Inr False, w)
      | Some selected \<Rightarrow>
          let q = wo_req w
          in if \<not> is_cacheable_request (pv_ext env) (rq_method q) (rq_headers q) then (Inr False, w)
             else
               (case se_cache selected of
                  None \<Rightarrow> (Inr False, w)
                | Some cfg \<Rightarrow>
                    let key = build_cache_key (rq_method q) (u_text (rq_uri q))
                          (px_snapshot_generation (wo_ctx w)) (se_route_id selected)
                          (case host of None \<Rightarrow> [] | Some h \<Rightarrow> h) cfg;
                        cache = dp_cache (wo_proxy w)
                    in case be_get (pv_now env) key cfg cache of
                         Some cached \<Rightarrow>
                           bindp (modp (on_ctx (\<lambda>c. c\<lparr>px_cache_hit := True\<rparr>))) (\<lambda>_.
                           bindp (write_cached_response env cached) (\<lambda>_.
                           returnp True)) w
                       | None \<Rightarrow>
                           (case be_record_miss (pv_chooser env) (pv_now env) key cfg cache of
                              (allowed, cache') \<Rightarrow>
                                (Inr False,
                                 on_ctx (\<lambda>c. c\<lparr>px_cache_store_allowed := allowed, px_cache_key := Some key\<rparr>)
                                   (on_cache (\<lambda>_. cache') w)))))"

section \<open>The proxy\<close>

definition proxy_new ::
  "('s, 'k, 'm, 's runtime_scp) runtime_state \<Rightarrow> ('r, 'f) geoip option \<Rightarrow> ('s, 'k, 'm, 'r, 'f) dynamic_proxy" where
  "proxy_new state geo =
     \<lparr>dp_state = state, dp_geoip = geo, dp_cache = be_new (50 * 1024 * 1024), dp_challenge_tokens = []\<rparr>"

definition new_with_cache ::
  "('s, 'k, 'm, 's runtime_scp) runtime_state \<Rightarrow> ('r, 'f) geoip option \<Rightarrow> cache_backend \<Rightarrow>
   ('s, 'k, 'm, 'r, 'f) dynamic_proxy" where
  "new_with_cache state geo cache =
     \<lparr>dp_state = state, dp_geoip = geo, dp_cache = cache, dp_challenge_tokens = []\<rparr>"

definition set_challenge_tokens ::
  "(string, string) hmap \<Rightarrow> ('s, 'k, 'm, 'r, 'f) dynamic_proxy \<Rightarrow> ('s, 'k, 'm, 'r, 'f) dynamic_proxy" where
  "set_challenge_tokens tokens p = p\<lparr>dp_challenge_tokens := tokens\<rparr>"

definition get_routes :: "listen_key \<Rightarrow> ('s, 'k, 'm, 'r, 'f) dynamic_proxy \<Rightarrow> virtual_host_routes option" where
  "get_routes key p = listener_routes (ss_router (rt_current (dp_state p))) key"

definition update_routing ::
  "('s, 'm, 's runtime_scp) control_lib \<Rightarrow> instant \<Rightarrow> compiled_router \<Rightarrow> ('s, 'k, 'm, 'r, 'f) dynamic_proxy \<Rightarrow>
   apply_result \<times> ('s, 'k, 'm, 'r, 'f) dynamic_proxy" where
  "update_routing l now router p =
     (case apply_snapshot l now (config_snapshot_new ''runtime-update'' router) (dp_state p) of
        (r, s) \<Rightarrow> (r, p\<lparr>dp_state := s\<rparr>))"

section \<open>Before routing\<close>

definition apply_client_timeouts ::
  "duration option \<Rightarrow> duration option \<Rightarrow> ('s, 'k, 'm, 'r, 'f) world \<Rightarrow> ('s, 'k, 'm, 'r, 'f) world" where
  "apply_client_timeouts body send w =
     (let b = (case body of None \<Rightarrow> from_secs 60 | Some d \<Rightarrow> d);
          w1 = note_call (SetReadTimeout (if b = 0 then None else Some b)) w
      in case send of
           None \<Rightarrow> w1
         | Some t \<Rightarrow> note_call (SetWriteTimeout (if t = 0 then None else Some t)) w1)"

definition resolve_client ::
  "('s, 'k, 'r) proxy_env \<Rightarrow> ('s, 'k, 'm) proxy_snapshot \<Rightarrow> ('s, 'k, 'm, 'r, 'f) world \<Rightarrow> ('s, 'k, 'm, 'r, 'f) world" where
  "resolve_client env snap w =
     (let peer = request_client_ip (dn_session (wo_down w))
      in case ho_real_ip (cr_http_options (ss_router snap)) of
           None \<Rightarrow> on_ctx (\<lambda>c. c\<lparr>px_client_ip := peer\<rparr>) w
         | Some config \<Rightarrow>
             let chain = resolve_headers (pv_ext env) peer (rq_headers (wo_req w)) (ri_header config)
                   (ri_trusted_proxies config) (ri_recursive config)
             in on_ctx (\<lambda>c. c\<lparr>px_client_ip := Option.bind chain (\<lambda>l. case l of [] \<Rightarrow> None | a # _ \<Rightarrow> Some a),
                  px_plugin_state := (px_plugin_state c)\<lparr>st_resolved := Some \<lparr>rc_chain = chain\<rparr>\<rparr>\<rparr>) w)"

definition locate_client ::
  "('s, 'k, 'r) proxy_env \<Rightarrow> ('s, 'k, 'm) proxy_snapshot \<Rightarrow> ('s, 'k, 'm, 'r, 'f) world \<Rightarrow> ('s, 'k, 'm, 'r, 'f) world" where
  "locate_client env snap w =
     (case dp_geoip (wo_proxy w) of
        None \<Rightarrow> w
      | Some g \<Rightarrow>
          (case (if ho_real_ip (cr_http_options (ss_router snap)) \<noteq> None
                 then lookup_ip (pv_ext env) (pv_geo env) (px_client_ip (wo_ctx w)) g
                 else lookup_request (pv_ext env) (pv_geo env) (px_client_ip (wo_ctx w)) (rq_headers (wo_req w)) g) of
             (r, g') \<Rightarrow>
               set_req_headers (geoip_remove_headers (rq_headers (wo_req w)))
                 (on_ctx (\<lambda>c. c\<lparr>px_geoip := r\<rparr>)
                   (w\<lparr>wo_proxy := (wo_proxy w)\<lparr>dp_geoip := Some g'\<rparr>\<rparr>))))"

definition begin_request ::
  "('s, 'k, 'r) proxy_env \<Rightarrow> ('s, 'k, 'm) proxy_snapshot \<Rightarrow> ('s, 'k, 'm, 'r, 'f) world \<Rightarrow> ('s, 'k, 'm, 'r, 'f) world" where
  "begin_request env snap w =
     (let options = cr_http_options (ss_router snap);
          q = wo_req w;
          w1 = on_ctx (\<lambda>c. c\<lparr>px_upstream_trace :=
            pv_trace env (rq_method q) (u_path (rq_uri q)) (rq_headers q)\<rparr>) w;
          w2 = note_call (SetKeepalive (ho_downstream_keepalive_timeout options)) w1;
          w3 = apply_client_timeouts (ho_client_body_timeout options) (ho_send_timeout options) w2;
          w4 = on_ctx (\<lambda>c. c\<lparr>px_snapshot := Some snap, px_snapshot_generation := ss_generation snap,
            px_client_max_body_size := ho_client_max_body_size options, px_received_body_bytes := 0\<rparr>) w3
      in on_cache (advance_generation (ss_generation (wo_current w4))) w4)"

text \<open>The answer to an HTTP-01 challenge, when the path names a pending token.\<close>

definition challenge_response :: "('s, 'k, 'm, 'r, 'f) world \<Rightarrow> local_response option" where
  "challenge_response w =
     Option.bind (strip_prefix ''/.well-known/acme-challenge/'' (u_path (rq_uri (wo_req w)))) (\<lambda>token.
       if token = [] \<or> CHR ''/'' \<in> set token then None
       else map_option (\<lambda>auth.
              (push_header ''content-type'' ''text/plain'' (local_response_new 200 []))\<lparr>lr_body := auth\<rparr>)
            (hm_get (dp_challenge_tokens (wo_proxy w)) token))"

section \<open>Authorisation\<close>

definition method_allowed :: "client_limits \<Rightarrow> string \<Rightarrow> bool" where
  "method_allowed limits method \<longleftrightarrow>
     cl_allowed_methods limits = [] \<or> method \<in> set (cl_allowed_methods limits)"

text \<open>A local answer that ends the request and the connection.\<close>

definition respond_and_close ::
  "('s, 'k, 'r) proxy_env \<Rightarrow> local_response \<Rightarrow> (('s, 'k, 'm, 'r, 'f) world, bool) proc" where
  "respond_and_close env response =
     bindp (modp (note_call (SetKeepalive None))) (\<lambda>_.
     bindp (write_route_response env response) (\<lambda>_.
     returnp True))"

definition plugin_request_ctx :: "string option \<Rightarrow> ('s, 'k, 'm, 'r, 'f) world \<Rightarrow> request_ctx" where
  "plugin_request_ctx host w =
     \<lparr>cx_state = px_plugin_state (wo_ctx w), cx_path = u_path (rq_uri (wo_req w)), cx_host = host,
      cx_method = rq_method (wo_req w), cx_client_ip = px_client_ip (wo_ctx w),
      cx_headers = rq_headers (wo_req w)\<rparr>"

text \<open>The loop over the request plugins, with what it leaves in the session, the context and the chain.\<close>

definition run_request_plugins ::
  "('s, 'k, 'r) proxy_env \<Rightarrow> 'm selected_route \<Rightarrow> string option \<Rightarrow> ('s, 'k, 'm, 'r, 'f) world \<Rightarrow>
   chain_outcome \<times> ('s, 'k, 'm, 'r, 'f) world" where
  "run_request_plugins env selected host w =
     (let snap = captured w; i = se_route_id selected
      in case run_request_chain (pv_plugins env) (pv_now env) (plugin_chain snap i) (plugin_request_ctx host w) of
           (outcome, cx, chain) \<Rightarrow>
             let snap' = (if hm_get (ss_plugin_chains snap) i = None then snap
                          else snap\<lparr>ss_plugin_chains := hm_insert i chain (ss_plugin_chains snap)\<rparr>)
             in (outcome,
                 on_ctx (\<lambda>c. c\<lparr>px_plugin_state := cx_state cx\<rparr>)
                   (set_req_headers (cx_headers cx) (put_captured snap' w))))"

definition authorize_request ::
  "('s, 'k, 'r) proxy_env \<Rightarrow> 'm selected_route \<Rightarrow> string option \<Rightarrow> (('s, 'k, 'm, 'r, 'f) world, bool) proc" where
  "authorize_request env selected host w =
     (let limits = se_client_limits selected
      in if \<not> location_allows_client (pv_ext env) (se_access_rules selected) (px_client_ip (wo_ctx w))
         then respond_and_close env (local_response_new 403 []) w
         else if \<not> method_allowed limits (rq_method (wo_req w)) then
           (let allow = join_with '', '' (cl_allowed_methods limits)
            in if \<not> ext_header_value_ok (pv_ext env) allow
               then (Inl (explain InternalErrorType ''invalid header value''), w)
               else respond_and_close env (push_header ''allow'' allow (local_response_new 405 [])) w)
         else
           (case run_request_plugins env selected host w of
              (ChainFailed e, w1) \<Rightarrow> (Inl (explain InternalErrorType ''plugin hook failed during request_filter''), w1)
            | (ChainResponded response, w1) \<Rightarrow> respond_and_close env response w1
            | (ChainPassed, w1) \<Rightarrow> (Inr False, w1)))"

section \<open>Service communication proxy\<close>

definition scp_error_response :: "('s, 'k, 'r) proxy_env \<Rightarrow> scp_error \<Rightarrow> string \<Rightarrow> local_response" where
  "scp_error_response env e identity =
     (push_header ''server'' (''SCP-'' @ identity)
       (push_header ''content-type'' ''application/problem+json'' (local_response_new (xe_status e) [])))
     \<lparr>lr_body := pv_problem_json env (xe_status e) (xe_cause e) (xe_detail e)\<rparr>"

definition respond_scp_error ::
  "('s, 'k, 'r) proxy_env \<Rightarrow> 's runtime_scp \<Rightarrow> scp_error \<Rightarrow> (('s, 'k, 'm, 'r, 'f) world, bool) proc" where
  "respond_scp_error env profile e =
     bindp (write_route_response env (scp_error_response env e (root_host (sc_root profile)))) (\<lambda>_.
     returnp True)"

text \<open>Parsing and routing, with the profile's discovery cache written back into the snapshot.\<close>

definition put_scp ::
  "string \<Rightarrow> 's runtime_scp \<Rightarrow> ('s, 'k, 'm, 'r, 'f) world \<Rightarrow> ('s, 'k, 'm, 'r, 'f) world" where
  "put_scp name profile w =
     (let snap = captured w
      in put_captured (snap\<lparr>ss_scp_profiles := hm_insert name profile (ss_scp_profiles snap)\<rparr>) w)"

definition scp_parse_and_route ::
  "('s, 'k, 'r) proxy_env \<Rightarrow> 's runtime_scp \<Rightarrow> ('s, 'k, 'm, 'r, 'f) world \<Rightarrow>
   (scp_error, scp_exchange) result \<times> 's runtime_scp" where
  "scp_parse_and_route env profile w =
     (let q = wo_req w; x = pv_ext env
      in case scp_request_parse x (rq_headers q) (rq_method q) (rq_uri q) (sc_root profile) of
           Inl e \<Rightarrow> (Inl e, profile)
         | Inr request \<Rightarrow>
             scp_route x (pv_groups env) (pv_scp env) request (rq_headers q)
               (case px_client_ip (wo_ctx w) of None \<Rightarrow> [] | Some ip \<Rightarrow> show_ip ip) profile)"

definition prepare_scp_request ::
  "('s, 'k, 'r) proxy_env \<Rightarrow> 'm selected_route \<Rightarrow> (('s, 'k, 'm, 'r, 'f) world, bool) proc" where
  "prepare_scp_request env selected w =
     (case se_target selected of
        SelScp name \<Rightarrow>
          (case hm_get (ss_scp_profiles (captured w)) name of
             None \<Rightarrow> (Inl (explain InternalErrorType ''SCP profile missing in snapshot''), w)
           | Some profile \<Rightarrow>
               let w1 = on_ctx (\<lambda>c. c\<lparr>px_scp_profile := Some (name, profile)\<rparr>) w
               in if \<not> dn_http2 (wo_down w1)
                  then respond_scp_error env profile
                    (scp_error_new 505 ''UNSPECIFIED_MSG_FAILURE'' ''SCP requires HTTP/2'') w1
                  else
                    (case scp_parse_and_route env profile w1 of
                       (Inr exchange, profile') \<Rightarrow>
                         (Inr False, on_ctx (\<lambda>c. c\<lparr>px_scp := Some exchange\<rparr>) (put_scp name profile' w1))
                     | (Inl e, profile') \<Rightarrow> respond_scp_error env profile e (put_scp name profile' w1)))
      | _ \<Rightarrow> (Inr False, w))"

section \<open>Request filter\<close>

definition respond_to_selected_target ::
  "('s, 'k, 'r) proxy_env \<Rightarrow> 'm selected_route \<Rightarrow> (('s, 'k, 'm, 'r, 'f) world, bool) proc" where
  "respond_to_selected_target env selected =
     (case se_target selected of
        SelDirectResponse status \<Rightarrow>
          bindp (liftp (ok_or (explained (runtime_config_error ''invalid status code'')) (status_from_u16 status))) (\<lambda>code.
          bindp (write_route_response env (local_response_new code [])) (\<lambda>_.
          returnp True))
      | SelReturn status location \<Rightarrow>
          bindp (liftp (ok_or (explain InternalErrorType (''invalid redirect status code: '' @ show_nat status))
            (status_from_u16 status))) (\<lambda>code.
          bindp (liftp (reject (\<not> ext_header_value_ok (pv_ext env) location)
            (explain InternalErrorType (''invalid redirect location: '' @ location)))) (\<lambda>_.
          respond_and_close env (push_header ''location'' location (local_response_new code []))))
      | _ \<Rightarrow> returnp False)"

text \<open>A pending target is decided, and the decision kept in the context.\<close>

definition decide_target ::
  "('s, 'k, 'r) proxy_env \<Rightarrow> 'm selected_route \<Rightarrow> (('s, 'k, 'm, 'r, 'f) world, 'm selected_route) proc" where
  "decide_target env selected w =
     (case se_target selected of
        SelPending target \<Rightarrow>
          (case select_backend_target (pv_groups env) (pv_ready env) (captured w) (se_route_id selected) target
              (dn_session (wo_down w)) (px_client_ip (wo_ctx w)) of
             (Inl e, snap) \<Rightarrow> (Inl (explained e), put_captured snap w)
           | (Inr t, snap) \<Rightarrow>
               let selected' = selected\<lparr>se_target := t\<rparr>
               in (Inr selected', on_ctx (\<lambda>c. c\<lparr>px_selected := Some selected'\<rparr>) (put_captured snap w)))
      | _ \<Rightarrow> (Inr selected, w))"

definition enter_route ::
  "('s, 'k, 'm) proxy_snapshot \<Rightarrow> 'm selected_route \<Rightarrow> ('s, 'k, 'm, 'r, 'f) world \<Rightarrow> ('s, 'k, 'm, 'r, 'f) world" where
  "enter_route snap selected w =
     (let limits = se_client_limits selected; options = cr_http_options (ss_router snap);
          w1 = on_ctx (\<lambda>c. c\<lparr>px_selected := Some selected,
            px_client_max_body_size :=
              (case cl_max_body_size limits of
                 None \<Rightarrow> px_client_max_body_size c
               | Some limit \<Rightarrow> if limit \<noteq> 0 then Some limit else None)\<rparr>) w
      in apply_client_timeouts
           (case cl_body_timeout limits of Some d \<Rightarrow> Some d | None \<Rightarrow> ho_client_body_timeout options)
           (case cl_send_timeout limits of Some d \<Rightarrow> Some d | None \<Rightarrow> ho_send_timeout options) w1)"

text \<open>\<^verbatim>\<open>if step()? { return Ok(true); }\<close>.\<close>

definition unless_done :: "('w, bool) proc \<Rightarrow> ('w, bool) proc \<Rightarrow> ('w, bool) proc" where
  "unless_done m k = bindp m (\<lambda>done. if done then returnp True else k)"

definition cache_or_target ::
  "('s, 'k, 'r) proxy_env \<Rightarrow> 'm selected_route \<Rightarrow> string option \<Rightarrow> bool \<Rightarrow> (('s, 'k, 'm, 'r, 'f) world, bool) proc" where
  "cache_or_target env selected host cacheable =
     unless_done (if cacheable then try_cache env host else returnp False)
       (bindp (decide_target env selected) (respond_to_selected_target env))"

definition serve_route ::
  "('s, 'k, 'r) proxy_env \<Rightarrow> 'm selected_route \<Rightarrow> string option \<Rightarrow> (('s, 'k, 'm, 'r, 'f) world, bool) proc" where
  "serve_route env selected host =
     unless_done (restrict_client_max_body_size env)
       (bindp (readp (\<lambda>w. is_cacheable_request (pv_ext env) (rq_method (wo_req w)) (rq_headers (wo_req w)))) (\<lambda>cacheable.
        unless_done (authorize_request env selected host)
          (unless_done (prepare_scp_request env selected)
            (cache_or_target env selected host cacheable))))"

definition route_request ::
  "('s, 'k, 'r) proxy_env \<Rightarrow> ('s, 'k, 'm) proxy_snapshot \<Rightarrow> (('s, 'k, 'm, 'r, 'f) world, bool) proc" where
  "route_request env snap w =
     (case select_runtime_route (pv_ext env) snap (dn_session (wo_down w)) of
        Inl e \<Rightarrow> (Inl (explained e), w)
      | Inr None \<Rightarrow> restrict_client_max_body_size env (on_ctx (\<lambda>c. c\<lparr>px_selected := None\<rparr>) w)
      | Inr (Some (selected, host)) \<Rightarrow> serve_route env selected host (enter_route snap selected w))"

definition prepared_request ::
  "('s, 'k, 'r) proxy_env \<Rightarrow> ('s, 'k, 'm, 'r, 'f) world \<Rightarrow> ('s, 'k, 'm, 'r, 'f) world" where
  "prepared_request env w =
     (let snap = wo_current w
      in begin_request env snap (locate_client env snap (resolve_client env snap w)))"

definition request_filter ::
  "('s, 'k, 'r) proxy_env \<Rightarrow> (('s, 'k, 'm, 'r, 'f) world, bool) proc" where
  "request_filter env w =
     (let snap = wo_current w; w1 = prepared_request env w
      in case challenge_response w1 of
           Some response \<Rightarrow> respond_and_close env response w1
         | None \<Rightarrow> route_request env snap w1)"

definition request_body_filter ::
  "('s, 'k, 'r) proxy_env \<Rightarrow> string option \<Rightarrow> (('s, 'k, 'm, 'r, 'f) world, unit) proc" where
  "request_body_filter env body w =
     (if pg_was_upgraded (pv_pingora env) (wo_down w) then (Inr (), w)
      else
        (case update_received_body_bytes (px_received_body_bytes (wo_ctx w)) body (px_client_max_body_size (wo_ctx w)) of
           Inl e \<Rightarrow> (Inl (explained e), w)
         | Inr n \<Rightarrow> (Inr (), on_ctx (\<lambda>c. c\<lparr>px_received_body_bytes := n\<rparr>) w)))"

section \<open>The request sent upstream\<close>

text \<open>Header edits on the upstream request; a refused header is Pingora's error.\<close>

definition put_header ::
  "externals \<Rightarrow> request \<Rightarrow> string \<times> string \<Rightarrow> (pingora_error, request) result" where
  "put_header x q nv =
     map_err (explain (OtherError ''InvalidHTTPHeader'')) (map_sum id (\<lambda>h. q\<lparr>rq_headers := h\<rparr>)
       (insert_header x (rq_headers q) (fst nv) (snd nv)))"

definition rewrite_upstream ::
  "externals \<Rightarrow> 'm selected_route \<Rightarrow> request \<Rightarrow> (pingora_error, request) result" where
  "rewrite_upstream x selected q =
     (case se_url_rewrite selected of
        None \<Rightarrow> Inr q
      | Some rewrite \<Rightarrow>
          and_then (map_err (\<lambda>e. explained (runtime_config_error e))
            (rewrite_uri x (rq_uri q) (ur_path rewrite) (se_matched_prefix selected))) (\<lambda>u.
          let q1 = q\<lparr>rq_uri := u\<rparr>
          in case ur_hostname rewrite of
               None \<Rightarrow> Inr q1
             | Some hostname \<Rightarrow> put_header x q1 (''host'', hostname)))"

definition prefix_upstream ::
  "externals \<Rightarrow> 'm selected_route \<Rightarrow> request \<Rightarrow> (pingora_error, request) result" where
  "prefix_upstream x selected q =
     (case se_target selected of
        SelUpstream peer \<Rightarrow>
          (case tp_api_prefix peer of
             None \<Rightarrow> Inr q
           | Some prefix \<Rightarrow>
               and_then (map_err (explain InternalErrorType) (prefixed_upstream_uri x (rq_uri q) prefix)) (\<lambda>u.
               Inr (q\<lparr>rq_uri := u\<rparr>)))
      | _ \<Rightarrow> Inr q)"

definition scp_upstream ::
  "externals \<Rightarrow> scp_exchange \<Rightarrow> request \<Rightarrow> (pingora_error, request) result" where
  "scp_upstream x exchange q =
     and_then (map_err (\<lambda>e. explain (StatusError (xe_status e)) (xe_detail e)) (upstream_uri x exchange)) (\<lambda>u.
     and_then (map_err (explain (OtherError ''InvalidHTTPHeader'')) (scp_request_headers x exchange (rq_headers q))) (\<lambda>h.
     Inr (q\<lparr>rq_uri := u, rq_headers := h\<rparr>)))"

definition upstream_request_filter ::
  "('s, 'k, 'r) proxy_env \<Rightarrow> request \<Rightarrow> (('s, 'k, 'm, 'r, 'f) world, request) proc" where
  "upstream_request_filter env q w =
     (let x = pv_ext env; c = wo_ctx w
      in case px_selected c of
           None \<Rightarrow> (Inr q, w)
         | Some selected \<Rightarrow>
             bindp (liftp (rewrite_upstream x selected q)) (\<lambda>q1.
             bindp (liftp (prefix_upstream x selected q1)) (\<lambda>q2.
             bindp (liftp (map_err (explain InternalErrorType)
               (run_upstream_chain (pv_plugins env) (plugin_chain (captured w) (se_route_id selected))
                 \<lparr>uq_state = px_plugin_state c, uq_headers = rq_headers q2\<rparr>))) (\<lambda>uc.
             bindp (modp (on_ctx (\<lambda>c. c\<lparr>px_plugin_state := uq_state uc\<rparr>))) (\<lambda>_.
             bindp (liftp (if dp_geoip (wo_proxy w) = None then Inr (uq_headers uc)
               else ok_or (explain (OtherError ''InvalidHTTPHeader'') [])
                 (geoip_set_headers x (uq_headers uc) (px_geoip c)))) (\<lambda>h.
             bindp (liftp (fold_res (put_header x) (q2\<lparr>rq_headers := h\<rparr>) (px_upstream_trace c))) (\<lambda>q3.
             liftp (case px_scp c of None \<Rightarrow> Inr q3 | Some exchange \<Rightarrow> scp_upstream x exchange q3))))))) w)"

section \<open>Failures\<close>

record failure_outcome =
  fp_can_reuse_downstream :: bool
  fp_error_code :: nat

definition scp_failure :: "pingora_error \<Rightarrow> scp_error" where
  "scp_failure e =
     (case er_etype e of
        StatusError status \<Rightarrow>
          if status = 504 then target_unreachable
          else scp_error_new status ''UNSPECIFIED_MSG_FAILURE'' ''HTTP request failed''
      | _ \<Rightarrow>
          (case er_esource e of
             FromUpstream \<Rightarrow> target_unreachable
           | FromDownstream \<Rightarrow> scp_error_new 400 ''UNSPECIFIED_MSG_FAILURE'' ''Downstream request failed''
           | _ \<Rightarrow> scp_error_new 500 ''SYSTEM_FAILURE'' ''Internal proxy failure''))"

text \<open>
  A local error answer; when it fails before anything was written, a plain 500 is tried. The
  code in the report is that of the header that was sent.
\<close>

definition answer_failure ::
  "('s, 'k, 'r) proxy_env \<Rightarrow> local_response \<Rightarrow> nat \<Rightarrow> ('s, 'k, 'm, 'r, 'f) world \<Rightarrow>
   failure_outcome \<times> ('s, 'k, 'm, 'r, 'f) world" where
  "answer_failure env response code w =
     (let w2 = (case write_route_response env response w of
                  (Inr _, w1) \<Rightarrow> w1
                | (Inl _, w1) \<Rightarrow>
                    if response_written env w1 = None then snd (callp env (RespondError 500) w1) else w1)
      in (\<lparr>fp_can_reuse_downstream = False,
           fp_error_code = (case response_written env w2 of None \<Rightarrow> code | Some s \<Rightarrow> s)\<rparr>, w2))"

definition failure_code :: "pingora_error \<Rightarrow> nat" where
  "failure_code e =
     (case er_etype e of
        StatusError code \<Rightarrow> code
      | t \<Rightarrow>
          if t = ReadTimedout \<and> er_esource e = FromDownstream then 408
          else (case er_esource e of FromUpstream \<Rightarrow> 502 | FromDownstream \<Rightarrow> 400 | _ \<Rightarrow> 500))"

definition stale_response ::
  "('s, 'k, 'r) proxy_env \<Rightarrow> pingora_error \<Rightarrow> ('s, 'k, 'm, 'r, 'f) world \<Rightarrow> cached_response option" where
  "stale_response env e w =
     (if er_esource e \<noteq> FromUpstream then None
      else
        (case (Option.bind (px_selected (wo_ctx w)) se_cache, px_cache_key (wo_ctx w)) of
           (Some cfg, Some key) \<Rightarrow>
             if cc_stale_if_error cfg = None then None
             else be_get_stale (pv_now env) key cfg (dp_cache (wo_proxy w))
         | _ \<Rightarrow> None))"

definition fail_to_proxy_code ::
  "('s, 'k, 'r) proxy_env \<Rightarrow> pingora_error \<Rightarrow> ('s, 'k, 'm, 'r, 'f) world \<Rightarrow>
   failure_outcome \<times> ('s, 'k, 'm, 'r, 'f) world" where
  "fail_to_proxy_code env e w =
     (let code = failure_code e;
          status = (case status_from_u16 code of None \<Rightarrow> 500 | Some s \<Rightarrow> s)
      in answer_failure env (local_response_new status []) code w)"

definition fail_to_proxy ::
  "('s, 'k, 'r) proxy_env \<Rightarrow> pingora_error \<Rightarrow> ('s, 'k, 'm, 'r, 'f) world \<Rightarrow>
   failure_outcome \<times> ('s, 'k, 'm, 'r, 'f) world" where
  "fail_to_proxy env e w0 =
     (let w = on_cache (advance_generation (ss_generation (wo_current w0))) w0
      in case (px_scp_profile (wo_ctx w), response_written env w) of
           (_, Some status) \<Rightarrow> (\<lparr>fp_can_reuse_downstream = False, fp_error_code = status\<rparr>, w)
         | (Some (name, profile), None) \<Rightarrow>
             let err = scp_failure e
             in answer_failure env (scp_error_response env err (root_host (sc_root profile))) (xe_status err) w
         | (None, None) \<Rightarrow>
             (case stale_response env e w of
                Some cached \<Rightarrow>
                  let cached' = cached\<lparr>cp_headers := hdr_insert (cp_headers cached) ''x-cache'' ''STALE''\<rparr>
                  in (case write_cached_response env cached' (on_ctx (\<lambda>c. c\<lparr>px_cache_hit := True\<rparr>) w) of
                        (r, w1) \<Rightarrow> (\<lparr>fp_can_reuse_downstream = is_ok r, fp_error_code = cp_status cached\<rparr>, w1))
              | None \<Rightarrow> fail_to_proxy_code env e w))"

section \<open>The response\<close>

definition content_length_fits :: "externals \<Rightarrow> header_map \<Rightarrow> nat \<Rightarrow> bool" where
  "content_length_fits x h limit \<longleftrightarrow>
     (case hdr_get h ''content-length'' of
        None \<Rightarrow> True
      | Some v \<Rightarrow>
          (case Option.bind (ext_to_str x v) (parse_unsigned u64_max) of
             None \<Rightarrow> False
           | Some n \<Rightarrow> n \<le> limit))"

definition cache_body_limit :: "cache_backend \<Rightarrow> cache_key \<Rightarrow> cache_config \<Rightarrow> header_map \<Rightarrow> nat" where
  "cache_body_limit cache key cfg h =
     be_max_size cache cfg - sat_add64 (sat_add64 (estimated_headers_size h) 128) (key_size key)"

definition start_collecting ::
  "('s, 'k, 'r) proxy_env \<Rightarrow> 'm selected_route \<Rightarrow> nat \<Rightarrow> header_map \<Rightarrow> ('s, 'k, 'm, 'r, 'f) world \<Rightarrow>
   ('s, 'k, 'm, 'r, 'f) world" where
  "start_collecting env selected status h w =
     (case (px_cache_key (wo_ctx w), se_cache selected) of
        (Some key, Some cfg) \<Rightarrow>
          let limit = cache_body_limit (dp_cache (wo_proxy w)) key cfg h
          in if cache_store_allowed cfg (px_cache_store_allowed (wo_ctx w)) \<and>
                is_cacheable (pv_ext env) status h cfg \<and> content_length_fits (pv_ext env) h limit
             then on_ctx (\<lambda>c. c\<lparr>px_cache_status := Some status, px_cache_headers := Some h,
                    px_cache_body_limit := Some limit\<rparr>) w
             else w
      | _ \<Rightarrow> w)"

definition response_filter ::
  "('s, 'k, 'r) proxy_env \<Rightarrow> response_head \<Rightarrow> (('s, 'k, 'm, 'r, 'f) world, response_head) proc" where
  "response_filter env h w =
     (case px_selected (wo_ctx w) of
        None \<Rightarrow> (Inr h, w)
      | Some selected \<Rightarrow>
          bindp (apply_response_plugins env h) (\<lambda>h1.
          bindp (liftp (case px_scp (wo_ctx w) of
              None \<Rightarrow> Inr (rh_headers h1)
            | Some exchange \<Rightarrow> map_err (explain (OtherError ''InvalidHTTPHeader''))
                (scp_response_headers (pv_ext env) exchange (rh_headers h1)))) (\<lambda>headers.
          bindp (modp (start_collecting env selected (rh_status h1) headers)) (\<lambda>_.
          returnp (h1\<lparr>rh_headers := headers\<rparr>)))) w)"

definition stop_collecting :: "('s, 'k, 'm) proxy_context \<Rightarrow> ('s, 'k, 'm) proxy_context" where
  "stop_collecting c =
     c\<lparr>px_cache_status := None, px_cache_headers := None, px_cache_body_limit := None,
       px_response_body_buf := []\<rparr>"

definition response_body_filter ::
  "string option \<Rightarrow> ('s, 'k, 'm, 'r, 'f) world \<Rightarrow> ('s, 'k, 'm, 'r, 'f) world" where
  "response_body_filter body w =
     (case (px_cache_body_limit (wo_ctx w), body) of
        (Some limit, Some chunk) \<Rightarrow>
          if limit < sat_add64 (length (px_response_body_buf (wo_ctx w))) (length chunk)
          then on_ctx stop_collecting w
          else on_ctx (\<lambda>c. c\<lparr>px_response_body_buf := px_response_body_buf c @ chunk\<rparr>) w
      | _ \<Rightarrow> w)"

section \<open>The upstream peer\<close>

definition lazy_route ::
  "('s, 'k, 'r) proxy_env \<Rightarrow> (('s, 'k, 'm, 'r, 'f) world, 'm selected_route) proc" where
  "lazy_route env w =
     (case px_selected (wo_ctx w) of
        Some selected \<Rightarrow> (Inr selected, w)
      | None \<Rightarrow>
          let snap = captured w;
              w1 = on_ctx (\<lambda>c. c\<lparr>px_snapshot := Some snap, px_snapshot_generation := ss_generation snap\<rparr>) w
          in (case select_runtime_route (pv_ext env) snap (dn_session (wo_down w1)) of
                Inl e \<Rightarrow> (Inl (explained e), w1)
              | Inr None \<Rightarrow> (Inl (explain (StatusError 404) ''no location matched''), w1)
              | Inr (Some (selected, host)) \<Rightarrow>
                  (Inr selected, on_ctx (\<lambda>c. c\<lparr>px_selected := Some selected\<rparr>) w1)))"

definition configured_peer ::
  "('s, 'k, 'r) proxy_env \<Rightarrow> 'm selected_route \<Rightarrow> nat \<Rightarrow> 'm http_peer \<Rightarrow> upstream_http_protocol option \<Rightarrow>
   (pingora_error, 'm http_peer) result" where
  "configured_peer env selected generation p protocol =
     map_err (\<lambda>(status, message). explain (StatusError status) message)
       (configure_peer (pv_pool_hash env) (se_route_id selected) (se_upstream_timeouts selected)
         (se_upstream_http2 selected) (se_upstream_ssl_options selected) (se_upstream_trusted_ca selected)
         (se_upstream_client_identity selected) p generation protocol)"

definition scp_address ::
  "('s, 'k, 'r) proxy_env \<Rightarrow> 'm selected_route \<Rightarrow> scp_exchange \<Rightarrow> (pingora_error, string \<times> nat) result" where
  "scp_address env selected exchange =
     (case pv_lookup_host env (cs_host (xc_backend exchange)) (cs_port (xc_backend exchange))
         (case ut_connect (se_upstream_timeouts selected) of None \<Rightarrow> from_secs 5 | Some d \<Rightarrow> d) of
        DnsTimeout \<Rightarrow> Inl (explain (StatusError 504) ''SCP target DNS timeout'')
      | DnsFailure e \<Rightarrow> Inl (explain (StatusError 504) (''SCP target DNS failure: '' @ e))
      | DnsAddresses [] \<Rightarrow> Inl (explain (StatusError 504) ''SCP target DNS returned no addresses'')
      | DnsAddresses (a # _) \<Rightarrow> Inr a)"

definition mark_attempted :: "(('s, 'k, 'm, 'r, 'f) world, unit) proc" where
  "mark_attempted = modp (on_ctx (\<lambda>c. c\<lparr>px_upstream_attempted := True\<rparr>))"

definition upstream_peer ::
  "('s, 'k, 'r) proxy_env \<Rightarrow> (('s, 'k, 'm, 'r, 'f) world, 'm http_peer) proc" where
  "upstream_peer env =
     bindp (lazy_route env) (\<lambda>selected0.
     bindp (decide_target env selected0) (\<lambda>selected.
     bindp (readp wo_ctx) (\<lambda>c.
     case se_target selected of
       SelScp _ \<Rightarrow>
         bindp (liftp (ok_or (explain InternalErrorType ''SCP request was not authorized'') (px_scp c))) (\<lambda>exchange.
         bindp mark_attempted (\<lambda>_.
         bindp (liftp (scp_address env selected exchange)) (\<lambda>(host, port).
         let tls = (root_scheme (xc_root exchange) = ''https'')
         in liftp (configured_peer env selected (px_snapshot_generation c)
              (http_peer_new host port tls (root_host (xc_root exchange))) (Some (if tls then H2 else H2c))))))
     | SelUpstream peer \<Rightarrow>
         bindp mark_attempted (\<lambda>_.
         liftp (configured_peer env selected (px_snapshot_generation c)
           (http_peer_new (tp_host peer) (tp_port peer) (tp_tls peer) (tp_sni peer)) (se_upstream_protocol selected)))
     | _ \<Rightarrow> failp (explain InternalErrorType ''upstream_peer called on a return target''))))"

definition fail_to_connect ::
  "('s, 'k, 'r) proxy_env \<Rightarrow> pingora_error \<Rightarrow> ('s, 'k, 'm, 'r, 'f) world \<Rightarrow>
   pingora_error \<times> ('s, 'k, 'm, 'r, 'f) world" where
  "fail_to_connect env e w =
     (case (px_scp (wo_ctx w), px_scp_profile (wo_ctx w)) of
        (Some exchange, Some (name, profile)) \<Rightarrow>
          (case retry_connect (pv_ext env) (pv_groups env) (pv_scp env) exchange
              (case hm_get (ss_scp_profiles (captured w)) name of None \<Rightarrow> profile | Some r \<Rightarrow> r) of
             ((again, exchange'), profile') \<Rightarrow>
               (e\<lparr>er_retry := Decided again\<rparr>,
                on_ctx (\<lambda>c. c\<lparr>px_scp := Some exchange'\<rparr>) (put_scp name profile' w)))
      | _ \<Rightarrow> (e, w))"

definition decide_reuse :: "bool \<Rightarrow> retry_type \<Rightarrow> retry_type" where
  "decide_reuse reused r = (case r of ReusedOnly \<Rightarrow> Decided reused | Decided b \<Rightarrow> Decided b)"

text \<open>\<^verbatim>\<open>more_context\<close> keeps type, source and retry of the error it wraps.\<close>

definition error_while_proxy ::
  "('s, 'k, 'r) proxy_env \<Rightarrow> string \<Rightarrow> bool \<Rightarrow> pingora_error \<Rightarrow> ('s, 'k, 'm, 'r, 'f) world \<Rightarrow> pingora_error" where
  "error_while_proxy env peer_text reused e w =
     (let truncated = pg_retry_buffer_truncated (pv_pingora env) (wo_down w)
      in if px_scp_profile (wo_ctx w) \<noteq> None \<or> \<not> pg_is_idempotent (pv_pingora env) (rq_method (wo_req w)) \<or> truncated
         then e\<lparr>er_retry := Decided False\<rparr>
         else e\<lparr>er_context := ''Peer: '' @ peer_text,
                er_retry := decide_reuse (reused \<and> \<not> truncated) (er_retry e)\<rparr>)"

section \<open>Completion\<close>

definition should_mark_span_as_error :: "pingora_error option \<Rightarrow> nat \<Rightarrow> bool" where
  "should_mark_span_as_error e status \<longleftrightarrow>
     500 \<le> status \<or>
     (case e of None \<Rightarrow> False | Some err \<Rightarrow> (case er_etype err of StatusError _ \<Rightarrow> False | _ \<Rightarrow> True))"

text \<open>What completion reports of a request, to the span, the access log and the metrics.\<close>

record completion_fields =
  rep_method :: string
  rep_path :: string
  rep_status :: nat
  rep_upstream :: "string option"
  rep_upstream_group :: "string option"
  rep_route_id :: "nat option"
  rep_had_upstream :: bool
  rep_cache_status :: string
  rep_span_error :: bool

definition report_status :: "('s, 'k, 'r) proxy_env \<Rightarrow> pingora_error option \<Rightarrow> ('s, 'k, 'm, 'r, 'f) world \<Rightarrow> nat" where
  "report_status env e w =
     (case response_written env w of
        Some s \<Rightarrow> s
      | None \<Rightarrow>
          (case e of
             Some err \<Rightarrow> (case er_etype err of StatusError code \<Rightarrow> code | _ \<Rightarrow> 0)
           | None \<Rightarrow> 0))"

definition report_upstream :: "('s, 'k, 'm) proxy_context \<Rightarrow> string option \<times> string option" where
  "report_upstream c =
     (case map_option se_target (px_selected c) of
        Some (SelScp name) \<Rightarrow> (map_option (\<lambda>e. root_value (xc_root e)) (px_scp c), Some name)
      | Some (SelUpstream peer) \<Rightarrow> (Some (tp_host peer @ '':'' @ show_nat (tp_port peer)), tp_upstream_group peer)
      | _ \<Rightarrow> (None, None))"

definition completion_report ::
  "('s, 'k, 'r) proxy_env \<Rightarrow> pingora_error option \<Rightarrow> ('s, 'k, 'm, 'r, 'f) world \<Rightarrow> completion_fields" where
  "completion_report env e w =
     (let c = wo_ctx w; status = report_status env e w
      in \<lparr>rep_method = rq_method (wo_req w), rep_path = u_path (rq_uri (wo_req w)), rep_status = status,
          rep_upstream = fst (report_upstream c), rep_upstream_group = snd (report_upstream c),
          rep_route_id = map_option se_route_id (px_selected c),
          rep_had_upstream =
            ((case map_option se_target (px_selected c) of
                None \<Rightarrow> False | Some (SelReturn _ _) \<Rightarrow> False | _ \<Rightarrow> True) \<and> e = None),
          rep_cache_status =
            (if px_cache_hit c then ''hit''
             else if e \<noteq> None then ''bypass''
             else if px_cache_key c \<noteq> None then ''miss'' else ''bypass''),
          rep_span_error = should_mark_span_as_error e status\<rparr>)"

definition finish_request ::
  "('s, 'k, 'r) proxy_env \<Rightarrow> pingora_error option \<Rightarrow> ('s, 'k, 'm, 'r, 'f) world \<Rightarrow>
   completion_fields \<times> ('s, 'k, 'm, 'r, 'f) world" where
  "finish_request env e w0 =
     (let report = completion_report env e w0;
          w = on_cache (advance_generation (ss_generation (wo_current w0))) w0;
          c = wo_ctx w
      in (report,
          if e \<noteq> None then on_ctx stop_collecting w
          else
            case (px_cache_key c, Option.bind (px_selected c) se_cache) of
              (Some key, Some cfg) \<Rightarrow>
                if \<not> cache_store_allowed cfg (px_cache_store_allowed c) then on_ctx stop_collecting w
                else
                  let w1 = on_ctx (\<lambda>c. c\<lparr>px_cache_headers := None\<rparr>) w
                  in (case (px_cache_status c, px_cache_headers c) of
                        (Some status, Some h) \<Rightarrow>
                          on_cache (be_put (pv_chooser env) (pv_now env) key
                              \<lparr>cp_status = status, cp_headers = h, cp_body = px_response_body_buf c,
                               cp_created_at = pv_now env\<rparr> cfg)
                            (on_ctx (\<lambda>c. c\<lparr>px_response_body_buf := []\<rparr>) w1)
                      | _ \<Rightarrow> w1)
            | _ \<Rightarrow> w))"

end
