(* ===== verification/Proxy_Safety.thy ===== *)
theory Proxy_Safety
  imports Proxy
begin

text \<open>
  What the handlers guarantee together: nothing is forwarded or answered from the cache before the
  request is authorised, whatever other requests and configuration changes come in between.
\<close>

section \<open>What computations leave alone\<close>

text \<open>A computation keeps an observation when it is the same afterwards, also after an error.\<close>

definition keeps :: "('w \<Rightarrow> 'b) \<Rightarrow> ('w, 'a) proc \<Rightarrow> bool" where
  "keeps f m \<longleftrightarrow> (\<forall>w. f (snd (m w)) = f w)"

named_theorems keeps_intros \<open>what keeps an observation\<close>

lemma keepsD: "keeps f m \<Longrightarrow> m w = (r, w') \<Longrightarrow> f w' = f w"
  by (metis keeps_def snd_conv)

lemma keeps_app: "keeps f m \<Longrightarrow> f (snd (m w)) = f w"
  by (simp add: keeps_def)

lemma keeps_basic [keeps_intros]:
  "keeps f (returnp a)" "keeps f (failp e)" "keeps f (liftp r)" "keeps f (readp g)"
  by (simp_all add: keeps_def proc_simps)

lemma keeps_bindp [keeps_intros]: "keeps f m \<Longrightarrow> (\<And>a. keeps f (k a)) \<Longrightarrow> keeps f (bindp m k)"
  by (auto simp: keeps_def bindp_def split: prod.splits sum.splits) (metis snd_conv)+

lemma keeps_modp [keeps_intros]: "(\<And>w. f (g w) = f w) \<Longrightarrow> keeps f (modp g)"
  by (simp add: keeps_def proc_simps)

lemma keeps_if [keeps_intros]: "(b \<Longrightarrow> keeps f m) \<Longrightarrow> (\<not> b \<Longrightarrow> keeps f n) \<Longrightarrow> keeps f (if b then m else n)"
  by simp

lemma keeps_pair: "keeps f m \<Longrightarrow> keeps g m \<Longrightarrow> keeps (\<lambda>w. (f w, g w)) m"
  by (simp add: keeps_def)

lemma keeps_callp [keeps_intros]: "(\<And>w. f (note_call c w) = f w) \<Longrightarrow> keeps f (callp env c)"
  by (simp add: keeps_def callp_def Let_def split: option.splits)

text \<open>
  Writing a response touches the calls on the session, the flag of the response plugins and
  their state, and nothing else.
\<close>

definition routing_part where
  "routing_part w =
     (wo_proxy w, dn_session (wo_down w), dn_http2 (wo_down w),
      (wo_ctx w)\<lparr>px_response_plugins_applied := False, px_plugin_state := \<lparr>st_resolved = None\<rparr>\<rparr>)"

lemma routing_part_note [simp]: "routing_part (note_call c w) = routing_part w"
  by (simp add: routing_part_def note_call_def)

lemma keeps_write_response: "keeps routing_part (write_response env h body)"
  unfolding write_response_def by (intro keeps_intros) simp_all

lemma keeps_apply_response_plugins: "keeps routing_part (apply_response_plugins env h)"
  by (auto simp: keeps_def apply_response_plugins_def routing_part_def on_ctx_def Let_def
      split: option.splits sum.splits)

lemma keeps_write_route_response: "keeps routing_part (write_route_response env r)"
  unfolding write_route_response_def
  by (intro keeps_intros keeps_write_response keeps_apply_response_plugins)

lemma keeps_write_cached_response: "keeps routing_part (write_cached_response env r)"
  unfolding write_cached_response_def by (intro keeps_intros keeps_write_response)

lemma keeps_respond_and_close: "keeps routing_part (respond_and_close env r)"
  unfolding respond_and_close_def by (intro keeps_intros keeps_write_route_response) simp

lemma keeps_restrict: "keeps routing_part (restrict_client_max_body_size env)"
  unfolding keeps_def restrict_client_max_body_size_def
  by (auto intro!: keeps_app keeps_intros)

lemma keeps_respond_to_selected_target: "keeps routing_part (respond_to_selected_target env selected)"
  unfolding respond_to_selected_target_def
  by (cases "se_target selected")
    (auto intro!: keeps_intros keeps_write_route_response keeps_respond_and_close)

text \<open>Reading the parts off.\<close>

lemma routing_partD:
  assumes "routing_part w' = routing_part w"
  shows "wo_proxy w' = wo_proxy w" "dn_session (wo_down w') = dn_session (wo_down w)"
    "px_cache_hit (wo_ctx w') = px_cache_hit (wo_ctx w)" "px_selected (wo_ctx w') = px_selected (wo_ctx w)"
    "px_snapshot (wo_ctx w') = px_snapshot (wo_ctx w)" "px_client_ip (wo_ctx w') = px_client_ip (wo_ctx w)"
    "px_snapshot_generation (wo_ctx w') = px_snapshot_generation (wo_ctx w)"
    "px_cache_key (wo_ctx w') = px_cache_key (wo_ctx w)" "px_scp (wo_ctx w') = px_scp (wo_ctx w)"
    "px_scp_profile (wo_ctx w') = px_scp_profile (wo_ctx w)"
    "px_cache_status (wo_ctx w') = px_cache_status (wo_ctx w)"
    "px_cache_headers (wo_ctx w') = px_cache_headers (wo_ctx w)"
    "px_cache_body_limit (wo_ctx w') = px_cache_body_limit (wo_ctx w)"
    "px_response_body_buf (wo_ctx w') = px_response_body_buf (wo_ctx w)"
    "px_cache_store_allowed (wo_ctx w') = px_cache_store_allowed (wo_ctx w)"
proof -
  from assms have "wo_proxy w' = wo_proxy w" "dn_session (wo_down w') = dn_session (wo_down w)"
    and c: "(wo_ctx w')\<lparr>px_response_plugins_applied := False, px_plugin_state := \<lparr>st_resolved = None\<rparr>\<rparr> =
      (wo_ctx w)\<lparr>px_response_plugins_applied := False, px_plugin_state := \<lparr>st_resolved = None\<rparr>\<rparr>"
    by (simp_all add: routing_part_def)
  then show "wo_proxy w' = wo_proxy w" "dn_session (wo_down w') = dn_session (wo_down w)" by simp_all
  show "px_cache_hit (wo_ctx w') = px_cache_hit (wo_ctx w)" "px_selected (wo_ctx w') = px_selected (wo_ctx w)"
    "px_snapshot (wo_ctx w') = px_snapshot (wo_ctx w)" "px_client_ip (wo_ctx w') = px_client_ip (wo_ctx w)"
    "px_snapshot_generation (wo_ctx w') = px_snapshot_generation (wo_ctx w)"
    "px_cache_key (wo_ctx w') = px_cache_key (wo_ctx w)" "px_scp (wo_ctx w') = px_scp (wo_ctx w)"
    "px_scp_profile (wo_ctx w') = px_scp_profile (wo_ctx w)"
    "px_cache_status (wo_ctx w') = px_cache_status (wo_ctx w)"
    "px_cache_headers (wo_ctx w') = px_cache_headers (wo_ctx w)"
    "px_cache_body_limit (wo_ctx w') = px_cache_body_limit (wo_ctx w)"
    "px_response_body_buf (wo_ctx w') = px_response_body_buf (wo_ctx w)"
    "px_cache_store_allowed (wo_ctx w') = px_cache_store_allowed (wo_ctx w)"
    using arg_cong [OF c, of px_cache_hit] arg_cong [OF c, of px_selected] arg_cong [OF c, of px_snapshot]
      arg_cong [OF c, of px_client_ip] arg_cong [OF c, of px_snapshot_generation]
      arg_cong [OF c, of px_cache_key] arg_cong [OF c, of px_scp] arg_cong [OF c, of px_scp_profile]
      arg_cong [OF c, of px_cache_status] arg_cong [OF c, of px_cache_headers]
      arg_cong [OF c, of px_cache_body_limit] arg_cong [OF c, of px_response_body_buf]
      arg_cong [OF c, of px_cache_store_allowed]
    by simp_all
qed

section \<open>Authorisation comes first\<close>

text \<open>The access rules, the allowed methods and the whole chain of request plugins let a request pass.\<close>

definition authorized ::
  "('s, 'k, 'r) proxy_env \<Rightarrow> 'm selected_route \<Rightarrow> string option \<Rightarrow> ('s, 'k, 'm, 'r, 'f) world \<Rightarrow> bool" where
  "authorized env selected host w \<longleftrightarrow>
     location_allows_client (pv_ext env) (se_access_rules selected) (px_client_ip (wo_ctx w)) \<and>
     method_allowed (se_client_limits selected) (rq_method (wo_req w)) \<and>
     fst (run_request_chain (pv_plugins env) (pv_now env) (plugin_chain (captured w) (se_route_id selected))
       (plugin_request_ctx host w)) = ChainPassed"

text \<open>What the steps up to the cache look-up do not touch.\<close>

definition cache_view where
  "cache_view w =
     (px_cache_hit (wo_ctx w), px_selected (wo_ctx w), px_snapshot_generation (wo_ctx w),
      px_cache_key (wo_ctx w), rq_method (wo_req w), rq_uri (wo_req w), dp_cache (wo_proxy w))"

lemma cache_view_of_routing:
  assumes "routing_part w' = routing_part w"
  shows "cache_view w' = cache_view w"
  by (simp add: cache_view_def routing_partD [OF assms])

lemma cache_view_updates [simp]:
  "cache_view (put_captured snap w) = cache_view w" "cache_view (set_req_headers h w) = cache_view w"
  "cache_view (put_scp name profile w) = cache_view w"
  "cache_view (on_ctx (\<lambda>c. c\<lparr>px_plugin_state := ps\<rparr>) w) = cache_view w"
  "cache_view (on_ctx (\<lambda>c. c\<lparr>px_scp := xo\<rparr>) w) = cache_view w"
  "cache_view (on_ctx (\<lambda>c. c\<lparr>px_scp_profile := po\<rparr>) w) = cache_view w"
  by (simp_all add: cache_view_def put_captured_def set_req_headers_def put_scp_def on_ctx_def Let_def)

lemma respond_and_close_not_False: "respond_and_close env r w \<noteq> (Inr False, w')"
  by (auto simp: respond_and_close_def proc_simps)

lemma respond_scp_error_not_False: "respond_scp_error env p e w \<noteq> (Inr False, w')"
  by (auto simp: respond_scp_error_def proc_simps)

lemma run_request_plugins_outcome:
  "fst (run_request_plugins env selected host w) =
     fst (run_request_chain (pv_plugins env) (pv_now env) (plugin_chain (captured w) (se_route_id selected))
       (plugin_request_ctx host w))"
  by (simp add: run_request_plugins_def Let_def split: prod.splits)

lemma run_request_plugins_view: "cache_view (snd (run_request_plugins env selected host w)) = cache_view w"
  by (simp add: run_request_plugins_def Let_def split: prod.splits)

lemma authorize_request_False:
  assumes "authorize_request env selected host w = (Inr False, w')"
  shows "authorized env selected host w \<and> w' = snd (run_request_plugins env selected host w)"
  using assms run_request_plugins_outcome [of env selected host w]
  by (auto simp: authorize_request_def authorized_def Let_def respond_and_close_not_False
      split: if_splits prod.splits chain_outcome.splits)

lemma keeps_view_close: "cache_view (snd (respond_and_close env r w)) = cache_view w"
  by (rule cache_view_of_routing) (rule keeps_app [OF keeps_respond_and_close])

lemma authorize_request_view: "authorize_request env selected host w = (r, w') \<Longrightarrow> cache_view w' = cache_view w"
  using run_request_plugins_view [of env selected host w]
    keeps_view_close [of env _ w] keeps_view_close [of env _ "snd (run_request_plugins env selected host w)"]
  by (auto simp: authorize_request_def Let_def split: if_splits prod.splits chain_outcome.splits)
    (metis snd_conv)+

lemma respond_scp_error_view: "cache_view (snd (respond_scp_error env p e w)) = cache_view w"
  unfolding respond_scp_error_def
  by (rule cache_view_of_routing) (intro keeps_app keeps_intros keeps_write_route_response)

lemma prepare_scp_request_view: "cache_view (snd (prepare_scp_request env selected w)) = cache_view w"
  by (auto simp: prepare_scp_request_def Let_def respond_scp_error_view
      split: selected_target.splits option.splits sum.splits prod.splits)

lemma restrict_False: "restrict_client_max_body_size env w = (Inr False, w') \<Longrightarrow> w' = w"
  by (auto simp: restrict_client_max_body_size_def proc_simps split: if_splits)

lemma restrict_view: "cache_view (snd (restrict_client_max_body_size env w)) = cache_view w"
  by (rule cache_view_of_routing) (rule keeps_app [OF keeps_restrict])

text \<open>A look-up hits only on an entry of the request's own key.\<close>

lemma try_cache_cases:
  assumes "try_cache env host w = (r, w')"
  obtains (Miss) "r = Inr False" "px_cache_hit (wo_ctx w') = px_cache_hit (wo_ctx w)"
      "px_selected (wo_ctx w') = px_selected (wo_ctx w)"
      "dn_session (wo_down w') = dn_session (wo_down w)"
  | (Hit) selected cfg key cached where "px_selected (wo_ctx w) = Some selected" "se_cache selected = Some cfg"
      "key = build_cache_key (rq_method (wo_req w)) (u_text (rq_uri (wo_req w)))
         (px_snapshot_generation (wo_ctx w)) (se_route_id selected) (case host of None \<Rightarrow> [] | Some h \<Rightarrow> h) cfg"
      "be_get (pv_now env) key cfg (dp_cache (wo_proxy w)) = Some cached" "r \<noteq> Inr False"
      "is_cacheable_request (pv_ext env) (rq_method (wo_req w)) (rq_headers (wo_req w))"
proof (cases "px_selected (wo_ctx w)")
  case None
  with assms show ?thesis by (intro Miss) (auto simp: try_cache_def)
next
  case (Some selected)
  note sel = this
  show ?thesis
  proof (cases "is_cacheable_request (pv_ext env) (rq_method (wo_req w)) (rq_headers (wo_req w)) \<and> se_cache selected \<noteq> None")
    case False
    with assms sel show ?thesis by (intro Miss) (auto simp: try_cache_def Let_def split: if_splits option.splits)
  next
    case True
    then obtain cfg where cfg: "se_cache selected = Some cfg" by auto
    define key where "key = build_cache_key (rq_method (wo_req w)) (u_text (rq_uri (wo_req w)))
         (px_snapshot_generation (wo_ctx w)) (se_route_id selected) (case host of None \<Rightarrow> [] | Some h \<Rightarrow> h) cfg"
    show ?thesis
    proof (cases "be_get (pv_now env) key cfg (dp_cache (wo_proxy w))")
      case None
      with assms sel True cfg show ?thesis
        by (intro Miss) (auto simp: try_cache_def Let_def key_def on_ctx_def on_cache_def split: prod.splits)
    next
      case (Some cached)
      with assms sel True cfg have "r \<noteq> Inr False"
        by (auto simp: try_cache_def Let_def key_def proc_simps)
      with Some sel True cfg show ?thesis by (intro Hit) (auto simp: key_def)
    qed
  qed
qed

text \<open>What precedes routing leaves the configuration, the method and the target of the request alone.\<close>

lemma note_call_frame [simp]:
  "wo_ctx (note_call c w) = wo_ctx w" "wo_proxy (note_call c w) = wo_proxy w"
  "dn_session (wo_down (note_call c w)) = dn_session (wo_down w)"
  by (simp_all add: note_call_def)

lemma apply_client_timeouts_frame [simp]:
  "wo_ctx (apply_client_timeouts b t w) = wo_ctx w" "wo_proxy (apply_client_timeouts b t w) = wo_proxy w"
  "dn_session (wo_down (apply_client_timeouts b t w)) = dn_session (wo_down w)"
  by (simp_all add: apply_client_timeouts_def Let_def split: option.splits)

lemma enter_route_frame [simp]:
  "wo_proxy (enter_route snap selected w) = wo_proxy w"
  "dn_session (wo_down (enter_route snap selected w)) = dn_session (wo_down w)"
  "px_selected (wo_ctx (enter_route snap selected w)) = Some selected"
  "px_snapshot (wo_ctx (enter_route snap selected w)) = px_snapshot (wo_ctx w)"
  "px_snapshot_generation (wo_ctx (enter_route snap selected w)) = px_snapshot_generation (wo_ctx w)"
  "px_client_ip (wo_ctx (enter_route snap selected w)) = px_client_ip (wo_ctx w)"
  "px_cache_hit (wo_ctx (enter_route snap selected w)) = px_cache_hit (wo_ctx w)"
  by (simp_all add: enter_route_def Let_def on_ctx_def)

lemma resolve_client_frame [simp]:
  "wo_proxy (resolve_client env snap w) = wo_proxy w" "wo_down (resolve_client env snap w) = wo_down w"
  "px_cache_hit (wo_ctx (resolve_client env snap w)) = px_cache_hit (wo_ctx w)"
  by (simp_all add: resolve_client_def Let_def on_ctx_def split: option.splits)

lemma locate_client_frame [simp]:
  "dp_state (wo_proxy (locate_client env snap w)) = dp_state (wo_proxy w)"
  "dp_cache (wo_proxy (locate_client env snap w)) = dp_cache (wo_proxy w)"
  "rq_method (wo_req (locate_client env snap w)) = rq_method (wo_req w)"
  "rq_uri (wo_req (locate_client env snap w)) = rq_uri (wo_req w)"
  "px_cache_hit (wo_ctx (locate_client env snap w)) = px_cache_hit (wo_ctx w)"
  by (simp_all add: locate_client_def set_req_headers_def on_ctx_def Let_def split: option.splits prod.splits)

lemma begin_request_frame [simp]:
  "dp_state (wo_proxy (begin_request env snap w)) = dp_state (wo_proxy w)"
  "dn_session (wo_down (begin_request env snap w)) = dn_session (wo_down w)"
  "px_cache_hit (wo_ctx (begin_request env snap w)) = px_cache_hit (wo_ctx w)"
  "px_snapshot (wo_ctx (begin_request env snap w)) = Some snap"
  "px_snapshot_generation (wo_ctx (begin_request env snap w)) = ss_generation snap"
  "dp_cache (wo_proxy (begin_request env snap w)) =
     advance_generation (ss_generation (wo_current w)) (dp_cache (wo_proxy w))"
  by (simp_all add: begin_request_def Let_def on_ctx_def on_cache_def)

lemma prepared_request_frame [simp]:
  "dp_state (wo_proxy (prepared_request env w)) = dp_state (wo_proxy w)"
  "rq_method (wo_req (prepared_request env w)) = rq_method (wo_req w)"
  "rq_uri (wo_req (prepared_request env w)) = rq_uri (wo_req w)"
  "px_cache_hit (wo_ctx (prepared_request env w)) = px_cache_hit (wo_ctx w)"
  "px_snapshot (wo_ctx (prepared_request env w)) = Some (wo_current w)"
  "px_snapshot_generation (wo_ctx (prepared_request env w)) = ss_generation (wo_current w)"
  "dp_cache (wo_proxy (prepared_request env w)) =
     advance_generation (ss_generation (wo_current w)) (dp_cache (wo_proxy w))"
  by (simp_all add: prepared_request_def Let_def)

lemma captured_routed [simp]:
  "captured (enter_route snap selected (prepared_request env w)) = wo_current w"
  by (simp add: captured_def held_snapshot_def)

lemma request_filter_cases:
  assumes "request_filter env w = (r, w')"
  obtains (Challenge) response where "respond_and_close env response (prepared_request env w) = (r, w')"
  | (NoRoute) "select_runtime_route (pv_ext env) (wo_current w) (dn_session (wo_down (prepared_request env w))) = Inr None"
      "restrict_client_max_body_size env (on_ctx (\<lambda>c. c\<lparr>px_selected := None\<rparr>) (prepared_request env w)) = (r, w')"
  | (Failed) e where "r = Inl e" "w' = prepared_request env w"
  | (Routed) selected host where
      "select_runtime_route (pv_ext env) (wo_current w) (dn_session (wo_down (prepared_request env w))) =
         Inr (Some (selected, host))"
      "serve_route env selected host (enter_route (wo_current w) selected (prepared_request env w)) = (r, w')"
  using assms
  by (auto simp: request_filter_def route_request_def Let_def split: option.splits sum.splits)

text \<open>A request that is to be forwarded was authorised.\<close>

lemma serve_route_False:
  assumes "serve_route env selected host w = (Inr False, w')"
  shows "authorized env selected host w"
  using assms
  by (auto simp: serve_route_def unless_done_def proc_simps dest!: restrict_False authorize_request_False split: if_splits)

text \<open>A step that keeps the view cannot be the one that hits the cache.\<close>

lemma hit_step:
  assumes "unless_done m k w = (r, w')" and "\<And>w. cache_view (snd (m w)) = cache_view w"
    and "\<not> px_cache_hit (wo_ctx w)" and "px_cache_hit (wo_ctx w')"
  obtains w1 where "m w = (Inr False, w1)" "cache_view w1 = cache_view w" "k w1 = (r, w')"
proof (cases "m w")
  case (Pair o1 w1)
  with assms(2) [of w] have v: "cache_view w1 = cache_view w" by simp
  with assms(3) have miss: "\<not> px_cache_hit (wo_ctx w1)" by (simp add: cache_view_def)
  with assms(1,4) Pair have "o1 = Inr False"
    by (cases o1) (auto simp: unless_done_def bindp_def proc_simps split: if_splits)
  with assms(1) Pair v show ?thesis by (intro that [of w1]) (simp_all add: unless_done_def bindp_def)
qed

lemma authorize_request_keeps_view: "cache_view (snd (authorize_request env selected host w)) = cache_view w"
  by (metis authorize_request_view prod.collapse)

lemma decide_target_hit:
  "decide_target env selected w = (r, w') \<Longrightarrow> px_cache_hit (wo_ctx w') = px_cache_hit (wo_ctx w)"
  by (auto simp: decide_target_def put_captured_def on_ctx_def Let_def
      split: selected_target.splits prod.splits sum.splits)

lemma decide_and_respond_hit:
  assumes "bindp (decide_target env selected) (respond_to_selected_target env) w = (r, w')"
  shows "px_cache_hit (wo_ctx w') = px_cache_hit (wo_ctx w)"
proof (cases "decide_target env selected w")
  case (Pair t w1)
  from decide_target_hit [OF this] have hit: "px_cache_hit (wo_ctx w1) = px_cache_hit (wo_ctx w)" .
  show ?thesis
  proof (cases t)
    case (Inl e)
    with assms Pair hit show ?thesis by (simp add: bindp_def)
  next
    case (Inr sel)
    with assms Pair have "respond_to_selected_target env sel w1 = (r, w')" by (simp add: bindp_def)
    from keepsD [OF keeps_respond_to_selected_target this] routing_partD(3) hit show ?thesis by metis
  qed
qed

lemma cache_or_target_hit:
  assumes "cache_or_target env selected host cacheable w = (r, w')"
    and "\<not> px_cache_hit (wo_ctx w)" and "px_cache_hit (wo_ctx w')"
  shows "cacheable \<and> (\<exists>r1 w1. try_cache env host w = (r1, w1) \<and> (r1 \<noteq> Inr False \<or> px_cache_hit (wo_ctx w1)))"
proof (cases cacheable)
  case False
  with assms show ?thesis
    by (auto simp: cache_or_target_def unless_done_def dest!: decide_and_respond_hit)
next
  case True
  obtain r1 w1 where t: "try_cache env host w = (r1, w1)" by (cases "try_cache env host w")
  show ?thesis
  proof (cases "r1 = Inr False")
    case r1: True
    with assms(1) True t have "bindp (decide_target env selected) (respond_to_selected_target env) w1 = (r, w')"
      by (simp add: cache_or_target_def unless_done_def bindp_def [of "try_cache env host"])
    with assms(3) t True show ?thesis by (auto dest: decide_and_respond_hit)
  qed (use True t in blast)
qed

lemma serve_route_hit:
  assumes serve: "serve_route env selected host w = (r, w')"
    and miss: "\<not> px_cache_hit (wo_ctx w)" and hit: "px_cache_hit (wo_ctx w')"
    and sel: "px_selected (wo_ctx w) = Some selected"
  shows "\<exists>cfg key cached. authorized env selected host w \<and>
    is_cacheable_request (pv_ext env) (rq_method (wo_req w)) (rq_headers (wo_req w)) \<and>
    se_cache selected = Some cfg \<and>
    key = build_cache_key (rq_method (wo_req w)) (u_text (rq_uri (wo_req w))) (px_snapshot_generation (wo_ctx w))
      (se_route_id selected) (case host of None \<Rightarrow> [] | Some h \<Rightarrow> h) cfg \<and>
    be_get (pv_now env) key cfg (dp_cache (wo_proxy w)) = Some cached"
proof -
  define cacheable where "cacheable = is_cacheable_request (pv_ext env) (rq_method (wo_req w)) (rq_headers (wo_req w))"
  from serve [unfolded serve_route_def] restrict_view miss hit obtain w1 where
    "restrict_client_max_body_size env w = (Inr False, w1)" and
    "bindp (readp (\<lambda>w. is_cacheable_request (pv_ext env) (rq_method (wo_req w)) (rq_headers (wo_req w)))) (\<lambda>cacheable.
        unless_done (authorize_request env selected host)
          (unless_done (prepare_scp_request env selected)
            (cache_or_target env selected host cacheable))) w1 = (r, w')"
    by (rule hit_step)
  then have "unless_done (authorize_request env selected host)
      (unless_done (prepare_scp_request env selected) (cache_or_target env selected host cacheable)) w = (r, w')"
    by (auto simp: bindp_def [of "readp _"] proc_simps cacheable_def dest: restrict_False)
  from this authorize_request_keeps_view miss hit obtain w2 where
    m2: "authorize_request env selected host w = (Inr False, w2)" "cache_view w2 = cache_view w" and
    k2: "unless_done (prepare_scp_request env selected) (cache_or_target env selected host cacheable) w2 = (r, w')"
    by (rule hit_step)
  from m2 have auth: "authorized env selected host w" by (simp add: authorize_request_False)
  have miss2: "\<not> px_cache_hit (wo_ctx w2)" using m2(2) miss by (simp add: cache_view_def)
  from k2 prepare_scp_request_view miss2 hit obtain w3 where
    m3: "cache_view w3 = cache_view w2" and k3: "cache_or_target env selected host cacheable w3 = (r, w')"
    by (rule hit_step)
  have v3: "cache_view w3 = cache_view w" using m2 m3 by simp
  then have miss3: "\<not> px_cache_hit (wo_ctx w3)" using miss by (simp add: cache_view_def)
  from cache_or_target_hit [OF k3 miss3 hit] obtain r4 w4 where c: cacheable
    and lookup: "try_cache env host w3 = (r4, w4)" "r4 \<noteq> Inr False \<or> px_cache_hit (wo_ctx w4)"
    by blast
  from lookup(1) show ?thesis
  proof (cases rule: try_cache_cases)
    case Miss
    with lookup(2) miss3 show ?thesis by simp
  next
    case (Hit selected' cfg key cached)
    from v3 sel Hit have "selected' = selected" by (simp add: cache_view_def)
    with Hit v3 auth c show ?thesis by (auto simp: cache_view_def cacheable_def)
  qed
qed

lemma select_runtime_route_None:
  "ss_router snap' = ss_router snap \<Longrightarrow>
   select_runtime_route x snap s = Inr None \<Longrightarrow> select_runtime_route x snap' s = Inr None"
  by (auto simp: select_runtime_route_def res_simps split: option.splits)

text \<open>
  C5. No connection to an upstream without authorisation. When the request filter lets a request
  through and an upstream peer is then chosen for it, with other requests served and
  configurations applied in between, the request had a route in the snapshot that was active when
  it arrived, and this route's access rules, allowed methods and every one of its request plugins
  had let it pass. Requests without a route are never forwarded. The assumption on the state in
  between is that a configuration is identified by its generation.
\<close>

theorem upstream_authorized:
  assumes filter: "request_filter env w = (Inr False, w')"
    and "wo_ctx w1 = wo_ctx w'" and "wo_down w1 = wo_down w'"
    and "ss_generation (wo_current w1) = ss_generation (wo_current w) \<longrightarrow>
      ss_router (wo_current w1) = ss_router (wo_current w)"
    and peer: "upstream_peer env' w1 = (Inr p, w2)" and "pv_ext env' = pv_ext env"
  shows "\<exists>selected host routed.
    select_runtime_route (pv_ext env) (wo_current w) (dn_session (wo_down (prepared_request env w))) =
      Inr (Some (selected, host)) \<and>
    routed = enter_route (wo_current w) selected (prepared_request env w) \<and>
    captured routed = wo_current w \<and> authorized env selected host routed"
  using filter
proof (cases rule: request_filter_cases)
  case (Challenge response)
  then show ?thesis by (simp add: respond_and_close_not_False)
next
  case NoRoute
  define w0 where "w0 = on_ctx (\<lambda>c. c\<lparr>px_selected := None\<rparr>) (prepared_request env w)"
  have w0: "px_selected (wo_ctx w0) = None" "px_snapshot (wo_ctx w0) = Some (wo_current w)"
    "dn_session (wo_down w0) = dn_session (wo_down (prepared_request env w))"
    by (simp_all add: w0_def on_ctx_def)
  from NoRoute(2) have "w' = w0" unfolding w0_def by (rule restrict_False)
  then have "px_selected (wo_ctx w1) = None" "px_snapshot (wo_ctx w1) = Some (wo_current w)"
    and down: "dn_session (wo_down w1) = dn_session (wo_down (prepared_request env w))"
    using assms(2,3) w0 by simp_all
  moreover have "ss_router (captured w1) = ss_router (wo_current w)"
    using calculation(2) assms(4) by (simp add: captured_def held_snapshot_def)
  then have "select_runtime_route (pv_ext env') (captured w1) (dn_session (wo_down w1)) = Inr None"
    unfolding assms(6) down using NoRoute(1) by (rule select_runtime_route_None)
  ultimately have "fst (lazy_route env' w1) = Inl (explain (StatusError 404) ''no location matched'')"
    by (simp add: lazy_route_def Let_def on_ctx_def)
  with peer show ?thesis by (auto simp: upstream_peer_def proc_simps)
next
  case (Routed selected host)
  from serve_route_False [OF Routed(2)] Routed(1) show ?thesis by simp
qed simp

text \<open>A proxy with one cached route to an upstream, for examples.\<close>

definition sample_env :: "(backend list, unit, unit) proxy_env" where
  "sample_env =
     \<lparr>pv_plugins = sample_libs, pv_groups = sample_group_lib, pv_ready = (\<lambda>_. True),
      pv_geo = \<lparr>gb_decode = (\<lambda>_ _. Inr None)\<rparr>,
      pv_pingora = \<lparr>pg_error = (\<lambda>_. None), pg_response_written = (\<lambda>_. None), pg_was_upgraded = (\<lambda>_. False),
        pg_retry_buffer_truncated = (\<lambda>_. False), pg_status_ok = (\<lambda>_. True), pg_is_idempotent = (\<lambda>m. m = ''GET'')\<rparr>,
      pv_now = 6, pv_chooser = (\<lambda>_. 0), pv_scp = sample_scp_env, pv_lookup_host = (\<lambda>_ _ _. DnsTimeout),
      pv_pool_hash = fst, pv_trace = (\<lambda>_ _ _. []), pv_problem_json = (\<lambda>_ _ _. [])\<rparr>"

definition cached_cfg :: cache_config where
  "cached_cfg =
     \<lparr>cc_enabled = True, cc_max_size = Some 4096, cc_ttl = Some 60, cc_stale_if_error = Some 60,
      cc_cache_key = Uri, cc_min_uses = None, cc_valid_statuses = [200]\<rparr>"

definition cached_loc :: compiled_location where
  "cached_loc = (plain_location 7 (CmPrefix ''/'') (ProxyPassTo ''u'' 80 False []))\<lparr>co_cache := Some cached_cfg\<rparr>"

definition proxy_snapshot_1 :: "compiled_location \<Rightarrow> (backend list, unit, unit) proxy_snapshot" where
  "proxy_snapshot_1 loc =
     \<lparr>ss_backend_counters = [], ss_scp_profiles = [], ss_generation = 1, ss_version = [],
      ss_router = (sample_router \<lparr>vh_named = [], vh_default = Some \<lparr>sr_locations = [loc]\<rparr>\<rparr>)
        \<lparr>cr_http_options := http_runtime_options_default\<lparr>ho_client_body_timeout := Some 5\<rparr>\<rparr>,
      ss_plugin_chains = [(7, [])], ss_upstream_groups = [], ss_trusted_cas = [], ss_client_identities = []\<rparr>"

definition sample_proxy ::
  "compiled_location \<Rightarrow> cache_backend \<Rightarrow> (backend list, unit, unit, unit, unit) dynamic_proxy" where
  "sample_proxy loc cache =
     \<lparr>dp_state = \<lparr>rt_current = proxy_snapshot_1 loc, rt_geoip = None, rt_apply_lock_poisoned = False,
        rt_bootstrap_config = restart_fingerprint (ss_router (proxy_snapshot_1 loc)), rt_registry = registry_new,
        rt_tls_material_generation = 1\<rparr>,
      dp_geoip = None, dp_cache = cache, dp_challenge_tokens = []\<rparr>"

definition sample_world ::
  "compiled_location \<Rightarrow> cache_backend \<Rightarrow> (backend list, unit, unit, unit, unit) world" where
  "sample_world loc cache =
     \<lparr>wo_down = \<lparr>dn_session = sample_session ''a.b'' ''/x'', dn_http2 = False, dn_calls = []\<rparr>,
      wo_ctx = proxy_context_default 0, wo_proxy = sample_proxy loc cache\<rparr>"

definition plain_loc :: compiled_location where
  "plain_loc = plain_location 7 (CmPrefix ''/'') (ProxyPassTo ''u'' 80 False [])"

theorem upstream_authorized_witness:
  "\<exists>selected host routed. routed = enter_route (proxy_snapshot_1 plain_loc) selected
       (prepared_request sample_env (sample_world plain_loc (be_new 4096))) \<and>
     authorized sample_env selected host routed"
proof -
  let ?w = "sample_world plain_loc (be_new 4096)"
  have run: "case request_filter sample_env ?w of
      (Inl e, w') \<Rightarrow> False
    | (Inr b, w') \<Rightarrow> \<not> b \<and> is_ok (fst (upstream_peer sample_env (w'\<lparr>wo_proxy := wo_proxy ?w\<rparr>)))"
    by code_simp
  then obtain w' where f: "request_filter sample_env ?w = (Inr False, w')"
    by (auto split: prod.splits sum.splits)
  define w1 where "w1 = w'\<lparr>wo_proxy := wo_proxy ?w\<rparr>"
  from run f have "is_ok (fst (upstream_peer sample_env w1))" by (simp add: w1_def)
  then obtain p w2 where p: "upstream_peer sample_env w1 = (Inr p, w2)"
    by (cases "upstream_peer sample_env w1"; cases "fst (upstream_peer sample_env w1)") (auto simp: is_ok_def)
  from upstream_authorized [OF f _ _ _ p refl] show ?thesis
    by (auto simp: w1_def sample_world_def sample_proxy_def)
qed

text \<open>
  C6. No answer from the cache without authorisation. When the request filter answers a request
  from the cache, the request's route let it pass in the same way, the request carried nothing
  that makes it private, and the answer was stored under a key of the same generation, route,
  host, method and URI, and is within its time to live.
\<close>

theorem cache_hit_authorized:
  assumes "request_filter env w = (r, w')" and "\<not> px_cache_hit (wo_ctx w)" and "px_cache_hit (wo_ctx w')"
  shows "\<exists>selected host routed cfg key cached.
    select_runtime_route (pv_ext env) (wo_current w) (dn_session (wo_down (prepared_request env w))) =
      Inr (Some (selected, host)) \<and>
    routed = enter_route (wo_current w) selected (prepared_request env w) \<and>
    captured routed = wo_current w \<and> authorized env selected host routed \<and>
    is_cacheable_request (pv_ext env) (rq_method (wo_req w)) (rq_headers (wo_req routed)) \<and>
    se_cache selected = Some cfg \<and>
    key = build_cache_key (rq_method (wo_req w)) (u_text (rq_uri (wo_req w))) (ss_generation (wo_current w))
      (se_route_id selected) (case host of None \<Rightarrow> [] | Some h \<Rightarrow> h) cfg \<and>
    be_get (pv_now env) key cfg (advance_generation (ss_generation (wo_current w)) (dp_cache (wo_proxy w))) = Some cached"
  using assms(1)
proof (cases rule: request_filter_cases)
  case (Challenge response)
  from keeps_view_close [of env response "prepared_request env w"] Challenge assms(2,3) show ?thesis
    by (simp add: cache_view_def)
next
  case NoRoute
  from restrict_view [of env "on_ctx (\<lambda>c. c\<lparr>px_selected := None\<rparr>) (prepared_request env w)"] NoRoute(2) assms(2,3)
  show ?thesis by (simp add: cache_view_def on_ctx_def)
next
  case (Failed e)
  with assms(2,3) show ?thesis by simp
next
  case (Routed selected host)
  define routed where "routed = enter_route (wo_current w) selected (prepared_request env w)"
  have hit: "\<not> px_cache_hit (wo_ctx routed)" using assms(2) by (simp add: routed_def)
  from serve_route_hit [OF Routed(2) [folded routed_def] hit assms(3)]
  obtain cfg key cached where k: "authorized env selected host routed"
    "is_cacheable_request (pv_ext env) (rq_method (wo_req routed)) (rq_headers (wo_req routed))"
    "se_cache selected = Some cfg"
    "key = build_cache_key (rq_method (wo_req routed)) (u_text (rq_uri (wo_req routed)))
       (px_snapshot_generation (wo_ctx routed)) (se_route_id selected) (case host of None \<Rightarrow> [] | Some h \<Rightarrow> h) cfg"
    "be_get (pv_now env) key cfg (dp_cache (wo_proxy routed)) = Some cached"
    by (auto simp: routed_def)
  from k Routed(1) show ?thesis by (simp add: routed_def)
qed

definition filled_backend :: cache_backend where
  "filled_backend =
     \<lparr>be_generation = 1, be_locations = [(7, 0)],
      be_heap = [(0, \<lparr>lc_ttl = 60, lc_retention = 120, lc_max_size = 4096, lc_current_size = 0,
        lc_entries = [(\<lparr>ck_generation = 1, ck_route_id = 7, ck_host = ''a.b'', ck_method = ''GET'', ck_uri = ''/x''\<rparr>,
          \<lparr>cp_status = 200, cp_headers = [], cp_body = ''ok'', cp_created_at = 5\<rparr>)],
        lc_request_counts = [], lc_last_sweep = 0\<rparr>)],
      be_next = 1, be_default_max_size = 4096\<rparr>"

theorem cache_hit_authorized_witness:
  "\<exists>selected host routed cfg key cached.
     routed = enter_route (proxy_snapshot_1 cached_loc) selected
       (prepared_request sample_env (sample_world cached_loc filled_backend)) \<and>
     authorized sample_env selected host routed \<and>
     be_get 6 key cfg (advance_generation 1 filled_backend) = Some cached"
proof -
  let ?w = "sample_world cached_loc filled_backend"
  have "px_cache_hit (wo_ctx (snd (request_filter sample_env ?w)))" by code_simp
  moreover have "\<not> px_cache_hit (wo_ctx ?w)" by (simp add: sample_world_def proxy_context_default_def)
  ultimately show ?thesis
    using cache_hit_authorized [of sample_env ?w "fst (request_filter sample_env ?w)" "snd (request_filter sample_env ?w)"]
    by (auto simp: sample_world_def sample_proxy_def proxy_snapshot_1_def sample_env_def)
qed

end
