(* ===== verification/Proxy_Completion.thy ===== *)
theory Proxy_Completion
  imports Proxy_Safety
begin

text \<open>
  What the proxy sends and keeps: the response that completion stores in the cache, stale
  responses after upstream errors, the headers of an answer from the cache, and the request that
  goes upstream.
\<close>

section \<open>Collecting a response\<close>

text \<open>The chunks of a response body, one call of the body filter each.\<close>

definition collect :: "string list \<Rightarrow> ('s, 'k, 'm, 'r, 'f) world \<Rightarrow> ('s, 'k, 'm, 'r, 'f) world" where
  "collect chunks w = foldl (\<lambda>w c. response_body_filter (Some c) w) w chunks"

lemma response_body_filter_idle:
  "px_cache_body_limit (wo_ctx w) = None \<Longrightarrow> response_body_filter body w = w"
  by (simp add: response_body_filter_def)

lemma collect_idle: "px_cache_body_limit (wo_ctx w) = None \<Longrightarrow> collect chunks w = w"
  by (induction chunks) (simp_all add: collect_def response_body_filter_idle)

lemma collect_Cons: "collect (c # cs) w = collect cs (response_body_filter (Some c) w)"
  by (simp add: collect_def)

text \<open>All chunks are kept when they fit together, and otherwise the response is given up.\<close>

lemma collect_result:
  assumes "px_cache_body_limit (wo_ctx w) = Some limit" and "limit < u64_max"
    and "length (px_response_body_buf (wo_ctx w)) \<le> limit"
  shows "wo_ctx (collect chunks w) =
    (if length (px_response_body_buf (wo_ctx w) @ concat chunks) \<le> limit
     then (wo_ctx w)\<lparr>px_response_body_buf := px_response_body_buf (wo_ctx w) @ concat chunks\<rparr>
     else stop_collecting (wo_ctx w))"
  using assms
proof (induction chunks arbitrary: w)
  case Nil
  then show ?case by (simp add: collect_def)
next
  case (Cons chunk chunks)
  define buf where "buf = px_response_body_buf (wo_ctx w)"
  show ?case
  proof (cases "limit < length buf + length chunk")
    case True
    then have "limit < sat_add64 (length buf) (length chunk)" using Cons.prems(2) by (simp add: sat_add_def)
    then have "response_body_filter (Some chunk) w = on_ctx stop_collecting w"
      using Cons.prems(1) by (simp add: response_body_filter_def buf_def)
    moreover have "collect chunks (on_ctx stop_collecting w) = on_ctx stop_collecting w"
      by (rule collect_idle) (simp add: on_ctx_def stop_collecting_def)
    ultimately show ?thesis using True by (simp add: collect_Cons buf_def on_ctx_def)
  next
    case False
    define w1 where "w1 = on_ctx (\<lambda>c. c\<lparr>px_response_body_buf := px_response_body_buf c @ chunk\<rparr>) w"
    have "sat_add64 (length buf) (length chunk) \<le> length buf + length chunk" by (simp add: sat_add_def)
    with False have "response_body_filter (Some chunk) w = w1"
      using Cons.prems(1) by (simp add: response_body_filter_def buf_def w1_def)
    moreover have "wo_ctx (collect chunks w1) =
      (if length (buf @ chunk @ concat chunks) \<le> limit
       then (wo_ctx w1)\<lparr>px_response_body_buf := buf @ chunk @ concat chunks\<rparr> else stop_collecting (wo_ctx w1))"
      using Cons.IH [of w1] Cons.prems False by (simp add: w1_def on_ctx_def buf_def)
    ultimately show ?thesis by (simp add: collect_Cons buf_def w1_def on_ctx_def stop_collecting_def)
  qed
qed

text \<open>What the response filter decides.\<close>

lemma response_filter_ctx:
  assumes "response_filter env h w = (Inr h', w1)" and "px_selected (wo_ctx w) = Some selected"
  shows "\<exists>w0. routing_part w0 = routing_part w \<and>
    w1 = start_collecting env selected (rh_status h') (rh_headers h') w0"
proof -
  from assms obtain h1 w0 hs where "apply_response_plugins env h w = (Inr h1, w0)"
    and h': "h' = h1\<lparr>rh_headers := hs\<rparr>" and w1: "w1 = start_collecting env selected (rh_status h1) hs w0"
    by (auto simp: response_filter_def proc_simps)
  from keepsD [OF keeps_apply_response_plugins this(1)] h' w1 show ?thesis by (intro exI [of _ w0]) simp
qed

text \<open>The conditions under which a response may be kept.\<close>

definition storable ::
  "('s, 'k, 'r) proxy_env \<Rightarrow> cache_backend \<Rightarrow> cache_key \<Rightarrow> cache_config \<Rightarrow> bool \<Rightarrow> response_head \<Rightarrow> string \<Rightarrow> bool" where
  "storable env cache key cfg allowed h body \<longleftrightarrow>
     cache_store_allowed cfg allowed \<and> is_cacheable (pv_ext env) (rh_status h) (rh_headers h) cfg \<and>
     content_length_fits (pv_ext env) (rh_headers h) (cache_body_limit cache key cfg (rh_headers h)) \<and>
     length body \<le> cache_body_limit cache key cfg (rh_headers h)"

lemma cache_body_limit_less: "be_max_size cache cfg \<le> u64_max \<Longrightarrow> cache_body_limit cache key cfg h < u64_max"
proof -
  have "128 \<le> sat_add64 (sat_add64 (estimated_headers_size h) 128) (key_size key)"
    using key_size_ge [of key] by (simp add: sat_add_def)
  then show "be_max_size cache cfg \<le> u64_max \<Longrightarrow> cache_body_limit cache key cfg h < u64_max"
    unfolding cache_body_limit_def by linarith
qed

definition advanced_cache :: "('s, 'k, 'm, 'r, 'f) world \<Rightarrow> cache_backend" where
  "advanced_cache w = advance_generation (ss_generation (wo_current w)) (dp_cache (wo_proxy w))"

lemma finish_request_cache:
  assumes "px_cache_key (wo_ctx w) = Some key" and "px_selected (wo_ctx w) = Some selected"
    and "se_cache selected = Some cfg"
  shows "dp_cache (wo_proxy (snd (finish_request env None w))) =
    (case (px_cache_status (wo_ctx w), px_cache_headers (wo_ctx w)) of
       (Some status, Some h) \<Rightarrow>
         if cache_store_allowed cfg (px_cache_store_allowed (wo_ctx w))
         then be_put (pv_chooser env) (pv_now env) key
           \<lparr>cp_status = status, cp_headers = h, cp_body = px_response_body_buf (wo_ctx w),
            cp_created_at = pv_now env\<rparr> cfg (advanced_cache w)
         else advanced_cache w
     | _ \<Rightarrow> advanced_cache w)"
  using assms
  by (simp add: finish_request_def Let_def on_cache_def on_ctx_def advanced_cache_def split: option.splits)

lemma finish_request_error: "dp_cache (wo_proxy (snd (finish_request env (Some e) w))) = advanced_cache w"
  by (simp add: finish_request_def Let_def on_cache_def on_ctx_def advanced_cache_def)

text \<open>
  C7. Completion stores exactly the response the client was sent, whole and only when it may be
  cached. A response whose header passed the response filter and whose body came in any chunks is
  stored under the request's key, with the status and headers after the response plugins, the
  concatenation of all chunks as its body and the time of completion, if and only if the location
  allows storing, the response is cacheable and the announced and the actual length fit the cache;
  with an error nothing is stored. Other requests may change the cache and the configuration
  between the calls.
\<close>

theorem complete_response_stored:
  assumes response: "response_filter env h w = (Inr h', w1)"
    and route: "px_cache_key (wo_ctx w) = Some key" "px_selected (wo_ctx w) = Some selected"
      "se_cache selected = Some cfg"
    and fresh: "px_response_body_buf (wo_ctx w) = []" "px_cache_status (wo_ctx w) = None"
      "px_cache_headers (wo_ctx w) = None" "px_cache_body_limit (wo_ctx w) = None"
    and bound: "be_max_size (dp_cache (wo_proxy w)) cfg \<le> u64_max"
    and between: "wo_ctx w2 = wo_ctx (collect chunks w1)"
  shows "dp_cache (wo_proxy (snd (finish_request env' None w2))) =
      (if storable env (dp_cache (wo_proxy w)) key cfg (px_cache_store_allowed (wo_ctx w)) h' (concat chunks)
       then be_put (pv_chooser env') (pv_now env') key
         \<lparr>cp_status = rh_status h', cp_headers = rh_headers h', cp_body = concat chunks,
          cp_created_at = pv_now env'\<rparr> cfg (advanced_cache w2)
       else advanced_cache w2) \<and>
    dp_cache (wo_proxy (snd (finish_request env' (Some e) w2))) = advanced_cache w2"
proof -
  define limit where "limit = cache_body_limit (dp_cache (wo_proxy w)) key cfg (rh_headers h')"
  define keep where "keep \<longleftrightarrow> cache_store_allowed cfg (px_cache_store_allowed (wo_ctx w)) \<and>
    is_cacheable (pv_ext env) (rh_status h') (rh_headers h') cfg \<and> content_length_fits (pv_ext env) (rh_headers h') limit"
  from response_filter_ctx [OF response route(2)] obtain w0 where
    w0: "routing_part w0 = routing_part w" and
    w1: "w1 = start_collecting env selected (rh_status h') (rh_headers h') w0" by blast
  note view = routing_partD [OF w0]
  have w1_ctx: "wo_ctx w1 = (if keep then (wo_ctx w0)\<lparr>px_cache_status := Some (rh_status h'),
      px_cache_headers := Some (rh_headers h'), px_cache_body_limit := Some limit\<rparr> else wo_ctx w0)"
    unfolding w1 using route view by (simp add: start_collecting_def Let_def keep_def limit_def on_ctx_def)
  have less: "limit < u64_max" unfolding limit_def using bound by (rule cache_body_limit_less)
  have w2_ctx: "wo_ctx w2 =
    (if keep \<and> length (concat chunks) \<le> limit then (wo_ctx w1)\<lparr>px_response_body_buf := concat chunks\<rparr>
     else if keep then stop_collecting (wo_ctx w1) else wo_ctx w1)"
  proof (cases keep)
    case True
    then have "px_cache_body_limit (wo_ctx w1) = Some limit" "px_response_body_buf (wo_ctx w1) = []"
      using w1_ctx view fresh by simp_all
    from collect_result [OF this(1) less, of chunks] this(2) True between show ?thesis by simp
  next
    case False
    then have "px_cache_body_limit (wo_ctx w1) = None" using w1_ctx view fresh by simp
    from collect_idle [OF this, of chunks] between False show ?thesis by simp
  qed
  have route2: "px_cache_key (wo_ctx w2) = Some key" "px_selected (wo_ctx w2) = Some selected"
    "px_cache_store_allowed (wo_ctx w2) = px_cache_store_allowed (wo_ctx w)"
    using w2_ctx w1_ctx view route by (simp_all add: stop_collecting_def)
  have stored: "storable env (dp_cache (wo_proxy w)) key cfg (px_cache_store_allowed (wo_ctx w)) h' (concat chunks)
      \<longleftrightarrow> keep \<and> length (concat chunks) \<le> limit"
    by (auto simp: storable_def keep_def limit_def)
  show ?thesis
    unfolding finish_request_cache [OF route2(1,2) route(3)] finish_request_error stored route2(3)
    using w2_ctx w1_ctx view fresh by (auto simp: keep_def stop_collecting_def)
qed

definition cached_route :: "unit selected_route" where
  "cached_route =
     \<lparr>se_client_limits = client_limits_default, se_url_rewrite = None, se_matched_prefix = None,
      se_route_id = 7, se_target = SelUpstream (proxy_pass_peer ''u'' 80 False []), se_access_rules = [],
      se_upstream_timeouts = upstream_timeouts_default, se_upstream_protocol = None,
      se_upstream_http2 = upstream_http2_default, se_upstream_ssl_options = upstream_ssl_default,
      se_upstream_trusted_ca = None, se_upstream_client_identity = None, se_cache = Some cached_cfg\<rparr>"

text \<open>The sample request after a look-up that missed.\<close>

definition missed_world :: "(backend list, unit, unit, unit, unit) world" where
  "missed_world = on_ctx (\<lambda>c. c\<lparr>px_selected := Some cached_route, px_cache_key := Some (sample_key 1),
     px_snapshot_generation := 1\<rparr>) (sample_world cached_loc (be_new 4096))"

definition ok_head :: response_head where
  "ok_head = \<lparr>rh_status = 200, rh_headers = []\<rparr>"

theorem complete_response_stored_witness:
  "\<exists>w1. response_filter sample_env ok_head missed_world = (Inr ok_head, w1) \<and>
     dp_cache (wo_proxy (snd (finish_request sample_env None (collect [''o'', ''k''] w1)))) =
       be_put (\<lambda>_. 0) 6 (sample_key 1)
         \<lparr>cp_status = 200, cp_headers = [], cp_body = ''ok'', cp_created_at = 6\<rparr> cached_cfg
         (advanced_cache (collect [''o'', ''k''] w1))"
proof -
  have chain: "plugin_chain (captured w) 7 = []" if "w = on_ctx (\<lambda>c. c\<lparr>px_response_plugins_applied := True\<rparr>) missed_world" for w
    unfolding that
    by (simp add: plugin_chain_def captured_def missed_world_def on_ctx_def sample_world_def
        proxy_context_default_def sample_proxy_def proxy_snapshot_1_def)
  have route: "px_cache_key (wo_ctx missed_world) = Some (sample_key 1)"
    "px_selected (wo_ctx missed_world) = Some cached_route" "se_cache cached_route = Some cached_cfg"
    "px_response_body_buf (wo_ctx missed_world) = []" "px_cache_status (wo_ctx missed_world) = None"
    "px_cache_headers (wo_ctx missed_world) = None" "px_cache_body_limit (wo_ctx missed_world) = None"
    by (simp_all add: missed_world_def on_ctx_def sample_world_def proxy_context_default_def cached_route_def)
  have bound: "be_max_size (dp_cache (wo_proxy missed_world)) cached_cfg \<le> u64_max"
    by (simp add: be_max_size_def cached_cfg_def)
  obtain w1 where r: "response_filter sample_env ok_head missed_world = (Inr ok_head, w1)"
    using chain by (auto simp: response_filter_def route apply_response_plugins_def cached_route_def
        bindp_def proc_simps Let_def sample_env_def ok_head_def missed_world_def on_ctx_def sample_world_def
        proxy_context_default_def)
  have st: "storable sample_env (dp_cache (wo_proxy missed_world)) (sample_key 1) cached_cfg
      (px_cache_store_allowed (wo_ctx missed_world)) ok_head (concat [''o'', ''k''])"
    by (simp add: storable_def cache_store_allowed_def cached_cfg_def is_cacheable_def ok_head_def
        has_cache_control_directive_def hdr_get_all_def hdr_contains_key_def content_length_fits_def hdr_get_def
        cache_body_limit_def be_max_size_def estimated_headers_size_def key_size_def sample_key_def sat_add_def)
  from complete_response_stored [OF r route bound refl, of sample_env] st r show ?thesis
    by (auto simp: ok_head_def sample_env_def)
qed

section \<open>Answers from the cache\<close>

text \<open>Inserting header by header keeps the last value of each name.\<close>

definition last_value :: "string list \<Rightarrow> string list" where
  "last_value vs = (case vs of [] \<Rightarrow> [] | _ \<Rightarrow> [last vs])"

definition lowercase_names :: "header_map \<Rightarrow> bool" where
  "lowercase_names h \<longleftrightarrow> list_all (\<lambda>(n, _). to_ascii_lowercase n = n) h"

lemma cached_header_values:
  assumes "cached_header x h (n, v) = Inr h'" and "to_ascii_lowercase n = n"
  shows "rh_status h' = rh_status h \<and>
    hdr_get_all (rh_headers h') m = (if to_ascii_lowercase m = n then [v] else hdr_get_all (rh_headers h) m)"
  using assms by (auto simp: cached_header_def eq_ignore_ascii_case_def split: if_splits)

lemma cached_headers_fold:
  assumes "fold_res (cached_header x) h hs = Inr h'" and "lowercase_names hs"
  shows "rh_status h' = rh_status h \<and>
    hdr_get_all (rh_headers h') n =
      (if hdr_get_all hs n = [] then hdr_get_all (rh_headers h) n else last_value (hdr_get_all hs n))"
  using assms
proof (induction hs arbitrary: h)
  case Nil
  then show ?case by (simp add: hdr_get_all_def)
next
  case (Cons nv hs)
  obtain m v where nv: "nv = (m, v)" by (cases nv)
  from Cons.prems nv obtain h1 where h1: "cached_header x h (m, v) = Inr h1"
    and rest: "fold_res (cached_header x) h1 hs = Inr h'" by (auto simp: res_simps)
  have low: "to_ascii_lowercase m = m" "lowercase_names hs" using Cons.prems(2) nv by (simp_all add: lowercase_names_def)
  have split: "hdr_get_all ((m, v) # hs) n = (if to_ascii_lowercase n = m then v # hdr_get_all hs n else hdr_get_all hs n)"
    by (simp add: hdr_get_all_def)
  show ?case
    unfolding nv split using Cons.IH [OF rest low(2)] cached_header_values [OF h1 low(1), of n]
    by (auto simp: last_value_def split: list.splits)
qed

lemma write_response_calls:
  assumes "write_response env h body w = (Inr (), w')"
  shows "dn_calls (wo_down w') = dn_calls (wo_down w) @ [WriteHeader h (body = None), WriteBody body True]"
  using assms by (auto simp: write_response_def proc_simps callp_def Let_def note_call_def split: option.splits)

text \<open>
  C26. An answer from the cache has the stored status and the stored body, and of every header name
  exactly the last of the values that were stored. A header that the upstream sent more than once
  (such as \<^verbatim>\<open>Link\<close>) therefore loses its other values on a cache hit.
\<close>

theorem cached_answer_values:
  assumes "write_cached_response env cached w = (Inr (), w')" and "lowercase_names (cp_headers cached)"
  shows "\<exists>h. dn_calls (wo_down w') = dn_calls (wo_down w) @
      [WriteHeader h (cp_body cached = []),
       WriteBody (if cp_body cached = [] then None else Some (cp_body cached)) True] \<and>
    rh_status h = cp_status cached \<and>
    (\<forall>n. hdr_get_all (rh_headers h) n = last_value (hdr_get_all (cp_headers cached) n))"
proof -
  from assms(1) obtain h0 h1 where h0: "build_head env (cp_status cached) ''failed to build cached response header'' = Inr h0"
    and h1: "fold_res (cached_header (pv_ext env)) h0 (cp_headers cached) = Inr h1"
    and wr: "write_response env h1 (if cp_body cached = [] then None else Some (cp_body cached)) w = (Inr (), w')"
    by (auto simp: write_cached_response_def proc_simps)
  have "h0 = \<lparr>rh_status = cp_status cached, rh_headers = []\<rparr>" using h0 by (simp add: build_head_def split: if_splits)
  with cached_headers_fold [OF h1 assms(2)] have "rh_status h1 = cp_status cached \<and>
      (\<forall>n. hdr_get_all (rh_headers h1) n = last_value (hdr_get_all (cp_headers cached) n))"
    by (auto simp: hdr_get_all_def last_value_def)
  with write_response_calls [OF wr] show ?thesis by (intro exI [of _ h1]) (simp split: if_splits)
qed

definition linked_response :: cached_response where
  "linked_response =
     \<lparr>cp_status = 200, cp_headers = [(''link'', ''</a>''), (''link'', ''</b>'')], cp_body = ''ok'', cp_created_at = 5\<rparr>"

theorem cached_answer_values_witness:
  "\<exists>h. dn_calls (wo_down (snd (write_cached_response sample_env linked_response missed_world))) =
      [WriteHeader h False, WriteBody (Some ''ok'') True] \<and>
    hdr_get_all (rh_headers h) ''link'' = [''</b>''] \<and> length (hdr_get_all (cp_headers linked_response) ''link'') = 2"
proof -
  have low: "lowercase_names (cp_headers linked_response)"
    "hdr_get_all (cp_headers linked_response) ''link'' = [''</a>'', ''</b>'']"
    by code_simp+
  have "\<exists>w'. write_cached_response sample_env linked_response missed_world = (Inr (), w')"
    by (simp add: write_cached_response_def proc_simps build_head_def sample_env_def linked_response_def
        cached_header_def sample_libs_def plain_ext_def write_response_def callp_def Let_def)
  then obtain w' where w': "write_cached_response sample_env linked_response missed_world = (Inr (), w')" ..
  have "dn_calls (wo_down missed_world) = []"
    by (simp add: missed_world_def on_ctx_def sample_world_def)
  with cached_answer_values [OF w' low(1)] w' low(2) show ?thesis
    by (auto simp: linked_response_def last_value_def)
qed

lemma callp_ctx [simp]: "wo_ctx (snd (callp env c w)) = wo_ctx w"
  by (simp add: callp_def Let_def split: option.splits)

lemma answer_failure_hit:
  "px_cache_hit (wo_ctx (snd (answer_failure env r c w))) = px_cache_hit (wo_ctx w)"
proof -
  obtain o1 w1 where wr: "write_route_response env r w = (o1, w1)" by (cases "write_route_response env r w")
  from keepsD [OF keeps_write_route_response wr] have "px_cache_hit (wo_ctx w1) = px_cache_hit (wo_ctx w)"
    by (rule routing_partD(3))
  then show ?thesis using wr by (cases o1) (simp_all add: answer_failure_def Let_def)
qed

text \<open>
  C23. A stale response is a last resort. An upstream failure is answered from the cache exactly
  when the error came from the upstream, the request is not an SCP exchange, nothing was sent yet,
  the location allows stale responses, and the entry of the request's own key is within its time
  to live plus the allowed staleness; otherwise the cached entries are not used.
\<close>

theorem stale_only_after_upstream_error:
  assumes "fail_to_proxy env e w = (out, w')" and "\<not> px_cache_hit (wo_ctx w)"
  shows "px_cache_hit (wo_ctx w') \<longleftrightarrow>
    er_esource e = FromUpstream \<and> px_scp_profile (wo_ctx w) = None \<and> response_written env w = None \<and>
    (\<exists>selected cfg key stale cached. px_selected (wo_ctx w) = Some selected \<and> se_cache selected = Some cfg \<and>
       px_cache_key (wo_ctx w) = Some key \<and> cc_stale_if_error cfg = Some stale \<and>
       be_get_stale (pv_now env) key cfg (advanced_cache w) = Some cached)"
proof -
  define w1 where "w1 = on_cache (advance_generation (ss_generation (wo_current w))) w"
  have view: "wo_ctx w1 = wo_ctx w" "dp_cache (wo_proxy w1) = advanced_cache w" "response_written env w1 = response_written env w"
    by (simp_all add: w1_def on_cache_def advanced_cache_def response_written_def)
  have answered: "px_cache_hit (wo_ctx (snd (answer_failure env r c w1))) = px_cache_hit (wo_ctx w)" for r c
    using answer_failure_hit [of env r c w1] view by simp
  show ?thesis
  proof (cases "px_scp_profile (wo_ctx w) = None \<and> response_written env w = None")
    case False
    with assms answered view show ?thesis
      by (auto simp: fail_to_proxy_def Let_def w1_def [symmetric] split: option.splits prod.splits)
        (metis snd_conv)+
  next
    case True
    show ?thesis
    proof (cases "stale_response env e w1")
      case None
      with True assms answered view have "\<not> px_cache_hit (wo_ctx w')"
        by (auto simp: fail_to_proxy_def Let_def w1_def [symmetric] fail_to_proxy_code_def) (metis snd_conv)
      with None view show ?thesis by (auto simp: stale_response_def split: if_splits)
    next
      case (Some cached)
      define c where "c = cached\<lparr>cp_headers := hdr_insert (cp_headers cached) ''x-cache'' ''STALE''\<rparr>"
      define w2 where "w2 = on_ctx (\<lambda>c. c\<lparr>px_cache_hit := True\<rparr>) w1"
      from True Some assms(1) view have "w' = snd (write_cached_response env c w2)"
        by (auto simp: fail_to_proxy_def Let_def w1_def [symmetric] c_def w2_def split: prod.splits)
      with keeps_app [OF keeps_write_cached_response] have "routing_part w' = routing_part w2" by simp
      then have "px_cache_hit (wo_ctx w')" by (simp add: routing_partD(3) w2_def on_ctx_def)
      moreover from Some view have "er_esource e = FromUpstream \<and>
        (\<exists>selected cfg key stale. px_selected (wo_ctx w) = Some selected \<and> se_cache selected = Some cfg \<and>
         px_cache_key (wo_ctx w) = Some key \<and> cc_stale_if_error cfg = Some stale \<and>
         be_get_stale (pv_now env) key cfg (advanced_cache w) = Some cached)"
        by (auto simp: stale_response_def bind_eq_Some_conv split: if_splits option.splits)
      ultimately show ?thesis using True by blast
    qed
  qed
qed

definition upstream_error :: pingora_error where
  "upstream_error =
     \<lparr>er_etype = OtherError ''ConnectRefused'', er_esource = FromUpstream, er_retry = Decided False, er_context = []\<rparr>"

theorem stale_only_after_upstream_error_witness:
  "\<exists>w :: (backend list, unit, unit, unit, unit) world.
     dp_cache (wo_proxy w) = filled_backend \<and> px_cache_hit (wo_ctx (snd (fail_to_proxy sample_env upstream_error w)))"
proof -
  define w where "w = missed_world\<lparr>wo_proxy := sample_proxy cached_loc filled_backend\<rparr>"
  have get: "be_get_stale 6 (sample_key 1) cached_cfg filled_backend \<noteq> None"
    by (simp add: be_get_stale_def be_store_def filled_backend_def sample_key_def cached_cfg_def cfg_ttl_def
        elapsed_def sat_add_def duration_max_def)
  have adv: "advanced_cache w = filled_backend"
    by (simp add: advanced_cache_def w_def sample_proxy_def proxy_snapshot_1_def filled_backend_def advance_generation_def)
  have "er_esource upstream_error = FromUpstream" "px_scp_profile (wo_ctx w) = None" "response_written sample_env w = None"
    "px_selected (wo_ctx w) = Some cached_route" "se_cache cached_route = Some cached_cfg"
    "px_cache_key (wo_ctx w) = Some (sample_key 1)" "cc_stale_if_error cached_cfg = Some 60" "pv_now sample_env = 6"
    by (simp_all add: w_def upstream_error_def missed_world_def on_ctx_def sample_world_def proxy_context_default_def
        response_written_def sample_env_def cached_route_def cached_cfg_def)
  moreover have "\<not> px_cache_hit (wo_ctx w)"
    by (simp add: w_def missed_world_def on_ctx_def sample_world_def proxy_context_default_def)
  ultimately have "px_cache_hit (wo_ctx (snd (fail_to_proxy sample_env upstream_error w)))"
    using stale_only_after_upstream_error [of sample_env upstream_error w "fst (fail_to_proxy sample_env upstream_error w)"
      "snd (fail_to_proxy sample_env upstream_error w)"] get adv by auto
  moreover have "dp_cache (wo_proxy w) = filled_backend" by (simp add: w_def sample_proxy_def)
  ultimately show ?thesis by blast
qed

section \<open>The request sent upstream\<close>

lemma put_header_values:
  assumes "put_header x q (n, v) = Inr q'"
  shows "rq_uri q' = rq_uri q \<and> rq_headers q' = hdr_insert (rq_headers q) n v"
  using assms by (auto simp: put_header_def insert_header_def map_err_def split: if_splits)

lemma put_headers_others:
  assumes "fold_res (put_header x) q hs = Inr q'" and "list_all (\<lambda>(n, _). \<not> eq_ignore_ascii_case m n) hs"
  shows "hdr_get_all (rq_headers q') m = hdr_get_all (rq_headers q) m"
  using assms
proof (induction hs arbitrary: q)
  case (Cons nv hs)
  obtain n v where nv: "nv = (n, v)" by (cases nv)
  with Cons.prems obtain q1 where q1: "put_header x q (n, v) = Inr q1" and "fold_res (put_header x) q1 hs = Inr q'"
    by (auto simp: res_simps)
  with Cons nv put_header_values [OF q1] show ?case by simp
qed simp

lemma remove_headers_all:
  "hdr_get_all (foldl hdr_remove h names) m = (if list_ex (eq_ignore_ascii_case m) names then [] else hdr_get_all h m)"
  by (induction names arbitrary: h) auto

lemma consumed_names [simp]:
  "consumed_header ''host'' = False" "consumed_header ''3gpp-sbi-max-forward-hops'' = False"
  "to_ascii_lowercase ''host'' = ''host''"
  "to_ascii_lowercase ''3gpp-sbi-max-forward-hops'' = ''3gpp-sbi-max-forward-hops''"
  by code_simp+

lemma consumed_removed:
  assumes "consumed_header (to_ascii_lowercase n)"
  shows "hdr_get_all (foldl hdr_remove h (filter consumed_header (map fst h))) n = []"
proof (cases "hdr_get_all h n")
  case (Cons v vs)
  then have "v \<in> set (hdr_get_all h n)" by simp
  then have "(to_ascii_lowercase n, v) \<in> set h" by (auto simp: hdr_get_all_def)
  then have "to_ascii_lowercase n \<in> set (filter consumed_header (map fst h))" using assms by force
  moreover have "eq_ignore_ascii_case n (to_ascii_lowercase n)" by (simp add: eq_ignore_ascii_case_def)
  ultimately show ?thesis unfolding remove_headers_all list_ex_iff by auto
qed (simp add: remove_headers_all)

lemma scp_request_headers_exact:
  assumes "scp_request_headers x e h = Inr h'"
  shows "hdr_get_all h' ''host'' = [root_authority (xc_root e)] \<and>
    hdr_get_all h' ''3gpp-sbi-max-forward-hops'' = [show_nat (sq_hops (xc_request e))] \<and>
    (\<forall>n. consumed_header (to_ascii_lowercase n) \<longrightarrow> hdr_get_all h' n = [])"
proof -
  define h1 where "h1 = foldl hdr_remove h (filter consumed_header (map fst h))"
  from assms have h': "h' = hdr_insert (hdr_insert h1 ''host'' (root_authority (xc_root e)))
      ''3gpp-sbi-max-forward-hops'' (show_nat (sq_hops (xc_request e)))"
    by (auto simp: scp_request_headers_def Let_def h1_def [symmetric] insert_header_def split: if_splits)
  show ?thesis unfolding h' using consumed_removed [of _ h, folded h1_def]
    by (auto simp: eq_ignore_ascii_case_def)
qed

text \<open>
  C24. What the upstream learns is decided by the proxy and not by the client or a plugin. An SCP
  exchange goes to the selected producer: the request line and the host name are those of its API
  root, the hop limit is the one computed from the request, and no header that steers SCP
  routing is left. With GeoIP enabled the location headers are exactly those looked up for the
  client.
\<close>

theorem upstream_request_identity:
  assumes "upstream_request_filter env q w = (Inr q', w')" and "px_selected (wo_ctx w) \<noteq> None"
  shows "(\<forall>exchange. px_scp (wo_ctx w) = Some exchange \<longrightarrow>
      upstream_uri (pv_ext env) exchange = Inr (rq_uri q') \<and>
      hdr_get_all (rq_headers q') ''host'' = [root_authority (xc_root exchange)] \<and>
      hdr_get_all (rq_headers q') ''3gpp-sbi-max-forward-hops'' = [show_nat (sq_hops (xc_request exchange))] \<and>
      (\<forall>n. consumed_header (to_ascii_lowercase n) \<longrightarrow> hdr_get_all (rq_headers q') n = [])) \<and>
    (px_scp (wo_ctx w) = None \<longrightarrow> dp_geoip (wo_proxy w) \<noteq> None \<longrightarrow>
      list_all (\<lambda>(n, _). \<not> list_ex (\<lambda>g. eq_ignore_ascii_case g n) GEOIP_HEADERS) (px_upstream_trace (wo_ctx w)) \<longrightarrow>
      map (hdr_get_all (rq_headers q')) GEOIP_HEADERS =
        map (\<lambda>v. case v of None \<Rightarrow> [] | Some s \<Rightarrow> [s]) (record_values (px_geoip (wo_ctx w))))"
proof -
  from assms(2) obtain selected where sel: "px_selected (wo_ctx w) = Some selected" by blast
  from assms(1) sel obtain h0 h q2 q3 where
    geo: "(if dp_geoip (wo_proxy w) = None then Inr h0
      else ok_or (explain (OtherError ''InvalidHTTPHeader'') []) (geoip_set_headers (pv_ext env) h0 (px_geoip (wo_ctx w)))) = Inr h" and
    q3: "fold_res (put_header (pv_ext env)) (q2\<lparr>rq_headers := h\<rparr>) (px_upstream_trace (wo_ctx w)) = Inr q3" and
    q': "(case px_scp (wo_ctx w) of None \<Rightarrow> Inr q3 | Some exchange \<Rightarrow> scp_upstream (pv_ext env) exchange q3) = Inr q'"
    by (auto simp: upstream_request_filter_def Let_def proc_simps)
  have scp: "upstream_uri (pv_ext env) e = Inr (rq_uri q') \<and>
      hdr_get_all (rq_headers q') ''host'' = [root_authority (xc_root e)] \<and>
      hdr_get_all (rq_headers q') ''3gpp-sbi-max-forward-hops'' = [show_nat (sq_hops (xc_request e))] \<and>
      (\<forall>n. consumed_header (to_ascii_lowercase n) \<longrightarrow> hdr_get_all (rq_headers q') n = [])"
    if "px_scp (wo_ctx w) = Some e" for e
  proof -
    from q' that obtain u h1 where u: "upstream_uri (pv_ext env) e = Inr u"
      and h1: "scp_request_headers (pv_ext env) e (rq_headers q3) = Inr h1"
      and "q' = q3\<lparr>rq_uri := u, rq_headers := h1\<rparr>"
      by (auto simp: scp_upstream_def res_simps map_err_def split: sum.splits)
    with scp_request_headers_exact [OF h1] show ?thesis by simp
  qed
  have "map (hdr_get_all (rq_headers q')) GEOIP_HEADERS =
        map (\<lambda>v. case v of None \<Rightarrow> [] | Some s \<Rightarrow> [s]) (record_values (px_geoip (wo_ctx w)))"
    if "px_scp (wo_ctx w) = None" "dp_geoip (wo_proxy w) \<noteq> None"
      and trace: "list_all (\<lambda>(n, _). \<not> list_ex (\<lambda>g. eq_ignore_ascii_case g n) GEOIP_HEADERS) (px_upstream_trace (wo_ctx w))"
  proof -
    from that geo have "geoip_set_headers (pv_ext env) h0 (px_geoip (wo_ctx w)) = Some h"
      by (auto simp: ok_or_def split: option.splits if_splits)
    from geoip_set_headers_exact [OF this] have
      "map (hdr_get_all h) GEOIP_HEADERS = map (\<lambda>v. case v of None \<Rightarrow> [] | Some s \<Rightarrow> [s]) (record_values (px_geoip (wo_ctx w)))" .
    moreover have "hdr_get_all (rq_headers q3) g = hdr_get_all h g" if "g \<in> set GEOIP_HEADERS" for g
      using put_headers_others [OF q3, of g] trace that by (auto simp: list_all_iff list_ex_iff)
    moreover have "q' = q3" using q' that(1) by simp
    ultimately show ?thesis by (metis (no_types, lifting) map_eq_conv)
  qed
  with scp show ?thesis by blast
qed

definition located_world :: "(backend list, unit, unit, unit, unit) world" where
  "located_world =
     (on_ctx (\<lambda>c. c\<lparr>px_geoip := \<lparr>gr_city = None, gr_country = Some ''Chile'', gr_country_iso = Some ''CL''\<rparr>\<rparr>) missed_world)
     \<lparr>wo_proxy := (sample_proxy cached_loc (be_new 4096))\<lparr>dp_geoip :=
        Some \<lparr>gp_config = \<lparr>gi_database = [], gi_reload_interval = 1, gi_trusted_proxies = []\<rparr>, gp_reader = None, gp_loaded = None,
              gp_last_error = None, gp_lookup_error_logged = False\<rparr>\<rparr>\<rparr>"

theorem upstream_request_identity_witness:
  "\<exists>q' w'. upstream_request_filter sample_env
       \<lparr>rq_method = ''GET'', rq_uri = \<lparr>u_text = ''/x'', u_path = ''/x'', u_query = None\<rparr>,
        rq_headers = [(''x-geoip-city'', ''Springfield'')]\<rparr> located_world = (Inr q', w') \<and>
     map (hdr_get_all (rq_headers q')) GEOIP_HEADERS = [[], [''Chile''], [''CL'']]"
proof -
  let ?q = "\<lparr>rq_method = ''GET'', rq_uri = \<lparr>u_text = ''/x'', u_path = ''/x'', u_query = None\<rparr>,
    rq_headers = [(''x-geoip-city'', ''Springfield'')]\<rparr>"
  have ctx: "px_selected (wo_ctx located_world) = Some cached_route" "px_scp (wo_ctx located_world) = None"
    "px_upstream_trace (wo_ctx located_world) = []"
    "record_values (px_geoip (wo_ctx located_world)) = [None, Some ''Chile'', Some ''CL'']"
    "dp_geoip (wo_proxy located_world) \<noteq> None"
    by (simp_all add: located_world_def missed_world_def on_ctx_def sample_world_def proxy_context_default_def record_values_def)
  have "plugin_chain (captured located_world) 7 = []"
    by (simp add: located_world_def plugin_chain_def captured_def missed_world_def on_ctx_def sample_world_def
        proxy_context_default_def sample_proxy_def proxy_snapshot_1_def)
  then have "\<exists>q' w'. upstream_request_filter sample_env ?q located_world = (Inr q', w')"
    using ctx by (simp add: upstream_request_filter_def Let_def proc_simps rewrite_upstream_def prefix_upstream_def
        cached_route_def proxy_pass_peer_def map_err_def geoip_set_headers_def ok_or_def GEOIP_HEADERS_def
        sample_env_def sample_libs_def plain_ext_def)
  then obtain q' w' where q': "upstream_request_filter sample_env ?q located_world = (Inr q', w')" by blast
  from upstream_request_identity [OF q'] q' ctx show ?thesis by auto
qed

end
