(* ===== verification/Compile_Routes.thy ===== *)
theory Compile_Routes
  imports Selection Scp_Request
begin

text \<open>
  Compilation of upstream groups and locations: from the intermediate representation to what the
  data plane reads (\<^verbatim>\<open>crates/ngxora-runtime/src/upstreams/compile/upstream_groups.rs\<close> and
  \<^verbatim>\<open>compile/routes.rs\<close>), with every rejection. What the code asks of a parsed URL is a parameter.
\<close>

section \<open>URLs\<close>

record url_lib =
  ul_parse :: "string \<Rightarrow> url option"
  ul_scheme :: "url \<Rightarrow> string"
  ul_host_str :: "url \<Rightarrow> string option"
  ul_port :: "url \<Rightarrow> nat option"
  ul_port_or_known_default :: "url \<Rightarrow> nat option"
  ul_username :: "url \<Rightarrow> string"
  ul_password :: "url \<Rightarrow> string option"
  ul_path :: "url \<Rightarrow> string"
  ul_query :: "url \<Rightarrow> string option"
  ul_fragment :: "url \<Rightarrow> string option"
  ul_cannot_be_a_base :: "url \<Rightarrow> bool"

section \<open>Upstream groups\<close>

definition normalize_upstream_name :: "string \<Rightarrow> string" where
  "normalize_upstream_name name = to_ascii_lowercase (trim_end_matches CHR ''.'' name)"

definition compile_upstream_server :: "upstream_server \<Rightarrow> (string, compiled_upstream_server) result" where
  "compile_upstream_server s =
     and_then (reject (trim (usv_host s) = []) ''upstream server host cannot be empty'') (\<lambda>_.
     and_then (reject (usv_port s = 0)
       (''upstream server `'' @ usv_host s @ ''` port must be greater than zero'')) (\<lambda>_.
     Inr \<lparr>cs_host = usv_host s, cs_port = usv_port s, cs_weight = usv_weight s, cs_api_prefix = None,
          cs_nrf_service = None\<rparr>))"

definition compile_check_type ::
  "externals \<Rightarrow> upstream_health_check_type \<Rightarrow> (string, health_check_type) result" where
  "compile_check_type x t =
     (case t of
        CheckTcp \<Rightarrow> Inr HcTcp
      | CheckHttp host path use_tls \<Rightarrow>
          and_then (reject (trim host = []) ''health_check http host cannot be empty'') (\<lambda>_.
          and_then (ok_or (''invalid health_check path `'' @ path @ ''`'') (ext_uri_parts x path)) (\<lambda>u.
          and_then (reject (up_scheme u \<noteq> None \<or> up_authority u \<noteq> None \<or> \<not> starts_with ''/'' path)
            (''health_check path `'' @ path @ ''` must be an origin-form path starting with `/`'')) (\<lambda>_.
          Inr (HcHttp host path use_tls)))))"

definition compile_upstream_health_check ::
  "externals \<Rightarrow> upstream_health_check \<Rightarrow> (string, compiled_health_check) result" where
  "compile_upstream_health_check x h =
     and_then (reject (hc_timeout h = 0) ''health_check timeout must be greater than zero'') (\<lambda>_.
     and_then (reject (hc_interval h = 0) ''health_check interval must be greater than zero'') (\<lambda>_.
     and_then (reject (hc_consecutive_success h = 0)
       ''health_check consecutive_success must be greater than zero'') (\<lambda>_.
     and_then (reject (hc_consecutive_failure h = 0)
       ''health_check consecutive_failure must be greater than zero'') (\<lambda>_.
     and_then (compile_check_type x (hc_check_type h)) (\<lambda>t.
     Inr \<lparr>ch_check_type = t, ch_timeout = hc_timeout h, ch_interval = hc_interval h,
          ch_consecutive_success = hc_consecutive_success h,
          ch_consecutive_failure = hc_consecutive_failure h\<rparr>)))))"

definition compile_nrf_discovery ::
  "url_lib \<Rightarrow> nrf_discovery \<Rightarrow> (string, compiled_nrf_discovery) result" where
  "compile_nrf_discovery ul d =
     and_then (ok_or ''nrf_discovery api_root is invalid'' (ul_parse ul (nd_api_root d))) (\<lambda>root.
     and_then (reject (ul_scheme ul root \<noteq> ''http'' \<and> ul_scheme ul root \<noteq> ''https'')
       ''nrf_discovery api_root must use http or https'') (\<lambda>_.
     and_then (reject (ul_host_str ul root = None \<or> ul_cannot_be_a_base ul root)
       ''nrf_discovery api_root must be an absolute HTTP URL'') (\<lambda>_.
     and_then (reject (ul_query ul root \<noteq> None \<or> ul_fragment ul root \<noteq> None)
       ''nrf_discovery api_root must not contain a query or fragment'') (\<lambda>_.
     and_then (reject (nd_timeout d = 0) ''nrf_discovery timeout must be greater than zero'') (\<lambda>_.
     and_then (reject (nd_stale_if_error d = 0) ''nrf_discovery stale_if_error must be greater than zero'') (\<lambda>_.
     and_then (reject ((us_client_certificate (nd_tls_options d) = None) \<noteq>
         (us_client_certificate_key (nd_tls_options d) = None))
       ''nrf_discovery ssl_certificate and ssl_certificate_key must be configured together'') (\<lambda>_.
     Inr \<lparr>cn_api_root = root, cn_target_nf_type = to_ascii_uppercase (trim (nd_target_nf_type d)),
          cn_requester_nf_type = to_ascii_uppercase (trim (nd_requester_nf_type d)),
          cn_service_name = trim (nd_service_name d), cn_endpoint_scheme = nd_endpoint_scheme d,
          cn_timeout = nd_timeout d, cn_stale_if_error = nd_stale_if_error d,
          cn_tls_options = nd_tls_options d\<rparr>)))))))"

text \<open>The sum of the weights in 32 bits, which a release build lets wrap around.\<close>

definition add_weight :: "upstream_block \<Rightarrow> nat \<Rightarrow> upstream_server \<Rightarrow> (string, nat) result" where
  "add_weight b acc s =
     and_then (reject (usv_weight s = 0)
       (''upstream `'' @ ub_name b @ ''` backend `'' @ usv_host s @ '':'' @ show_nat (usv_port s) @
        ''` weight must be greater than zero'')) (\<lambda>_.
     Inr ((acc + usv_weight s) mod 2 ^ 32))"

definition transpose :: "('a \<Rightarrow> ('e, 'b) result) \<Rightarrow> 'a option \<Rightarrow> ('e, 'b option) result" where
  "transpose f v = (case v of None \<Rightarrow> Inr None | Some a \<Rightarrow> and_then (f a) (\<lambda>b. Inr (Some b)))"

definition compile_group ::
  "externals \<Rightarrow> url_lib \<Rightarrow> upstream_block \<Rightarrow> (string, compiled_upstream_group) result" where
  "compile_group x ul b =
     and_then (map_res compile_upstream_server (ub_servers b)) (\<lambda>servers.
     and_then (transpose (compile_nrf_discovery ul) (ub_nrf_discovery b)) (\<lambda>discovery.
     and_then (transpose (compile_upstream_health_check x) (ub_health_check b)) (\<lambda>health.
     Inr \<lparr>cg_allow_empty = ub_allow_empty b, cg_name = ub_name b, cg_policy = ub_policy b,
          cg_hash_key = ub_hash_key b, cg_servers = servers, cg_nrf_discovery = discovery,
          cg_health_check = health\<rparr>)))"

definition check_upstream :: "externals \<Rightarrow> upstream_block \<Rightarrow> (string, unit) result" where
  "check_upstream x b =
     (let quoted = ''upstream `'' @ ub_name b @ ''` ''
      in
      and_then (reject (normalize_upstream_name (ub_name b) = []) ''upstream name cannot be empty'') (\<lambda>_.
      and_then (reject (ub_servers b = [] \<and> ub_nrf_discovery b = None \<and> \<not> ub_allow_empty b)
        (quoted @ ''must define at least one server or nrf_discovery'')) (\<lambda>_.
      and_then (reject (ub_servers b \<noteq> [] \<and> ub_nrf_discovery b \<noteq> None)
        (quoted @ ''cannot combine server directives with nrf_discovery'')) (\<lambda>_.
      and_then (reject (ub_nrf_discovery b \<noteq> None \<and> ub_health_check b = None)
        (quoted @ ''with nrf_discovery must define health_check'')) (\<lambda>_.
      and_then (fold_res (add_weight b) 0 (ub_servers b)) (\<lambda>total_weight.
      and_then (reject (u16_max < total_weight) (quoted @ ''total backend weight must not exceed 65535'')) (\<lambda>_.
      and_then (reject (ub_hash_key b \<noteq> None \<and> ub_policy b \<noteq> ConsistentHash)
        (quoted @ ''hash_key requires policy consistent_hash'')) (\<lambda>_.
      reject (case ub_hash_key b of Some (Header name) \<Rightarrow> ext_header_name x name = None | _ \<Rightarrow> False)
        (quoted @ ''hash_key has invalid HTTP header name'')))))))))"

definition add_upstream ::
  "externals \<Rightarrow> url_lib \<Rightarrow> (string, compiled_upstream_group) hmap \<Rightarrow> upstream_block \<Rightarrow>
   (string, (string, compiled_upstream_group) hmap) result" where
  "add_upstream x ul compiled b =
     (let name = normalize_upstream_name (ub_name b)
      in
      and_then (check_upstream x b) (\<lambda>_.
      and_then (compile_group x ul b) (\<lambda>grp.
      and_then (reject (hm_get compiled name \<noteq> None) (''upstream `'' @ ub_name b @ ''` is duplicated'')) (\<lambda>_.
      Inr (hm_insert name grp compiled)))))"

definition compile_upstreams ::
  "externals \<Rightarrow> url_lib \<Rightarrow> upstream_block list \<Rightarrow> (string, (string, compiled_upstream_group) hmap) result" where
  "compile_upstreams x ul upstreams = fold_res (add_upstream x ul) [] upstreams"

section \<open>Targets\<close>

definition proxy_pass_tls :: "string \<Rightarrow> bool option" where
  "proxy_pass_tls scheme =
     (if scheme = ''http'' then Some False else if scheme = ''https'' then Some True else None)"

definition upstream_group_from_url ::
  "url_lib \<Rightarrow> url \<Rightarrow> (string, compiled_upstream_group) hmap \<Rightarrow> compiled_upstream_group option" where
  "upstream_group_from_url ul u upstreams =
     (if ul_port ul u \<noteq> None then None
      else if ul_username ul u \<noteq> [] \<or> ul_password ul u \<noteq> None \<or> ul_query ul u \<noteq> None \<or>
              ul_fragment ul u \<noteq> None \<or> ul_path ul u \<noteq> ''/'' then None
      else Option.bind (ul_host_str ul u) (\<lambda>host. hm_get upstreams (normalize_upstream_name host)))"

definition validate_nrf_route_scheme :: "compiled_upstream_group \<Rightarrow> bool \<Rightarrow> (string, unit) result" where
  "validate_nrf_route_scheme grp tls =
     (case cg_nrf_discovery grp of
        None \<Rightarrow> Inr ()
      | Some d \<Rightarrow>
          let expects_tls = (cn_endpoint_scheme d = SchemeHttps)
          in reject (tls \<noteq> expects_tls)
               (''proxy_pass scheme for NRF upstream `'' @ cg_name grp @ ''` must match endpoint_scheme '' @
                (if expects_tls then ''https'' else ''http'')))"

definition validate_direct_status :: "nat \<Rightarrow> (string, unit) result" where
  "validate_direct_status status =
     reject (\<not> (200 \<le> status \<and> status \<le> 599)) ''direct response status must be 200..599''"

definition url_target ::
  "url_lib \<Rightarrow> (string, compiled_upstream_group) hmap \<Rightarrow> url \<Rightarrow> (string, route_target option) result" where
  "url_target ul upstreams u =
     (case upstream_group_from_url ul u upstreams of
        Some grp \<Rightarrow>
          and_then (ok_or (''unsupported proxy_pass scheme `'' @ ul_scheme ul u @ ''`'')
            (proxy_pass_tls (ul_scheme ul u))) (\<lambda>tls.
          and_then (validate_nrf_route_scheme grp tls) (\<lambda>_.
          Inr (Some (UpstreamGroup (cg_name grp) tls))))
      | None \<Rightarrow>
          Inr (case (ul_host_str ul u, ul_port_or_known_default ul u, proxy_pass_tls (ul_scheme ul u)) of
                 (Some host, Some port, Some tls) \<Rightarrow> Some (ProxyPassTo host port tls (proxy_pass_sni host tls))
               | _ \<Rightarrow> None))"

definition pass_target ::
  "url_lib \<Rightarrow> (string, compiled_upstream_group) hmap \<Rightarrow> proxy_pass_target \<Rightarrow> (string, route_target option) result" where
  "pass_target ul upstreams t =
     (case t of
        PassUrl u \<Rightarrow> url_target ul upstreams u
      | PassUpstreamGroup name tls \<Rightarrow>
          and_then (ok_or (''proxy_pass references unknown upstream `'' @ name @ ''`'')
            (hm_get upstreams (normalize_upstream_name name))) (\<lambda>grp.
          and_then (validate_nrf_route_scheme grp tls) (\<lambda>_.
          Inr (Some (UpstreamGroup (cg_name grp) tls)))))"

definition response_target :: "nat \<Rightarrow> (string, route_target option) result" where
  "response_target status =
     and_then (validate_direct_status status) (\<lambda>_. Inr (Some (DirectResponse status)))"

definition compile_weighted_backend ::
  "url_lib \<Rightarrow> (string, compiled_upstream_group) hmap \<Rightarrow> weighted_backend \<Rightarrow> (string, compiled_weighted_backend) result" where
  "compile_weighted_backend ul upstreams b =
     and_then (reject (1000000 < wb_weight b) ''backend weight exceeds 1000000'') (\<lambda>_.
     and_then (case wb_target b of
         BtUpstream t \<Rightarrow> pass_target ul upstreams t
       | BtResponse status \<Rightarrow> response_target status) (\<lambda>t.
     and_then (ok_or ''invalid weighted backend target'' t) (\<lambda>target.
     Inr (CompiledWeightedBackend (wb_weight b) target))))"

definition route_target_from_directive ::
  "url_lib \<Rightarrow> (string, compiled_upstream_group) hmap \<Rightarrow> location_directive \<Rightarrow> (string, route_target option) result" where
  "route_target_from_directive ul upstreams d =
     (case d of
        LdDirectResponse status \<Rightarrow> response_target status
      | LdHttpRedirect config \<Rightarrow> Inr (Some (HttpRedirect config))
      | LdWeightedBackends backends \<Rightarrow>
          and_then (reject (backends = []) ''weighted_backends must not be empty'') (\<lambda>_.
          and_then (map_res (compile_weighted_backend ul upstreams) backends) (\<lambda>bs.
          Inr (Some (WeightedBackends bs))))
      | ScpPass profile \<Rightarrow> Inr (Some (Scp profile))
      | ProxyPass t \<Rightarrow> pass_target ul upstreams t
      | LdReturn status location \<Rightarrow> Inr (Some (Return status location))
      | _ \<Rightarrow> Inr None)"

text \<open>The first directive that gives a target or fails.\<close>

fun location_route_target ::
  "url_lib \<Rightarrow> (string, compiled_upstream_group) hmap \<Rightarrow> location_directive list \<Rightarrow> (string, route_target option) result" where
  "location_route_target ul upstreams [] = Inr None"
| "location_route_target ul upstreams (d # ds) =
     and_then (route_target_from_directive ul upstreams d) (\<lambda>t.
       case t of Some target \<Rightarrow> Inr (Some target) | None \<Rightarrow> location_route_target ul upstreams ds)"

section \<open>Settings of a location\<close>

definition set_once :: "'a option \<Rightarrow> 'a \<Rightarrow> string \<Rightarrow> (string, 'a option) result" where
  "set_once slot v name =
     and_then (reject (slot \<noteq> None) (name @ '' is duplicated in the same location'')) (\<lambda>_. Inr (Some v))"

definition timeout_directive :: "upstream_timeouts \<Rightarrow> location_directive \<Rightarrow> (string, upstream_timeouts) result" where
  "timeout_directive t d =
     (case d of
        ProxyConnectTimeout v \<Rightarrow>
          and_then (set_once (ut_connect t) v ''proxy_connect_timeout'') (\<lambda>s. Inr (t\<lparr>ut_connect := s\<rparr>))
      | ProxyReadTimeout v \<Rightarrow>
          and_then (set_once (ut_read t) v ''proxy_read_timeout'') (\<lambda>s. Inr (t\<lparr>ut_read := s\<rparr>))
      | ProxyWriteTimeout v \<Rightarrow>
          and_then (set_once (ut_write t) v ''proxy_write_timeout'') (\<lambda>s. Inr (t\<lparr>ut_write := s\<rparr>))
      | _ \<Rightarrow> Inr t)"

definition compile_upstream_timeouts :: "location \<Rightarrow> (string, upstream_timeouts) result" where
  "compile_upstream_timeouts l = fold_res timeout_directive upstream_timeouts_default (lo_directives l)"

definition protocol_directive ::
  "upstream_http_protocol option \<Rightarrow> location_directive \<Rightarrow> (string, upstream_http_protocol option) result" where
  "protocol_directive p d =
     (case d of
        ProxyUpstreamProtocol v \<Rightarrow> set_once p v ''proxy_upstream_protocol''
      | _ \<Rightarrow> Inr p)"

definition tls_fits_protocol :: "upstream_http_protocol \<Rightarrow> bool \<Rightarrow> (string, unit) result" where
  "tls_fits_protocol p tls =
     (case p of
        H1 \<Rightarrow> Inr ()
      | H2 \<Rightarrow> reject (\<not> tls) ''proxy_upstream_protocol h2 requires TLS upstream; use https proxy_pass or h2c''
      | H2c \<Rightarrow> reject tls ''proxy_upstream_protocol h2c requires plaintext upstream; use http proxy_pass'')"

fun protocol_for_target ::
    "upstream_http_protocol \<Rightarrow> route_target \<Rightarrow> (string, upstream_http_protocol option) result"
  and protocol_for_backends :: "upstream_http_protocol \<Rightarrow> compiled_weighted_backend list \<Rightarrow> (string, unit) result" where
  "protocol_for_target p (Scp profile) =
     Inl ''scp_pass chooses HTTP/2 transport from the target scheme; omit proxy_upstream_protocol''"
| "protocol_for_target p (ProxyPassTo host port tls sni) = and_then (tls_fits_protocol p tls) (\<lambda>_. Inr (Some p))"
| "protocol_for_target p (UpstreamGroup name tls) = and_then (tls_fits_protocol p tls) (\<lambda>_. Inr (Some p))"
| "protocol_for_target p (Return status location) = Inr None"
| "protocol_for_target p (DirectResponse status) = Inr None"
| "protocol_for_target p (HttpRedirect config) = Inr None"
| "protocol_for_target p (WeightedBackends bs) = and_then (protocol_for_backends p bs) (\<lambda>_. Inr (Some p))"
| "protocol_for_backends p [] = Inr ()"
| "protocol_for_backends p (CompiledWeightedBackend w t # bs) =
     and_then (protocol_for_target p t) (\<lambda>_. protocol_for_backends p bs)"

definition compile_upstream_protocol ::
  "location \<Rightarrow> route_target \<Rightarrow> (string, upstream_http_protocol option) result" where
  "compile_upstream_protocol l target =
     and_then (fold_res protocol_directive None (lo_directives l)) (\<lambda>protocol.
       case protocol of None \<Rightarrow> Inr None | Some p \<Rightarrow> protocol_for_target p target)"

definition ssl_directive :: "upstream_ssl_options \<Rightarrow> location_directive \<Rightarrow> (string, upstream_ssl_options) result" where
  "ssl_directive s d =
     (case d of
        ProxySslVerify v \<Rightarrow> Inr (s\<lparr>us_verify_cert := v\<rparr>)
      | ProxySslTrustedCertificate pem \<Rightarrow> Inr (s\<lparr>us_trusted_certificate := Some pem\<rparr>)
      | ProxySslCertificate pem \<Rightarrow>
          and_then (set_once (us_client_certificate s) pem ''proxy_ssl_certificate'') (\<lambda>c.
          Inr (s\<lparr>us_client_certificate := c\<rparr>))
      | ProxySslCertificateKey pem \<Rightarrow>
          and_then (set_once (us_client_certificate_key s) pem ''proxy_ssl_certificate_key'') (\<lambda>c.
          Inr (s\<lparr>us_client_certificate_key := c\<rparr>))
      | _ \<Rightarrow> Inr s)"

definition compile_upstream_ssl_options :: "location \<Rightarrow> (string, upstream_ssl_options) result" where
  "compile_upstream_ssl_options l =
     and_then (fold_res ssl_directive upstream_ssl_default (lo_directives l)) (\<lambda>s.
     and_then (reject (us_client_certificate s \<noteq> None \<and> us_client_certificate_key s = None)
       ''proxy_ssl_certificate requires proxy_ssl_certificate_key'') (\<lambda>_.
     and_then (reject (us_client_certificate s = None \<and> us_client_certificate_key s \<noteq> None)
       ''proxy_ssl_certificate_key requires proxy_ssl_certificate'') (\<lambda>_.
     Inr s)))"

definition http2_directive ::
  "upstream_http2_options \<Rightarrow> location_directive \<Rightarrow> (string, upstream_http2_options) result" where
  "http2_directive t d =
     (case d of
        ProxyHttp2MaxConcurrentStreams v \<Rightarrow>
          and_then (set_once (uh2_max_concurrent_streams t) v ''proxy_http2_max_concurrent_streams'') (\<lambda>s.
          Inr (t\<lparr>uh2_max_concurrent_streams := s\<rparr>))
      | ProxyHttp2StreamWindowSize v \<Rightarrow>
          and_then (set_once (uh2_stream_window_size t) v ''proxy_http2_stream_window_size'') (\<lambda>s.
          Inr (t\<lparr>uh2_stream_window_size := s\<rparr>))
      | ProxyHttp2ConnectionWindowSize v \<Rightarrow>
          and_then (set_once (uh2_connection_window_size t) v ''proxy_http2_connection_window_size'') (\<lambda>s.
          Inr (t\<lparr>uh2_connection_window_size := s\<rparr>))
      | _ \<Rightarrow> Inr t)"

definition compile_upstream_http2 :: "location \<Rightarrow> (string, upstream_http2_options) result" where
  "compile_upstream_http2 l =
     and_then (fold_res http2_directive upstream_http2_default (lo_directives l)) (\<lambda>t.
     and_then (upstream_http2_validate t) (\<lambda>_.
     Inr t))"

definition add_method :: "externals \<Rightarrow> string list \<Rightarrow> string \<Rightarrow> (string, string list) result" where
  "add_method x seen method =
     and_then (reject (\<not> ext_method_ok x method) ''invalid allowed HTTP method'') (\<lambda>_.
     Inr (if method \<in> set seen then seen else seen @ [method]))"

text \<open>The loop state carries whether methods were declared.\<close>

definition limit_directive ::
  "externals \<Rightarrow> client_limits \<times> bool \<Rightarrow> location_directive \<Rightarrow> (string, client_limits \<times> bool) result" where
  "limit_directive x st d =
     (case st of (limits, seen_methods) \<Rightarrow>
        (case d of
           ClientMaxBodySize v \<Rightarrow>
             and_then (reject (cl_max_body_size limits \<noteq> None)
               ''client_max_body_size is duplicated in location'') (\<lambda>_.
             Inr (limits\<lparr>cl_max_body_size := Some v\<rparr>, seen_methods))
         | ClientBodyTimeout v \<Rightarrow>
             and_then (set_once (cl_body_timeout limits) v ''client_body_timeout'') (\<lambda>s.
             Inr (limits\<lparr>cl_body_timeout := s\<rparr>, seen_methods))
         | SendTimeout v \<Rightarrow>
             and_then (set_once (cl_send_timeout limits) v ''send_timeout'') (\<lambda>s.
             Inr (limits\<lparr>cl_send_timeout := s\<rparr>, seen_methods))
         | AllowMethods methods \<Rightarrow>
             and_then (reject (seen_methods \<or> methods = [])
               ''allow_methods must be nonempty and declared once'') (\<lambda>_.
             and_then (fold_res (add_method x) (cl_allowed_methods limits) methods) (\<lambda>ms.
             Inr (limits\<lparr>cl_allowed_methods := ms\<rparr>, True)))
         | _ \<Rightarrow> Inr (limits, seen_methods)))"

definition compile_client_limits :: "externals \<Rightarrow> location \<Rightarrow> (string, client_limits) result" where
  "compile_client_limits x l =
     and_then (fold_res (limit_directive x) (client_limits_default, False) (lo_directives l)) (\<lambda>st.
     and_then (validate_client_timeout (cl_body_timeout (fst st))) (\<lambda>_.
     and_then (validate_client_timeout (cl_send_timeout (fst st))) (\<lambda>_.
     Inr (fst st))))"

section \<open>Locations\<close>

definition count_action :: "nat \<Rightarrow> location_directive \<Rightarrow> (string, nat) result" where
  "count_action n d =
     (case d of
        ProxyPass _ \<Rightarrow> Inr (n + 1)
      | ScpPass _ \<Rightarrow> Inr (n + 1)
      | LdReturn _ _ \<Rightarrow> Inr (n + 1)
      | LdWeightedBackends _ \<Rightarrow> Inr (n + 1)
      | LdDirectResponse _ \<Rightarrow> Inr (n + 1)
      | LdHttpRedirect _ \<Rightarrow> Inr (n + 1)
      | Root _ \<Rightarrow> Inl ''root is not supported at runtime''
      | TryFiles _ \<Rightarrow> Inl ''try_files is not supported at runtime''
      | _ \<Rightarrow> Inr n)"

definition is_upstream_target :: "route_target \<Rightarrow> bool" where
  "is_upstream_target t =
     (case t of ProxyPassTo _ _ _ _ \<Rightarrow> True | UpstreamGroup _ _ \<Rightarrow> True | WeightedBackends _ \<Rightarrow> True | _ \<Rightarrow> False)"

definition optional_hostname :: "string option \<Rightarrow> (string, unit) result" where
  "optional_hostname h = (case h of None \<Rightarrow> Inr () | Some host \<Rightarrow> validate_hostname host)"

definition rewrite_directive ::
  "externals \<Rightarrow> route_target \<Rightarrow> compiled_matcher \<Rightarrow> url_rewrite option \<Rightarrow> location_directive \<Rightarrow>
   (string, url_rewrite option) result" where
  "rewrite_directive x target m acc d =
     (case d of
        LdUrlRewrite rewrite \<Rightarrow>
          and_then (reject (acc \<noteq> None) ''duplicate URL rewrite'') (\<lambda>_.
          and_then (reject (\<not> is_upstream_target target) ''URL rewrite requires an upstream action'') (\<lambda>_.
          and_then (optional_hostname (ur_hostname rewrite)) (\<lambda>_.
          and_then (validate_modifier x (ur_path rewrite) m) (\<lambda>_.
          Inr (Some rewrite)))))
      | _ \<Rightarrow> Inr acc)"

definition validate_target :: "externals \<Rightarrow> route_target \<Rightarrow> compiled_matcher \<Rightarrow> (string, unit) result" where
  "validate_target x target m =
     (case target of
        HttpRedirect config \<Rightarrow>
          and_then (reject (hr_status config \<notin> set [301, 302, 303, 307, 308]) ''invalid HTTP redirect status'') (\<lambda>_.
          and_then (reject (case hr_scheme config of None \<Rightarrow> False | Some s \<Rightarrow> s \<noteq> ''http'' \<and> s \<noteq> ''https'')
            ''redirect scheme must be http or https'') (\<lambda>_.
          and_then (reject (hr_port config = Some 0) ''redirect port must be positive'') (\<lambda>_.
          and_then (optional_hostname (hr_hostname config)) (\<lambda>_.
          validate_modifier x (hr_path config) m))))
      | Return status location \<Rightarrow>
          and_then (reject (\<not> (300 \<le> status \<and> status < 400)) ''return requires a 3xx status'') (\<lambda>_.
          and_then (expand_return location ''example.com'' ''/'' ''http'') (\<lambda>_.
          reject (\<not> ext_header_value_ok x location) ''invalid redirect location''))
      | _ \<Rightarrow> Inr ())"

text \<open>
  The location with its target found. The counter of route numbers is threaded through; it
  advances with every kept location.
\<close>

definition compile_targeted_location ::
  "externals \<Rightarrow> location \<Rightarrow> route_target \<Rightarrow> nat \<Rightarrow> (string, compiled_location \<times> nat) result" where
  "compile_targeted_location x l target next =
     and_then (compile_upstream_protocol l target) (\<lambda>protocol.
     and_then (reject ((case target of Scp _ \<Rightarrow> True | _ \<Rightarrow> False) \<and> lo_cache l \<noteq> None)
       ''scp_pass cannot be combined with proxy_cache'') (\<lambda>_.
     and_then (compiled_matcher_of x (lo_matcher l)) (\<lambda>m.
     and_then (fold_res (rewrite_directive x target m) None (lo_directives l)) (\<lambda>rewrite.
     and_then (validate_target x target m) (\<lambda>_.
     and_then (compile_client_limits x l) (\<lambda>limits.
     and_then (compile_upstream_timeouts l) (\<lambda>timeouts.
     and_then (compile_upstream_http2 l) (\<lambda>http2.
     and_then (compile_upstream_ssl_options l) (\<lambda>ssl.
     Inr (\<lparr>co_client_limits = limits, co_url_rewrite = rewrite, co_route_id = next,
           co_matcher = m, co_access_rules = lo_access_rules l, co_target = target,
           co_upstream_timeouts = timeouts, co_upstream_protocol = protocol,
           co_upstream_http2 = http2, co_upstream_ssl_options = ssl, co_plugins = lo_plugins l,
           co_cache = lo_cache l\<rparr>, next + 1))))))))))"

definition compile_location ::
  "externals \<Rightarrow> url_lib \<Rightarrow> (string, compiled_upstream_group) hmap \<Rightarrow> location \<Rightarrow> nat \<Rightarrow>
   (string, compiled_location option \<times> nat) result" where
  "compile_location x ul upstreams l next =
     and_then (fold_res count_action 0 (lo_directives l)) (\<lambda>action_count.
     and_then (reject (action_count \<noteq> 1) ''location must contain exactly one proxy_pass or return directive'') (\<lambda>_.
     and_then (location_route_target ul upstreams (lo_directives l)) (\<lambda>t.
     case t of
       None \<Rightarrow> Inr (None, next)
     | Some target \<Rightarrow>
         and_then (compile_targeted_location x l target next) (\<lambda>(loc, next').
         Inr (Some loc, next')))))"

fun compile_location_list ::
  "externals \<Rightarrow> url_lib \<Rightarrow> (string, compiled_upstream_group) hmap \<Rightarrow> location list \<Rightarrow> nat \<Rightarrow>
   (string, compiled_location list \<times> nat) result" where
  "compile_location_list x ul upstreams [] next = Inr ([], next)"
| "compile_location_list x ul upstreams (l # ls) next =
     and_then (compile_location x ul upstreams l next) (\<lambda>(c, next').
     and_then (compile_location_list x ul upstreams ls next') (\<lambda>(cs, next'').
     Inr (case c of None \<Rightarrow> cs | Some loc \<Rightarrow> loc # cs, next'')))"

definition is_http_location :: "location \<Rightarrow> bool" where
  "is_http_location l = (case lo_matcher l of LmHttp _ \<Rightarrow> True | _ \<Rightarrow> False)"

definition compile_locations ::
  "externals \<Rightarrow> url_lib \<Rightarrow> (string, compiled_upstream_group) hmap \<Rightarrow> location list \<Rightarrow> nat \<Rightarrow>
   (string, compiled_location list \<times> nat) result" where
  "compile_locations x ul upstreams ls next =
     (let http_count = length (filter is_http_location ls)
      in and_then (reject (http_count \<noteq> 0 \<and> http_count \<noteq> length ls)
           ''cannot mix HTTP and nginx matchers in one virtual host'') (\<lambda>_.
         compile_location_list x ul upstreams ls next))"

end
