(* ===== verification/Compile.thy ===== *)
theory Compile
  imports Compile_Routes Control
begin

text \<open>
  Compilation of a whole configuration into the router of the data plane
  (\<^verbatim>\<open>crates/ngxora-runtime/src/upstreams/compile.rs\<close>): listeners with their virtual hosts, protocol
  and TLS settings, and the global options, with the rejected combinations.
\<close>

section \<open>Listeners\<close>

text \<open>\<^verbatim>\<open>SocketAddr::to_string\<close>.\<close>

definition listen_key_addr :: "listen_key \<Rightarrow> string" where
  "listen_key_addr k =
     (case lk_addr k of
        V4 w \<Rightarrow> show_ip (lk_addr k)
      | V6 w \<Rightarrow> ''['' @ show_ip (lk_addr k) @ '']'') @ '':'' @ show_nat (lk_port k)"

definition merge_listener_protocols :: "listen_key \<Rightarrow> listen \<Rightarrow> compiled_router \<Rightarrow> (string, compiled_router) result" where
  "merge_listener_protocols k l r =
     (let config = \<lparr>lp_http2 = li_http2 l, lp_http2_only = li_http2_only l\<rparr>
      in case hm_get (cr_listener_protocols r) k of
           Some current \<Rightarrow>
             and_then (reject (current \<noteq> config)
               (''listener '' @ listen_key_addr k @ '' has conflicting protocol settings across server blocks'')) (\<lambda>_.
             Inr r)
         | None \<Rightarrow> Inr (r\<lparr>cr_listener_protocols := hm_insert k config (cr_listener_protocols r)\<rparr>))"

definition merge_listener_tls_settings ::
  "listen_key \<Rightarrow> downstream_tls_options \<Rightarrow> compiled_router \<Rightarrow> (string, compiled_router) result" where
  "merge_listener_tls_settings k options r =
     (let settings = tls_settings_of options
      in case hm_get (cr_listener_tls r) k of
           Some current \<Rightarrow>
             and_then (reject (ltc_settings current \<noteq> settings)
               (''listener '' @ listen_key_addr k @ '' has conflicting TLS settings across server blocks'')) (\<lambda>_.
             Inr r)
         | None \<Rightarrow>
             Inr (r\<lparr>cr_listener_tls :=
               hm_insert k \<lparr>ltc_named = [], ltc_default = None, ltc_settings = settings\<rparr> (cr_listener_tls r)\<rparr>))"

text \<open>\<^verbatim>\<open>Path::join\<close> with a relative name.\<close>

definition join_path :: "string \<Rightarrow> string \<Rightarrow> string" where
  "join_path dir name =
     (if starts_with ''/'' name then name
      else if dir = [] \<or> ends_with ''/'' dir then dir @ name else dir @ ''/'' @ name)"

definition provider_identity :: "lets_encrypt_config option \<Rightarrow> string list \<Rightarrow> ssl_provider \<Rightarrow> tls_identity" where
  "provider_identity le names provider =
     (case provider of
        Custom tls \<Rightarrow> tls
      | LetsEncrypt \<Rightarrow>
          let cache_dir = (case Option.bind le le_cache_dir of Some d \<Rightarrow> d | None \<Rightarrow> ''/var/lib/ngxora/certs'');
              domain = (case names of [] \<Rightarrow> [] | n # _ \<Rightarrow> n)
          in \<lparr>ti_cert = PemPath (join_path (join_path cache_dir domain) ''fullchain.pem''),
              ti_key = PemPath (join_path (join_path cache_dir domain) ''privkey.pem'')\<rparr>)"

definition insert_names :: "string list \<Rightarrow> 'v \<Rightarrow> (string, 'v) hmap \<Rightarrow> (string, 'v) hmap" where
  "insert_names names v m = foldl (\<lambda>m n. hm_insert (normalize_hostname n) v m) m names"

definition add_listener_routes :: "server \<Rightarrow> server_routes \<Rightarrow> listen \<Rightarrow> virtual_host_routes \<Rightarrow> virtual_host_routes" where
  "add_listener_routes sv routes l v =
     (let v1 = v\<lparr>vh_named := insert_names (sv_server_names sv) routes (vh_named v)\<rparr>
      in if li_default_server l \<or> (sv_server_names sv = [] \<and> vh_default v1 = None)
         then v1\<lparr>vh_default := Some routes\<rparr> else v1)"

definition add_listener_tls ::
  "lets_encrypt_config option \<Rightarrow> server \<Rightarrow> listen \<Rightarrow> listener_tls_config \<Rightarrow> listener_tls_config" where
  "add_listener_tls le sv l t =
     (case sv_tls sv of
        None \<Rightarrow> t
      | Some provider \<Rightarrow>
          let identity = provider_identity le (sv_server_names sv) provider;
              t1 = t\<lparr>ltc_named := insert_names (sv_server_names sv) identity (ltc_named t)\<rparr>
          in if li_default_server l \<or> ltc_default t1 = None \<or> sv_server_names sv = []
             then t1\<lparr>ltc_default := Some identity\<rparr> else t1)"

definition add_listen ::
  "server \<Rightarrow> server_routes \<Rightarrow> compiled_router \<Rightarrow> listen \<Rightarrow> (string, compiled_router) result" where
  "add_listen sv routes r l =
     (let k = listen_key_of l
      in
      and_then (merge_listener_protocols k l r) (\<lambda>r1.
      let v = (case hm_get (cr_listeners r1) k of None \<Rightarrow> vhost_default | Some v \<Rightarrow> v);
          r2 = r1\<lparr>cr_listeners := hm_insert k (add_listener_routes sv routes l v) (cr_listeners r1)\<rparr>
      in if \<not> li_ssl l then Inr r2
         else
           and_then (merge_listener_tls_settings k (sv_tls_options sv) r2) (\<lambda>r3.
           let t = (case hm_get (cr_listener_tls r3) k of
                      Some t \<Rightarrow> t
                    | None \<Rightarrow> \<lparr>ltc_named = [], ltc_default = None, ltc_settings = tls_settings_of (sv_tls_options sv)\<rparr>)
           in Inr (r3\<lparr>cr_listener_tls := hm_insert k (add_listener_tls (cr_le_config r3) sv l t) (cr_listener_tls r3)\<rparr>))))"

section \<open>Servers\<close>

definition check_server_name :: "string \<Rightarrow> (string, unit) result" where
  "check_server_name name =
     (if CHR ''*'' \<notin> set name then Inr ()
      else
        and_then (ok_or ''only leading *. hostnames are supported'' (strip_prefix ''*.'' name)) (\<lambda>suffix.
        validate_hostname (trim_end_matches CHR ''.'' suffix)))"

definition check_scp_location :: "compiled_router \<Rightarrow> listen list \<Rightarrow> compiled_location \<Rightarrow> (string, unit) result" where
  "check_scp_location r listens loc =
     (case co_target loc of
        Scp profile \<Rightarrow>
          and_then (reject (hm_get (cr_scp_profiles r) profile = None)
            (''scp_pass references unknown profile `'' @ profile @ ''`'')) (\<lambda>_.
          reject (list_ex (\<lambda>l. if li_ssl l then \<not> li_http2 l else \<not> ho_h2c (cr_http_options r)) listens)
            ''scp_pass requires an HTTP/2 listener'')
      | _ \<Rightarrow> Inr ())"

definition add_server ::
  "externals \<Rightarrow> url_lib \<Rightarrow> compiled_router \<times> nat \<Rightarrow> server \<Rightarrow> (string, compiled_router \<times> nat) result" where
  "add_server x ul st sv =
     (case st of (r, next) \<Rightarrow>
        and_then (reject (sv_tls sv = Some LetsEncrypt \<and> length (sv_server_names sv) \<noteq> 1)
          ''ssl listener with LetsEncrypt currently supports exactly one server_name; split aliases into separate server blocks or use a manual certificate'') (\<lambda>_.
        and_then (map_res check_server_name (sv_server_names sv)) (\<lambda>_.
        and_then (compile_locations x ul (cr_upstreams r) (sv_locations sv) next) (\<lambda>(locs, next').
        and_then (map_res (check_scp_location r (sv_listens sv)) locs) (\<lambda>_.
        and_then (fold_res (add_listen sv \<lparr>sr_locations = locs\<rparr>) r (sv_listens sv)) (\<lambda>r'.
        Inr (r', next')))))))"

section \<open>The router\<close>

definition downstream_keepalive_timeout_secs :: "keepalive_timeout \<Rightarrow> nat option" where
  "downstream_keepalive_timeout_secs t =
     (case t of
        KeepaliveOff \<Rightarrow> None
      | KeepaliveTimeout idle _ \<Rightarrow>
          let millis = as_millis idle
          in if millis = 0 then None
             else
               let secs = (millis + 999) div 1000
               in if secs \<le> u64_max then Some secs else None)"

definition http_options_of :: "http \<Rightarrow> http_runtime_options" where
  "http_options_of h =
     \<lparr>ho_real_ip = ht_real_ip h, ho_client_header_timeout = ht_client_header_timeout h,
      ho_client_body_timeout = ht_client_body_timeout h, ho_send_timeout = ht_send_timeout h,
      ho_downstream_keepalive_timeout = downstream_keepalive_timeout_secs (ht_keepalive_timeout h),
      ho_keepalive_requests = ht_keepalive_requests h, ho_client_max_body_size = ht_client_max_body_size h,
      ho_proxy_cache_max_size = ht_proxy_cache_max_size h, ho_tcp_nodelay = (ht_tcp_nodelay h = On),
      ho_allow_connect_method_proxying = (ht_allow_connect_method_proxying h = On),
      ho_h2c = (ht_h2c h = On), ho_http2 = ht_http2 h\<rparr>"

definition add_scp_profile ::
  "externals \<Rightarrow> compiled_router \<Rightarrow> scp_profile \<Rightarrow> (string, compiled_router) result" where
  "add_scp_profile x r profile =
     and_then (validate_profile x profile (cr_upstreams r)) (\<lambda>_.
     and_then (reject (hm_get (cr_scp_profiles r) (sp_name profile) \<noteq> None)
       (''duplicate scp profile `'' @ sp_name profile @ ''`'')) (\<lambda>_.
     Inr (r\<lparr>cr_scp_profiles := hm_insert (sp_name profile) profile (cr_scp_profiles r)\<rparr>)))"

definition accepts_h2 :: "http \<Rightarrow> server \<Rightarrow> bool" where
  "accepts_h2 h sv \<longleftrightarrow>
     list_ex (\<lambda>l. (li_ssl l \<and> (li_http2 l \<or> li_http2_only l)) \<or> (\<not> li_ssl l \<and> ht_h2c h = On)) (sv_listens sv)"

definition has_body_timeout :: "http \<Rightarrow> server \<Rightarrow> bool" where
  "has_body_timeout h sv \<longleftrightarrow>
     (case ht_client_body_timeout h of None \<Rightarrow> False | Some d \<Rightarrow> d \<noteq> 0) \<or>
     list_ex (\<lambda>l. list_ex (\<lambda>d. case d of ClientBodyTimeout v \<Rightarrow> v \<noteq> 0 | _ \<Rightarrow> False) (lo_directives l)) (sv_locations sv)"

definition validate_http :: "http \<Rightarrow> (string, unit) result" where
  "validate_http h =
     and_then (reject (ht_tcp_nodelay h = Off)
       ''tcp_nodelay off is not supported: Pingora enables TCP_NODELAY on accepted downstream sockets'') (\<lambda>_.
     and_then (http2_validate (ht_http2 h)) (\<lambda>_.
     and_then (case ht_real_ip h of None \<Rightarrow> Inr () | Some c \<Rightarrow> real_ip_validate c) (\<lambda>_.
     and_then (map_res validate_client_timeout
       [ht_client_header_timeout h, ht_client_body_timeout h, ht_send_timeout h]) (\<lambda>_.
     case ht_geoip h of None \<Rightarrow> Inr () | Some c \<Rightarrow> geoip_validate c))))"

definition from_http :: "externals \<Rightarrow> url_lib \<Rightarrow> http \<Rightarrow> (string, compiled_router) result" where
  "from_http x ul h =
     and_then (validate_http h) (\<lambda>_.
     and_then (compile_upstreams x ul (ht_upstreams h)) (\<lambda>upstreams.
     let r0 = compiled_router_default\<lparr>cr_upstreams := upstreams, cr_http_options := http_options_of h,
           cr_le_config := ht_ssl_provider h, cr_geoip := ht_geoip h\<rparr>
     in
     and_then (fold_res (add_scp_profile x) r0 (ht_scp_profiles h)) (\<lambda>r1.
     and_then (fold_res (add_server x ul) (r1, 1) (ht_servers h)) (\<lambda>(r2, _).
     and_then (reject (list_ex (\<lambda>sv. accepts_h2 h sv \<and> has_body_timeout h sv) (ht_servers h))
       ''client_body_timeout is not supported on HTTP/2 listeners by Pingora 0.9; disable HTTP/2 or omit the body timeout'') (\<lambda>_.
     and_then (reject (ht_h2c h = On \<and> (case ht_client_header_timeout h of None \<Rightarrow> False | Some d \<Rightarrow> d \<noteq> 0))
       ''client_header_timeout requires h2c off; Pingora performs plaintext protocol detection before the header deadline'') (\<lambda>_.
     Inr r2))))))"

end
