(* ===== verification/Compile_Safety.thy ===== *)
theory Compile_Safety
  imports Compile
begin

text \<open>
  What a router that compiled has: routes are told apart by their numbers, every target names
  something that exists, and in a snapshot built for it no part is missing when requests are served.
\<close>

section \<open>Locations of a router under insertion\<close>

lemma hm_insert_entries: "set (hm_insert k v m) \<subseteq> insert (k, v) (set m)"
  by (induction m) auto

lemma insert_names_entries: "p \<in> set (insert_names names v m) \<Longrightarrow> snd p = v \<or> p \<in> set m"
proof (induction names arbitrary: m)
  case Nil
  then show ?case by (simp add: insert_names_def)
next
  case (Cons n names)
  then have "p \<in> set (insert_names names v (hm_insert (normalize_hostname n) v m))"
    by (simp add: insert_names_def)
  from Cons.IH [OF this] hm_insert_entries [of "normalize_hostname n" v m] show ?case by auto
qed

definition vhost_locations :: "virtual_host_routes \<Rightarrow> compiled_location set" where
  "vhost_locations v = (\<Union>s \<in> set (vhost_servers v). set (sr_locations s))"

lemma router_locations_set: "set (router_locations r) = (\<Union>(k, v) \<in> set (cr_listeners r). vhost_locations v)"
  by (force simp: router_locations_def vhost_locations_def)

lemma add_listener_routes_locations:
  "vhost_locations (add_listener_routes sv routes l v) \<subseteq> vhost_locations v \<union> set (sr_locations routes)"
proof -
  have "set (vhost_servers (add_listener_routes sv routes l v)) \<subseteq> insert routes (set (vhost_servers v))"
    by (auto simp: vhost_servers_def add_listener_routes_def Let_def split: option.splits if_splits
        dest!: insert_names_entries)
  then show ?thesis by (auto simp: vhost_locations_def)
qed

lemma merge_protocols_frame:
  "merge_listener_protocols k l r = Inr r' \<Longrightarrow>
   cr_listeners r' = cr_listeners r \<and> cr_upstreams r' = cr_upstreams r \<and> cr_listener_tls r' = cr_listener_tls r \<and>
   cr_scp_profiles r' = cr_scp_profiles r \<and> cr_http_options r' = cr_http_options r"
  by (auto simp: merge_listener_protocols_def Let_def res_simps split: option.splits)

lemma merge_tls_frame:
  "merge_listener_tls_settings k d r = Inr r' \<Longrightarrow>
   cr_listeners r' = cr_listeners r \<and> cr_upstreams r' = cr_upstreams r \<and>
   cr_listener_protocols r' = cr_listener_protocols r \<and>
   cr_scp_profiles r' = cr_scp_profiles r \<and> cr_http_options r' = cr_http_options r"
  by (auto simp: merge_listener_tls_settings_def Let_def res_simps split: option.splits)

lemma add_listen_frame:
  assumes "add_listen sv routes r l = Inr r'"
  shows "set (router_locations r') \<subseteq> set (router_locations r) \<union> set (sr_locations routes)"
    and "cr_upstreams r' = cr_upstreams r" and "cr_scp_profiles r' = cr_scp_profiles r"
    and "cr_http_options r' = cr_http_options r"
proof -
  define k where "k = listen_key_of l"
  from assms obtain r1 where r1: "merge_listener_protocols k l r = Inr r1"
    by (auto simp: add_listen_def Let_def k_def res_simps)
  define v where "v = (case hm_get (cr_listeners r1) k of None \<Rightarrow> vhost_default | Some v \<Rightarrow> v)"
  define r2 where "r2 = r1\<lparr>cr_listeners := hm_insert k (add_listener_routes sv routes l v) (cr_listeners r1)\<rparr>"
  note f1 = merge_protocols_frame [OF r1]
  have r': "cr_listeners r' = cr_listeners r2 \<and> cr_upstreams r' = cr_upstreams r2 \<and>
      cr_scp_profiles r' = cr_scp_profiles r2 \<and> cr_http_options r' = cr_http_options r2"
    using assms r1
    by (auto simp: add_listen_def Let_def k_def [symmetric] v_def [symmetric] r2_def [symmetric] res_simps
        dest!: merge_tls_frame split: if_splits)
  then show "cr_upstreams r' = cr_upstreams r" "cr_scp_profiles r' = cr_scp_profiles r"
    "cr_http_options r' = cr_http_options r"
    using f1 by (simp_all add: r2_def)
  have "vhost_locations v \<subseteq> set (router_locations r)"
  proof (cases "hm_get (cr_listeners r1) k")
    case None
    then show ?thesis by (simp add: v_def vhost_default_def vhost_locations_def vhost_servers_def)
  next
    case (Some w)
    then have "(k, w) \<in> set (cr_listeners r)" using f1 by (simp add: map_of_SomeD)
    then show ?thesis using Some by (auto simp: v_def router_locations_set)
  qed
  with add_listener_routes_locations [of sv routes l v]
  have new: "vhost_locations (add_listener_routes sv routes l v) \<subseteq> set (router_locations r) \<union> set (sr_locations routes)"
    by blast
  have entries: "set (cr_listeners r') \<subseteq> insert (k, add_listener_routes sv routes l v) (set (cr_listeners r))"
    using r' f1 hm_insert_entries [of k _ "cr_listeners r1"] by (simp add: r2_def)
  show "set (router_locations r') \<subseteq> set (router_locations r) \<union> set (sr_locations routes)"
  proof
    fix loc
    assume "loc \<in> set (router_locations r')"
    then obtain k' v' where v': "(k', v') \<in> set (cr_listeners r')" "loc \<in> vhost_locations v'"
      by (auto simp: router_locations_set)
    show "loc \<in> set (router_locations r) \<union> set (sr_locations routes)"
    proof (cases "(k', v') \<in> set (cr_listeners r)")
      case True
      with v'(2) show ?thesis by (auto simp: router_locations_set)
    next
      case False
      with v' entries have "v' = add_listener_routes sv routes l v" by blast
      with v'(2) new show ?thesis by blast
    qed
  qed
qed

lemma add_listens_frame:
  assumes "fold_res (add_listen sv routes) r ls = Inr r'"
  shows "set (router_locations r') \<subseteq> set (router_locations r) \<union> set (sr_locations routes) \<and>
    cr_upstreams r' = cr_upstreams r \<and> cr_scp_profiles r' = cr_scp_profiles r \<and> cr_http_options r' = cr_http_options r"
proof (rule fold_res_invariant [OF assms])
  fix s l s'
  assume "set (router_locations s) \<subseteq> set (router_locations r) \<union> set (sr_locations routes) \<and>
    cr_upstreams s = cr_upstreams r \<and> cr_scp_profiles s = cr_scp_profiles r \<and> cr_http_options s = cr_http_options r"
    and step: "add_listen sv routes s l = Inr s'"
  with add_listen_frame [OF step] show "set (router_locations s') \<subseteq> set (router_locations r) \<union> set (sr_locations routes) \<and>
    cr_upstreams s' = cr_upstreams r \<and> cr_scp_profiles s' = cr_scp_profiles r \<and> cr_http_options s' = cr_http_options r"
    by auto
qed simp

section \<open>Route numbers\<close>

lemma compile_targeted_location_parts:
  assumes "compile_targeted_location x l target n = Inr (loc, n')"
  shows "co_route_id loc = n \<and> n' = n + 1 \<and> co_target loc = target \<and>
    validate_target x target (co_matcher loc) = Inr () \<and>
    compile_upstream_ssl_options l = Inr (co_upstream_ssl_options loc) \<and>
    fold_res (rewrite_directive x target (co_matcher loc)) None (lo_directives l) = Inr (co_url_rewrite loc)"
  using assms by (auto simp: compile_targeted_location_def res_simps)

lemma compile_location_Some:
  assumes "compile_location x ul upstreams l n = Inr (Some loc, n')"
  obtains target where "location_route_target ul upstreams (lo_directives l) = Inr (Some target)"
    "compile_targeted_location x l target n = Inr (loc, n')"
proof -
  from assms obtain t where t: "location_route_target ul upstreams (lo_directives l) = Inr t"
    and rest: "(case t of None \<Rightarrow> Inr (None, n) | Some target \<Rightarrow>
      and_then (compile_targeted_location x l target n) (\<lambda>(loc, next'). Inr (Some loc, next'))) = Inr (Some loc, n')"
    by (auto simp: compile_location_def res_simps)
  then show ?thesis by (cases t) (auto simp: res_simps intro: that)
qed

lemma compile_location_None:
  assumes "compile_location x ul upstreams l n = Inr (None, n')"
  shows "n' = n"
proof -
  from assms obtain t where "(case t of None \<Rightarrow> Inr (None, n) | Some target \<Rightarrow>
      and_then (compile_targeted_location x l target n) (\<lambda>(loc, next'). Inr (Some loc, next'))) = Inr (None, n')"
    by (auto simp: compile_location_def res_simps)
  then show ?thesis by (cases t) (auto simp: res_simps)
qed

lemma compile_location_id:
  assumes "compile_location x ul upstreams l n = Inr (Some loc, n')"
  shows "co_route_id loc = n \<and> n' = n + 1"
  using assms by (rule compile_location_Some) (auto dest: compile_targeted_location_parts)

lemma compile_location_list_ids:
  assumes "compile_location_list x ul upstreams ls n = Inr (cs, n')"
  shows "n \<le> n' \<and> map co_route_id cs = [n..<n']"
  using assms
proof (induction ls arbitrary: n cs)
  case Nil
  then show ?case by simp
next
  case (Cons l ls)
  then obtain c n1 cs1 where c: "compile_location x ul upstreams l n = Inr (c, n1)"
    and rest: "compile_location_list x ul upstreams ls n1 = Inr (cs1, n')"
    and cs: "cs = (case c of None \<Rightarrow> cs1 | Some loc \<Rightarrow> loc # cs1)"
    by (auto simp: res_simps)
  from Cons.IH [OF rest] c cs show ?case
    by (cases c) (auto simp: upt_conv_Cons dest!: compile_location_id compile_location_None)
qed

text \<open>Numbers are below the counter and tell the locations apart.\<close>

definition ids_ok :: "compiled_router \<times> nat \<Rightarrow> bool" where
  "ids_ok st \<longleftrightarrow>
     (\<forall>loc \<in> set (router_locations (fst st)). co_route_id loc < snd st) \<and>
     inj_on co_route_id (set (router_locations (fst st)))"

lemma add_server_ids:
  assumes "add_server x ul st sv = Inr st'" and "ids_ok st"
  shows "ids_ok st'"
proof -
  obtain r n where st: "st = (r, n)" by (cases st)
  from assms(1) st obtain locs n' r' where locs: "compile_locations x ul (cr_upstreams r) (sv_locations sv) n = Inr (locs, n')"
    and r': "fold_res (add_listen sv \<lparr>sr_locations = locs\<rparr>) r (sv_listens sv) = Inr r'" and st': "st' = (r', n')"
    by (auto simp: add_server_def res_simps)
  have ids: "n \<le> n'" "map co_route_id locs = [n..<n']"
    using compile_location_list_ids [of x ul "cr_upstreams r" "sv_locations sv" n locs n'] locs
    by (auto simp: compile_locations_def Let_def res_simps)
  have "distinct (map co_route_id locs)" unfolding ids(2) by simp
  then have new1: "inj_on co_route_id (set locs)" by (simp add: distinct_map)
  have "co_route_id loc \<in> set (map co_route_id locs)" if "loc \<in> set locs" for loc using that by simp
  then have new2: "n \<le> co_route_id loc \<and> co_route_id loc < n'" if "loc \<in> set locs" for loc
    using that unfolding ids(2) by simp
  have old: "inj_on co_route_id (set (router_locations r))" "\<forall>loc \<in> set (router_locations r). co_route_id loc < n"
    using assms(2) st by (simp_all add: ids_ok_def)
  have "set (router_locations r') \<subseteq> set (router_locations r) \<union> set locs"
    using add_listens_frame [OF r'] by simp
  moreover have "co_route_id ` set (router_locations r) \<inter> co_route_id ` set locs = {}"
    using old(2) new2 by fastforce
  then have "inj_on co_route_id (set (router_locations r) \<union> set locs)"
    using old(1) new1 by (simp add: inj_on_Un) blast
  moreover have "\<forall>loc \<in> set (router_locations r) \<union> set locs. co_route_id loc < n'"
    using old(2) new2 ids(1) by fastforce
  ultimately show ?thesis unfolding st' ids_ok_def by (auto intro: inj_on_subset)
qed

lemma add_scp_profile_locations: "add_scp_profile x r p = Inr r' \<Longrightarrow> cr_listeners r' = cr_listeners r"
  by (auto simp: add_scp_profile_def res_simps)

lemma from_http_parts:
  assumes "from_http x ul h = Inr r"
  obtains upstreams r0 r1 n where "compile_upstreams x ul (ht_upstreams h) = Inr upstreams"
    "r0 = compiled_router_default\<lparr>cr_upstreams := upstreams, cr_http_options := http_options_of h,
       cr_le_config := ht_ssl_provider h, cr_geoip := ht_geoip h\<rparr>"
    "fold_res (add_scp_profile x) r0 (ht_scp_profiles h) = Inr r1"
    "fold_res (add_server x ul) (r1, 1) (ht_servers h) = Inr (r, n)"
  using assms by (auto simp: from_http_def Let_def res_simps)

lemma scp_fold_listeners:
  "fold_res (add_scp_profile x) r0 ps = Inr r1 \<Longrightarrow> cr_listeners r1 = cr_listeners r0"
  by (rule fold_res_invariant [where I = "\<lambda>r. cr_listeners r = cr_listeners r0"])
    (auto dest!: add_scp_profile_locations)

lemma from_http_ids:
  assumes "from_http x ul h = Inr r"
    and "a \<in> set (router_locations r)" and "b \<in> set (router_locations r)" and "co_route_id a = co_route_id b"
  shows "a = b"
proof -
  from assms(1) obtain upstreams r0 r1 n where
    r0: "r0 = compiled_router_default\<lparr>cr_upstreams := upstreams, cr_http_options := http_options_of h,
       cr_le_config := ht_ssl_provider h, cr_geoip := ht_geoip h\<rparr>" and
    scp: "fold_res (add_scp_profile x) r0 (ht_scp_profiles h) = Inr r1" and
    sv: "fold_res (add_server x ul) (r1, 1) (ht_servers h) = Inr (r, n)"
    by (rule from_http_parts)
  have "cr_listeners r1 = []" using scp_fold_listeners [OF scp] r0 by (simp add: compiled_router_default_def)
  then have "ids_ok (r1, 1)" by (simp add: ids_ok_def router_locations_def)
  then have "ids_ok (r, n)" by (rule fold_res_invariant [OF sv]) (rule add_server_ids)
  with assms show ?thesis by (auto simp: ids_ok_def dest: inj_onD)
qed

text \<open>
  C10. In a compiled router the number of a route identifies it: two locations, of whatever
  listeners and virtual hosts, with the same number are the same location. Caches, plugin chains,
  counters and connection pools are kept under these numbers.
\<close>

theorem compiled_route_ids:
  assumes "from_http x ul h = Inr r"
    and "a \<in> set (router_locations r)" and "b \<in> set (router_locations r)" and "co_route_id a = co_route_id b"
  shows "a = b"
  using assms by (rule from_http_ids)

definition sample_url_lib :: url_lib where
  "sample_url_lib =
     \<lparr>ul_parse = (\<lambda>s. Some (Url s)), ul_scheme = (\<lambda>_. ''http''), ul_host_str = (\<lambda>u. case u of Url s \<Rightarrow> Some s),
      ul_port = (\<lambda>_. None), ul_port_or_known_default = (\<lambda>_. Some 80), ul_username = (\<lambda>_. []),
      ul_password = (\<lambda>_. None), ul_path = (\<lambda>_. ''/''), ul_query = (\<lambda>_. None), ul_fragment = (\<lambda>_. None),
      ul_cannot_be_a_base = (\<lambda>_. False)\<rparr>"

definition sample_location :: "string \<Rightarrow> location_directive list \<Rightarrow> location" where
  "sample_location path ds =
     \<lparr>lo_matcher = LmPrefix path, lo_access_rules = [], lo_directives = ds, lo_plugins = [], lo_cache = None\<rparr>"

definition sample_listen :: listen where
  "sample_listen =
     \<lparr>li_addr = V4 0, li_port = 80, li_ssl = False, li_default_server = False, li_http2 = False, li_http2_only = False\<rparr>"

definition sample_http_server :: "location list \<Rightarrow> server" where
  "sample_http_server ls =
     \<lparr>sv_server_names = [''a.b''], sv_locations = ls, sv_listens = [sample_listen], sv_tls = None,
      sv_tls_options = downstream_tls_default\<rparr>"

definition sample_http :: "upstream_block list \<Rightarrow> location list \<Rightarrow> http" where
  "sample_http us ls =
     \<lparr>ht_real_ip = None, ht_client_header_timeout = None, ht_client_body_timeout = None,
      ht_send_timeout = None, ht_scp_profiles = [], ht_upstreams = us, ht_servers = [sample_http_server ls],
      ht_keepalive_timeout = KeepaliveOff, ht_keepalive_requests = None,
      ht_client_max_body_size = None, ht_proxy_cache_max_size = None, ht_tcp_nodelay = On,
      ht_allow_connect_method_proxying = Off, ht_h2c = Off, ht_http2 = http2_default,
      ht_ssl_provider = None, ht_geoip = None\<rparr>"

lemma sample_http_valid: "validate_http (sample_http us ls) = Inr ()"
  by (simp add: validate_http_def sample_http_def http2_validate_def http2_default_def validate_http2_value_def
      validate_client_timeout_def res_simps)

lemma sample_prefix: "\<not> is_http_location (sample_location path ds)"
  by (simp add: is_http_location_def sample_location_def)

lemmas sample_location_simps =
  compile_location_def sample_location_def count_action_def reject_def route_target_from_directive_def
  response_target_def validate_direct_status_def compile_targeted_location_def compile_upstream_protocol_def
  protocol_directive_def rewrite_directive_def validate_target_def
  compile_client_limits_def limit_directive_def client_limits_default_def validate_client_timeout_def
  compile_upstream_timeouts_def timeout_directive_def compile_upstream_http2_def http2_directive_def
  upstream_http2_validate_def validate_http2_value_def upstream_http2_default_def
  compile_upstream_ssl_options_def ssl_directive_def upstream_ssl_default_def plain_location_def

lemma sample_direct:
  assumes "200 \<le> status" and "status \<le> 599"
  shows "compile_location plain_ext ul ups (sample_location path [LdDirectResponse status]) n =
    Inr (Some (plain_location n (CmPrefix path) (DirectResponse status)), n + 1)"
  using assms by (simp add: sample_location_simps)

lemma sample_weighted:
  "compile_location plain_ext ul ups (sample_location path
     [LdWeightedBackends [\<lparr>wb_weight = 1, wb_target = BtResponse 200\<rparr>, \<lparr>wb_weight = 2, wb_target = BtResponse 404\<rparr>]]) n =
   Inr (Some (plain_location n (CmPrefix path) (WeightedBackends
     [CompiledWeightedBackend 1 (DirectResponse 200), CompiledWeightedBackend 2 (DirectResponse 404)])), n + 1)"
  by (simp add: sample_location_simps compile_weighted_backend_def ok_or_def)

definition is_scp :: "compiled_location \<Rightarrow> bool" where
  "is_scp loc = (case co_target loc of Scp _ \<Rightarrow> True | _ \<Rightarrow> False)"

lemma plain_location_parts [simp]:
  "is_scp (plain_location i m t) = (case t of Scp _ \<Rightarrow> True | _ \<Rightarrow> False)"
  "co_route_id (plain_location i m t) = i" "co_target (plain_location i m t) = t"
  by (simp_all add: is_scp_def plain_location_def)

lemma check_scp_other:
  "list_all (\<lambda>l. \<not> is_scp l) locs \<Longrightarrow> \<exists>us. map_res (check_scp_location r ls) locs = Inr us"
  by (induction locs) (auto simp: check_scp_location_def is_scp_def res_simps split: route_target.splits)

lemma sample_http_server_added:
  assumes "compile_location_list plain_ext sample_url_lib (cr_upstreams r) ls n = Inr (locs, n')"
    and "filter is_http_location ls = []" and "list_all (\<lambda>l. \<not> is_scp l) locs"
    and "cr_listeners r = []" and "cr_listener_protocols r = []"
  shows "\<exists>r'. add_server plain_ext sample_url_lib (r, n) (sample_http_server ls) = Inr (r', n') \<and>
    router_locations r' = locs \<and> cr_upstreams r' = cr_upstreams r \<and> cr_scp_profiles r' = cr_scp_profiles r"
proof -
  obtain us where us: "map_res (check_scp_location r [sample_listen]) locs = Inr us"
    using check_scp_other [OF assms(3)] by blast
  have names: "map_res check_server_name [''a.b''] = Inr [()]" by (simp add: check_server_name_def)
  show ?thesis
    using assms(1,2,4,5) us names
    by (simp add: add_server_def sample_http_server_def compile_locations_def reject_def add_listen_def Let_def
        merge_listener_protocols_def add_listener_routes_def insert_names_def router_locations_def
        vhost_locations_def vhost_servers_def vhost_default_def sample_listen_def)
qed

lemma sample_http_router:
  assumes "compile_upstreams plain_ext sample_url_lib us = Inr ups"
    and "compile_location_list plain_ext sample_url_lib ups ls 1 = Inr (locs, n)"
    and "filter is_http_location ls = []" and "list_all (\<lambda>l. \<not> is_scp l) locs"
  shows "\<exists>r. from_http plain_ext sample_url_lib (sample_http us ls) = Inr r \<and> router_locations r = locs \<and>
    cr_upstreams r = ups \<and> cr_scp_profiles r = []"
proof -
  let ?h = "sample_http us ls"
  let ?r = "compiled_router_default\<lparr>cr_upstreams := ups, cr_http_options := http_options_of ?h,
      cr_le_config := ht_ssl_provider ?h, cr_geoip := ht_geoip ?h\<rparr>"
  have "\<exists>r'. add_server plain_ext sample_url_lib (?r, 1) (sample_http_server ls) = Inr (r', n) \<and>
      router_locations r' = locs \<and> cr_upstreams r' = cr_upstreams ?r \<and> cr_scp_profiles r' = cr_scp_profiles ?r"
    by (rule sample_http_server_added) (use assms(2-4) in \<open>simp_all add: compiled_router_default_def\<close>)
  then obtain r' where r': "add_server plain_ext sample_url_lib (?r, 1) (sample_http_server ls) = Inr (r', n)"
      "router_locations r' = locs" "cr_upstreams r' = ups" "cr_scp_profiles r' = []"
    by (auto simp: compiled_router_default_def)
  have h: "ht_upstreams ?h = us" "ht_scp_profiles ?h = []" "ht_servers ?h = [sample_http_server ls]" "ht_h2c ?h = Off"
    by (simp_all add: sample_http_def)
  have "\<not> accepts_h2 ?h (sample_http_server ls)"
    by (simp add: accepts_h2_def h sample_http_server_def sample_listen_def)
  then have "from_http plain_ext sample_url_lib ?h = Inr r'"
    using assms(1) r'(1) by (simp add: from_http_def sample_http_valid Let_def h reject_def)
  with r'(2-4) show ?thesis by blast
qed

theorem compiled_route_ids_witness:
  "\<exists>r a. from_http plain_ext sample_url_lib
       (sample_http [] [sample_location ''/'' [LdDirectResponse 200], sample_location ''/x'' [LdDirectResponse 404]]) = Inr r \<and>
     set (filter (\<lambda>l. co_route_id l = 1) (router_locations r)) = {a}"
proof -
  let ?h = "sample_http [] [sample_location ''/'' [LdDirectResponse 200], sample_location ''/x'' [LdDirectResponse 404]]"
  have "\<exists>r. from_http plain_ext sample_url_lib ?h = Inr r \<and> router_locations r =
      [plain_location 1 (CmPrefix ''/'') (DirectResponse 200), plain_location 2 (CmPrefix ''/x'') (DirectResponse 404)] \<and>
      cr_upstreams r = [] \<and> cr_scp_profiles r = []"
    by (rule sample_http_router [where n = 3])
      (simp_all add: compile_upstreams_def sample_direct sample_prefix del: One_nat_def)
  then obtain r where r: "from_http plain_ext sample_url_lib ?h = Inr r" and rl: "router_locations r =
      [plain_location 1 (CmPrefix ''/'') (DirectResponse 200), plain_location 2 (CmPrefix ''/x'') (DirectResponse 404)]"
    by blast
  have "set (filter (\<lambda>l. co_route_id l = 1) (router_locations r)) = {plain_location 1 (CmPrefix ''/'') (DirectResponse 200)}"
    using compiled_route_ids [OF r, of "plain_location 1 (CmPrefix ''/'') (DirectResponse 200)"]
    by (auto simp: rl)
  with r show ?thesis by blast
qed

section \<open>Targets\<close>

text \<open>A router's locations come out of the compilation of locations against its own upstreams.\<close>

lemma compile_location_list_mem:
  assumes "compile_location_list x ul upstreams ls n = Inr (cs, n')" and "loc \<in> set cs"
  shows "\<exists>l \<in> set ls. \<exists>m m'. compile_location x ul upstreams l m = Inr (Some loc, m')"
  using assms
proof (induction ls arbitrary: n cs)
  case (Cons l ls)
  then obtain c n1 cs1 where c: "compile_location x ul upstreams l n = Inr (c, n1)"
    and rest: "compile_location_list x ul upstreams ls n1 = Inr (cs1, n')"
    and cs: "cs = (case c of None \<Rightarrow> cs1 | Some loc \<Rightarrow> loc # cs1)"
    by (auto simp: res_simps)
  show ?case
  proof (cases "loc \<in> set cs1")
    case True
    with Cons.IH [OF rest] show ?thesis by auto
  next
    case False
    with Cons.prems(2) cs have "c = Some loc" by (cases c) auto
    with c show ?thesis by auto
  qed
qed simp

definition from_compiled_locations where
  "from_compiled_locations x ul upstreams st \<longleftrightarrow>
     cr_upstreams (fst st) = upstreams \<and>
     (\<forall>loc \<in> set (router_locations (fst st)). \<exists>l m m'. compile_location x ul upstreams l m = Inr (Some loc, m'))"

lemma add_server_locations:
  assumes "add_server x ul st sv = Inr st'" and "from_compiled_locations x ul upstreams st"
  shows "from_compiled_locations x ul upstreams st'"
proof -
  obtain r n where st: "st = (r, n)" by (cases st)
  from assms(1) st obtain locs n' r' where locs: "compile_locations x ul (cr_upstreams r) (sv_locations sv) n = Inr (locs, n')"
    and r': "fold_res (add_listen sv \<lparr>sr_locations = locs\<rparr>) r (sv_listens sv) = Inr r'" and st': "st' = (r', n')"
    by (auto simp: add_server_def res_simps)
  have ups: "cr_upstreams r = upstreams" using assms(2) st by (simp add: from_compiled_locations_def)
  have "compile_location_list x ul upstreams (sv_locations sv) n = Inr (locs, n')"
    using locs ups by (auto simp: compile_locations_def Let_def res_simps)
  then have new: "\<forall>loc \<in> set locs. \<exists>l m m'. compile_location x ul upstreams l m = Inr (Some loc, m')"
    using compile_location_list_mem by blast
  have old: "\<forall>loc \<in> set (router_locations r). \<exists>l m m'. compile_location x ul upstreams l m = Inr (Some loc, m')"
    using assms(2) st by (simp add: from_compiled_locations_def)
  have "set (router_locations r') \<subseteq> set (router_locations r) \<union> set locs" "cr_upstreams r' = cr_upstreams r"
    using add_listens_frame [OF r'] by simp_all
  with old new ups show ?thesis unfolding from_compiled_locations_def st' fst_conv by blast
qed

lemma scp_fold_upstreams:
  "fold_res (add_scp_profile x) r0 ps = Inr r1 \<Longrightarrow> cr_upstreams r1 = cr_upstreams r0"
  by (rule fold_res_invariant [where I = "\<lambda>r. cr_upstreams r = cr_upstreams r0"])
    (auto simp: add_scp_profile_def res_simps)

lemma from_http_locations:
  assumes "from_http x ul h = Inr r"
  shows "compile_upstreams x ul (ht_upstreams h) = Inr (cr_upstreams r) \<and>
    (\<forall>loc \<in> set (router_locations r). \<exists>l m m'. compile_location x ul (cr_upstreams r) l m = Inr (Some loc, m'))"
proof -
  from assms obtain upstreams r0 r1 n where
    ups: "compile_upstreams x ul (ht_upstreams h) = Inr upstreams" and
    r0: "r0 = compiled_router_default\<lparr>cr_upstreams := upstreams, cr_http_options := http_options_of h,
       cr_le_config := ht_ssl_provider h, cr_geoip := ht_geoip h\<rparr>" and
    scp: "fold_res (add_scp_profile x) r0 (ht_scp_profiles h) = Inr r1" and
    sv: "fold_res (add_server x ul) (r1, 1) (ht_servers h) = Inr (r, n)"
    by (rule from_http_parts)
  have "cr_listeners r1 = []" "cr_upstreams r1 = upstreams"
    using scp_fold_listeners [OF scp] scp_fold_upstreams [OF scp] r0 by (simp_all add: compiled_router_default_def)
  then have "from_compiled_locations x ul upstreams (r1, 1)"
    by (simp add: from_compiled_locations_def router_locations_def)
  then have "from_compiled_locations x ul upstreams (r, n)"
    by (rule fold_res_invariant [OF sv]) (rule add_server_locations)
  with ups show ?thesis by (simp add: from_compiled_locations_def)
qed

text \<open>Groups are kept under their normalized name.\<close>

definition names_ok :: "(string, compiled_upstream_group) hmap \<Rightarrow> bool" where
  "names_ok upstreams \<longleftrightarrow> (\<forall>k g. hm_get upstreams k = Some g \<longrightarrow> normalize_upstream_name (cg_name g) = k)"

lemma compile_upstreams_names: "compile_upstreams x ul us = Inr upstreams \<Longrightarrow> names_ok upstreams"
  unfolding compile_upstreams_def
  by (erule fold_res_invariant)
    (auto simp: names_ok_def add_upstream_def compile_group_def Let_def res_simps split: if_splits)

text \<open>What the data plane can make of a target.\<close>

fun leaf_ok :: "(string, compiled_upstream_group) hmap \<Rightarrow> route_target \<Rightarrow> bool" where
  "leaf_ok upstreams (DirectResponse status) = True"
| "leaf_ok upstreams (ProxyPassTo host port tls sni) = True"
| "leaf_ok upstreams (UpstreamGroup name tls) = (hm_get upstreams (normalize_upstream_name name) \<noteq> None)"
| "leaf_ok upstreams _ = False"

fun target_ok :: "(string, compiled_upstream_group) hmap \<Rightarrow> route_target \<Rightarrow> bool" where
  "target_ok upstreams (WeightedBackends bs) = list_all (\<lambda>b. leaf_ok upstreams (cwb_target b)) bs"
| "target_ok upstreams (Scp profile) = True"
| "target_ok upstreams (Return status location) = True"
| "target_ok upstreams (HttpRedirect config) = True"
| "target_ok upstreams t = leaf_ok upstreams t"

lemma url_target_ok: "names_ok upstreams \<Longrightarrow> url_target ul upstreams u = Inr (Some t) \<Longrightarrow> leaf_ok upstreams t"
  by (auto simp: url_target_def upstream_group_from_url_def names_ok_def res_simps bind_eq_Some_conv
      split: option.splits if_splits)

lemma pass_target_ok: "names_ok upstreams \<Longrightarrow> pass_target ul upstreams p = Inr (Some t) \<Longrightarrow> leaf_ok upstreams t"
  by (auto simp: pass_target_def names_ok_def res_simps url_target_ok split: proxy_pass_target.splits)

lemma compile_weighted_backend_ok:
  "names_ok upstreams \<Longrightarrow> compile_weighted_backend ul upstreams b = Inr c \<Longrightarrow> leaf_ok upstreams (cwb_target c)"
  by (auto simp: compile_weighted_backend_def response_target_def res_simps pass_target_ok
      split: backend_target.splits)

lemma leaf_target_ok: "leaf_ok upstreams t \<Longrightarrow> target_ok upstreams t"
  by (cases t) simp_all

lemma route_target_from_directive_ok:
  assumes "names_ok upstreams" and "route_target_from_directive ul upstreams d = Inr (Some t)"
  shows "target_ok upstreams t"
proof (cases d)
  case (LdWeightedBackends backends)
  with assms(2) obtain bs where bs: "map_res (compile_weighted_backend ul upstreams) backends = Inr bs"
    and t: "t = WeightedBackends bs"
    by (auto simp: route_target_from_directive_def res_simps)
  from bs have "list_all2 (\<lambda>b c. compile_weighted_backend ul upstreams b = Inr c) backends bs"
    by (simp add: map_res_Inr_iff)
  then have "list_all (\<lambda>c. leaf_ok upstreams (cwb_target c)) bs"
    using compile_weighted_backend_ok [OF assms(1)] by (induction rule: list_all2_induct) auto
  with t show ?thesis by simp
qed (use assms in \<open>auto simp: route_target_from_directive_def response_target_def res_simps
    intro: leaf_target_ok pass_target_ok\<close>)

lemma location_route_target_ok:
  "names_ok upstreams \<Longrightarrow> location_route_target ul upstreams ds = Inr (Some t) \<Longrightarrow> target_ok upstreams t"
proof (induction ds)
  case (Cons d ds)
  then obtain o1 where o1: "route_target_from_directive ul upstreams d = Inr o1" by (auto simp: res_simps)
  with Cons show ?case by (cases o1) (auto dest: route_target_from_directive_ok)
qed simp

lemma compiled_location_parts:
  assumes "from_http x ul h = Inr r" and "loc \<in> set (router_locations r)"
  shows "target_ok (cr_upstreams r) (co_target loc)" "validate_target x (co_target loc) (co_matcher loc) = Inr ()"
proof -
  note parts = from_http_locations [OF assms(1)]
  from parts assms(2) obtain l m m' where l: "compile_location x ul (cr_upstreams r) l m = Inr (Some loc, m')"
    by blast
  obtain target where t: "location_route_target ul (cr_upstreams r) (lo_directives l) = Inr (Some target)"
    and c: "compile_targeted_location x l target m = Inr (loc, m')"
    using l by (rule compile_location_Some)
  have target: "co_target loc = target" "validate_target x target (co_matcher loc) = Inr ()"
    using compile_targeted_location_parts [OF c] by simp_all
  have "names_ok (cr_upstreams r)" using parts compile_upstreams_names by blast
  from location_route_target_ok [OF this t] target
  show "target_ok (cr_upstreams r) (co_target loc)" "validate_target x (co_target loc) (co_matcher loc) = Inr ()"
    by simp_all
qed

section \<open>Serving compiled routes\<close>

text \<open>What serving needs of a snapshot, kept by the selections it answers.\<close>

definition snapshot_serves :: "compiled_router \<Rightarrow> ('s, 'k, 'm, 'p) runtime_snapshot \<Rightarrow> bool" where
  "snapshot_serves r snap \<longleftrightarrow>
     (\<forall>loc \<in> set (router_locations r).
        (is_weighted loc \<longrightarrow> hm_get (ss_backend_counters snap) (co_route_id loc) \<noteq> None) \<and>
        (\<forall>k. ca_key loc = Some k \<longrightarrow> hm_get (ss_trusted_cas snap) k \<noteq> None) \<and>
        (\<forall>k. identity_key loc = Some k \<longrightarrow> hm_get (ss_client_identities snap) k \<noteq> None)) \<and>
     (\<forall>k. hm_get (cr_upstreams r) k \<noteq> None \<longrightarrow> hm_get (ss_upstream_groups snap) k \<noteq> None)"

lemma snapshot_ok_serves: "snapshot_ok snap \<Longrightarrow> snapshot_serves (ss_router snap) snap"
  unfolding snapshot_ok_def snapshot_serves_def map_of_eq_None_iff by (metis set_map)

lemma serves_counter:
  "snapshot_serves r snap \<Longrightarrow> snapshot_serves r (snap\<lparr>ss_backend_counters := hm_insert i c (ss_backend_counters snap)\<rparr>)"
  by (simp add: snapshot_serves_def)

lemma serves_group:
  "snapshot_serves r snap \<Longrightarrow> snapshot_serves r (snap\<lparr>ss_upstream_groups := hm_insert i g (ss_upstream_groups snap)\<rparr>)"
  by (simp add: snapshot_serves_def)

lemma upstream_selection_key_error: "upstream_selection_key k s ip = Inl e \<Longrightarrow> \<exists>m. e = HTTPStatus 503 m"
  by (auto simp: upstream_selection_key_def ok_or_def split: option.splits)

lemma select_group_ok:
  assumes "snapshot_serves r snap" and "hm_get (cr_upstreams r) (group_key name) \<noteq> None"
    and "select_group l ready snap name tls s ip = (res, snap')"
  shows "snapshot_serves r snap' \<and> (\<forall>e. res = Inl e \<longrightarrow> (\<exists>m. e = HTTPStatus 503 m))"
proof -
  from assms(1,2) obtain g where g: "upstream_group snap name = Some g"
    by (auto simp: snapshot_serves_def upstream_group_def)
  let ?key = "if uses_consistent_hash g then upstream_selection_key (rg_hash_key g) s ip else Inr []"
  show ?thesis
  proof (cases ?key)
    case (Inl e)
    with assms(1,3) g show ?thesis
      by (auto simp: select_group_def dest: upstream_selection_key_error split: if_splits)
  next
    case (Inr key)
    obtain chosen g' where "group_select l ready key g = (chosen, g')" by (cases "group_select l ready key g")
    with assms(1,3) g Inr show ?thesis
      by (auto simp: select_group_def intro: serves_group split: option.splits)
  qed
qed

lemma select_leaf_ok:
  assumes "snapshot_serves r snap" and "leaf_ok (cr_upstreams r) t"
    and "select_backend_target l ready snap i t s ip = (res, snap')"
  shows "snapshot_serves r snap' \<and> (\<forall>e. res = Inl e \<longrightarrow> (\<exists>m. e = HTTPStatus 503 m))"
proof (cases t)
  case (UpstreamGroup name tls)
  then have "hm_get (cr_upstreams r) (group_key name) \<noteq> None"
    using assms(2) by (simp add: group_key_def normalize_upstream_name_def)
  with assms(1,3) UpstreamGroup show ?thesis by (intro select_group_ok) simp_all
qed (use assms in auto)

lemma select_backend_ok:
  assumes serving: "snapshot_serves r snap" and loc: "loc \<in> set (router_locations r)"
    and ok: "target_ok (cr_upstreams r) (co_target loc)" and up: "is_upstream_target (co_target loc)"
    and sel: "select_backend_target l ready snap (co_route_id loc) (co_target loc) s ip = (res, snap')"
  shows "snapshot_serves r snap' \<and> (\<forall>e. res = Inl e \<longrightarrow> (\<exists>m. e = HTTPStatus 503 m))"
proof (cases "leaf_ok (cr_upstreams r) (co_target loc)")
  case True
  from select_leaf_ok [OF serving this sel] show ?thesis .
next
  case False
  with ok up obtain bs where WeightedBackends: "co_target loc = WeightedBackends bs"
    by (cases "co_target loc") (auto simp: is_upstream_target_def)
  let ?tot = "sum_list (map cwb_weight bs)"
  show ?thesis
  proof (cases "?tot = 0")
    case True
    with sel WeightedBackends serving show ?thesis by (auto simp: Let_def)
  next
    case False
    from serving loc WeightedBackends obtain c where
      c: "hm_get (ss_backend_counters snap) (co_route_id loc) = Some c"
      by (auto simp: snapshot_serves_def is_weighted_def)
    from False have "c mod ?tot < ?tot" by (metis mod_less_divisor not_gr_zero)
    then obtain b where b: "weighted_slot (c mod ?tot) bs = Some b" using weighted_slot_total by blast
    let ?snap = "snap\<lparr>ss_backend_counters :=
      hm_insert (co_route_id loc) (wrap_add64 c 1) (ss_backend_counters snap)\<rparr>"
    have "select_backend_target l ready ?snap (co_route_id loc) (cwb_target b) s ip = (res, snap')"
      using sel WeightedBackends c b False by (simp add: Let_def del: sum_list_eq_0_iff)
    moreover have "leaf_ok (cr_upstreams r) (cwb_target b)"
      using ok WeightedBackends weighted_slot_mem [OF b] by (simp add: list_all_iff)
    ultimately show ?thesis using select_leaf_ok serves_counter [OF serving] by blast
  qed
qed

text \<open>The selections of a sequence of requests, each with the location it resolved to.\<close>

fun serve_run ::
  "'s group_lib \<Rightarrow> (backend \<Rightarrow> bool) \<Rightarrow> ('s, 'k, 'm, 'p) runtime_snapshot \<Rightarrow>
   (compiled_location \<times> session \<times> ip_addr option) list \<Rightarrow>
   (proxy_error, selected_target) result list \<times> ('s, 'k, 'm, 'p) runtime_snapshot" where
  "serve_run l ready snap [] = ([], snap)"
| "serve_run l ready snap ((loc, s, ip) # reqs) =
     (case select_backend_target l ready snap (co_route_id loc) (co_target loc) s ip of
        (res, snap1) \<Rightarrow>
          (case serve_run l ready snap1 reqs of
             (rs, snap2) \<Rightarrow> (res # rs, snap2)))"

lemma serve_run_ok:
  assumes "from_http x ul h = Inr r"
    and "list_all (\<lambda>(loc, s, ip). loc \<in> set (router_locations r) \<and> is_upstream_target (co_target loc)) reqs"
    and "snapshot_serves r snap"
  shows "snapshot_serves r (snd (serve_run l ready snap reqs)) \<and>
    (\<forall>e. Inl e \<in> set (fst (serve_run l ready snap reqs)) \<longrightarrow> (\<exists>m. e = HTTPStatus 503 m))"
  using assms(2,3)
proof (induction reqs arbitrary: snap)
  case (Cons req reqs)
  obtain loc s ip where req: "req = (loc, s, ip)" by (cases req)
  obtain res snap1 where sel: "select_backend_target l ready snap (co_route_id loc) (co_target loc) s ip = (res, snap1)"
    by (cases "select_backend_target l ready snap (co_route_id loc) (co_target loc) s ip")
  have loc: "loc \<in> set (router_locations r)" "is_upstream_target (co_target loc)" using Cons.prems(1) req by simp_all
  have "snapshot_serves r snap1 \<and> (\<forall>e. res = Inl e \<longrightarrow> (\<exists>m. e = HTTPStatus 503 m))"
    by (rule select_backend_ok [OF Cons.prems(2) loc(1) compiled_location_parts(1) [OF assms(1) loc(1)] loc(2) sel])
  moreover from this Cons.prems(1) have "snapshot_serves r (snd (serve_run l ready snap1 reqs)) \<and>
      (\<forall>e. Inl e \<in> set (fst (serve_run l ready snap1 reqs)) \<longrightarrow> (\<exists>m. e = HTTPStatus 503 m))"
    by (intro Cons.IH) simp_all
  ultimately show ?case using req sel by (auto split: prod.splits)
qed simp

lemma compiled_return_expands:
  "validate_target x (Return status location) m = Inr () \<Longrightarrow> \<exists>text. expand_return location host u scheme = Inr text"
  by (auto simp: validate_target_def res_simps expand_return_iff)

lemma compiled_resolved_target:
  assumes "validate_target x (co_target loc) (co_matcher loc) = Inr ()"
    and "\<And>c. co_target loc \<noteq> HttpRedirect c"
  shows "\<exists>t. resolved_target x \<lparr>rl_location = loc, rl_host = host\<rparr> s = Inr t"
proof (cases "co_target loc")
  case (Return status location)
  then show ?thesis
    using assms(1) compiled_return_expands by (fastforce simp: resolved_target_def Let_def res_simps)
qed (use assms(2) in \<open>simp_all add: resolved_target_def Let_def\<close>)

lemma compiled_from_resolved:
  assumes "snapshot_serves r snap" and "loc \<in> set (router_locations r)"
    and "resolved_target x \<lparr>rl_location = loc, rl_host = host\<rparr> s = Inr t"
  shows "\<exists>route. from_resolved x snap \<lparr>rl_location = loc, rl_host = host\<rparr> s = Inr route \<and>
    se_route_id route = co_route_id loc \<and> se_target route = t"
proof -
  have "\<forall>k. ca_key loc = Some k \<longrightarrow> trusted_ca snap k \<noteq> None"
    "\<forall>c k. identity_key loc = Some (c, k) \<longrightarrow> client_identity snap c k \<noteq> None"
    using assms(1,2) by (simp_all add: snapshot_serves_def trusted_ca_def client_identity_def)
  with assms(3) show ?thesis
    by (auto simp: from_resolved_def Let_def ca_key_def identity_key_def ok_or_def split: option.splits)
qed

text \<open>
  C8. A compiled configuration never fails for want of a part at run time. In a snapshot built for
  a compiled router, and after any sequence of requests served from it, choosing a backend fails
  only with status 503, and every route but a redirect to a computed location resolves; the plugin
  chain of a route is its own.
\<close>

theorem compiled_routes_usable:
  assumes "from_http x ul h = Inr r"
    and "build_runtime_snapshot l now (with_builtin_plugins pl t) version r gen previous = Inr snap"
    and "list_all (\<lambda>(loc, s, ip). loc \<in> set (router_locations r) \<and> is_upstream_target (co_target loc)) reqs"
    and "serve_run gl ready snap reqs = (results, snap')"
  shows "(\<forall>e. Inl e \<in> set results \<longrightarrow> (\<exists>m. e = HTTPStatus 503 m)) \<and>
    (\<forall>loc \<in> set (router_locations r).
       map_option (map plugin_name) (hm_get (ss_plugin_chains snap) (co_route_id loc)) =
         Some (map ps_name (co_plugins loc)) \<and>
       ((\<forall>c. co_target loc \<noteq> HttpRedirect c) \<longrightarrow>
          (\<forall>host s. \<exists>route. from_resolved x snap' \<lparr>rl_location = loc, rl_host = host\<rparr> s = Inr route \<and>
             se_route_id route = co_route_id loc)))"
proof -
  have ok: "snapshot_ok snap" "ss_router snap = r" using build_runtime_snapshot_ok [OF assms(2)] by simp_all
  then have "snapshot_serves r snap" using snapshot_ok_serves by blast
  from serve_run_ok [OF assms(1,3) this, of gl ready] assms(4)
  have run: "snapshot_serves r snap'" "\<forall>e. Inl e \<in> set results \<longrightarrow> (\<exists>m. e = HTTPStatus 503 m)" by auto
  have "map_option (map plugin_name) (hm_get (ss_plugin_chains snap) (co_route_id loc)) = Some (map ps_name (co_plugins loc))"
    if loc: "loc \<in> set (router_locations r)" for loc
  proof -
    from ok loc obtain loc' where loc': "loc' \<in> set (router_locations r)" "co_route_id loc' = co_route_id loc"
      "map_option (map plugin_name) (hm_get (ss_plugin_chains snap) (co_route_id loc)) = Some (map ps_name (co_plugins loc'))"
      unfolding snapshot_ok_def by blast
    with from_http_ids [OF assms(1) loc loc'(1)] show ?thesis by simp
  qed
  moreover have "\<exists>route. from_resolved x snap' \<lparr>rl_location = loc, rl_host = host\<rparr> s = Inr route \<and>
      se_route_id route = co_route_id loc"
    if "loc \<in> set (router_locations r)" "\<forall>c. co_target loc \<noteq> HttpRedirect c" for loc host s
    using compiled_resolved_target [OF compiled_location_parts(2) [OF assms(1) that(1)]] that(2)
      compiled_from_resolved [OF run(1) that(1)] by blast
  ultimately show ?thesis using run(2) by blast
qed

definition weighted_location :: location where
  "weighted_location = sample_location ''/'' [LdWeightedBackends
     [\<lparr>wb_weight = 1, wb_target = BtResponse 200\<rparr>, \<lparr>wb_weight = 2, wb_target = BtResponse 404\<rparr>]]"

definition weighted_compiled :: compiled_location where
  "weighted_compiled = plain_location 1 (CmPrefix ''/'') (WeightedBackends
     [CompiledWeightedBackend 1 (DirectResponse 200), CompiledWeightedBackend 2 (DirectResponse 404)])"

lemma weighted_router:
  "\<exists>r. from_http plain_ext sample_url_lib (sample_http [] [weighted_location]) = Inr r \<and>
     router_locations r = [weighted_compiled] \<and> cr_upstreams r = [] \<and> cr_scp_profiles r = []"
  by (rule sample_http_router [where n = 2])
    (simp_all add: compile_upstreams_def weighted_location_def weighted_compiled_def sample_weighted sample_prefix
      del: One_nat_def)

lemma weighted_build:
  assumes "router_locations r = [weighted_compiled]" "cr_upstreams r = []" "cr_scp_profiles r = []"
  shows "\<exists>snap. build_runtime_snapshot sample_control_lib 0 (with_builtin_plugins sample_libs 0) ''v'' r 1 None = Inr snap"
proof -
  have "co_plugins weighted_compiled = []" "ca_key weighted_compiled = None" "identity_key weighted_compiled = None"
    by (simp_all add: weighted_compiled_def ca_key_def identity_key_def plain_location_def upstream_ssl_default_def)
  with assms show ?thesis
    by (simp add: build_runtime_snapshot_def build_plugin_chains_flat build_runtime_trusted_cas_flat
        build_runtime_client_identities_flat load_once_def add_chain_def build_chain_def
        build_runtime_upstream_groups_def build_scp_profiles_def sample_control_lib_def map_err_def)
qed

theorem compiled_routes_usable_witness:
  "\<exists>r snap results snap'. from_http plain_ext sample_url_lib (sample_http [] [weighted_location]) = Inr r \<and>
     build_runtime_snapshot sample_control_lib 0 (with_builtin_plugins sample_libs 0) ''v'' r 1 None = Inr snap \<and>
     serve_run sample_group_lib (\<lambda>_. True) snap [(weighted_compiled, (sample_session ''a.b'' ''/''), None)] = (results, snap') \<and>
     filter (\<lambda>e. case e of Inl (HTTPStatus _ _) \<Rightarrow> False | Inl _ \<Rightarrow> True | Inr _ \<Rightarrow> False) results = [] \<and>
     (\<exists>route. from_resolved plain_ext snap' \<lparr>rl_location = weighted_compiled, rl_host = None\<rparr> (sample_session ''a.b'' ''/'') = Inr route)"
proof -
  obtain r where r: "from_http plain_ext sample_url_lib (sample_http [] [weighted_location]) = Inr r"
    and locs: "router_locations r = [weighted_compiled]" "cr_upstreams r = []" "cr_scp_profiles r = []"
    using weighted_router by blast
  obtain snap where snap: "build_runtime_snapshot sample_control_lib 0 (with_builtin_plugins sample_libs 0) ''v'' r 1 None = Inr snap"
    using weighted_build [OF locs] by blast
  let ?reqs = "[(weighted_compiled, (sample_session ''a.b'' ''/''), None :: ip_addr option)]"
  obtain results snap' where run: "serve_run sample_group_lib (\<lambda>_. True) snap ?reqs = (results, snap')"
    by (cases "serve_run sample_group_lib (\<lambda>_. True) snap ?reqs")
  have target: "is_upstream_target (co_target weighted_compiled)" "\<forall>c. co_target weighted_compiled \<noteq> HttpRedirect c"
    by (simp_all add: weighted_compiled_def is_upstream_target_def)
  have reqs: "list_all (\<lambda>(loc, s, ip). loc \<in> set (router_locations r) \<and> is_upstream_target (co_target loc)) ?reqs"
    using locs target by simp
  note usable = compiled_routes_usable [OF r snap reqs run]
  have "filter (\<lambda>e. case e of Inl (HTTPStatus _ _) \<Rightarrow> False | Inl _ \<Rightarrow> True | Inr _ \<Rightarrow> False) results = []"
    using usable by (fastforce simp: filter_empty_conv split: sum.splits)
  moreover have "\<exists>route. from_resolved plain_ext snap' \<lparr>rl_location = weighted_compiled, rl_host = None\<rparr> (sample_session ''a.b'' ''/'') = Inr route"
    using usable target(2) locs(1) by (metis list.set_intros(1))
  ultimately show ?thesis using r snap run by blast
qed

end
