(* ===== verification/Compile_Listeners.thy ===== *)
theory Compile_Listeners
  imports Compile_Safety
begin

text \<open>
  What compilation makes of the listeners that several server blocks share
  (\<^verbatim>\<open>crates/ngxora-runtime/src/upstreams/compile.rs\<close>).
\<close>

section \<open>Settings of a listener\<close>

text \<open>What later servers keep of the listeners that are already there.\<close>

definition keeps_listeners :: "compiled_router \<Rightarrow> compiled_router \<Rightarrow> bool" where
  "keeps_listeners r r' \<longleftrightarrow>
     (\<forall>k p. hm_get (cr_listener_protocols r) k = Some p \<longrightarrow> hm_get (cr_listener_protocols r') k = Some p) \<and>
     (\<forall>k t. hm_get (cr_listener_tls r) k = Some t \<longrightarrow>
        (\<exists>t'. hm_get (cr_listener_tls r') k = Some t' \<and> ltc_settings t' = ltc_settings t)) \<and>
     (\<forall>k v. hm_get (cr_listeners r) k = Some v \<longrightarrow>
        (\<exists>v'. hm_get (cr_listeners r') k = Some v' \<and> dom (hm_get (vh_named v)) \<subseteq> dom (hm_get (vh_named v'))))"

lemma keeps_listenersI:
  assumes "\<And>k p. hm_get (cr_listener_protocols r) k = Some p \<Longrightarrow> hm_get (cr_listener_protocols r') k = Some p"
    and "\<And>k t. hm_get (cr_listener_tls r) k = Some t \<Longrightarrow>
      \<exists>t'. hm_get (cr_listener_tls r') k = Some t' \<and> ltc_settings t' = ltc_settings t"
    and "\<And>k v. hm_get (cr_listeners r) k = Some v \<Longrightarrow>
      \<exists>v'. hm_get (cr_listeners r') k = Some v' \<and> dom (hm_get (vh_named v)) \<subseteq> dom (hm_get (vh_named v'))"
  shows "keeps_listeners r r'"
  using assms by (simp add: keeps_listeners_def)

lemma keeps_listenersD:
  assumes "keeps_listeners r r'"
  shows "hm_get (cr_listener_protocols r) k = Some p \<Longrightarrow> hm_get (cr_listener_protocols r') k = Some p"
    and "hm_get (cr_listener_tls r) k = Some t \<Longrightarrow>
      \<exists>t'. hm_get (cr_listener_tls r') k = Some t' \<and> ltc_settings t' = ltc_settings t"
    and "hm_get (cr_listeners r) k = Some v \<Longrightarrow>
      \<exists>v'. hm_get (cr_listeners r') k = Some v' \<and> dom (hm_get (vh_named v)) \<subseteq> dom (hm_get (vh_named v'))"
  using assms by (simp_all add: keeps_listeners_def)

lemma keeps_listeners_refl: "keeps_listeners r r"
  by (simp add: keeps_listeners_def)

lemma keeps_listeners_trans:
  assumes "keeps_listeners r r1" and "keeps_listeners r1 r2"
  shows "keeps_listeners r r2"
proof (rule keeps_listenersI)
  fix k t assume "hm_get (cr_listener_tls r) k = Some t"
  with keeps_listenersD(2) [OF assms(1)] keeps_listenersD(2) [OF assms(2)]
  show "\<exists>t'. hm_get (cr_listener_tls r2) k = Some t' \<and> ltc_settings t' = ltc_settings t" by metis
next
  fix k v assume "hm_get (cr_listeners r) k = Some v"
  with keeps_listenersD(3) [OF assms(1)] keeps_listenersD(3) [OF assms(2)]
  show "\<exists>v'. hm_get (cr_listeners r2) k = Some v' \<and> dom (hm_get (vh_named v)) \<subseteq> dom (hm_get (vh_named v'))"
    by (meson subset_trans)
qed (use keeps_listenersD(1) assms in blast)

lemma insert_names_get:
  "hm_get (insert_names names v m) n = (if n \<in> normalize_hostname ` set names then Some v else hm_get m n)"
  unfolding insert_names_def by (induction names arbitrary: m) auto

lemma add_listener_tls_settings [simp]: "ltc_settings (add_listener_tls le sv l t) = ltc_settings t"
  by (simp add: add_listener_tls_def Let_def split: option.split)

lemma add_listener_routes_names:
  "hm_get (vh_named (add_listener_routes sv routes l v)) n =
     (if n \<in> normalize_hostname ` set (sv_server_names sv) then Some routes else hm_get (vh_named v) n)"
  by (simp add: add_listener_routes_def Let_def insert_names_get)

lemma merge_listener_protocols_parts:
  assumes "merge_listener_protocols k l r = Inr r1"
  shows "keeps_listeners r r1" "cr_listeners r1 = cr_listeners r" "cr_listener_tls r1 = cr_listener_tls r"
    "hm_get (cr_listener_protocols r1) k = Some \<lparr>lp_http2 = li_http2 l, lp_http2_only = li_http2_only l\<rparr>"
  using assms
  by (auto simp: merge_listener_protocols_def keeps_listeners_def Let_def res_simps split: option.splits)

lemma merge_listener_tls_parts:
  assumes "merge_listener_tls_settings k opts r = Inr r1"
  shows "keeps_listeners r r1" "cr_listeners r1 = cr_listeners r" "cr_listener_protocols r1 = cr_listener_protocols r"
    "\<exists>t. hm_get (cr_listener_tls r1) k = Some t \<and> ltc_settings t = tls_settings_of opts"
  using assms
  by (auto simp: merge_listener_tls_settings_def keeps_listeners_def Let_def res_simps split: option.splits)

text \<open>A listener as a server's directive asks for it.\<close>

definition listens_as :: "server \<Rightarrow> listen \<Rightarrow> compiled_router \<Rightarrow> bool" where
  "listens_as sv l r \<longleftrightarrow>
     hm_get (cr_listener_protocols r) (listen_key_of l) = Some \<lparr>lp_http2 = li_http2 l, lp_http2_only = li_http2_only l\<rparr> \<and>
     (li_ssl l \<longrightarrow> (\<exists>t. hm_get (cr_listener_tls r) (listen_key_of l) = Some t \<and>
        ltc_settings t = tls_settings_of (sv_tls_options sv))) \<and>
     (\<exists>v. hm_get (cr_listeners r) (listen_key_of l) = Some v \<and>
        normalize_hostname ` set (sv_server_names sv) \<subseteq> dom (hm_get (vh_named v)))"

lemma listens_as_kept: 
  assumes "listens_as sv l r" and "keeps_listeners r r'"
  shows "listens_as sv l r'"
proof -
  from assms(1) obtain v where v: "hm_get (cr_listeners r) (listen_key_of l) = Some v"
      "normalize_hostname ` set (sv_server_names sv) \<subseteq> dom (hm_get (vh_named v))"
    and p: "hm_get (cr_listener_protocols r) (listen_key_of l) = Some \<lparr>lp_http2 = li_http2 l, lp_http2_only = li_http2_only l\<rparr>"
    and t: "li_ssl l \<Longrightarrow> \<exists>t. hm_get (cr_listener_tls r) (listen_key_of l) = Some t \<and>
        ltc_settings t = tls_settings_of (sv_tls_options sv)"
    unfolding listens_as_def by blast
  have "\<exists>v'. hm_get (cr_listeners r') (listen_key_of l) = Some v' \<and>
      normalize_hostname ` set (sv_server_names sv) \<subseteq> dom (hm_get (vh_named v'))"
    using keeps_listenersD(3) [OF assms(2) v(1)] v(2) by (meson subset_trans)
  moreover have "\<exists>t. hm_get (cr_listener_tls r') (listen_key_of l) = Some t \<and>
        ltc_settings t = tls_settings_of (sv_tls_options sv)" if "li_ssl l"
    using t [OF that] keeps_listenersD(2) [OF assms(2)] by metis
  ultimately show ?thesis
    using keeps_listenersD(1) [OF assms(2) p] unfolding listens_as_def by blast
qed

lemma routes_step_parts:
  fixes r1 sv routes l
  defines "k \<equiv> listen_key_of l"
  defines "v \<equiv> (case hm_get (cr_listeners r1) k of None \<Rightarrow> vhost_default | Some v \<Rightarrow> v)"
  defines "r2 \<equiv> r1\<lparr>cr_listeners := hm_insert k (add_listener_routes sv routes l v) (cr_listeners r1)\<rparr>"
  shows "keeps_listeners r1 r2"
    and "\<exists>v'. hm_get (cr_listeners r2) k = Some v' \<and>
      normalize_hostname ` set (sv_server_names sv) \<subseteq> dom (hm_get (vh_named v'))"
proof -
  show "keeps_listeners r1 r2"
    by (rule keeps_listenersI) (auto simp: r2_def v_def add_listener_routes_names split: if_splits)
  have "normalize_hostname ` set (sv_server_names sv) \<subseteq> dom (hm_get (vh_named (add_listener_routes sv routes l v)))"
    by (auto simp: add_listener_routes_names)
  then show "\<exists>v'. hm_get (cr_listeners r2) k = Some v' \<and>
      normalize_hostname ` set (sv_server_names sv) \<subseteq> dom (hm_get (vh_named v'))"
    by (auto simp: r2_def)
qed

lemma tls_step_keeps:
  assumes "\<exists>t. hm_get (cr_listener_tls r) k = Some t \<and> ltc_settings t = s"
  shows "keeps_listeners r (r\<lparr>cr_listener_tls := hm_insert k (add_listener_tls le sv l
      (case hm_get (cr_listener_tls r) k of Some t \<Rightarrow> t | None \<Rightarrow> t0)) (cr_listener_tls r)\<rparr>)"
  using assms by (intro keeps_listenersI) auto

lemma add_listen_parts:
  assumes "add_listen sv routes r l = Inr r'"
  shows "keeps_listeners r r' \<and> listens_as sv l r'"
proof -
  let ?k = "listen_key_of l"
  from assms obtain r1 where r1: "merge_listener_protocols ?k l r = Inr r1" by (auto simp: add_listen_def Let_def res_simps)
  note m = merge_listener_protocols_parts [OF r1]
  define v where "v = (case hm_get (cr_listeners r1) ?k of None \<Rightarrow> vhost_default | Some v \<Rightarrow> v)"
  define r2 where "r2 = r1\<lparr>cr_listeners := hm_insert ?k (add_listener_routes sv routes l v) (cr_listeners r1)\<rparr>"
  note r2 = routes_step_parts [where ?r1.0 = r1 and sv = sv and routes = routes and l = l, folded v_def, folded r2_def]
  have keep2: "keeps_listeners r r2" using m(1) r2(1) by (rule keeps_listeners_trans)
  have prot: "hm_get (cr_listener_protocols r2) ?k = Some \<lparr>lp_http2 = li_http2 l, lp_http2_only = li_http2_only l\<rparr>"
    using m(4) by (simp add: r2_def)
  show ?thesis
  proof (cases "li_ssl l")
    case False
    then have "r' = r2" using assms r1 by (simp add: add_listen_def Let_def v_def r2_def)
    with False keep2 prot r2(2) show ?thesis by (simp add: listens_as_def)
  next
    case True
    let ?t0 = "\<lparr>ltc_named = [], ltc_default = None, ltc_settings = tls_settings_of (sv_tls_options sv)\<rparr>"
    from True assms r1 obtain r3 where r3: "merge_listener_tls_settings ?k (sv_tls_options sv) r2 = Inr r3"
      and r': "r' = r3\<lparr>cr_listener_tls := hm_insert ?k (add_listener_tls (cr_le_config r3) sv l
        (case hm_get (cr_listener_tls r3) ?k of Some t \<Rightarrow> t | None \<Rightarrow> ?t0)) (cr_listener_tls r3)\<rparr>"
      by (auto simp: add_listen_def Let_def v_def r2_def res_simps)
    note tls = merge_listener_tls_parts [OF r3]
    have keep: "keeps_listeners r r'"
      using keep2 tls(1) tls_step_keeps [OF tls(4)] unfolding r' by (meson keeps_listeners_trans)
    moreover have "listens_as sv l r'"
      using prot r2(2) tls(2-4) by (auto simp: listens_as_def r')
    ultimately show ?thesis by blast
  qed
qed

lemma fold_res_step:
  assumes "fold_res f s xs = Inr t" and "x \<in> set xs"
    and "\<And>s y s'. f s y = Inr s' \<Longrightarrow> R s s'" and "\<And>s. R s s" and "\<And>a b c. R a b \<Longrightarrow> R b c \<Longrightarrow> R a c"
  shows "\<exists>s1 s2. f s1 x = Inr s2 \<and> R s2 t"
  using assms(1,2)
proof (induction xs arbitrary: s)
  case (Cons y ys)
  then obtain s' where y: "f s y = Inr s'" and rest: "fold_res f s' ys = Inr t" by (auto simp: res_simps)
  have "R s' t" by (rule fold_res_invariant [OF rest, where I = "R s'"]) (use assms(3-5) in blast)+
  with y Cons.IH [OF rest] Cons.prems(2) show ?case by auto
qed simp

lemma add_listens_keep: "fold_res (add_listen sv routes) r ls = Inr r' \<Longrightarrow> keeps_listeners r r'"
  by (rule fold_res_invariant [where I = "keeps_listeners r"])
    (auto dest: add_listen_parts intro: keeps_listeners_refl keeps_listeners_trans)

lemma add_server_listens:
  assumes "add_server x ul st sv = Inr st'"
  shows "keeps_listeners (fst st) (fst st') \<and> (\<forall>l \<in> set (sv_listens sv). listens_as sv l (fst st'))"
proof -
  from assms obtain routes where run: "fold_res (add_listen sv routes) (fst st) (sv_listens sv) = Inr (fst st')"
    by (auto simp: add_server_def res_simps split: prod.splits)
  have "listens_as sv l (fst st')" if l: "l \<in> set (sv_listens sv)" for l
  proof -
    have "\<exists>s1 s2. add_listen sv routes s1 l = Inr s2 \<and> keeps_listeners s2 (fst st')"
      using run l
      by (rule fold_res_step) (auto dest: add_listen_parts intro: keeps_listeners_refl keeps_listeners_trans)
    then show ?thesis using add_listen_parts listens_as_kept by blast
  qed
  with add_listens_keep [OF run] show ?thesis by blast
qed

section \<open>Claims\<close>

text \<open>
  C9. Server blocks that share a listener agree on it. In a compiled router every listener of every
  server block has the protocol settings that block asks for, a TLS listener has its protocol
  versions and its client verification, and each of the block's names is routed on it: no server
  block weakens what another one demands, conflicting blocks are refused instead.
\<close>

theorem compiled_listener_settings:
  assumes "from_http x ul h = Inr r" and "sv \<in> set (ht_servers h)" and "l \<in> set (sv_listens sv)"
  shows "hm_get (cr_listener_protocols r) (listen_key_of l) =
      Some \<lparr>lp_http2 = li_http2 l, lp_http2_only = li_http2_only l\<rparr> \<and>
    (li_ssl l \<longrightarrow> (\<exists>t. hm_get (cr_listener_tls r) (listen_key_of l) = Some t \<and>
       ltc_settings t = tls_settings_of (sv_tls_options sv))) \<and>
    (\<exists>v. hm_get (cr_listeners r) (listen_key_of l) = Some v \<and>
       normalize_hostname ` set (sv_server_names sv) \<subseteq> dom (hm_get (vh_named v)))"
proof -
  from assms(1) obtain r1 n where run: "fold_res (add_server x ul) (r1, 1) (ht_servers h) = Inr (r, n)"
    by (rule from_http_parts)
  have "\<exists>s1 s2. add_server x ul s1 sv = Inr s2 \<and> keeps_listeners (fst s2) (fst (r, n))"
    using run assms(2)
    by (rule fold_res_step [where R = "\<lambda>a b. keeps_listeners (fst a) (fst b)"])
      (auto dest: add_server_listens intro: keeps_listeners_refl keeps_listeners_trans)
  then have "listens_as sv l r" using assms(3) add_server_listens listens_as_kept by fastforce
  then show ?thesis unfolding listens_as_def .
qed

theorem compiled_listener_settings_witness:
  "\<exists>r. from_http plain_ext sample_url_lib (sample_http [] [weighted_location]) = Inr r \<and>
     hm_get (cr_listener_protocols r) (listen_key_of sample_listen) = Some \<lparr>lp_http2 = False, lp_http2_only = False\<rparr> \<and>
     (\<exists>v. hm_get (cr_listeners r) (listen_key_of sample_listen) = Some v \<and> hm_get (vh_named v) ''a.b'' \<noteq> None)"
proof -
  obtain r where r: "from_http plain_ext sample_url_lib (sample_http [] [weighted_location]) = Inr r"
    using weighted_router by blast
  have mem: "sample_http_server [weighted_location] \<in> set (ht_servers (sample_http [] [weighted_location]))"
    "sample_listen \<in> set (sv_listens (sample_http_server [weighted_location]))"
    by (simp_all add: sample_http_def sample_http_server_def)
  have "normalize_hostname ''a.b'' = ''a.b''" by code_simp
  with compiled_listener_settings [OF r mem] r show ?thesis
    by (auto simp: sample_listen_def sample_http_server_def)
qed

end
