(* ===== verification/Lower_Values.thy ===== *)
theory Lower_Values
  imports Client_Ip Config_Syntax
begin

text \<open>
  Scalar values of directives (\<^verbatim>\<open>crates/ngxora-compile/src/transform/values.rs\<close>): switches, counts,
  durations and sizes with their units, and the socket addresses of the standard library that
  \<^verbatim>\<open>listen\<close> takes. A slice of a string that does not end at a character boundary panics, which is a
  value of its own.
\<close>

datatype lower_error = LowerErr string | LowerPanic

text \<open>
  The text \<^verbatim>\<open>{:?}\<close> makes of a string, with its quotes and the escapes of ASCII; other bytes are
  kept.
\<close>

definition debug_byte :: "char \<Rightarrow> string" where
  "debug_byte c =
     (if c = CHR ''\"'' then [CHR 0x5C, CHR ''\"'']
      else if c = CHR 0x5C then [CHR 0x5C, CHR 0x5C]
      else if byte c = 0 then [CHR 0x5C, CHR ''0'']
      else if byte c = 9 then [CHR 0x5C, CHR ''t'']
      else if byte c = 10 then [CHR 0x5C, CHR ''n'']
      else if byte c = 13 then [CHR 0x5C, CHR ''r'']
      else if byte c < 32 \<or> byte c = 127 then [CHR 0x5C] @ ''u{'' @ show_hex (byte c) @ ''}''
      else [c])"

definition debug_str :: "string \<Rightarrow> string" where
  "debug_str s = [CHR ''\"''] @ concat (map debug_byte s) @ [CHR ''\"'']"

definition debug_strs :: "string list \<Rightarrow> string" where
  "debug_strs ss = ''['' @ join_with '', '' (map debug_str ss) @ '']''"

definition quoted :: "string \<Rightarrow> string" where
  "quoted s = ''`'' @ s @ ''`''"

section \<open>Arguments\<close>

definition parse_exactly_one_argument :: "string list \<Rightarrow> string \<Rightarrow> (lower_error, string) result" where
  "parse_exactly_one_argument args directive =
     (case args of
        [v] \<Rightarrow> Inr v
      | [] \<Rightarrow> Inl (LowerErr (directive @ '': expected 1 argument''))
      | _ \<Rightarrow> Inl (LowerErr (directive @ '': expected exactly 1 argument'')))"

definition parse_positive_usize :: "string list \<Rightarrow> string \<Rightarrow> (lower_error, nat) result" where
  "parse_positive_usize args directive =
     and_then (parse_exactly_one_argument args directive) (\<lambda>v.
     and_then (ok_or (LowerErr (directive @ '': invalid integer '' @ quoted v)) (parse_unsigned u64_max v)) (\<lambda>parsed.
     and_then (reject (parsed = 0) (LowerErr (directive @ '': value must be greater than zero''))) (\<lambda>_.
     Inr parsed)))"

definition ensure_non_zero_duration :: "duration \<Rightarrow> string \<Rightarrow> (lower_error, unit) result" where
  "ensure_non_zero_duration d directive =
     reject (d = 0) (LowerErr (directive @ '': value must be greater than zero''))"

definition lower_once :: "'a option \<Rightarrow> 'a \<Rightarrow> string \<Rightarrow> (lower_error, 'a option) result" where
  "lower_once slot v directive =
     and_then (reject (slot \<noteq> None) (LowerErr (directive @ '': duplicated directive''))) (\<lambda>_. Inr (Some v))"

definition parse_basic_auth_single_value :: "string list \<Rightarrow> string \<Rightarrow> string \<Rightarrow> (lower_error, string) result" where
  "parse_basic_auth_single_value args directive expected =
     (case args of [v] \<Rightarrow> Inr v | _ \<Rightarrow> Inl (LowerErr (directive @ '': '' @ expected)))"

definition parse_basic_auth_joined_value :: "string list \<Rightarrow> string \<Rightarrow> string \<Rightarrow> (lower_error, string) result" where
  "parse_basic_auth_joined_value args directive expected =
     (case args of [] \<Rightarrow> Inl (LowerErr (directive @ '': '' @ expected)) | _ \<Rightarrow> Inr (join_with '' '' args))"

definition get_directive_switch :: "string \<Rightarrow> string list \<Rightarrow> (lower_error, switch) result" where
  "get_directive_switch name args =
     (case args of
        [v] \<Rightarrow>
          if v = ''on'' then Inr On
          else if v = ''off'' then Inr Off
          else Inl (LowerErr (name @ '': expected on|off''))
      | [] \<Rightarrow> Inl (LowerErr (name @ '': expected on|off''))
      | _ \<Rightarrow> Inl (LowerErr (name @ '': expected exactly one argument on|off'')))"

section \<open>Durations\<close>

abbreviation u128_max :: nat where "u128_max \<equiv> 340282366920938463463374607431768211455"

definition unit_multiplier_millis :: "string \<Rightarrow> nat option" where
  "unit_multiplier_millis u =
     (if u = ''ms'' then Some 1
      else if u = ''s'' then Some 1000
      else if u = ''m'' then Some 60000
      else if u = ''h'' then Some 3600000
      else if u = ''d'' then Some 86400000
      else if u = ''w'' then Some 604800000
      else if u = ''M'' then Some 2592000000
      else if u = ''y'' then Some 31536000000
      else None)"

text \<open>\<^verbatim>\<open>str::is_char_boundary\<close> before the rest of a string.\<close>

definition at_boundary :: "string \<Rightarrow> bool" where
  "at_boundary rest = (case rest of [] \<Rightarrow> True | c # _ \<Rightarrow> byte c < 128 \<or> 192 \<le> byte c)"

definition duration_unit :: "string \<Rightarrow> string \<Rightarrow> bool \<Rightarrow> string \<Rightarrow> (lower_error, string \<times> string) result" where
  "duration_unit raw directive saw_segment rest =
     (case rest of
        [] \<Rightarrow>
          if saw_segment then Inl (LowerErr (directive @ '': missing unit in '' @ quoted raw))
          else Inr (''s'', [])
      | c # r \<Rightarrow>
          (case strip_prefix ''ms'' rest of
             Some r' \<Rightarrow> Inr (''ms'', r')
           | None \<Rightarrow> if at_boundary r then Inr ([c], r) else Inl LowerPanic))"

text \<open>The loop, on what is left of the text from the current index.\<close>

lemma and_then_cong [fundef_cong]:
  "x = y \<Longrightarrow> (\<And>a. y = Inr a \<Longrightarrow> f a = g a) \<Longrightarrow> and_then x f = and_then y g"
  by (cases y) auto

lemma duration_unit_shorter:
  assumes "duration_unit raw directive saw rest = Inr (u, rest')"
  shows "length rest' \<le> length rest"
proof (cases rest)
  case (Cons c r)
  with assms show ?thesis
    by (auto simp: duration_unit_def strip_prefix_Some_iff split: option.splits if_splits)
qed (use assms in \<open>auto simp: duration_unit_def split: if_splits\<close>)

function duration_loop :: "string \<Rightarrow> string \<Rightarrow> nat \<Rightarrow> bool \<Rightarrow> string \<Rightarrow> (lower_error, nat) result" where
  "duration_loop raw directive total_millis saw_segment rest =
     (if rest = [] then Inr total_millis
      else
        let digits = takeWhile is_ascii_digit rest
        in
        and_then (reject (digits = []) (LowerErr (directive @ '': invalid time value '' @ quoted raw))) (\<lambda>_.
        and_then (ok_or (LowerErr (directive @ '': invalid time value '' @ quoted raw))
          (parse_unsigned u128_max digits)) (\<lambda>v.
        and_then (duration_unit raw directive saw_segment (dropWhile is_ascii_digit rest)) (\<lambda>(u, rest').
        and_then (ok_or (LowerErr (directive @ '': unsupported time unit '' @ quoted u @ '' in '' @ quoted raw))
          (unit_multiplier_millis u)) (\<lambda>multiplier.
        and_then (ok_or (LowerErr (directive @ '': time value '' @ quoted raw @ '' is too large''))
          (checked_mul u128_max v multiplier)) (\<lambda>segment.
        and_then (ok_or (LowerErr (directive @ '': time value '' @ quoted raw @ '' is too large''))
          (checked_add u128_max total_millis segment)) (\<lambda>total'.
        duration_loop raw directive total' True rest')))))))"
  by pat_completeness auto
termination
proof (relation "measure (\<lambda>(raw, directive, total, saw, rest). length rest)", goal_cases)
  case (2 raw directive total saw rest digits u v p un rest' multiplier segment total')
  have "length (dropWhile is_ascii_digit rest) < length rest"
    using 2(1-3) by (cases rest) (auto simp: reject_def length_dropWhile_le le_imp_less_Suc split: if_splits)
  moreover have "length rest' \<le> length (dropWhile is_ascii_digit rest)"
    using 2(5,6) duration_unit_shorter by auto
  ultimately show ?case by simp
qed simp

definition parse_duration_literal :: "string \<Rightarrow> string \<Rightarrow> (lower_error, duration) result" where
  "parse_duration_literal raw directive =
     and_then (reject (raw = []) (LowerErr (directive @ '': invalid time value '' @ quoted raw))) (\<lambda>_.
     and_then (duration_loop raw directive 0 False raw) (\<lambda>total_millis.
     and_then (reject (u64_max < total_millis)
       (LowerErr (directive @ '': time value '' @ quoted raw @ '' is too large''))) (\<lambda>_.
     Inr (from_millis total_millis))))"

definition parse_single_duration_directive :: "string list \<Rightarrow> string \<Rightarrow> (lower_error, duration) result" where
  "parse_single_duration_directive args directive =
     and_then (parse_exactly_one_argument args directive) (\<lambda>v. parse_duration_literal v directive)"

definition parse_keepalive_timeout :: "string list \<Rightarrow> (lower_error, keepalive_timeout) result" where
  "parse_keepalive_timeout args =
     (case args of
        [idle] \<Rightarrow>
          and_then (parse_duration_literal idle ''keepalive_timeout'') (\<lambda>i.
          Inr (if i = 0 then KeepaliveOff else KeepaliveTimeout i None))
      | [idle, header] \<Rightarrow>
          and_then (parse_duration_literal idle ''keepalive_timeout'') (\<lambda>i.
          and_then (parse_duration_literal header ''keepalive_timeout'') (\<lambda>h.
          Inr (if i = 0 \<and> h = 0 then KeepaliveOff else KeepaliveTimeout i (Some h))))
      | _ \<Rightarrow> Inl (LowerErr ''keepalive_timeout: expected 1 or 2 arguments''))"

section \<open>Counts and sizes\<close>

definition parse_keepalive_requests :: "string list \<Rightarrow> (lower_error, nat) result" where
  "parse_keepalive_requests args =
     and_then (parse_exactly_one_argument args ''keepalive_requests'') (\<lambda>v.
     ok_or (LowerErr (''keepalive_requests: invalid integer '' @ quoted v)) (parse_unsigned u32_max v))"

definition size_multiplier :: "string \<Rightarrow> nat option" where
  "size_multiplier suffix =
     (if suffix = [] then Some 1
      else if suffix \<in> set [''k'', ''K''] then Some 1024
      else if suffix \<in> set [''m'', ''M''] then Some 1048576
      else if suffix \<in> set [''g'', ''G''] then Some 1073741824
      else None)"

definition parse_size_literal :: "string \<Rightarrow> string \<Rightarrow> (lower_error, nat) result" where
  "parse_size_literal raw directive =
     (let digits = takeWhile is_ascii_digit raw; suffix = dropWhile is_ascii_digit raw
      in
      and_then (reject (raw = [] \<or> digits = []) (LowerErr (directive @ '': invalid size value '' @ quoted raw))) (\<lambda>_.
      and_then (ok_or (LowerErr (directive @ '': invalid size value '' @ quoted raw))
        (parse_unsigned u64_max digits)) (\<lambda>v.
      and_then (ok_or (LowerErr (directive @ '': unsupported size unit '' @ quoted suffix @ '' in '' @ quoted raw))
        (size_multiplier suffix)) (\<lambda>multiplier.
      ok_or (LowerErr (directive @ '': size value '' @ quoted raw @ '' is too large''))
        (checked_mul u64_max v multiplier)))))"

definition parse_client_max_body_size :: "string list \<Rightarrow> (lower_error, nat option) result" where
  "parse_client_max_body_size args =
     and_then (parse_exactly_one_argument args ''client_max_body_size'') (\<lambda>v.
     and_then (parse_size_literal v ''client_max_body_size'') (\<lambda>n.
     Inr (if n = 0 then None else Some n)))"

definition parse_http2_value :: "string \<Rightarrow> string list \<Rightarrow> (lower_error, nat) result" where
  "parse_http2_value name args =
     and_then (parse_exactly_one_argument args name) (\<lambda>raw.
     and_then (if ends_with ''max_concurrent_streams'' name
       then ok_or (LowerErr (name @ '': expected a positive integer'')) (parse_unsigned u64_max raw)
       else parse_size_literal raw name) (\<lambda>v.
     let m = (if ends_with ''window_size'' name then i32_max else u32_max)
     in and_then (reject (v = 0 \<or> m < v)
          (LowerErr (name @ '': expected a value between 1 and '' @ show_nat m))) (\<lambda>_.
        Inr v)))"

section \<open>Socket addresses and signed integers\<close>

text \<open>\<^verbatim>\<open>SocketAddr::from_str\<close>.\<close>

definition read_port :: "string \<Rightarrow> (nat \<times> string) option" where
  "read_port s = Option.bind (read_given_char CHR '':'' s) (\<lambda>r. read_number 10 (length r) True u16_max r)"

definition read_scope_id :: "string \<Rightarrow> string" where
  "read_scope_id s =
     (case Option.bind (read_given_char CHR ''%'' s) (\<lambda>r. read_number 10 (length r) True u32_max r) of
        None \<Rightarrow> s
      | Some (_, r) \<Rightarrow> r)"

definition read_socket_addr_v4 :: "string \<Rightarrow> ((ip_addr \<times> nat) \<times> string) option" where
  "read_socket_addr_v4 s =
     Option.bind (read_octets s) (\<lambda>(q, s1).
     Option.bind (read_port s1) (\<lambda>(port, s2). Some ((V4 (ipv4_of_octets q), port), s2)))"

definition read_socket_addr_v6 :: "string \<Rightarrow> ((ip_addr \<times> nat) \<times> string) option" where
  "read_socket_addr_v6 s =
     Option.bind (read_given_char CHR ''['' s) (\<lambda>s1.
     Option.bind (read_ipv6_addr s1) (\<lambda>(w, s2).
     Option.bind (read_given_char CHR '']'' (read_scope_id s2)) (\<lambda>s3.
     Option.bind (read_port s3) (\<lambda>(port, s4). Some ((V6 w, port), s4)))))"

definition parse_socket_addr :: "string \<Rightarrow> (ip_addr \<times> nat) option" where
  "parse_socket_addr s =
     (case (case read_socket_addr_v4 s of Some r \<Rightarrow> Some r | None \<Rightarrow> read_socket_addr_v6 s) of
        Some (a, r) \<Rightarrow> if r = [] then Some a else None
      | None \<Rightarrow> None)"

text \<open>\<^verbatim>\<open>str::parse::<isize>\<close>.\<close>

definition parse_isize :: "string \<Rightarrow> int option" where
  "parse_isize s =
     (case s of
        CHR ''-'' # r \<Rightarrow>
          if r = [] \<or> \<not> list_all is_ascii_digit r \<or> 2 ^ 63 < digits_value r then None
          else Some (- int (digits_value r))
      | _ \<Rightarrow> map_option int (parse_unsigned (2 ^ 63 - 1) s))"

text \<open>A network, or an address as the network of one address.\<close>

definition parse_network :: "(string \<Rightarrow> ip_net option) \<Rightarrow> (ip_addr \<Rightarrow> ip_net) \<Rightarrow> string \<Rightarrow> ip_net option" where
  "parse_network parse_net net_of_ip v =
     (case parse_net v of Some n \<Rightarrow> Some n | None \<Rightarrow> map_option net_of_ip (parse_ip v))"

end
