(* ===== verification/Lower_Plugins.thy ===== *)
theory Lower_Plugins
  imports Lower_Values
begin

text \<open>
  Plug-in blocks of a location (\<^verbatim>\<open>crates/ngxora-compile/src/transform/plugins.rs\<close>,
  \<^verbatim>\<open>auth_plugins.rs\<close> and \<^verbatim>\<open>headers_plugin.rs\<close>). Each block becomes a plug-in specification whose
  configuration is the JSON value of a structure of this crate; the conversion to JSON is a library
  function, as are the parsers of URLs and networks, and all of them are fields of one record.
\<close>

section \<open>Configurations\<close>

record basic_auth_lowered =
  bl_username :: string
  bl_password :: string
  bl_realm :: "string option"

record ext_authz_lowered =
  xl_uri :: string
  xl_timeout_ms :: "nat option"
  xl_allowed_hosts :: "string list"
  xl_pass_request_headers :: "string list"
  xl_pass_response_headers :: "string list"

record jwt_auth_lowered =
  jl_algorithm :: string
  jl_secret :: "string option"
  jl_secret_file :: "string option"
  jl_iss :: "string option"
  jl_aud :: "string list"
  jl_sub :: "string option"
  jl_required_scopes :: "string list"

record rate_limit_lowered =
  rtl_max_requests_per_second :: int

record cors_lowered =
  crl_allow_origin :: "string option"
  crl_allow_methods :: "string option"
  crl_allow_headers :: "string option"
  crl_expose_headers :: "string option"
  crl_allow_credentials :: "bool option"
  crl_max_age :: "nat option"

record header_patch_lowered =
  hpl_add :: "(string \<times> string) list"
  hpl_set :: "(string \<times> string) list"
  hpl_remove :: "string list"

record headers_lowered =
  hl_forward_client_ip :: "bool option"
  hl_trusted_proxies :: "string list"
  hl_request :: header_patch_lowered
  hl_upstream_request :: header_patch_lowered
  hl_response :: header_patch_lowered

text \<open>
  The libraries: \<^verbatim>\<open>Url::parse\<close> with the text of its error, \<^verbatim>\<open>str::parse::<IpNet>\<close>, \<^verbatim>\<open>IpNet::from\<close>,
  \<^verbatim>\<open>HeaderName::from_bytes\<close>, and \<^verbatim>\<open>serde_json::to_value\<close> at each structure.
\<close>

record lower_lib =
  ll_url :: "string \<Rightarrow> (string, url) result"
  ll_net :: "string \<Rightarrow> ip_net option"
  ll_net_of_ip :: "ip_addr \<Rightarrow> ip_net"
  ll_header_name_ok :: "string \<Rightarrow> bool"
  ll_basic_auth :: "basic_auth_lowered \<Rightarrow> json"
  ll_ext_authz :: "ext_authz_lowered \<Rightarrow> json"
  ll_jwt_auth :: "jwt_auth_lowered \<Rightarrow> json"
  ll_rate_limit :: "rate_limit_lowered \<Rightarrow> json"
  ll_cors :: "cors_lowered \<Rightarrow> json"
  ll_headers :: "headers_lowered \<Rightarrow> json"

text \<open>A block of directives only: nested blocks are an error, directives edit the configuration.\<close>

definition lower_directives ::
  "string \<Rightarrow> ('c \<Rightarrow> string \<Rightarrow> string list \<Rightarrow> (lower_error, 'c) result) \<Rightarrow> 'c \<Rightarrow> node list \<Rightarrow> (lower_error, 'c) result" where
  "lower_directives block apply_directive c children =
     fold_res (\<lambda>c n. case n of
         Directive name args \<Rightarrow> apply_directive c name args
       | Block name args ns \<Rightarrow> Inl (LowerErr (block @ '' block: nested blocks are not supported: '' @ name))) c children"

definition no_arguments :: "string \<Rightarrow> string list \<Rightarrow> (lower_error, unit) result" where
  "no_arguments name args = reject (args \<noteq> []) (LowerErr (name @ '' block: does not accept arguments''))"

definition unsupported_in :: "string \<Rightarrow> string \<Rightarrow> lower_error" where
  "unsupported_in block directive = LowerErr (block @ '' block: unsupported directive '' @ directive)"

definition duplicate_in :: "string \<Rightarrow> string \<Rightarrow> lower_error" where
  "duplicate_in block directive = LowerErr (block @ '' block: duplicate '' @ quoted directive @ '' directive'')"

section \<open>Basic authentication\<close>

definition assign_basic_auth_string :: "string \<Rightarrow> string \<Rightarrow> string \<Rightarrow> (lower_error, string) result" where
  "assign_basic_auth_string slot field v =
     and_then (reject (slot \<noteq> []) (LowerErr (''basic-auth block: duplicate '' @ field @ '' directive''))) (\<lambda>_. Inr v)"

definition apply_basic_auth_directive ::
  "basic_auth_lowered \<Rightarrow> string \<Rightarrow> string list \<Rightarrow> (lower_error, basic_auth_lowered) result" where
  "apply_basic_auth_directive c name args =
     (if name = ''username'' then
        and_then (parse_basic_auth_single_value args ''username'' ''expected exactly 1 argument'') (\<lambda>v.
        and_then (assign_basic_auth_string (bl_username c) ''username'' v) (\<lambda>s.
        Inr (c\<lparr>bl_username := s\<rparr>)))
      else if name = ''password'' then
        and_then (parse_basic_auth_joined_value args ''password'' ''expected at least 1 argument'') (\<lambda>v.
        and_then (assign_basic_auth_string (bl_password c) ''password'' v) (\<lambda>s.
        Inr (c\<lparr>bl_password := s\<rparr>)))
      else if name = ''realm'' then
        and_then (parse_basic_auth_joined_value args ''realm'' ''expected at least 1 argument'') (\<lambda>v.
        and_then (reject (bl_realm c \<noteq> None) (LowerErr ''basic-auth block: duplicate realm directive'')) (\<lambda>_.
        Inr (c\<lparr>bl_realm := Some v\<rparr>)))
      else Inl (unsupported_in ''basic-auth'' name))"

definition lower_basic_auth_plugin ::
  "lower_lib \<Rightarrow> string \<Rightarrow> string list \<Rightarrow> node list \<Rightarrow> (lower_error, plugin_spec) result" where
  "lower_basic_auth_plugin ll name args children =
     and_then (no_arguments name args) (\<lambda>_.
     and_then (lower_directives ''basic-auth'' apply_basic_auth_directive
       \<lparr>bl_username = [], bl_password = [], bl_realm = None\<rparr> children) (\<lambda>c.
     Inr \<lparr>ps_name = ''basic-auth'', ps_config = ll_basic_auth ll c\<rparr>))"

section \<open>External authorization\<close>

definition apply_ext_authz_directive ::
  "ext_authz_lowered \<Rightarrow> string \<Rightarrow> string list \<Rightarrow> (lower_error, ext_authz_lowered) result" where
  "apply_ext_authz_directive c name args =
     (if name = ''uri'' then
        and_then (reject (xl_uri c \<noteq> []) (duplicate_in ''ext_authz'' name)) (\<lambda>_.
        and_then (parse_exactly_one_argument args name) (\<lambda>v.
        Inr (c\<lparr>xl_uri := v\<rparr>)))
      else if name = ''timeout'' then
        and_then (reject (xl_timeout_ms c \<noteq> None) (duplicate_in ''ext_authz'' name)) (\<lambda>_.
        and_then (parse_exactly_one_argument args name) (\<lambda>v.
        and_then (reject (ends_with ''ms'' v \<or> ends_with ''s'' v)
          (LowerErr (''ext_authz block: '' @ quoted name @ '' expects integer ms, got '' @ quoted v @ ''. Strip suffix.''))) (\<lambda>_.
        and_then (ok_or (LowerErr (''ext_authz block: '' @ quoted name @ '' must be an integer (ms), got '' @ quoted v))
          (parse_unsigned u64_max v)) (\<lambda>ms.
        Inr (c\<lparr>xl_timeout_ms := Some ms\<rparr>)))))
      else if name = ''allowed_host'' then
        and_then (parse_exactly_one_argument args name) (\<lambda>v. Inr (c\<lparr>xl_allowed_hosts := xl_allowed_hosts c @ [v]\<rparr>))
      else if name = ''pass_request_header'' then
        and_then (parse_exactly_one_argument args name) (\<lambda>v.
        Inr (c\<lparr>xl_pass_request_headers := xl_pass_request_headers c @ [v]\<rparr>))
      else if name = ''pass_response_header'' then
        and_then (parse_exactly_one_argument args name) (\<lambda>v.
        Inr (c\<lparr>xl_pass_response_headers := xl_pass_response_headers c @ [v]\<rparr>))
      else Inl (unsupported_in ''ext_authz'' name))"

definition lower_ext_authz_plugin ::
  "lower_lib \<Rightarrow> string \<Rightarrow> string list \<Rightarrow> node list \<Rightarrow> (lower_error, plugin_spec) result" where
  "lower_ext_authz_plugin ll name args children =
     and_then (no_arguments name args) (\<lambda>_.
     and_then (lower_directives ''ext_authz'' apply_ext_authz_directive
       \<lparr>xl_uri = [], xl_timeout_ms = None, xl_allowed_hosts = [], xl_pass_request_headers = [],
        xl_pass_response_headers = []\<rparr> children) (\<lambda>c.
     and_then (reject (xl_uri c = []) (LowerErr ''ext_authz block: missing `uri` directive'')) (\<lambda>_.
     and_then (reject (xl_allowed_hosts c = []) (LowerErr ''ext_authz block: missing `allowed_host` directive'')) (\<lambda>_.
     Inr \<lparr>ps_name = ''ext_authz'', ps_config = ll_ext_authz ll c\<rparr>))))"

section \<open>JSON Web Tokens\<close>

definition apply_jwt_auth_directive ::
  "jwt_auth_lowered \<Rightarrow> string \<Rightarrow> string list \<Rightarrow> (lower_error, jwt_auth_lowered) result" where
  "apply_jwt_auth_directive c name args =
     (if name = ''algorithm'' then
        and_then (reject (jl_algorithm c \<noteq> []) (duplicate_in ''jwt_auth'' name)) (\<lambda>_.
        and_then (parse_exactly_one_argument args name) (\<lambda>v. Inr (c\<lparr>jl_algorithm := v\<rparr>)))
      else if name = ''secret'' then
        and_then (reject (jl_secret c \<noteq> None) (duplicate_in ''jwt_auth'' name)) (\<lambda>_.
        and_then (parse_exactly_one_argument args name) (\<lambda>v. Inr (c\<lparr>jl_secret := Some v\<rparr>)))
      else if name = ''secret_file'' then
        and_then (reject (jl_secret_file c \<noteq> None) (duplicate_in ''jwt_auth'' name)) (\<lambda>_.
        and_then (parse_exactly_one_argument args name) (\<lambda>v. Inr (c\<lparr>jl_secret_file := Some v\<rparr>)))
      else if name = ''iss'' then
        and_then (reject (jl_iss c \<noteq> None) (duplicate_in ''jwt_auth'' name)) (\<lambda>_.
        and_then (parse_exactly_one_argument args name) (\<lambda>v. Inr (c\<lparr>jl_iss := Some v\<rparr>)))
      else if name = ''aud'' then
        and_then (parse_exactly_one_argument args name) (\<lambda>v. Inr (c\<lparr>jl_aud := jl_aud c @ [v]\<rparr>))
      else if name = ''sub'' then
        and_then (reject (jl_sub c \<noteq> None) (duplicate_in ''jwt_auth'' name)) (\<lambda>_.
        and_then (parse_exactly_one_argument args name) (\<lambda>v. Inr (c\<lparr>jl_sub := Some v\<rparr>)))
      else if name = ''required_scope'' then
        and_then (parse_exactly_one_argument args name) (\<lambda>v.
        Inr (c\<lparr>jl_required_scopes := jl_required_scopes c @ [v]\<rparr>))
      else Inl (unsupported_in ''jwt_auth'' name))"

definition lower_jwt_auth_plugin ::
  "lower_lib \<Rightarrow> string \<Rightarrow> string list \<Rightarrow> node list \<Rightarrow> (lower_error, plugin_spec) result" where
  "lower_jwt_auth_plugin ll name args children =
     and_then (no_arguments name args) (\<lambda>_.
     and_then (lower_directives ''jwt_auth'' apply_jwt_auth_directive
       \<lparr>jl_algorithm = [], jl_secret = None, jl_secret_file = None, jl_iss = None, jl_aud = [], jl_sub = None,
        jl_required_scopes = []\<rparr> children) (\<lambda>c.
     and_then (reject (jl_algorithm c = []) (LowerErr ''jwt_auth block: missing `algorithm` directive'')) (\<lambda>_.
     and_then (reject (jl_secret c = None \<and> jl_secret_file c = None)
       (LowerErr ''jwt_auth block: either `secret` or `secret_file` must be provided'')) (\<lambda>_.
     Inr \<lparr>ps_name = ''jwt_auth'', ps_config = ll_jwt_auth ll c\<rparr>))))"

section \<open>Rate limits\<close>

definition apply_rate_limit_directive ::
  "rate_limit_lowered \<Rightarrow> string \<Rightarrow> string list \<Rightarrow> (lower_error, rate_limit_lowered) result" where
  "apply_rate_limit_directive c name args =
     (if name = ''rate'' then
        and_then (parse_exactly_one_argument args name) (\<lambda>v.
        and_then (ok_or (LowerErr (''rate-limit block: rate must be an integer, got '' @ quoted v)) (parse_isize v)) (\<lambda>rate.
        and_then (reject (rate \<le> 0) (LowerErr (''rate-limit block: rate must be positive, got '' @ quoted v))) (\<lambda>_.
        and_then (reject (0 < rtl_max_requests_per_second c) (duplicate_in ''rate-limit'' name)) (\<lambda>_.
        Inr (c\<lparr>rtl_max_requests_per_second := rate\<rparr>)))))
      else Inl (unsupported_in ''rate-limit'' name))"

definition lower_rate_limit_plugin ::
  "lower_lib \<Rightarrow> string \<Rightarrow> string list \<Rightarrow> node list \<Rightarrow> (lower_error, plugin_spec) result" where
  "lower_rate_limit_plugin ll name args children =
     and_then (no_arguments name args) (\<lambda>_.
     and_then (lower_directives ''rate-limit'' apply_rate_limit_directive
       \<lparr>rtl_max_requests_per_second = 0\<rparr> children) (\<lambda>c.
     and_then (reject (rtl_max_requests_per_second c \<le> 0)
       (LowerErr ''rate-limit block: must specify positive `rate`'')) (\<lambda>_.
     Inr \<lparr>ps_name = ''rate-limit'', ps_config = ll_rate_limit ll c\<rparr>)))"

section \<open>Cross-origin requests\<close>

definition strip_quotes :: "char \<Rightarrow> string \<Rightarrow> string option" where
  "strip_quotes q s =
     (if starts_with [q] s \<and> ends_with [q] s \<and> 2 \<le> length s then Some (take (length s - 2) (drop 1 s)) else None)"

definition cors_join_args :: "string list \<Rightarrow> string \<Rightarrow> (lower_error, string) result" where
  "cors_join_args args name =
     and_then (reject (args = []) (LowerErr (''cors block: '' @ quoted name @ '' requires at least 1 argument''))) (\<lambda>_.
     let joined = join_with '' '' args
     in Inr (case strip_quotes CHR ''\"'' joined of
               Some s \<Rightarrow> s
             | None \<Rightarrow> (case strip_quotes (CHR 0x27) joined of Some s \<Rightarrow> s | None \<Rightarrow> joined)))"

definition cors_text :: "string option \<Rightarrow> string \<Rightarrow> string list \<Rightarrow> (lower_error, string option) result" where
  "cors_text slot name args =
     and_then (reject (slot \<noteq> None) (duplicate_in ''cors'' name)) (\<lambda>_.
     and_then (cors_join_args args name) (\<lambda>v. Inr (Some v)))"

definition apply_cors_directive ::
  "cors_lowered \<Rightarrow> string \<Rightarrow> string list \<Rightarrow> (lower_error, cors_lowered) result" where
  "apply_cors_directive c name args =
     (if name = ''allow_origin'' then
        and_then (cors_text (crl_allow_origin c) name args) (\<lambda>v. Inr (c\<lparr>crl_allow_origin := v\<rparr>))
      else if name = ''allow_methods'' then
        and_then (cors_text (crl_allow_methods c) name args) (\<lambda>v. Inr (c\<lparr>crl_allow_methods := v\<rparr>))
      else if name = ''allow_headers'' then
        and_then (cors_text (crl_allow_headers c) name args) (\<lambda>v. Inr (c\<lparr>crl_allow_headers := v\<rparr>))
      else if name = ''expose_headers'' then
        and_then (cors_text (crl_expose_headers c) name args) (\<lambda>v. Inr (c\<lparr>crl_expose_headers := v\<rparr>))
      else if name = ''allow_credentials'' then
        and_then (reject (crl_allow_credentials c \<noteq> None) (duplicate_in ''cors'' name)) (\<lambda>_.
        and_then (parse_exactly_one_argument args name) (\<lambda>v.
        and_then (reject (v \<noteq> ''on'' \<and> v \<noteq> ''off'')
          (LowerErr (''cors block: '' @ name @ '' must be `on` or `off`, got '' @ quoted v))) (\<lambda>_.
        Inr (c\<lparr>crl_allow_credentials := Some (v = ''on'')\<rparr>))))
      else if name = ''max_age'' then
        and_then (reject (crl_max_age c \<noteq> None) (duplicate_in ''cors'' name)) (\<lambda>_.
        and_then (parse_exactly_one_argument args name) (\<lambda>v.
        and_then (ok_or (LowerErr (''cors block: '' @ name @ '' must be an integer, got '' @ quoted v))
          (parse_unsigned u64_max v)) (\<lambda>age.
        Inr (c\<lparr>crl_max_age := Some age\<rparr>))))
      else Inl (unsupported_in ''cors'' name))"

definition lower_cors_plugin ::
  "lower_lib \<Rightarrow> string \<Rightarrow> string list \<Rightarrow> node list \<Rightarrow> (lower_error, plugin_spec) result" where
  "lower_cors_plugin ll name args children =
     and_then (no_arguments name args) (\<lambda>_.
     and_then (lower_directives ''cors'' apply_cors_directive
       \<lparr>crl_allow_origin = None, crl_allow_methods = None, crl_allow_headers = None, crl_expose_headers = None,
        crl_allow_credentials = None, crl_max_age = None\<rparr> children) (\<lambda>c.
     Inr \<lparr>ps_name = ''cors'', ps_config = ll_cors ll c\<rparr>))"

section \<open>Headers\<close>

definition parse_header_entry :: "string list \<Rightarrow> string \<Rightarrow> (lower_error, string \<times> string) result" where
  "parse_header_entry args directive =
     (case args of
        [] \<Rightarrow> Inl (LowerErr (directive @ '': expected header name and value''))
      | [name] \<Rightarrow> Inl (LowerErr (directive @ '': expected header value for '' @ quoted name))
      | name # v \<Rightarrow> Inr (name, join_with '' '' v))"

definition parse_header_remove :: "string list \<Rightarrow> string \<Rightarrow> (lower_error, string) result" where
  "parse_header_remove args directive =
     (case args of
        [name] \<Rightarrow> Inr name
      | [] \<Rightarrow> Inl (LowerErr (directive @ '': expected header name''))
      | _ \<Rightarrow> Inl (LowerErr (directive @ '': expected exactly 1 argument'')))"

text \<open>The three directives of one patch, recognized after the prefix that names the patch.\<close>

definition apply_patch_directive ::
  "string \<Rightarrow> header_patch_lowered \<Rightarrow> string \<Rightarrow> string list \<Rightarrow> (lower_error, header_patch_lowered) result option" where
  "apply_patch_directive prefix p name args =
     (if name = prefix @ ''_add'' then
        Some (and_then (parse_header_entry args name) (\<lambda>e. Inr (p\<lparr>hpl_add := hpl_add p @ [e]\<rparr>)))
      else if name = prefix @ ''_set'' then
        Some (and_then (parse_header_entry args name) (\<lambda>e. Inr (p\<lparr>hpl_set := hpl_set p @ [e]\<rparr>)))
      else if name = prefix @ ''_remove'' then
        Some (and_then (parse_header_remove args name) (\<lambda>n. Inr (p\<lparr>hpl_remove := hpl_remove p @ [n]\<rparr>)))
      else None)"

definition apply_headers_directive ::
  "headers_lowered \<Rightarrow> string \<Rightarrow> string list \<Rightarrow> (lower_error, headers_lowered) result" where
  "apply_headers_directive c name args =
     (case apply_patch_directive ''request'' (hl_request c) name args of
        Some r \<Rightarrow> and_then r (\<lambda>p. Inr (c\<lparr>hl_request := p\<rparr>))
      | None \<Rightarrow>
     (case apply_patch_directive ''upstream_request'' (hl_upstream_request c) name args of
        Some r \<Rightarrow> and_then r (\<lambda>p. Inr (c\<lparr>hl_upstream_request := p\<rparr>))
      | None \<Rightarrow>
     (case apply_patch_directive ''response'' (hl_response c) name args of
        Some r \<Rightarrow> and_then r (\<lambda>p. Inr (c\<lparr>hl_response := p\<rparr>))
      | None \<Rightarrow>
          if name = ''forward_client_ip'' then
            and_then (reject (hl_forward_client_ip c \<noteq> None)
              (LowerErr ''headers block: duplicate forward_client_ip directive'')) (\<lambda>_.
            and_then (get_directive_switch name args) (\<lambda>s.
            Inr (c\<lparr>hl_forward_client_ip := Some (s = On)\<rparr>)))
          else if name = ''trusted_proxy'' then
            and_then (parse_exactly_one_argument args name) (\<lambda>v.
            Inr (c\<lparr>hl_trusted_proxies := hl_trusted_proxies c @ [v]\<rparr>))
          else Inl (unsupported_in ''headers'' name))))"

definition patch_lowered_default :: header_patch_lowered where
  "patch_lowered_default = \<lparr>hpl_add = [], hpl_set = [], hpl_remove = []\<rparr>"

definition lower_headers_plugin ::
  "lower_lib \<Rightarrow> string \<Rightarrow> string list \<Rightarrow> node list \<Rightarrow> (lower_error, plugin_spec) result" where
  "lower_headers_plugin ll name args children =
     and_then (no_arguments ''headers'' args) (\<lambda>_.
     and_then (lower_directives ''headers'' apply_headers_directive
       \<lparr>hl_forward_client_ip = None, hl_trusted_proxies = [], hl_request = patch_lowered_default,
        hl_upstream_request = patch_lowered_default, hl_response = patch_lowered_default\<rparr> children) (\<lambda>c.
     Inr \<lparr>ps_name = ''headers'', ps_config = ll_headers ll c\<rparr>))"

section \<open>Dispatch\<close>

definition parse_location_plugin_block ::
  "lower_lib \<Rightarrow> string \<Rightarrow> string list \<Rightarrow> node list \<Rightarrow> (lower_error, plugin_spec) result" where
  "parse_location_plugin_block ll name args children =
     (if name = ''headers'' then lower_headers_plugin ll name args children
      else if name = ''basic-auth'' \<or> name = ''basic_auth'' then lower_basic_auth_plugin ll name args children
      else if name = ''rate-limit'' then lower_rate_limit_plugin ll name args children
      else if name = ''cors'' then lower_cors_plugin ll name args children
      else if name = ''ext_authz'' then lower_ext_authz_plugin ll name args children
      else if name = ''jwt_auth'' then lower_jwt_auth_plugin ll name args children
      else Inl (LowerErr (''unexpected inner block in location: '' @ name)))"

end
