(* ===== verification/Lower_Blocks.thy ===== *)
theory Lower_Blocks
  imports Lower_Plugins
begin

text \<open>
  Upstream, location, server and provider blocks
  (\<^verbatim>\<open>crates/ngxora-compile/src/transform/upstreams.rs\<close>, \<^verbatim>\<open>locations.rs\<close>, \<^verbatim>\<open>listeners.rs\<close> and
  \<^verbatim>\<open>geoip.rs\<close>), with every rejected form.
\<close>

section \<open>SCP profiles\<close>

definition lower_scp_child :: "scp_profile \<Rightarrow> node \<Rightarrow> (lower_error, scp_profile) result" where
  "lower_scp_child p n =
     (case n of
        Block name args ns \<Rightarrow> Inl (LowerErr ''scp: nested blocks are not supported'')
      | Directive name args \<Rightarrow>
          and_then (parse_exactly_one_argument args name) (\<lambda>v.
          if name = ''api_root'' \<and> sp_api_root p = [] then Inr (p\<lparr>sp_api_root := v\<rparr>)
          else if name = ''discovery_upstream'' then Inr (p\<lparr>sp_discovery_upstreams := sp_discovery_upstreams p @ [v]\<rparr>)
          else if name = ''allow_target_api_root'' then
            Inr (p\<lparr>sp_allowed_target_api_roots := sp_allowed_target_api_roots p @ [v]\<rparr>)
          else Inl (LowerErr (''scp: unsupported or duplicate directive '' @ quoted name))))"

definition lower_scp :: "string list \<Rightarrow> node list \<Rightarrow> (lower_error, scp_profile) result" where
  "lower_scp args children =
     and_then (parse_exactly_one_argument args ''scp'') (\<lambda>name.
     fold_res lower_scp_child
       \<lparr>sp_name = name, sp_api_root = [], sp_discovery_upstreams = [], sp_allowed_target_api_roots = []\<rparr> children)"

section \<open>NRF discovery\<close>

record nrf_discovery_draft =
  dr_api_root :: "string option"
  dr_target_nf_type :: "string option"
  dr_requester_nf_type :: "string option"
  dr_service_name :: "string option"
  dr_endpoint_scheme :: "nrf_endpoint_scheme option"
  dr_timeout :: "duration option"
  dr_stale_if_error :: "duration option"
  dr_tls_options :: upstream_ssl_options

definition nrf_text :: "string option \<Rightarrow> string \<Rightarrow> string list \<Rightarrow> (lower_error, string option) result" where
  "nrf_text slot name args =
     and_then (parse_exactly_one_argument args name) (\<lambda>v.
     and_then (reject (trim v = []) (LowerErr (''nrf_discovery '' @ name @ '': value cannot be empty''))) (\<lambda>_.
     lower_once slot v (''nrf_discovery '' @ name)))"

definition nrf_duration :: "duration option \<Rightarrow> string \<Rightarrow> string list \<Rightarrow> (lower_error, duration option) result" where
  "nrf_duration slot context args =
     and_then (parse_single_duration_directive args context) (\<lambda>v.
     and_then (ensure_non_zero_duration v context) (\<lambda>_.
     lower_once slot v context))"

definition nrf_pem :: "pem_source option \<Rightarrow> string \<Rightarrow> string list \<Rightarrow> (lower_error, pem_source option) result" where
  "nrf_pem slot name args =
     and_then (parse_exactly_one_argument args name) (\<lambda>v.
     lower_once slot (PemPath v) (''nrf_discovery '' @ name))"

definition apply_nrf_discovery_directive ::
  "nrf_discovery_draft \<Rightarrow> string \<Rightarrow> string list \<Rightarrow> (lower_error, nrf_discovery_draft) result" where
  "apply_nrf_discovery_directive d name args =
     (let tls = dr_tls_options d
      in
      if name = ''api_root'' then
        and_then (nrf_text (dr_api_root d) name args) (\<lambda>v. Inr (d\<lparr>dr_api_root := v\<rparr>))
      else if name = ''target_nf_type'' then
        and_then (nrf_text (dr_target_nf_type d) name args) (\<lambda>v. Inr (d\<lparr>dr_target_nf_type := v\<rparr>))
      else if name = ''requester_nf_type'' then
        and_then (nrf_text (dr_requester_nf_type d) name args) (\<lambda>v. Inr (d\<lparr>dr_requester_nf_type := v\<rparr>))
      else if name = ''service_name'' then
        and_then (nrf_text (dr_service_name d) name args) (\<lambda>v. Inr (d\<lparr>dr_service_name := v\<rparr>))
      else if name = ''endpoint_scheme'' then
        and_then (parse_exactly_one_argument args ''nrf_discovery endpoint_scheme'') (\<lambda>v.
        and_then (if v = ''http'' then Inr SchemeHttp else if v = ''https'' then Inr SchemeHttps
          else Inl (LowerErr (''nrf_discovery endpoint_scheme: unsupported value '' @ quoted v @ ''; expected http|https''))) (\<lambda>scheme.
        and_then (lower_once (dr_endpoint_scheme d) scheme ''nrf_discovery endpoint_scheme'') (\<lambda>s.
        Inr (d\<lparr>dr_endpoint_scheme := s\<rparr>))))
      else if name = ''timeout'' then
        and_then (nrf_duration (dr_timeout d) (''nrf_discovery '' @ name) args) (\<lambda>v. Inr (d\<lparr>dr_timeout := v\<rparr>))
      else if name = ''stale_if_error'' then
        and_then (nrf_duration (dr_stale_if_error d) (''nrf_discovery '' @ name) args) (\<lambda>v. Inr (d\<lparr>dr_stale_if_error := v\<rparr>))
      else if name = ''ssl_verify'' then
        and_then (get_directive_switch name args) (\<lambda>s. Inr (d\<lparr>dr_tls_options := tls\<lparr>us_verify_cert := s\<rparr>\<rparr>))
      else if name = ''ssl_trusted_certificate'' then
        and_then (nrf_pem (us_trusted_certificate tls) name args) (\<lambda>v.
        Inr (d\<lparr>dr_tls_options := tls\<lparr>us_trusted_certificate := v\<rparr>\<rparr>))
      else if name = ''ssl_certificate'' then
        and_then (nrf_pem (us_client_certificate tls) name args) (\<lambda>v.
        Inr (d\<lparr>dr_tls_options := tls\<lparr>us_client_certificate := v\<rparr>\<rparr>))
      else if name = ''ssl_certificate_key'' then
        and_then (nrf_pem (us_client_certificate_key tls) name args) (\<lambda>v.
        Inr (d\<lparr>dr_tls_options := tls\<lparr>us_client_certificate_key := v\<rparr>\<rparr>))
      else Inl (LowerErr (''unsupported nrf_discovery directive: '' @ name)))"

definition required_by :: "'a option \<Rightarrow> string \<Rightarrow> (lower_error, 'a) result" where
  "required_by v name = ok_or (LowerErr (''nrf_discovery: '' @ name @ '' is required'')) v"

definition or_default :: "'a option \<Rightarrow> 'a \<Rightarrow> 'a" where
  "or_default v d = (case v of None \<Rightarrow> d | Some x \<Rightarrow> x)"

definition lower_nrf_discovery :: "string list \<Rightarrow> node list \<Rightarrow> (lower_error, nrf_discovery) result" where
  "lower_nrf_discovery args children =
     and_then (no_arguments ''nrf_discovery'' args) (\<lambda>_.
     and_then (fold_res (\<lambda>d n. case n of
         Block name a ns \<Rightarrow> Inl (LowerErr ''nrf_discovery block: nested blocks are not supported'')
       | Directive name a \<Rightarrow> apply_nrf_discovery_directive d name a)
       \<lparr>dr_api_root = None, dr_target_nf_type = None, dr_requester_nf_type = None, dr_service_name = None,
        dr_endpoint_scheme = None, dr_timeout = None, dr_stale_if_error = None, dr_tls_options = upstream_ssl_default\<rparr>
       children) (\<lambda>d.
     and_then (required_by (dr_api_root d) ''api_root'') (\<lambda>root.
     and_then (required_by (dr_target_nf_type d) ''target_nf_type'') (\<lambda>target.
     and_then (required_by (dr_requester_nf_type d) ''requester_nf_type'') (\<lambda>requester.
     and_then (required_by (dr_service_name d) ''service_name'') (\<lambda>service.
     and_then (required_by (dr_endpoint_scheme d) ''endpoint_scheme'') (\<lambda>scheme.
     Inr \<lparr>nd_api_root = root, nd_target_nf_type = target, nd_requester_nf_type = requester,
          nd_service_name = service, nd_endpoint_scheme = scheme,
          nd_timeout = or_default (dr_timeout d) (from_secs 3),
          nd_stale_if_error = or_default (dr_stale_if_error d) (from_secs 60),
          nd_tls_options = dr_tls_options d\<rparr>)))))))"

section \<open>Health checks\<close>

datatype health_check_kind = KindTcp | KindHttp

record health_check_draft =
  hd_check_type :: "health_check_kind option"
  hd_timeout :: "duration option"
  hd_interval :: "duration option"
  hd_consecutive_success :: "nat option"
  hd_consecutive_failure :: "nat option"
  hd_host :: "string option"
  hd_path :: "string option"
  hd_use_tls :: "bool option"

definition apply_upstream_health_check_directive ::
  "health_check_draft \<Rightarrow> string \<Rightarrow> string list \<Rightarrow> (lower_error, health_check_draft) result" where
  "apply_upstream_health_check_directive d name args =
     (let context = ''health_check '' @ name
      in
      if name = ''type'' then
        and_then (parse_exactly_one_argument args context) (\<lambda>v.
        and_then (if v = ''tcp'' then Inr KindTcp else if v = ''http'' then Inr KindHttp
          else Inl (LowerErr (''health_check type: unsupported value '' @ quoted v @ ''; expected tcp|http''))) (\<lambda>k.
        and_then (lower_once (hd_check_type d) k context) (\<lambda>s. Inr (d\<lparr>hd_check_type := s\<rparr>))))
      else if name = ''timeout'' then
        and_then (nrf_duration (hd_timeout d) context args) (\<lambda>v. Inr (d\<lparr>hd_timeout := v\<rparr>))
      else if name = ''interval'' then
        and_then (nrf_duration (hd_interval d) context args) (\<lambda>v. Inr (d\<lparr>hd_interval := v\<rparr>))
      else if name = ''consecutive_success'' then
        and_then (parse_positive_usize args context) (\<lambda>v.
        and_then (lower_once (hd_consecutive_success d) v context) (\<lambda>s. Inr (d\<lparr>hd_consecutive_success := s\<rparr>)))
      else if name = ''consecutive_failure'' then
        and_then (parse_positive_usize args context) (\<lambda>v.
        and_then (lower_once (hd_consecutive_failure d) v context) (\<lambda>s. Inr (d\<lparr>hd_consecutive_failure := s\<rparr>)))
      else if name = ''host'' then
        and_then (parse_exactly_one_argument args context) (\<lambda>v.
        and_then (reject (trim v = []) (LowerErr ''health_check host: value cannot be empty'')) (\<lambda>_.
        and_then (lower_once (hd_host d) v context) (\<lambda>s. Inr (d\<lparr>hd_host := s\<rparr>))))
      else if name = ''path'' then
        and_then (parse_exactly_one_argument args context) (\<lambda>v.
        and_then (lower_once (hd_path d) v context) (\<lambda>s. Inr (d\<lparr>hd_path := s\<rparr>)))
      else if name = ''use_tls'' then
        and_then (get_directive_switch name args) (\<lambda>v.
        and_then (lower_once (hd_use_tls d) (v = On) context) (\<lambda>s. Inr (d\<lparr>hd_use_tls := s\<rparr>)))
      else Inl (LowerErr (''unsupported health_check directive: '' @ name)))"

definition health_check_type_of :: "health_check_draft \<Rightarrow> (lower_error, upstream_health_check_type) result" where
  "health_check_type_of d =
     (case or_default (hd_check_type d) KindTcp of
        KindTcp \<Rightarrow>
          and_then (reject (hd_host d \<noteq> None \<or> hd_path d \<noteq> None \<or> hd_use_tls d \<noteq> None)
            (LowerErr ''health_check: host/path/use_tls are only supported for type http'')) (\<lambda>_.
          Inr CheckTcp)
      | KindHttp \<Rightarrow>
          and_then (ok_or (LowerErr ''health_check: host is required for type http'') (hd_host d)) (\<lambda>host.
          let path = or_default (hd_path d) ''/''
          in and_then (reject (path = []) (LowerErr ''health_check: path cannot be empty'')) (\<lambda>_.
             Inr (CheckHttp host path (or_default (hd_use_tls d) False)))))"

definition lower_upstream_health_check :: "string list \<Rightarrow> node list \<Rightarrow> (lower_error, upstream_health_check) result" where
  "lower_upstream_health_check args children =
     and_then (no_arguments ''health_check'' args) (\<lambda>_.
     and_then (lower_directives ''health_check'' apply_upstream_health_check_directive
       \<lparr>hd_check_type = None, hd_timeout = None, hd_interval = None, hd_consecutive_success = None,
        hd_consecutive_failure = None, hd_host = None, hd_path = None, hd_use_tls = None\<rparr> children) (\<lambda>d.
     and_then (health_check_type_of d) (\<lambda>check_type.
     Inr \<lparr>hc_check_type = check_type, hc_timeout = or_default (hd_timeout d) (from_secs 1),
          hc_interval = or_default (hd_interval d) (from_secs 5),
          hc_consecutive_success = or_default (hd_consecutive_success d) 1,
          hc_consecutive_failure = or_default (hd_consecutive_failure d) 1\<rparr>)))"

section \<open>Upstreams\<close>

definition parse_upstream_policy :: "string list \<Rightarrow> (lower_error, upstream_selection_policy) result" where
  "parse_upstream_policy args =
     and_then (parse_exactly_one_argument args ''policy'') (\<lambda>v.
     if v = ''round_robin'' then Inr RoundRobin
     else if v = ''random'' then Inr Random
     else if v = ''consistent_hash'' then Inr ConsistentHash
     else Inl (LowerErr (''policy: unsupported upstream selection policy '' @ quoted v @
       ''; expected round_robin|random|consistent_hash'')))"

definition parse_upstream_hash_key :: "lower_lib \<Rightarrow> string list \<Rightarrow> (lower_error, upstream_hash_key) result" where
  "parse_upstream_hash_key ll args =
     (if args = [''client_ip''] then Inr ClientIp
      else
        (case args of
           [what, name] \<Rightarrow>
             if what = ''header'' then
               and_then (reject (\<not> ll_header_name_ok ll name)
                 (LowerErr (''hash_key: invalid HTTP header name '' @ quoted name))) (\<lambda>_.
               Inr (Header name))
             else Inl (LowerErr ''hash_key: expected `client_ip` or `header <name>`'')
         | _ \<Rightarrow> Inl (LowerErr ''hash_key: expected `client_ip` or `header <name>`'')))"

text \<open>\<^verbatim>\<open>str::rsplit_once\<close> at one byte.\<close>

definition rsplit_once :: "char \<Rightarrow> string \<Rightarrow> (string \<times> string) option" where
  "rsplit_once c s = map_option (\<lambda>(a, b). (rev b, rev a)) (split_once c (rev s))"

definition contains_any :: "string \<Rightarrow> string \<Rightarrow> bool" where
  "contains_any cs s = list_ex (\<lambda>c. c \<in> set cs) s"

definition split_upstream_host_port :: "string \<Rightarrow> (string \<times> string) option" where
  "split_upstream_host_port raw =
     (case strip_prefix ''['' raw of
        Some rest \<Rightarrow>
          Option.bind (split_once (CHR '']'') rest) (\<lambda>(host, after).
          Option.bind (strip_prefix '':'' after) (\<lambda>port.
          if host = [] \<or> port = [] \<or> contains_any ''/?#@'' port then None else Some (host, port)))
      | None \<Rightarrow>
          Option.bind (rsplit_once (CHR '':'') raw) (\<lambda>(host, port).
          if host = [] \<or> port = [] \<or> contains_any ''/?#@'' host \<or> contains_any ''/?#@:'' port then None
          else Some (host, port)))"

text \<open>The loop over the parameters keeps the weight once it was given.\<close>

definition server_parameter :: "nat option \<Rightarrow> string \<Rightarrow> (lower_error, nat option) result" where
  "server_parameter w parameter =
     and_then (ok_or (LowerErr (''upstream server: unsupported parameter '' @ quoted parameter))
       (strip_prefix ''weight='' parameter)) (\<lambda>v.
     and_then (reject (w \<noteq> None) (LowerErr ''upstream server: weight is duplicated'')) (\<lambda>_.
     and_then (ok_or (LowerErr (''upstream server: invalid weight '' @ quoted v)) (parse_unsigned u16_max v)) (\<lambda>n.
     and_then (reject (n = 0) (LowerErr ''upstream server: weight must be greater than zero'')) (\<lambda>_.
     Inr (Some n)))))"

definition parse_upstream_server :: "string list \<Rightarrow> (lower_error, upstream_server) result" where
  "parse_upstream_server args =
     (case args of
        [] \<Rightarrow> Inl (LowerErr ''upstream server: expected host:port'')
      | raw # parameters \<Rightarrow>
          and_then (ok_or (LowerErr (''upstream server: expected host:port, got '' @ quoted raw))
            (split_upstream_host_port raw)) (\<lambda>(host, port).
          and_then (reject (host = []) (LowerErr (''upstream server: missing host in '' @ quoted raw))) (\<lambda>_.
          and_then (ok_or (LowerErr (''upstream server: invalid port in '' @ quoted raw)) (parse_unsigned u16_max port)) (\<lambda>p.
          and_then (fold_res server_parameter None parameters) (\<lambda>w.
          Inr \<lparr>usv_host = host, usv_port = p, usv_weight = or_default w 1\<rparr>)))))"

definition apply_upstream_directive ::
  "lower_lib \<Rightarrow> upstream_block \<Rightarrow> string \<Rightarrow> string list \<Rightarrow> (lower_error, upstream_block) result" where
  "apply_upstream_directive ll u name args =
     (if name = ''server'' then
        and_then (parse_upstream_server args) (\<lambda>s. Inr (u\<lparr>ub_servers := ub_servers u @ [s]\<rparr>))
      else if name = ''policy'' then
        and_then (parse_upstream_policy args) (\<lambda>p. Inr (u\<lparr>ub_policy := p\<rparr>))
      else if name = ''hash_key'' then
        and_then (reject (ub_hash_key u \<noteq> None) (LowerErr ''hash_key: directive is duplicated'')) (\<lambda>_.
        and_then (parse_upstream_hash_key ll args) (\<lambda>k. Inr (u\<lparr>ub_hash_key := Some k\<rparr>)))
      else Inl (LowerErr (''unsupported upstream directive: '' @ name)))"

definition lower_upstream_child :: "lower_lib \<Rightarrow> upstream_block \<Rightarrow> node \<Rightarrow> (lower_error, upstream_block) result" where
  "lower_upstream_child ll u n =
     (case n of
        Directive name args \<Rightarrow> apply_upstream_directive ll u name args
      | Block name args ns \<Rightarrow>
          if name = ''health_check'' then
            and_then (reject (ub_health_check u \<noteq> None) (LowerErr ''upstream block: health_check block is duplicated'')) (\<lambda>_.
            and_then (lower_upstream_health_check args ns) (\<lambda>c. Inr (u\<lparr>ub_health_check := Some c\<rparr>)))
          else if name = ''nrf_discovery'' then
            and_then (reject (ub_nrf_discovery u \<noteq> None) (LowerErr ''upstream block: nrf_discovery block is duplicated'')) (\<lambda>_.
            and_then (lower_nrf_discovery args ns) (\<lambda>d. Inr (u\<lparr>ub_nrf_discovery := Some d\<rparr>)))
          else Inl (LowerErr (''upstream block: nested blocks are not supported: '' @ name)))"

definition lower_upstream :: "lower_lib \<Rightarrow> string list \<Rightarrow> node list \<Rightarrow> (lower_error, upstream_block) result" where
  "lower_upstream ll args children =
     and_then (case args of
         [] \<Rightarrow> Inl (LowerErr ''upstream block: expected upstream name'')
       | [name] \<Rightarrow> if trim name \<noteq> [] then Inr name else Inl (LowerErr ''upstream block: expected exactly 1 argument'')
       | _ \<Rightarrow> Inl (LowerErr ''upstream block: expected exactly 1 argument'')) (\<lambda>name.
     fold_res (lower_upstream_child ll)
       \<lparr>ub_allow_empty = False, ub_name = name, ub_policy = RoundRobin, ub_hash_key = None, ub_servers = [],
        ub_nrf_discovery = None, ub_health_check = None\<rparr> children)"

section \<open>Locations\<close>

definition parse_location_matcher :: "string list \<Rightarrow> (lower_error, location_matcher) result" where
  "parse_location_matcher args =
     (case args of
        [op, v] \<Rightarrow>
          if op = ''='' then Inr (LmExact v)
          else if op = ''~'' then Inr (LmRegex False v)
          else if op = ''~*'' then Inr (LmRegex True v)
          else if op = ''^~'' then Inr (LmPreferPrefix v)
          else Inl (LowerErr (''invalid location args: '' @ debug_strs args))
      | [name] \<Rightarrow>
          if starts_with ''@'' name then Inr (LmNamed (trim_start_matches CHR ''@'' name)) else Inr (LmPrefix name)
      | _ \<Rightarrow> Inl (LowerErr (''invalid location args: '' @ debug_strs args)))"

definition parse_access_network :: "lower_lib \<Rightarrow> string \<Rightarrow> string \<Rightarrow> (lower_error, ip_net) result" where
  "parse_access_network ll v directive =
     ok_or (LowerErr (directive @ '': expected an IP address or CIDR, got '' @ quoted v))
       (parse_network (ll_net ll) (ll_net_of_ip ll) v)"

definition access_rule ::
  "lower_lib \<Rightarrow> string \<Rightarrow> location_ip_rule \<Rightarrow> (ip_net \<Rightarrow> location_ip_rule) \<Rightarrow> string list \<Rightarrow>
   (lower_error, location_ip_rule option) result" where
  "access_rule ll name all_rule net_rule args =
     (case args of
        [v] \<Rightarrow>
          if v = ''all'' then Inr (Some all_rule)
          else and_then (parse_access_network ll v name) (\<lambda>n. Inr (Some (net_rule n)))
      | [] \<Rightarrow> Inl (LowerErr (name @ '': expected <ip>|<cidr>|all''))
      | _ \<Rightarrow> Inl (LowerErr (name @ '': expected exactly 1 argument'')))"

definition apply_location_access_rule ::
  "lower_lib \<Rightarrow> string \<Rightarrow> string list \<Rightarrow> (lower_error, location_ip_rule option) result" where
  "apply_location_access_rule ll name args =
     (if name = ''allow'' then access_rule ll name AllowAll Allow args
      else if name = ''deny'' then access_rule ll name DenyAll Deny args
      else Inr None)"

definition cache_key_mode_of :: "string list \<Rightarrow> (lower_error, cache_key_mode) result" where
  "cache_key_mode_of args =
     (case args of
        [mode] \<Rightarrow>
          if mode = ''uri'' then Inr Uri
          else if mode = ''uri_and_method'' then Inr UriAndMethod
          else if mode = ''normalized_uri'' then Inr NormalizedUri
          else Inl (LowerErr (''proxy_cache_key: expected uri, uri_and_method, or normalized_uri, got '' @ mode))
      | [] \<Rightarrow> Inl (LowerErr ''proxy_cache_key: expected argument'')
      | _ \<Rightarrow> Inl (LowerErr ''proxy_cache_key: expected exactly 1 argument''))"

definition cache_statuses_of :: "string list \<Rightarrow> (lower_error, nat list) result" where
  "cache_statuses_of args =
     and_then (map_res (\<lambda>s. ok_or (LowerErr (''proxy_cache_valid: invalid status code '' @ quoted s))
       (parse_unsigned u16_max s)) args) (\<lambda>statuses.
     and_then (reject (statuses = []) (LowerErr ''proxy_cache_valid: expected at least one status code'')) (\<lambda>_.
     Inr statuses))"

definition apply_cache_directive ::
  "string \<Rightarrow> string list \<Rightarrow> cache_config option \<Rightarrow> (lower_error, cache_config option) result" where
  "apply_cache_directive name args existing =
     (if name = ''proxy_cache'' then
        (if args = [''off''] then
           and_then (reject (existing \<noteq> None) (LowerErr ''proxy_cache off cannot be used with other cache directives'')) (\<lambda>_.
           Inr (Some (cache_config_default\<lparr>cc_enabled := False\<rparr>)))
         else if args = [''on''] \<or> args = [] then Inr (Some cache_config_default)
         else Inl (LowerErr (''proxy_cache: expected 'on' or 'off', got '' @ debug_strs args)))
      else if name = ''proxy_cache_ttl'' then
        and_then (parse_single_duration_directive args name) (\<lambda>ttl.
        Inr (map_option (\<lambda>c. c\<lparr>cc_ttl := Some ttl\<rparr>) existing))
      else if name = ''proxy_cache_stale_if_error'' then
        and_then (parse_single_duration_directive args name) (\<lambda>d.
        Inr (map_option (\<lambda>c. c\<lparr>cc_stale_if_error := Some d\<rparr>) existing))
      else if name = ''proxy_cache_key'' then
        and_then (cache_key_mode_of args) (\<lambda>mode. Inr (map_option (\<lambda>c. c\<lparr>cc_cache_key := mode\<rparr>) existing))
      else if name = ''proxy_cache_min_uses'' then
        and_then (parse_positive_usize args name) (\<lambda>n. Inr (map_option (\<lambda>c. c\<lparr>cc_min_uses := Some n\<rparr>) existing))
      else if name = ''proxy_cache_valid'' then
        and_then (cache_statuses_of args) (\<lambda>ss. Inr (map_option (\<lambda>c. c\<lparr>cc_valid_statuses := ss\<rparr>) existing))
      else if name = ''proxy_cache_max_size'' then
        and_then (parse_exactly_one_argument args name) (\<lambda>raw.
        and_then (parse_size_literal raw name) (\<lambda>n. Inr (map_option (\<lambda>c. c\<lparr>cc_max_size := Some n\<rparr>) existing)))
      else Inr None)"

definition parse_proxy_cache_block :: "string list \<Rightarrow> node list \<Rightarrow> (lower_error, cache_config) result" where
  "parse_proxy_cache_block args children =
     and_then (reject (args \<noteq> []) (LowerErr ''proxy_cache block does not accept arguments'')) (\<lambda>_.
     lower_directives ''proxy_cache'' (\<lambda>cache name a.
       and_then (apply_cache_directive name a (Some cache)) (\<lambda>updated. Inr (or_default updated cache)))
       cache_config_default children)"

definition parse_proxy_upstream_protocol :: "string list \<Rightarrow> (lower_error, upstream_http_protocol) result" where
  "parse_proxy_upstream_protocol args =
     (case args of
        [v] \<Rightarrow>
          if v = ''h1'' then Inr H1 else if v = ''h2'' then Inr H2 else if v = ''h2c'' then Inr H2c
          else Inl (LowerErr ''proxy_upstream_protocol: expected h1|h2|h2c'')
      | [] \<Rightarrow> Inl (LowerErr ''proxy_upstream_protocol: expected h1|h2|h2c'')
      | _ \<Rightarrow> Inl (LowerErr ''proxy_upstream_protocol: expected exactly 1 argument''))"

definition lower_pem :: "string \<Rightarrow> string list \<Rightarrow> (lower_error, pem_source) result" where
  "lower_pem name args = and_then (parse_exactly_one_argument args name) (\<lambda>p. Inr (PemPath p))"

definition lower_return :: "string list \<Rightarrow> (lower_error, location_directive) result" where
  "lower_return args =
     (case args of
        [code, location] \<Rightarrow>
          and_then (ok_or (LowerErr (''return: invalid status code '' @ quoted code)) (parse_unsigned u16_max code)) (\<lambda>status.
          and_then (reject (\<not> (300 \<le> status \<and> status \<le> 399))
            (LowerErr (''return: status '' @ show_nat status @ '' is not a redirect (expected 3xx)''))) (\<lambda>_.
          Inr (LdReturn status location)))
      | [] \<Rightarrow> Inl (LowerErr ''return: expected 2 arguments: <status> <location>'')
      | _ \<Rightarrow> Inl (LowerErr ''return: expected exactly 2 arguments: <status> <location>''))"

definition lower_proxy_pass :: "lower_lib \<Rightarrow> string list \<Rightarrow> (lower_error, location_directive) result" where
  "lower_proxy_pass ll args =
     (case args of
        [raw] \<Rightarrow>
          and_then (map_err (\<lambda>e. LowerErr (''proxy_pass: invalid URL: '' @ e)) (ll_url ll raw)) (\<lambda>u.
          Inr (ProxyPass (PassUrl u)))
      | [] \<Rightarrow> Inl (LowerErr ''proxy_pass: expected URL'')
      | _ \<Rightarrow> Inl (LowerErr ''proxy_pass: expected exactly 1 argument''))"

definition apply_location_directive ::
  "lower_lib \<Rightarrow> string \<Rightarrow> string list \<Rightarrow> (lower_error, location_directive) result" where
  "apply_location_directive ll name args =
     (if name = ''allow_methods'' then
        and_then (reject (args = []) (LowerErr ''allow_methods requires at least one method'')) (\<lambda>_.
        Inr (AllowMethods args))
      else if name = ''client_max_body_size'' then
        and_then (parse_exactly_one_argument args name) (\<lambda>raw.
        and_then (parse_size_literal raw name) (\<lambda>n. Inr (ClientMaxBodySize n)))
      else if name = ''client_body_timeout'' then
        and_then (parse_single_duration_directive args name) (\<lambda>d. Inr (ClientBodyTimeout d))
      else if name = ''send_timeout'' then
        and_then (parse_single_duration_directive args name) (\<lambda>d. Inr (SendTimeout d))
      else if name = ''proxy_http2_max_concurrent_streams'' then
        and_then (parse_http2_value name args) (\<lambda>n. Inr (ProxyHttp2MaxConcurrentStreams n))
      else if name = ''proxy_http2_stream_window_size'' then
        and_then (parse_http2_value name args) (\<lambda>n. Inr (ProxyHttp2StreamWindowSize n))
      else if name = ''proxy_http2_connection_window_size'' then
        and_then (parse_http2_value name args) (\<lambda>n. Inr (ProxyHttp2ConnectionWindowSize n))
      else if name = ''scp_pass'' then
        and_then (parse_exactly_one_argument args name) (\<lambda>v. Inr (ScpPass v))
      else if name = ''proxy_pass'' then lower_proxy_pass ll args
      else if name = ''proxy_connect_timeout'' then
        and_then (parse_single_duration_directive args name) (\<lambda>d. Inr (ProxyConnectTimeout d))
      else if name = ''proxy_read_timeout'' then
        and_then (parse_single_duration_directive args name) (\<lambda>d. Inr (ProxyReadTimeout d))
      else if name = ''proxy_write_timeout'' then
        and_then (parse_single_duration_directive args name) (\<lambda>d. Inr (ProxyWriteTimeout d))
      else if name = ''proxy_upstream_protocol'' then
        and_then (parse_proxy_upstream_protocol args) (\<lambda>p. Inr (ProxyUpstreamProtocol p))
      else if name = ''proxy_ssl_verify'' then
        and_then (get_directive_switch name args) (\<lambda>s. Inr (ProxySslVerify s))
      else if name = ''proxy_ssl_trusted_certificate'' then
        and_then (lower_pem name args) (\<lambda>p. Inr (ProxySslTrustedCertificate p))
      else if name = ''proxy_ssl_certificate'' then
        and_then (lower_pem name args) (\<lambda>p. Inr (ProxySslCertificate p))
      else if name = ''proxy_ssl_certificate_key'' then
        and_then (lower_pem name args) (\<lambda>p. Inr (ProxySslCertificateKey p))
      else if name = ''return'' then lower_return args
      else Inl (LowerErr (''unknown directive in location: '' @ name)))"

text \<open>The contents of a location as they are collected.\<close>

record location_contents =
  lc_directives :: "location_directive list"
  lc_plugins :: "plugin_spec list"
  lc_cache :: "cache_config option"
  lc_access_rules :: "location_ip_rule list"

definition location_directive_node ::
  "lower_lib \<Rightarrow> location_contents \<Rightarrow> string \<Rightarrow> string list \<Rightarrow> (lower_error, location_contents) result" where
  "location_directive_node ll c name args =
     and_then (apply_cache_directive name args (lc_cache c)) (\<lambda>cache_field.
     case cache_field of
       Some cfg \<Rightarrow>
         and_then (reject (lc_cache c \<noteq> None) (LowerErr ''duplicate proxy_cache directive in location'')) (\<lambda>_.
         Inr (c\<lparr>lc_cache := Some cfg\<rparr>))
     | None \<Rightarrow>
         and_then (apply_location_access_rule ll name args) (\<lambda>rule.
         case rule of
           Some r \<Rightarrow> Inr (c\<lparr>lc_access_rules := lc_access_rules c @ [r]\<rparr>)
         | None \<Rightarrow>
             and_then (apply_location_directive ll name args) (\<lambda>d.
             Inr (c\<lparr>lc_directives := lc_directives c @ [d]\<rparr>))))"

definition location_node :: "lower_lib \<Rightarrow> location_contents \<Rightarrow> node \<Rightarrow> (lower_error, location_contents) result" where
  "location_node ll c n =
     (case n of
        Directive name args \<Rightarrow> location_directive_node ll c name args
      | Block name args ns \<Rightarrow>
          if name = ''proxy_cache'' then
            and_then (reject (lc_cache c \<noteq> None) (LowerErr ''duplicate proxy_cache block in location'')) (\<lambda>_.
            and_then (parse_proxy_cache_block args ns) (\<lambda>cfg. Inr (c\<lparr>lc_cache := Some cfg\<rparr>)))
          else
            and_then (parse_location_plugin_block ll name args ns) (\<lambda>p.
            Inr (c\<lparr>lc_plugins := lc_plugins c @ [p]\<rparr>)))"

definition parse_location_contents :: "lower_lib \<Rightarrow> node list \<Rightarrow> (lower_error, location_contents) result" where
  "parse_location_contents ll nodes =
     fold_res (location_node ll)
       \<lparr>lc_directives = [], lc_plugins = [], lc_cache = None, lc_access_rules = []\<rparr> nodes"

definition lower_location :: "lower_lib \<Rightarrow> string list \<Rightarrow> node list \<Rightarrow> (lower_error, location) result" where
  "lower_location ll args children =
     and_then (parse_location_matcher args) (\<lambda>m.
     and_then (parse_location_contents ll children) (\<lambda>c.
     Inr \<lparr>lo_matcher = m, lo_access_rules = lc_access_rules c, lo_directives = lc_directives c,
          lo_plugins = lc_plugins c, lo_cache = lc_cache c\<rparr>))"

end
