(* ===== verification/Lower.thy ===== *)
theory Lower
  imports Lower_Blocks
begin

text \<open>
  From the syntax tree to the intermediate representation
  (\<^verbatim>\<open>crates/ngxora-compile/src/transform.rs\<close>, \<^verbatim>\<open>transform/listeners.rs\<close> and \<^verbatim>\<open>transform/geoip.rs\<close>), and the
  validation of the result (\<^verbatim>\<open>validate.rs\<close>).
\<close>

section \<open>Servers\<close>

definition listen_endpoint :: "string \<Rightarrow> (lower_error, ip_addr \<times> nat) result" where
  "listen_endpoint endpoint =
     (case strip_prefix ''*:'' endpoint of
        Some port_str \<Rightarrow>
          and_then (ok_or (LowerErr (''listen: invalid port '' @ debug_str port_str)) (parse_unsigned u16_max port_str)) (\<lambda>port.
          Inr (V4 0, port))
      | None \<Rightarrow>
          if starts_with ''unix:'' endpoint then Inl (LowerErr ''listen: unix sockets not supported'')
          else
            (case parse_socket_addr endpoint of
               Some a \<Rightarrow> Inr a
             | None \<Rightarrow>
                 (case parse_unsigned u16_max endpoint of
                    Some port \<Rightarrow> Inr (V4 0, port)
                  | None \<Rightarrow> Inl (LowerErr (''Failed parse address: '' @ debug_str endpoint)))))"

definition listen_param :: "string list \<Rightarrow> listen \<Rightarrow> string \<Rightarrow> (lower_error, listen) result" where
  "listen_param params l p =
     (if p = ''ssl'' then Inr (l\<lparr>li_ssl := True\<rparr>)
      else if p = ''default_server'' then Inr (l\<lparr>li_default_server := True\<rparr>)
      else if p = ''http2'' then Inr (l\<lparr>li_http2 := True\<rparr>)
      else if p = ''http2_only'' then Inr (l\<lparr>li_http2 := True, li_http2_only := True\<rparr>)
      else Inl (LowerErr (''Unknow params: '' @ debug_strs params)))"

definition parse_listen_directives :: "string list \<Rightarrow> (lower_error, listen) result" where
  "parse_listen_directives args =
     (case args of
        [] \<Rightarrow> Inl (LowerErr ''listen: expected endpoint'')
      | endpoint # params \<Rightarrow>
          and_then (listen_endpoint endpoint) (\<lambda>(addr, port).
          and_then (fold_res (listen_param params) (listen_default\<lparr>li_addr := addr, li_port := port\<rparr>) params) (\<lambda>l.
          and_then (reject (li_http2 l \<and> \<not> li_ssl l)
            (LowerErr ''listen: http2/http2_only requires ssl; use h2c for plaintext HTTP/2'')) (\<lambda>_.
          Inr l))))"

definition tls_version_of :: "string \<Rightarrow> (lower_error, tls_protocol_version) result" where
  "tls_version_of arg =
     (if arg = ''TLSv1'' then Inr Tls1
      else if arg = ''TLSv1.2'' then Inr Tls1_2
      else if arg = ''TLSv1.3'' then Inr Tls1_3
      else Inl (LowerErr (''ssl_protocols: unsupported protocol '' @ quoted arg)))"

text \<open>The versions collected in a \<^verbatim>\<open>BTreeSet\<close>, in increasing order.\<close>

definition parse_ssl_protocols :: "string list \<Rightarrow> (lower_error, tls_protocol_bounds) result" where
  "parse_ssl_protocols args =
     and_then (reject (args = []) (LowerErr ''ssl_protocols: expected at least 1 argument'')) (\<lambda>_.
     and_then (map_res tls_version_of args) (\<lambda>vs.
     let versions = sort (remdups vs)
     in if versions = [Tls1_2, Tls1_3] then Inr \<lparr>tb_min = Tls1_2, tb_max = Tls1_3\<rparr>
        else
          (case versions of
             [v] \<Rightarrow> Inr \<lparr>tb_min = v, tb_max = v\<rparr>
           | _ \<Rightarrow> Inl (LowerErr ''ssl_protocols: supported combinations are `TLSv1`, `TLSv1.2`, `TLSv1.3`, or `TLSv1.2 TLSv1.3`''))))"

definition parse_ssl_verify_client :: "string list \<Rightarrow> (lower_error, tls_verify_client) result" where
  "parse_ssl_verify_client args =
     (case args of
        [v] \<Rightarrow>
          if v = ''off'' then Inr VerifyOff
          else if v = ''optional'' then Inr VerifyOptional
          else if v = ''required'' then Inr VerifyRequired
          else Inl (LowerErr ''ssl_verify_client: expected off|optional|required'')
      | [] \<Rightarrow> Inl (LowerErr ''ssl_verify_client: expected off|optional|required'')
      | _ \<Rightarrow> Inl (LowerErr ''ssl_verify_client: expected exactly one argument''))"

text \<open>\<^verbatim>\<open>get_or_insert_with\<close> a custom identity, then edit it when the provider is a custom one.\<close>

definition edit_identity :: "(tls_identity \<Rightarrow> tls_identity) \<Rightarrow> ssl_provider option \<Rightarrow> ssl_provider option" where
  "edit_identity f t =
     Some (case or_default t (Custom tls_identity_default) of
             Custom tls \<Rightarrow> Custom (f tls)
           | LetsEncrypt \<Rightarrow> LetsEncrypt)"

definition apply_server_directive :: "server \<Rightarrow> string \<Rightarrow> string list \<Rightarrow> (lower_error, server) result" where
  "apply_server_directive s name args =
     (let tls = sv_tls_options s
      in
      if name = ''listen'' then
        and_then (parse_listen_directives args) (\<lambda>l. Inr (s\<lparr>sv_listens := sv_listens s @ [l]\<rparr>))
      else if name = ''server_name'' then
        and_then (reject (args = []) (LowerErr ''server_name: expected at least 1 argument'')) (\<lambda>_.
        Inr (s\<lparr>sv_server_names := sv_server_names s @ args\<rparr>))
      else if name = ''ssl_certificate'' then
        and_then (lower_pem name args) (\<lambda>p. Inr (s\<lparr>sv_tls := edit_identity (ti_cert_update (\<lambda>_. p)) (sv_tls s)\<rparr>))
      else if name = ''ssl_certificate_key'' then
        and_then (lower_pem name args) (\<lambda>p. Inr (s\<lparr>sv_tls := edit_identity (ti_key_update (\<lambda>_. p)) (sv_tls s)\<rparr>))
      else if name = ''ssl_protocols'' then
        and_then (parse_ssl_protocols args) (\<lambda>b. Inr (s\<lparr>sv_tls_options := tls\<lparr>dt_protocols := Some b\<rparr>\<rparr>))
      else if name = ''ssl_verify_client'' then
        and_then (parse_ssl_verify_client args) (\<lambda>v. Inr (s\<lparr>sv_tls_options := tls\<lparr>dt_verify_client := v\<rparr>\<rparr>))
      else if name = ''ssl_client_certificate'' then
        and_then (lower_pem name args) (\<lambda>p. Inr (s\<lparr>sv_tls_options := tls\<lparr>dt_client_certificate := Some p\<rparr>\<rparr>))
      else Inl (LowerErr (''unsupported server directive: '' @ name)))"

definition lower_server_child :: "lower_lib \<Rightarrow> server \<Rightarrow> node \<Rightarrow> (lower_error, server) result" where
  "lower_server_child ll s n =
     (case n of
        Directive name args \<Rightarrow> apply_server_directive s name args
      | Block name args ns \<Rightarrow>
          if name = ''location'' then
            and_then (lower_location ll args ns) (\<lambda>l. Inr (s\<lparr>sv_locations := sv_locations s @ [l]\<rparr>))
          else Inl (LowerErr (''Unknown name of block: '' @ debug_str name)))"

definition validate_server :: "server \<Rightarrow> (lower_error, unit) result" where
  "validate_server s =
     reject (dt_verify_client (sv_tls_options s) \<noteq> VerifyOff \<and> dt_client_certificate (sv_tls_options s) = None)
       (LowerErr ''ssl_verify_client: requires ssl_client_certificate'')"

definition server_default :: server where
  "server_default =
     \<lparr>sv_server_names = [], sv_locations = [], sv_listens = [], sv_tls = None, sv_tls_options = downstream_tls_default\<rparr>"

definition lower_server :: "lower_lib \<Rightarrow> node list \<Rightarrow> (lower_error, server) result" where
  "lower_server ll children =
     and_then (fold_res (lower_server_child ll) server_default children) (\<lambda>s.
     and_then (validate_server s) (\<lambda>_. Inr s))"

section \<open>Providers\<close>

definition apply_ssl_provider_directive ::
  "lets_encrypt_config \<Rightarrow> string \<Rightarrow> string list \<Rightarrow> (lower_error, lets_encrypt_config) result" where
  "apply_ssl_provider_directive c name args =
     (if name = ''acme_directory'' then
        and_then (parse_exactly_one_argument args name) (\<lambda>v. Inr (c\<lparr>le_acme_directory := Some v\<rparr>))
      else if name = ''email'' then
        and_then (parse_exactly_one_argument args name) (\<lambda>v. Inr (c\<lparr>le_email := Some v\<rparr>))
      else if name = ''cache_dir'' then
        and_then (parse_exactly_one_argument args name) (\<lambda>v. Inr (c\<lparr>le_cache_dir := Some v\<rparr>))
      else Inl (LowerErr (''ssl_provider: unsupported directive '' @ quoted name)))"

definition lower_ssl_provider :: "string list \<Rightarrow> node list \<Rightarrow> (lower_error, lets_encrypt_config) result" where
  "lower_ssl_provider args children =
     and_then (reject (args = []) (LowerErr ''ssl_provider: expected provider name (letsencrypt)'')) (\<lambda>_.
     and_then (reject (args \<noteq> [''letsencrypt''])
       (LowerErr ''ssl_provider: only 'letsencrypt' is supported as a provider name'')) (\<lambda>_.
     fold_res (\<lambda>c n. case n of
         Directive name a \<Rightarrow> apply_ssl_provider_directive c name a
       | Block name a ns \<Rightarrow> Inl (LowerErr (''ssl_provider: unexpected block '' @ quoted name)))
       \<lparr>le_acme_directory = None, le_email = None, le_cache_dir = None\<rparr> children))"

record geoip_draft =
  gd_database :: "string option"
  gd_interval :: "duration option"
  gd_trusted_proxies :: "ip_net list"

definition apply_geoip_directive ::
  "lower_lib \<Rightarrow> geoip_draft \<Rightarrow> string \<Rightarrow> string list \<Rightarrow> (lower_error, geoip_draft) result" where
  "apply_geoip_directive ll g name args =
     (case args of
        [v] \<Rightarrow>
          if name = ''database'' \<and> gd_database g = None then Inr (g\<lparr>gd_database := Some v\<rparr>)
          else if name = ''reload_interval'' \<and> gd_interval g = None then
            and_then (parse_single_duration_directive args ''geoip reload_interval'') (\<lambda>d.
            Inr (g\<lparr>gd_interval := Some d\<rparr>))
          else if name = ''trusted_proxy'' then
            and_then (ok_or (LowerErr ''invalid geoip trusted_proxy: expected IP or CIDR'')
              (parse_network (ll_net ll) (ll_net_of_ip ll) v)) (\<lambda>n.
            Inr (g\<lparr>gd_trusted_proxies := gd_trusted_proxies g @ [n]\<rparr>))
          else Inl (LowerErr ''unknown or duplicate geoip directive'')
      | _ \<Rightarrow> Inl (LowerErr ''geoip directives require exactly one argument''))"

definition lower_geoip :: "lower_lib \<Rightarrow> string list \<Rightarrow> node list \<Rightarrow> (lower_error, geoip_config) result" where
  "lower_geoip ll args children =
     and_then (reject (args \<noteq> []) (LowerErr ''geoip block takes no arguments'')) (\<lambda>_.
     and_then (fold_res (\<lambda>g n. case n of
         Directive name a \<Rightarrow> apply_geoip_directive ll g name a
       | Block name a ns \<Rightarrow> Inl (LowerErr ''geoip does not accept nested blocks''))
       \<lparr>gd_database = None, gd_interval = None, gd_trusted_proxies = []\<rparr> children) (\<lambda>g.
     and_then (ok_or (LowerErr ''geoip requires database'') (gd_database g)) (\<lambda>database.
     let config = \<lparr>gi_database = database, gi_reload_interval = or_default (gd_interval g) (from_secs 5),
                   gi_trusted_proxies = gd_trusted_proxies g\<rparr>
     in and_then (map_err LowerErr (geoip_validate config)) (\<lambda>_. Inr config))))"

section \<open>The http block\<close>

definition once_in_http :: "'a option \<Rightarrow> 'a \<Rightarrow> string \<Rightarrow> (lower_error, 'a option) result" where
  "once_in_http slot v name =
     and_then (reject (slot \<noteq> None) (LowerErr (name @ '' is duplicated in http''))) (\<lambda>_. Inr (Some v))"

text \<open>The HTTP/2 limits; other directives are \<^term>\<open>None\<close>.\<close>

definition apply_http2_directive ::
  "http2_options \<Rightarrow> string \<Rightarrow> string list \<Rightarrow> (lower_error, http2_options) result option" where
  "apply_http2_directive o2 name args =
     (if name = ''http2_max_concurrent_streams'' then
        Some (and_then (parse_http2_value name args) (\<lambda>v.
          and_then (once_in_http (h2_max_concurrent_streams o2) v name) (\<lambda>s. Inr (o2\<lparr>h2_max_concurrent_streams := s\<rparr>))))
      else if name = ''http2_max_header_list_size'' then
        Some (and_then (parse_http2_value name args) (\<lambda>v.
          and_then (once_in_http (h2_max_header_list_size o2) v name) (\<lambda>s. Inr (o2\<lparr>h2_max_header_list_size := s\<rparr>))))
      else if name = ''http2_stream_window_size'' then
        Some (and_then (parse_http2_value name args) (\<lambda>v.
          and_then (once_in_http (h2_stream_window_size o2) v name) (\<lambda>s. Inr (o2\<lparr>h2_stream_window_size := s\<rparr>))))
      else if name = ''http2_connection_window_size'' then
        Some (and_then (parse_http2_value name args) (\<lambda>v.
          and_then (once_in_http (h2_connection_window_size o2) v name) (\<lambda>s. Inr (o2\<lparr>h2_connection_window_size := s\<rparr>))))
      else None)"

text \<open>The address of the client behind proxies.\<close>

definition apply_real_ip_directive ::
  "lower_lib \<Rightarrow> real_ip_config \<Rightarrow> string \<Rightarrow> string list \<Rightarrow> (lower_error, real_ip_config) result option" where
  "apply_real_ip_directive ll c name args =
     (if name = ''set_real_ip_from'' then
        Some (and_then (parse_exactly_one_argument args name) (\<lambda>v.
          and_then (ok_or (LowerErr ''set_real_ip_from: expected IP or CIDR'')
            (parse_network (ll_net ll) (ll_net_of_ip ll) v)) (\<lambda>n.
          Inr (c\<lparr>ri_trusted_proxies := ri_trusted_proxies c @ [n]\<rparr>))))
      else if name = ''real_ip_header'' then
        Some (and_then (parse_exactly_one_argument args name) (\<lambda>v.
          let c' = c\<lparr>ri_header := v\<rparr>
          in and_then (map_err LowerErr (real_ip_validate c')) (\<lambda>_. Inr c')))
      else if name = ''real_ip_recursive'' then
        Some (and_then (get_directive_switch name args) (\<lambda>s. Inr (c\<lparr>ri_recursive := (s = On)\<rparr>)))
      else None)"

definition apply_http_timeout ::
  "http \<Rightarrow> string \<Rightarrow> string list \<Rightarrow> (lower_error, http) result" where
  "apply_http_timeout h name args =
     and_then (parse_single_duration_directive args name) (\<lambda>v.
     if name = ''client_header_timeout'' then
       and_then (once_in_http (ht_client_header_timeout h) v name) (\<lambda>s. Inr (h\<lparr>ht_client_header_timeout := s\<rparr>))
     else if name = ''client_body_timeout'' then
       and_then (once_in_http (ht_client_body_timeout h) v name) (\<lambda>s. Inr (h\<lparr>ht_client_body_timeout := s\<rparr>))
     else
       and_then (once_in_http (ht_send_timeout h) v name) (\<lambda>s. Inr (h\<lparr>ht_send_timeout := s\<rparr>)))"

definition apply_http_option :: "http \<Rightarrow> string \<Rightarrow> string list \<Rightarrow> (lower_error, http) result" where
  "apply_http_option h name args =
     (if name \<in> set [''client_header_timeout'', ''client_body_timeout'', ''send_timeout''] then apply_http_timeout h name args
      else if name = ''keepalive_timeout'' then
        and_then (parse_keepalive_timeout args) (\<lambda>t. Inr (h\<lparr>ht_keepalive_timeout := t\<rparr>))
      else if name = ''keepalive_requests'' then
        and_then (parse_keepalive_requests args) (\<lambda>n. Inr (h\<lparr>ht_keepalive_requests := Some n\<rparr>))
      else if name = ''client_max_body_size'' then
        and_then (parse_client_max_body_size args) (\<lambda>n. Inr (h\<lparr>ht_client_max_body_size := n\<rparr>))
      else if name = ''tcp_nodelay'' then
        and_then (get_directive_switch name args) (\<lambda>s. Inr (h\<lparr>ht_tcp_nodelay := s\<rparr>))
      else if name = ''allow_connect_method_proxying'' then
        and_then (get_directive_switch name args) (\<lambda>s. Inr (h\<lparr>ht_allow_connect_method_proxying := s\<rparr>))
      else if name = ''h2c'' then
        and_then (get_directive_switch name args) (\<lambda>s. Inr (h\<lparr>ht_h2c := s\<rparr>))
      else if name = ''proxy_cache_max_size'' then
        and_then (parse_exactly_one_argument args name) (\<lambda>raw.
        and_then (parse_size_literal raw name) (\<lambda>n. Inr (h\<lparr>ht_proxy_cache_max_size := Some n\<rparr>)))
      else Inl (LowerErr (''unsupported http directive: '' @ name)))"

definition apply_http_directive ::
  "lower_lib \<Rightarrow> http \<Rightarrow> string \<Rightarrow> string list \<Rightarrow> (lower_error, http) result" where
  "apply_http_directive ll h name args =
     (case apply_http2_directive (ht_http2 h) name args of
        Some r \<Rightarrow> and_then r (\<lambda>o2. Inr (h\<lparr>ht_http2 := o2\<rparr>))
      | None \<Rightarrow>
          (case apply_real_ip_directive ll (or_default (ht_real_ip h) real_ip_default) name args of
             Some r \<Rightarrow> and_then r (\<lambda>c. Inr (h\<lparr>ht_real_ip := Some c\<rparr>))
           | None \<Rightarrow> apply_http_option h name args))"

definition lower_http_child :: "lower_lib \<Rightarrow> http \<Rightarrow> node \<Rightarrow> (lower_error, http) result" where
  "lower_http_child ll h n =
     (case n of
        Directive name args \<Rightarrow> apply_http_directive ll h name args
      | Block name args ns \<Rightarrow>
          if name = ''geoip'' then
            and_then (reject (ht_geoip h \<noteq> None) (LowerErr ''duplicate geoip block'')) (\<lambda>_.
            and_then (lower_geoip ll args ns) (\<lambda>g. Inr (h\<lparr>ht_geoip := Some g\<rparr>)))
          else if name = ''scp'' then
            and_then (lower_scp args ns) (\<lambda>p. Inr (h\<lparr>ht_scp_profiles := ht_scp_profiles h @ [p]\<rparr>))
          else if name = ''server'' then
            and_then (lower_server ll ns) (\<lambda>s. Inr (h\<lparr>ht_servers := ht_servers h @ [s]\<rparr>))
          else if name = ''upstream'' then
            and_then (lower_upstream ll args ns) (\<lambda>u. Inr (h\<lparr>ht_upstreams := ht_upstreams h @ [u]\<rparr>))
          else if name = ''ssl_provider'' then
            and_then (reject (ht_ssl_provider h \<noteq> None) (LowerErr ''duplicate ssl_provider block'')) (\<lambda>_.
            and_then (lower_ssl_provider args ns) (\<lambda>p. Inr (h\<lparr>ht_ssl_provider := Some p\<rparr>)))
          else Inl (LowerErr (''Unknown block name: '' @ debug_str name)))"

definition has_ssl_listener :: "server \<Rightarrow> bool" where
  "has_ssl_listener s = list_ex li_ssl (sv_listens s)"

definition assign_provider :: "server \<Rightarrow> server" where
  "assign_provider s = (if has_ssl_listener s \<and> sv_tls s = None then s\<lparr>sv_tls := Some LetsEncrypt\<rparr> else s)"

definition check_server_tls :: "lets_encrypt_config option \<Rightarrow> server \<Rightarrow> (lower_error, unit) result" where
  "check_server_tls provider s =
     (if \<not> has_ssl_listener s then Inr ()
      else
        (case sv_tls s of
           Some (Custom tls) \<Rightarrow>
             and_then (reject (ti_cert tls = PemPath []) (LowerErr ''ssl listener requires ssl_certificate'')) (\<lambda>_.
             reject (ti_key tls = PemPath []) (LowerErr ''ssl listener requires ssl_certificate_key''))
         | Some LetsEncrypt \<Rightarrow>
             and_then (reject (provider = None)
               (LowerErr ''ssl listener with LetsEncrypt provider requires an ssl_provider letsencrypt { ... } block in http'')) (\<lambda>_.
             and_then (reject (sv_server_names s = [])
               (LowerErr ''ssl listener with LetsEncrypt requires at least one server_name for certificate issuance'')) (\<lambda>_.
             reject (1 < length (sv_server_names s))
               (LowerErr ''ssl listener with LetsEncrypt currently supports exactly one server_name; split aliases into separate server blocks or use a manual certificate'')))
         | None \<Rightarrow> Inl (LowerErr ''ssl listener requires a certificate: use ssl_certificate / ssl_certificate_key, or enable ssl_provider letsencrypt'')))"

definition lower_http :: "lower_lib \<Rightarrow> node list \<Rightarrow> (lower_error, http) result" where
  "lower_http ll children =
     and_then (fold_res (lower_http_child ll) http_default children) (\<lambda>h.
     let h' = (if ht_ssl_provider h \<noteq> None then h\<lparr>ht_servers := map assign_provider (ht_servers h)\<rparr> else h)
     in and_then (map_res (check_server_tls (ht_ssl_provider h')) (ht_servers h')) (\<lambda>_. Inr h'))"

text \<open>Only http blocks of the top level count, and the last one wins.\<close>

definition from_ast_node :: "lower_lib \<Rightarrow> http option \<Rightarrow> node \<Rightarrow> (lower_error, http option) result" where
  "from_ast_node ll acc n =
     (case n of
        Directive name args \<Rightarrow> Inr acc
      | Block name args ns \<Rightarrow>
          if name = ''http'' then and_then (lower_http ll ns) (\<lambda>h. Inr (Some h)) else Inr acc)"

definition from_ast :: "lower_lib \<Rightarrow> ast \<Rightarrow> (lower_error, ir) result" where
  "from_ast ll a = and_then (fold_res (from_ast_node ll) None (items a)) (\<lambda>h. Inr \<lparr>ir_http = h\<rparr>)"

section \<open>Validation\<close>

definition validate_weight :: "upstream_block \<Rightarrow> nat \<Rightarrow> upstream_server \<Rightarrow> (string, nat) result" where
  "validate_weight u total_weight s =
     and_then (reject (usv_weight s = 0)
       (''upstream '' @ quoted (ub_name u) @ '' backend '' @ quoted (usv_host s @ '':'' @ show_nat (usv_port s)) @
        '' weight must be greater than zero'')) (\<lambda>_.
     Inr ((total_weight + usv_weight s) mod 2 ^ 32))"

definition validate_upstream :: "lower_lib \<Rightarrow> upstream_block \<Rightarrow> (string, unit) result" where
  "validate_upstream ll u =
     (let name = ''upstream '' @ quoted (ub_name u)
      in
      and_then (reject (ub_servers u = [] \<and> ub_nrf_discovery u = None \<and> \<not> ub_allow_empty u)
        (name @ '' must define at least one server or nrf_discovery'')) (\<lambda>_.
      and_then (reject (ub_servers u \<noteq> [] \<and> ub_nrf_discovery u \<noteq> None)
        (name @ '' cannot combine server directives with nrf_discovery'')) (\<lambda>_.
      and_then (reject (ub_nrf_discovery u \<noteq> None \<and> ub_health_check u = None)
        (name @ '' with nrf_discovery must define health_check'')) (\<lambda>_.
      and_then (fold_res (validate_weight u) 0 (ub_servers u)) (\<lambda>total_weight.
      and_then (reject (u16_max < total_weight) (name @ '' total backend weight must not exceed 65535'')) (\<lambda>_.
      and_then (reject (ub_policy u \<noteq> ConsistentHash \<and> ub_hash_key u \<noteq> None)
        (name @ '' hash_key requires policy consistent_hash'')) (\<lambda>_.
      case ub_hash_key u of
        Some (Header h) \<Rightarrow>
          reject (\<not> ll_header_name_ok ll h) (name @ '' hash_key has invalid HTTP header name '' @ quoted h)
      | _ \<Rightarrow> Inr ())))))))"

text \<open>Server and location numbers of the messages are counted from one.\<close>

definition unsupported_location_directive :: "nat \<Rightarrow> nat \<Rightarrow> string \<Rightarrow> string" where
  "unsupported_location_directive server_index location_index directive =
     ''server '' @ show_nat (server_index + 1) @ '' location '' @ show_nat (location_index + 1) @
     '' uses unsupported directive '' @ quoted directive"

definition validate_action :: "nat \<Rightarrow> nat \<Rightarrow> nat \<Rightarrow> location_directive \<Rightarrow> (string, nat) result" where
  "validate_action i j n d =
     (case d of
        ProxyPass _ \<Rightarrow> Inr (n + 1)
      | ScpPass _ \<Rightarrow> Inr (n + 1)
      | LdReturn _ _ \<Rightarrow> Inr (n + 1)
      | LdWeightedBackends _ \<Rightarrow> Inr (n + 1)
      | LdDirectResponse _ \<Rightarrow> Inr (n + 1)
      | LdHttpRedirect _ \<Rightarrow> Inr (n + 1)
      | Root _ \<Rightarrow> Inl (unsupported_location_directive i j ''root'')
      | TryFiles _ \<Rightarrow> Inl (unsupported_location_directive i j ''try_files'')
      | _ \<Rightarrow> Inr n)"

definition validate_location :: "nat \<Rightarrow> nat \<times> location \<Rightarrow> (string, unit) result" where
  "validate_location i jl =
     (case jl of (j, l) \<Rightarrow>
        and_then (fold_res (validate_action i j) 0 (lo_directives l)) (\<lambda>n.
        reject (n \<noteq> 1)
          (''server '' @ show_nat (i + 1) @ '' location '' @ show_nat (j + 1) @
           '' must contain exactly one proxy_pass or return directive'')))"

definition ir_validate :: "lower_lib \<Rightarrow> ir \<Rightarrow> (string, unit) result" where
  "ir_validate ll i =
     and_then (ok_or ''configuration does not contain an http block'' (ir_http i)) (\<lambda>h.
     and_then (reject (ht_servers h = []) ''http block does not contain any server blocks'') (\<lambda>_.
     and_then (map_res (validate_upstream ll) (ht_upstreams h)) (\<lambda>_.
     and_then (map_res (\<lambda>(i, s). map_res (validate_location i) (enumerate 0 (sv_locations s)))
       (enumerate 0 (ht_servers h))) (\<lambda>_.
     Inr ()))))"

end
