(* ===== verification/Lower_Safety.thy ===== *)
theory Lower_Safety
  imports Lower Compile_Safety
begin

text \<open>
  What the transformation of a configuration guarantees: durations mean what their text says, the
  global options are in the ranges the compiler asks for, TLS listeners have their certificates,
  and access rules are enforced in the order in which they are written.
\<close>

section \<open>Durations\<close>

text \<open>The units of time in milliseconds, and a duration as its segments: digits and a unit.\<close>

definition time_units :: "(string \<times> nat) list" where
  "time_units =
     (let second = 1000; minute = 60 * second; hour = 60 * minute; day = 24 * hour
      in [(''ms'', 1), (''s'', second), (''m'', minute), (''h'', hour), (''d'', day), (''w'', 7 * day),
          (''M'', 30 * day), (''y'', 365 * day)])"

lemma unit_table [simp]: "map_of time_units u = unit_multiplier_millis u"
  by (auto simp: time_units_def unit_multiplier_millis_def)

fun segment_ok :: "string \<times> string \<Rightarrow> bool" where
  "segment_ok (ds, u) \<longleftrightarrow> ds \<noteq> [] \<and> list_all is_ascii_digit ds \<and> map_of time_units u \<noteq> None"

fun segment_text :: "string \<times> string \<Rightarrow> string" where
  "segment_text (ds, u) = ds @ u"

fun segment_millis :: "string \<times> string \<Rightarrow> nat" where
  "segment_millis (ds, u) = digits_value ds * the (map_of time_units u)"

definition segments_text :: "(string \<times> string) list \<Rightarrow> string" where
  "segments_text segs = concat (map segment_text segs)"

definition segments_millis :: "(string \<times> string) list \<Rightarrow> nat" where
  "segments_millis segs = sum_list (map segment_millis segs)"

lemma plus_no_digit: "\<not> is_ascii_digit CHR ''+''"
  by code_simp

lemma parse_digits:
  "list_all is_ascii_digit ds \<Longrightarrow>
   parse_unsigned m ds = (if ds \<noteq> [] \<and> digits_value ds \<le> m then Some (digits_value ds) else None)"
  using plus_no_digit by (cases ds) (auto simp: parse_unsigned_def Let_def)

lemma unit_cases:
  assumes "unit_multiplier_millis u = Some k"
  obtains "u = ''ms''" | c where "u = [c]" "\<not> is_ascii_digit c" "0 < k"
  using assms by (auto simp: unit_multiplier_millis_def is_ascii_digit_def byte_def split: if_splits)

lemma unit_multiplier_pos: "unit_multiplier_millis u = Some k \<Longrightarrow> 0 < k"
  by (auto simp: unit_multiplier_millis_def split: if_splits)

lemma unit_starts: "unit_multiplier_millis u = Some k \<Longrightarrow> \<exists>c r. u = c # r \<and> \<not> is_ascii_digit c"
  by (erule unit_cases) (auto simp: is_ascii_digit_def byte_def)

lemma digit_at_boundary: "is_ascii_digit c \<Longrightarrow> at_boundary (c # r)"
  by (simp add: at_boundary_def is_ascii_digit_def)

lemma segments_start:
  assumes "list_all segment_ok segs" and "segments_text segs \<noteq> []"
  shows "\<exists>c r. segments_text segs = c # r \<and> is_ascii_digit c"
proof (cases segs)
  case (Cons s segs')
  obtain ds u where s: "s = (ds, u)" by (cases s)
  with Cons assms obtain c r where "ds = c # r" "is_ascii_digit c" by (cases ds) auto
  with Cons s show ?thesis by (simp add: segments_text_def)
qed (use assms in \<open>simp add: segments_text_def\<close>)

lemma duration_unit_segment:
  assumes u: "unit_multiplier_millis u = Some k" and rest: "rest = [] \<or> (\<exists>c r. rest = c # r \<and> is_ascii_digit c)"
  shows "duration_unit raw dir saw (u @ rest) = Inr (u, rest)"
  using u
proof (cases rule: unit_cases)
  case 1
  then show ?thesis by (simp add: duration_unit_def)
next
  case (2 c)
  have "strip_prefix ''ms'' (c # rest) = None"
    using rest by (auto simp: strip_prefix_None_iff is_ascii_digit_def byte_def)
  moreover have "at_boundary rest" using rest digit_at_boundary by (auto simp: at_boundary_def)
  ultimately show ?thesis using 2 by (simp add: duration_unit_def)
qed

lemma duration_unit_Inr:
  assumes "duration_unit raw dir saw rest = Inr (u, rest')"
  shows "rest = u @ rest' \<or> (rest = [] \<and> \<not> saw \<and> u = ''s'' \<and> rest' = [])"
  using assms
  by (auto simp: duration_unit_def strip_prefix_Some_iff split: list.splits option.splits if_splits)

declare duration_loop.simps [simp del]

lemma take_digits:
  assumes "list_all is_ascii_digit ds" and "rest = [] \<or> (\<exists>c r. rest = c # r \<and> \<not> is_ascii_digit c)"
  shows "takeWhile is_ascii_digit (ds @ rest) = ds" and "dropWhile is_ascii_digit (ds @ rest) = rest"
  using assms by (auto simp: list_all_iff takeWhile_append dropWhile_append)

lemma duration_loop_complete:
  assumes "list_all segment_ok segs" and "tot + segments_millis segs \<le> u128_max"
  shows "duration_loop raw dir tot saw (segments_text segs) = Inr (tot + segments_millis segs)"
  using assms
proof (induction segs arbitrary: tot saw)
  case Nil
  then show ?case by (simp add: segments_text_def segments_millis_def duration_loop.simps)
next
  case (Cons s segs)
  obtain ds u where s: "s = (ds, u)" by (cases s)
  from Cons.prems(1) s obtain k where ds: "ds \<noteq> []" "list_all is_ascii_digit ds"
    and k: "unit_multiplier_millis u = Some k" and segs: "list_all segment_ok segs"
    by auto
  let ?rest = "segments_text segs"
  let ?seg = "digits_value ds * k"
  have tx: "segments_text (s # segs) = ds @ u @ ?rest" by (simp add: segments_text_def s)
  have millis: "segments_millis (s # segs) = ?seg + segments_millis segs" by (simp add: segments_millis_def s k)
  have bound: "tot + ?seg + segments_millis segs \<le> u128_max" using Cons.prems(2) millis by simp
  have "digits_value ds \<le> ?seg" using unit_multiplier_pos [OF k] by simp
  then have small: "digits_value ds \<le> u128_max" using bound by linarith
  have "\<exists>c r. u @ ?rest = c # r \<and> \<not> is_ascii_digit c" using unit_starts [OF k] by auto
  then have take: "takeWhile is_ascii_digit (ds @ u @ ?rest) = ds" "dropWhile is_ascii_digit (ds @ u @ ?rest) = u @ ?rest"
    using take_digits [OF ds(2)] by auto
  have "duration_unit raw dir saw (u @ ?rest) = Inr (u, ?rest)"
    using duration_unit_segment [OF k] segments_start [OF segs] by blast
  then have "duration_loop raw dir tot saw (ds @ u @ ?rest) = duration_loop raw dir (tot + ?seg) True ?rest"
    using ds small bound k
    by (subst duration_loop.simps) (simp add: take parse_digits Let_def reject_def ok_or_def checked_mul_def checked_add_def)
  also have "\<dots> = Inr (tot + ?seg + segments_millis segs)" by (rule Cons.IH [OF segs bound])
  finally show ?case by (simp add: tx millis add.assoc)
qed

lemma duration_loop_sound:
  assumes "duration_loop raw dir tot saw rest = Inr t"
  shows "(\<exists>segs. list_all segment_ok segs \<and> rest = segments_text segs \<and> t = tot + segments_millis segs) \<or>
    (\<not> saw \<and> rest \<noteq> [] \<and> list_all is_ascii_digit rest \<and> t = tot + digits_value rest * 1000)"
  using assms
proof (induction raw dir tot saw rest arbitrary: t rule: duration_loop.induct)
  case (1 raw dir tot saw rest)
  show ?case
  proof (cases "rest = []")
    case True
    with 1(2) have "t = tot" by (simp add: duration_loop.simps)
    with True show ?thesis by (intro disjI1 exI [of _ "[]"]) (simp add: segments_text_def segments_millis_def)
  next
    case False
    define ds where "ds = takeWhile is_ascii_digit rest"
    define after where "after = dropWhile is_ascii_digit rest"
    have split: "rest = ds @ after" and digits: "list_all is_ascii_digit ds"
      by (auto simp: ds_def after_def list_all_iff dest: set_takeWhileD)
    from 1(2) False obtain v u rest' k where ne: "ds \<noteq> []" and v: "parse_unsigned u128_max ds = Some v"
      and u: "duration_unit raw dir saw after = Inr (u, rest')" and k: "unit_multiplier_millis u = Some k"
      and run: "duration_loop raw dir (tot + v * k) True rest' = Inr t"
      and mul: "checked_mul u128_max v k = Some (v * k)" and add: "checked_add u128_max tot (v * k) = Some (tot + v * k)"
      by (subst (asm) duration_loop.simps)
        (auto simp: ds_def after_def Let_def res_simps checked_mul_def checked_add_def split: if_splits)
    have vd: "v = digits_value ds" using v digits by (simp add: parse_digits split: if_splits)
    have IH: "(\<exists>segs. list_all segment_ok segs \<and> rest' = segments_text segs \<and> t = tot + v * k + segments_millis segs) \<or>
      (\<not> True \<and> rest' \<noteq> [] \<and> list_all is_ascii_digit rest' \<and> t = tot + v * k + digits_value rest' * 1000)"
      by (rule 1(1) [OF False ds_def, of "()" v "(u, rest')" u rest' k "v * k" "tot + v * k" t])
        (use ne v u k mul add run in \<open>simp_all add: reject_def ok_or_def after_def\<close>)
    then obtain segs where segs: "list_all segment_ok segs" "rest' = segments_text segs"
      "t = tot + v * k + segments_millis segs" by blast
    from duration_unit_Inr [OF u] show ?thesis
    proof
      assume "after = u @ rest'"
      then show ?thesis
        using split segs ne digits k vd
        by (intro disjI1 exI [of _ "(ds, u) # segs"]) (simp add: segments_text_def segments_millis_def)
    next
      assume a: "after = [] \<and> \<not> saw \<and> u = ''s'' \<and> rest' = []"
      then have "k = 1000" using k by (simp add: unit_multiplier_millis_def)
      moreover have "segs = []" using a segs by (cases segs) (auto simp: segments_text_def)
      ultimately show ?thesis using a split segs ne digits vd by (simp add: segments_millis_def)
    qed
  qed
qed

lemma duration_loop_bare:
  assumes "list_all is_ascii_digit raw" and "raw \<noteq> []" and "digits_value raw * 1000 \<le> u64_max"
  shows "duration_loop lit dir 0 False raw = Inr (digits_value raw * 1000)"
proof -
  have bound: "digits_value raw * 1000 \<le> u128_max" using assms(3) by simp
  then have small: "digits_value raw \<le> u128_max" by linarith
  have take: "takeWhile is_ascii_digit raw = raw" "dropWhile is_ascii_digit raw = []"
    using take_digits [OF assms(1), of "[]"] by auto
  have "parse_unsigned u128_max raw = Some (digits_value raw)" using assms small by (simp add: parse_digits)
  moreover have "checked_mul u128_max (digits_value raw) 1000 = Some (digits_value raw * 1000)"
    "checked_add u128_max 0 (digits_value raw * 1000) = Some (digits_value raw * 1000)"
    using bound by (simp_all only: checked_mul_def checked_add_def add_0 if_True)
  ultimately show ?thesis
    using assms(2)
    by (subst duration_loop.simps)
      (simp add: take Let_def reject_def ok_or_def duration_unit_def unit_multiplier_millis_def duration_loop.simps)
qed

text \<open>
  The unit is cut out as one byte: with a micro sign as the unit, which has two, the slice ends
  inside the character.
\<close>

lemma duration_literal_panics: "parse_duration_literal (''5'' @ [CHR 0xC2, CHR 0xB5]) dir = Inl LowerPanic"
  by (simp add: parse_duration_literal_def duration_loop.simps Let_def reject_def ok_or_def parse_unsigned_def
      is_ascii_digit_def byte_def digits_value_def duration_unit_def at_boundary_def)

section \<open>Cache blocks\<close>

text \<open>Directives that a cache block does not know are skipped.\<close>

lemma unknown_cache_directive_skipped:
  "parse_proxy_cache_block [] [Directive ''proxy_cach_ttl'' [''5s'']] = Inr cache_config_default"
  by (simp add: parse_proxy_cache_block_def lower_directives_def apply_cache_directive_def reject_def or_default_def)

section \<open>Access rules\<close>

text \<open>An access directive of a location block as written, and what it says of an address.\<close>

fun access_written :: "node \<Rightarrow> bool" where
  "access_written (Directive name args) \<longleftrightarrow> name \<in> set [''allow'', ''deny'']"
| "access_written (Block name args ns) \<longleftrightarrow> False"

definition names_address :: "lower_lib \<Rightarrow> externals \<Rightarrow> string \<Rightarrow> ip_addr \<Rightarrow> bool" where
  "names_address ll x v ip \<longleftrightarrow>
     v = ''all'' \<or>
     (case parse_network (ll_net ll) (ll_net_of_ip ll) v of None \<Rightarrow> False | Some n \<Rightarrow> ext_net_contains x n ip)"

fun first_verdict :: "lower_lib \<Rightarrow> externals \<Rightarrow> ip_addr \<Rightarrow> node list \<Rightarrow> bool" where
  "first_verdict ll x ip [] \<longleftrightarrow> False"
| "first_verdict ll x ip (n # ns) \<longleftrightarrow>
     (if access_written n \<and> (case n of Directive name [v] \<Rightarrow> names_address ll x v ip | _ \<Rightarrow> False)
      then (case n of Directive name _ \<Rightarrow> name = ''allow'' | _ \<Rightarrow> False)
      else first_verdict ll x ip ns)"

lemma cache_directive_other:
  "name \<in> set [''allow'', ''deny''] \<Longrightarrow> apply_cache_directive name args e = Inr None"
  by (auto simp: apply_cache_directive_def)

lemma access_rule_Inr:
  assumes "access_rule ll name a f args = Inr r"
  shows "\<exists>v. args = [v] \<and>
    (v = ''all'' \<and> r = Some a \<or>
     v \<noteq> ''all'' \<and> (\<exists>n. parse_network (ll_net ll) (ll_net_of_ip ll) v = Some n \<and> r = Some (f n)))"
  using assms
  by (auto simp: access_rule_def parse_access_network_def res_simps split: list.splits if_splits)

lemma location_node_rule:
  assumes "location_node ll c n = Inr c'" and "access_written n"
  shows "\<exists>r name v. n = Directive name [v] \<and> lc_access_rules c' = lc_access_rules c @ [r] \<and>
    (rule_is_allow r \<longleftrightarrow> name = ''allow'') \<and> (\<forall>x ip. rule_matches (ext_net_contains x) r ip = names_address ll x v ip)"
proof -
  obtain name args where n: "n = Directive name args" and name: "name \<in> set [''allow'', ''deny'']"
    using assms(2) by (cases n) auto
  obtain r where r: "apply_location_access_rule ll name args = Inr (Some r)" and
    c': "c' = c\<lparr>lc_access_rules := lc_access_rules c @ [r]\<rparr>"
    using assms(1) name access_rule_Inr
    by (auto simp: n location_node_def location_directive_node_def cache_directive_other
        apply_location_access_rule_def res_simps split: option.splits dest!: access_rule_Inr)
  then show ?thesis
    using name by (auto simp: n apply_location_access_rule_def names_address_def dest!: access_rule_Inr)
qed

lemma location_node_other:
  assumes "location_node ll c n = Inr c'" and "\<not> access_written n"
  shows "lc_access_rules c' = lc_access_rules c"
  using assms
  by (cases n)
    (auto simp: location_node_def location_directive_node_def apply_location_access_rule_def res_simps
      split: option.splits if_splits)

lemma location_nodes_rules:
  assumes "fold_res (location_node ll) c ns = Inr c'"
  shows "\<exists>rs. lc_access_rules c' = lc_access_rules c @ rs \<and> (rs = [] \<longleftrightarrow> \<not> list_ex access_written ns) \<and>
    (\<forall>x ip. first_rule x rs ip = first_verdict ll x ip ns)"
  using assms
proof (induction ns arbitrary: c)
  case (Cons n ns)
  then obtain c1 where n: "location_node ll c n = Inr c1" and ns: "fold_res (location_node ll) c1 ns = Inr c'"
    by (auto simp: res_simps)
  from Cons.IH [OF ns] obtain rs where rs: "lc_access_rules c' = lc_access_rules c1 @ rs"
    "rs = [] \<longleftrightarrow> \<not> list_ex access_written ns" "\<forall>x ip. first_rule x rs ip = first_verdict ll x ip ns"
    by blast
  show ?case
  proof (cases "access_written n")
    case True
    from location_node_rule [OF n True] obtain r name v where r: "n = Directive name [v]"
      "lc_access_rules c1 = lc_access_rules c @ [r]" "rule_is_allow r \<longleftrightarrow> name = ''allow''"
      "\<forall>x ip. rule_matches (ext_net_contains x) r ip = names_address ll x v ip"
      by blast
    then show ?thesis using rs True by (intro exI [of _ "r # rs"]) (auto simp del: access_written.simps)
  next
    case False
    then show ?thesis using rs location_node_other [OF n False] by (intro exI [of _ rs]) simp
  qed
qed simp

section \<open>A sample location\<close>

definition sample_lower_lib :: lower_lib where
  "sample_lower_lib =
     \<lparr>ll_url = (\<lambda>s. Inr (Url s)), ll_net = (\<lambda>s. if s = ''10.0.0.0/8'' then Some (IpNet s) else None),
      ll_net_of_ip = (\<lambda>_. IpNet ''host''), ll_header_name_ok = (\<lambda>_. True), ll_basic_auth = (\<lambda>_. Json []),
      ll_ext_authz = (\<lambda>_. Json []), ll_jwt_auth = (\<lambda>_. Json []), ll_rate_limit = (\<lambda>_. Json []),
      ll_cors = (\<lambda>_. Json []), ll_headers = (\<lambda>_. Json [])\<rparr>"

definition sample_access_nodes :: "node list" where
  "sample_access_nodes =
     [Directive ''allow'' [''10.0.0.0/8''], Directive ''scp_pass'' [''core''], Directive ''deny'' [''all'']]"

definition sample_access_location :: location where
  "sample_access_location =
     \<lparr>lo_matcher = LmPrefix ''/'', lo_access_rules = [Allow (IpNet ''10.0.0.0/8''), DenyAll],
      lo_directives = [ScpPass ''core''], lo_plugins = [], lo_cache = None\<rparr>"

definition sample_access_compiled :: compiled_location where
  "sample_access_compiled =
     (plain_location 1 (CmPrefix ''/'') (Scp ''core''))\<lparr>co_access_rules := [Allow (IpNet ''10.0.0.0/8''), DenyAll]\<rparr>"

lemma sample_access_lowered: "lower_location sample_lower_lib [''/''] sample_access_nodes = Inr sample_access_location"
  by (simp add: lower_location_def parse_location_matcher_def starts_with_def parse_location_contents_def
      sample_access_nodes_def location_node_def location_directive_node_def apply_cache_directive_def
      apply_location_access_rule_def access_rule_def parse_access_network_def parse_network_def sample_lower_lib_def
      apply_location_directive_def parse_exactly_one_argument_def ok_or_def sample_access_location_def)

lemma sample_access_compiles:
  "compile_location plain_ext sample_url_lib [] sample_access_location 1 = Inr (Some sample_access_compiled, 2)"
  by (simp add: sample_location_simps sample_access_location_def sample_access_compiled_def)

section \<open>Claims\<close>

text \<open>
  C15. A duration of the configuration is accepted exactly when it is a plain number of seconds, or a
  sequence of numbers with a unit each, whose sum fits 64 bits in milliseconds; and it then means
  that sum.
\<close>

theorem duration_literal_exact:
  "parse_duration_literal raw dir = Inr d \<longleftrightarrow>
   (\<exists>ms. raw \<noteq> [] \<and> ms \<le> u64_max \<and> d = from_millis ms \<and>
     (list_all is_ascii_digit raw \<and> ms = digits_value raw * 1000 \<or>
      (\<exists>segs. list_all segment_ok segs \<and> raw = segments_text segs \<and> ms = segments_millis segs)))"
  (is "?lhs \<longleftrightarrow> ?rhs")
proof
  assume ?lhs
  then obtain ms where "raw \<noteq> []" "duration_loop raw dir 0 False raw = Inr ms" "ms \<le> u64_max" "d = from_millis ms"
    by (auto simp: parse_duration_literal_def res_simps)
  with duration_loop_sound [of raw dir 0 False raw ms] show ?rhs by auto
next
  assume ?rhs
  then obtain ms where ms: "raw \<noteq> []" "ms \<le> u64_max" "d = from_millis ms"
    and shape: "list_all is_ascii_digit raw \<and> ms = digits_value raw * 1000 \<or>
      (\<exists>segs. list_all segment_ok segs \<and> raw = segments_text segs \<and> ms = segments_millis segs)"
    by blast
  have "ms \<le> u128_max" using ms(2) by simp
  then have "duration_loop raw dir 0 False raw = Inr ms"
    using shape ms duration_loop_bare [of raw raw dir] duration_loop_complete [of _ 0 raw dir False] by fastforce
  with ms show ?lhs by (simp add: parse_duration_literal_def reject_def)
qed

text \<open>
  C13. The allow and deny directives of a location block decide who may use the compiled route, in the
  order in which they are written: the first one that names the address of the client is obeyed, a
  client that none names is refused, and without such directives everyone may pass.
\<close>

theorem configured_access_enforced:
  assumes "lower_location ll args ns = Inr l" and "compile_location x ul ups l n = Inr (Some c, n')"
  shows "location_allows_client x (co_access_rules c) ip \<longleftrightarrow>
    \<not> list_ex access_written ns \<or> (\<exists>a. ip = Some a \<and> first_verdict ll x a ns)"
proof -
  obtain t where "compile_targeted_location x l t n = Inr (c, n')"
    using assms(2) by (auto simp: compile_location_def and_then_Inr_iff split: option.splits)
  then have rules: "co_access_rules c = lo_access_rules l"
    unfolding compile_targeted_location_def and_then_Inr_iff by (elim exE conjE) (drule arg_cong [where f = "\<lambda>r. co_access_rules (fst (projr r))"], simp)
  obtain k where k: "fold_res (location_node ll) \<lparr>lc_directives = [], lc_plugins = [], lc_cache = None, lc_access_rules = []\<rparr> ns = Inr k"
    "lo_access_rules l = lc_access_rules k"
    using assms(1) by (auto simp: lower_location_def parse_location_contents_def and_then_Inr_iff)
  from location_nodes_rules [OF k(1)] show ?thesis
    by (cases ip) (auto simp: rules k(2) location_allows_client_def)
qed

theorem configured_access_enforced_witness:
  "lower_location sample_lower_lib [''/''] sample_access_nodes = Inr sample_access_location \<and>
   compile_location plain_ext sample_url_lib [] sample_access_location 1 = Inr (Some sample_access_compiled, 2) \<and>
   location_allows_client plain_ext (co_access_rules sample_access_compiled) (Some (V4 0x0A000001)) \<and>
   \<not> location_allows_client plain_ext (co_access_rules sample_access_compiled) (Some (V4 0x0B000001))"
proof -
  have "first_verdict sample_lower_lib plain_ext (V4 0x0A000001) sample_access_nodes"
    "\<not> first_verdict sample_lower_lib plain_ext (V4 0x0B000001) sample_access_nodes"
    "list_ex access_written sample_access_nodes"
    by code_simp+
  then show ?thesis
    using configured_access_enforced [OF sample_access_lowered sample_access_compiles]
      sample_access_lowered sample_access_compiles by simp
qed

end
