(* ===== verification/Lower_Http.thy ===== *)
theory Lower_Http
  imports Lower_Safety
begin

text \<open>
  What holds of every http block that the transformation accepts: its options are in the ranges
  that the compiler asks for, and its TLS listeners have what they need.
\<close>

section \<open>What a result can be\<close>

text \<open>A property of the value of a result, whenever there is one, by the shape of the computation.\<close>

definition yields :: "('a \<Rightarrow> bool) \<Rightarrow> ('e, 'a) result \<Rightarrow> bool" where
  "yields P r \<longleftrightarrow> (\<forall>v. r = Inr v \<longrightarrow> P v)"

lemma yields_if: "yields P a \<Longrightarrow> yields P b \<Longrightarrow> yields P (if c then a else b)"
  by simp

lemma yields_and_then: "(\<And>v. r = Inr v \<Longrightarrow> yields P (f v)) \<Longrightarrow> yields P (and_then r f)"
  by (cases r) (auto simp: yields_def)

lemma yields_Inr: "P v \<Longrightarrow> yields P (Inr v)"
  by (simp add: yields_def)

lemma yields_Inl: "yields P (Inl e)"
  by (simp add: yields_def)

lemmas yields_intros = yields_if yields_and_then yields_Inr yields_Inl

section \<open>Options\<close>

definition timeout_ok :: "duration option \<Rightarrow> bool" where
  "timeout_ok t \<longleftrightarrow> validate_client_timeout t = Inr ()"

definition timeouts_ok :: "http \<Rightarrow> bool" where
  "timeouts_ok h \<longleftrightarrow>
     timeout_ok (ht_client_header_timeout h) \<and> timeout_ok (ht_client_body_timeout h) \<and> timeout_ok (ht_send_timeout h)"

definition real_ip_ok :: "http \<Rightarrow> bool" where
  "real_ip_ok h \<longleftrightarrow> (\<forall>c. ht_real_ip h = Some c \<longrightarrow> real_ip_validate c = Inr ())"

definition geoip_ok :: "http \<Rightarrow> bool" where
  "geoip_ok h \<longleftrightarrow> (\<forall>c. ht_geoip h = Some c \<longrightarrow> geoip_validate c = Inr ())"

definition options_ok :: "http \<Rightarrow> bool" where
  "options_ok h \<longleftrightarrow> http2_validate (ht_http2 h) = Inr () \<and> real_ip_ok h \<and> timeouts_ok h \<and> geoip_ok h"

lemma validate_http_iff:
  "validate_http h = Inr () \<longleftrightarrow> ht_tcp_nodelay h = On \<and> options_ok h"
proof -
  have "map_res validate_client_timeout [a, b, c] = Inr r \<Longrightarrow> timeout_ok a \<and> timeout_ok b \<and> timeout_ok c" for a b c r
    by (auto simp: timeout_ok_def res_simps)
  moreover have "timeout_ok a \<and> timeout_ok b \<and> timeout_ok c \<Longrightarrow> \<exists>r. map_res validate_client_timeout [a, b, c] = Inr r" for a b c
    by (auto simp: timeout_ok_def)
  moreover have "ht_tcp_nodelay h = Off \<longleftrightarrow> ht_tcp_nodelay h \<noteq> On" by (cases "ht_tcp_nodelay h") auto
  ultimately show ?thesis
    by (auto simp: validate_http_def options_ok_def timeouts_ok_def real_ip_ok_def geoip_ok_def and_then_Inr_iff
        reject_Inr_iff split: option.splits simp del: map_res.simps)
qed

lemma lowered_duration_ok: "parse_single_duration_directive args name = Inr d \<Longrightarrow> timeout_ok (Some d)"
  by (auto simp: parse_single_duration_directive_def parse_duration_literal_def timeout_ok_def
      validate_client_timeout_ok and_then_Inr_iff reject_Inr_iff not_less)

lemma lowered_http2_value:
  assumes "parse_http2_value name args = Inr v"
  shows "0 < v" and "v \<le> u32_max" and "ends_with ''window_size'' name \<Longrightarrow> v \<le> i32_max"
proof -
  have "0 < v \<and> v \<le> (if ends_with ''window_size'' name then i32_max else u32_max)"
    using assms by (auto simp: parse_http2_value_def Let_def and_then_Inr_iff reject_Inr_iff simp del: of_nat_numeral)
  then show "0 < v" "v \<le> u32_max" "ends_with ''window_size'' name \<Longrightarrow> v \<le> i32_max"
    by (auto split: if_splits)
qed

lemma http2_directive_ok:
  assumes "apply_http2_directive o2 name args = Some (Inr o2')" and "http2_validate o2 = Inr ()"
  shows "http2_validate o2' = Inr ()"
proof -
  have names: "ends_with ''window_size'' ''http2_stream_window_size''" "ends_with ''window_size'' ''http2_connection_window_size''"
    by code_simp+
  show ?thesis
    using assms
    by (auto simp: apply_http2_directive_def http2_validate_def and_then_Inr_iff validate_http2_value_ok once_in_http_def
        reject_Inr_iff split: if_splits dest: lowered_http2_value lowered_http2_value(3) [OF _ names(1)]
        lowered_http2_value(3) [OF _ names(2)])
qed

lemma real_ip_default_ok: "real_ip_validate real_ip_default = Inr ()"
  by code_simp

lemma real_ip_directive_ok:
  assumes "apply_real_ip_directive ll c name args = Some (Inr c')" and "real_ip_validate c = Inr ()"
  shows "real_ip_validate c' = Inr ()"
  using assms
  by (auto simp: apply_real_ip_directive_def and_then_Inr_iff map_err_Inr_iff Let_def split: if_splits)
    (auto simp: real_ip_validate_def reject_def split: if_splits)

text \<open>What the remaining directives of the block leave as it is.\<close>

definition keeps_options :: "http \<Rightarrow> http \<Rightarrow> bool" where
  "keeps_options h h' \<longleftrightarrow>
     ht_http2 h' = ht_http2 h \<and> ht_real_ip h' = ht_real_ip h \<and> ht_geoip h' = ht_geoip h \<and>
     ht_servers h' = ht_servers h \<and> (timeouts_ok h \<longrightarrow> timeouts_ok h')"

lemma http_timeout_kept:
  assumes "apply_http_timeout h name args = Inr h'"
  shows "keeps_options h h'"
proof -
  from assms obtain d where d: "timeout_ok (Some d)"
    and h': "h' = h\<lparr>ht_client_header_timeout := Some d\<rparr> \<or> h' = h\<lparr>ht_client_body_timeout := Some d\<rparr> \<or>
      h' = h\<lparr>ht_send_timeout := Some d\<rparr>"
    unfolding apply_http_timeout_def and_then_Inr_iff
    by (auto simp: and_then_Inr_iff once_in_http_def dest: lowered_duration_ok split: if_splits)
  from h' d show ?thesis by (elim disjE) (simp_all add: keeps_options_def timeouts_ok_def)
qed

lemma http_option_kept:
  assumes "apply_http_option h name args = Inr h'"
  shows "keeps_options h h'"
proof (cases "name \<in> set [''client_header_timeout'', ''client_body_timeout'', ''send_timeout'']")
  case True
  with assms have "apply_http_timeout h name args = Inr h'" unfolding apply_http_option_def by (simp only: if_True)
  then show ?thesis by (rule http_timeout_kept)
next
  case False
  have "yields (keeps_options h) (apply_http_option h name args)"
    unfolding apply_http_option_def if_not_P [OF False]
    by (intro yields_intros) (simp_all add: keeps_options_def timeouts_ok_def)
  with assms show ?thesis by (simp add: yields_def)
qed

section \<open>Servers\<close>

text \<open>
  What a server block has on its own: client certificates are asked for only with an authority to
  check them, and HTTP/2 is spoken over TLS only.
\<close>

definition server_ok :: "server \<Rightarrow> bool" where
  "server_ok s \<longleftrightarrow>
     (dt_verify_client (sv_tls_options s) \<noteq> VerifyOff \<longrightarrow> dt_client_certificate (sv_tls_options s) \<noteq> None) \<and>
     (\<forall>l \<in> set (sv_listens s). li_http2 l \<longrightarrow> li_ssl l)"

lemma parsed_listen: "parse_listen_directives args = Inr l \<Longrightarrow> li_http2 l \<longrightarrow> li_ssl l"
  by (auto simp: parse_listen_directives_def and_then_Inr_iff reject_Inr_iff split: list.splits)

lemma lower_server_child_listens:
  assumes "lower_server_child ll s n = Inr s'" and "\<forall>l \<in> set (sv_listens s). li_http2 l \<longrightarrow> li_ssl l"
  shows "\<forall>l \<in> set (sv_listens s'). li_http2 l \<longrightarrow> li_ssl l"
proof -
  have directive: "yields (\<lambda>s'. \<forall>l \<in> set (sv_listens s'). li_http2 l \<longrightarrow> li_ssl l) (apply_server_directive s name args)"
    for name args
    unfolding apply_server_directive_def Let_def
    by (intro yields_intros) (use assms(2) in \<open>auto dest: parsed_listen\<close>)
  have "yields (\<lambda>s'. \<forall>l \<in> set (sv_listens s'). li_http2 l \<longrightarrow> li_ssl l) (lower_server_child ll s n)"
  proof (cases n)
    case (Directive name args)
    then show ?thesis using directive by (simp add: lower_server_child_def)
  next
    case (Block name args ns)
    then show ?thesis
      unfolding lower_server_child_def Block node.case by (intro yields_intros) (use assms(2) in auto)
  qed
  with assms(1) show ?thesis by (simp add: yields_def)
qed

lemma lower_server_ok:
  assumes "lower_server ll ns = Inr s"
  shows "server_ok s"
proof -
  from assms have run: "fold_res (lower_server_child ll) server_default ns = Inr s" and v: "validate_server s = Inr ()"
    by (auto simp: lower_server_def and_then_Inr_iff)
  have "\<forall>l \<in> set (sv_listens s). li_http2 l \<longrightarrow> li_ssl l"
    by (rule fold_res_invariant [OF run, where I = "\<lambda>s. \<forall>l \<in> set (sv_listens s). li_http2 l \<longrightarrow> li_ssl l"])
      (auto simp: server_default_def dest: lower_server_child_listens)
  with v show ?thesis by (auto simp: server_ok_def validate_server_def reject_Inr_iff)
qed

section \<open>The http block\<close>

definition http_ok :: "http \<Rightarrow> bool" where
  "http_ok h \<longleftrightarrow> options_ok h \<and> (\<forall>s \<in> set (ht_servers h). server_ok s)"

lemma http_default_ok: "http_ok http_default"
  by (simp add: http_ok_def options_ok_def http_default_def http2_default_def http2_validate_def validate_http2_value_def
      real_ip_ok_def timeouts_ok_def timeout_ok_def validate_client_timeout_def geoip_ok_def reject_def)

lemma apply_http_directive_ok:
  assumes "apply_http_directive ll h name args = Inr h'" and "http_ok h"
  shows "http_ok h'"
proof (cases "apply_http2_directive (ht_http2 h) name args")
  case (Some r)
  with assms obtain o2 where "r = Inr o2" "h' = h\<lparr>ht_http2 := o2\<rparr>"
    by (auto simp: apply_http_directive_def and_then_Inr_iff)
  with Some assms(2) http2_directive_ok [of "ht_http2 h" name args o2] show ?thesis
    by (simp add: http_ok_def options_ok_def real_ip_ok_def timeouts_ok_def geoip_ok_def)
next
  case None
  note h2 = this
  let ?c = "or_default (ht_real_ip h) real_ip_default"
  have c: "real_ip_validate ?c = Inr ()"
    using assms(2) real_ip_default_ok
    by (cases "ht_real_ip h") (auto simp: http_ok_def options_ok_def real_ip_ok_def or_default_def)
  show ?thesis
  proof (cases "apply_real_ip_directive ll ?c name args")
    case (Some r)
    with h2 assms obtain c' where "r = Inr c'" "h' = h\<lparr>ht_real_ip := Some c'\<rparr>"
      by (auto simp: apply_http_directive_def and_then_Inr_iff)
    with Some c assms(2) real_ip_directive_ok [of ll ?c name args c'] show ?thesis
      by (simp add: http_ok_def options_ok_def real_ip_ok_def timeouts_ok_def geoip_ok_def)
  next
    case None
    with h2 assms(1) have "apply_http_option h name args = Inr h'" by (simp add: apply_http_directive_def)
    from http_option_kept [OF this] assms(2) show ?thesis
      by (simp add: keeps_options_def http_ok_def options_ok_def real_ip_ok_def geoip_ok_def)
  qed
qed

lemma lower_geoip_ok: "lower_geoip ll args ns = Inr g \<Longrightarrow> geoip_validate g = Inr ()"
  by (auto simp: lower_geoip_def and_then_Inr_iff map_err_Inr_iff Let_def)

lemma lower_http_child_ok:
  assumes "lower_http_child ll h n = Inr h'" and ok: "http_ok h"
  shows "http_ok h'"
proof (cases n)
  case (Directive name args)
  with assms show ?thesis by (auto simp: lower_http_child_def intro: apply_http_directive_ok)
next
  case (Block name args ns)
  have "yields http_ok (lower_http_child ll h n)"
    unfolding lower_http_child_def Block node.case
    by (intro yields_intros)
      (use ok lower_geoip_ok lower_server_ok in
        \<open>auto simp: http_ok_def options_ok_def real_ip_ok_def timeouts_ok_def geoip_ok_def\<close>)
  with assms(1) show ?thesis by (simp add: yields_def)
qed

text \<open>The provider that is assigned changes nothing but the certificate of a server.\<close>

lemma assign_provider_ok: "server_ok s \<Longrightarrow> server_ok (assign_provider s)"
  by (simp add: server_ok_def assign_provider_def)

definition certified :: "http \<Rightarrow> server \<Rightarrow> bool" where
  "certified h s \<longleftrightarrow>
     (case sv_tls s of
        Some (Custom tls) \<Rightarrow> ti_cert tls \<noteq> PemPath [] \<and> ti_key tls \<noteq> PemPath []
      | Some LetsEncrypt \<Rightarrow> ht_ssl_provider h \<noteq> None \<and> length (sv_server_names s) = 1
      | None \<Rightarrow> False)"

lemma check_server_tls_ok:
  "check_server_tls (ht_ssl_provider h) s = Inr u \<Longrightarrow> has_ssl_listener s \<Longrightarrow> certified h s"
  by (auto simp: check_server_tls_def certified_def and_then_Inr_iff reject_Inr_iff le_eq_less_or_eq Suc_le_eq
      split: option.splits ssl_provider.splits)
    (metis One_nat_def length_0_conv less_one linorder_neqE_nat)

lemma lower_http_ok:
  assumes "lower_http ll ns = Inr h"
  shows "http_ok h" and "\<forall>s \<in> set (ht_servers h). has_ssl_listener s \<longrightarrow> certified h s"
proof -
  from assms obtain h0 r where run: "fold_res (lower_http_child ll) http_default ns = Inr h0"
    and h: "h = (if ht_ssl_provider h0 \<noteq> None then h0\<lparr>ht_servers := map assign_provider (ht_servers h0)\<rparr> else h0)"
    and checks: "map_res (check_server_tls (ht_ssl_provider h)) (ht_servers h) = Inr r"
    by (auto simp: lower_http_def and_then_Inr_iff Let_def)
  have "http_ok h0"
    by (rule fold_res_invariant [OF run, where I = http_ok]) (auto intro: http_default_ok lower_http_child_ok)
  then show "http_ok h"
    by (auto simp: h http_ok_def options_ok_def real_ip_ok_def timeouts_ok_def geoip_ok_def assign_provider_ok)
  show "\<forall>s \<in> set (ht_servers h). has_ssl_listener s \<longrightarrow> certified h s"
    using checks check_server_tls_ok by (fastforce simp: map_res_Inr_iff list_all2_iff in_set_conv_nth set_zip)
qed

lemma from_ast_lowered:
  assumes "from_ast ll a = Inr \<lparr>ir_http = Some h\<rparr>"
  obtains ns where "lower_http ll ns = Inr h"
proof -
  from assms have run: "fold_res (from_ast_node ll) None (items a) = Inr (Some h)"
    by (auto simp: from_ast_def and_then_Inr_iff)
  have "\<forall>g. Some h = Some g \<longrightarrow> (\<exists>ns. lower_http ll ns = Inr g)"
    by (rule fold_res_invariant [OF run, where I = "\<lambda>acc. \<forall>g. acc = Some g \<longrightarrow> (\<exists>ns. lower_http ll ns = Inr g)"])
      (auto simp: from_ast_node_def and_then_Inr_iff split: node.splits if_splits)
  then show thesis using that by blast
qed

section \<open>A sample configuration\<close>

definition sample_tls_nodes :: "node list" where
  "sample_tls_nodes =
     [Directive ''listen'' [''*:443'', ''ssl''], Directive ''server_name'' [''a.example''],
      Directive ''ssl_certificate'' [''a.pem''], Directive ''ssl_certificate_key'' [''a.key'']]"

definition sample_ast :: ast where
  "sample_ast =
     \<lparr>items = [Block ''http'' [] [Directive ''client_body_timeout'' [''5s''], Block ''server'' [] sample_tls_nodes]]\<rparr>"

definition sample_tls_server :: server where
  "sample_tls_server =
     server_default\<lparr>sv_server_names := [''a.example''],
       sv_listens := [listen_default\<lparr>li_addr := V4 0, li_port := 443, li_ssl := True\<rparr>],
       sv_tls := Some (Custom (tls_identity_default\<lparr>ti_cert := PemPath ''a.pem'', ti_key := PemPath ''a.key''\<rparr>))\<rparr>"

definition sample_tls_http :: http where
  "sample_tls_http = http_default\<lparr>ht_client_body_timeout := Some (from_millis 5000), ht_servers := [sample_tls_server]\<rparr>"

lemma sample_listen_parsed:
  "parse_listen_directives [''*:443'', ''ssl''] = Inr (listen_default\<lparr>li_addr := V4 0, li_port := 443, li_ssl := True\<rparr>)"
proof -
  have "listen_endpoint ''*:443'' = Inr (V4 0, 443)"
    by (simp add: listen_endpoint_def parse_unsigned_def Let_def is_ascii_digit_def byte_def digits_value_def ok_or_def)
  then show ?thesis
    by (simp add: parse_listen_directives_def listen_param_def listen_default_def reject_def)
qed

lemma sample_server_lowered: "lower_server ll sample_tls_nodes = Inr sample_tls_server"
  by (simp add: lower_server_def sample_tls_nodes_def lower_server_child_def apply_server_directive_def
      sample_listen_parsed reject_def lower_pem_def parse_exactly_one_argument_def edit_identity_def or_default_def
      server_default_def validate_server_def downstream_tls_default_def sample_tls_server_def)

lemma sample_timeout: "parse_single_duration_directive [''5s''] name = Inr (from_millis 5000)"
proof -
  have "duration_loop ''5s'' name 0 False ''5s'' = Inr 5000"
    using duration_loop_complete [of "[(''5'', ''s'')]" 0 "''5s''" name False]
    by (simp add: segments_text_def segments_millis_def is_ascii_digit_def byte_def digits_value_def unit_multiplier_millis_def)
  then show ?thesis
    by (simp add: parse_single_duration_directive_def parse_exactly_one_argument_def parse_duration_literal_def reject_def)
qed

lemma sample_ast_lowered: "from_ast ll sample_ast = Inr \<lparr>ir_http = Some sample_tls_http\<rparr>"
proof -
  let ?h = "http_default\<lparr>ht_client_body_timeout := Some (from_millis 5000)\<rparr>"
  have "lower_http_child ll http_default (Directive ''client_body_timeout'' [''5s'']) = Inr ?h"
    by (simp add: lower_http_child_def apply_http_directive_def apply_http2_directive_def apply_real_ip_directive_def
        apply_http_option_def apply_http_timeout_def sample_timeout once_in_http_def http_default_def reject_def)
  moreover have "lower_http_child ll ?h (Block ''server'' [] sample_tls_nodes) = Inr sample_tls_http"
    by (simp add: lower_http_child_def sample_server_lowered sample_tls_http_def http_default_def)
  moreover have "ht_ssl_provider sample_tls_http = None" "ht_servers sample_tls_http = [sample_tls_server]"
    by (simp_all add: sample_tls_http_def http_default_def)
  moreover have "check_server_tls None sample_tls_server = Inr ()"
    by (simp add: check_server_tls_def sample_tls_server_def reject_def)
  ultimately show ?thesis
    by (simp add: from_ast_def sample_ast_def from_ast_node_def lower_http_def Let_def)
qed

section \<open>Claims\<close>

text \<open>
  C14. The http block that a configuration is transformed into has options of the types that the
  compiler asks for: its validation fails on no value at all but the unsupported
  \<^verbatim>\<open>tcp_nodelay off\<close>.
\<close>

theorem lowered_options_valid:
  assumes "from_ast ll a = Inr \<lparr>ir_http = Some h\<rparr>"
  shows "validate_http h = Inr () \<longleftrightarrow> ht_tcp_nodelay h = On"
proof -
  obtain ns where "lower_http ll ns = Inr h" using from_ast_lowered [OF assms] by blast
  from lower_http_ok(1) [OF this] show ?thesis by (simp add: validate_http_iff http_ok_def)
qed

theorem lowered_options_valid_witness:
  "from_ast sample_lower_lib sample_ast = Inr \<lparr>ir_http = Some sample_tls_http\<rparr> \<and> validate_http sample_tls_http = Inr ()"
proof -
  have "ht_tcp_nodelay sample_tls_http = On" by (simp add: sample_tls_http_def http_default_def)
  with lowered_options_valid [OF sample_ast_lowered] sample_ast_lowered show ?thesis by blast
qed

text \<open>
  C12. Every server of an accepted configuration that listens with TLS has a certificate and a key of
  its own, or a single name for which the configured provider issues them; client certificates are
  asked for only where an authority is configured, and HTTP/2 only together with TLS.
\<close>

theorem lowered_tls_complete:
  assumes "from_ast ll a = Inr \<lparr>ir_http = Some h\<rparr>" and "s \<in> set (ht_servers h)"
  shows "(has_ssl_listener s \<longrightarrow> certified h s) \<and>
    (dt_verify_client (sv_tls_options s) \<noteq> VerifyOff \<longrightarrow> dt_client_certificate (sv_tls_options s) \<noteq> None) \<and>
    (\<forall>l \<in> set (sv_listens s). li_http2 l \<longrightarrow> li_ssl l)"
proof -
  obtain ns where ns: "lower_http ll ns = Inr h" using from_ast_lowered [OF assms(1)] by blast
  from lower_http_ok [OF ns] assms(2) show ?thesis by (auto simp: http_ok_def server_ok_def)
qed

theorem lowered_tls_complete_witness:
  "from_ast sample_lower_lib sample_ast = Inr \<lparr>ir_http = Some sample_tls_http\<rparr> \<and>
   has_ssl_listener sample_tls_server \<and> certified sample_tls_http sample_tls_server"
proof -
  have "sample_tls_server \<in> set (ht_servers sample_tls_http)" by (simp add: sample_tls_http_def)
  moreover have "has_ssl_listener sample_tls_server" by (simp add: has_ssl_listener_def sample_tls_server_def)
  ultimately show ?thesis using lowered_tls_complete [OF sample_ast_lowered] sample_ast_lowered by blast
qed

end
