(* ===== verification/Nrf.thy ===== *)
theory Nrf
  imports Compile_Routes
begin

text \<open>
  The client of the network repository function
  (\<^verbatim>\<open>crates/ngxora-runtime/src/upstreams/nrf.rs\<close>): the request, the answer, and the endpoints that are
  extracted from its documents. The HTTP client, the JSON decoder and the parser of host names are
  arguments.
\<close>

section \<open>Documents\<close>

record nf_service_version =
  nv_api_version_in_uri :: string

record ip_end_point =
  ie_ipv4_address :: "string option"
  ie_ipv6_address :: "string option"
  ie_port :: "nat option"

record nf_service =
  nf_versions :: "nf_service_version list"
  nf_service_instance_id :: "string option"
  nf_service_name :: string
  nf_scheme :: string
  nf_service_status :: string
  nf_service_priority :: "nat option"
  nf_service_capacity :: "nat option"
  nf_service_fqdn :: "string option"
  nf_ip_end_points :: "ip_end_point list"
  nf_api_prefix :: "string option"

text \<open>The list of services by key is a \<^verbatim>\<open>BTreeMap\<close>: its entries in the order of their keys.\<close>

record nf_profile =
  np_nf_type :: "string option"
  np_nf_instance_id :: "string option"
  np_nf_status :: string
  np_priority :: "nat option"
  np_capacity :: "nat option"
  np_fqdn :: "string option"
  np_ipv4_addresses :: "string list"
  np_ipv6_addresses :: "string list"
  np_nf_services :: "nf_service list"
  np_nf_service_list :: "(string \<times> nf_service) list"

record search_result =
  sr_validity_period :: "nat option"
  sr_nf_instances :: "nf_profile list"

text \<open>
  The libraries: a host name is accepted by \<^verbatim>\<open>url::Host::parse\<close>; a path parses, and then has a query
  or not; a document decodes; a status code is printed.
\<close>

record nrf_lib =
  nl_host_ok :: "string \<Rightarrow> bool"
  nl_path_and_query :: "string \<Rightarrow> (string, bool) result"
  nl_search_result :: "string \<Rightarrow> (string, search_result) result"
  nl_status_text :: "nat \<Rightarrow> string"

section \<open>Endpoints\<close>

definition non_empty_id :: "string option \<Rightarrow> string option" where
  "non_empty_id v = Option.bind v (\<lambda>s. if trim s = [] then None else Some (trim s))"

definition optional_u16 :: "nat option \<Rightarrow> string \<Rightarrow> (string, nat option) result" where
  "optional_u16 v label =
     (case v of
        None \<Rightarrow> Inr None
      | Some n \<Rightarrow> if n \<le> u16_max then Inr (Some n) else Inl (label @ '' must be in the range 0..=65535''))"

definition normalize_api_prefix :: "nrf_lib \<Rightarrow> string option \<Rightarrow> (string, string option) result" where
  "normalize_api_prefix l prefix =
     (case prefix of
        None \<Rightarrow> Inr None
      | Some p \<Rightarrow>
          if p = [] then Inr None
          else
            and_then (reject (\<not> starts_with ''/'' p \<or> starts_with ''//'' p)
              ''expected an absolute path beginning with one `/`'') (\<lambda>_.
            and_then (reject (CHR ''#'' \<in> set p) ''fragments are not allowed'') (\<lambda>_.
            and_then (map_err (\<lambda>e. ''invalid path: '' @ e) (nl_path_and_query l p)) (\<lambda>has_query.
            and_then (reject has_query ''query parameters are not allowed'') (\<lambda>_.
            let q = trim_end_matches CHR ''/'' p
            in Inr (if q = [] then None else Some q))))))"

type_synonym nrf_endpoint = "nrf_service_metadata \<times> string \<times> nat \<times> string option"

text \<open>\<^verbatim>\<open>BTreeSet::insert\<close> on the ordered list of the elements, and \<^verbatim>\<open>trim_matches(['[', ']'])\<close>.\<close>

definition ordered_insert :: "'a :: linorder \<Rightarrow> 'a list \<Rightarrow> 'a list" where
  "ordered_insert v s = (if v \<in> set s then s else insort v s)"

definition trim_brackets :: "string \<Rightarrow> string" where
  "trim_brackets s =
     (let bracket = (\<lambda>c. c = CHR ''['' \<or> c = CHR '']'')
      in rev (dropWhile bracket (rev (dropWhile bracket s))))"

definition add_endpoint ::
  "nrf_lib \<Rightarrow> nrf_endpoint list \<Rightarrow> string \<Rightarrow> nat \<Rightarrow> string option \<Rightarrow> nrf_service_metadata \<Rightarrow> nrf_endpoint list" where
  "add_endpoint l endpoints host port api_prefix metadata =
     (let h = trim_brackets (trim host);
          valid_host = (parse_ip h \<noteq> None \<or> nl_host_ok l h)
      in if h = [] \<or> port = 0 \<or> \<not> valid_host then endpoints
         else ordered_insert (metadata, to_ascii_lowercase h, port, api_prefix) endpoints)"

definition expected_scheme :: "compiled_nrf_discovery \<Rightarrow> string" where
  "expected_scheme config = (case cn_endpoint_scheme config of SchemeHttp \<Rightarrow> ''http'' | SchemeHttps \<Rightarrow> ''https'')"

definition default_port :: "compiled_nrf_discovery \<Rightarrow> nat" where
  "default_port config = (if expected_scheme config = ''https'' then 443 else 80)"

text \<open>Services listed by key count only under the key of their own.\<close>

definition profile_services :: "nf_profile \<Rightarrow> nf_service list" where
  "profile_services p =
     np_nf_services p @
     List.map_filter (\<lambda>(key, s). if nf_service_instance_id s = Some key then Some s else None) (np_nf_service_list p)"

definition or_else :: "'a option \<Rightarrow> 'a option \<Rightarrow> 'a option" where
  "or_else a b = (case a of Some v \<Rightarrow> Some v | None \<Rightarrow> b)"

definition unwrap_or :: "'a option \<Rightarrow> 'a \<Rightarrow> 'a" where
  "unwrap_or a d = (case a of Some v \<Rightarrow> v | None \<Rightarrow> d)"

text \<open>A service is ignored, offers other versions only, or is admitted with its metadata and prefix.\<close>

datatype service_verdict = Ignored | WrongVersion | Admitted nrf_service_metadata "string option"

definition foreign_root :: "externals \<Rightarrow> compiled_nrf_discovery \<Rightarrow> nrf_service_metadata \<Rightarrow> string option \<Rightarrow> bool" where
  "foreign_root x config m api_prefix =
     (let host = unwrap_or (ns_authority m) ''nf.invalid''
      in case api_root_parse x (expected_scheme config @ ''://'' @ host @ unwrap_or api_prefix []) of
           Inl _ \<Rightarrow> True
         | Inr root \<Rightarrow> root_host root \<noteq> to_ascii_lowercase host \<or> root_port root \<noteq> default_port config)"

definition admit_service ::
  "externals \<Rightarrow> nrf_lib \<Rightarrow> compiled_nrf_discovery \<Rightarrow> nrf_query option \<Rightarrow> nrf_service_metadata \<Rightarrow> nf_service \<Rightarrow> service_verdict" where
  "admit_service x l config query m s =
     (if query \<noteq> None \<and> (\<not> sbi_token (ns_nf_instance_id m) \<or> \<not> sbi_token (ns_service_instance_id m)) then Ignored
      else
        (case normalize_api_prefix l (nf_api_prefix s) of
           Inl _ \<Rightarrow> Ignored
         | Inr api_prefix \<Rightarrow>
             if query \<noteq> None \<and> foreign_root x config m api_prefix then Ignored else Admitted m api_prefix))"

definition judge_service ::
  "externals \<Rightarrow> nrf_lib \<Rightarrow> compiled_nrf_discovery \<Rightarrow> nrf_query option \<Rightarrow> nf_profile \<Rightarrow> string \<Rightarrow> nat option \<Rightarrow> nat option \<Rightarrow>
   nf_service \<Rightarrow> service_verdict" where
  "judge_service x l config query p nf_id priority capacity s =
     (if nf_service_name s \<noteq> cn_service_name config \<or> \<not> eq_ignore_ascii_case (nf_service_status s) ''REGISTERED'' \<or>
         \<not> eq_ignore_ascii_case (nf_scheme s) (expected_scheme config) then Ignored
      else
        (case non_empty_id (nf_service_instance_id s) of
           None \<Rightarrow> Ignored
         | Some sid \<Rightarrow>
             if (case query of
                   None \<Rightarrow> False
                 | Some q \<Rightarrow> (case nq_service_instance_id q of None \<Rightarrow> False | Some i \<Rightarrow> i \<noteq> sid)) then Ignored
             else if (case query of
                   None \<Rightarrow> False
                 | Some q \<Rightarrow> \<not> list_ex (\<lambda>v. nv_api_version_in_uri v = nq_api_version q) (nf_versions s)) then WrongVersion
             else
               (case optional_u16 (nf_service_priority s) ''service priority'' of
                  Inl _ \<Rightarrow> Ignored
                | Inr service_priority \<Rightarrow>
                    (case optional_u16 (nf_service_capacity s) ''service capacity'' of
                       Inl _ \<Rightarrow> Ignored
                     | Inr service_capacity \<Rightarrow>
                         admit_service x l config query
                           (NrfServiceMetadata
                             (if query = None then None else or_else (nf_service_fqdn s) (np_fqdn p))
                             nf_id sid
                             (unwrap_or (or_else service_priority priority) u16_max)
                             (unwrap_or (or_else service_capacity capacity) 1))
                           s))))"

definition add_ip_end_point ::
  "nrf_lib \<Rightarrow> compiled_nrf_discovery \<Rightarrow> nrf_service_metadata \<Rightarrow> string option \<Rightarrow> ip_end_point \<Rightarrow>
   nrf_endpoint list \<Rightarrow> nrf_endpoint list" where
  "add_ip_end_point l config m api_prefix e endpoints =
     (let port = unwrap_or (ie_port e) (default_port config);
          add = (\<lambda>host endpoints. case host of None \<Rightarrow> endpoints | Some h \<Rightarrow> add_endpoint l endpoints h port api_prefix m)
      in add (ie_ipv6_address e) (add (ie_ipv4_address e) endpoints))"

text \<open>The ports are collected in a \<^verbatim>\<open>BTreeSet\<close>.\<close>

definition named_ports :: "compiled_nrf_discovery \<Rightarrow> nf_service \<Rightarrow> nat list" where
  "named_ports config s =
     (let ports = sort (remdups (List.map_filter ie_port (nf_ip_end_points s)))
      in if ports = [] then [default_port config] else ports)"

definition add_service_endpoints ::
  "nrf_lib \<Rightarrow> compiled_nrf_discovery \<Rightarrow> nrf_query option \<Rightarrow> nf_profile \<Rightarrow> nf_service \<Rightarrow> nrf_service_metadata \<Rightarrow>
   string option \<Rightarrow> nrf_endpoint list \<Rightarrow> nrf_endpoint list" where
  "add_service_endpoints l config query p s m api_prefix endpoints =
     (let by_address =
        (let found = fold (add_ip_end_point l config m api_prefix) (nf_ip_end_points s) endpoints
         in if length found = length endpoints
            then fold (\<lambda>host es. add_endpoint l es host (default_port config) api_prefix m)
              (np_ipv4_addresses p @ np_ipv6_addresses p) found
            else found)
      in
      case or_else (nf_service_fqdn s) (np_fqdn p) of
        Some host \<Rightarrow>
          if query = None \<or> list_all (\<lambda>e. ie_ipv4_address e = None \<and> ie_ipv6_address e = None) (nf_ip_end_points s)
          then fold (\<lambda>port es. add_endpoint l es host port api_prefix m) (named_ports config s) endpoints
          else by_address
      | None \<Rightarrow> by_address)"

definition extract_service ::
  "externals \<Rightarrow> nrf_lib \<Rightarrow> compiled_nrf_discovery \<Rightarrow> nrf_query option \<Rightarrow> nf_profile \<Rightarrow> string \<Rightarrow> nat option \<Rightarrow> nat option \<Rightarrow>
   nf_service \<Rightarrow> nrf_endpoint list \<times> bool \<Rightarrow> nrf_endpoint list \<times> bool" where
  "extract_service x l config query p nf_id priority capacity s st =
     (case judge_service x l config query p nf_id priority capacity s of
        Ignored \<Rightarrow> st
      | WrongVersion \<Rightarrow> (fst st, True)
      | Admitted m api_prefix \<Rightarrow> (add_service_endpoints l config query p s m api_prefix (fst st), snd st))"

definition extract_profile ::
  "externals \<Rightarrow> nrf_lib \<Rightarrow> compiled_nrf_discovery \<Rightarrow> nrf_query option \<Rightarrow> nf_profile \<Rightarrow>
   nrf_endpoint list \<times> bool \<Rightarrow> nrf_endpoint list \<times> bool" where
  "extract_profile x l config query p st =
     (if query \<noteq> None \<and> np_nf_type p \<noteq> Some (cn_target_nf_type config) then st
      else if \<not> eq_ignore_ascii_case (np_nf_status p) ''REGISTERED'' then st
      else
        (case non_empty_id (np_nf_instance_id p) of
           None \<Rightarrow> st
         | Some nf_id \<Rightarrow>
             if (case query of
                   None \<Rightarrow> False
                 | Some q \<Rightarrow> (case nq_nf_instance_id q of None \<Rightarrow> False | Some i \<Rightarrow> i \<noteq> nf_id)) then st
             else
               (case (optional_u16 (np_priority p) ''profile priority'', optional_u16 (np_capacity p) ''profile capacity'') of
                  (Inr priority, Inr capacity) \<Rightarrow>
                    fold (extract_service x l config query p nf_id priority capacity) (profile_services p) st
                | _ \<Rightarrow> st)))"

definition nrf_server :: "nrf_endpoint \<Rightarrow> compiled_upstream_server" where
  "nrf_server e =
     (case e of (metadata, host, port, api_prefix) \<Rightarrow>
        \<lparr>cs_host = host, cs_port = port, cs_weight = 1, cs_api_prefix = api_prefix, cs_nrf_service = Some metadata\<rparr>)"

definition extract_query_endpoints ::
  "externals \<Rightarrow> nrf_lib \<Rightarrow> compiled_nrf_discovery \<Rightarrow> nf_profile list \<Rightarrow> nrf_query option \<Rightarrow>
   compiled_upstream_server list \<times> bool" where
  "extract_query_endpoints x l config profiles query =
     (case fold (extract_profile x l config query) profiles ([], False) of
        (endpoints, invalid_api) \<Rightarrow> (map nrf_server endpoints, invalid_api \<and> endpoints = []))"

section \<open>The client\<close>

definition DEFAULT_VALIDITY :: duration where
  "DEFAULT_VALIDITY = from_secs 30"

definition MAX_RESPONSE_BODY :: nat where
  "MAX_RESPONSE_BODY = 1024 * 1024"

text \<open>What the builder of the HTTP client is told; HTTP/2 without upgrade and no redirects in any case.\<close>

record ('c, 'i) client_builder =
  cb_timeout :: duration
  cb_accept_invalid_certs :: bool
  cb_root_certificates :: "'c list"
  cb_identity :: "'i option"

record ('c, 'i) reqwest_lib =
  rq_read_file :: "string \<Rightarrow> (string, string) result"
  rq_pem_bundle :: "string \<Rightarrow> (string, 'c list) result"
  rq_identity :: "string \<Rightarrow> (string, 'i) result"
  rq_build :: "('c, 'i) client_builder \<Rightarrow> (string, unit) result"

definition read_client_pem :: "('c, 'i) reqwest_lib \<Rightarrow> pem_source \<Rightarrow> string \<Rightarrow> (string, string) result" where
  "read_client_pem rq source label =
     (case source of
        PemPath path \<Rightarrow> map_err (\<lambda>e. ''failed to read '' @ label @ '' `'' @ path @ ''`: '' @ e) (rq_read_file rq path)
      | InlinePem pem \<Rightarrow> Inr pem)"

definition client_roots :: "('c, 'i) reqwest_lib \<Rightarrow> pem_source option \<Rightarrow> (string, 'c list) result" where
  "client_roots rq source =
     (case source of
        None \<Rightarrow> Inr []
      | Some src \<Rightarrow>
          and_then (read_client_pem rq src ''nrf_discovery ssl_trusted_certificate'') (\<lambda>pem.
          and_then (map_err (\<lambda>e. ''failed to parse nrf_discovery ssl_trusted_certificate: '' @ e) (rq_pem_bundle rq pem)) (\<lambda>certs.
          and_then (reject (certs = []) ''nrf_discovery ssl_trusted_certificate contains no certificates'') (\<lambda>_.
          Inr certs))))"

definition nrf_client_identity :: "('c, 'i) reqwest_lib \<Rightarrow> pem_source option \<Rightarrow> pem_source option \<Rightarrow> (string, 'i option) result" where
  "nrf_client_identity rq cert key =
     (case (cert, key) of
        (Some c, Some k) \<Rightarrow>
          and_then (read_client_pem rq c ''nrf_discovery ssl_certificate'') (\<lambda>cert_pem.
          and_then (read_client_pem rq k ''nrf_discovery ssl_certificate_key'') (\<lambda>key_pem.
          and_then (map_err (\<lambda>e. ''failed to parse nrf_discovery client identity: '' @ e)
            (rq_identity rq (cert_pem @ key_pem))) (\<lambda>i.
          Inr (Some i))))
      | _ \<Rightarrow> Inr None)"

definition nrf_client_new ::
  "('c, 'i) reqwest_lib \<Rightarrow> compiled_nrf_discovery \<Rightarrow> (string, ('c, 'i) client_builder) result" where
  "nrf_client_new rq config =
     (let tls = cn_tls_options config
      in
      and_then (client_roots rq (us_trusted_certificate tls)) (\<lambda>roots.
      and_then (nrf_client_identity rq (us_client_certificate tls) (us_client_certificate_key tls)) (\<lambda>i.
      let builder = \<lparr>cb_timeout = cn_timeout config, cb_accept_invalid_certs = (us_verify_cert tls = Off),
                     cb_root_certificates = roots, cb_identity = i\<rparr>
      in
      and_then (map_err (\<lambda>e. ''failed to build nrf_discovery HTTP client: '' @ e) (rq_build rq builder)) (\<lambda>_.
      Inr builder))))"

section \<open>The exchange\<close>

text \<open>
  The address asked: the path, the query of the configured root when it is kept, and the pairs
  appended to it.
\<close>

record nrf_request =
  nr_path :: string
  nr_kept_query :: "string option"
  nr_pairs :: "(string \<times> string) list"

definition optional_pair :: "string \<Rightarrow> string option \<Rightarrow> (string \<times> string) list" where
  "optional_pair name v = (case v of None \<Rightarrow> [] | Some s \<Rightarrow> [(name, s)])"

definition nrf_request_of :: "url_lib \<Rightarrow> compiled_nrf_discovery \<Rightarrow> nrf_query option \<Rightarrow> nrf_request" where
  "nrf_request_of ul config query =
     (let path = trim_end_matches CHR ''/'' (ul_path ul (cn_api_root config)) @ ''/nf-instances'';
          types = [(''target-nf-type'', cn_target_nf_type config), (''requester-nf-type'', cn_requester_nf_type config)]
      in case query of
           None \<Rightarrow>
             \<lparr>nr_path = path, nr_kept_query = ul_query ul (cn_api_root config),
              nr_pairs = types @ [(''service-names'', cn_service_name config)]\<rparr>
         | Some q \<Rightarrow>
             \<lparr>nr_path = path, nr_kept_query = None,
              nr_pairs = types @ [(''service-names'', join_with '','' (nq_service_names q))] @
                optional_pair ''target-nf-instance-id'' (nq_nf_instance_id q) @
                optional_pair ''requester-nf-instance-id'' (nq_requester_instance_id q)\<rparr>)"

text \<open>The response as the client yields it: each chunk arrives or reading fails.\<close>

record nrf_response =
  nrs_status :: nat
  nrs_content_length :: "nat option"
  nrs_chunks :: "(string, string) result list"

definition body_exceeds :: string where
  "body_exceeds = ''NRF discovery response exceeds 1048576 bytes''"

definition read_chunk :: "string \<Rightarrow> (string, string) result \<Rightarrow> (string, string) result" where
  "read_chunk body c =
     and_then (map_err (\<lambda>e. ''failed to read NRF discovery response: '' @ e) c) (\<lambda>chunk.
     and_then (reject (MAX_RESPONSE_BODY < sat_add64 (length body) (length chunk)) body_exceeds) (\<lambda>_.
     Inr (body @ chunk)))"

definition discovery_validity :: "nat option \<Rightarrow> duration" where
  "discovery_validity v =
     (case v of None \<Rightarrow> DEFAULT_VALIDITY | Some secs \<Rightarrow> if from_secs secs = 0 then DEFAULT_VALIDITY else from_secs secs)"

definition nrf_discover ::
  "externals \<Rightarrow> nrf_lib \<Rightarrow> url_lib \<Rightarrow> (nrf_request \<Rightarrow> (string, nrf_response) result) \<Rightarrow> compiled_nrf_discovery \<Rightarrow>
   nrf_query option \<Rightarrow> (string, discovery_result) result" where
  "nrf_discover x l ul send config query =
     and_then (map_err (\<lambda>e. ''NRF discovery request failed: '' @ e) (send (nrf_request_of ul config query))) (\<lambda>response.
     and_then (reject (nrs_status response \<noteq> 200) (''NRF discovery returned HTTP '' @ nl_status_text l (nrs_status response))) (\<lambda>_.
     and_then (reject (case nrs_content_length response of None \<Rightarrow> False | Some n \<Rightarrow> MAX_RESPONSE_BODY < n) body_exceeds) (\<lambda>_.
     and_then (fold_res read_chunk [] (nrs_chunks response)) (\<lambda>body.
     and_then (map_err (\<lambda>e. ''invalid NRF SearchResult: '' @ e) (nl_search_result l body)) (\<lambda>result.
     case extract_query_endpoints x l config (sr_nf_instances result) query of
       (endpoints, invalid_api) \<Rightarrow>
         Inr \<lparr>dr_endpoints = endpoints, dr_validity = discovery_validity (sr_validity_period result),
              dr_invalid_api = invalid_api\<rparr>)))))"

section \<open>What an endpoint comes from\<close>

text \<open>A service that fits the configuration and the query, with the metadata that stands for it.\<close>

definition service_fits ::
  "compiled_nrf_discovery \<Rightarrow> nrf_query option \<Rightarrow> nf_profile \<Rightarrow> nf_service \<Rightarrow> nrf_service_metadata \<Rightarrow> bool" where
  "service_fits config query p s m \<longleftrightarrow>
     eq_ignore_ascii_case (np_nf_status p) ''REGISTERED'' \<and> eq_ignore_ascii_case (nf_service_status s) ''REGISTERED'' \<and>
     nf_service_name s = cn_service_name config \<and> eq_ignore_ascii_case (nf_scheme s) (expected_scheme config) \<and>
     map_option trim (np_nf_instance_id p) = Some (ns_nf_instance_id m) \<and> ns_nf_instance_id m \<noteq> [] \<and>
     map_option trim (nf_service_instance_id s) = Some (ns_service_instance_id m) \<and> ns_service_instance_id m \<noteq> [] \<and>
     (case query of
        None \<Rightarrow> True
      | Some q \<Rightarrow>
          np_nf_type p = Some (cn_target_nf_type config) \<and>
          nq_nf_instance_id q \<in> {None, Some (ns_nf_instance_id m)} \<and>
          nq_service_instance_id q \<in> {None, Some (ns_service_instance_id m)} \<and>
          (\<exists>v \<in> set (nf_versions s). nv_api_version_in_uri v = nq_api_version q))"

text \<open>The names and addresses that a service and its profile give.\<close>

definition given_hosts :: "nf_profile \<Rightarrow> nf_service \<Rightarrow> string set" where
  "given_hosts p s =
     set_option (nf_service_fqdn s) \<union> set_option (np_fqdn p) \<union> set (np_ipv4_addresses p) \<union> set (np_ipv6_addresses p) \<union>
     (\<Union>e \<in> set (nf_ip_end_points s). set_option (ie_ipv4_address e) \<union> set_option (ie_ipv6_address e))"

definition given_ports :: "compiled_nrf_discovery \<Rightarrow> nf_service \<Rightarrow> nat set" where
  "given_ports config s = insert (default_port config) (\<Union>e \<in> set (nf_ip_end_points s). set_option (ie_port e))"

definition usable_host :: "nrf_lib \<Rightarrow> string \<Rightarrow> bool" where
  "usable_host l h \<longleftrightarrow> h \<noteq> [] \<and> (parse_ip h \<noteq> None \<or> nl_host_ok l h)"

definition address_of :: "nrf_lib \<Rightarrow> compiled_nrf_discovery \<Rightarrow> nf_profile \<Rightarrow> nf_service \<Rightarrow> string \<Rightarrow> nat \<Rightarrow> bool" where
  "address_of l config p s host port \<longleftrightarrow>
     (\<exists>h \<in> given_hosts p s. usable_host l (trim_brackets (trim h)) \<and> host = to_ascii_lowercase (trim_brackets (trim h))) \<and>
     port \<in> given_ports config s \<and> 0 < port"

definition endpoint_from ::
  "nrf_lib \<Rightarrow> compiled_nrf_discovery \<Rightarrow> nrf_query option \<Rightarrow> nf_profile \<Rightarrow> nf_service \<Rightarrow> nrf_endpoint \<Rightarrow> bool" where
  "endpoint_from l config query p s e =
     (case e of (m, host, port, api_prefix) \<Rightarrow> service_fits config query p s m \<and> address_of l config p s host port)"

lemma set_ordered_insert: "set (ordered_insert v s) = insert v (set s)"
  by (auto simp: ordered_insert_def set_insort_key)

lemma ordered_insert_sorted:
  "sorted s \<Longrightarrow> distinct s \<Longrightarrow> sorted (ordered_insert v s) \<and> distinct (ordered_insert v s)"
  by (simp add: ordered_insert_def sorted_insort distinct_insort)

definition endpoint_set :: "(nrf_endpoint \<Rightarrow> bool) \<Rightarrow> nrf_endpoint list \<Rightarrow> bool" where
  "endpoint_set P es \<longleftrightarrow> sorted es \<and> distinct es \<and> (\<forall>e \<in> set es. P e)"

lemma add_endpoint_set:
  assumes "endpoint_set P es"
    and "usable_host l (trim_brackets (trim host)) \<Longrightarrow> 0 < port \<Longrightarrow>
      P (m, to_ascii_lowercase (trim_brackets (trim host)), port, api_prefix)"
  shows "endpoint_set P (add_endpoint l es host port api_prefix m)"
  using assms ordered_insert_sorted
  by (auto simp: add_endpoint_def Let_def endpoint_set_def usable_host_def set_ordered_insert)

lemma fold_endpoint_set:
  assumes "endpoint_set P es" and "\<And>v es. v \<in> set vs \<Longrightarrow> endpoint_set P es \<Longrightarrow> endpoint_set P (f v es)"
  shows "endpoint_set P (fold f vs es)"
  using assms by (induction vs arbitrary: es) auto

lemma named_ports_given: "port \<in> set (named_ports config s) \<Longrightarrow> port \<in> given_ports config s"
  by (auto simp: named_ports_def given_ports_def Let_def List.map_filter_def split: if_splits)

lemma or_else_Some: "or_else a b = Some v \<Longrightarrow> a = Some v \<or> b = Some v"
  by (auto simp: or_else_def split: option.splits)

lemma add_service_endpoints_set:
  assumes es: "endpoint_set P es"
    and P: "\<And>host port. address_of l config p s host port \<Longrightarrow> P (m, host, port, api_prefix)"
  shows "endpoint_set P (add_service_endpoints l config query p s m api_prefix es)"
proof -
  have add: "endpoint_set P (add_endpoint l es' host port api_prefix m)"
    if "endpoint_set P es'" "host \<in> given_hosts p s" "port \<in> given_ports config s" for es' host port
    using that by (intro add_endpoint_set P) (auto simp: address_of_def)
  have ip: "endpoint_set P (add_ip_end_point l config m api_prefix e es')"
    if "e \<in> set (nf_ip_end_points s)" "endpoint_set P es'" for e es'
  proof -
    have "unwrap_or (ie_port e) (default_port config) \<in> given_ports config s"
      using that(1) by (auto simp: unwrap_or_def given_ports_def split: option.splits)
    moreover have "h \<in> given_hosts p s" if "ie_ipv4_address e = Some h \<or> ie_ipv6_address e = Some h" for h
      using that \<open>e \<in> set (nf_ip_end_points s)\<close> by (auto simp: given_hosts_def)
    ultimately show ?thesis
      using that(2) by (cases "ie_ipv4_address e"; cases "ie_ipv6_address e") (simp_all add: add_ip_end_point_def Let_def add)
  qed
  have found: "endpoint_set P (fold (add_ip_end_point l config m api_prefix) (nf_ip_end_points s) es)"
    by (rule fold_endpoint_set [OF es]) (rule ip)
  have fallback: "endpoint_set P (fold (\<lambda>host es. add_endpoint l es host (default_port config) api_prefix m)
      (np_ipv4_addresses p @ np_ipv6_addresses p) es')" if "endpoint_set P es'" for es'
    by (rule fold_endpoint_set [OF that]) (auto intro!: add simp: given_hosts_def given_ports_def)
  have named: "endpoint_set P (fold (\<lambda>port es. add_endpoint l es host port api_prefix m) (named_ports config s) es)"
    if "or_else (nf_service_fqdn s) (np_fqdn p) = Some host" for host
    by (rule fold_endpoint_set [OF es])
      (use that in \<open>auto intro!: add named_ports_given simp: given_hosts_def dest!: or_else_Some\<close>)
  show ?thesis
    using found fallback named by (auto simp: add_service_endpoints_def Let_def split: option.splits)
qed

lemma judged_fits:
  assumes "judge_service x l config query p nf_id priority capacity s = Admitted m api_prefix"
    and "eq_ignore_ascii_case (np_nf_status p) ''REGISTERED''" and "non_empty_id (np_nf_instance_id p) = Some nf_id"
    and "query \<noteq> None \<longrightarrow> np_nf_type p = Some (cn_target_nf_type config)"
    and "\<forall>q. query = Some q \<longrightarrow> nq_nf_instance_id q \<in> {None, Some nf_id}"
  shows "service_fits config query p s m"
proof -
  from assms(1) obtain sid where sid: "non_empty_id (nf_service_instance_id s) = Some sid"
    and s: "nf_service_name s = cn_service_name config" "eq_ignore_ascii_case (nf_service_status s) ''REGISTERED''"
      "eq_ignore_ascii_case (nf_scheme s) (expected_scheme config)"
    and q: "\<forall>q. query = Some q \<longrightarrow> nq_service_instance_id q \<in> {None, Some sid} \<and>
      (\<exists>v \<in> set (nf_versions s). nv_api_version_in_uri v = nq_api_version q)"
    and m: "ns_nf_instance_id m = nf_id" "ns_service_instance_id m = sid"
    by (auto simp: judge_service_def admit_service_def list_ex_iff split: if_splits option.splits sum.splits)
  have "map_option trim v = Some i \<and> i \<noteq> []" if "non_empty_id v = Some i" for v i
    using that by (cases v) (auto simp: non_empty_id_def split: if_splits)
  with sid assms(3) s q m assms(2,4,5) show ?thesis
    by (auto simp: service_fits_def split: option.splits)
qed

definition from_profiles ::
  "nrf_lib \<Rightarrow> compiled_nrf_discovery \<Rightarrow> nrf_query option \<Rightarrow> nf_profile list \<Rightarrow> nrf_endpoint \<Rightarrow> bool" where
  "from_profiles l config query ps e \<longleftrightarrow>
     (\<exists>p \<in> set ps. \<exists>s \<in> set (profile_services p). endpoint_from l config query p s e)"

lemma extract_profile_set:
  assumes st: "endpoint_set (from_profiles l config query ps) (fst st)" and p: "p \<in> set ps"
  shows "endpoint_set (from_profiles l config query ps) (fst (extract_profile x l config query p st))"
proof (cases "extract_profile x l config query p st = st")
  case False
  then obtain nf_id priority capacity where
    fits: "eq_ignore_ascii_case (np_nf_status p) ''REGISTERED''" "non_empty_id (np_nf_instance_id p) = Some nf_id"
      "query \<noteq> None \<longrightarrow> np_nf_type p = Some (cn_target_nf_type config)"
      "\<forall>q. query = Some q \<longrightarrow> nq_nf_instance_id q \<in> {None, Some nf_id}"
    and run: "extract_profile x l config query p st =
      fold (extract_service x l config query p nf_id priority capacity) (profile_services p) st"
    by (auto simp: extract_profile_def split: if_splits option.splits sum.splits)
  have step: "endpoint_set (from_profiles l config query ps)
      (fst (extract_service x l config query p nf_id priority capacity s st'))"
    if "s \<in> set (profile_services p)" "endpoint_set (from_profiles l config query ps) (fst st')" for s st'
  proof (cases "judge_service x l config query p nf_id priority capacity s")
    case (Admitted m api_prefix)
    from judged_fits [OF this fits] that(1) p have "from_profiles l config query ps (m, host, port, api_prefix)"
      if "address_of l config p s host port" for host port
      using that by (auto simp: from_profiles_def endpoint_from_def)
    from add_service_endpoints_set [OF that(2) this] Admitted show ?thesis by (simp add: extract_service_def)
  qed (use that in \<open>simp_all add: extract_service_def\<close>)
  have "endpoint_set (from_profiles l config query ps)
      (fst (fold (extract_service x l config query p nf_id priority capacity) ss st'))"
    if "set ss \<subseteq> set (profile_services p)" "endpoint_set (from_profiles l config query ps) (fst st')" for ss st'
    using that step by (induction ss arbitrary: st') auto
  from this [OF subset_refl st] run show ?thesis by simp
qed (use st in simp)

lemma extracted_set:
  "endpoint_set (from_profiles l config query ps) (fst (fold (extract_profile x l config query) ps ([], False)))"
proof -
  have "endpoint_set (from_profiles l config query ps) (fst (fold (extract_profile x l config query) qs st))"
    if "set qs \<subseteq> set ps" "endpoint_set (from_profiles l config query ps) (fst st)" for qs st
    using that extract_profile_set by (induction qs arbitrary: st) auto
  from this [OF subset_refl, of "([], False)"] show ?thesis by (simp add: endpoint_set_def)
qed

lemma nrf_server_inj: "inj nrf_server"
  by (auto simp: inj_on_def nrf_server_def)

section \<open>The body that is read\<close>

lemma read_chunks_bounded:
  assumes "fold_res read_chunk [] cs = Inr body"
  shows "length body \<le> MAX_RESPONSE_BODY"
  by (rule fold_res_invariant [OF assms, where I = "\<lambda>b. length b \<le> MAX_RESPONSE_BODY"])
    (auto simp: read_chunk_def and_then_Inr_iff reject_Inr_iff sat_add_def MAX_RESPONSE_BODY_def
      map_err_Inr_iff min_def split: if_splits)

lemma discovery_validity_pos: "0 < discovery_validity v"
  by (simp add: discovery_validity_def DEFAULT_VALIDITY_def from_secs_def split: option.splits)

section \<open>Samples\<close>

definition sample_nrf_lib :: nrf_lib where
  "sample_nrf_lib =
     \<lparr>nl_host_ok = (\<lambda>h. h \<noteq> []), nl_path_and_query = (\<lambda>_. Inr False), nl_search_result = (\<lambda>_. Inl ''no document''),
      nl_status_text = show_nat\<rparr>"

definition sample_nrf_config :: compiled_nrf_discovery where
  "sample_nrf_config =
     \<lparr>cn_api_root = Url [], cn_target_nf_type = ''SMF'', cn_requester_nf_type = ''AMF'', cn_service_name = ''pdu'',
      cn_endpoint_scheme = SchemeHttp, cn_timeout = 0, cn_stale_if_error = 0, cn_tls_options = upstream_ssl_default\<rparr>"

definition sample_nf_service :: nf_service where
  "sample_nf_service =
     \<lparr>nf_versions = [], nf_service_instance_id = Some ''s1'', nf_service_name = ''pdu'', nf_scheme = ''http'',
      nf_service_status = ''REGISTERED'', nf_service_priority = None, nf_service_capacity = None,
      nf_service_fqdn = None, nf_ip_end_points = [\<lparr>ie_ipv4_address = Some ''n1'', ie_ipv6_address = None, ie_port = Some 8\<rparr>],
      nf_api_prefix = None\<rparr>"

definition sample_nf_profile :: nf_profile where
  "sample_nf_profile =
     \<lparr>np_nf_type = None, np_nf_instance_id = Some ''i1'', np_nf_status = ''Registered'', np_priority = None,
      np_capacity = None, np_fqdn = None, np_ipv4_addresses = [''n2''], np_ipv6_addresses = [],
      np_nf_services = [sample_nf_service], np_nf_service_list = []\<rparr>"

definition sample_metadata_nrf :: nrf_service_metadata where
  "sample_metadata_nrf = NrfServiceMetadata None ''i1'' ''s1'' u16_max 1"

definition sample_nrf_endpoint :: nrf_endpoint where
  "sample_nrf_endpoint = (sample_metadata_nrf, ''n1'', 8, None)"

lemma sample_strings:
  "trim ''i1'' = ''i1''" "trim ''s1'' = ''s1''" "trim_brackets (trim ''n1'') = ''n1''" "trim_brackets (trim ''n2'') = ''n2''"
  "to_ascii_lowercase ''n1'' = ''n1''" "to_ascii_lowercase ''n2'' = ''n2''"
  "eq_ignore_ascii_case ''REGISTERED'' ''REGISTERED''" "eq_ignore_ascii_case ''Registered'' ''REGISTERED''"
  "eq_ignore_ascii_case ''http'' ''http''"
  by code_simp+

lemma sample_judged:
  "judge_service x sample_nrf_lib sample_nrf_config None sample_nf_profile ''i1'' None None sample_nf_service =
   Admitted sample_metadata_nrf None"
  by (simp add: judge_service_def admit_service_def sample_nf_service_def sample_nrf_config_def expected_scheme_def
      non_empty_id_def optional_u16_def normalize_api_prefix_def or_else_def unwrap_or_def sample_strings
      sample_metadata_nrf_def)

lemma sample_added:
  "add_service_endpoints sample_nrf_lib sample_nrf_config None sample_nf_profile sample_nf_service sample_metadata_nrf None [] =
   [sample_nrf_endpoint]"
  by (simp add: add_service_endpoints_def sample_nf_service_def sample_nf_profile_def sample_nrf_config_def
      default_port_def expected_scheme_def or_else_def unwrap_or_def add_ip_end_point_def add_endpoint_def sample_strings
      sample_nrf_lib_def ordered_insert_def sample_nrf_endpoint_def)

lemma sample_extracted:
  "extract_query_endpoints x sample_nrf_lib sample_nrf_config [sample_nf_profile] None = ([nrf_server sample_nrf_endpoint], False)"
proof -
  have "profile_services sample_nf_profile = [sample_nf_service]"
    by (simp add: profile_services_def sample_nf_profile_def List.map_filter_def)
  moreover have "np_nf_status sample_nf_profile = ''Registered''" "np_nf_instance_id sample_nf_profile = Some ''i1''"
    "np_priority sample_nf_profile = None" "np_capacity sample_nf_profile = None"
    by (simp_all add: sample_nf_profile_def)
  ultimately show ?thesis
    by (simp add: extract_query_endpoints_def extract_profile_def sample_strings non_empty_id_def optional_u16_def
        extract_service_def sample_judged sample_added)
qed

text \<open>
  A service that is listed in both attributes of its profile: the second time it adds nothing new,
  which is taken for a service without addresses, and the address of the profile is added with
  the default port.
\<close>

lemma service_listed_twice:
  "add_service_endpoints sample_nrf_lib sample_nrf_config None sample_nf_profile sample_nf_service sample_metadata_nrf None
     [sample_nrf_endpoint] = [sample_nrf_endpoint, (sample_metadata_nrf, ''n2'', 80, None)]"
proof -
  have "sample_nrf_endpoint \<le> (sample_metadata_nrf, ''n2'', 80, None)"
    by (simp add: sample_nrf_endpoint_def less_char_def)
  then show ?thesis
    by (simp add: add_service_endpoints_def sample_nf_service_def sample_nf_profile_def sample_nrf_config_def
      default_port_def expected_scheme_def or_else_def unwrap_or_def add_ip_end_point_def add_endpoint_def sample_strings
      sample_nrf_lib_def ordered_insert_def sample_nrf_endpoint_def)
qed

section \<open>Claims\<close>



end
