(* ===== verification/Background.thy ===== *)
theory Background
  imports Nrf Scp
begin

text \<open>
  What runs beside the requests: the probes of the health checks
  (\<^verbatim>\<open>crates/ngxora-runtime/src/upstreams/health.rs\<close>), and the rounds of the two background services of
  \<^verbatim>\<open>control.rs\<close> that check and refresh the groups of the active snapshot.
\<close>

section \<open>Building a health check\<close>

record tcp_health_check =
  tk_consecutive_success :: nat
  tk_consecutive_failure :: nat
  tk_timeout :: duration

text \<open>The request is a \<^verbatim>\<open>GET\<close> with this URI and the host as its only header.\<close>

record http_health_check =
  hk_consecutive_success :: nat
  hk_consecutive_failure :: nat
  hk_timeout :: duration
  hk_host :: string
  hk_use_tls :: bool
  hk_uri :: string

datatype ngxora_health_check = HealthTcp tcp_health_check | HealthHttp http_health_check

record health_lib =
  hl_parse_uri :: "string \<Rightarrow> (string, string) result"
  hl_build_request :: "string \<Rightarrow> (string, unit) result"
  hl_host_header :: "string \<Rightarrow> (string, unit) result"

definition health_build :: "health_lib \<Rightarrow> compiled_health_check \<Rightarrow> (string, ngxora_health_check) result" where
  "health_build hl c =
     (case ch_check_type c of
        HcTcp \<Rightarrow>
          Inr (HealthTcp \<lparr>tk_consecutive_success = ch_consecutive_success c,
            tk_consecutive_failure = ch_consecutive_failure c, tk_timeout = ch_timeout c\<rparr>)
      | HcHttp host path use_tls \<Rightarrow>
          and_then (map_err (\<lambda>e. ''invalid health_check path `'' @ path @ ''`: '' @ e) (hl_parse_uri hl path)) (\<lambda>uri.
          and_then (map_err (\<lambda>e. ''failed to build health_check request for `'' @ path @ ''`: '' @ e)
            (hl_build_request hl path)) (\<lambda>_.
          and_then (map_err (\<lambda>e. ''failed to build health_check host header: '' @ e) (hl_host_header hl host)) (\<lambda>_.
          Inr (HealthHttp \<lparr>hk_consecutive_success = ch_consecutive_success c,
            hk_consecutive_failure = ch_consecutive_failure c, hk_timeout = ch_timeout c, hk_host = host,
            hk_use_tls = use_tls, hk_uri = uri\<rparr>)))))"

section \<open>Probing a backend\<close>

record probe_peer =
  pp_addr :: "ip_addr \<times> nat"
  pp_tls :: bool
  pp_sni :: string
  pp_connection_timeout :: "duration option"
  pp_read_timeout :: "duration option"

text \<open>What the network answers, call by call; the body is read until it ends.\<close>

record probe_session =
  po_write_header :: "(string, unit) result"
  po_finish_body :: "(string, unit) result"
  po_read_header :: "(string, unit) result"
  po_response :: "nat option"
  po_body :: "(string, string option) result list"

record probe_net =
  pn_lookup_host :: "string \<Rightarrow> nat \<Rightarrow> (string, (ip_addr \<times> nat) list) result"
  pn_get_stream :: "probe_peer \<Rightarrow> (string, unit) result"
  pn_get_session :: "probe_peer \<Rightarrow> string \<Rightarrow> string \<Rightarrow> (string, probe_session) result"

definition backend_health_server :: "backend \<Rightarrow> (string, compiled_upstream_server) result" where
  "backend_health_server b = ok_or ''health check backend is missing compiled upstream metadata'' (bd_server b)"

definition resolve_health_check_addr :: "probe_net \<Rightarrow> compiled_upstream_server \<Rightarrow> (string, ip_addr \<times> nat) result" where
  "resolve_health_check_addr net s =
     and_then (map_err (\<lambda>e. ''failed to resolve upstream `'' @ show_server s @ ''` for health check: '' @ e)
       (pn_lookup_host net (cs_host s) (cs_port s))) (\<lambda>addrs.
     case addrs of
       [] \<Rightarrow> Inl (''upstream `'' @ show_server s @ ''` did not resolve to any address'')
     | a # _ \<Rightarrow> Inr a)"

definition check_tcp_backend :: "probe_net \<Rightarrow> tcp_health_check \<Rightarrow> backend \<Rightarrow> (string, unit) result" where
  "check_tcp_backend net c b =
     and_then (backend_health_server b) (\<lambda>s.
     and_then (resolve_health_check_addr net s) (\<lambda>addr.
     pn_get_stream net \<lparr>pp_addr = addr, pp_tls = False, pp_sni = [], pp_connection_timeout = Some (tk_timeout c),
       pp_read_timeout = None\<rparr>))"

fun drain_body :: "(string, string option) result list \<Rightarrow> (string, unit) result" where
  "drain_body [] = Inr ()"
| "drain_body (Inl e # rs) = Inl e"
| "drain_body (Inr None # rs) = Inr ()"
| "drain_body (Inr (Some _) # rs) = drain_body rs"

definition check_http_backend :: "probe_net \<Rightarrow> http_health_check \<Rightarrow> backend \<Rightarrow> (string, unit) result" where
  "check_http_backend net c b =
     and_then (backend_health_server b) (\<lambda>s.
     and_then (resolve_health_check_addr net s) (\<lambda>addr.
     and_then (pn_get_session net
       \<lparr>pp_addr = addr, pp_tls = hk_use_tls c, pp_sni = (if hk_use_tls c then hk_host c else []),
        pp_connection_timeout = Some (hk_timeout c), pp_read_timeout = Some (hk_timeout c)\<rparr> (hk_host c) (hk_uri c)) (\<lambda>session.
     and_then (po_write_header session) (\<lambda>_.
     and_then (po_finish_body session) (\<lambda>_.
     and_then (po_read_header session) (\<lambda>_.
     and_then (ok_or ''health check response header is missing after read'' (po_response session)) (\<lambda>status.
     and_then (reject (status \<noteq> 200)
       (''http health check to '' @ show_server s @ '' returned status '' @ show_nat status)) (\<lambda>_.
     drain_body (po_body session)))))))))"

definition check_backend :: "probe_net \<Rightarrow> ngxora_health_check \<Rightarrow> backend \<Rightarrow> (string, unit) result" where
  "check_backend net c b =
     (case c of HealthTcp t \<Rightarrow> check_tcp_backend net t b | HealthHttp h \<Rightarrow> check_http_backend net h b)"

definition health_threshold :: "ngxora_health_check \<Rightarrow> bool \<Rightarrow> nat" where
  "health_threshold c success =
     (case c of
        HealthTcp t \<Rightarrow> if success then tk_consecutive_success t else tk_consecutive_failure t
      | HealthHttp h \<Rightarrow> if success then hk_consecutive_success h else hk_consecutive_failure h)"

section \<open>Rounds\<close>

text \<open>
  A round of a background service: every group of the snapshot is visited, and the service sleeps
  until the first time a group asks for, but at most the refresh interval of one second.
\<close>

definition service_round ::
  "(string \<Rightarrow> 'g \<Rightarrow> instant option \<times> 'g) \<Rightarrow> instant \<Rightarrow> (string, 'g) hmap \<Rightarrow> instant \<times> (string, 'g) hmap" where
  "service_round visit now groups =
     (foldl (\<lambda>wake (name, g). case fst (visit name g) of None \<Rightarrow> wake | Some t \<Rightarrow> min wake t)
        (now + from_secs 1) groups,
      map (\<lambda>(name, g). (name, snd (visit name g))) groups)"

definition health_round ::
  "instant \<Rightarrow> (string, 's runtime_upstream_group) hmap \<Rightarrow> instant \<times> (string, 's runtime_upstream_group) hmap" where
  "health_round now groups =
     service_round (\<lambda>_ g. case run_due_health_check now g of (r, g') \<Rightarrow> (map_option fst r, g')) now groups"

definition visit_discovery ::
  "'s group_lib \<Rightarrow> instant \<Rightarrow> (string \<Rightarrow> refresh_env) \<Rightarrow> string \<Rightarrow> 's runtime_upstream_group \<Rightarrow>
   instant option \<times> 's runtime_upstream_group" where
  "visit_discovery l now env name g =
     (case rg_nrf_discovery g of
        None \<Rightarrow> (None, g)
      | Some d \<Rightarrow>
          (case run_due_nrf_discovery l ((env name)\<lparr>re_now := now\<rparr>) d of
             (t, d') \<Rightarrow> (t, g\<lparr>rg_nrf_discovery := Some d'\<rparr>)))"

text \<open>
  A round of the discovery service also maintains the SCP profiles: it drops idle entries. The
  refreshes it starts for the entries that stay run on their own and are the refresh steps of the
  SCP.
\<close>

definition nrf_round ::
  "'s group_lib \<Rightarrow> instant \<Rightarrow> (string \<Rightarrow> refresh_env) \<Rightarrow> (scp_key \<Rightarrow> bool) \<Rightarrow>
   (string, 's runtime_upstream_group) hmap \<Rightarrow> (string, 's runtime_scp) hmap \<Rightarrow>
   instant \<times> (string, 's runtime_upstream_group) hmap \<times> (string, 's runtime_scp) hmap" where
  "nrf_round l now env busy groups profiles =
     (case service_round (visit_discovery l now env) now groups of
        (wake, groups') \<Rightarrow> (wake, groups', map (\<lambda>(name, p). (name, maintain busy now p)) profiles))"

section \<open>Properties\<close>

lemma ex_unit: "(\<exists>u :: unit. P u) \<longleftrightarrow> P ()"
  by (metis (full_types) old.unit.exhaust)

lemma resolved_first:
  "resolve_health_check_addr net s = Inr a \<longleftrightarrow> (\<exists>as. pn_lookup_host net (cs_host s) (cs_port s) = Inr (a # as))"
  by (cases "pn_lookup_host net (cs_host s) (cs_port s)") (auto simp: resolve_health_check_addr_def map_err_def split: list.splits)

text \<open>
  A backend passes an HTTP probe exactly when its first address answers 200 and the whole body
  arrives; the name checked by TLS is the configured host.
\<close>

lemma http_probe_passes:
  "check_backend net (HealthHttp c) b = Inr () \<longleftrightarrow>
   (\<exists>s addr addrs session.
      bd_server b = Some s \<and> pn_lookup_host net (cs_host s) (cs_port s) = Inr (addr # addrs) \<and>
      pn_get_session net
        \<lparr>pp_addr = addr, pp_tls = hk_use_tls c, pp_sni = (if hk_use_tls c then hk_host c else []),
         pp_connection_timeout = Some (hk_timeout c), pp_read_timeout = Some (hk_timeout c)\<rparr> (hk_host c) (hk_uri c) =
        Inr session \<and>
      po_write_header session = Inr () \<and> po_finish_body session = Inr () \<and> po_read_header session = Inr () \<and>
      po_response session = Some 200 \<and> drain_body (po_body session) = Inr ())"
  unfolding check_backend_def ngxora_health_check.case check_http_backend_def backend_health_server_def
    and_then_Inr_iff ok_or_Inr_iff reject_Inr_iff resolved_first
  by (simp only: ex_unit not_not) blast

lemma foldl_wake:
  "foldl (\<lambda>wake (name, g). case fst (visit name g) of None \<Rightarrow> wake | Some t \<Rightarrow> min wake t) (w :: nat) groups \<le> w \<and>
   (\<forall>(name, g) \<in> set groups. \<forall>t. fst (visit name g) = Some t \<longrightarrow>
     foldl (\<lambda>wake (name, g). case fst (visit name g) of None \<Rightarrow> wake | Some t \<Rightarrow> min wake t) w groups \<le> t)"
proof (induction groups arbitrary: w)
  case (Cons ng groups)
  obtain n g where ng: "ng = (n, g)" by (cases ng)
  define w' where "w' = (case fst (visit n g) of None \<Rightarrow> w | Some t \<Rightarrow> min w t)"
  have "w' \<le> w" "\<forall>t. fst (visit n g) = Some t \<longrightarrow> w' \<le> t" by (auto simp: w'_def split: option.splits)
  with Cons.IH [of w'] ng show ?case by (fastforce simp: w'_def [symmetric] intro: order_trans)
qed simp

lemma service_round_wakes:
  assumes "service_round visit now groups = (wake, groups')"
  shows "wake \<le> now + from_secs 1"
    and "(name, g) \<in> set groups \<Longrightarrow> fst (visit name g) = Some t \<Longrightarrow> wake \<le> t"
  using assms foldl_wake [of visit "now + from_secs 1" groups] by (auto simp: service_round_def)

lemma refresh_reports_next:
  assumes "run_due_nrf_discovery l env d = (r, d')" and "re_permit_ok env"
  shows "r = Some (sch_next_run_at (rd_schedule d'))"
  using assms
  by (auto simp: run_due_nrf_discovery_def Let_def refresh_failed_def record_failure_def expire_snapshot_def
      apply_discovery_def and_then_Inr_iff split: if_splits sum.splits prod.splits)

text \<open>
  Neither service oversleeps: it wakes within a second and no later than the next check of any
  group, or the next refresh of any group that could be refreshed.
\<close>

lemma health_round_timely:
  assumes "health_round now groups = (wake, groups')" and "(name, g) \<in> set groups'" and "rg_health_check g = Some s"
  shows "wake \<le> now + from_secs 1 \<and> wake \<le> hs_next_run_at s"
proof -
  define visit where "visit = (\<lambda>(_ :: string) (g :: 'a runtime_upstream_group).
    case run_due_health_check now g of (r, g') \<Rightarrow> (map_option fst r, g'))"
  have round: "service_round visit now groups = (wake, groups')"
    using assms(1) by (simp add: health_round_def visit_def)
  from round assms(2) obtain g0 where g0: "(name, g0) \<in> set groups" "g = snd (visit name g0)"
    by (auto simp: service_round_def)
  have "fst (visit name g0) = Some (hs_next_run_at s)"
    using g0(2) assms(3) by (auto simp: visit_def run_due_health_check_def Let_def split: option.splits if_splits)
  with service_round_wakes [OF round] g0(1) show ?thesis by blast
qed

lemma nrf_round_timely:
  assumes "nrf_round l now env busy groups profiles = (wake, groups', profiles')" and "(name, g) \<in> set groups'"
    and "rg_nrf_discovery g = Some d" and "re_permit_ok (env name)"
  shows "wake \<le> now + from_secs 1 \<and> wake \<le> sch_next_run_at (rd_schedule d)"
proof -
  let ?visit = "visit_discovery l now env"
  have round: "service_round ?visit now groups = (wake, groups')"
    using assms(1) by (auto simp: nrf_round_def split: prod.splits)
  from round assms(2) obtain g0 where g0: "(name, g0) \<in> set groups" "g = snd (?visit name g0)"
    by (auto simp: service_round_def)
  have "fst (?visit name g0) = Some (sch_next_run_at (rd_schedule d))"
    using g0(2) assms(3,4) refresh_reports_next [of l "(env name)\<lparr>re_now := now\<rparr>"]
    by (auto simp: visit_discovery_def split: option.splits prod.splits)
  with service_round_wakes [OF round] g0(1) show ?thesis by blast
qed

end
