(* ===== verification/Grpc_Proto.thy ===== *)
theory Grpc_Proto
  imports Client_Ip
begin

text \<open>
  The messages of the control plane (\<^verbatim>\<open>crates/ngxora-runtime/proto/control.proto\<close>) as the protobuf
  generator gives them to the program: a message field is optional, a choice is an optional
  variant, an enumeration is its number.
\<close>

section \<open>Enumerations\<close>

datatype proto_switch = ProtoSwitchUnspecified | ProtoSwitchOn | ProtoSwitchOff

definition proto_switch_of :: "int \<Rightarrow> proto_switch option" where
  "proto_switch_of v =
     (if v = 0 then Some ProtoSwitchUnspecified else if v = 1 then Some ProtoSwitchOn
      else if v = 2 then Some ProtoSwitchOff else None)"

fun proto_switch_num :: "proto_switch \<Rightarrow> int" where
  "proto_switch_num ProtoSwitchUnspecified = 0"
| "proto_switch_num ProtoSwitchOn = 1"
| "proto_switch_num ProtoSwitchOff = 2"

datatype proto_policy = ProtoPolicyUnspecified | ProtoRoundRobin | ProtoRandom | ProtoConsistentHash

definition proto_policy_of :: "int \<Rightarrow> proto_policy option" where
  "proto_policy_of v =
     (if v = 0 then Some ProtoPolicyUnspecified else if v = 1 then Some ProtoRoundRobin
      else if v = 2 then Some ProtoRandom else if v = 3 then Some ProtoConsistentHash else None)"

fun proto_policy_num :: "proto_policy \<Rightarrow> int" where
  "proto_policy_num ProtoPolicyUnspecified = 0"
| "proto_policy_num ProtoRoundRobin = 1"
| "proto_policy_num ProtoRandom = 2"
| "proto_policy_num ProtoConsistentHash = 3"

datatype proto_http_protocol = ProtoProtocolUnspecified | ProtoH1 | ProtoH2 | ProtoH2c

definition proto_http_protocol_of :: "int \<Rightarrow> proto_http_protocol option" where
  "proto_http_protocol_of v =
     (if v = 0 then Some ProtoProtocolUnspecified else if v = 1 then Some ProtoH1
      else if v = 2 then Some ProtoH2 else if v = 3 then Some ProtoH2c else None)"

fun proto_http_protocol_num :: "proto_http_protocol \<Rightarrow> int" where
  "proto_http_protocol_num ProtoProtocolUnspecified = 0"
| "proto_http_protocol_num ProtoH1 = 1"
| "proto_http_protocol_num ProtoH2 = 2"
| "proto_http_protocol_num ProtoH2c = 3"

datatype proto_endpoint_scheme = ProtoSchemeUnspecified | ProtoSchemeHttp | ProtoSchemeHttps

definition proto_endpoint_scheme_of :: "int \<Rightarrow> proto_endpoint_scheme option" where
  "proto_endpoint_scheme_of v =
     (if v = 0 then Some ProtoSchemeUnspecified else if v = 1 then Some ProtoSchemeHttp
      else if v = 2 then Some ProtoSchemeHttps else None)"

fun proto_endpoint_scheme_num :: "proto_endpoint_scheme \<Rightarrow> int" where
  "proto_endpoint_scheme_num ProtoSchemeUnspecified = 0"
| "proto_endpoint_scheme_num ProtoSchemeHttp = 1"
| "proto_endpoint_scheme_num ProtoSchemeHttps = 2"

datatype proto_tls_version = ProtoTlsUnspecified | ProtoTls1 | ProtoTls12 | ProtoTls13

definition proto_tls_version_of :: "int \<Rightarrow> proto_tls_version option" where
  "proto_tls_version_of v =
     (if v = 0 then Some ProtoTlsUnspecified else if v = 1 then Some ProtoTls1
      else if v = 2 then Some ProtoTls12 else if v = 3 then Some ProtoTls13 else None)"

fun proto_tls_version_num :: "proto_tls_version \<Rightarrow> int" where
  "proto_tls_version_num ProtoTlsUnspecified = 0"
| "proto_tls_version_num ProtoTls1 = 1"
| "proto_tls_version_num ProtoTls12 = 2"
| "proto_tls_version_num ProtoTls13 = 3"

datatype proto_verify_client = ProtoVerifyUnspecified | ProtoVerifyOff | ProtoVerifyOptional | ProtoVerifyRequired

definition proto_verify_client_of :: "int \<Rightarrow> proto_verify_client option" where
  "proto_verify_client_of v =
     (if v = 0 then Some ProtoVerifyUnspecified else if v = 1 then Some ProtoVerifyOff
      else if v = 2 then Some ProtoVerifyOptional else if v = 3 then Some ProtoVerifyRequired else None)"

fun proto_verify_client_num :: "proto_verify_client \<Rightarrow> int" where
  "proto_verify_client_num ProtoVerifyUnspecified = 0"
| "proto_verify_client_num ProtoVerifyOff = 1"
| "proto_verify_client_num ProtoVerifyOptional = 2"
| "proto_verify_client_num ProtoVerifyRequired = 3"

datatype proto_key_mode = ProtoKeyUnspecified | ProtoKeyUri | ProtoKeyUriAndMethod | ProtoKeyNormalizedUri

definition proto_key_mode_of :: "int \<Rightarrow> proto_key_mode option" where
  "proto_key_mode_of v =
     (if v = 0 then Some ProtoKeyUnspecified else if v = 1 then Some ProtoKeyUri
      else if v = 2 then Some ProtoKeyUriAndMethod else if v = 3 then Some ProtoKeyNormalizedUri else None)"

fun proto_key_mode_num :: "proto_key_mode \<Rightarrow> int" where
  "proto_key_mode_num ProtoKeyUnspecified = 0"
| "proto_key_mode_num ProtoKeyUri = 1"
| "proto_key_mode_num ProtoKeyUriAndMethod = 2"
| "proto_key_mode_num ProtoKeyNormalizedUri = 3"

datatype proto_action = ProtoActionUnspecified | ProtoAllow | ProtoDeny

definition proto_action_of :: "int \<Rightarrow> proto_action option" where
  "proto_action_of v =
     (if v = 0 then Some ProtoActionUnspecified else if v = 1 then Some ProtoAllow
      else if v = 2 then Some ProtoDeny else None)"

fun proto_action_num :: "proto_action \<Rightarrow> int" where
  "proto_action_num ProtoActionUnspecified = 0"
| "proto_action_num ProtoAllow = 1"
| "proto_action_num ProtoDeny = 2"

text \<open>Numbers are read back as they are written.\<close>

lemma proto_nums [simp]:
  "proto_switch_of (proto_switch_num s) = Some s"
  "proto_policy_of (proto_policy_num p) = Some p"
  "proto_http_protocol_of (proto_http_protocol_num h) = Some h"
  "proto_endpoint_scheme_of (proto_endpoint_scheme_num e) = Some e"
  "proto_tls_version_of (proto_tls_version_num t) = Some t"
  "proto_verify_client_of (proto_verify_client_num v) = Some v"
  "proto_key_mode_of (proto_key_mode_num k) = Some k"
  "proto_action_of (proto_action_num a) = Some a"
  by (cases s, simp_all add: proto_switch_of_def) (cases p, simp_all add: proto_policy_of_def,
    cases h, simp_all add: proto_http_protocol_of_def, cases e, simp_all add: proto_endpoint_scheme_of_def,
    cases t, simp_all add: proto_tls_version_of_def, cases v, simp_all add: proto_verify_client_of_def,
    cases k, simp_all add: proto_key_mode_of_def, cases a, simp_all add: proto_action_of_def)

section \<open>Messages\<close>

text \<open>TLS material.\<close>

datatype proto_pem = ProtoPath string | ProtoInlinePem string

record proto_pem_source =
  ppem_source :: "proto_pem option"

record proto_tls_binding =
  pb_cert :: "proto_pem_source option"
  pb_key :: "proto_pem_source option"

record proto_listener_tls_options =
  plt_min_protocol :: int
  plt_max_protocol :: int
  plt_verify_client :: int
  plt_client_certificate :: "proto_pem_source option"

record proto_upstream_tls_options =
  put_verify :: int
  put_trusted_certificate :: "proto_pem_source option"
  put_client_certificate :: "proto_pem_source option"
  put_client_certificate_key :: "proto_pem_source option"

record proto_le_config =
  ple_acme_directory :: string
  ple_email :: string
  ple_cache_dir :: string

text \<open>Client policy and options.\<close>

record proto_access_rule =
  par_action :: int
  par_source :: string

record proto_real_ip =
  pri_trusted_proxies :: "string list"
  pri_header :: string
  pri_recursive :: "bool option"

record proto_http2_options =
  ph2_max_concurrent_streams :: "nat option"
  ph2_max_header_list_size :: "nat option"
  ph2_stream_window_size :: "nat option"
  ph2_connection_window_size :: "nat option"

record proto_http_options =
  pho_downstream_keepalive_timeout_seconds :: nat
  pho_tcp_nodelay :: bool
  pho_keepalive_requests :: nat
  pho_allow_connect_method_proxying :: bool
  pho_h2c :: bool
  pho_client_max_body_size_bytes :: nat
  pho_proxy_cache_max_size_bytes :: nat
  pho_http2 :: "proto_http2_options option"
  pho_real_ip :: "proto_real_ip option"
  pho_client_header_timeout_ms :: "nat option"
  pho_client_body_timeout_ms :: "nat option"
  pho_send_timeout_ms :: "nat option"

definition proto_http_options_default :: proto_http_options where
  "proto_http_options_default =
     \<lparr>pho_downstream_keepalive_timeout_seconds = 0, pho_tcp_nodelay = False, pho_keepalive_requests = 0,
      pho_allow_connect_method_proxying = False, pho_h2c = False, pho_client_max_body_size_bytes = 0,
      pho_proxy_cache_max_size_bytes = 0, pho_http2 = None, pho_real_ip = None, pho_client_header_timeout_ms = None,
      pho_client_body_timeout_ms = None, pho_send_timeout_ms = None\<rparr>"

record proto_geoip =
  pge_database :: string
  pge_reload_interval_ms :: "nat option"
  pge_trusted_proxies :: "string list"

record proto_scp_profile =
  psp_name :: string
  psp_api_root :: string
  psp_discovery_upstreams :: "string list"
  psp_allowed_target_api_roots :: "string list"

record proto_listener =
  pl_name :: string
  pl_address :: string
  pl_port :: nat
  pl_tls :: bool
  pl_http2 :: bool
  pl_http2_only :: bool
  pl_tls_options :: "proto_listener_tls_options option"

text \<open>Upstream groups.\<close>

record proto_backend =
  pbe_host :: string
  pbe_port :: nat
  pbe_weight :: nat

datatype proto_hash_source = ProtoClientIp bool | ProtoHeader string

record proto_hash_key =
  phk_source :: "proto_hash_source option"

record proto_http_check =
  phc_host :: string
  phc_path :: string
  phc_use_tls :: bool

datatype proto_check_kind = ProtoTcpCheck | ProtoHttpCheck proto_http_check

record proto_health_check =
  phe_kind :: "proto_check_kind option"
  phe_timeout_ms :: nat
  phe_interval_ms :: nat
  phe_consecutive_success :: nat
  phe_consecutive_failure :: nat

record proto_nrf_discovery =
  pnd_api_root :: string
  pnd_target_nf_type :: string
  pnd_requester_nf_type :: string
  pnd_service_name :: string
  pnd_endpoint_scheme :: int
  pnd_timeout_ms :: nat
  pnd_stale_if_error_ms :: nat
  pnd_tls_options :: "proto_upstream_tls_options option"

record proto_upstream_group =
  pug_name :: string
  pug_backends :: "proto_backend list"
  pug_policy :: int
  pug_health_check :: "proto_health_check option"
  pug_hash_key :: "proto_hash_key option"
  pug_nrf_discovery :: "proto_nrf_discovery option"
  pug_allow_empty :: bool

text \<open>Routes.\<close>

datatype proto_modifier_kind = ProtoReplaceFullPath string | ProtoReplacePrefixMatch string

record proto_path_modifier =
  ppm_kind :: "proto_modifier_kind option"

record proto_http_redirect =
  phr_status :: nat
  phr_scheme :: "string option"
  phr_hostname :: "string option"
  phr_port :: "nat option"
  phr_path :: "proto_path_modifier option"

record proto_url_rewrite =
  pur_hostname :: "string option"
  pur_path :: "proto_path_modifier option"

datatype proto_http_path = ProtoExactPath string | ProtoPathPrefix string

record proto_condition =
  pcn_name :: string
  pcn_value :: string

record proto_http_match =
  phm_path :: "proto_http_path option"
  phm_method :: "string option"
  phm_headers :: "proto_condition list"
  phm_query_params :: "proto_condition list"

record proto_regex =
  prx_pattern :: string
  prx_case_insensitive :: bool

datatype proto_match_kind =
    ProtoPrefix string
  | ProtoExact string
  | ProtoPreferPrefix string
  | ProtoRegex proto_regex
  | ProtoNamed string
  | ProtoHttpMatch proto_http_match

record proto_match =
  pm_kind :: "proto_match_kind option"

record proto_upstream =
  pu_scheme :: string
  pu_host :: string
  pu_port :: nat
  pu_upstream_group :: string

record proto_redirect =
  pr_status :: nat
  pr_location :: string

datatype proto_backend_target = ProtoTargetUpstream proto_upstream | ProtoTargetResponse nat

record proto_weighted_backend =
  pwb_weight :: "nat option"
  pwb_target :: "proto_backend_target option"

datatype proto_route_action =
    ProtoUpstreamAction proto_upstream
  | ProtoRedirectAction proto_redirect
  | ProtoScpAction string
  | ProtoWeightedAction "proto_weighted_backend list"
  | ProtoResponseAction nat
  | ProtoHttpRedirectAction proto_http_redirect

record proto_timeouts =
  pt_connect_timeout_ms :: nat
  pt_read_timeout_ms :: nat
  pt_write_timeout_ms :: nat

record proto_plugin =
  ppl_name :: string
  ppl_json_config :: string

record proto_cache =
  pca_enabled :: int
  pca_max_size_bytes :: nat
  pca_ttl_ms :: nat
  pca_stale_if_error_ms :: nat
  pca_key_mode :: int
  pca_min_uses :: nat
  pca_valid_statuses :: "nat list"

record proto_upstream_http2 =
  puh_max_concurrent_streams :: "nat option"
  puh_stream_window_size :: "nat option"
  puh_connection_window_size :: "nat option"

record proto_route =
  prt_match :: "proto_match option"
  prt_action :: "proto_route_action option"
  prt_timeouts :: "proto_timeouts option"
  prt_plugins :: "proto_plugin list"
  prt_tls_options :: "proto_upstream_tls_options option"
  prt_upstream_protocol :: int
  prt_cache :: "proto_cache option"
  prt_url_rewrite :: "proto_url_rewrite option"
  prt_upstream_http2 :: "proto_upstream_http2 option"
  prt_access_rules :: "proto_access_rule list"
  prt_allowed_methods :: "string list"
  prt_client_max_body_size_bytes :: "nat option"
  prt_client_body_timeout_ms :: "nat option"
  prt_send_timeout_ms :: "nat option"

record proto_virtual_host =
  pv_listener :: string
  pv_server_names :: "string list"
  pv_default_server :: bool
  pv_tls :: "proto_tls_binding option"
  pv_routes :: "proto_route list"

record proto_snapshot =
  pc_version :: string
  pc_http :: "proto_http_options option"
  pc_listeners :: "proto_listener list"
  pc_virtual_hosts :: "proto_virtual_host list"
  pc_upstreams :: "proto_upstream_group list"
  pc_le_config :: "proto_le_config option"
  pc_scp_profiles :: "proto_scp_profile list"
  pc_geoip :: "proto_geoip option"

record proto_apply_result =
  pa_applied :: bool
  pa_restart_required :: bool
  pa_message :: string
  pa_active_version :: string
  pa_active_generation :: nat

end
