(* ===== verification/Grpc_Values.thy ===== *)
theory Grpc_Values
  imports Grpc_Proto
begin

text \<open>
  The conversions of single values between messages and the configuration
  (\<^verbatim>\<open>crates/ngxora-runtime/src/grpc/values.rs\<close>, \<^verbatim>\<open>tls.rs\<close>, \<^verbatim>\<open>http_routes.rs\<close> and \<^verbatim>\<open>client_policy.rs\<close>), and what
  is read back after it has been written.
\<close>

text \<open>The libraries: networks, URLs, JSON values and header names, as text and back.\<close>

record grpc_lib =
  gp_net :: "string \<Rightarrow> ip_net option"
  gp_net_of_ip :: "ip_addr \<Rightarrow> ip_net"
  gp_show_net :: "ip_net \<Rightarrow> string"
  gp_url :: "string \<Rightarrow> (string, url) result"
  gp_show_url :: "url \<Rightarrow> string"
  gp_json :: "string \<Rightarrow> (string, json) result"
  gp_show_json :: "json \<Rightarrow> (string, string) result"
  gp_json_null :: json
  gp_header_name_ok :: "string \<Rightarrow> bool"

text \<open>\<^verbatim>\<open>Option::map\<close> with a fallible function and \<^verbatim>\<open>transpose\<close>.\<close>

definition transpose_map :: "('a \<Rightarrow> ('e, 'b) result) \<Rightarrow> 'a option \<Rightarrow> ('e, 'b option) result" where
  "transpose_map f v = (case v of None \<Rightarrow> Inr None | Some a \<Rightarrow> and_then (f a) (\<lambda>b. Inr (Some b)))"

definition unwrap_default :: "'a option \<Rightarrow> 'a \<Rightarrow> 'a" where
  "unwrap_default v d = (case v of None \<Rightarrow> d | Some a \<Rightarrow> a)"

section \<open>Scalars\<close>

definition switch_from_proto :: "int \<Rightarrow> switch" where
  "switch_from_proto v =
     (case unwrap_default (proto_switch_of v) ProtoSwitchUnspecified of ProtoSwitchOff \<Rightarrow> Off | _ \<Rightarrow> On)"

definition upstream_selection_policy_from_proto :: "int \<Rightarrow> (string, upstream_selection_policy) result" where
  "upstream_selection_policy_from_proto v =
     (case unwrap_default (proto_policy_of v) ProtoPolicyUnspecified of
        ProtoRandom \<Rightarrow> Inr Random
      | ProtoConsistentHash \<Rightarrow> Inr ConsistentHash
      | _ \<Rightarrow> Inr RoundRobin)"

definition proto_upstream_selection_policy_from_runtime :: "upstream_selection_policy \<Rightarrow> proto_policy" where
  "proto_upstream_selection_policy_from_runtime v =
     (case v of RoundRobin \<Rightarrow> ProtoRoundRobin | Random \<Rightarrow> ProtoRandom | ConsistentHash \<Rightarrow> ProtoConsistentHash)"

definition keepalive_timeout_from_proto :: "nat \<Rightarrow> keepalive_timeout" where
  "keepalive_timeout_from_proto seconds =
     (if seconds = 0 then KeepaliveOff else KeepaliveTimeout (from_secs seconds) None)"

definition duration_from_millis :: "nat \<Rightarrow> duration option" where
  "duration_from_millis millis = (if 0 < millis then Some (from_millis millis) else None)"

definition u64_or_max :: "nat \<Rightarrow> nat" where
  "u64_or_max n = (if n \<le> u64_max then n else u64_max)"

definition duration_to_millis :: "duration option \<Rightarrow> nat" where
  "duration_to_millis d = (case d of None \<Rightarrow> 0 | Some v \<Rightarrow> u64_or_max (as_millis v))"

text \<open>\<^verbatim>\<open>as u64\<close> of a 128-bit number.\<close>

definition as_u64 :: "nat \<Rightarrow> nat" where
  "as_u64 n = n mod 2 ^ 64"

definition switch_from_bool :: "bool \<Rightarrow> switch" where
  "switch_from_bool v = (if v then On else Off)"

definition proto_switch_from_runtime :: "switch \<Rightarrow> proto_switch" where
  "proto_switch_from_runtime v = (case v of On \<Rightarrow> ProtoSwitchOn | Off \<Rightarrow> ProtoSwitchOff)"

definition none_if_zero :: "nat \<Rightarrow> nat option" where
  "none_if_zero v = (if 0 < v then Some v else None)"

definition none_if_empty :: "string \<Rightarrow> string option" where
  "none_if_empty v = (if v = [] then None else Some v)"

section \<open>TLS material\<close>

definition pem_source_from_proto :: "proto_pem_source option \<Rightarrow> string \<Rightarrow> (string, pem_source) result" where
  "pem_source_from_proto v field =
     and_then (ok_or (field @ '' is required'') v) (\<lambda>source.
     and_then (ok_or (field @ '' source is required'') (ppem_source source)) (\<lambda>s.
     case s of ProtoPath path \<Rightarrow> Inr (PemPath path) | ProtoInlinePem pem \<Rightarrow> Inr (InlinePem pem)))"

definition proto_pem_source_from_runtime :: "pem_source \<Rightarrow> proto_pem_source" where
  "proto_pem_source_from_runtime v =
     \<lparr>ppem_source = Some (case v of PemPath path \<Rightarrow> ProtoPath path | InlinePem pem \<Rightarrow> ProtoInlinePem pem)\<rparr>"

definition tls_identity_from_proto :: "proto_tls_binding \<Rightarrow> (string, tls_identity) result" where
  "tls_identity_from_proto v =
     and_then (pem_source_from_proto (pb_cert v) ''tls cert'') (\<lambda>cert.
     and_then (pem_source_from_proto (pb_key v) ''tls key'') (\<lambda>key.
     Inr \<lparr>ti_cert = cert, ti_key = key\<rparr>))"

definition proto_tls_binding_from_runtime :: "tls_identity \<Rightarrow> proto_tls_binding" where
  "proto_tls_binding_from_runtime v =
     \<lparr>pb_cert = Some (proto_pem_source_from_runtime (ti_cert v)), pb_key = Some (proto_pem_source_from_runtime (ti_key v))\<rparr>"

definition tls_protocol_version_from_proto :: "int \<Rightarrow> (string, tls_protocol_version option) result" where
  "tls_protocol_version_from_proto v =
     (case unwrap_default (proto_tls_version_of v) ProtoTlsUnspecified of
        ProtoTlsUnspecified \<Rightarrow> Inr None
      | ProtoTls1 \<Rightarrow> Inr (Some Tls1)
      | ProtoTls12 \<Rightarrow> Inr (Some Tls1_2)
      | ProtoTls13 \<Rightarrow> Inr (Some Tls1_3))"

definition proto_tls_protocol_version_from_runtime :: "tls_protocol_version \<Rightarrow> int" where
  "proto_tls_protocol_version_from_runtime v =
     proto_tls_version_num (case v of Tls1 \<Rightarrow> ProtoTls1 | Tls1_2 \<Rightarrow> ProtoTls12 | Tls1_3 \<Rightarrow> ProtoTls13)"

definition tls_verify_client_from_proto :: "int \<Rightarrow> (string, tls_verify_client) result" where
  "tls_verify_client_from_proto v =
     (case unwrap_default (proto_verify_client_of v) ProtoVerifyUnspecified of
        ProtoVerifyOptional \<Rightarrow> Inr VerifyOptional
      | ProtoVerifyRequired \<Rightarrow> Inr VerifyRequired
      | _ \<Rightarrow> Inr VerifyOff)"

definition proto_tls_verify_client_from_runtime :: "tls_verify_client \<Rightarrow> proto_verify_client" where
  "proto_tls_verify_client_from_runtime v =
     (case v of VerifyOff \<Rightarrow> ProtoVerifyOff | VerifyOptional \<Rightarrow> ProtoVerifyOptional | VerifyRequired \<Rightarrow> ProtoVerifyRequired)"

definition protocol_bounds ::
  "tls_protocol_version option \<Rightarrow> tls_protocol_version option \<Rightarrow> (string, tls_protocol_bounds option) result" where
  "protocol_bounds lo hi =
     (case (lo, hi) of
        (None, None) \<Rightarrow> Inr None
      | (Some a, Some b) \<Rightarrow>
          if a \<le> b then Inr (Some \<lparr>tb_min = a, tb_max = b\<rparr>)
          else Inl ''listener TLS protocol bounds are invalid: min_protocol > max_protocol''
      | _ \<Rightarrow> Inl ''listener TLS protocol bounds must set both min_protocol and max_protocol'')"

definition listener_tls_options_from_proto ::
  "proto_listener_tls_options option \<Rightarrow> (string, downstream_tls_options) result" where
  "listener_tls_options_from_proto v =
     (case v of
        None \<Rightarrow> Inr downstream_tls_default
      | Some t \<Rightarrow>
          and_then (tls_protocol_version_from_proto (plt_min_protocol t)) (\<lambda>lo.
          and_then (tls_protocol_version_from_proto (plt_max_protocol t)) (\<lambda>hi.
          and_then (protocol_bounds lo hi) (\<lambda>protocols.
          and_then (tls_verify_client_from_proto (plt_verify_client t)) (\<lambda>verify.
          and_then (transpose_map (\<lambda>s. pem_source_from_proto (Some s) ''client certificate'') (plt_client_certificate t)) (\<lambda>cert.
          Inr \<lparr>dt_protocols = protocols, dt_verify_client = verify, dt_client_certificate = cert\<rparr>))))))"

definition proto_listener_tls_options_from_runtime :: "listener_tls_settings \<Rightarrow> proto_listener_tls_options" where
  "proto_listener_tls_options_from_runtime v =
     (let bound = (\<lambda>f. case lt_protocols v of
            None \<Rightarrow> proto_tls_version_num ProtoTlsUnspecified
          | Some b \<Rightarrow> proto_tls_protocol_version_from_runtime (f b))
      in \<lparr>plt_min_protocol = bound tb_min, plt_max_protocol = bound tb_max,
          plt_verify_client = proto_verify_client_num (proto_tls_verify_client_from_runtime (lt_verify_client v)),
          plt_client_certificate = map_option proto_pem_source_from_runtime (lt_client_certificate v)\<rparr>)"

definition upstream_tls_options_from_proto ::
  "proto_upstream_tls_options option \<Rightarrow> (string, upstream_ssl_options option) result" where
  "upstream_tls_options_from_proto v =
     (case v of
        None \<Rightarrow> Inr None
      | Some t \<Rightarrow>
          and_then (transpose_map (\<lambda>s. pem_source_from_proto (Some s) ''route upstream client certificate'')
            (put_client_certificate t)) (\<lambda>cert.
          and_then (transpose_map (\<lambda>s. pem_source_from_proto (Some s) ''route upstream client certificate key'')
            (put_client_certificate_key t)) (\<lambda>key.
          and_then (reject (cert \<noteq> None \<and> key = None)
            ''UpstreamTlsOptions: client_certificate requires client_certificate_key'') (\<lambda>_.
          and_then (reject (cert = None \<and> key \<noteq> None)
            ''UpstreamTlsOptions: client_certificate_key requires client_certificate'') (\<lambda>_.
          and_then (transpose_map (\<lambda>s. pem_source_from_proto (Some s) ''route upstream trusted certificate'')
            (put_trusted_certificate t)) (\<lambda>trusted.
          Inr (Some \<lparr>us_verify_cert = switch_from_proto (put_verify t), us_trusted_certificate = trusted,
                     us_client_certificate = cert, us_client_certificate_key = key\<rparr>)))))))"

definition proto_upstream_tls_options_from_runtime :: "upstream_ssl_options \<Rightarrow> proto_upstream_tls_options" where
  "proto_upstream_tls_options_from_runtime v =
     \<lparr>put_verify = proto_switch_num (proto_switch_from_runtime (us_verify_cert v)),
      put_trusted_certificate = map_option proto_pem_source_from_runtime (us_trusted_certificate v),
      put_client_certificate = map_option proto_pem_source_from_runtime (us_client_certificate v),
      put_client_certificate_key = map_option proto_pem_source_from_runtime (us_client_certificate_key v)\<rparr>"

definition le_config_from_proto :: "proto_le_config \<Rightarrow> lets_encrypt_config" where
  "le_config_from_proto v =
     \<lparr>le_acme_directory = none_if_empty (ple_acme_directory v), le_email = none_if_empty (ple_email v),
      le_cache_dir = none_if_empty (ple_cache_dir v)\<rparr>"

definition proto_le_config_from_ir :: "lets_encrypt_config \<Rightarrow> proto_le_config" where
  "proto_le_config_from_ir v =
     \<lparr>ple_acme_directory = unwrap_default (le_acme_directory v) [], ple_email = unwrap_default (le_email v) [],
      ple_cache_dir = unwrap_default (le_cache_dir v) []\<rparr>"

section \<open>Matches, redirects and rewrites\<close>

definition u16_of :: "string \<Rightarrow> nat \<Rightarrow> (string, nat) result" where
  "u16_of e n = (if n \<le> u16_max then Inr n else Inl e)"

definition direct_status :: "nat \<Rightarrow> (string, nat) result" where
  "direct_status status = u16_of ''direct response status out of range'' status"

definition modifier_from_proto :: "proto_path_modifier \<Rightarrow> (string, path_modifier) result" where
  "modifier_from_proto v =
     and_then (ok_or ''path modifier kind is required'' (ppm_kind v)) (\<lambda>k.
     Inr (case k of ProtoReplaceFullPath path \<Rightarrow> ReplaceFullPath path | ProtoReplacePrefixMatch path \<Rightarrow> ReplacePrefixMatch path))"

definition modifier_to_proto :: "path_modifier \<Rightarrow> proto_path_modifier" where
  "modifier_to_proto v =
     \<lparr>ppm_kind = Some (case v of
        ReplaceFullPath path \<Rightarrow> ProtoReplaceFullPath path | ReplacePrefixMatch path \<Rightarrow> ProtoReplacePrefixMatch path)\<rparr>"

definition http_redirect_from_proto :: "proto_http_redirect \<Rightarrow> (string, http_redirect) result" where
  "http_redirect_from_proto v =
     and_then (direct_status (if phr_status v = 0 then 302 else phr_status v)) (\<lambda>status.
     and_then (transpose_map (u16_of ''redirect port out of range'') (phr_port v)) (\<lambda>port.
     and_then (transpose_map modifier_from_proto (phr_path v)) (\<lambda>path.
     Inr \<lparr>hr_status = status, hr_scheme = phr_scheme v, hr_hostname = phr_hostname v, hr_port = port, hr_path = path\<rparr>)))"

definition http_match_from_proto :: "proto_http_match \<Rightarrow> http_match" where
  "http_match_from_proto v =
     \<lparr>hm_path = (case phm_path v of
        Some (ProtoExactPath path) \<Rightarrow> ExactPath path
      | Some (ProtoPathPrefix path) \<Rightarrow> PathPrefix path
      | None \<Rightarrow> PathPrefix ''/''),
      hm_method = phm_method v,
      hm_headers = map (\<lambda>c. (pcn_name c, pcn_value c)) (phm_headers v),
      hm_query_params = map (\<lambda>c. (pcn_name c, pcn_value c)) (phm_query_params v)\<rparr>"

definition http_match_to_proto :: "http_match \<Rightarrow> proto_http_match" where
  "http_match_to_proto v =
     \<lparr>phm_path = Some (case hm_path v of ExactPath path \<Rightarrow> ProtoExactPath path | PathPrefix path \<Rightarrow> ProtoPathPrefix path),
      phm_method = hm_method v,
      phm_headers = map (\<lambda>(n, v). \<lparr>pcn_name = n, pcn_value = v\<rparr>) (hm_headers v),
      phm_query_params = map (\<lambda>(n, v). \<lparr>pcn_name = n, pcn_value = v\<rparr>) (hm_query_params v)\<rparr>"

section \<open>Client policy\<close>

definition network_of :: "grpc_lib \<Rightarrow> string \<Rightarrow> ip_net option" where
  "network_of g v = (case gp_net g v of Some n \<Rightarrow> Some n | None \<Rightarrow> map_option (gp_net_of_ip g) (parse_ip v))"

definition network :: "grpc_lib \<Rightarrow> string \<Rightarrow> (string, ip_net) result" where
  "network g v = ok_or (''invalid IP or CIDR `'' @ v @ ''`'') (network_of g v)"

definition access_from_proto :: "grpc_lib \<Rightarrow> proto_access_rule \<Rightarrow> (string, location_ip_rule) result" where
  "access_from_proto g rule =
     (case proto_action_of (par_action rule) of
        Some ProtoAllow \<Rightarrow>
          if par_source rule = ''all'' then Inr AllowAll
          else and_then (network g (par_source rule)) (\<lambda>n. Inr (Allow n))
      | Some ProtoDeny \<Rightarrow>
          if par_source rule = ''all'' then Inr DenyAll
          else and_then (network g (par_source rule)) (\<lambda>n. Inr (Deny n))
      | _ \<Rightarrow> Inl ''IP access rule requires action ALLOW or DENY'')"

definition access_to_proto :: "grpc_lib \<Rightarrow> location_ip_rule \<Rightarrow> proto_access_rule" where
  "access_to_proto g rule =
     \<lparr>par_action = proto_action_num (if rule_is_allow rule then ProtoAllow else ProtoDeny),
      par_source = (case rule of Allow n \<Rightarrow> gp_show_net g n | Deny n \<Rightarrow> gp_show_net g n | _ \<Rightarrow> ''all'')\<rparr>"

definition real_ip_from_proto :: "grpc_lib \<Rightarrow> proto_real_ip \<Rightarrow> (string, real_ip_config) result" where
  "real_ip_from_proto g v =
     and_then (map_res (network g) (pri_trusted_proxies v)) (\<lambda>nets.
     let config = \<lparr>ri_trusted_proxies = nets,
                   ri_header = (if pri_header v = [] then ''X-Forwarded-For'' else pri_header v),
                   ri_recursive = unwrap_default (pri_recursive v) True\<rparr>
     in and_then (real_ip_validate config) (\<lambda>_. Inr config))"

definition real_ip_to_proto :: "grpc_lib \<Rightarrow> real_ip_config \<Rightarrow> proto_real_ip" where
  "real_ip_to_proto g c =
     \<lparr>pri_trusted_proxies = map (gp_show_net g) (ri_trusted_proxies c), pri_header = ri_header c,
      pri_recursive = Some (ri_recursive c)\<rparr>"

end
