(* ===== verification/Grpc_Decode.thy ===== *)
theory Grpc_Decode
  imports Grpc_Values Compile
begin

text \<open>
  From a snapshot message to a router (\<^verbatim>\<open>crates/ngxora-runtime/src/grpc/decode.rs\<close>): the message is turned
  into the intermediate representation and compiled like any other configuration.
\<close>

section \<open>Upstream groups\<close>

definition backtick :: "string \<Rightarrow> string" where
  "backtick s = ''`'' @ s @ ''`''"

definition show_i32 :: "int \<Rightarrow> string" where
  "show_i32 v = (if v < 0 then ''-'' @ show_nat (nat (- v)) else show_nat (nat v))"

definition upstream_backend_from_proto :: "proto_backend \<Rightarrow> (string, upstream_server) result" where
  "upstream_backend_from_proto b =
     and_then (reject (trim (pbe_host b) = []) ''upstream backend host cannot be empty'') (\<lambda>_.
     and_then (reject (pbe_port b = 0)
       (''upstream backend '' @ backtick (pbe_host b) @ '' port must be greater than zero'')) (\<lambda>_.
     and_then (u16_of (''upstream backend '' @ backtick (pbe_host b) @ '' port is out of range'') (pbe_port b)) (\<lambda>port.
     and_then (if pbe_weight b = 0 then Inr 1
       else u16_of (''upstream backend '' @ backtick (pbe_host b) @ '' weight is out of range'') (pbe_weight b)) (\<lambda>weight.
     Inr \<lparr>usv_host = pbe_host b, usv_port = port, usv_weight = weight\<rparr>))))"

definition upstream_hash_key_from_proto :: "grpc_lib \<Rightarrow> proto_hash_key \<Rightarrow> (string, upstream_hash_key) result" where
  "upstream_hash_key_from_proto g v =
     (case phk_source v of
        Some (ProtoClientIp b) \<Rightarrow> if b then Inr ClientIp else Inl ''upstream hash_key client_ip must be true''
      | Some (ProtoHeader name) \<Rightarrow>
          and_then (reject (\<not> gp_header_name_ok g name)
            (''upstream hash_key has invalid HTTP header name '' @ backtick name)) (\<lambda>_.
          Inr (Header name))
      | None \<Rightarrow> Inl ''upstream hash_key source is required'')"

definition check_type_from_proto :: "proto_check_kind \<Rightarrow> (string, upstream_health_check_type) result" where
  "check_type_from_proto kind =
     (case kind of
        ProtoTcpCheck \<Rightarrow> Inr CheckTcp
      | ProtoHttpCheck h \<Rightarrow>
          and_then (reject (trim (phc_host h) = []) ''upstream health_check http host cannot be empty'') (\<lambda>_.
          and_then (reject (phc_path h = []) ''upstream health_check http path cannot be empty'') (\<lambda>_.
          Inr (CheckHttp (phc_host h) (phc_path h) (phc_use_tls h)))))"

definition upstream_health_check_from_proto :: "proto_health_check \<Rightarrow> (string, upstream_health_check) result" where
  "upstream_health_check_from_proto v =
     and_then (ok_or ''upstream health_check kind is required'' (phe_kind v)) (\<lambda>k.
     and_then (ok_or ''upstream health_check timeout must be greater than zero''
       (duration_from_millis (phe_timeout_ms v))) (\<lambda>timeout.
     and_then (ok_or ''upstream health_check interval must be greater than zero''
       (duration_from_millis (phe_interval_ms v))) (\<lambda>interval.
     and_then (reject (phe_consecutive_success v = 0)
       ''upstream health_check consecutive_success must be greater than zero'') (\<lambda>_.
     and_then (reject (phe_consecutive_failure v = 0)
       ''upstream health_check consecutive_failure must be greater than zero'') (\<lambda>_.
     and_then (check_type_from_proto k) (\<lambda>t.
     Inr \<lparr>hc_check_type = t, hc_timeout = timeout, hc_interval = interval,
          hc_consecutive_success = phe_consecutive_success v, hc_consecutive_failure = phe_consecutive_failure v\<rparr>))))))"

definition nrf_required :: "string \<Rightarrow> string \<Rightarrow> (string, string) result" where
  "nrf_required v field =
     and_then (reject (trim v = []) (''nrf_discovery '' @ field @ '' is required'')) (\<lambda>_. Inr (trim v))"

definition nrf_discovery_from_proto :: "proto_nrf_discovery \<Rightarrow> (string, nrf_discovery) result" where
  "nrf_discovery_from_proto v =
     and_then (case unwrap_default (proto_endpoint_scheme_of (pnd_endpoint_scheme v)) ProtoSchemeUnspecified of
         ProtoSchemeHttp \<Rightarrow> Inr SchemeHttp
       | ProtoSchemeHttps \<Rightarrow> Inr SchemeHttps
       | ProtoSchemeUnspecified \<Rightarrow> Inl ''nrf_discovery endpoint_scheme is required'') (\<lambda>scheme.
     and_then (nrf_required (pnd_api_root v) ''api_root'') (\<lambda>api_root.
     and_then (nrf_required (pnd_target_nf_type v) ''target_nf_type'') (\<lambda>target.
     and_then (nrf_required (pnd_requester_nf_type v) ''requester_nf_type'') (\<lambda>requester.
     and_then (nrf_required (pnd_service_name v) ''service_name'') (\<lambda>service.
     and_then (upstream_tls_options_from_proto (pnd_tls_options v)) (\<lambda>tls.
     Inr \<lparr>nd_api_root = api_root, nd_target_nf_type = target, nd_requester_nf_type = requester,
          nd_service_name = service, nd_endpoint_scheme = scheme,
          nd_timeout = from_millis (if pnd_timeout_ms v = 0 then 3000 else pnd_timeout_ms v),
          nd_stale_if_error = from_millis (if pnd_stale_if_error_ms v = 0 then 60000 else pnd_stale_if_error_ms v),
          nd_tls_options = unwrap_default tls upstream_ssl_default\<rparr>))))))"

definition upstream_from_proto :: "grpc_lib \<Rightarrow> proto_upstream_group \<Rightarrow> (string, upstream_block) result" where
  "upstream_from_proto g u =
     (let name = trim (pug_name u)
      in
      and_then (reject (name = []) ''upstream group name cannot be empty'') (\<lambda>_.
      and_then (map_res upstream_backend_from_proto (pug_backends u)) (\<lambda>servers.
      and_then (reject (servers = [] \<and> pug_nrf_discovery u = None \<and> \<not> pug_allow_empty u)
        (''upstream group '' @ backtick name @ '' must define at least one backend or nrf_discovery'')) (\<lambda>_.
      and_then (reject (servers \<noteq> [] \<and> pug_nrf_discovery u \<noteq> None)
        (''upstream group '' @ backtick name @ '' cannot combine backends with nrf_discovery'')) (\<lambda>_.
      and_then (upstream_selection_policy_from_proto (pug_policy u)) (\<lambda>policy.
      and_then (transpose_map (upstream_hash_key_from_proto g) (pug_hash_key u)) (\<lambda>hash_key.
      and_then (transpose_map nrf_discovery_from_proto (pug_nrf_discovery u)) (\<lambda>nrf.
      and_then (transpose_map upstream_health_check_from_proto (pug_health_check u)) (\<lambda>health.
      Inr \<lparr>ub_allow_empty = pug_allow_empty u, ub_name = name, ub_policy = policy, ub_hash_key = hash_key,
           ub_servers = servers, ub_nrf_discovery = nrf, ub_health_check = health\<rparr>)))))))))"

definition upstreams_from_proto :: "grpc_lib \<Rightarrow> proto_upstream_group list \<Rightarrow> (string, upstream_block list) result" where
  "upstreams_from_proto g us = map_res (upstream_from_proto g) us"

section \<open>Routes\<close>

definition matcher_from_proto :: "proto_match option \<Rightarrow> (string, location_matcher) result" where
  "matcher_from_proto v =
     and_then (ok_or ''route match is required'' v) (\<lambda>m.
     and_then (ok_or ''route match kind is required'' (pm_kind m)) (\<lambda>k.
     Inr (case k of
        ProtoHttpMatch h \<Rightarrow> LmHttp (http_match_from_proto h)
      | ProtoPrefix path \<Rightarrow> LmPrefix path
      | ProtoExact path \<Rightarrow> LmExact path
      | ProtoPreferPrefix path \<Rightarrow> LmPreferPrefix path
      | ProtoRegex r \<Rightarrow> LmRegex (prx_case_insensitive r) (prx_pattern r)
      | ProtoNamed name \<Rightarrow> LmNamed name)))"

definition proxy_pass_target_from_proto :: "grpc_lib \<Rightarrow> proto_upstream \<Rightarrow> (string, proxy_pass_target) result" where
  "proxy_pass_target_from_proto g u =
     and_then (if pu_scheme u = ''http'' then Inr False else if pu_scheme u = ''https'' then Inr True
       else Inl (''unsupported upstream scheme '' @ backtick (pu_scheme u))) (\<lambda>tls.
     let has_direct = (trim (pu_host u) \<noteq> [] \<or> pu_port u \<noteq> 0);
         has_group = (trim (pu_upstream_group u) \<noteq> [])
     in
     and_then (reject (has_direct \<and> has_group)
       ''route upstream must set either host/port or upstream_group, not both'') (\<lambda>_.
     if has_group then Inr (PassUpstreamGroup (pu_upstream_group u) tls)
     else
       and_then (reject (trim (pu_host u) = []) ''upstream host cannot be empty'') (\<lambda>_.
       and_then (reject (pu_port u = 0) ''upstream port must be greater than zero'') (\<lambda>_.
       let raw = pu_scheme u @ ''://'' @ pu_host u @ '':'' @ show_nat (pu_port u)
       in and_then (map_err (\<lambda>e. ''invalid upstream URL '' @ backtick raw @ '': '' @ e) (gp_url g raw)) (\<lambda>url.
          Inr (PassUrl url))))))"

definition return_directive_from_proto :: "proto_redirect \<Rightarrow> (string, location_directive) result" where
  "return_directive_from_proto r =
     and_then (u16_of (''redirect status '' @ show_nat (pr_status r) @ '' is out of range'') (pr_status r)) (\<lambda>status.
     and_then (reject (\<not> (300 \<le> status \<and> status \<le> 399))
       (''redirect status '' @ show_nat status @ '' is not a redirect (expected 3xx)'')) (\<lambda>_.
     and_then (reject (pr_location r = []) ''redirect location cannot be empty'') (\<lambda>_.
     Inr (LdReturn status (pr_location r)))))"

definition cache_key_mode_from_proto :: "int \<Rightarrow> (string, cache_key_mode) result" where
  "cache_key_mode_from_proto v =
     and_then (ok_or (''unknown cache key mode value '' @ backtick (show_i32 v)) (proto_key_mode_of v)) (\<lambda>m.
     Inr (case m of ProtoKeyUriAndMethod \<Rightarrow> UriAndMethod | ProtoKeyNormalizedUri \<Rightarrow> NormalizedUri | _ \<Rightarrow> Uri))"

definition cache_from_proto :: "proto_cache \<Rightarrow> (string, cache_config) result" where
  "cache_from_proto c =
     and_then (ok_or (''unknown cache enabled switch value '' @ backtick (show_i32 (pca_enabled c))) (proto_switch_of (pca_enabled c))) (\<lambda>enabled.
     and_then (cache_key_mode_from_proto (pca_key_mode c)) (\<lambda>mode.
     and_then (if pca_valid_statuses c = [] then Inr (cc_valid_statuses cache_config_default)
       else map_res (\<lambda>s. u16_of (''cache valid status '' @ show_nat s @ '' is out of range'') s) (pca_valid_statuses c)) (\<lambda>statuses.
     Inr \<lparr>cc_enabled = (enabled \<noteq> ProtoSwitchOff), cc_max_size = none_if_zero (pca_max_size_bytes c),
          cc_ttl = (case duration_from_millis (pca_ttl_ms c) of
              None \<Rightarrow> cc_ttl cache_config_default | Some d \<Rightarrow> Some d),
          cc_stale_if_error = duration_from_millis (pca_stale_if_error_ms c), cc_cache_key = mode,
          cc_min_uses = none_if_zero (pca_min_uses c), cc_valid_statuses = statuses\<rparr>)))"

definition route_cache_from_proto :: "proto_cache option \<Rightarrow> (string, cache_config option) result" where
  "route_cache_from_proto c = transpose_map cache_from_proto c"

definition plugin_spec_from_proto :: "grpc_lib \<Rightarrow> proto_plugin \<Rightarrow> (string, plugin_spec) result" where
  "plugin_spec_from_proto g p =
     and_then (reject (trim (ppl_name p) = []) ''plugin name cannot be empty'') (\<lambda>_.
     and_then (if trim (ppl_json_config p) = [] then Inr (gp_json_null g)
       else map_err (\<lambda>e. ''invalid plugin JSON for '' @ backtick (ppl_name p) @ '': '' @ e) (gp_json g (ppl_json_config p))) (\<lambda>config.
     Inr \<lparr>ps_name = ppl_name p, ps_config = config\<rparr>))"

definition upstream_http_protocol_from_proto :: "int \<Rightarrow> (string, upstream_http_protocol option) result" where
  "upstream_http_protocol_from_proto v =
     and_then (ok_or (''unknown upstream HTTP protocol value '' @ backtick (show_i32 v)) (proto_http_protocol_of v)) (\<lambda>p.
     Inr (case p of ProtoProtocolUnspecified \<Rightarrow> None | ProtoH1 \<Rightarrow> Some H1 | ProtoH2 \<Rightarrow> Some H2 | ProtoH2c \<Rightarrow> Some H2c))"

definition weighted_backend_from_proto :: "grpc_lib \<Rightarrow> proto_weighted_backend \<Rightarrow> (string, weighted_backend) result" where
  "weighted_backend_from_proto g b =
     and_then (ok_or ''weighted backend target is required'' (pwb_target b)) (\<lambda>t.
     and_then (case t of
         ProtoTargetUpstream u \<Rightarrow> and_then (proxy_pass_target_from_proto g u) (\<lambda>p. Inr (BtUpstream p))
       | ProtoTargetResponse status \<Rightarrow> and_then (direct_status status) (\<lambda>s. Inr (BtResponse s))) (\<lambda>target.
     Inr \<lparr>wb_weight = unwrap_default (pwb_weight b) 1, wb_target = target\<rparr>))"

definition action_from_proto :: "grpc_lib \<Rightarrow> proto_route_action \<Rightarrow> (string, location_directive) result" where
  "action_from_proto g a =
     (case a of
        ProtoWeightedAction bs \<Rightarrow> and_then (map_res (weighted_backend_from_proto g) bs) (\<lambda>ws. Inr (LdWeightedBackends ws))
      | ProtoResponseAction status \<Rightarrow> and_then (direct_status status) (\<lambda>s. Inr (LdDirectResponse s))
      | ProtoHttpRedirectAction c \<Rightarrow> and_then (http_redirect_from_proto c) (\<lambda>r. Inr (LdHttpRedirect r))
      | ProtoScpAction name \<Rightarrow> Inr (ScpPass name)
      | ProtoUpstreamAction u \<Rightarrow> and_then (proxy_pass_target_from_proto g u) (\<lambda>p. Inr (ProxyPass p))
      | ProtoRedirectAction r \<Rightarrow> return_directive_from_proto r)"

text \<open>An optional setting as a list of at most one directive.\<close>

definition directive_if :: "('a \<Rightarrow> location_directive) \<Rightarrow> 'a option \<Rightarrow> location_directive list" where
  "directive_if f v = (case v of None \<Rightarrow> [] | Some a \<Rightarrow> [f a])"

definition timeout_directives :: "proto_timeouts option \<Rightarrow> location_directive list" where
  "timeout_directives t =
     (case t of
        None \<Rightarrow> []
      | Some t \<Rightarrow>
          directive_if ProxyConnectTimeout (duration_from_millis (pt_connect_timeout_ms t)) @
          directive_if ProxyReadTimeout (duration_from_millis (pt_read_timeout_ms t)) @
          directive_if ProxyWriteTimeout (duration_from_millis (pt_write_timeout_ms t)))"

definition tls_directives :: "upstream_ssl_options option \<Rightarrow> location_directive list" where
  "tls_directives t =
     (case t of
        None \<Rightarrow> []
      | Some t \<Rightarrow>
          [ProxySslVerify (us_verify_cert t)] @
          directive_if ProxySslTrustedCertificate (us_trusted_certificate t) @
          directive_if ProxySslCertificate (us_client_certificate t) @
          directive_if ProxySslCertificateKey (us_client_certificate_key t))"

definition http2_directives :: "proto_upstream_http2 option \<Rightarrow> location_directive list" where
  "http2_directives h =
     (case h of
        None \<Rightarrow> []
      | Some h \<Rightarrow>
          directive_if ProxyHttp2MaxConcurrentStreams (puh_max_concurrent_streams h) @
          directive_if ProxyHttp2StreamWindowSize (puh_stream_window_size h) @
          directive_if ProxyHttp2ConnectionWindowSize (puh_connection_window_size h))"

definition rewrite_from_proto :: "proto_url_rewrite \<Rightarrow> (string, url_rewrite) result" where
  "rewrite_from_proto r =
     and_then (transpose_map modifier_from_proto (pur_path r)) (\<lambda>path.
     Inr \<lparr>ur_hostname = pur_hostname r, ur_path = path\<rparr>)"

definition limit_directives :: "proto_route \<Rightarrow> location_directive list" where
  "limit_directives r =
     directive_if ClientMaxBodySize (prt_client_max_body_size_bytes r) @
     directive_if (\<lambda>v. ClientBodyTimeout (from_millis v)) (prt_client_body_timeout_ms r) @
     directive_if (\<lambda>v. SendTimeout (from_millis v)) (prt_send_timeout_ms r) @
     (if prt_allowed_methods r = [] then [] else [AllowMethods (prt_allowed_methods r)])"

definition location_from_proto_route :: "grpc_lib \<Rightarrow> proto_route \<Rightarrow> (string, location) result" where
  "location_from_proto_route g r =
     and_then (matcher_from_proto (prt_match r)) (\<lambda>matcher.
     and_then (upstream_tls_options_from_proto (prt_tls_options r)) (\<lambda>tls.
     and_then (upstream_http_protocol_from_proto (prt_upstream_protocol r)) (\<lambda>protocol.
     and_then (ok_or ''route action is required'' (prt_action r)) (\<lambda>a.
     and_then (action_from_proto g a) (\<lambda>action.
     and_then (transpose_map rewrite_from_proto (prt_url_rewrite r)) (\<lambda>rewrite.
     and_then (map_res (access_from_proto g) (prt_access_rules r)) (\<lambda>rules.
     and_then (map_res (plugin_spec_from_proto g) (prt_plugins r)) (\<lambda>plugins.
     and_then (route_cache_from_proto (prt_cache r)) (\<lambda>cache.
     Inr \<lparr>lo_matcher = matcher, lo_access_rules = rules,
          lo_directives = timeout_directives (prt_timeouts r) @ tls_directives tls @
            directive_if ProxyUpstreamProtocol protocol @ http2_directives (prt_upstream_http2 r) @ [action] @
            directive_if LdUrlRewrite rewrite @ limit_directives r,
          lo_plugins = plugins, lo_cache = cache\<rparr>)))))))))"

section \<open>Listeners and servers\<close>

record listener_def =
  ld_name :: string
  ld_listen :: listen
  ld_tls_options :: downstream_tls_options

definition listener_def_of :: "proto_listener \<Rightarrow> (string, listener_def) result" where
  "listener_def_of v =
     and_then (ok_or (''invalid listener address '' @ backtick (pl_address v) @ '': invalid IP address syntax'')
       (parse_ip (pl_address v))) (\<lambda>addr.
     and_then (u16_of (''invalid listener port '' @ backtick (show_nat (pl_port v))) (pl_port v)) (\<lambda>port.
     and_then (listener_tls_options_from_proto (pl_tls_options v)) (\<lambda>tls_options.
     and_then (reject (\<not> pl_tls v \<and> tls_options \<noteq> downstream_tls_default)
       (''listener '' @ backtick (pl_name v) @ '' defines TLS options but tls=false'')) (\<lambda>_.
     Inr \<lparr>ld_name = pl_name v,
          ld_listen = \<lparr>li_addr = addr, li_port = port, li_ssl = pl_tls v, li_default_server = False,
            li_http2 = pl_http2 v, li_http2_only = pl_http2_only v\<rparr>,
          ld_tls_options = tls_options\<rparr>))))"

definition add_listener_def ::
  "(string, listener_def) hmap \<Rightarrow> proto_listener \<Rightarrow> (string, (string, listener_def) hmap) result" where
  "add_listener_def defs l =
     (let name = trim (pl_name l)
      in
      and_then (reject (name = []) ''listener name cannot be empty'') (\<lambda>_.
      and_then (reject (hm_get defs name \<noteq> None) (''listener '' @ backtick name @ '' is duplicated'')) (\<lambda>_.
      and_then (listener_def_of l) (\<lambda>d.
      Inr (hm_insert name d defs)))))"

definition listener_defs :: "proto_listener list \<Rightarrow> (string, (string, listener_def) hmap) result" where
  "listener_defs ls = fold_res add_listener_def [] ls"

definition server_from_proto_virtual_host :: "grpc_lib \<Rightarrow> listener_def \<Rightarrow> proto_virtual_host \<Rightarrow> (string, server) result" where
  "server_from_proto_virtual_host g d v =
     and_then (reject (li_ssl (ld_listen d) \<and> pv_tls v = None)
       (''virtual host on listener '' @ backtick (ld_name d) @ '' requires a TLS binding'')) (\<lambda>_.
     and_then (reject (\<not> li_ssl (ld_listen d) \<and> pv_tls v \<noteq> None)
       (''virtual host on listener '' @ backtick (ld_name d) @ '' cannot define TLS binding on a plaintext listener'')) (\<lambda>_.
     and_then (map_res (location_from_proto_route g) (pv_routes v)) (\<lambda>locations.
     and_then (transpose_map tls_identity_from_proto (pv_tls v)) (\<lambda>tls.
     Inr \<lparr>sv_server_names = pv_server_names v, sv_locations = locations,
          sv_listens = [(ld_listen d)\<lparr>li_default_server := pv_default_server v\<rparr>],
          sv_tls = map_option Custom tls, sv_tls_options = ld_tls_options d\<rparr>))))"

definition virtual_host_server ::
  "grpc_lib \<Rightarrow> (string, listener_def) hmap \<Rightarrow> proto_virtual_host \<Rightarrow> (string, server) result" where
  "virtual_host_server g defs v =
     and_then (ok_or (''virtual host references unknown listener '' @ backtick (pv_listener v))
       (hm_get defs (pv_listener v))) (\<lambda>d.
     server_from_proto_virtual_host g d v)"

section \<open>The snapshot\<close>

definition geoip_from_proto :: "grpc_lib \<Rightarrow> proto_geoip \<Rightarrow> (string, geoip_config) result" where
  "geoip_from_proto g c =
     and_then (map_res (\<lambda>raw. ok_or (''invalid geoip trusted_proxy '' @ backtick raw) (network_of g raw))
       (pge_trusted_proxies c)) (\<lambda>nets.
     Inr \<lparr>gi_database = pge_database c,
          gi_reload_interval = from_millis (unwrap_default (pge_reload_interval_ms c) 5000),
          gi_trusted_proxies = nets\<rparr>)"

definition scp_profile_from_proto :: "proto_scp_profile \<Rightarrow> scp_profile" where
  "scp_profile_from_proto p =
     \<lparr>sp_name = psp_name p, sp_api_root = psp_api_root p, sp_discovery_upstreams = psp_discovery_upstreams p,
      sp_allowed_target_api_roots = psp_allowed_target_api_roots p\<rparr>"

definition http2_from_proto :: "proto_http2_options option \<Rightarrow> http2_options" where
  "http2_from_proto h =
     (case h of
        None \<Rightarrow> http2_default
      | Some h \<Rightarrow>
          \<lparr>h2_max_concurrent_streams = ph2_max_concurrent_streams h, h2_max_header_list_size = ph2_max_header_list_size h,
           h2_stream_window_size = ph2_stream_window_size h, h2_connection_window_size = ph2_connection_window_size h\<rparr>)"

definition http_from_proto_snapshot :: "grpc_lib \<Rightarrow> proto_snapshot \<Rightarrow> (string, http) result" where
  "http_from_proto_snapshot g snapshot =
     (let options = unwrap_default (pc_http snapshot) proto_http_options_default
      in
      and_then (listener_defs (pc_listeners snapshot)) (\<lambda>defs.
      and_then (map_res (virtual_host_server g defs) (pc_virtual_hosts snapshot)) (\<lambda>servers.
      and_then (upstreams_from_proto g (pc_upstreams snapshot)) (\<lambda>upstreams.
      and_then (transpose_map (real_ip_from_proto g) (pho_real_ip options)) (\<lambda>real_ip.
      and_then (transpose_map (geoip_from_proto g) (pc_geoip snapshot)) (\<lambda>geoip.
      Inr \<lparr>ht_real_ip = real_ip,
           ht_client_header_timeout = map_option from_millis (pho_client_header_timeout_ms options),
           ht_client_body_timeout = map_option from_millis (pho_client_body_timeout_ms options),
           ht_send_timeout = map_option from_millis (pho_send_timeout_ms options),
           ht_scp_profiles = map scp_profile_from_proto (pc_scp_profiles snapshot),
           ht_upstreams = upstreams, ht_servers = servers,
           ht_keepalive_timeout = keepalive_timeout_from_proto (pho_downstream_keepalive_timeout_seconds options),
           ht_keepalive_requests = none_if_zero (pho_keepalive_requests options),
           ht_client_max_body_size = none_if_zero (pho_client_max_body_size_bytes options),
           ht_proxy_cache_max_size = none_if_zero (pho_proxy_cache_max_size_bytes options),
           ht_tcp_nodelay = On,
           ht_allow_connect_method_proxying = switch_from_bool (pho_allow_connect_method_proxying options),
           ht_h2c = switch_from_bool (pho_h2c options),
           ht_http2 = http2_from_proto (pho_http2 options),
           ht_ssl_provider = map_option le_config_from_proto (pc_le_config snapshot),
           ht_geoip = geoip\<rparr>))))))"

definition runtime_snapshot_from_proto ::
  "externals \<Rightarrow> url_lib \<Rightarrow> grpc_lib \<Rightarrow> proto_snapshot \<Rightarrow> (string, config_snapshot) result" where
  "runtime_snapshot_from_proto x ul g snapshot =
     and_then (http_from_proto_snapshot g snapshot) (\<lambda>h.
     and_then (from_http x ul h) (\<lambda>router.
     Inr (config_snapshot_new (pc_version snapshot) router)))"

end
