(* ===== verification/Grpc_Encode.thy ===== *)
theory Grpc_Encode
  imports Grpc_Decode
begin

text \<open>
  From the active snapshot to a message (\<^verbatim>\<open>crates/ngxora-runtime/src/grpc/encode.rs\<close>), and the two calls
  of the service (\<^verbatim>\<open>grpc.rs\<close>).
\<close>

section \<open>Upstream groups\<close>

definition proto_nrf_discovery_from_runtime :: "grpc_lib \<Rightarrow> compiled_nrf_discovery \<Rightarrow> proto_nrf_discovery" where
  "proto_nrf_discovery_from_runtime g v =
     \<lparr>pnd_api_root = trim_end_matches CHR ''/'' (gp_show_url g (cn_api_root v)),
      pnd_target_nf_type = cn_target_nf_type v, pnd_requester_nf_type = cn_requester_nf_type v,
      pnd_service_name = cn_service_name v,
      pnd_endpoint_scheme = proto_endpoint_scheme_num
        (case cn_endpoint_scheme v of SchemeHttp \<Rightarrow> ProtoSchemeHttp | SchemeHttps \<Rightarrow> ProtoSchemeHttps),
      pnd_timeout_ms = u64_or_max (as_millis (cn_timeout v)),
      pnd_stale_if_error_ms = u64_or_max (as_millis (cn_stale_if_error v)),
      pnd_tls_options = Some (proto_upstream_tls_options_from_runtime (cn_tls_options v))\<rparr>"

definition proto_upstream_hash_key_from_runtime :: "upstream_hash_key \<Rightarrow> proto_hash_key" where
  "proto_upstream_hash_key_from_runtime v =
     \<lparr>phk_source = Some (case v of ClientIp \<Rightarrow> ProtoClientIp True | Header name \<Rightarrow> ProtoHeader name)\<rparr>"

definition u32_or_max :: "nat \<Rightarrow> nat" where
  "u32_or_max n = (if n \<le> u32_max then n else u32_max)"

definition proto_upstream_health_check_from_runtime :: "compiled_health_check \<Rightarrow> proto_health_check" where
  "proto_upstream_health_check_from_runtime v =
     \<lparr>phe_kind = Some (case ch_check_type v of
        HcTcp \<Rightarrow> ProtoTcpCheck
      | HcHttp host path use_tls \<Rightarrow> ProtoHttpCheck \<lparr>phc_host = host, phc_path = path, phc_use_tls = use_tls\<rparr>),
      phe_timeout_ms = u64_or_max (as_millis (ch_timeout v)), phe_interval_ms = u64_or_max (as_millis (ch_interval v)),
      phe_consecutive_success = u32_or_max (ch_consecutive_success v),
      phe_consecutive_failure = u32_or_max (ch_consecutive_failure v)\<rparr>"

definition proto_upstream_from_runtime :: "grpc_lib \<Rightarrow> compiled_upstream_group \<Rightarrow> proto_upstream_group" where
  "proto_upstream_from_runtime g u =
     \<lparr>pug_name = cg_name u,
      pug_backends = map (\<lambda>s. \<lparr>pbe_host = cs_host s, pbe_port = cs_port s, pbe_weight = cs_weight s\<rparr>) (cg_servers u),
      pug_policy = proto_policy_num (proto_upstream_selection_policy_from_runtime (cg_policy u)),
      pug_health_check = map_option proto_upstream_health_check_from_runtime (cg_health_check u),
      pug_hash_key = map_option proto_upstream_hash_key_from_runtime (cg_hash_key u),
      pug_nrf_discovery = map_option (proto_nrf_discovery_from_runtime g) (cg_nrf_discovery u),
      pug_allow_empty = cg_allow_empty u\<rparr>"

text \<open>The stable sort by name; \<^verbatim>\<open>values()\<close> of the hash map in any order.\<close>

definition proto_upstreams_from_runtime ::
  "grpc_lib \<Rightarrow> (string, compiled_upstream_group) hmap \<Rightarrow> proto_upstream_group list" where
  "proto_upstreams_from_runtime g us = map (proto_upstream_from_runtime g) (sort_key cg_name (hm_values us))"

section \<open>Routes\<close>

definition proto_match_from_runtime :: "compiled_matcher \<Rightarrow> proto_match" where
  "proto_match_from_runtime m =
     \<lparr>pm_kind = Some (case m of
        CmHttp h \<Rightarrow> ProtoHttpMatch (http_match_to_proto h)
      | CmPrefix path \<Rightarrow> ProtoPrefix path
      | CmExact path \<Rightarrow> ProtoExact path
      | CmPreferPrefix path \<Rightarrow> ProtoPreferPrefix path
      | CmRegex ci pattern \<Rightarrow> ProtoRegex \<lparr>prx_pattern = pattern, prx_case_insensitive = ci\<rparr>
      | CmNamed name \<Rightarrow> ProtoNamed name)\<rparr>"

definition scheme_text :: "bool \<Rightarrow> string" where
  "scheme_text tls = (if tls then ''https'' else ''http'')"

text \<open>The upstream of a target that has one.\<close>

definition proto_upstream_of_target :: "route_target \<Rightarrow> proto_upstream option" where
  "proto_upstream_of_target t =
     (case t of
        ProxyPassTo host port tls _ \<Rightarrow>
          Some \<lparr>pu_scheme = scheme_text tls, pu_host = host, pu_port = port, pu_upstream_group = []\<rparr>
      | UpstreamGroup name tls \<Rightarrow>
          Some \<lparr>pu_scheme = scheme_text tls, pu_host = [], pu_port = 0, pu_upstream_group = name\<rparr>
      | _ \<Rightarrow> None)"

definition proto_weighted_backend_from_runtime ::
  "compiled_weighted_backend \<Rightarrow> (string, proto_weighted_backend) result" where
  "proto_weighted_backend_from_runtime b =
     and_then (case cwb_target b of
         DirectResponse status \<Rightarrow> Inr (ProtoTargetResponse status)
       | t \<Rightarrow>
           and_then (ok_or ''weighted backend must be an upstream or direct response'' (proto_upstream_of_target t)) (\<lambda>u.
           Inr (ProtoTargetUpstream u))) (\<lambda>target.
     Inr \<lparr>pwb_weight = Some (cwb_weight b), pwb_target = Some target\<rparr>)"

definition proto_http_redirect_from_runtime :: "http_redirect \<Rightarrow> proto_http_redirect" where
  "proto_http_redirect_from_runtime c =
     \<lparr>phr_status = hr_status c, phr_scheme = hr_scheme c, phr_hostname = hr_hostname c, phr_port = hr_port c,
      phr_path = map_option modifier_to_proto (hr_path c)\<rparr>"

definition proto_route_action_from_runtime :: "route_target \<Rightarrow> (string, proto_route_action) result" where
  "proto_route_action_from_runtime t =
     (case t of
        DirectResponse status \<Rightarrow> Inr (ProtoResponseAction status)
      | HttpRedirect c \<Rightarrow> Inr (ProtoHttpRedirectAction (proto_http_redirect_from_runtime c))
      | WeightedBackends bs \<Rightarrow>
          and_then (map_res proto_weighted_backend_from_runtime bs) (\<lambda>ws. Inr (ProtoWeightedAction ws))
      | Scp profile \<Rightarrow> Inr (ProtoScpAction profile)
      | Return status location \<Rightarrow> Inr (ProtoRedirectAction \<lparr>pr_status = status, pr_location = location\<rparr>)
      | _ \<Rightarrow> and_then (ok_or ''invalid compiled upstream target'' (proto_upstream_of_target t)) (\<lambda>u. Inr (ProtoUpstreamAction u)))"

definition proto_cache_key_mode_from_runtime :: "cache_key_mode \<Rightarrow> proto_key_mode" where
  "proto_cache_key_mode_from_runtime m =
     (case m of Uri \<Rightarrow> ProtoKeyUri | UriAndMethod \<Rightarrow> ProtoKeyUriAndMethod | NormalizedUri \<Rightarrow> ProtoKeyNormalizedUri)"

definition proto_route_cache_from_runtime :: "cache_config \<Rightarrow> proto_cache" where
  "proto_route_cache_from_runtime c =
     \<lparr>pca_enabled = proto_switch_num (proto_switch_from_runtime (if cc_enabled c then On else Off)),
      pca_max_size_bytes = unwrap_default (cc_max_size c) 0, pca_ttl_ms = duration_to_millis (cc_ttl c),
      pca_stale_if_error_ms = duration_to_millis (cc_stale_if_error c),
      pca_key_mode = proto_key_mode_num (proto_cache_key_mode_from_runtime (cc_cache_key c)),
      pca_min_uses = (case cc_min_uses c of None \<Rightarrow> 0 | Some n \<Rightarrow> if n \<le> u32_max then n else 0),
      pca_valid_statuses = cc_valid_statuses c\<rparr>"

definition proto_upstream_http_protocol_from_runtime :: "upstream_http_protocol option \<Rightarrow> proto_http_protocol" where
  "proto_upstream_http_protocol_from_runtime v =
     (case v of None \<Rightarrow> ProtoProtocolUnspecified | Some H1 \<Rightarrow> ProtoH1 | Some H2 \<Rightarrow> ProtoH2 | Some H2c \<Rightarrow> ProtoH2c)"

definition proto_timeouts_from_runtime :: "upstream_timeouts \<Rightarrow> proto_timeouts" where
  "proto_timeouts_from_runtime t =
     \<lparr>pt_connect_timeout_ms = duration_to_millis (ut_connect t), pt_read_timeout_ms = duration_to_millis (ut_read t),
      pt_write_timeout_ms = duration_to_millis (ut_write t)\<rparr>"

definition proto_plugin_from_runtime :: "grpc_lib \<Rightarrow> plugin_spec \<Rightarrow> (string, proto_plugin) result" where
  "proto_plugin_from_runtime g p =
     and_then (map_err (\<lambda>e. ''failed to serialize plugin '' @ backtick (ps_name p) @ '' config: '' @ e)
       (gp_show_json g (ps_config p))) (\<lambda>text.
     Inr \<lparr>ppl_name = ps_name p, ppl_json_config = text\<rparr>)"

definition proto_route_from_runtime :: "grpc_lib \<Rightarrow> compiled_location \<Rightarrow> (string, proto_route) result" where
  "proto_route_from_runtime g c =
     and_then (proto_route_action_from_runtime (co_target c)) (\<lambda>action.
     and_then (map_res (proto_plugin_from_runtime g) (co_plugins c)) (\<lambda>plugins.
     Inr \<lparr>prt_match = Some (proto_match_from_runtime (co_matcher c)), prt_action = Some action,
          prt_timeouts = Some (proto_timeouts_from_runtime (co_upstream_timeouts c)), prt_plugins = plugins,
          prt_tls_options = Some (proto_upstream_tls_options_from_runtime (co_upstream_ssl_options c)),
          prt_upstream_protocol =
            proto_http_protocol_num (proto_upstream_http_protocol_from_runtime (co_upstream_protocol c)),
          prt_cache = map_option proto_route_cache_from_runtime (co_cache c),
          prt_url_rewrite = map_option (\<lambda>r.
            \<lparr>pur_hostname = ur_hostname r, pur_path = map_option modifier_to_proto (ur_path r)\<rparr>) (co_url_rewrite c),
          prt_upstream_http2 = Some
            \<lparr>puh_max_concurrent_streams = uh2_max_concurrent_streams (co_upstream_http2 c),
             puh_stream_window_size = uh2_stream_window_size (co_upstream_http2 c),
             puh_connection_window_size = uh2_connection_window_size (co_upstream_http2 c)\<rparr>,
          prt_access_rules = map (access_to_proto g) (co_access_rules c),
          prt_allowed_methods = cl_allowed_methods (co_client_limits c),
          prt_client_max_body_size_bytes = cl_max_body_size (co_client_limits c),
          prt_client_body_timeout_ms = map_option (\<lambda>d. as_u64 (as_millis d)) (cl_body_timeout (co_client_limits c)),
          prt_send_timeout_ms = map_option (\<lambda>d. as_u64 (as_millis d)) (cl_send_timeout (co_client_limits c))\<rparr>))"

definition proto_routes_from_runtime :: "grpc_lib \<Rightarrow> server_routes \<Rightarrow> (string, proto_route list) result" where
  "proto_routes_from_runtime g r = map_res (proto_route_from_runtime g) (sr_locations r)"

section \<open>Listeners and virtual hosts\<close>

definition listener_names :: "listen_key list \<Rightarrow> (listen_key, string) hmap" where
  "listener_names keys = map (\<lambda>(i, k). (k, ''listener-'' @ show_nat (i + 1))) (enumerate 0 keys)"

definition proto_listener_from_runtime ::
  "compiled_router \<Rightarrow> (listen_key, string) hmap \<Rightarrow> listen_key \<Rightarrow> (string, proto_listener) result" where
  "proto_listener_from_runtime r names k =
     (let protocol = unwrap_default (hm_get (cr_listener_protocols r) k) listener_protocol_default
      in
      and_then (ok_or ''listener name mapping is incomplete'' (hm_get names k)) (\<lambda>name.
      Inr \<lparr>pl_name = name, pl_address = show_ip (lk_addr k), pl_port = lk_port k, pl_tls = lk_ssl k,
           pl_http2 = lp_http2 protocol, pl_http2_only = lp_http2_only protocol,
           pl_tls_options = map_option (\<lambda>t. proto_listener_tls_options_from_runtime (ltc_settings t))
             (hm_get (cr_listener_tls r) k)\<rparr>))"

text \<open>The first element that satisfies a condition is edited, if there is one.\<close>

fun edit_first :: "('a \<Rightarrow> bool) \<Rightarrow> ('a \<Rightarrow> 'a) \<Rightarrow> 'a list \<Rightarrow> 'a list option" where
  "edit_first P f [] = None"
| "edit_first P f (a # as) = (if P a then Some (f a # as) else map_option ((#) a) (edit_first P f as))"

definition merge_or_push_virtual_host ::
  "grpc_lib \<Rightarrow> string \<Rightarrow> bool \<Rightarrow> string \<Rightarrow> server_routes \<Rightarrow> tls_identity option \<Rightarrow> proto_virtual_host list \<Rightarrow>
   (string, proto_virtual_host list) result" where
  "merge_or_push_virtual_host g listener_name default_server host routes identity out =
     (let tls = map_option proto_tls_binding_from_runtime identity
      in
      and_then (proto_routes_from_runtime g routes) (\<lambda>rs.
      case edit_first
        (\<lambda>v. pv_listener v = listener_name \<and> pv_default_server v = default_server \<and> pv_tls v = tls \<and> pv_routes v = rs)
        (\<lambda>v. v\<lparr>pv_server_names := sort (pv_server_names v @ [host])\<rparr>) out of
        Some out' \<Rightarrow> Inr out'
      | None \<Rightarrow>
          Inr (out @ [\<lparr>pv_listener = listener_name, pv_server_names = [host], pv_default_server = default_server,
                       pv_tls = tls, pv_routes = rs\<rparr>])))"

definition named_identity :: "listener_tls_config option \<Rightarrow> string \<Rightarrow> tls_identity option" where
  "named_identity tls host =
     (case Option.bind tls (\<lambda>c. hm_get (ltc_named c) host) of
        Some i \<Rightarrow> Some i
      | None \<Rightarrow> Option.bind tls ltc_default)"

definition add_default_virtual_host ::
  "grpc_lib \<Rightarrow> string \<Rightarrow> server_routes \<Rightarrow> tls_identity option \<Rightarrow> proto_virtual_host list \<Rightarrow>
   (string, proto_virtual_host list) result" where
  "add_default_virtual_host g listener_name routes identity out =
     (let tls = map_option proto_tls_binding_from_runtime identity
      in
      and_then (proto_routes_from_runtime g routes) (\<lambda>rs.
      case edit_first (\<lambda>v. pv_listener v = listener_name \<and> pv_routes v = rs \<and> pv_tls v = tls)
        (\<lambda>v. v\<lparr>pv_default_server := True\<rparr>) out of
        Some out' \<Rightarrow> Inr out'
      | None \<Rightarrow>
          Inr (out @ [\<lparr>pv_listener = listener_name, pv_server_names = [], pv_default_server = True, pv_tls = tls,
                       pv_routes = rs\<rparr>])))"

definition proto_virtual_hosts_from_runtime ::
  "grpc_lib \<Rightarrow> string \<Rightarrow> virtual_host_routes \<Rightarrow> listener_tls_config option \<Rightarrow> (string, proto_virtual_host list) result" where
  "proto_virtual_hosts_from_runtime g listener_name routes tls =
     and_then (fold_res (\<lambda>out (host, rs).
         merge_or_push_virtual_host g listener_name False host rs (named_identity tls host) out)
       [] (sort_key fst (vh_named routes))) (\<lambda>out.
     case vh_default routes of
       None \<Rightarrow> Inr out
     | Some rs \<Rightarrow> add_default_virtual_host g listener_name rs (Option.bind tls ltc_default) out)"

section \<open>The snapshot\<close>

definition proto_http_options_from_runtime :: "grpc_lib \<Rightarrow> http_runtime_options \<Rightarrow> proto_http_options" where
  "proto_http_options_from_runtime g h =
     \<lparr>pho_downstream_keepalive_timeout_seconds = unwrap_default (ho_downstream_keepalive_timeout h) 0,
      pho_tcp_nodelay = ho_tcp_nodelay h, pho_keepalive_requests = unwrap_default (ho_keepalive_requests h) 0,
      pho_allow_connect_method_proxying = ho_allow_connect_method_proxying h, pho_h2c = ho_h2c h,
      pho_client_max_body_size_bytes = unwrap_default (ho_client_max_body_size h) 0,
      pho_proxy_cache_max_size_bytes = unwrap_default (ho_proxy_cache_max_size h) 0,
      pho_http2 = Some
        \<lparr>ph2_max_concurrent_streams = h2_max_concurrent_streams (ho_http2 h),
         ph2_max_header_list_size = h2_max_header_list_size (ho_http2 h),
         ph2_stream_window_size = h2_stream_window_size (ho_http2 h),
         ph2_connection_window_size = h2_connection_window_size (ho_http2 h)\<rparr>,
      pho_real_ip = map_option (real_ip_to_proto g) (ho_real_ip h),
      pho_client_header_timeout_ms = map_option (\<lambda>d. as_u64 (as_millis d)) (ho_client_header_timeout h),
      pho_client_body_timeout_ms = map_option (\<lambda>d. as_u64 (as_millis d)) (ho_client_body_timeout h),
      pho_send_timeout_ms = map_option (\<lambda>d. as_u64 (as_millis d)) (ho_send_timeout h)\<rparr>"

definition proto_geoip_from_runtime :: "grpc_lib \<Rightarrow> geoip_config \<Rightarrow> proto_geoip" where
  "proto_geoip_from_runtime g c =
     \<lparr>pge_database = gi_database c, pge_reload_interval_ms = Some (as_u64 (as_millis (gi_reload_interval c))),
      pge_trusted_proxies = map (gp_show_net g) (gi_trusted_proxies c)\<rparr>"

definition proto_scp_profile_from_runtime :: "scp_profile \<Rightarrow> proto_scp_profile" where
  "proto_scp_profile_from_runtime p =
     \<lparr>psp_name = sp_name p, psp_api_root = sp_api_root p, psp_discovery_upstreams = sp_discovery_upstreams p,
      psp_allowed_target_api_roots = sp_allowed_target_api_roots p\<rparr>"

definition listener_virtual_hosts ::
  "grpc_lib \<Rightarrow> compiled_router \<Rightarrow> (listen_key, string) hmap \<Rightarrow> listen_key \<Rightarrow> (string, proto_virtual_host list) result" where
  "listener_virtual_hosts g r names k =
     and_then (ok_or ''listener disappeared while building snapshot'' (hm_get (cr_listeners r) k)) (\<lambda>routes.
     and_then (ok_or ''listener name mapping is incomplete'' (hm_get names k)) (\<lambda>name.
     proto_virtual_hosts_from_runtime g name routes (hm_get (cr_listener_tls r) k)))"

definition proto_snapshot_from_runtime :: "grpc_lib \<Rightarrow> string \<Rightarrow> compiled_router \<Rightarrow> (string, proto_snapshot) result" where
  "proto_snapshot_from_runtime g version r =
     (let keys = sort (hm_keys (cr_listeners r)); names = listener_names keys
      in
      and_then (map_res (proto_listener_from_runtime r names) keys) (\<lambda>listeners.
      and_then (map_res (listener_virtual_hosts g r names) keys) (\<lambda>virtual_hosts.
      Inr \<lparr>pc_version = version, pc_http = Some (proto_http_options_from_runtime g (cr_http_options r)),
           pc_listeners = listeners, pc_virtual_hosts = concat virtual_hosts,
           pc_upstreams = proto_upstreams_from_runtime g (cr_upstreams r),
           pc_le_config = map_option proto_le_config_from_ir (cr_le_config r),
           pc_scp_profiles = map proto_scp_profile_from_runtime (sort_key sp_name (hm_values (cr_scp_profiles r))),
           pc_geoip = map_option (proto_geoip_from_runtime g) (cr_geoip r)\<rparr>)))"

section \<open>The service\<close>

definition proto_apply_result_of :: "apply_result \<Rightarrow> proto_apply_result" where
  "proto_apply_result_of r =
     \<lparr>pa_applied = ap_applied r, pa_restart_required = ap_restart_required r, pa_message = ap_message r,
      pa_active_version = ap_active_version r, pa_active_generation = ap_active_generation r\<rparr>"

datatype grpc_status = InvalidArgument string | FailedPrecondition string

definition grpc_apply_snapshot ::
  "('s, 'm, 'p) control_lib \<Rightarrow> externals \<Rightarrow> url_lib \<Rightarrow> grpc_lib \<Rightarrow> instant \<Rightarrow> proto_snapshot \<Rightarrow> ('s, 'k, 'm, 'p) runtime_state \<Rightarrow>
   (grpc_status, proto_apply_result) result \<times> ('s, 'k, 'm, 'p) runtime_state" where
  "grpc_apply_snapshot l x ul g now request s =
     (case runtime_snapshot_from_proto x ul g request of
        Inl e \<Rightarrow> (Inl (InvalidArgument e), s)
      | Inr snapshot \<Rightarrow> (case apply_snapshot l now snapshot s of (r, s') \<Rightarrow> (Inr (proto_apply_result_of r), s')))"

definition grpc_get_snapshot :: "grpc_lib \<Rightarrow> ('s, 'k, 'm, 'p) runtime_state \<Rightarrow> (grpc_status, proto_snapshot) result" where
  "grpc_get_snapshot g s =
     map_err FailedPrecondition
       (proto_snapshot_from_runtime g (ss_version (rt_current s)) (ss_router (rt_current s)))"

end
