(* ===== verification/Grpc_Roundtrip.thy ===== *)
theory Grpc_Roundtrip
  imports Grpc_Encode Compile_Safety
begin

text \<open>
  What a snapshot message preserves: a route that is written into a message, read back and compiled again
  is the one that is active, for everything the message format can carry. The conditions of
  \<open>route_carried\<close> name what it cannot.
\<close>

section \<open>Values\<close>

text \<open>Durations that survive the field of milliseconds, where zero stands for none.\<close>

definition carried_ms :: "duration \<Rightarrow> bool" where
  "carried_ms d \<longleftrightarrow> 0 < d \<and> d mod nanos_per_milli = 0 \<and> as_millis d \<le> u64_max"

lemma carried_ms_back:
  "carried_ms d \<Longrightarrow> as_millis d \<noteq> 0 \<and> from_millis (as_millis d) = d \<and> u64_or_max (as_millis d) = as_millis d"
  by (auto simp: carried_ms_def as_millis_def from_millis_def u64_or_max_def)

definition carried_option :: "duration option \<Rightarrow> bool" where
  "carried_option v = (case v of None \<Rightarrow> True | Some d \<Rightarrow> carried_ms d)"

lemma duration_back: "carried_option v \<Longrightarrow> duration_from_millis (duration_to_millis v) = v"
  using carried_ms_back
  by (fastforce simp: carried_option_def duration_from_millis_def duration_to_millis_def split: option.splits)

lemma client_timeout_back:
  assumes "validate_client_timeout v = Inr ()"
  shows "map_option from_millis (map_option (\<lambda>d. as_u64 (as_millis d)) v) = v"
proof (cases v)
  case (Some d)
  with assms have "as_millis d \<le> u64_max" and sub: "subsec_nanos d mod nanos_per_milli = 0"
    by (simp_all add: validate_client_timeout_def res_simps not_less)
  moreover from sub have "d mod nanos_per_milli = 0"
    by (simp add: subsec_nanos_def mod_mod_cancel)
  ultimately show ?thesis using Some
    by (auto simp: as_u64_def as_millis_def from_millis_def)
qed simp

lemma pem_back: "pem_source_from_proto (Some (proto_pem_source_from_runtime p)) field = Inr p"
  by (cases p) (simp_all add: pem_source_from_proto_def proto_pem_source_from_runtime_def ok_or_def)

lemma pem_option_back:
  "transpose_map (\<lambda>s. pem_source_from_proto (Some s) field) (map_option proto_pem_source_from_runtime v) = Inr v"
  by (cases v) (simp_all add: transpose_map_def pem_back)

lemma switch_back: "switch_from_proto (proto_switch_num (proto_switch_from_runtime v)) = v"
  unfolding switch_from_proto_def proto_nums
  by (cases v) (simp_all add: proto_switch_from_runtime_def unwrap_default_def)

text \<open>A client certificate and its key come together.\<close>

definition ssl_paired :: "upstream_ssl_options \<Rightarrow> bool" where
  "ssl_paired s \<longleftrightarrow> (us_client_certificate s = None \<longleftrightarrow> us_client_certificate_key s = None)"

lemma upstream_tls_back:
  "ssl_paired s \<Longrightarrow> upstream_tls_options_from_proto (Some (proto_upstream_tls_options_from_runtime s)) = Inr (Some s)"
  by (auto simp: upstream_tls_options_from_proto_def proto_upstream_tls_options_from_runtime_def ssl_paired_def
      pem_option_back switch_back reject_def)

lemma protocol_back:
  "upstream_http_protocol_from_proto (proto_http_protocol_num (proto_upstream_http_protocol_from_runtime v)) = Inr v"
  unfolding upstream_http_protocol_from_proto_def proto_nums
  by (auto simp: proto_upstream_http_protocol_from_runtime_def ok_or_def split: option.splits upstream_http_protocol.splits)

lemma modifier_back: "modifier_from_proto (modifier_to_proto m) = Inr m"
  by (cases m) (simp_all add: modifier_from_proto_def modifier_to_proto_def ok_or_def)

lemma modifier_option_back: "transpose_map modifier_from_proto (map_option modifier_to_proto v) = Inr v"
  by (cases v) (simp_all add: transpose_map_def modifier_back)

lemma rewrite_back:
  "transpose_map rewrite_from_proto (map_option (\<lambda>r.
     \<lparr>pur_hostname = ur_hostname r, pur_path = map_option modifier_to_proto (ur_path r)\<rparr>) v) = Inr v"
  by (cases v) (simp_all add: transpose_map_def [of rewrite_from_proto] rewrite_from_proto_def modifier_option_back)

lemma pairs_back:
  "map (\<lambda>c. (pcn_name c, pcn_value c)) (map (\<lambda>(n, v). \<lparr>pcn_name = n, pcn_value = v\<rparr>) ps) = ps"
  by (induction ps) auto

lemma http_match_back: "http_match_from_proto (http_match_to_proto h) = h"
  unfolding http_match_from_proto_def http_match_to_proto_def
  by (cases "hm_path h") (simp_all add: pairs_back del: map_map)

section \<open>Rules, plugins and the cache\<close>

text \<open>The network library reads back what it has printed.\<close>

definition rule_carried :: "grpc_lib \<Rightarrow> location_ip_rule \<Rightarrow> bool" where
  "rule_carried g rule =
     (case rule of
        Allow n \<Rightarrow> network_of g (gp_show_net g n) = Some n \<and> gp_show_net g n \<noteq> ''all''
      | Deny n \<Rightarrow> network_of g (gp_show_net g n) = Some n \<and> gp_show_net g n \<noteq> ''all''
      | _ \<Rightarrow> True)"

lemma rule_back: "rule_carried g rule \<Longrightarrow> access_from_proto g (access_to_proto g rule) = Inr rule"
  unfolding access_from_proto_def access_to_proto_def proto_access_rule.simps proto_nums
  by (cases rule) (simp_all add: rule_carried_def network_def ok_or_def)

lemma map_res_back: "(\<And>a. a \<in> set as \<Longrightarrow> f (h a) = Inr a) \<Longrightarrow> map_res f (map h as) = Inr as"
  by (induction as) auto

lemma rules_back: "list_all (rule_carried g) rules \<Longrightarrow> map_res (access_from_proto g) (map (access_to_proto g) rules) = Inr rules"
  by (rule map_res_back) (auto simp: list_all_iff rule_back)

definition plugin_carried :: "grpc_lib \<Rightarrow> plugin_spec \<Rightarrow> bool" where
  "plugin_carried g p \<longleftrightarrow>
     trim (ps_name p) \<noteq> [] \<and>
     (case gp_show_json g (ps_config p) of Inl _ \<Rightarrow> False | Inr t \<Rightarrow> trim t \<noteq> [] \<and> gp_json g t = Inr (ps_config p))"

lemma plugins_back:
  "list_all (plugin_carried g) ps \<Longrightarrow>
   \<exists>msgs. map_res (proto_plugin_from_runtime g) ps = Inr msgs \<and> map_res (plugin_spec_from_proto g) msgs = Inr ps"
proof (induction ps)
  case (Cons p ps)
  then obtain t where "gp_show_json g (ps_config p) = Inr t" "trim t \<noteq> []" "gp_json g t = Inr (ps_config p)"
    "trim (ps_name p) \<noteq> []"
    by (auto simp: plugin_carried_def split: sum.splits)
  with Cons show ?case
    by (auto simp: proto_plugin_from_runtime_def plugin_spec_from_proto_def map_err_def reject_def)
qed simp

definition cache_carried :: "cache_config \<Rightarrow> bool" where
  "cache_carried c \<longleftrightarrow>
     cc_max_size c \<noteq> Some 0 \<and> (case cc_ttl c of None \<Rightarrow> False | Some d \<Rightarrow> carried_ms d) \<and> carried_option (cc_stale_if_error c) \<and>
     (case cc_min_uses c of None \<Rightarrow> True | Some n \<Rightarrow> 0 < n \<and> n \<le> u32_max) \<and>
     cc_valid_statuses c \<noteq> [] \<and> list_all (\<lambda>s. s \<le> u16_max) (cc_valid_statuses c)"

lemma statuses_back: "list_all (\<lambda>s. s \<le> u16_max) ss \<Longrightarrow> map_res (\<lambda>s. u16_of (e s) s) ss = Inr ss"
  by (induction ss) (simp_all add: u16_of_def)

lemma zero_none_back: "v \<noteq> Some 0 \<Longrightarrow> none_if_zero (unwrap_default v 0) = v"
  by (cases v) (simp_all add: none_if_zero_def unwrap_default_def)

lemma key_mode_back: "cache_key_mode_from_proto (proto_key_mode_num (proto_cache_key_mode_from_runtime m)) = Inr m"
  unfolding cache_key_mode_from_proto_def proto_nums
  by (cases m) (simp_all add: proto_cache_key_mode_from_runtime_def ok_or_def)

lemma enabled_back:
  "proto_switch_of (proto_switch_num (proto_switch_from_runtime (if b then On else Off))) =
   Some (if b then ProtoSwitchOn else ProtoSwitchOff)"
  unfolding proto_nums by (simp add: proto_switch_from_runtime_def)

lemma cache_back:
  assumes "cache_carried c"
  shows "cache_from_proto (proto_route_cache_from_runtime c) = Inr c"
proof -
  have ttl: "(case duration_from_millis (duration_to_millis (cc_ttl c)) of
      None \<Rightarrow> cc_ttl cache_config_default | Some d \<Rightarrow> Some d) = cc_ttl c"
    using assms duration_back [of "cc_ttl c"] by (auto simp: cache_carried_def carried_option_def split: option.splits)
  have uses: "none_if_zero (case cc_min_uses c of None \<Rightarrow> 0 | Some n \<Rightarrow> if n \<le> u32_max then n else 0) = cc_min_uses c"
    using assms by (auto simp: cache_carried_def none_if_zero_def split: option.splits)
  show ?thesis
    using assms unfolding cache_from_proto_def proto_route_cache_from_runtime_def cache_carried_def
    by (simp add: enabled_back ok_or_def key_mode_back statuses_back ttl uses zero_none_back duration_back
        proto_switch_from_runtime_def)
qed

lemma route_cache_back:
  "(case v of None \<Rightarrow> True | Some c \<Rightarrow> cache_carried c) \<Longrightarrow>
   route_cache_from_proto (map_option proto_route_cache_from_runtime v) = Inr v"
  by (cases v) (simp_all add: route_cache_from_proto_def transpose_map_def cache_back)

section \<open>Matchers\<close>

text \<open>
  The \<^verbatim>\<open>http\<close> crate: a normalized header name is its own normal form, and a path stays valid without its
  last slash.
\<close>

definition http_lib_laws :: "externals \<Rightarrow> bool" where
  "http_lib_laws x \<longleftrightarrow>
     (\<forall>n m. ext_header_name x n = Some m \<longrightarrow> ext_header_name x m = Some m) \<and>
     (\<forall>p. p \<noteq> [] \<longrightarrow> ext_path_and_query_ok x (p @ ''/'') \<longrightarrow> ext_path_and_query_ok x p)"

lemma path_back:
  assumes laws: "http_lib_laws x" and ok: "validate_path x p = Inr ()"
  defines "q \<equiv> trim_end_matches CHR ''/'' p"
  shows "validate_path x (if q = [] then ''/'' else q) = Inr ()"
proof -
  obtain n where p: "p = q @ replicate n CHR ''/''" using trim_end_matches_decomp [of p] unfolding q_def by blast
  have slash: "starts_with ''/'' p" "\<not> contains_str ''//'' p" using ok by (simp_all add: validate_path_def res_simps)
  have "n \<le> 1"
  proof (rule ccontr)
    assume "\<not> n \<le> 1"
    then obtain k where "n = Suc (Suc k)" by (metis One_nat_def not_less_eq_eq Suc_le_D)
    then have "p = q @ ''//'' @ replicate k CHR ''/''" using p by simp
    with slash(2) show False unfolding contains_str_iff by blast
  qed
  then consider "n = 0" | "n = 1" by linarith
  then show ?thesis
  proof cases
    case 1
    with p slash(1) have "q = p" "q \<noteq> []" by (auto simp: starts_with_def)
    with ok show ?thesis by simp
  next
    case 2
    with p have eq: "p = q @ ''/''" by simp
    show ?thesis
    proof (cases "q = []")
      case True
      with eq ok show ?thesis by simp
    next
      case False
      then have "starts_with ''/'' q" using slash(1) eq by (cases q) (auto simp: starts_with_def split: if_splits)
      moreover have "\<not> contains_str ''//'' q" using slash(2) eq unfolding contains_str_iff by (metis append.assoc)
      ultimately show ?thesis
        using ok laws eq False by (auto simp: validate_path_def res_simps http_lib_laws_def)
    qed
  qed
qed

lemma retain_first_subset: "set (retain_first seen kvs) \<subseteq> set kvs"
  by (induction seen kvs rule: retain_first.induct) auto

lemma retain_first_idem: "retain_first [] (retain_first [] kvs) = retain_first [] kvs"
  using retain_first_keys [of "[]" kvs] by (intro retain_first_id) auto

lemma headers_back:
  assumes "http_lib_laws x" and "map_res (compile_header x) hs = Inr headers"
  shows "map_res (compile_header x) (retain_first [] headers) = Inr (retain_first [] headers)"
proof -
  have "list_all (\<lambda>nv. compile_header x nv = Inr nv) headers"
    using assms(2) unfolding map_res_Inr_iff
    by (induction rule: list_all2_induct) (use assms(1) in \<open>auto simp: compile_header_def res_simps http_lib_laws_def\<close>)
  then have "map_res (compile_header x) (map (\<lambda>nv. nv) (retain_first [] headers)) = Inr (retain_first [] headers)"
    using retain_first_subset [of "[]" headers] by (intro map_res_back) (auto simp: list_all_iff)
  then show ?thesis by simp
qed

lemma slash_trimmed: "trim_end_matches CHR ''/'' ''/'' = []"
  by (simp add: trim_end_matches_def)

lemma compile_match_back:
  assumes laws: "http_lib_laws x" and h: "compile_match x m = Inr h"
  shows "compile_match x h = Inr h"
proof -
  from h obtain headers where
    path: "validate_path x (case hm_path m of ExactPath p \<Rightarrow> p | PathPrefix p \<Rightarrow> p) = Inr ()"
    and verb: "\<not> (case hm_method m of None \<Rightarrow> False | Some m \<Rightarrow> \<not> ext_method_ok x m)"
    and headers: "map_res (compile_header x) (hm_headers m) = Inr headers"
    and eq: "h = \<lparr>hm_path = (case hm_path m of ExactPath p \<Rightarrow> ExactPath p
        | PathPrefix p \<Rightarrow> PathPrefix (let q = trim_end_matches CHR ''/'' p in if q = [] then ''/'' else q)),
      hm_method = hm_method m, hm_headers = retain_first [] headers,
      hm_query_params = retain_first [] (hm_query_params m)\<rparr>"
    by (auto simp: compile_match_def res_simps)
  have "validate_path x (case hm_path h of ExactPath p \<Rightarrow> p | PathPrefix p \<Rightarrow> p) = Inr ()"
  proof (cases "hm_path m")
    case (PathPrefix p)
    with path path_back [OF laws, of p] eq show ?thesis by (simp add: Let_def)
  qed (use path eq in simp)
  moreover have "(case hm_path h of ExactPath p \<Rightarrow> ExactPath p
        | PathPrefix p \<Rightarrow> PathPrefix (let q = trim_end_matches CHR ''/'' p in if q = [] then ''/'' else q)) = hm_path h"
    using eq by (auto simp: Let_def slash_trimmed split: http_path_match.splits)
  ultimately show ?thesis
    using verb headers_back [OF laws headers] eq
    by (simp add: compile_match_def res_simps reject_def retain_first_idem)
qed

lemma matcher_back:
  assumes "http_lib_laws x" and "compiled_matcher_of x lm = Inr m"
  shows "\<exists>lm'. matcher_from_proto (Some (proto_match_from_runtime m)) = Inr lm' \<and> compiled_matcher_of x lm' = Inr m"
  using assms compile_match_back
  by (cases lm) (auto simp: matcher_from_proto_def proto_match_from_runtime_def ok_or_def http_match_back res_simps
      compiled_regex_new_def split: if_splits)

section \<open>Targets\<close>

text \<open>What the compiler establishes of a target.\<close>

fun leaf_compiled :: "(string, compiled_upstream_group) hmap \<Rightarrow> route_target \<Rightarrow> bool" where
  "leaf_compiled upstreams (DirectResponse status) = (200 \<le> status \<and> status \<le> 599)"
| "leaf_compiled upstreams (ProxyPassTo host port tls sni) = (sni = proxy_pass_sni host tls)"
| "leaf_compiled upstreams (UpstreamGroup name tls) =
     (case hm_get upstreams (normalize_upstream_name name) of
        None \<Rightarrow> False | Some grp \<Rightarrow> cg_name grp = name \<and> validate_nrf_route_scheme grp tls = Inr ())"
| "leaf_compiled upstreams _ = False"

fun target_compiled :: "(string, compiled_upstream_group) hmap \<Rightarrow> route_target \<Rightarrow> bool" where
  "target_compiled upstreams (WeightedBackends bs) =
     (bs \<noteq> [] \<and> list_all (\<lambda>b. cwb_weight b \<le> 1000000 \<and> leaf_compiled upstreams (cwb_target b)) bs)"
| "target_compiled upstreams (Scp profile) = True"
| "target_compiled upstreams (Return status location) = True"
| "target_compiled upstreams (HttpRedirect config) = True"
| "target_compiled upstreams t = leaf_compiled upstreams t"

lemma leaf_target_compiled: "leaf_compiled upstreams t \<Longrightarrow> target_compiled upstreams t"
  by (cases t) simp_all

lemma pass_target_compiled:
  "names_ok upstreams \<Longrightarrow> pass_target ul upstreams p = Inr (Some t) \<Longrightarrow> leaf_compiled upstreams t"
  by (cases p) (auto simp: pass_target_def url_target_def upstream_group_from_url_def names_ok_def res_simps bind_eq_Some_conv
      split: option.splits if_splits)

lemma weighted_backend_compiled:
  "names_ok upstreams \<Longrightarrow> compile_weighted_backend ul upstreams b = Inr c \<Longrightarrow>
   cwb_weight c \<le> 1000000 \<and> leaf_compiled upstreams (cwb_target c)"
  by (auto simp: compile_weighted_backend_def response_target_def validate_direct_status_def res_simps pass_target_compiled
      split: backend_target.splits)

lemma directive_target_compiled:
  assumes "names_ok upstreams" and "route_target_from_directive ul upstreams d = Inr (Some t)"
  shows "target_compiled upstreams t"
proof (cases d)
  case (LdWeightedBackends backends)
  with assms(2) obtain bs where bs: "map_res (compile_weighted_backend ul upstreams) backends = Inr bs"
    and t: "t = WeightedBackends bs" "backends \<noteq> []"
    by (auto simp: route_target_from_directive_def res_simps)
  from bs have all2: "list_all2 (\<lambda>b c. compile_weighted_backend ul upstreams b = Inr c) backends bs"
    by (simp add: map_res_Inr_iff)
  then have "list_all (\<lambda>c. cwb_weight c \<le> 1000000 \<and> leaf_compiled upstreams (cwb_target c)) bs"
    using weighted_backend_compiled [OF assms(1)] by (induction rule: list_all2_induct) auto
  with t all2 show ?thesis by auto
qed (use assms in \<open>auto simp: route_target_from_directive_def response_target_def validate_direct_status_def res_simps
    intro: leaf_target_compiled pass_target_compiled\<close>)

lemma location_target_compiled:
  "names_ok upstreams \<Longrightarrow> location_route_target ul upstreams ds = Inr (Some t) \<Longrightarrow> target_compiled upstreams t"
proof (induction ds)
  case (Cons d ds)
  then obtain o1 where o1: "route_target_from_directive ul upstreams d = Inr o1" by (auto simp: res_simps)
  with Cons show ?case by (cases o1) (auto dest: directive_target_compiled)
qed simp

text \<open>
  A direct target goes through the text of its URL: the library has to read back host, port and scheme, and the
  host must not name a group, which the URL would then select.
\<close>

definition url_carried ::
  "url_lib \<Rightarrow> grpc_lib \<Rightarrow> (string, compiled_upstream_group) hmap \<Rightarrow> string \<Rightarrow> nat \<Rightarrow> bool \<Rightarrow> bool" where
  "url_carried ul g upstreams host port tls \<longleftrightarrow>
     trim host \<noteq> [] \<and> port \<noteq> 0 \<and>
     (case gp_url g (scheme_text tls @ ''://'' @ host @ '':'' @ show_nat port) of
        Inl _ \<Rightarrow> False
      | Inr u \<Rightarrow> ul_host_str ul u = Some host \<and> ul_port_or_known_default ul u = Some port \<and>
          ul_scheme ul u = scheme_text tls \<and> upstream_group_from_url ul u upstreams = None)"

fun leaf_carried :: "url_lib \<Rightarrow> grpc_lib \<Rightarrow> (string, compiled_upstream_group) hmap \<Rightarrow> route_target \<Rightarrow> bool" where
  "leaf_carried ul g upstreams (ProxyPassTo host port tls sni) = url_carried ul g upstreams host port tls"
| "leaf_carried ul g upstreams (UpstreamGroup name tls) = (trim name \<noteq> [])"
| "leaf_carried ul g upstreams _ = True"

fun target_carried :: "url_lib \<Rightarrow> grpc_lib \<Rightarrow> (string, compiled_upstream_group) hmap \<Rightarrow> route_target \<Rightarrow> bool" where
  "target_carried ul g upstreams (Return status location) = (location \<noteq> [])"
| "target_carried ul g upstreams (HttpRedirect config) = (case hr_port config of None \<Rightarrow> True | Some p \<Rightarrow> p \<le> u16_max)"
| "target_carried ul g upstreams (WeightedBackends bs) = list_all (\<lambda>b. leaf_carried ul g upstreams (cwb_target b)) bs"
| "target_carried ul g upstreams t = leaf_carried ul g upstreams t"

lemma trim_Nil: "trim [] = []"
  by (simp add: trim_def)

lemma scheme_back: "proxy_pass_tls (scheme_text tls) = Some tls"
  by (simp add: proxy_pass_tls_def scheme_text_def)

lemma upstream_back:
  assumes "leaf_compiled upstreams t" and "leaf_carried ul g upstreams t" and "proto_upstream_of_target t = Some u"
  shows "\<exists>p. proxy_pass_target_from_proto g u = Inr p \<and> pass_target ul upstreams p = Inr (Some t)"
proof (cases t)
  case (ProxyPassTo host port tls sni)
  with assms(2) obtain v where
    v: "gp_url g (scheme_text tls @ ''://'' @ host @ '':'' @ show_nat port) = Inr v"
    and parts: "trim host \<noteq> []" "port \<noteq> 0" "ul_host_str ul v = Some host" "ul_port_or_known_default ul v = Some port"
      "ul_scheme ul v = scheme_text tls" "upstream_group_from_url ul v upstreams = None"
    by (auto simp: url_carried_def split: sum.splits)
  have u: "u = \<lparr>pu_scheme = scheme_text tls, pu_host = host, pu_port = port, pu_upstream_group = []\<rparr>"
    using assms(3) ProxyPassTo by (simp add: proto_upstream_of_target_def)
  have "proxy_pass_target_from_proto g u = Inr (PassUrl v)"
    using v parts unfolding proxy_pass_target_from_proto_def u
    by (cases tls) (simp_all add: scheme_text_def reject_def map_err_def trim_Nil Let_def)
  moreover have "pass_target ul upstreams (PassUrl v) = Inr (Some t)"
    using parts ProxyPassTo assms(1) by (simp add: pass_target_def url_target_def scheme_back)
  ultimately show ?thesis by blast
next
  case (UpstreamGroup name tls)
  have u: "u = \<lparr>pu_scheme = scheme_text tls, pu_host = [], pu_port = 0, pu_upstream_group = name\<rparr>"
    using assms(3) UpstreamGroup by (simp add: proto_upstream_of_target_def)
  have "proxy_pass_target_from_proto g u = Inr (PassUpstreamGroup name tls)"
    using assms(2) UpstreamGroup unfolding proxy_pass_target_from_proto_def u
    by (cases tls) (simp_all add: scheme_text_def reject_def trim_Nil Let_def)
  moreover have "pass_target ul upstreams (PassUpstreamGroup name tls) = Inr (Some t)"
    using assms(1) UpstreamGroup by (auto simp: pass_target_def ok_or_def split: option.splits)
  ultimately show ?thesis by blast
qed (use assms(3) in \<open>simp_all add: proto_upstream_of_target_def\<close>)

text \<open>
  Where the URL of a direct target selects a group, the route is sent to the group: a host that has the name of a
  group, on the default port, which the URL does not keep.
\<close>

lemma direct_target_captured:
  assumes "proto_upstream_of_target (ProxyPassTo host port tls sni) = Some u" and "trim host \<noteq> []" and "port \<noteq> 0"
    and "gp_url g (scheme_text tls @ ''://'' @ host @ '':'' @ show_nat port) = Inr v" and "ul_scheme ul v = scheme_text tls"
    and "upstream_group_from_url ul v upstreams = Some grp" and "validate_nrf_route_scheme grp tls = Inr ()"
  shows "\<exists>p. proxy_pass_target_from_proto g u = Inr p \<and>
    pass_target ul upstreams p = Inr (Some (UpstreamGroup (cg_name grp) tls))"
proof (intro exI conjI)
  have u: "u = \<lparr>pu_scheme = scheme_text tls, pu_host = host, pu_port = port, pu_upstream_group = []\<rparr>"
    using assms(1) by (simp add: proto_upstream_of_target_def)
  show "proxy_pass_target_from_proto g u = Inr (PassUrl v)"
    using assms(2-4) unfolding proxy_pass_target_from_proto_def u
    by (cases tls) (simp_all add: scheme_text_def reject_def map_err_def trim_Nil Let_def)
  show "pass_target ul upstreams (PassUrl v) = Inr (Some (UpstreamGroup (cg_name grp) tls))"
    using assms(5-7) by (simp add: pass_target_def url_target_def scheme_back ok_or_def)
qed

lemma leaf_cases:
  assumes "leaf_compiled upstreams t"
  obtains status where "t = DirectResponse status" "200 \<le> status" "status \<le> 599"
    | u where "proto_upstream_of_target t = Some u" "is_upstream_target t" "\<And>status. t \<noteq> DirectResponse status"
  using assms by (cases t) (auto simp: proto_upstream_of_target_def is_upstream_target_def)

lemma weighted_back:
  assumes "cwb_weight b \<le> 1000000" and "leaf_compiled upstreams (cwb_target b)"
    and "leaf_carried ul g upstreams (cwb_target b)"
  shows "\<exists>m w. proto_weighted_backend_from_runtime b = Inr m \<and> weighted_backend_from_proto g m = Inr w \<and>
    compile_weighted_backend ul upstreams w = Inr b"
  using assms(2)
proof (cases rule: leaf_cases)
  case (1 status)
  then show ?thesis using assms(1)
    by (cases b) (simp add: proto_weighted_backend_from_runtime_def weighted_backend_from_proto_def ok_or_def
        direct_status_def u16_of_def compile_weighted_backend_def response_target_def validate_direct_status_def
        reject_def unwrap_default_def)
next
  case (2 u)
  obtain p where p: "proxy_pass_target_from_proto g u = Inr p" "pass_target ul upstreams p = Inr (Some (cwb_target b))"
    using upstream_back [OF assms(2,3) 2(1)] by blast
  have "proto_weighted_backend_from_runtime b =
      Inr \<lparr>pwb_weight = Some (cwb_weight b), pwb_target = Some (ProtoTargetUpstream u)\<rparr>"
    using 2 by (auto simp: proto_weighted_backend_from_runtime_def ok_or_def split: route_target.splits)
  then show ?thesis using p assms(1)
    by (simp add: weighted_backend_from_proto_def ok_or_def compile_weighted_backend_def reject_def unwrap_default_def)
qed

lemma weighted_list_back:
  assumes "list_all (\<lambda>b. cwb_weight b \<le> 1000000 \<and> leaf_compiled upstreams (cwb_target b)) bs"
    and "list_all (\<lambda>b. leaf_carried ul g upstreams (cwb_target b)) bs"
  shows "\<exists>ms ws. map_res proto_weighted_backend_from_runtime bs = Inr ms \<and> map_res (weighted_backend_from_proto g) ms = Inr ws \<and>
    map_res (compile_weighted_backend ul upstreams) ws = Inr bs"
  using assms
proof (induction bs)
  case (Cons b bs)
  then obtain m w where "proto_weighted_backend_from_runtime b = Inr m" "weighted_backend_from_proto g m = Inr w"
    "compile_weighted_backend ul upstreams w = Inr b"
    using weighted_back [of b upstreams ul g] by auto
  moreover from Cons obtain ms ws where "map_res proto_weighted_backend_from_runtime bs = Inr ms"
    "map_res (weighted_backend_from_proto g) ms = Inr ws" "map_res (compile_weighted_backend ul upstreams) ws = Inr bs"
    by auto
  ultimately show ?case by auto
qed simp

text \<open>The directives that end a route.\<close>

definition is_action :: "location_directive \<Rightarrow> bool" where
  "is_action d = (case d of
      ProxyPass _ \<Rightarrow> True | ScpPass _ \<Rightarrow> True | LdReturn _ _ \<Rightarrow> True | LdWeightedBackends _ \<Rightarrow> True
    | LdDirectResponse _ \<Rightarrow> True | LdHttpRedirect _ \<Rightarrow> True | _ \<Rightarrow> False)"

lemma redirect_back:
  assumes "validate_target x (HttpRedirect c) m = Inr ()" and "target_carried ul g upstreams (HttpRedirect c)"
  shows "http_redirect_from_proto (proto_http_redirect_from_runtime c) = Inr c"
proof -
  have "hr_status c \<noteq> 0" "hr_status c \<le> u16_max" using assms(1) by (auto simp: validate_target_def res_simps)
  moreover have "transpose_map (u16_of e) (hr_port c) = Inr (hr_port c)" for e
    using assms(2) by (auto simp: transpose_map_def u16_of_def split: option.splits)
  ultimately show ?thesis
    by (simp add: http_redirect_from_proto_def proto_http_redirect_from_runtime_def direct_status_def modifier_option_back)
      (simp add: u16_of_def)
qed

lemma action_back:
  assumes "target_compiled upstreams t" and "target_carried ul g upstreams t" and "validate_target x t m = Inr ()"
  shows "\<exists>a d. proto_route_action_from_runtime t = Inr a \<and> action_from_proto g a = Inr d \<and>
    route_target_from_directive ul upstreams d = Inr (Some t) \<and> is_action d"
proof (cases t)
  case (WeightedBackends bs)
  then show ?thesis using assms weighted_list_back [of upstreams bs ul g]
    by (fastforce simp: proto_route_action_from_runtime_def action_from_proto_def route_target_from_directive_def
        is_action_def reject_def)
next
  case (HttpRedirect c)
  then show ?thesis using assms redirect_back [of x c m ul g upstreams]
    by (simp add: proto_route_action_from_runtime_def action_from_proto_def route_target_from_directive_def is_action_def)
next
  case (Return status location)
  with assms have "300 \<le> status" "status \<le> 399" "location \<noteq> []" by (auto simp: validate_target_def res_simps)
  then show ?thesis using Return
    by (simp add: proto_route_action_from_runtime_def action_from_proto_def return_directive_from_proto_def u16_of_def
        reject_def route_target_from_directive_def is_action_def)
next
  case (DirectResponse status)
  then show ?thesis using assms(1)
    by (simp add: proto_route_action_from_runtime_def action_from_proto_def direct_status_def u16_of_def
        route_target_from_directive_def response_target_def validate_direct_status_def reject_def is_action_def)
next
  case (Scp profile)
  then show ?thesis
    by (simp add: proto_route_action_from_runtime_def action_from_proto_def route_target_from_directive_def is_action_def)
next
  case (ProxyPassTo host port tls sni)
  then obtain u where "proto_upstream_of_target t = Some u" by (simp add: proto_upstream_of_target_def)
  then show ?thesis using ProxyPassTo assms upstream_back [of upstreams t ul g u]
    by (fastforce simp: proto_route_action_from_runtime_def action_from_proto_def route_target_from_directive_def
        is_action_def ok_or_def)
next
  case (UpstreamGroup name tls)
  then obtain u where "proto_upstream_of_target t = Some u" by (simp add: proto_upstream_of_target_def)
  then show ?thesis using UpstreamGroup assms upstream_back [of upstreams t ul g u]
    by (fastforce simp: proto_route_action_from_runtime_def action_from_proto_def route_target_from_directive_def
        is_action_def ok_or_def)
qed

section \<open>Directives\<close>

definition http2_message :: "upstream_http2_options \<Rightarrow> proto_upstream_http2" where
  "http2_message h =
     \<lparr>puh_max_concurrent_streams = uh2_max_concurrent_streams h, puh_stream_window_size = uh2_stream_window_size h,
      puh_connection_window_size = uh2_connection_window_size h\<rparr>"

definition limits_part :: "client_limits \<Rightarrow> location_directive list" where
  "limits_part l =
     directive_if ClientMaxBodySize (cl_max_body_size l) @ directive_if ClientBodyTimeout (cl_body_timeout l) @
     directive_if SendTimeout (cl_send_timeout l) @
     (if cl_allowed_methods l = [] then [] else [AllowMethods (cl_allowed_methods l)])"

text \<open>The directives a route is read back to, with its action in the middle.\<close>

definition route_directives :: "compiled_location \<Rightarrow> location_directive \<Rightarrow> location_directive list" where
  "route_directives c action =
     timeout_directives (Some (proto_timeouts_from_runtime (co_upstream_timeouts c))) @
     tls_directives (Some (co_upstream_ssl_options c)) @ directive_if ProxyUpstreamProtocol (co_upstream_protocol c) @
     http2_directives (Some (http2_message (co_upstream_http2 c))) @ [action] @
     directive_if LdUrlRewrite (co_url_rewrite c) @ limits_part (co_client_limits c)"

lemma fold_if_skip: "(\<And>a. f s (K a) = Inr s) \<Longrightarrow> fold_res f s (directive_if K v) = Inr s"
  by (cases v) (simp_all add: directive_if_def)

lemmas part_defs = timeout_directives_def tls_directives_def http2_directives_def limits_part_def fold_res_append fold_if_skip

lemma timeout_frame:
  "fold_res timeout_directive t (tls_directives (Some ssl)) = Inr t"
  "fold_res timeout_directive t (directive_if ProxyUpstreamProtocol p) = Inr t"
  "fold_res timeout_directive t (http2_directives (Some h)) = Inr t"
  "fold_res timeout_directive t (directive_if LdUrlRewrite rw) = Inr t"
  "fold_res timeout_directive t (limits_part l) = Inr t"
  by (simp_all add: part_defs timeout_directive_def)

lemma ssl_frame:
  "fold_res ssl_directive s (timeout_directives (Some t)) = Inr s"
  "fold_res ssl_directive s (directive_if ProxyUpstreamProtocol p) = Inr s"
  "fold_res ssl_directive s (http2_directives (Some h)) = Inr s"
  "fold_res ssl_directive s (directive_if LdUrlRewrite rw) = Inr s"
  "fold_res ssl_directive s (limits_part l) = Inr s"
  by (simp_all add: part_defs ssl_directive_def)

lemma protocol_frame:
  "fold_res protocol_directive p (timeout_directives (Some t)) = Inr p"
  "fold_res protocol_directive p (tls_directives (Some ssl)) = Inr p"
  "fold_res protocol_directive p (http2_directives (Some h)) = Inr p"
  "fold_res protocol_directive p (directive_if LdUrlRewrite rw) = Inr p"
  "fold_res protocol_directive p (limits_part l) = Inr p"
  by (simp_all add: part_defs protocol_directive_def)

lemma http2_frame:
  "fold_res http2_directive h (timeout_directives (Some t)) = Inr h"
  "fold_res http2_directive h (tls_directives (Some ssl)) = Inr h"
  "fold_res http2_directive h (directive_if ProxyUpstreamProtocol p) = Inr h"
  "fold_res http2_directive h (directive_if LdUrlRewrite rw) = Inr h"
  "fold_res http2_directive h (limits_part l) = Inr h"
  by (simp_all add: part_defs http2_directive_def)

lemma limit_frame:
  "fold_res (limit_directive x) st (timeout_directives (Some t)) = Inr st"
  "fold_res (limit_directive x) st (tls_directives (Some ssl)) = Inr st"
  "fold_res (limit_directive x) st (directive_if ProxyUpstreamProtocol p) = Inr st"
  "fold_res (limit_directive x) st (http2_directives (Some h)) = Inr st"
  "fold_res (limit_directive x) st (directive_if LdUrlRewrite rw) = Inr st"
  by (simp_all add: part_defs limit_directive_def split: prod.splits)

lemma rewrite_frame:
  "fold_res (rewrite_directive x target m) acc (timeout_directives (Some t)) = Inr acc"
  "fold_res (rewrite_directive x target m) acc (tls_directives (Some ssl)) = Inr acc"
  "fold_res (rewrite_directive x target m) acc (directive_if ProxyUpstreamProtocol p) = Inr acc"
  "fold_res (rewrite_directive x target m) acc (http2_directives (Some h)) = Inr acc"
  "fold_res (rewrite_directive x target m) acc (limits_part l) = Inr acc"
  by (simp_all add: part_defs rewrite_directive_def)

lemma count_frame:
  "fold_res count_action n (timeout_directives (Some t)) = Inr n"
  "fold_res count_action n (tls_directives (Some ssl)) = Inr n"
  "fold_res count_action n (directive_if ProxyUpstreamProtocol p) = Inr n"
  "fold_res count_action n (http2_directives (Some h)) = Inr n"
  "fold_res count_action n (directive_if LdUrlRewrite rw) = Inr n"
  "fold_res count_action n (limits_part l) = Inr n"
  by (simp_all add: part_defs count_action_def)

lemma action_frame:
  assumes "is_action d"
  shows "timeout_directive t d = Inr t" "ssl_directive s d = Inr s" "protocol_directive p d = Inr p"
    "http2_directive h d = Inr h" "limit_directive x st d = Inr st" "rewrite_directive x target m rw d = Inr rw"
    "count_action n d = Inr (n + 1)"
  using assms
  by (cases d; simp add: is_action_def timeout_directive_def ssl_directive_def protocol_directive_def http2_directive_def
      limit_directive_def rewrite_directive_def count_action_def split: prod.splits)+

definition timeouts_carried :: "upstream_timeouts \<Rightarrow> bool" where
  "timeouts_carried t \<longleftrightarrow> carried_option (ut_connect t) \<and> carried_option (ut_read t) \<and> carried_option (ut_write t)"

lemma timeouts_refold:
  assumes "is_action d" and "timeouts_carried (co_upstream_timeouts c)"
  shows "fold_res timeout_directive upstream_timeouts_default (route_directives c d) = Inr (co_upstream_timeouts c)"
proof -
  have "fold_res timeout_directive upstream_timeouts_default
      (timeout_directives (Some (proto_timeouts_from_runtime (co_upstream_timeouts c)))) = Inr (co_upstream_timeouts c)"
    using assms(2)
    by (cases "ut_connect (co_upstream_timeouts c)"; cases "ut_read (co_upstream_timeouts c)";
        cases "ut_write (co_upstream_timeouts c)")
      (simp_all add: timeouts_carried_def timeout_directives_def proto_timeouts_from_runtime_def duration_back
        directive_if_def timeout_directive_def set_once_def reject_def upstream_timeouts_default_def)
  then show ?thesis using assms(1) by (simp add: route_directives_def fold_res_append timeout_frame action_frame)
qed

lemma ssl_refold:
  assumes "is_action d"
  shows "fold_res ssl_directive upstream_ssl_default (route_directives c d) = Inr (co_upstream_ssl_options c)"
proof -
  have "fold_res ssl_directive upstream_ssl_default (tls_directives (Some s)) = Inr s" for s
    by (cases "us_trusted_certificate s"; cases "us_client_certificate s"; cases "us_client_certificate_key s")
      (simp_all add: tls_directives_def directive_if_def ssl_directive_def set_once_def reject_def upstream_ssl_default_def)
  then show ?thesis using assms by (simp add: route_directives_def fold_res_append ssl_frame action_frame)
qed

lemma protocol_refold:
  assumes "is_action d"
  shows "fold_res protocol_directive None (route_directives c d) = Inr (co_upstream_protocol c)"
proof -
  have "fold_res protocol_directive None (directive_if ProxyUpstreamProtocol p) = Inr p" for p
    by (cases p) (simp_all add: directive_if_def protocol_directive_def set_once_def reject_def)
  then show ?thesis using assms by (simp add: route_directives_def fold_res_append protocol_frame action_frame)
qed

lemma http2_refold:
  assumes "is_action d"
  shows "fold_res http2_directive upstream_http2_default (route_directives c d) = Inr (co_upstream_http2 c)"
proof -
  have "fold_res http2_directive upstream_http2_default (http2_directives (Some (http2_message h))) = Inr h" for h
    by (cases "uh2_max_concurrent_streams h"; cases "uh2_stream_window_size h"; cases "uh2_connection_window_size h")
      (simp_all add: http2_directives_def http2_message_def directive_if_def http2_directive_def set_once_def reject_def
        upstream_http2_default_def)
  then show ?thesis using assms by (simp add: route_directives_def fold_res_append http2_frame action_frame)
qed

lemma count_refold: "is_action d \<Longrightarrow> fold_res count_action 0 (route_directives c d) = Inr 1"
  by (simp add: route_directives_def fold_res_append count_frame action_frame)


text \<open>What the compiler establishes of the other parts of a location.\<close>

definition rewrite_compiled :: "externals \<Rightarrow> compiled_location \<Rightarrow> bool" where
  "rewrite_compiled x c =
     (case co_url_rewrite c of
        None \<Rightarrow> True
      | Some rw \<Rightarrow> is_upstream_target (co_target c) \<and> optional_hostname (ur_hostname rw) = Inr () \<and>
          validate_modifier x (ur_path rw) (co_matcher c) = Inr ())"

lemma rewrite_refold:
  assumes "is_action d" and "rewrite_compiled x c"
  shows "fold_res (rewrite_directive x (co_target c) (co_matcher c)) None (route_directives c d) = Inr (co_url_rewrite c)"
proof -
  have "fold_res (rewrite_directive x (co_target c) (co_matcher c)) None (directive_if LdUrlRewrite (co_url_rewrite c)) =
      Inr (co_url_rewrite c)"
    using assms(2) by (cases "co_url_rewrite c") (simp_all add: rewrite_compiled_def directive_if_def rewrite_directive_def reject_def)
  then show ?thesis using assms(1) by (simp add: route_directives_def fold_res_append rewrite_frame action_frame)
qed

definition limits_compiled :: "externals \<Rightarrow> client_limits \<Rightarrow> bool" where
  "limits_compiled x l \<longleftrightarrow>
     distinct (cl_allowed_methods l) \<and> list_all (ext_method_ok x) (cl_allowed_methods l) \<and>
     validate_client_timeout (cl_body_timeout l) = Inr () \<and> validate_client_timeout (cl_send_timeout l) = Inr ()"

lemma methods_refold:
  "distinct (seen @ ms) \<Longrightarrow> list_all (ext_method_ok x) ms \<Longrightarrow> fold_res (add_method x) seen ms = Inr (seen @ ms)"
  by (induction ms arbitrary: seen) (auto simp: add_method_def reject_def)

lemma limits_refold:
  assumes "is_action d" and "limits_compiled x (co_client_limits c)"
  shows "fold_res (limit_directive x) (client_limits_default, False) (route_directives c d) =
    Inr (co_client_limits c, cl_allowed_methods (co_client_limits c) \<noteq> [])"
proof -
  have "fold_res (limit_directive x) (client_limits_default, False) (limits_part l) = Inr (l, cl_allowed_methods l \<noteq> [])"
    if "limits_compiled x l" for l
    using that methods_refold [of "[]" "cl_allowed_methods l" x]
    by (cases "cl_max_body_size l"; cases "cl_body_timeout l"; cases "cl_send_timeout l"; cases "cl_allowed_methods l = []")
      (simp_all add: limits_compiled_def limits_part_def directive_if_def limit_directive_def client_limits_default_def
        set_once_def reject_def)
  then show ?thesis using assms by (simp add: route_directives_def fold_res_append limit_frame action_frame)
qed

lemma target_skip:
  "(\<And>a. route_target_from_directive ul ups (K a) = Inr None) \<Longrightarrow>
   location_route_target ul ups (directive_if K v @ ds) = location_route_target ul ups ds"
  by (cases v) (simp_all add: directive_if_def)

lemma target_refold:
  assumes "route_target_from_directive ul ups d = Inr (Some t)"
  shows "location_route_target ul ups (route_directives c d) = Inr (Some t)"
proof -
  have skip: "route_target_from_directive ul ups (ProxyConnectTimeout a) = Inr None"
    "route_target_from_directive ul ups (ProxyReadTimeout a) = Inr None"
    "route_target_from_directive ul ups (ProxyWriteTimeout a) = Inr None"
    "route_target_from_directive ul ups (ProxySslVerify v) = Inr None"
    "route_target_from_directive ul ups (ProxySslTrustedCertificate pem) = Inr None"
    "route_target_from_directive ul ups (ProxySslCertificate pem) = Inr None"
    "route_target_from_directive ul ups (ProxySslCertificateKey pem) = Inr None"
    "route_target_from_directive ul ups (ProxyUpstreamProtocol p) = Inr None"
    "route_target_from_directive ul ups (ProxyHttp2MaxConcurrentStreams n) = Inr None"
    "route_target_from_directive ul ups (ProxyHttp2StreamWindowSize n) = Inr None"
    "route_target_from_directive ul ups (ProxyHttp2ConnectionWindowSize n) = Inr None" for a v pem p n
    by (simp_all add: route_target_from_directive_def)
  show ?thesis
    using assms
    by (simp add: route_directives_def timeout_directives_def tls_directives_def http2_directives_def target_skip skip)
qed

section \<open>Routes\<close>

text \<open>What a message can carry of a compiled location.\<close>

definition route_carried :: "url_lib \<Rightarrow> grpc_lib \<Rightarrow> (string, compiled_upstream_group) hmap \<Rightarrow> compiled_location \<Rightarrow> bool" where
  "route_carried ul g ups c \<longleftrightarrow>
     target_carried ul g ups (co_target c) \<and> timeouts_carried (co_upstream_timeouts c) \<and>
     list_all (rule_carried g) (co_access_rules c) \<and> list_all (plugin_carried g) (co_plugins c) \<and>
     (case co_cache c of None \<Rightarrow> True | Some cache \<Rightarrow> cache_carried cache)"

text \<open>What the compiler establishes of a location.\<close>

definition location_compiled :: "externals \<Rightarrow> (string, compiled_upstream_group) hmap \<Rightarrow> compiled_location \<Rightarrow> bool" where
  "location_compiled x ups c \<longleftrightarrow>
     target_compiled ups (co_target c) \<and> validate_target x (co_target c) (co_matcher c) = Inr () \<and>
     (\<exists>lm. compiled_matcher_of x lm = Inr (co_matcher c)) \<and>
     rewrite_compiled x c \<and> limits_compiled x (co_client_limits c) \<and> ssl_paired (co_upstream_ssl_options c) \<and>
     upstream_http2_validate (co_upstream_http2 c) = Inr () \<and>
     (case co_upstream_protocol c of None \<Rightarrow> True | Some p \<Rightarrow> protocol_for_target p (co_target c) = Inr (Some p)) \<and>
     (case co_target c of Scp _ \<Rightarrow> co_cache c = None | _ \<Rightarrow> True)"

lemma route_decoded:
  assumes laws: "http_lib_laws x" and compiled: "location_compiled x ups c" and carried: "route_carried ul g ups c"
  obtains r lm d where "proto_route_from_runtime g c = Inr r"
    "location_from_proto_route g r =
       Inr \<lparr>lo_matcher = lm, lo_access_rules = co_access_rules c, lo_directives = route_directives c d,
            lo_plugins = co_plugins c, lo_cache = co_cache c\<rparr>"
    "compiled_matcher_of x lm = Inr (co_matcher c)"
    "route_target_from_directive ul ups d = Inr (Some (co_target c))" "is_action d"
proof -
  obtain a d where a: "proto_route_action_from_runtime (co_target c) = Inr a" "action_from_proto g a = Inr d"
    "route_target_from_directive ul ups d = Inr (Some (co_target c))" "is_action d"
    using action_back compiled carried unfolding location_compiled_def route_carried_def by blast
  obtain lm where lm: "matcher_from_proto (Some (proto_match_from_runtime (co_matcher c))) = Inr lm"
    "compiled_matcher_of x lm = Inr (co_matcher c)"
    using matcher_back laws compiled unfolding location_compiled_def by blast
  obtain ps where ps: "map_res (proto_plugin_from_runtime g) (co_plugins c) = Inr ps"
    "map_res (plugin_spec_from_proto g) ps = Inr (co_plugins c)"
    using plugins_back carried unfolding route_carried_def by blast
  have tls: "upstream_tls_options_from_proto (Some (proto_upstream_tls_options_from_runtime (co_upstream_ssl_options c))) =
      Inr (Some (co_upstream_ssl_options c))"
    and cache: "route_cache_from_proto (map_option proto_route_cache_from_runtime (co_cache c)) = Inr (co_cache c)"
    and rules: "map_res (access_from_proto g) (map (access_to_proto g) (co_access_rules c)) = Inr (co_access_rules c)"
    using compiled carried by (simp_all add: location_compiled_def route_carried_def upstream_tls_back route_cache_back rules_back)
  have limits: "map_option (\<lambda>v. from_millis v) (map_option (\<lambda>d. as_u64 (as_millis d)) v) = v"
    if "v = cl_body_timeout (co_client_limits c) \<or> v = cl_send_timeout (co_client_limits c)" for v
    using that compiled client_timeout_back unfolding location_compiled_def limits_compiled_def by blast
  have part: "directive_if (\<lambda>v. K (from_millis v)) w = directive_if K (map_option from_millis w)" for K w
    by (cases w) (simp_all add: directive_if_def)
  have "and_then (proto_route_from_runtime g c) (location_from_proto_route g) =
      Inr \<lparr>lo_matcher = lm, lo_access_rules = co_access_rules c, lo_directives = route_directives c d,
           lo_plugins = co_plugins c, lo_cache = co_cache c\<rparr>"
    unfolding proto_route_from_runtime_def a(1) ps(1) and_then.simps location_from_proto_route_def
    by (simp add: a(2) lm tls protocol_back ok_or_def rewrite_back rules ps cache route_directives_def limit_directives_def
        limits_part_def part limits http2_message_def del: option.map_comp)
  with a lm show thesis unfolding and_then_Inr_iff using that by blast
qed

lemma route_again:
  assumes "http_lib_laws x" and compiled: "location_compiled x ups c" and "route_carried ul g ups c"
  shows "and_then (proto_route_from_runtime g c) (\<lambda>r. and_then (location_from_proto_route g r) (\<lambda>l.
    compile_location x ul ups l n)) = Inr (Some (c\<lparr>co_route_id := n\<rparr>), n + 1)"
proof -
  obtain r lm d where r: "proto_route_from_runtime g c = Inr r"
    and l: "location_from_proto_route g r =
       Inr \<lparr>lo_matcher = lm, lo_access_rules = co_access_rules c, lo_directives = route_directives c d,
            lo_plugins = co_plugins c, lo_cache = co_cache c\<rparr>"
    and lm: "compiled_matcher_of x lm = Inr (co_matcher c)"
    and d: "route_target_from_directive ul ups d = Inr (Some (co_target c))" "is_action d"
    using assms by (rule route_decoded)
  obtain b where limits: "fold_res (limit_directive x) (client_limits_default, False) (route_directives c d) =
      Inr (co_client_limits c, b)"
    using limits_refold d(2) compiled unfolding location_compiled_def by blast
  have protocol: "compile_upstream_protocol \<lparr>lo_matcher = lm, lo_access_rules = co_access_rules c,
      lo_directives = route_directives c d, lo_plugins = co_plugins c, lo_cache = co_cache c\<rparr> (co_target c) =
      Inr (co_upstream_protocol c)"
    using compiled d(2) by (auto simp: compile_upstream_protocol_def protocol_refold location_compiled_def split: option.splits)
  have scp: "reject ((case co_target c of Scp _ \<Rightarrow> True | _ \<Rightarrow> False) \<and> co_cache c \<noteq> None) e = Inr ()" for e :: string
    using compiled by (auto simp: location_compiled_def res_simps split: route_target.splits)
  have pair: "reject (us_client_certificate (co_upstream_ssl_options c) \<noteq> None \<and>
        us_client_certificate_key (co_upstream_ssl_options c) = None) e = Inr ()"
      "reject (us_client_certificate (co_upstream_ssl_options c) = None \<and>
        us_client_certificate_key (co_upstream_ssl_options c) \<noteq> None) e = Inr ()" for e :: string
    using compiled by (auto simp: location_compiled_def ssl_paired_def res_simps)
  have rewrite: "fold_res (rewrite_directive x (co_target c) (co_matcher c)) None (route_directives c d) = Inr (co_url_rewrite c)"
    and timeouts: "fold_res timeout_directive upstream_timeouts_default (route_directives c d) = Inr (co_upstream_timeouts c)"
    using compiled assms(3) d(2) by (simp_all add: rewrite_refold timeouts_refold location_compiled_def route_carried_def)
  have valid: "validate_target x (co_target c) (co_matcher c) = Inr ()" "limits_compiled x (co_client_limits c)"
    "upstream_http2_validate (co_upstream_http2 c) = Inr ()"
    using compiled by (simp_all add: location_compiled_def)
  show ?thesis
    using valid(2) unfolding r l and_then.simps compile_location_def location.select_convs count_refold [OF d(2)]
      target_refold [OF d(1)] option.case compile_targeted_location_def protocol scp lm rewrite valid(1)
      compile_client_limits_def limits compile_upstream_timeouts_def timeouts compile_upstream_http2_def http2_refold [OF d(2)]
      compile_upstream_ssl_options_def ssl_refold [OF d(2)] pair valid(3)
    by (simp add: reject_def limits_compiled_def)
qed


lemma rewrite_established:
  assumes "fold_res (rewrite_directive x target m) None ds = Inr rw"
  shows "case rw of None \<Rightarrow> True | Some r \<Rightarrow> is_upstream_target target \<and> optional_hostname (ur_hostname r) = Inr () \<and>
    validate_modifier x (ur_path r) m = Inr ()"
  using assms
  by (rule fold_res_invariant) (auto simp: rewrite_directive_def res_simps split: location_directive.splits)

lemma methods_established:
  assumes "fold_res (add_method x) seen ms = Inr out" and "distinct seen \<and> list_all (ext_method_ok x) seen"
  shows "distinct out \<and> list_all (ext_method_ok x) out"
  using assms by (rule fold_res_invariant) (auto simp: add_method_def res_simps)

lemma limit_directive_methods:
  assumes "limit_directive x st d = Inr st'"
    and "distinct (cl_allowed_methods (fst st)) \<and> list_all (ext_method_ok x) (cl_allowed_methods (fst st))"
  shows "distinct (cl_allowed_methods (fst st')) \<and> list_all (ext_method_ok x) (cl_allowed_methods (fst st'))"
  using assms methods_established
  by (cases d; cases st) (fastforce simp: limit_directive_def res_simps)+

lemma limits_established:
  assumes "compile_client_limits x l = Inr limits"
  shows "limits_compiled x limits"
proof -
  from assms obtain st where st: "fold_res (limit_directive x) (client_limits_default, False) (lo_directives l) = Inr st"
    and rest: "limits = fst st" "validate_client_timeout (cl_body_timeout limits) = Inr ()"
      "validate_client_timeout (cl_send_timeout limits) = Inr ()"
    by (auto simp: compile_client_limits_def res_simps)
  have "distinct (cl_allowed_methods (fst st)) \<and> list_all (ext_method_ok x) (cl_allowed_methods (fst st))"
    using st by (rule fold_res_invariant) (auto simp: client_limits_default_def dest: limit_directive_methods)
  with rest show ?thesis by (simp add: limits_compiled_def)
qed

lemma protocol_for_target_kept: "protocol_for_target p t = Inr (Some q) \<Longrightarrow> q = p"
  by (cases t) (auto simp: res_simps)

lemma protocol_established:
  assumes "compile_upstream_protocol l target = Inr protocol"
  shows "case protocol of None \<Rightarrow> True | Some p \<Rightarrow> protocol_for_target p target = Inr (Some p)"
  using assms protocol_for_target_kept
  by (fastforce simp: compile_upstream_protocol_def res_simps split: option.splits)

lemma location_established:
  assumes names: "names_ok ups" and "compile_location x ul ups l n = Inr (Some c, n')"
  shows "location_compiled x ups c" and "compiled_matcher_of x (lo_matcher l) = Inr (co_matcher c)"
proof -
  from assms(2) obtain target where t: "location_route_target ul ups (lo_directives l) = Inr (Some target)"
    and c: "compile_targeted_location x l target n = Inr (c, n')"
    by (rule compile_location_Some)
  from c have parts: "co_target c = target" "validate_target x target (co_matcher c) = Inr ()"
    "fold_res (rewrite_directive x target (co_matcher c)) None (lo_directives l) = Inr (co_url_rewrite c)"
    using compile_targeted_location_parts by blast+
  from c have more: "compiled_matcher_of x (lo_matcher l) = Inr (co_matcher c)"
    "compile_client_limits x l = Inr (co_client_limits c)" "compile_upstream_http2 l = Inr (co_upstream_http2 c)"
    "compile_upstream_protocol l target = Inr (co_upstream_protocol c)"
    "compile_upstream_ssl_options l = Inr (co_upstream_ssl_options c)"
    "\<not> ((case target of Scp _ \<Rightarrow> True | _ \<Rightarrow> False) \<and> co_cache c \<noteq> None)"
    by (auto simp: compile_targeted_location_def res_simps)
  have "ssl_paired (co_upstream_ssl_options c)" "upstream_http2_validate (co_upstream_http2 c) = Inr ()"
    using more(3,5) by (auto simp: compile_upstream_ssl_options_def compile_upstream_http2_def ssl_paired_def res_simps)
  moreover have "case target of Scp _ \<Rightarrow> co_cache c = None | _ \<Rightarrow> True"
    using more(6) by (cases target) simp_all
  ultimately show "location_compiled x ups c"
    using location_target_compiled [OF names t] parts more rewrite_established [OF parts(3)] limits_established [OF more(2)]
      protocol_established [OF more(4)]
    unfolding location_compiled_def rewrite_compiled_def by auto
  show "compiled_matcher_of x (lo_matcher l) = Inr (co_matcher c)" by (rule more(1))
qed

section \<open>The routes of a virtual host\<close>

text \<open>The same locations under consecutive route numbers.\<close>

fun renumbered :: "nat \<Rightarrow> compiled_location list \<Rightarrow> compiled_location list" where
  "renumbered n [] = []"
| "renumbered n (c # cs) = c\<lparr>co_route_id := n\<rparr> # renumbered (n + 1) cs"

definition http_matched :: "compiled_matcher \<Rightarrow> bool" where
  "http_matched m = (case m of CmHttp _ \<Rightarrow> True | _ \<Rightarrow> False)"

lemma http_matcher_kept:
  "compiled_matcher_of x lm = Inr m \<Longrightarrow> http_matched m \<longleftrightarrow> (case lm of LmHttp _ \<Rightarrow> True | _ \<Rightarrow> False)"
  by (cases lm) (auto simp: http_matched_def compiled_regex_new_def res_simps split: if_splits)

lemma routes_again:
  assumes laws: "http_lib_laws x" and "list_all (location_compiled x ups) cs" and "list_all (route_carried ul g ups) cs"
  shows "\<exists>rs ls. map_res (proto_route_from_runtime g) cs = Inr rs \<and> map_res (location_from_proto_route g) rs = Inr ls \<and>
    compile_location_list x ul ups ls n = Inr (renumbered n cs, n + length cs) \<and>
    map is_http_location ls = map (\<lambda>c. http_matched (co_matcher c)) cs"
  using assms(2,3)
proof (induction cs arbitrary: n)
  case (Cons c cs)
  then have c: "location_compiled x ups c" "route_carried ul g ups c"
    and tail: "list_all (location_compiled x ups) cs" "list_all (route_carried ul g ups) cs" by simp_all
  obtain r lm d where r: "proto_route_from_runtime g c = Inr r" "location_from_proto_route g r =
       Inr \<lparr>lo_matcher = lm, lo_access_rules = co_access_rules c, lo_directives = route_directives c d,
            lo_plugins = co_plugins c, lo_cache = co_cache c\<rparr>" (is "_ = Inr ?l")
    "compiled_matcher_of x lm = Inr (co_matcher c)"
    using laws c by (rule route_decoded)
  have l: "compile_location x ul ups ?l n = Inr (Some (c\<lparr>co_route_id := n\<rparr>), n + 1)"
    using route_again [OF laws c, of n] unfolding r and_then.simps .
  have http: "is_http_location ?l = http_matched (co_matcher c)"
    using http_matcher_kept [OF r(3)] by (simp add: is_http_location_def)
  from Cons.IH [OF tail, of "n + 1"] obtain rs ls where rest: "map_res (proto_route_from_runtime g) cs = Inr rs"
    "map_res (location_from_proto_route g) rs = Inr ls"
    "compile_location_list x ul ups ls (n + 1) = Inr (renumbered (n + 1) cs, n + 1 + length cs)"
    "map is_http_location ls = map (\<lambda>c. http_matched (co_matcher c)) cs"
    by blast
  show ?case
    by (intro exI [of _ "r # rs"] exI [of _ "?l # ls"]) (simp add: r(1,2) rest rest(3) [simplified] l [simplified] http)
qed simp

lemma filter_all_none:
  "length (filter P ls) = 0 \<or> length (filter P ls) = length ls \<longleftrightarrow> True \<notin> set (map P ls) \<or> False \<notin> set (map P ls)"
proof -
  have "length (filter P ls) = length ls \<longleftrightarrow> (\<forall>l \<in> set ls. P l)"
    by (metis filter_True length_filter_less less_irrefl)
  then show ?thesis by (auto simp: filter_empty_conv)
qed

lemma matchers_not_mixed:
  assumes names: "names_ok ups" and list: "compile_location_list x ul ups ls m = Inr (cs, m')"
    and "True \<notin> set (map is_http_location ls) \<or> False \<notin> set (map is_http_location ls)"
  shows "True \<notin> set (map (\<lambda>c. http_matched (co_matcher c)) cs) \<or>
    False \<notin> set (map (\<lambda>c. http_matched (co_matcher c)) cs)"
proof -
  have "\<exists>l \<in> set ls. is_http_location l = http_matched (co_matcher c)" if "c \<in> set cs" for c
    using compile_location_list_mem [OF list that] location_established(2) [OF names] http_matcher_kept
    unfolding is_http_location_def by metis
  then have "set (map (\<lambda>c. http_matched (co_matcher c)) cs) \<subseteq> set (map is_http_location ls)" by fastforce
  with assms(3) show ?thesis by blast
qed

text \<open>
  C11. Reading the active snapshot and applying it again keeps the routes of a virtual host: the routes written
  into a message, read back and compiled against the same upstream groups are the same routes in the same order,
  with matchers, access rules, targets, timeouts, TLS and HTTP/2 settings, rewrites, limits, plugins and caches,
  under the next free numbers. It holds for what a message can carry (\<open>route_carried\<close>) and for an \<^verbatim>\<open>http\<close>
  library that accepts its own normal forms.
\<close>

theorem routes_preserved:
  assumes "http_lib_laws x" and "compile_upstreams x ul blocks = Inr ups"
    and "compile_locations x ul ups ls m = Inr (cs, m')" and "list_all (route_carried ul g ups) cs"
  shows "and_then (proto_routes_from_runtime g \<lparr>sr_locations = cs\<rparr>) (\<lambda>rs.
    and_then (map_res (location_from_proto_route g) rs) (\<lambda>again.
    compile_locations x ul ups again n)) = Inr (renumbered n cs, n + length cs)"
proof -
  have names: "names_ok ups" using assms(2) by (rule compile_upstreams_names)
  from assms(3) have list: "compile_location_list x ul ups ls m = Inr (cs, m')"
    and "length (filter is_http_location ls) = 0 \<or> length (filter is_http_location ls) = length ls"
    by (auto simp: compile_locations_def res_simps)
  then have unmixed: "True \<notin> set (map (\<lambda>c. http_matched (co_matcher c)) cs) \<or>
      False \<notin> set (map (\<lambda>c. http_matched (co_matcher c)) cs)"
    using matchers_not_mixed [OF names] unfolding filter_all_none by blast
  have "list_all (location_compiled x ups) cs"
    using compile_location_list_mem [OF list] location_established(1) [OF names] unfolding list_all_iff by blast
  then obtain rs again where rs: "map_res (proto_route_from_runtime g) cs = Inr rs"
    "map_res (location_from_proto_route g) rs = Inr again"
    "compile_location_list x ul ups again n = Inr (renumbered n cs, n + length cs)"
    "map is_http_location again = map (\<lambda>c. http_matched (co_matcher c)) cs"
    using routes_again assms(1,4) by blast
  have "length (filter is_http_location again) = 0 \<or> length (filter is_http_location again) = length again"
    unfolding filter_all_none rs(4) by (rule unmixed)
  then have "compile_locations x ul ups again n = Inr (renumbered n cs, n + length cs)"
    unfolding compile_locations_def Let_def rs(3) by (auto simp: reject_def)
  with rs show ?thesis by (simp add: proto_routes_from_runtime_def)
qed

definition sample_grpc_lib :: grpc_lib where
  "sample_grpc_lib =
     \<lparr>gp_net = (\<lambda>s. Some (IpNet s)), gp_net_of_ip = (\<lambda>a. IpNet (show_ip a)),
      gp_show_net = (\<lambda>n. case n of IpNet s \<Rightarrow> s),
      gp_url = (\<lambda>s. Inr (Url (takeWhile (\<lambda>c. c \<noteq> CHR '':'') (drop 7 s)))),
      gp_show_url = (\<lambda>u. case u of Url s \<Rightarrow> s), gp_json = (\<lambda>s. Inr (Json s)),
      gp_show_json = (\<lambda>j. case j of Json s \<Rightarrow> Inr s), gp_json_null = Json ''null'', gp_header_name_ok = (\<lambda>_. True)\<rparr>"

definition sample_route :: location where
  "sample_route =
     \<lparr>lo_matcher = LmPrefix ''/'', lo_access_rules = [Allow (IpNet ''10.0.0.0/8''), DenyAll],
      lo_directives = [ProxyReadTimeout (from_millis 5), ProxyPass (PassUrl (Url ''back'')), AllowMethods [''GET'']],
      lo_plugins = [], lo_cache = None\<rparr>"

definition sample_compiled_route :: compiled_location where
  "sample_compiled_route = (plain_location 1 (CmPrefix ''/'') (ProxyPassTo ''back'' 80 False []))
     \<lparr>co_client_limits := client_limits_default\<lparr>cl_allowed_methods := [''GET'']\<rparr>,
      co_access_rules := [Allow (IpNet ''10.0.0.0/8''), DenyAll],
      co_upstream_timeouts := upstream_timeouts_default\<lparr>ut_read := Some (from_millis 5)\<rparr>\<rparr>"

lemma sample_route_compiled:
  "compile_locations plain_ext sample_url_lib [] [sample_route] 1 = Inr ([sample_compiled_route], 2)"
  by (simp add: compile_locations_def is_http_location_def sample_route_def sample_compiled_route_def sample_location_simps
      pass_target_def url_target_def upstream_group_from_url_def sample_url_lib_def proxy_pass_tls_def proxy_pass_sni_def
      set_once_def add_method_def plain_ext_def upstream_timeouts_default_def)

lemma sample_route_carried: "route_carried sample_url_lib sample_grpc_lib [] sample_compiled_route"
proof -
  have "trim ''back'' \<noteq> []" by code_simp
  moreover have "show_nat 80 = ''80''" by code_simp
  ultimately show ?thesis
    by (simp add: route_carried_def sample_compiled_route_def plain_location_def url_carried_def sample_grpc_lib_def
        sample_url_lib_def scheme_text_def upstream_group_from_url_def timeouts_carried_def carried_option_def carried_ms_def
        upstream_timeouts_default_def from_millis_def as_millis_def rule_carried_def network_of_def)
qed

lemma plain_ext_laws: "http_lib_laws plain_ext"
  by (simp add: http_lib_laws_def plain_ext_def to_ascii_lowercase_def)

theorem routes_preserved_witness:
  "compile_locations plain_ext sample_url_lib [] [sample_route] 1 = Inr ([sample_compiled_route], 2) \<and>
   and_then (proto_routes_from_runtime sample_grpc_lib \<lparr>sr_locations = [sample_compiled_route]\<rparr>) (\<lambda>rs.
     and_then (map_res (location_from_proto_route sample_grpc_lib) rs) (\<lambda>again.
     compile_locations plain_ext sample_url_lib [] again 1)) = Inr ([sample_compiled_route\<lparr>co_route_id := 1\<rparr>], 2)"
  using routes_preserved [OF plain_ext_laws _ sample_route_compiled, of "[]" sample_grpc_lib 1] sample_route_carried
    sample_route_compiled
  by (simp add: compile_upstreams_def)

end
