(* ===== verification/Spec2Isabelle.thy ===== *)
theory Spec2Isabelle
  imports Config_Include Proxy_Completion Compile_Listeners Lower_Http Background Grpc_Roundtrip
begin

text \<open>
  A verification development for \<^verbatim>\<open>ngxora\<close>, an HTTP reverse proxy built on Pingora with an nginx-like
  configuration language, plug-ins, a response cache, upstream groups discovered through a 3GPP NRF,
  a service communication proxy (SCP) and a control plane that replaces the configuration at run
  time. All source paths below are relative to \<^verbatim>\<open>src/\<close>; \<^verbatim>\<open>runtime\<close> stands for
  \<^verbatim>\<open>crates/ngxora-runtime/src\<close>.

  \<^bold>\<open>How the program works.\<close> A configuration text is scanned, parsed and its includes are resolved;
  it is transformed into an intermediate representation and compiled into a router. The control
  state builds a snapshot from a router (plug-in chains, TLS material, upstream groups, counters)
  and swaps it in. A request captures the current snapshot, is resolved to a location, authorised,
  answered locally or from the cache, or sent to an upstream that a group, a weighted route or the
  SCP selects; its response is filtered, collected and stored. The theories follow this order.

  \<^bold>\<open>Conventions.\<close> A string is the list of its UTF-8 bytes. A fallible function returns
  \<^typ>\<open>('e, 'a) result\<close>, and \<^const>\<open>and_then\<close> is the question mark operator. Unsigned integers are natural
  numbers with their bounds written out where the code adds, multiplies or converts: checked,
  saturating and wrapping operations are \<^const>\<open>checked_add\<close>, \<^const>\<open>sat_add64\<close> and \<^const>\<open>wrap_add64\<close>.
  Durations and instants are nanoseconds. A hash map is an association list, read through
  \<^const>\<open>hm_get\<close>; where the code iterates over one, statements hold for every order or a chooser is an
  argument. A mutex makes a section one step, and concurrency is the interleaving of such steps.
  Functions of libraries (regular expressions, URLs, header syntax, TLS, Pingora, the load balancer,
  JSON) are arguments: the record \<^typ>\<open>externals\<close> and one record of functions per library.

  \<^bold>\<open>Theories and what they model.\<close>
  \<^item> \<^verbatim>\<open>Prelude\<close>: results, strings, machine integers, hash maps, and the locales \<open>weighted_map\<close> (maps
    whose entries have a size that is accounted for) and \<open>invariant_of\<close> (a step relation with an
    invariant), with the lemmas that hold for every instance. \<^verbatim>\<open>Choice\<close>: choosing a best element,
    with the locale \<open>unique_score\<close>.
  \<^item> \<^verbatim>\<open>Config_Syntax\<close>, \<^verbatim>\<open>Config_Include\<close>: \<^verbatim>\<open>crates/ngxora-config\<close> (\<^verbatim>\<open>lexer.rs\<close>, \<^verbatim>\<open>ast.rs\<close>, \<^verbatim>\<open>parser.rs\<close>,
    \<^verbatim>\<open>include.rs\<close>).
  \<^item> \<^verbatim>\<open>Ir\<close>, \<^verbatim>\<open>Types\<close>: the intermediate representation (\<^verbatim>\<open>crates/ngxora-compile/src/ir.rs\<close>) and the
    compiled router (\<^verbatim>\<open>runtime/upstreams/types.rs\<close>).
  \<^item> \<^verbatim>\<open>Lower_Values\<close>, \<^verbatim>\<open>Lower_Plugins\<close>, \<^verbatim>\<open>Lower_Blocks\<close>, \<^verbatim>\<open>Lower\<close>: \<^verbatim>\<open>crates/ngxora-compile/src/transform.rs\<close>, all of
    \<^verbatim>\<open>transform/\<close>, and \<^verbatim>\<open>validate.rs\<close>: from the syntax tree to the intermediate representation, directive
    by directive, with the duplicates and the error messages. \<^verbatim>\<open>Lower_Safety\<close> shows that durations
    mean what their text says and that access rules are enforced in the order written;
    \<^verbatim>\<open>Lower_Http\<close> that the options of an accepted block are in the ranges the compiler asks for and
    that its TLS listeners are complete. The URL and network parsers and the JSON encoder are
    arguments.
  \<^item> \<^verbatim>\<open>Compile_Routes\<close>, \<^verbatim>\<open>Compile\<close>: \<^verbatim>\<open>runtime/upstreams/compile.rs\<close> and \<^verbatim>\<open>compile/\<close>, every branch of the
    compilation. \<^verbatim>\<open>Compile_Safety\<close> and \<^verbatim>\<open>Compile_Listeners\<close> show what a compiled router has: route
    numbers identify locations, no part is missing at run time, and server blocks that share a
    listener agree on it.
  \<^item> \<^verbatim>\<open>Http_Routes\<close>, \<^verbatim>\<open>Routing\<close>: \<^verbatim>\<open>runtime/upstreams/http_routes.rs\<close> and \<^verbatim>\<open>routing.rs\<close>: rule matching and
    its ranking, rewriting, redirects, virtual hosts, the nginx order of locations, and independence
    of the order of hash maps.
  \<^item> \<^verbatim>\<open>Client_Ip\<close>, \<^verbatim>\<open>Plugin_Api\<close>, \<^verbatim>\<open>Ext_Headers\<close>, \<^verbatim>\<open>Ext_Auth\<close>, \<^verbatim>\<open>Ext_Cors\<close>, \<^verbatim>\<open>Rate_Limit\<close>, \<^verbatim>\<open>Plugins\<close>:
    \<^verbatim>\<open>crates/ngxora-plugin-api\<close>, \<^verbatim>\<open>crates/ngxora-plugin-registry\<close> and \<^verbatim>\<open>crates/extensions/*\<close>: the client
    address behind trusted proxies, the hooks of every plug-in, its configuration, and the registry.
  \<^item> \<^verbatim>\<open>Topology\<close>, \<^verbatim>\<open>Upstream_Groups\<close>, \<^verbatim>\<open>Upstream_Tls\<close>: \<^verbatim>\<open>runtime/upstreams/runtime/groups.rs\<close>,
    \<^verbatim>\<open>groups/topology.rs\<close>, \<^verbatim>\<open>groups/discovery.rs\<close> and \<^verbatim>\<open>tls.rs\<close>: priority tiers and capacities, the NRF
    refresh with bounded staleness, and verified TLS to upstreams.
  \<^item> \<^verbatim>\<open>Control\<close>: \<^verbatim>\<open>runtime/control.rs\<close>: building snapshots and applying them, as a step relation.
  \<^item> \<^verbatim>\<open>Cache\<close>: \<^verbatim>\<open>runtime/cache.rs\<close>: the accounting of a location's cache, generations, and the rules
    for what may be cached, under every interleaving of the locked operations.
  \<^item> \<^verbatim>\<open>Scp_Request\<close>, \<^verbatim>\<open>Scp\<close>: \<^verbatim>\<open>runtime/upstreams/scp.rs\<close> and \<^verbatim>\<open>scp/request.rs\<close>.
  \<^item> \<^verbatim>\<open>Nrf\<close>, \<^verbatim>\<open>Background\<close>: the NRF client (\<^verbatim>\<open>runtime/upstreams/nrf.rs\<close>), whose endpoints are shown to
    come from registered services that fit, the health probes (\<^verbatim>\<open>health.rs\<close>), and the rounds of the
    background services of \<^verbatim>\<open>control.rs\<close>, which never oversleep.
  \<^item> \<^verbatim>\<open>Grpc_Proto\<close>, \<^verbatim>\<open>Grpc_Values\<close>, \<^verbatim>\<open>Grpc_Decode\<close>, \<^verbatim>\<open>Grpc_Encode\<close>: the messages of \<^verbatim>\<open>proto/control.proto\<close> as
    records, their conversions (\<^verbatim>\<open>runtime/grpc/\<close>: \<^verbatim>\<open>values.rs\<close>, \<^verbatim>\<open>tls.rs\<close>, \<^verbatim>\<open>http_routes.rs\<close>, \<^verbatim>\<open>client_policy.rs\<close>,
    \<^verbatim>\<open>decode.rs\<close>, \<^verbatim>\<open>encode.rs\<close>) and the two calls of the service (\<^verbatim>\<open>grpc.rs\<close>). \<^verbatim>\<open>Grpc_Roundtrip\<close> shows that routes
    survive being read and applied again, and names what a message cannot carry.
  \<^item> \<^verbatim>\<open>Geoip\<close>: \<^verbatim>\<open>runtime/geoip.rs\<close>.
  \<^item> \<^verbatim>\<open>Selection\<close>, \<^verbatim>\<open>Proxy_State\<close>, \<^verbatim>\<open>Proxy\<close>: \<^verbatim>\<open>runtime/upstreams/runtime.rs\<close>, \<^verbatim>\<open>runtime/selection.rs\<close>,
    \<^verbatim>\<open>limits.rs\<close>, \<^verbatim>\<open>response.rs\<close>, \<^verbatim>\<open>proxy.rs\<close> and \<^verbatim>\<open>completion.rs\<close>. A handler is a function from the world
    (downstream session with the log of calls made on it, request context, proxy) to a result and
    the world it leaves. \<^verbatim>\<open>Proxy_Safety\<close> shows that nothing reaches an upstream or is answered from
    the cache without authorisation, \<^verbatim>\<open>Proxy_Completion\<close> what is stored, served stale and sent
    upstream.

  \<^bold>\<open>Bounds and fuel.\<close> The parser runs on fuel, two units per token and one more: one for a round of
  the loop and one for the statement it parses, and parsing is shown never to exhaust it. The scanner, the eviction
  loops and the selection of weighted backends recur with a measure. Include resolution is bounded
  by the depth the code itself checks. Nothing else needs a bound.

  \<^bold>\<open>Not modelled.\<close>
  \<^item> The transport of the gRPC service (\<^verbatim>\<open>grpc/transport.rs\<close>, \<^verbatim>\<open>grpc/uds.rs\<close>): sockets, their files and
    permissions, and the threads around them.
  \<^item> Listener set-up, ACME, metrics, tracing, the admin endpoint and the command line
    (\<^verbatim>\<open>server.rs\<close>, \<^verbatim>\<open>le.rs\<close>, \<^verbatim>\<open>metrics.rs\<close>, \<^verbatim>\<open>tracing.rs\<close>, \<^verbatim>\<open>admin.rs\<close>, \<^verbatim>\<open>crates/ngxora-cli\<close>): effects on
    sockets, files, processes and registries of other libraries.
  \<^item> Log lines, metrics and spans inside modelled functions.
\<close>

end
